(* ===== verification/Js_Prelude.thy ===== *)
theory Js_Prelude
  imports Main
begin

text \<open>
  The fragment of JavaScript the UI code is written in: strings, numbers, values and the
  library functions the modelled files call.

  \<^item> A string is a list of UTF-16 code units; the model is \<^typ>\<open>string\<close>, so it covers the
    code units below 256 (Latin-1). \<open>toLowerCase\<close> and \<open>trim\<close> below are the ECMAScript
    functions restricted to that range.
  \<^item> A number is \<open>NaN\<close>, an infinity or an exact decimal \<open>m / 10 ^ k\<close>. Rounding to binary64
    and overflow are not modelled: every literal of at most fifteen significant digits is
    represented exactly up to the conversion the engine does and undoes.
  \<^item> \<open>String(x)\<close> and \<open>Number(x)\<close> follow the ECMAScript algorithms on that representation.
\<close>

named_theorems js_defs \<open>definitions of the library functions, unfolded to evaluate them\<close>

section \<open>Errors\<close>

datatype js_error = TypeError | UnknownOperator

section \<open>Strings\<close>

definition is_ws :: "char \<Rightarrow> bool" where
  "is_ws c \<longleftrightarrow> of_char c \<in> {9, 10, 11, 12, 13, 32, 160 :: nat}"

definition trim :: "string \<Rightarrow> string" where
  "trim s = rev (dropWhile is_ws (rev (dropWhile is_ws s)))"

definition lower_char :: "char \<Rightarrow> char" where
  "lower_char c =
     (let n = of_char c :: nat
      in if 65 \<le> n \<and> n \<le> 90 \<or> 192 \<le> n \<and> n \<le> 222 \<and> n \<noteq> 215 then char_of (n + 32) else c)"

definition toLowerCase :: "string \<Rightarrow> string" where
  "toLowerCase = map lower_char"

text \<open>\<open>s.split(c)\<close> for a one-character separator: never the empty list.\<close>

fun split_on :: "char \<Rightarrow> string \<Rightarrow> string list" where
  "split_on c [] = [[]]"
| "split_on c (x # xs) =
     (if x = c then [] # split_on c xs
      else case split_on c xs of [] \<Rightarrow> [[x]] | p # ps \<Rightarrow> (x # p) # ps)"

text \<open>\<open>s.startsWith(p)\<close>, \<open>s.includes(t)\<close> and \<open>s.substring(a, b)\<close>, which swaps its bounds when they are reversed.\<close>

fun starts_with :: "string \<Rightarrow> string \<Rightarrow> bool" where
  "starts_with [] s \<longleftrightarrow> True"
| "starts_with (p # ps) [] \<longleftrightarrow> False"
| "starts_with (p # ps) (c # cs) \<longleftrightarrow> p = c \<and> starts_with ps cs"

fun has_substring :: "string \<Rightarrow> string \<Rightarrow> bool" where
  "has_substring t [] \<longleftrightarrow> t = []"
| "has_substring t (c # cs) \<longleftrightarrow> starts_with t (c # cs) \<or> has_substring t cs"

definition js_substring :: "nat \<Rightarrow> nat \<Rightarrow> string \<Rightarrow> string" where
  "js_substring a b s = take (max a b - min a b) (drop (min a b) s)"

text \<open>\<open>xs.join(sep)\<close>.\<close>

fun join :: "string \<Rightarrow> string list \<Rightarrow> string" where
  "join sep [] = []"
| "join sep [x] = x"
| "join sep (x # y # ys) = x @ sep @ join sep (y # ys)"

text \<open>\<open>s.replace(/c/g, r)\<close> and \<open>s.replace(c, r)\<close> for one character \<open>c\<close>.\<close>

definition replace_all :: "char \<Rightarrow> string \<Rightarrow> string \<Rightarrow> string" where
  "replace_all c r s = concat (map (\<lambda>x. if x = c then r else [x]) s)"

fun replace_first :: "char \<Rightarrow> string \<Rightarrow> string \<Rightarrow> string" where
  "replace_first c r [] = []"
| "replace_first c r (x # xs) = (if x = c then r @ xs else x # replace_first c r xs)"

text \<open>\<open>s.lastIndexOf(c)\<close>, \<open>-1\<close> when \<open>c\<close> does not occur.\<close>

fun lastIndexOf :: "char \<Rightarrow> string \<Rightarrow> int" where
  "lastIndexOf c [] = -1"
| "lastIndexOf c (x # xs) =
     (let i = lastIndexOf c xs in if 0 \<le> i then i + 1 else if x = c then 0 else -1)"

text \<open>\<open>xs.indexOf(y)\<close> on arrays, \<open>-1\<close> when absent.\<close>

fun indexOf :: "'a list \<Rightarrow> 'a \<Rightarrow> int" where
  "indexOf [] y = -1"
| "indexOf (x # xs) y =
     (if x = y then 0 else let i = indexOf xs y in if i < 0 then -1 else i + 1)"

abbreviation dquote :: char where "dquote \<equiv> CHR 0x22"
abbreviation backslash :: char where "backslash \<equiv> CHR 0x5C"

section \<open>Numbers\<close>

datatype js_number = NaN | PosInf | NegInf | Fin int nat

text \<open>
  \<open>Fin m k\<close> is \<open>m / 10 ^ k\<close>; it is canonical when \<open>k = 0\<close> or \<open>10\<close> does not divide \<open>m\<close>, so
  that equality of canonical numbers is equality of values. \<open>-0\<close> is \<open>0\<close>.
\<close>

fun canonical :: "js_number \<Rightarrow> bool" where
  "canonical (Fin m k) \<longleftrightarrow> k = 0 \<or> \<not> 10 dvd m"
| "canonical _ \<longleftrightarrow> True"

fun normalize :: "int \<Rightarrow> nat \<Rightarrow> js_number" where
  "normalize m 0 = Fin m 0"
| "normalize m (Suc k) = (if 10 dvd m then normalize (m div 10) k else Fin m (Suc k))"

definition mk_decimal :: "int \<Rightarrow> int \<Rightarrow> js_number" where
  "mk_decimal m e = (if 0 \<le> e then Fin (m * 10 ^ nat e) 0 else normalize m (nat (- e)))"

fun js_uminus :: "js_number \<Rightarrow> js_number" where
  "js_uminus NaN = NaN"
| "js_uminus PosInf = NegInf"
| "js_uminus NegInf = PosInf"
| "js_uminus (Fin m k) = Fin (- m) k"

definition isNaN :: "js_number \<Rightarrow> bool" where
  "isNaN x \<longleftrightarrow> x = NaN"

fun isInteger :: "js_number \<Rightarrow> bool" where
  "isInteger (Fin m k) \<longleftrightarrow> k = 0"
| "isInteger _ \<longleftrightarrow> False"

subsection \<open>Decimal digits\<close>

definition is_digit :: "char \<Rightarrow> bool" where
  "is_digit c \<longleftrightarrow> (let n = of_char c :: nat in 48 \<le> n \<and> n \<le> 57)"

definition digit_val :: "char \<Rightarrow> nat" where
  "digit_val c = of_char c - 48"

definition digit_char :: "nat \<Rightarrow> char" where
  "digit_char d = char_of (48 + d)"

definition digits_value :: "string \<Rightarrow> nat" where
  "digits_value = foldl (\<lambda>a c. 10 * a + digit_val c) 0"

fun nat_digits :: "nat \<Rightarrow> string" where
  "nat_digits n = (if n < 10 then [digit_char n] else nat_digits (n div 10) @ [digit_char (n mod 10)])"

declare nat_digits.simps [simp del]

subsection \<open>Number to string\<close>

text \<open>
  \<open>Number::toString\<close>: \<open>ds\<close> are the significant digits of the number and \<open>n\<close> the position of
  the decimal point in them.
\<close>

fun strip_zeros :: "nat \<Rightarrow> int \<Rightarrow> nat \<times> int" where
  "strip_zeros m e = (if m \<noteq> 0 \<and> 10 dvd m then strip_zeros (m div 10) (e + 1) else (m, e))"

declare strip_zeros.simps [simp del]

definition show_exponent :: "int \<Rightarrow> string" where
  "show_exponent e = ''e'' @ (if 0 \<le> e then ''+'' else ''-'') @ nat_digits (nat \<bar>e\<bar>)"

definition show_positive :: "string \<Rightarrow> int \<Rightarrow> string" where
  "show_positive ds n =
     (let k = int (length ds)
      in if k \<le> n \<and> n \<le> 21 then ds @ replicate (nat (n - k)) (CHR ''0'')
         else if 0 < n \<and> n \<le> 21 then take (nat n) ds @ ''.'' @ drop (nat n) ds
         else if - 6 < n \<and> n \<le> 0 then ''0.'' @ replicate (nat (- n)) (CHR ''0'') @ ds
         else if k = 1 then ds @ show_exponent (n - 1)
         else take 1 ds @ ''.'' @ drop 1 ds @ show_exponent (n - 1))"

fun number_to_string :: "js_number \<Rightarrow> string" where
  "number_to_string NaN = ''NaN''"
| "number_to_string PosInf = ''Infinity''"
| "number_to_string NegInf = ''-Infinity''"
| "number_to_string (Fin m k) =
     (if m = 0 then ''0''
      else let (s, e) = strip_zeros (nat \<bar>m\<bar>) (- int k);
               ds = nat_digits s
           in (if m < 0 then ''-'' else '''') @ show_positive ds (int (length ds) + e))"

subsection \<open>String to number\<close>

definition parse_exponent :: "string \<Rightarrow> int option" where
  "parse_exponent s =
     (let (neg, ds) = (case s of c # t \<Rightarrow> if c = CHR ''-'' then (True, t)
                                          else if c = CHR ''+'' then (False, t) else (False, s)
                        | [] \<Rightarrow> (False, []))
      in if ds \<noteq> [] \<and> list_all is_digit ds
         then Some (if neg then - int (digits_value ds) else int (digits_value ds)) else None)"

text \<open>\<open>StrUnsignedDecimalLiteral\<close>: the whole string, or \<open>None\<close>.\<close>

definition unsigned_decimal :: "string \<Rightarrow> js_number option" where
  "unsigned_decimal s =
     (if s = ''Infinity'' then Some PosInf
      else let ip = takeWhile is_digit s; r = dropWhile is_digit s;
               (fp, r2) = (case r of c # t \<Rightarrow> if c = CHR ''.'' then (takeWhile is_digit t, dropWhile is_digit t)
                                              else ([], r)
                            | [] \<Rightarrow> ([], []));
               m = int (digits_value (ip @ fp)); e = - int (length fp)
           in if ip = [] \<and> fp = [] then None
              else case r2 of
                  [] \<Rightarrow> Some (mk_decimal m e)
                | c # t \<Rightarrow> if c = CHR ''e'' \<or> c = CHR ''E''
                          then map_option (\<lambda>x. mk_decimal m (e + x)) (parse_exponent t) else None)"

definition hex_val :: "char \<Rightarrow> nat option" where
  "hex_val c =
     (let n = of_char c :: nat
      in if 48 \<le> n \<and> n \<le> 57 then Some (n - 48)
         else if 65 \<le> n \<and> n \<le> 70 then Some (n - 55)
         else if 97 \<le> n \<and> n \<le> 102 then Some (n - 87) else None)"

fun radix_value :: "nat \<Rightarrow> nat \<Rightarrow> string \<Rightarrow> nat option" where
  "radix_value b a [] = Some a"
| "radix_value b a (c # cs) =
     (case hex_val c of None \<Rightarrow> None | Some d \<Rightarrow> if d < b then radix_value b (b * a + d) cs else None)"

definition radix_literal :: "nat \<Rightarrow> string \<Rightarrow> js_number" where
  "radix_literal b ds =
     (if ds = [] then NaN
      else case radix_value b 0 ds of None \<Rightarrow> NaN | Some n \<Rightarrow> Fin (int n) 0)"

definition signed_decimal :: "string \<Rightarrow> js_number" where
  "signed_decimal s =
     (case s of
        c # t \<Rightarrow>
          if c = CHR ''-'' then (case unsigned_decimal t of None \<Rightarrow> NaN | Some x \<Rightarrow> js_uminus x)
          else if c = CHR ''+'' then (case unsigned_decimal t of None \<Rightarrow> NaN | Some x \<Rightarrow> x)
          else (case unsigned_decimal s of None \<Rightarrow> NaN | Some x \<Rightarrow> x)
      | [] \<Rightarrow> NaN)"

definition string_to_number :: "string \<Rightarrow> js_number" where
  "string_to_number str =
     (let s = trim str
      in if s = [] then Fin 0 0
         else if take 2 s \<in> {''0x'', ''0X''} then radix_literal 16 (drop 2 s)
         else if take 2 s \<in> {''0o'', ''0O''} then radix_literal 8 (drop 2 s)
         else if take 2 s \<in> {''0b'', ''0B''} then radix_literal 2 (drop 2 s)
         else signed_decimal s)"

section \<open>Values\<close>

datatype js_value = Undefined | Str string | Num js_number | Bool bool

fun js_String :: "js_value \<Rightarrow> string" where
  "js_String Undefined = ''undefined''"
| "js_String (Str s) = s"
| "js_String (Num n) = number_to_string n"
| "js_String (Bool b) = (if b then ''true'' else ''false'')"

fun js_Number :: "js_value \<Rightarrow> js_number" where
  "js_Number Undefined = NaN"
| "js_Number (Str s) = string_to_number s"
| "js_Number (Num n) = n"
| "js_Number (Bool b) = Fin (if b then 1 else 0) 0"

text \<open>
  Values of type \<open>any\<close>: what JSON can hold, and \<open>undefined\<close>. The keys of an object are listed in the
  order \<open>Object.keys\<close> gives, without repetition.
\<close>

datatype json = JUndef | JNull | JBool bool | JNum js_number | JStr string | JArr "json list"
  | JObj "(string \<times> json) list"

text \<open>\<open>x?.k\<close>, for the own properties of an object.\<close>

fun jget :: "string \<Rightarrow> json \<Rightarrow> json" where
  "jget k (JObj kvs) = (case map_of kvs k of Some v \<Rightarrow> v | None \<Rightarrow> JUndef)"
| "jget k _ = JUndef"

definition nullish :: "json \<Rightarrow> bool" where
  "nullish v \<longleftrightarrow> v = JUndef \<or> v = JNull"

text \<open>\<open>a ?? b\<close> and \<open>a || b\<close>\<close>

definition or_nullish :: "json \<Rightarrow> json \<Rightarrow> json" where
  "or_nullish a b = (if nullish a then b else a)"

fun jtruthy :: "json \<Rightarrow> bool" where
  "jtruthy JUndef \<longleftrightarrow> False"
| "jtruthy JNull \<longleftrightarrow> False"
| "jtruthy (JBool b) \<longleftrightarrow> b"
| "jtruthy (JNum n) \<longleftrightarrow> (case n of NaN \<Rightarrow> False | Fin m k \<Rightarrow> m \<noteq> 0 | _ \<Rightarrow> True)"
| "jtruthy (JStr s) \<longleftrightarrow> s \<noteq> []"
| "jtruthy (JArr xs) \<longleftrightarrow> True"
| "jtruthy (JObj kvs) \<longleftrightarrow> True"

definition or_falsy :: "json \<Rightarrow> json \<Rightarrow> json" where
  "or_falsy a b = (if jtruthy a then a else b)"

text \<open>The elements of a value that may be an array: \<open>Array.isArray(x) ? x : []\<close>.\<close>

fun jelements :: "json \<Rightarrow> json list" where
  "jelements (JArr xs) = xs"
| "jelements _ = []"

text \<open>A set in the order its elements were added.\<close>

definition set_add :: "'a \<Rightarrow> 'a list \<Rightarrow> 'a list" where
  "set_add x xs = (if x \<in> set xs then xs else xs @ [x])"

lemma set_add_set [simp]: "set (set_add x xs) = insert x (set xs)"
  by (auto simp: set_add_def)

lemma set_add_distinct [simp]: "distinct (set_add x xs) = distinct xs"
  by (simp add: set_add_def)

section \<open>Trimming\<close>

lemma trim_length: "length (trim s) \<le> length s"
proof -
  have "length (dropWhile p xs) \<le> length xs" for p and xs :: string by (rule length_dropWhile_le)
  then have "length (dropWhile is_ws (rev (dropWhile is_ws s))) \<le> length (rev (dropWhile is_ws s))" "length (dropWhile is_ws s) \<le> length s"
    by blast+
  then show ?thesis unfolding trim_def by simp
qed

lemma trim_bounded: "\<not> is_ws (hd s) \<Longrightarrow> \<not> is_ws (last s) \<Longrightarrow> s \<noteq> [] \<Longrightarrow> trim s = s"
proof -
  assume a: "\<not> is_ws (hd s)" "\<not> is_ws (last s)" "s \<noteq> []"
  then have "dropWhile is_ws s = s" by (cases s) simp_all
  moreover have "dropWhile is_ws (rev s) = rev s" using a by (cases "rev s") (simp_all add: last_rev [symmetric] hd_rev)
  ultimately show ?thesis by (simp add: trim_def)
qed

end
