(* ===== verification/Filter_Model.thy ===== *)
theory Filter_Model
  imports Js_Prelude
begin

text \<open>
  The data of the filter builder (ui/src/store/filter.store.ts): operators, arithmetic
  expressions, rules, groups and the configuration, and the pure helpers on the rule tree.
  Fresh ids (\<open>uuidv4()\<close>, a library call) are arguments of the operations that use one.
  Optional booleans are read as \<open>False\<close> when absent, as every test of them in the code does.
\<close>

section \<open>Data\<close>

datatype FilterOperator = Eq | Neq | Gt | Lt | Gte | Lte | In | NotIn | IsNull | IsNotNull

datatype LogicOperator = And | Or

datatype ArithmeticOperator = Plus | Minus | Times | Divide | Modulo

datatype ArithmeticOperand =
    FieldOperand (opd_field: string) (opd_fieldType: string)
  | LiteralOperand (opd_value: js_number)
  | FunctionOperand (opd_functionName: string) (opd_arguments: "ArithmeticOperand list")

text \<open>
  \<open>ArithmeticOperand | ArithmeticExpressionNode\<close> is the union \<open>OperandOrNode\<close>; the type guard
  \<open>isArithmeticExpressionNode\<close> tells its two sides apart.
\<close>

datatype OperandOrNode =
    Operand ArithmeticOperand
  | Node ArithmeticExpressionNode
and ArithmeticExpressionNode =
    ExprNode (ae_id: string) (ae_left: OperandOrNode) (ae_operator: ArithmeticOperator)
      (ae_right: OperandOrNode)

fun isArithmeticExpressionNode :: "OperandOrNode \<Rightarrow> bool" where
  "isArithmeticExpressionNode (Node _) = True"
| "isArithmeticExpressionNode (Operand _) = False"

record FilterRule =
  rule_id :: string
  rule_field :: string
  rule_fieldType :: string
  useArithmeticExpression :: bool
  arithmeticExpression :: "ArithmeticExpressionNode option"
  rule_operator :: FilterOperator
  rule_value :: js_value
  rule_not :: bool

datatype FilterItem =
    RuleItem FilterRule
  | GroupItem FilterGroup
and FilterGroup =
    FilterGroup (group_id: string) (combinator: LogicOperator) (group_not: bool)
      (children: "FilterItem list")

record FilterCondition =
  cond_id :: string
  cond_field :: string
  cond_fieldType :: string
  cond_operator :: FilterOperator
  cond_value :: js_value

text \<open>
  The type declares \<open>root\<close> as present, but the code tests for it: a configuration loaded from
  the legacy flat format has only \<open>conditions\<close>.
\<close>

record FilterConfig =
  cfg_enabled :: bool
  cfg_root :: "FilterGroup option"
  legacy_combinator :: "LogicOperator option"
  legacy_conditions :: "FilterCondition list option"

definition MAX_GROUP_DEPTH :: int where
  "MAX_GROUP_DEPTH = 3"

fun item_id :: "FilterItem \<Rightarrow> string" where
  "item_id (RuleItem r) = rule_id r"
| "item_id (GroupItem g) = group_id g"

fun item_is_group :: "FilterItem \<Rightarrow> bool" where
  "item_is_group (GroupItem _) = True"
| "item_is_group (RuleItem _) = False"

section \<open>Constructors of empty items\<close>

definition createEmptyRootGroup :: "string \<Rightarrow> FilterGroup" where
  "createEmptyRootGroup newId = FilterGroup newId And False []"

definition createEmptyRule :: "string \<Rightarrow> FilterRule" where
  "createEmptyRule newId =
     \<lparr>rule_id = newId, rule_field = '''', rule_fieldType = '''', useArithmeticExpression = False,
      arithmeticExpression = None, rule_operator = Eq, rule_value = Str '''', rule_not = False\<rparr>"

definition createEmptyArithmeticExpression :: "string \<Rightarrow> ArithmeticExpressionNode" where
  "createEmptyArithmeticExpression newId =
     ExprNode newId (Operand (FieldOperand '''' '''')) Plus (Operand (LiteralOperand (Fin 0 0)))"

definition createFieldOperand :: "string \<Rightarrow> string \<Rightarrow> ArithmeticOperand" where
  "createFieldOperand field fieldType = FieldOperand field fieldType"

definition createLiteralOperand :: "js_number \<Rightarrow> ArithmeticOperand" where
  "createLiteralOperand v = LiteralOperand v"

definition createEmptyGroup :: "string \<Rightarrow> FilterGroup" where
  "createEmptyGroup newId = FilterGroup newId And False []"

section \<open>Tree helpers\<close>

fun findItemById :: "FilterGroup \<Rightarrow> string \<Rightarrow> FilterItem option"
  and findItem_loop :: "FilterItem list \<Rightarrow> string \<Rightarrow> FilterItem option" where
  "findItemById (FilterGroup i c n cs) itemId =
     (if i = itemId then Some (GroupItem (FilterGroup i c n cs)) else findItem_loop cs itemId)"
| "findItem_loop [] itemId = None"
| "findItem_loop (RuleItem r # cs) itemId =
     (if rule_id r = itemId then Some (RuleItem r) else findItem_loop cs itemId)"
| "findItem_loop (GroupItem g # cs) itemId =
     (if group_id g = itemId then Some (GroupItem g)
      else case findItemById g itemId of Some found \<Rightarrow> Some found | None \<Rightarrow> findItem_loop cs itemId)"

fun findParentGroup :: "FilterGroup \<Rightarrow> string \<Rightarrow> FilterGroup option"
  and findParent_loop :: "FilterGroup \<Rightarrow> FilterItem list \<Rightarrow> string \<Rightarrow> FilterGroup option" where
  "findParentGroup (FilterGroup i c n cs) itemId = findParent_loop (FilterGroup i c n cs) cs itemId"
| "findParent_loop rt [] itemId = None"
| "findParent_loop rt (RuleItem r # cs) itemId =
     (if rule_id r = itemId then Some rt else findParent_loop rt cs itemId)"
| "findParent_loop rt (GroupItem g # cs) itemId =
     (if group_id g = itemId then Some rt
      else case findParentGroup g itemId of
          Some found \<Rightarrow> Some found
        | None \<Rightarrow> findParent_loop rt cs itemId)"

text \<open>Depth of a group in the tree, \<open>-1\<close> when it is not there; rules are skipped.\<close>

fun getGroupDepth :: "FilterGroup \<Rightarrow> string \<Rightarrow> int \<Rightarrow> int"
  and getGroupDepth_loop :: "FilterItem list \<Rightarrow> string \<Rightarrow> int \<Rightarrow> int" where
  "getGroupDepth (FilterGroup i c n cs) groupId currentDepth =
     (if i = groupId then currentDepth else getGroupDepth_loop cs groupId currentDepth)"
| "getGroupDepth_loop [] groupId currentDepth = -1"
| "getGroupDepth_loop (RuleItem r # cs) groupId currentDepth = getGroupDepth_loop cs groupId currentDepth"
| "getGroupDepth_loop (GroupItem g # cs) groupId currentDepth =
     (let depth = getGroupDepth g groupId (currentDepth + 1)
      in if 0 \<le> depth then depth else getGroupDepth_loop cs groupId currentDepth)"

fun addItemToGroup :: "FilterGroup \<Rightarrow> string \<Rightarrow> FilterItem \<Rightarrow> FilterGroup"
  and addItem_map :: "FilterItem list \<Rightarrow> string \<Rightarrow> FilterItem \<Rightarrow> FilterItem list" where
  "addItemToGroup (FilterGroup i c n cs) parentGroupId item =
     (if i = parentGroupId then FilterGroup i c n (cs @ [item])
      else FilterGroup i c n (addItem_map cs parentGroupId item))"
| "addItem_map [] parentGroupId item = []"
| "addItem_map (RuleItem r # cs) parentGroupId item = RuleItem r # addItem_map cs parentGroupId item"
| "addItem_map (GroupItem g # cs) parentGroupId item =
     GroupItem (addItemToGroup g parentGroupId item) # addItem_map cs parentGroupId item"

text \<open>A partial update of a rule: the keys present in the object, with their values.\<close>

record RuleUpdates =
  upd_field :: "string option"
  upd_fieldType :: "string option"
  upd_useArithmeticExpression :: "bool option"
  upd_arithmeticExpression :: "ArithmeticExpressionNode option option"
  upd_operator :: "FilterOperator option"
  upd_value :: "js_value option"
  upd_not :: "bool option"

definition opt_or :: "'a option \<Rightarrow> 'a \<Rightarrow> 'a" where
  "opt_or u d = (case u of None \<Rightarrow> d | Some v \<Rightarrow> v)"

text \<open>\<open>{ ...child, ...updates }\<close>.\<close>

definition apply_rule_updates :: "FilterRule \<Rightarrow> RuleUpdates \<Rightarrow> FilterRule" where
  "apply_rule_updates r u =
     \<lparr>rule_id = rule_id r,
      rule_field = opt_or (upd_field u) (rule_field r),
      rule_fieldType = opt_or (upd_fieldType u) (rule_fieldType r),
      useArithmeticExpression = opt_or (upd_useArithmeticExpression u) (useArithmeticExpression r),
      arithmeticExpression = opt_or (upd_arithmeticExpression u) (arithmeticExpression r),
      rule_operator = opt_or (upd_operator u) (rule_operator r),
      rule_value = opt_or (upd_value u) (rule_value r),
      rule_not = opt_or (upd_not u) (rule_not r)\<rparr>"

fun updateRuleInTree :: "FilterGroup \<Rightarrow> string \<Rightarrow> RuleUpdates \<Rightarrow> FilterGroup"
  and updateRule_map :: "FilterItem list \<Rightarrow> string \<Rightarrow> RuleUpdates \<Rightarrow> FilterItem list" where
  "updateRuleInTree (FilterGroup i c n cs) ruleId updates =
     FilterGroup i c n (updateRule_map cs ruleId updates)"
| "updateRule_map [] ruleId updates = []"
| "updateRule_map (RuleItem r # cs) ruleId updates =
     (if rule_id r = ruleId then RuleItem (apply_rule_updates r updates) else RuleItem r)
       # updateRule_map cs ruleId updates"
| "updateRule_map (GroupItem g # cs) ruleId updates =
     GroupItem (updateRuleInTree g ruleId updates) # updateRule_map cs ruleId updates"

record GroupUpdates =
  upd_combinator :: "LogicOperator option"
  upd_group_not :: "bool option"

fun apply_group_updates :: "FilterGroup \<Rightarrow> GroupUpdates \<Rightarrow> FilterGroup" where
  "apply_group_updates (FilterGroup i c n cs) u =
     FilterGroup i (opt_or (upd_combinator u) c) (opt_or (upd_group_not u) n) cs"

fun updateGroupInTree :: "FilterGroup \<Rightarrow> string \<Rightarrow> GroupUpdates \<Rightarrow> FilterGroup"
  and updateGroup_map :: "FilterItem list \<Rightarrow> string \<Rightarrow> GroupUpdates \<Rightarrow> FilterItem list" where
  "updateGroupInTree (FilterGroup i c n cs) groupId updates =
     (if i = groupId then apply_group_updates (FilterGroup i c n cs) updates
      else FilterGroup i c n (updateGroup_map cs groupId updates))"
| "updateGroup_map [] groupId updates = []"
| "updateGroup_map (RuleItem r # cs) groupId updates = RuleItem r # updateGroup_map cs groupId updates"
| "updateGroup_map (GroupItem g # cs) groupId updates =
     (if group_id g = groupId then GroupItem (apply_group_updates g updates)
      else GroupItem (updateGroupInTree g groupId updates))
       # updateGroup_map cs groupId updates"

text \<open>\<open>children.filter(child => child.id !== itemId).map(...)\<close>, the two passes in one.\<close>

fun removeItemFromTree :: "FilterGroup \<Rightarrow> string \<Rightarrow> FilterGroup"
  and removeItem_map :: "FilterItem list \<Rightarrow> string \<Rightarrow> FilterItem list" where
  "removeItemFromTree (FilterGroup i c n cs) itemId = FilterGroup i c n (removeItem_map cs itemId)"
| "removeItem_map [] itemId = []"
| "removeItem_map (RuleItem r # cs) itemId =
     (if rule_id r \<noteq> itemId then RuleItem r # removeItem_map cs itemId else removeItem_map cs itemId)"
| "removeItem_map (GroupItem g # cs) itemId =
     (if group_id g \<noteq> itemId then GroupItem (removeItemFromTree g itemId) # removeItem_map cs itemId
      else removeItem_map cs itemId)"

fun countRules :: "FilterGroup \<Rightarrow> nat"
  and countRules_loop :: "FilterItem list \<Rightarrow> nat" where
  "countRules (FilterGroup i c n cs) = countRules_loop cs"
| "countRules_loop [] = 0"
| "countRules_loop (RuleItem r # cs) = Suc (countRules_loop cs)"
| "countRules_loop (GroupItem g # cs) = countRules g + countRules_loop cs"

definition hasRules :: "FilterGroup \<Rightarrow> bool" where
  "hasRules g \<longleftrightarrow> countRules g > 0"

text \<open>Migration of the legacy flat conditions.\<close>

definition condition_to_rule :: "FilterCondition \<Rightarrow> FilterRule" where
  "condition_to_rule c =
     \<lparr>rule_id = cond_id c, rule_field = cond_field c, rule_fieldType = cond_fieldType c,
      useArithmeticExpression = False, arithmeticExpression = None,
      rule_operator = cond_operator c, rule_value = cond_value c, rule_not = False\<rparr>"

definition migrateToTreeStructure :: "FilterConfig \<Rightarrow> string \<Rightarrow> FilterConfig" where
  "migrateToTreeStructure config newId =
     (case cfg_root config of
        Some r \<Rightarrow> config
      | None \<Rightarrow>
          (let legacyConditions = opt_or (legacy_conditions config) [];
               legacyCombinator = opt_or (legacy_combinator config) And
           in \<lparr>cfg_enabled = cfg_enabled config,
               cfg_root = Some (FilterGroup newId legacyCombinator False
                              (map (RuleItem \<circ> condition_to_rule) legacyConditions)),
               legacy_combinator = None, legacy_conditions = None\<rparr>))"

end
