(* ===== verification/Filter_Tree.thy ===== *)
theory Filter_Tree
  imports Filter_Model "HOL-Library.Multiset"
begin

text \<open>
  The rule tree as an abstract object: its ids, its group ids, its height and its rules in
  document order, and what each tree helper of the filter store does to them. Every lemma is
  stated for a group and for a list of children and proved by one induction over both.
\<close>

named_theorems tree_simps \<open>what the tree helpers do to ids, heights and rules\<close>

section \<open>Induction over a group and its children\<close>

lemma filter_tree_induct [case_names Group Nil Rule Sub]:
  assumes "\<And>i c n cs. Q cs \<Longrightarrow> P (FilterGroup i c n cs)"
    and "Q []"
    and "\<And>r cs. Q cs \<Longrightarrow> Q (RuleItem r # cs)"
    and "\<And>g cs. P g \<Longrightarrow> Q cs \<Longrightarrow> Q (GroupItem g # cs)"
  shows "P g" and "Q cs"
  by (induction g and cs rule: countRules_countRules_loop.induct) (use assms in auto)

lemma items_induct [case_names Nil Rule Sub]:
  assumes "Q []"
    and "\<And>r cs. Q cs \<Longrightarrow> Q (RuleItem r # cs)"
    and "\<And>g cs. Q cs \<Longrightarrow> Q (GroupItem g # cs)"
  shows "Q cs"
proof (induction cs)
  case (Cons x cs)
  then show ?case by (cases x) (auto intro: assms)
qed (rule assms(1))

section \<open>Abstractions\<close>

fun group_ids :: "FilterGroup \<Rightarrow> string list"
  and items_ids :: "FilterItem list \<Rightarrow> string list" where
  "group_ids (FilterGroup i c n cs) = i # items_ids cs"
| "items_ids [] = []"
| "items_ids (RuleItem r # cs) = rule_id r # items_ids cs"
| "items_ids (GroupItem g # cs) = group_ids g @ items_ids cs"

fun subgroup_ids :: "FilterGroup \<Rightarrow> string list"
  and items_group_ids :: "FilterItem list \<Rightarrow> string list" where
  "subgroup_ids (FilterGroup i c n cs) = i # items_group_ids cs"
| "items_group_ids [] = []"
| "items_group_ids (RuleItem r # cs) = items_group_ids cs"
| "items_group_ids (GroupItem g # cs) = subgroup_ids g @ items_group_ids cs"

text \<open>Levels of groups below a group.\<close>

fun group_height :: "FilterGroup \<Rightarrow> nat"
  and items_height :: "FilterItem list \<Rightarrow> nat" where
  "group_height (FilterGroup i c n cs) = items_height cs"
| "items_height [] = 0"
| "items_height (RuleItem r # cs) = items_height cs"
| "items_height (GroupItem g # cs) = max (Suc (group_height g)) (items_height cs)"

text \<open>The rules of the tree, flattened (\<open>getAllRules\<close> of modules/filter/utils.ts).\<close>

fun getAllRules :: "FilterGroup \<Rightarrow> FilterRule list"
  and getAllRules_loop :: "FilterItem list \<Rightarrow> FilterRule list" where
  "getAllRules (FilterGroup i c n cs) = getAllRules_loop cs"
| "getAllRules_loop [] = []"
| "getAllRules_loop (RuleItem r # cs) = r # getAllRules_loop cs"
| "getAllRules_loop (GroupItem g # cs) = getAllRules g @ getAllRules_loop cs"

text \<open>\<open>countRulesInGroup\<close> of modules/filter/utils.ts, the loop with its counter.\<close>

fun countRulesInGroup :: "FilterGroup \<Rightarrow> nat"
  and countRulesInGroup_loop :: "FilterItem list \<Rightarrow> nat \<Rightarrow> nat" where
  "countRulesInGroup (FilterGroup i c n cs) = countRulesInGroup_loop cs 0"
| "countRulesInGroup_loop [] cnt = cnt"
| "countRulesInGroup_loop (RuleItem r # cs) cnt = countRulesInGroup_loop cs (cnt + 1)"
| "countRulesInGroup_loop (GroupItem g # cs) cnt =
     countRulesInGroup_loop cs (cnt + countRulesInGroup g)"

text \<open>
  The invariant of a tree the builder can show: no id twice, and at most
  \<open>MAX_GROUP_DEPTH\<close> levels of groups, the root included.
\<close>

definition wf_tree :: "FilterGroup \<Rightarrow> bool" where
  "wf_tree g \<longleftrightarrow> distinct (group_ids g) \<and> int (group_height g) \<le> MAX_GROUP_DEPTH - 1"

section \<open>Basic facts\<close>

lemma items_ids_append [tree_simps]: "items_ids (xs @ ys) = items_ids xs @ items_ids ys"
  by (induction xs rule: items_induct) auto

lemma items_group_ids_append [tree_simps]:
  "items_group_ids (xs @ ys) = items_group_ids xs @ items_group_ids ys"
  by (induction xs rule: items_induct) auto

lemma items_height_append [tree_simps]: "items_height (xs @ ys) = max (items_height xs) (items_height ys)"
  by (induction xs rule: items_induct) auto

lemma getAllRules_loop_append [tree_simps]:
  "getAllRules_loop (xs @ ys) = getAllRules_loop xs @ getAllRules_loop ys"
  by (induction xs rule: items_induct) auto

lemma subgroup_ids_subset:
  "set (subgroup_ids g) \<subseteq> set (group_ids g)"
  "set (items_group_ids cs) \<subseteq> set (items_ids cs)"
  by (induction g and cs rule: filter_tree_induct) auto

lemma group_id_in_ids [simp]: "group_id g \<in> set (subgroup_ids g)" "group_id g \<in> set (group_ids g)"
  by (cases g; simp)+

lemma rule_ids_subset:
  "rule_id ` set (getAllRules g) \<subseteq> set (group_ids g)"
  "rule_id ` set (getAllRules_loop cs) \<subseteq> set (items_ids cs)"
  by (induction g and cs rule: filter_tree_induct) auto

lemma countRules_length [tree_simps]:
  "countRules g = length (getAllRules g)"
  "countRules_loop cs = length (getAllRules_loop cs)"
  by (induction g and cs rule: filter_tree_induct) auto

lemma countRulesInGroup_length:
  "countRulesInGroup g = length (getAllRules g)"
  "countRulesInGroup_loop cs k = k + length (getAllRules_loop cs)"
  by (induction g and cs arbitrary: and k rule: filter_tree_induct) auto

section \<open>Lookup\<close>

lemma findItemById_Some:
  "findItemById g i = Some it \<Longrightarrow> item_id it = i"
  "findItem_loop cs i = Some it \<Longrightarrow> item_id it = i"
  by (induction g and cs rule: filter_tree_induct) (auto split: if_splits option.splits)

lemma findItemById_None_iff:
  "findItemById g i = None \<longleftrightarrow> i \<notin> set (group_ids g)"
  "findItem_loop cs i = None \<longleftrightarrow> i \<notin> set (items_ids cs)"
proof (induction g and cs rule: filter_tree_induct)
  case (Sub g cs)
  then show ?case by (cases "group_id g = i") (auto split: option.splits)
qed auto

lemma findParentGroup_Some:
  "findParentGroup g i = Some p \<Longrightarrow> i \<in> item_id ` set (children p)"
  "findParent_loop rt cs i = Some p \<Longrightarrow> set cs \<subseteq> set (children rt) \<Longrightarrow> i \<in> item_id ` set (children p)"
proof (induction g and cs arbitrary: and rt rule: filter_tree_induct)
  case (Rule r cs)
  then show ?case by (force split: if_splits)
next
  case (Sub g cs)
  then show ?case by (force split: if_splits option.splits)
qed auto

lemma findParentGroup_None_iff:
  "findParentGroup g i = None \<longleftrightarrow> i \<notin> set (items_ids (children g))"
  "findParent_loop rt cs i = None \<longleftrightarrow> i \<notin> set (items_ids cs)"
proof (induction g and cs arbitrary: and rt rule: filter_tree_induct)
  case (Sub g cs)
  then show ?case by (cases g) (auto split: option.splits)
qed auto

section \<open>Adding an item\<close>

lemma addItem_absent [tree_simps]:
  "p \<notin> set (subgroup_ids g) \<Longrightarrow> addItemToGroup g p it = g"
  "p \<notin> set (items_group_ids cs) \<Longrightarrow> addItem_map cs p it = cs"
  by (induction g and cs rule: filter_tree_induct) auto

lemma getGroupDepth_absent:
  "p \<notin> set (subgroup_ids g) \<Longrightarrow> getGroupDepth g p k = -1"
  "p \<notin> set (items_group_ids cs) \<Longrightarrow> getGroupDepth_loop cs p k = -1"
  by (induction g and cs arbitrary: k and k rule: filter_tree_induct) (auto simp: Let_def)

lemma getGroupDepth_present:
  "p \<in> set (subgroup_ids g) \<Longrightarrow> 0 \<le> k \<Longrightarrow> k \<le> getGroupDepth g p k"
  "p \<in> set (items_group_ids cs) \<Longrightarrow> 0 \<le> k \<Longrightarrow> k < getGroupDepth_loop cs p k"
proof (induction g and cs arbitrary: k and k rule: filter_tree_induct)
  case (Sub g cs)
  show ?case
  proof (cases "p \<in> set (subgroup_ids g)")
    case True
    with Sub.IH(1) [of "k + 1"] Sub.prems show ?thesis by (simp add: Let_def)
  next
    case False
    with Sub.IH(2) [of k] Sub.prems show ?thesis by (simp add: Let_def getGroupDepth_absent)
  qed
qed force+

lemma getGroupDepth_le:
  "p \<in> set (subgroup_ids g) \<Longrightarrow> 0 \<le> k \<Longrightarrow> getGroupDepth g p k \<le> k + int (group_height g)"
  "0 \<le> k \<Longrightarrow> getGroupDepth_loop cs p k \<le> k + int (items_height cs)"
proof (induction g and cs arbitrary: k and k rule: filter_tree_induct)
  case (Sub g cs)
  show ?case
  proof (cases "p \<in> set (subgroup_ids g)")
    case True
    with Sub.IH(1) [of "k + 1"] Sub.prems getGroupDepth_present(1) [of p g "k + 1"] show ?thesis
      by (simp add: Let_def)
  next
    case False
    with Sub.IH(2) [of k] Sub.prems show ?thesis by (simp add: Let_def getGroupDepth_absent)
  qed
qed force+

text \<open>In a tree without repeated ids the item goes to exactly one place.\<close>

lemma ids_disjoint:
  "distinct (items_ids (GroupItem g # cs)) \<Longrightarrow> p \<in> set (subgroup_ids g) \<Longrightarrow> p \<notin> set (items_group_ids cs)"
  using subgroup_ids_subset by fastforce

lemma addItem_rules:
  "distinct (group_ids g) \<Longrightarrow> p \<in> set (subgroup_ids g) \<Longrightarrow>
     mset (getAllRules (addItemToGroup g p it)) = mset (getAllRules g) + mset (getAllRules_loop [it])"
  "distinct (items_ids cs) \<Longrightarrow> p \<in> set (items_group_ids cs) \<Longrightarrow>
     mset (getAllRules_loop (addItem_map cs p it)) = mset (getAllRules_loop cs) + mset (getAllRules_loop [it])"
proof (induction g and cs rule: filter_tree_induct)
  case (Sub g cs)
  then show ?case
    by (cases "p \<in> set (subgroup_ids g)") (auto simp: ids_disjoint tree_simps dest: ids_disjoint)
qed (auto simp: tree_simps)

lemma addItem_ids:
  "distinct (group_ids g) \<Longrightarrow> p \<in> set (subgroup_ids g) \<Longrightarrow>
     mset (group_ids (addItemToGroup g p it)) = mset (group_ids g) + mset (items_ids [it])"
  "distinct (items_ids cs) \<Longrightarrow> p \<in> set (items_group_ids cs) \<Longrightarrow>
     mset (items_ids (addItem_map cs p it)) = mset (items_ids cs) + mset (items_ids [it])"
proof (induction g and cs rule: filter_tree_induct)
  case (Sub g cs)
  then show ?case
    by (cases "p \<in> set (subgroup_ids g)") (auto simp: ids_disjoint tree_simps dest: ids_disjoint)
qed (auto simp: tree_simps)

lemma findParent_last:
  "item_id it \<notin> set (items_ids cs) \<Longrightarrow> findParent_loop rt (cs @ [it]) (item_id it) = Some rt"
proof (induction cs rule: items_induct)
  case Nil
  then show ?case by (cases it) auto
next
  case (Sub g cs)
  then have "findParentGroup g (item_id it) = None" by (cases g) (simp add: findParentGroup_None_iff)
  moreover have "group_id g \<noteq> item_id it" using Sub.prems by (cases g) auto
  ultimately show ?case using Sub by simp
qed auto

text \<open>The new item is a child of the group it was added to.\<close>

lemma addItem_parent:
  "distinct (group_ids g) \<Longrightarrow> p \<in> set (subgroup_ids g) \<Longrightarrow> item_id it \<notin> set (group_ids g) \<Longrightarrow>
     \<exists>q. findParentGroup (addItemToGroup g p it) (item_id it) = Some q \<and> group_id q = p"
  "distinct (items_ids cs) \<Longrightarrow> p \<in> set (items_group_ids cs) \<Longrightarrow> item_id it \<notin> set (items_ids cs) \<Longrightarrow>
     \<exists>q. findParent_loop rt (addItem_map cs p it) (item_id it) = Some q \<and> group_id q = p"
proof (induction g and cs arbitrary: and rt rule: filter_tree_induct)
  case (Group i c n cs)
  then show ?case by (auto simp: findParent_last)
next
  case (Sub g cs)
  have keep: "group_id (addItemToGroup g p it) = group_id g" by (cases g) simp
  have "group_id g \<noteq> item_id it" using Sub.prems(3) by (cases g) auto
  show ?case
  proof (cases "p \<in> set (subgroup_ids g)")
    case True
    with Sub \<open>group_id g \<noteq> item_id it\<close> keep show ?thesis by fastforce
  next
    case False
    then have "addItemToGroup g p it = g" by (rule addItem_absent)
    moreover have "findParentGroup g (item_id it) = None"
      using Sub.prems(3) by (cases g) (simp add: findParentGroup_None_iff)
    ultimately show ?thesis using Sub False \<open>group_id g \<noteq> item_id it\<close> by simp
  qed
qed auto

lemma addItem_distinct:
  assumes "distinct (group_ids g)" and "distinct (items_ids [it])"
    and "set (items_ids [it]) \<inter> set (group_ids g) = {}"
  shows "distinct (group_ids (addItemToGroup g p it))"
proof (cases "p \<in> set (subgroup_ids g)")
  case True
  with assms(1) have "mset (group_ids (addItemToGroup g p it)) = mset (group_ids g @ items_ids [it])"
    by (simp add: addItem_ids)
  moreover have "distinct (group_ids g @ items_ids [it])" using assms by auto
  ultimately show ?thesis using mset_eq_imp_distinct_iff by blast
next
  case False
  with assms(1) show ?thesis by (simp add: tree_simps)
qed

lemma addItem_height:
  "distinct (group_ids g) \<Longrightarrow> p \<in> set (subgroup_ids g) \<Longrightarrow> 0 \<le> k \<Longrightarrow>
     int (group_height (addItemToGroup g p it)) =
       max (int (group_height g)) (getGroupDepth g p k - k + int (items_height [it]))"
  "distinct (items_ids cs) \<Longrightarrow> p \<in> set (items_group_ids cs) \<Longrightarrow> 0 \<le> k \<Longrightarrow>
     int (items_height (addItem_map cs p it)) =
       max (int (items_height cs)) (getGroupDepth_loop cs p k - k + int (items_height [it]))"
proof (induction g and cs arbitrary: k and k rule: filter_tree_induct)
  case (Sub g cs)
  show ?case
  proof (cases "p \<in> set (subgroup_ids g)")
    case True
    with Sub.prems have "p \<notin> set (items_group_ids cs)" by (blast dest: ids_disjoint)
    moreover have "0 \<le> getGroupDepth g p (k + 1)"
      using getGroupDepth_present(1) [OF True, of "k + 1"] Sub.prems by simp
    moreover have "distinct (group_ids g)" using Sub.prems by simp
    ultimately show ?thesis using Sub.IH(1) [of "k + 1"] Sub.prems True
      by (simp add: Let_def tree_simps)
  next
    case False
    with Sub.IH(2) [of k] Sub.prems show ?thesis
      by (simp add: Let_def tree_simps getGroupDepth_absent)
  qed
qed (auto simp: tree_simps)

section \<open>Updating\<close>

lemma updateRule_rules [tree_simps]:
  "getAllRules (updateRuleInTree g i u) =
     map (\<lambda>r. if rule_id r = i then apply_rule_updates r u else r) (getAllRules g)"
  "getAllRules_loop (updateRule_map cs i u) =
     map (\<lambda>r. if rule_id r = i then apply_rule_updates r u else r) (getAllRules_loop cs)"
  by (induction g and cs rule: filter_tree_induct) auto

lemma apply_rule_updates_id [simp]: "rule_id (apply_rule_updates r u) = rule_id r"
  by (simp add: apply_rule_updates_def)

lemma updateRule_frame [tree_simps]:
  "group_ids (updateRuleInTree g i u) = group_ids g \<and> group_height (updateRuleInTree g i u) = group_height g"
  "items_ids (updateRule_map cs i u) = items_ids cs \<and> items_height (updateRule_map cs i u) = items_height cs"
  by (induction g and cs rule: filter_tree_induct) auto

lemma apply_group_updates_frame [simp]:
  "group_ids (apply_group_updates g u) = group_ids g"
  "group_height (apply_group_updates g u) = group_height g"
  "getAllRules (apply_group_updates g u) = getAllRules g"
  by (cases g; simp)+

lemma updateGroup_frame [tree_simps]:
  "group_ids (updateGroupInTree g i u) = group_ids g \<and>
     group_height (updateGroupInTree g i u) = group_height g \<and>
     getAllRules (updateGroupInTree g i u) = getAllRules g"
  "items_ids (updateGroup_map cs i u) = items_ids cs \<and>
     items_height (updateGroup_map cs i u) = items_height cs \<and>
     getAllRules_loop (updateGroup_map cs i u) = getAllRules_loop cs"
  by (induction g and cs rule: filter_tree_induct) auto

section \<open>Removing\<close>

lemma removeItem_gone:
  "i \<notin> set (items_ids (children (removeItemFromTree g i)))"
  "i \<notin> set (items_ids (removeItem_map cs i))"
proof (induction g and cs rule: filter_tree_induct)
  case (Sub g cs)
  then show ?case by (cases g) auto
qed auto

lemma removeItem_subset:
  "set (group_ids (removeItemFromTree g i)) \<subseteq> set (group_ids g)"
  "set (items_ids (removeItem_map cs i)) \<subseteq> set (items_ids cs)"
  by (induction g and cs rule: filter_tree_induct) auto

lemma removeItem_distinct:
  "distinct (group_ids g) \<Longrightarrow> distinct (group_ids (removeItemFromTree g i))"
  "distinct (items_ids cs) \<Longrightarrow> distinct (items_ids (removeItem_map cs i))"
proof (induction g and cs rule: filter_tree_induct)
  case (Group j c n cs)
  then show ?case using removeItem_subset(2) [of cs i] by auto
next
  case (Rule r cs)
  then show ?case using removeItem_subset(2) [of cs i] by auto
next
  case (Sub g cs)
  then show ?case using removeItem_subset [of _ i] by fastforce
qed auto

lemma removeItem_height:
  "group_height (removeItemFromTree g i) \<le> group_height g"
  "items_height (removeItem_map cs i) \<le> items_height cs"
  by (induction g and cs rule: filter_tree_induct) auto

lemma removeItem_absent:
  "i \<notin> set (items_ids (children g)) \<Longrightarrow> removeItemFromTree g i = g"
  "i \<notin> set (items_ids cs) \<Longrightarrow> removeItem_map cs i = cs"
proof (induction g and cs rule: filter_tree_induct)
  case (Sub g cs)
  then show ?case by (cases g) auto
qed auto

text \<open>Removing a rule, when the id is not the id of a group.\<close>

lemma removeItem_rules:
  "i \<notin> set (subgroup_ids g) \<Longrightarrow>
     getAllRules (removeItemFromTree g i) = filter (\<lambda>r. rule_id r \<noteq> i) (getAllRules g)"
  "i \<notin> set (items_group_ids cs) \<Longrightarrow>
     getAllRules_loop (removeItem_map cs i) = filter (\<lambda>r. rule_id r \<noteq> i) (getAllRules_loop cs)"
proof (induction g and cs rule: filter_tree_induct)
  case (Sub g cs)
  then have "group_id g \<noteq> i" by auto
  with Sub show ?case by auto
qed auto

section \<open>The invariant\<close>

lemmas wf_tree_defs = wf_tree_def MAX_GROUP_DEPTH_def

lemma wf_empty_group [intro]: "wf_tree (createEmptyGroup i)" "wf_tree (createEmptyRootGroup i)"
  by (simp_all add: wf_tree_defs createEmptyGroup_def createEmptyRootGroup_def)

lemma wf_addRule [intro]:
  assumes "wf_tree g" and "rule_id r \<notin> set (group_ids g)"
  shows "wf_tree (addItemToGroup g p (RuleItem r))"
proof -
  have "group_height (addItemToGroup g p (RuleItem r)) \<le> 2"
  proof (cases "p \<in> set (subgroup_ids g)")
    case True
    with assms show ?thesis
      using addItem_height(1) [of g p 0 "RuleItem r"] getGroupDepth_le(1) [of p g 0]
      by (simp add: wf_tree_defs)
  next
    case False
    with assms show ?thesis by (simp add: tree_simps wf_tree_defs)
  qed
  then show ?thesis using assms by (auto simp: wf_tree_defs intro!: addItem_distinct)
qed

lemma wf_addGroup [intro]:
  assumes "wf_tree g" and "newId \<notin> set (group_ids g)"
    and "getGroupDepth g p 0 < MAX_GROUP_DEPTH - 1"
  shows "wf_tree (addItemToGroup g p (GroupItem (createEmptyGroup newId)))"
proof -
  have "group_height (addItemToGroup g p (GroupItem (createEmptyGroup newId))) \<le> 2"
  proof (cases "p \<in> set (subgroup_ids g)")
    case True
    with assms have "int (group_height (addItemToGroup g p (GroupItem (createEmptyGroup newId)))) \<le> 2"
      using addItem_height(1) [of g p 0 "GroupItem (createEmptyGroup newId)"]
      by (simp add: wf_tree_defs createEmptyGroup_def)
    then show ?thesis by simp
  next
    case False
    with assms show ?thesis by (simp add: tree_simps wf_tree_defs)
  qed
  then show ?thesis using assms
    by (auto simp: wf_tree_defs createEmptyGroup_def intro!: addItem_distinct)
qed

lemma wf_updateRule [intro]: "wf_tree g \<Longrightarrow> wf_tree (updateRuleInTree g i u)"
  by (simp add: wf_tree_defs tree_simps)

lemma wf_updateGroup [intro]: "wf_tree g \<Longrightarrow> wf_tree (updateGroupInTree g i u)"
  by (simp add: wf_tree_defs tree_simps)

lemma wf_removeItem [intro]: "wf_tree g \<Longrightarrow> wf_tree (removeItemFromTree g i)"
  using removeItem_height(1) [of g i] by (simp add: wf_tree_defs removeItem_distinct)

end
