(* ===== verification/Validation_State.thy ===== *)
theory Validation_State
  imports Js_Prelude
begin

text \<open>
  The validation state every store slice carries (ui/src/types/validation.ts) and the interface
  \<open>ValidationMethods\<close> the slices implement and the validation engine calls, as a locale.
  \<open>new Date()\<close> is the argument \<open>now\<close>, a time in milliseconds.
\<close>

type_synonym time = nat

datatype ValidationStatus = NotConfigured | Valid | Invalidated

record ValidationState =
  vs_status :: ValidationStatus
  invalidatedBy :: "string option"
  lastModified :: "time option"

definition createInitialValidation :: ValidationState where
  "createInitialValidation = \<lparr>vs_status = NotConfigured, invalidatedBy = None, lastModified = None\<rparr>"

definition createValidValidation :: "time \<Rightarrow> ValidationState" where
  "createValidValidation now = \<lparr>vs_status = Valid, invalidatedBy = None, lastModified = Some now\<rparr>"

definition createInvalidatedValidation :: "time \<Rightarrow> string \<Rightarrow> ValidationState" where
  "createInvalidatedValidation now sec =
     \<lparr>vs_status = Invalidated, invalidatedBy = Some sec, lastModified = Some now\<rparr>"

lemmas validation_defs = createInitialValidation_def createValidValidation_def
  createInvalidatedValidation_def

text \<open>
  A validation state is coherent when it names an invalidating section exactly when it is
  invalidated, and carries a time exactly when it was set by a section.
\<close>

definition coherent :: "ValidationState \<Rightarrow> bool" where
  "coherent v \<longleftrightarrow>
     (invalidatedBy v \<noteq> None \<longleftrightarrow> vs_status v = Invalidated) \<and>
     (lastModified v \<noteq> None \<longleftrightarrow> vs_status v \<noteq> NotConfigured)"

lemma coherent_created [simp]:
  "coherent createInitialValidation"
  "coherent (createValidValidation now)"
  "coherent (createInvalidatedValidation now s)"
  by (simp_all add: validation_defs coherent_def)

section \<open>The interface of a slice\<close>

text \<open>
  The four methods of a slice write its validation field and nothing else; \<open>rest\<close> is
  everything else the slice holds.
\<close>

locale validated_slice =
  fixes validation_of :: "'s \<Rightarrow> ValidationState"
    and rest :: "'s \<Rightarrow> 'r"
    and markAsValid :: "time \<Rightarrow> 's \<Rightarrow> 's"
    and markAsInvalidated :: "time \<Rightarrow> string \<Rightarrow> 's \<Rightarrow> 's"
    and markAsNotConfigured :: "'s \<Rightarrow> 's"
    and resetValidation :: "'s \<Rightarrow> 's"
  assumes marked_valid: "validation_of (markAsValid now s) = createValidValidation now"
    and marked_invalidated: "validation_of (markAsInvalidated now sec s) = createInvalidatedValidation now sec"
    and marked_not_configured: "validation_of (markAsNotConfigured s) = createInitialValidation"
    and reset_validation: "validation_of (resetValidation s) = createInitialValidation"
    and rest_kept: "rest (markAsValid now s) = rest s"
      "rest (markAsInvalidated now sec s) = rest s"
      "rest (markAsNotConfigured s) = rest s"
      "rest (resetValidation s) = rest s"
begin

lemmas methods = marked_valid marked_invalidated marked_not_configured reset_validation

lemma last_mark_wins:
  "validation_of (markAsValid now (markAsInvalidated now' sec s)) = createValidValidation now"
  "validation_of (markAsInvalidated now sec (markAsValid now' s)) = createInvalidatedValidation now sec"
  by (simp_all add: methods)

lemma methods_coherent:
  "coherent (validation_of (markAsValid now s))"
  "coherent (validation_of (markAsInvalidated now sec s))"
  "coherent (validation_of (markAsNotConfigured s))"
  "coherent (validation_of (resetValidation s))"
  by (simp_all add: methods)

end

section \<open>Backend validation\<close>

text \<open>The state of the check of an expression by the backend, in the filter and the transformation slice.\<close>

datatype BackendStatus = Idle | Validating | BackendValid | BackendInvalid

record BackendValidation =
  bv_status :: BackendStatus
  bv_error :: "string option"

definition initialBackendValidation :: BackendValidation where
  "initialBackendValidation = \<lparr>bv_status = Idle, bv_error = None\<rparr>"

end
