(* ===== verification/Filter_Store.thy ===== *)
theory Filter_Store
  imports Filter_Tree Validation_State
begin

text \<open>
  The filter slice (ui/src/store/filter.store.ts): its state and one function per action.
  An action is a zustand \<open>set\<close>: it returns the new state, or \<open>Inl TypeError\<close> where the code
  reads a property of an absent root (the state is then unchanged). Ids made by \<open>uuidv4()\<close>
  and \<open>new Date()\<close> are arguments; warnings to the log are left out.
\<close>

section \<open>State\<close>

record FilterStore =
  filterConfig :: FilterConfig
  expressionString :: string
  backendValidation :: BackendValidation
  validation :: ValidationState

definition initialFilterConfig :: "string \<Rightarrow> FilterConfig" where
  "initialFilterConfig newId =
     \<lparr>cfg_enabled = False, cfg_root = Some (createEmptyRootGroup newId),
      legacy_combinator = None, legacy_conditions = None\<rparr>"

definition initialFilterStore :: "string \<Rightarrow> FilterStore" where
  "initialFilterStore newId =
     \<lparr>filterConfig = initialFilterConfig newId, expressionString = '''',
      backendValidation = initialBackendValidation, validation = createInitialValidation\<rparr>"

section \<open>Actions\<close>

definition setFilterEnabled :: "bool \<Rightarrow> FilterStore \<Rightarrow> FilterStore" where
  "setFilterEnabled b s = s\<lparr>filterConfig := (filterConfig s)\<lparr>cfg_enabled := b\<rparr>\<rparr>"

definition addRule :: "time \<Rightarrow> string \<Rightarrow> string \<Rightarrow> FilterStore \<Rightarrow> js_error + FilterStore" where
  "addRule now newId parentGroupId s =
     (case cfg_root (filterConfig s) of
        None \<Rightarrow> Inl TypeError
      | Some r \<Rightarrow>
          (let newRoot = addItemToGroup r parentGroupId (RuleItem (createEmptyRule newId))
           in Inr (s\<lparr>filterConfig := (filterConfig s)\<lparr>cfg_enabled := True, cfg_root := Some newRoot\<rparr>,
                     validation := createValidValidation now\<rparr>)))"

definition addGroup :: "time \<Rightarrow> string \<Rightarrow> string \<Rightarrow> FilterStore \<Rightarrow> js_error + FilterStore" where
  "addGroup now newId parentGroupId s =
     (case cfg_root (filterConfig s) of
        None \<Rightarrow> Inl TypeError
      | Some r \<Rightarrow>
          (let currentDepth = getGroupDepth r parentGroupId 0
           in if MAX_GROUP_DEPTH - 1 \<le> currentDepth then Inr s
              else (let newRoot = addItemToGroup r parentGroupId (GroupItem (createEmptyGroup newId))
                    in Inr (s\<lparr>filterConfig := (filterConfig s)\<lparr>cfg_enabled := True, cfg_root := Some newRoot\<rparr>,
                              validation := createValidValidation now\<rparr>))))"

definition updateRule :: "time \<Rightarrow> string \<Rightarrow> RuleUpdates \<Rightarrow> FilterStore \<Rightarrow> js_error + FilterStore" where
  "updateRule now ruleId updates s =
     (case cfg_root (filterConfig s) of
        None \<Rightarrow> Inl TypeError
      | Some r \<Rightarrow>
          Inr (s\<lparr>filterConfig := (filterConfig s)\<lparr>cfg_root := Some (updateRuleInTree r ruleId updates)\<rparr>,
                 validation := createValidValidation now\<rparr>))"

definition updateGroup :: "time \<Rightarrow> string \<Rightarrow> GroupUpdates \<Rightarrow> FilterStore \<Rightarrow> js_error + FilterStore" where
  "updateGroup now groupId updates s =
     (case cfg_root (filterConfig s) of
        None \<Rightarrow> Inl TypeError
      | Some r \<Rightarrow>
          Inr (s\<lparr>filterConfig := (filterConfig s)\<lparr>cfg_root := Some (updateGroupInTree r groupId updates)\<rparr>,
                 validation := createValidValidation now\<rparr>))"

definition removeItem :: "time \<Rightarrow> string \<Rightarrow> FilterStore \<Rightarrow> js_error + FilterStore" where
  "removeItem now itemId s =
     (case cfg_root (filterConfig s) of
        None \<Rightarrow> Inl TypeError
      | Some r \<Rightarrow>
          if group_id r = itemId then Inr s
          else (let newRoot = removeItemFromTree r itemId; stillHasRules = hasRules newRoot
                in Inr (s\<lparr>filterConfig := (filterConfig s)\<lparr>cfg_root := Some newRoot, cfg_enabled := stillHasRules\<rparr>,
                          validation := createValidValidation now\<rparr>)))"

text \<open>
  \<open>{ ...root, combinator }\<close>: spreading an absent root gives an object without children, which
  the model does not represent; the action is an error there.
\<close>

definition setCombinator :: "LogicOperator \<Rightarrow> FilterStore \<Rightarrow> js_error + FilterStore" where
  "setCombinator c s =
     (case cfg_root (filterConfig s) of
        None \<Rightarrow> Inl TypeError
      | Some (FilterGroup i _ n cs) \<Rightarrow>
          Inr (s\<lparr>filterConfig := (filterConfig s)\<lparr>cfg_root := Some (FilterGroup i c n cs)\<rparr>\<rparr>))"

definition addCondition :: "time \<Rightarrow> FilterCondition \<Rightarrow> FilterStore \<Rightarrow> js_error + FilterStore" where
  "addCondition now condition s =
     (case cfg_root (filterConfig s) of
        None \<Rightarrow> Inl TypeError
      | Some (FilterGroup i c n cs) \<Rightarrow>
          (let newRule = condition_to_rule condition
           in Inr (s\<lparr>filterConfig := (filterConfig s)\<lparr>cfg_enabled := True,
                       cfg_root := Some (FilterGroup i c n (cs @ [RuleItem newRule]))\<rparr>,
                     validation := createValidValidation now\<rparr>)))"

text \<open>\<open>Partial<FilterCondition>\<close>; the keys that are \<open>undefined\<close> are not copied.\<close>

record ConditionUpdates =
  cu_field :: "string option"
  cu_fieldType :: "string option"
  cu_operator :: "FilterOperator option"
  cu_value :: "js_value option"

definition condition_rule_updates :: "ConditionUpdates \<Rightarrow> RuleUpdates" where
  "condition_rule_updates u =
     \<lparr>upd_field = cu_field u, upd_fieldType = cu_fieldType u,
      upd_useArithmeticExpression = None, upd_arithmeticExpression = None,
      upd_operator = cu_operator u,
      upd_value = (case cu_value u of Some Undefined \<Rightarrow> None | v \<Rightarrow> v),
      upd_not = None\<rparr>"

definition updateCondition :: "time \<Rightarrow> string \<Rightarrow> ConditionUpdates \<Rightarrow> FilterStore \<Rightarrow> js_error + FilterStore" where
  "updateCondition now i updates s =
     (case cfg_root (filterConfig s) of
        None \<Rightarrow> Inl TypeError
      | Some r \<Rightarrow>
          (let ruleUpdates = condition_rule_updates updates;
               newRoot = updateRuleInTree r i ruleUpdates
           in Inr (s\<lparr>filterConfig := (filterConfig s)\<lparr>cfg_root := Some newRoot\<rparr>,
                     validation := createValidValidation now\<rparr>)))"

definition removeCondition :: "time \<Rightarrow> string \<Rightarrow> FilterStore \<Rightarrow> js_error + FilterStore" where
  "removeCondition now i s =
     (case cfg_root (filterConfig s) of
        None \<Rightarrow> Inl TypeError
      | Some r \<Rightarrow>
          (let newRoot = removeItemFromTree r i; stillHasRules = hasRules newRoot
           in Inr (s\<lparr>filterConfig := (filterConfig s)\<lparr>cfg_root := Some newRoot, cfg_enabled := stillHasRules\<rparr>,
                     validation := createValidValidation now\<rparr>)))"

definition clearConditions :: "string \<Rightarrow> FilterStore \<Rightarrow> FilterStore" where
  "clearConditions newId s =
     s\<lparr>filterConfig := (filterConfig s)\<lparr>cfg_root := Some (createEmptyRootGroup newId), cfg_enabled := False\<rparr>,
       expressionString := '''',
       backendValidation := \<lparr>bv_status = Idle, bv_error = None\<rparr>\<rparr>"

definition setExpressionString :: "string \<Rightarrow> FilterStore \<Rightarrow> FilterStore" where
  "setExpressionString e s = s\<lparr>expressionString := e\<rparr>"

definition setBackendValidation :: "BackendValidation \<Rightarrow> FilterStore \<Rightarrow> FilterStore" where
  "setBackendValidation v s = s\<lparr>backendValidation := v\<rparr>"

definition getFilterConfig :: "FilterStore \<Rightarrow> FilterConfig" where
  "getFilterConfig s = filterConfig s"

definition setFilterConfig :: "FilterConfig \<Rightarrow> FilterStore \<Rightarrow> FilterStore" where
  "setFilterConfig config s = s\<lparr>filterConfig := config\<rparr>"

definition skipFilter :: "time \<Rightarrow> string \<Rightarrow> FilterStore \<Rightarrow> FilterStore" where
  "skipFilter now newId s =
     s\<lparr>filterConfig := \<lparr>cfg_enabled = False, cfg_root = Some (createEmptyRootGroup newId),
                         legacy_combinator = None, legacy_conditions = None\<rparr>,
       expressionString := '''',
       backendValidation := \<lparr>bv_status = Idle, bv_error = None\<rparr>,
       validation := createValidValidation now\<rparr>"

definition resetFilterStore :: "string \<Rightarrow> FilterStore \<Rightarrow> FilterStore" where
  "resetFilterStore newId s =
     s\<lparr>filterConfig := \<lparr>cfg_enabled = False, cfg_root = Some (createEmptyRootGroup newId),
                         legacy_combinator = None, legacy_conditions = None\<rparr>,
       expressionString := '''',
       backendValidation := initialBackendValidation,
       validation := createInitialValidation\<rparr>"

definition filter_markAsValid :: "time \<Rightarrow> FilterStore \<Rightarrow> FilterStore" where
  "filter_markAsValid now s = s\<lparr>validation := createValidValidation now\<rparr>"

definition filter_markAsInvalidated :: "time \<Rightarrow> string \<Rightarrow> FilterStore \<Rightarrow> FilterStore" where
  "filter_markAsInvalidated now sec s = s\<lparr>validation := createInvalidatedValidation now sec\<rparr>"

definition filter_markAsNotConfigured :: "FilterStore \<Rightarrow> FilterStore" where
  "filter_markAsNotConfigured s = s\<lparr>validation := createInitialValidation\<rparr>"

definition filter_resetValidation :: "FilterStore \<Rightarrow> FilterStore" where
  "filter_resetValidation s = s\<lparr>validation := createInitialValidation\<rparr>"

lemmas filter_action_defs =
  setFilterEnabled_def addRule_def addGroup_def updateRule_def updateGroup_def removeItem_def
  setCombinator_def addCondition_def updateCondition_def removeCondition_def clearConditions_def
  setExpressionString_def setBackendValidation_def setFilterConfig_def skipFilter_def
  resetFilterStore_def filter_markAsValid_def filter_markAsInvalidated_def
  filter_markAsNotConfigured_def filter_resetValidation_def

interpretation filter_slice: validated_slice validation
  "\<lambda>s. (filterConfig s, expressionString s, backendValidation s)"
  filter_markAsValid filter_markAsInvalidated filter_markAsNotConfigured filter_resetValidation
  by unfold_locales (simp_all add: filter_action_defs)

section \<open>The slice as a state machine\<close>

datatype FilterAction =
    SetFilterEnabled bool
  | AddRule string string
  | AddGroup string string
  | UpdateRule string RuleUpdates
  | UpdateGroup string GroupUpdates
  | RemoveItem string
  | SetCombinator LogicOperator
  | AddCondition FilterCondition
  | UpdateCondition string ConditionUpdates
  | RemoveCondition string
  | ClearConditions string
  | SetExpressionString string
  | SetBackendValidation BackendValidation
  | SetFilterConfig FilterConfig
  | SkipFilter string
  | ResetFilterStore string
  | MarkAsValid
  | MarkAsInvalidated string
  | MarkAsNotConfigured
  | ResetValidation

fun filter_step :: "time \<Rightarrow> FilterAction \<Rightarrow> FilterStore \<Rightarrow> js_error + FilterStore" where
  "filter_step now (SetFilterEnabled b) s = Inr (setFilterEnabled b s)"
| "filter_step now (AddRule newId p) s = addRule now newId p s"
| "filter_step now (AddGroup newId p) s = addGroup now newId p s"
| "filter_step now (UpdateRule i u) s = updateRule now i u s"
| "filter_step now (UpdateGroup i u) s = updateGroup now i u s"
| "filter_step now (RemoveItem i) s = removeItem now i s"
| "filter_step now (SetCombinator c) s = setCombinator c s"
| "filter_step now (AddCondition c) s = addCondition now c s"
| "filter_step now (UpdateCondition i u) s = updateCondition now i u s"
| "filter_step now (RemoveCondition i) s = removeCondition now i s"
| "filter_step now (ClearConditions newId) s = Inr (clearConditions newId s)"
| "filter_step now (SetExpressionString e) s = Inr (setExpressionString e s)"
| "filter_step now (SetBackendValidation v) s = Inr (setBackendValidation v s)"
| "filter_step now (SetFilterConfig c) s = Inr (setFilterConfig c s)"
| "filter_step now (SkipFilter newId) s = Inr (skipFilter now newId s)"
| "filter_step now (ResetFilterStore newId) s = Inr (resetFilterStore newId s)"
| "filter_step now MarkAsValid s = Inr (filter_markAsValid now s)"
| "filter_step now (MarkAsInvalidated sec) s = Inr (filter_markAsInvalidated now sec s)"
| "filter_step now MarkAsNotConfigured s = Inr (filter_markAsNotConfigured s)"
| "filter_step now ResetValidation s = Inr (filter_resetValidation s)"

text \<open>
  What the caller owes: ids of new items are fresh (a \<open>uuidv4()\<close> never repeats an id of the
  tree), and a configuration put in from outside is well-formed.
\<close>

definition wf_config :: "FilterConfig \<Rightarrow> bool" where
  "wf_config c \<longleftrightarrow> (\<exists>g. cfg_root c = Some g \<and> wf_tree g)"

definition store_ids :: "FilterStore \<Rightarrow> string set" where
  "store_ids s = (case cfg_root (filterConfig s) of None \<Rightarrow> {} | Some g \<Rightarrow> set (group_ids g))"

fun admissible :: "FilterAction \<Rightarrow> FilterStore \<Rightarrow> bool" where
  "admissible (AddRule newId p) s \<longleftrightarrow> newId \<notin> store_ids s"
| "admissible (AddGroup newId p) s \<longleftrightarrow> newId \<notin> store_ids s"
| "admissible (AddCondition c) s \<longleftrightarrow> cond_id c \<notin> store_ids s"
| "admissible (SetFilterConfig c) s \<longleftrightarrow> wf_config c"
| "admissible _ s \<longleftrightarrow> True"

inductive filter_reachable :: "FilterStore \<Rightarrow> bool" where
  start: "filter_reachable (initialFilterStore newId)"
| step: "filter_reachable s \<Longrightarrow> admissible a s \<Longrightarrow> filter_step now a s = Inr t \<Longrightarrow> filter_reachable t"

definition wf_store :: "FilterStore \<Rightarrow> bool" where
  "wf_store s \<longleftrightarrow> wf_config (filterConfig s) \<and> coherent (validation s)"

section \<open>Lemmas\<close>

lemma wf_config_iff [simp]: "cfg_root c = Some g \<Longrightarrow> wf_config c \<longleftrightarrow> wf_tree g"
  by (auto simp: wf_config_def)

lemma wf_root_combinator: "wf_tree (FilterGroup i c n cs) \<Longrightarrow> wf_tree (FilterGroup i c' n' cs)"
  by (simp add: wf_tree_defs)

lemma addCondition_as_addItem:
  "FilterGroup i c n (cs @ [it]) = addItemToGroup (FilterGroup i c n cs) i it"
  by simp

lemma condition_to_rule_id [simp]: "rule_id (condition_to_rule c) = cond_id c"
  by (simp add: condition_to_rule_def)

lemma createEmptyRule_id [simp]: "rule_id (createEmptyRule i) = i"
  by (simp add: createEmptyRule_def)

lemma wf_store_initial: "wf_store (initialFilterStore i)"
  by (auto simp: wf_store_def initialFilterStore_def initialFilterConfig_def)

text \<open>From a well-formed store an admissible action succeeds, in a well-formed store.\<close>

lemma filter_step_wf:
  assumes "wf_store s" and "admissible a s"
  shows "\<exists>t. filter_step now a s = Inr t \<and> wf_store t"
proof -
  obtain g where g: "cfg_root (filterConfig s) = Some g" "wf_tree g" and v: "coherent (validation s)"
    using assms(1) by (auto simp: wf_store_def wf_config_def)
  obtain i c n cs where gdef: "g = FilterGroup i c n cs" by (cases g)
  have fresh: "x \<notin> set (group_ids g)" if "x \<notin> store_ids s" for x
    using that g by (simp add: store_ids_def)
  show ?thesis
  proof (cases a)
    case (AddRule newId p)
    with g v fresh assms(2) show ?thesis by (auto simp: filter_action_defs wf_store_def Let_def)
  next
    case (AddGroup newId p)
    with g v fresh assms(2) show ?thesis by (auto simp: filter_action_defs wf_store_def Let_def)
  next
    case (AddCondition cnd)
    with assms(2) fresh have "wf_tree (addItemToGroup g i (RuleItem (condition_to_rule cnd)))"
      using g by auto
    with AddCondition g v gdef show ?thesis
      by (auto simp: filter_action_defs wf_store_def Let_def)
  next
    case (SetCombinator k)
    with g v gdef show ?thesis
      by (auto simp: filter_action_defs wf_store_def dest: wf_root_combinator)
  qed (use g v assms(2) in \<open>auto simp: filter_action_defs wf_store_def Let_def initialBackendValidation_def\<close>)
qed

lemma filter_reachable_wf: "filter_reachable s \<Longrightarrow> wf_store s"
proof (induction rule: filter_reachable.induct)
  case (start newId)
  show ?case by (rule wf_store_initial)
next
  case (step s a now t)
  then show ?case using filter_step_wf [of s a now] by auto
qed

section \<open>Properties\<close>

text \<open>
  C5. In every state the filter builder can reach by its actions the configuration has a
  root whose tree has no repeated id and at most three levels of groups, the validation state is
  coherent, and no admissible action throws.
\<close>

theorem filter_builder_invariant:
  assumes "filter_reachable s"
  shows "wf_config (filterConfig s) \<and> coherent (validation s) \<and>
    (admissible a s \<longrightarrow> (\<exists>t. filter_step now a s = Inr t))"
  using filter_reachable_wf [OF assms] filter_step_wf [of s a now] by (auto simp: wf_store_def)

theorem filter_builder_invariant_witness:
  "\<exists>s. cfg_root (filterConfig s) = Some (FilterGroup ''r'' And False [GroupItem (FilterGroup ''g'' And False [])]) \<and>
     wf_config (filterConfig s) \<and> coherent (validation s) \<and>
     (\<exists>t. filter_step 6 (AddGroup ''h'' ''g'') s = Inr t)"
proof -
  define s where "s = projr (filter_step 5 (AddGroup ''g'' ''r'') (initialFilterStore ''r''))"
  have st: "filter_step 5 (AddGroup ''g'' ''r'') (initialFilterStore ''r'') = Inr s"
    by (simp add: s_def filter_action_defs initialFilterStore_def initialFilterConfig_def
        createEmptyRootGroup_def MAX_GROUP_DEPTH_def)
  have adm: "admissible (AddGroup ''g'' ''r'') (initialFilterStore ''r'')"
    by (simp add: store_ids_def initialFilterStore_def initialFilterConfig_def createEmptyRootGroup_def)
  have r: "filter_reachable s"
    by (rule filter_reachable.step [OF filter_reachable.start adm st])
  have root: "cfg_root (filterConfig s) =
      Some (FilterGroup ''r'' And False [GroupItem (FilterGroup ''g'' And False [])])"
    by (simp add: s_def filter_action_defs initialFilterStore_def initialFilterConfig_def
        createEmptyRootGroup_def createEmptyGroup_def MAX_GROUP_DEPTH_def)
  have "admissible (AddGroup ''h'' ''g'') s" using root by (simp add: store_ids_def)
  with filter_builder_invariant [OF r] root show ?thesis by blast
qed

text \<open>
  \<open>addGroup\<close> on a well-formed tree: at the deepest level it returns the state unchanged;
  elsewhere the filter is enabled and valid, and the tree gains exactly the new group, as a child
  of the parent, when the parent exists and is unchanged when it does not; no rule is touched,
  and the depth bound still holds.
\<close>

theorem addGroup_spec:
  assumes "cfg_root (filterConfig s) = Some g" and "wf_tree g" and "newId \<notin> set (group_ids g)"
  shows "\<exists>t g'. addGroup now newId p s = Inr t \<and> cfg_root (filterConfig t) = Some g' \<and> wf_tree g' \<and>
    mset (getAllRules g') = mset (getAllRules g) \<and>
    (if MAX_GROUP_DEPTH - 1 \<le> getGroupDepth g p 0 then t = s
     else cfg_enabled (filterConfig t) \<and> validation t = createValidValidation now \<and>
       mset (group_ids g') = mset (group_ids g) + (if p \<in> set (subgroup_ids g) then {#newId#} else {#}) \<and>
       (p \<in> set (subgroup_ids g) \<longrightarrow> (\<exists>q. findParentGroup g' newId = Some q \<and> group_id q = p)))"
proof (cases "MAX_GROUP_DEPTH - 1 \<le> getGroupDepth g p 0")
  case True
  with assms show ?thesis by (simp add: addGroup_def)
next
  case False
  let ?g' = "addItemToGroup g p (GroupItem (createEmptyGroup newId))"
  have "wf_tree ?g'" using assms False by (intro wf_addGroup) auto
  moreover have "mset (getAllRules ?g') = mset (getAllRules g)"
    using assms by (cases "p \<in> set (subgroup_ids g)")
      (simp_all add: addItem_rules tree_simps wf_tree_def createEmptyGroup_def)
  moreover have "mset (group_ids ?g') =
      mset (group_ids g) + (if p \<in> set (subgroup_ids g) then {#newId#} else {#})"
    using assms by (simp add: addItem_ids tree_simps wf_tree_def createEmptyGroup_def)
  moreover have "\<exists>q. findParentGroup ?g' newId = Some q \<and> group_id q = p" if "p \<in> set (subgroup_ids g)"
    using addItem_parent(1) [of g p "GroupItem (createEmptyGroup newId)"] assms(2,3) that
    by (simp add: createEmptyGroup_def wf_tree_def)
  ultimately show ?thesis using assms(1) False by (simp add: addGroup_def)
qed

theorem addGroup_spec_witness:
  "\<exists>t g'. addGroup 1 ''h'' ''g'' (setFilterConfig (\<lparr>cfg_enabled = True,
      cfg_root = Some (FilterGroup ''r'' And False [GroupItem (FilterGroup ''g'' Or False [])]),
      legacy_combinator = None, legacy_conditions = None\<rparr>) (initialFilterStore ''r'')) = Inr t \<and>
    cfg_root (filterConfig t) = Some g' \<and> wf_tree g' \<and> mset (group_ids g') = {#''r'', ''g'', ''h''#}"
  using addGroup_spec [of "setFilterConfig (\<lparr>cfg_enabled = True,
      cfg_root = Some (FilterGroup ''r'' And False [GroupItem (FilterGroup ''g'' Or False [])]),
      legacy_combinator = None, legacy_conditions = None\<rparr>) (initialFilterStore ''r'')"
      "FilterGroup ''r'' And False [GroupItem (FilterGroup ''g'' Or False [])]" "''h''" 1 "''g''"]
  by (auto simp: setFilterConfig_def wf_tree_defs Let_def)

text \<open>
  \<open>removeItem\<close> with an id other than the root's: the id is gone from the whole tree, no
  other id appears, the filter stays enabled exactly when rules remain, and when the id is
  not a group's, exactly the rules with that id are removed.
\<close>

theorem removeItem_spec:
  assumes "cfg_root (filterConfig s) = Some g" and "group_id g \<noteq> i"
  shows "\<exists>t g'. removeItem now i s = Inr t \<and> cfg_root (filterConfig t) = Some g' \<and>
    i \<notin> set (group_ids g') \<and> set (group_ids g') \<subseteq> set (group_ids g) \<and>
    (cfg_enabled (filterConfig t) \<longleftrightarrow> getAllRules g' \<noteq> []) \<and>
    (i \<notin> set (subgroup_ids g) \<longrightarrow> getAllRules g' = filter (\<lambda>r. rule_id r \<noteq> i) (getAllRules g))"
proof -
  let ?g' = "removeItemFromTree g i"
  have "i \<notin> set (group_ids ?g')"
    using removeItem_gone(1) [of i g] assms(2) by (cases g) simp
  then show ?thesis using assms removeItem_subset(1) [of g i] removeItem_rules(1) [of i g]
    by (simp add: removeItem_def Let_def hasRules_def tree_simps)
qed

theorem removeItem_spec_witness:
  "\<exists>t. removeItem 1 ''a'' (setFilterConfig (\<lparr>cfg_enabled = True,
      cfg_root = Some (FilterGroup ''r'' And False [RuleItem (createEmptyRule ''a'')]),
      legacy_combinator = None, legacy_conditions = None\<rparr>) (initialFilterStore ''r'')) = Inr t \<and>
    \<not> cfg_enabled (filterConfig t)"
  using removeItem_spec [of "setFilterConfig (\<lparr>cfg_enabled = True,
      cfg_root = Some (FilterGroup ''r'' And False [RuleItem (createEmptyRule ''a'')]),
      legacy_combinator = None, legacy_conditions = None\<rparr>) (initialFilterStore ''r'')"
      "FilterGroup ''r'' And False [RuleItem (createEmptyRule ''a'')]" "''a''" 1]
  by (auto simp: setFilterConfig_def)

text \<open>
  \<open>updateRule\<close> refines a map over the flat list of rules: the rules of the tree after
  the update are the rules before it, in the same order, with the updates applied to those
  with the given id; the groups and ids of the tree do not change.
\<close>

theorem updateRule_refines_map:
  assumes "cfg_root (filterConfig s) = Some g"
  shows "\<exists>t g'. updateRule now i u s = Inr t \<and> cfg_root (filterConfig t) = Some g' \<and>
    getAllRules g' = map (\<lambda>r. if rule_id r = i then apply_rule_updates r u else r) (getAllRules g) \<and>
    group_ids g' = group_ids g \<and> group_height g' = group_height g \<and>
    cfg_enabled (filterConfig t) = cfg_enabled (filterConfig s)"
  using assms by (simp add: updateRule_def tree_simps)

theorem updateRule_refines_map_witness:
  "\<exists>t g'. updateRule 1 ''a'' (condition_rule_updates \<lparr>cu_field = Some ''x'', cu_fieldType = None,
       cu_operator = Some Gt, cu_value = None\<rparr>) (setFilterConfig (\<lparr>cfg_enabled = True,
      cfg_root = Some (FilterGroup ''r'' And False [RuleItem (createEmptyRule ''a''), RuleItem (createEmptyRule ''b'')]),
      legacy_combinator = None, legacy_conditions = None\<rparr>) (initialFilterStore ''r'')) = Inr t \<and>
    cfg_root (filterConfig t) = Some g' \<and>
    map rule_field (getAllRules g') = [''x'', ''''] \<and> map rule_operator (getAllRules g') = [Gt, Eq]"
  using updateRule_refines_map [of "setFilterConfig (\<lparr>cfg_enabled = True,
      cfg_root = Some (FilterGroup ''r'' And False [RuleItem (createEmptyRule ''a''), RuleItem (createEmptyRule ''b'')]),
      legacy_combinator = None, legacy_conditions = None\<rparr>) (initialFilterStore ''r'')"
      "FilterGroup ''r'' And False [RuleItem (createEmptyRule ''a''), RuleItem (createEmptyRule ''b'')]" 1 "''a''"
      "condition_rule_updates \<lparr>cu_field = Some ''x'', cu_fieldType = None, cu_operator = Some Gt, cu_value = None\<rparr>"]
  by (auto simp: setFilterConfig_def apply_rule_updates_def condition_rule_updates_def opt_or_def
      createEmptyRule_def)

text \<open>
  Migration of a legacy configuration always yields a tree, keeps a configuration that
  has one, is idempotent, and puts exactly the legacy conditions, in order, under the root.
\<close>

theorem migrate_spec:
  "cfg_root (migrateToTreeStructure c newId) \<noteq> None \<and>
   migrateToTreeStructure (migrateToTreeStructure c newId) newId' = migrateToTreeStructure c newId \<and>
   (cfg_root c = None \<longrightarrow>
     (\<exists>g. cfg_root (migrateToTreeStructure c newId) = Some g \<and>
        getAllRules g = map condition_to_rule (opt_or (legacy_conditions c) []) \<and>
        combinator g = opt_or (legacy_combinator c) And))"
proof -
  have rules: "getAllRules_loop (map (RuleItem \<circ> condition_to_rule) cs) = map condition_to_rule cs" for cs
    by (induction cs) simp_all
  show ?thesis
    by (auto simp: migrateToTreeStructure_def Let_def rules split: option.splits)
qed

theorem migrate_spec_witness:
  "getAllRules (the (cfg_root (migrateToTreeStructure \<lparr>cfg_enabled = True, cfg_root = None,
       legacy_combinator = Some Or,
       legacy_conditions = Some [\<lparr>cond_id = ''a'', cond_field = ''x'', cond_fieldType = ''int'',
         cond_operator = Gt, cond_value = Num (Fin 3 0)\<rparr>]\<rparr> ''r'')))
   = [condition_to_rule \<lparr>cond_id = ''a'', cond_field = ''x'', cond_fieldType = ''int'',
         cond_operator = Gt, cond_value = Num (Fin 3 0)\<rparr>]"
  using migrate_spec [of "\<lparr>cfg_enabled = True, cfg_root = None, legacy_combinator = Some Or,
       legacy_conditions = Some [\<lparr>cond_id = ''a'', cond_field = ''x'', cond_fieldType = ''int'',
         cond_operator = Gt, cond_value = Num (Fin 3 0)\<rparr>]\<rparr>" "''r''" "''q''"]
  by (auto simp: opt_or_def)

text \<open>
  Lookups in the tree: \<open>findItemById\<close> finds an item exactly when the id occurs and the
  item it returns has that id; \<open>findParentGroup\<close> finds a group exactly when the id occurs below
  the root, and the group it returns has a child with that id.
\<close>

theorem tree_lookup_spec:
  "(findItemById g i = None \<longleftrightarrow> i \<notin> set (group_ids g)) \<and>
   (\<forall>it. findItemById g i = Some it \<longrightarrow> item_id it = i) \<and>
   (findParentGroup g i = None \<longleftrightarrow> i \<notin> set (items_ids (children g))) \<and>
   (\<forall>p. findParentGroup g i = Some p \<longrightarrow> i \<in> item_id ` set (children p))"
  by (auto simp: findItemById_None_iff findItemById_Some findParentGroup_None_iff
      dest: findParentGroup_Some(1))

theorem tree_lookup_spec_witness:
  "item_id (the (findItemById (FilterGroup ''r'' And False [RuleItem (createEmptyRule ''a'')]) ''a'')) = ''a'' \<and>
   ''a'' \<in> item_id ` set (children (the (findParentGroup (FilterGroup ''r'' And False [RuleItem (createEmptyRule ''a'')]) ''a'')))"
  using tree_lookup_spec [of "FilterGroup ''r'' And False [RuleItem (createEmptyRule ''a'')]" "''a''"]
  by (simp add: createEmptyRule_def)

end
