(* ===== verification/Filter_Expr.thy ===== *)
theory Filter_Expr
  imports Filter_Tree
begin

text \<open>
  Serialisation of the filter tree to the expression language of the backend
  (ui/src/modules/filter/utils.ts): the operator table, value formatting, arithmetic
  expressions, rules, groups and the whole configuration, and the display string of an
  arithmetic expression.
\<close>

section \<open>The operator table\<close>

record OperatorDefinition =
  op_value :: FilterOperator
  op_label :: string
  exprSymbol :: string
  supportedTypes :: "string list"

definition ALL_TYPES :: "string list" where
  "ALL_TYPES = [''string'', ''int'', ''uint'', ''float'', ''bool'']"

definition NUMERIC_TYPES :: "string list" where
  "NUMERIC_TYPES = [''int'', ''uint'', ''float'']"

definition opdef :: "FilterOperator \<Rightarrow> string \<Rightarrow> string \<Rightarrow> string list \<Rightarrow> OperatorDefinition" where
  "opdef v l e t = \<lparr>op_value = v, op_label = l, exprSymbol = e, supportedTypes = t\<rparr>"

definition FILTER_OPERATORS :: "OperatorDefinition list" where
  "FILTER_OPERATORS =
     [opdef Eq ''equals'' ''=='' ALL_TYPES,
      opdef Neq ''not equals'' ''!='' ALL_TYPES,
      opdef Gt ''greater than'' ''>'' NUMERIC_TYPES,
      opdef Gte ''greater than or equals'' ''>='' NUMERIC_TYPES,
      opdef Lt ''less than'' ''<'' NUMERIC_TYPES,
      opdef Lte ''less than or equals'' ''<='' NUMERIC_TYPES,
      opdef In ''in'' ''in'' ALL_TYPES,
      opdef NotIn ''not in'' ''not in'' ALL_TYPES,
      opdef IsNull ''is null'' ''== nil'' ALL_TYPES,
      opdef IsNotNull ''is not null'' ''!= nil'' ALL_TYPES]"

definition getOperatorsForType :: "string \<Rightarrow> OperatorDefinition list" where
  "getOperatorsForType fieldType = filter (\<lambda>d. fieldType \<in> set (supportedTypes d)) FILTER_OPERATORS"

definition find_operator :: "FilterOperator \<Rightarrow> OperatorDefinition option" where
  "find_operator oper = List.find (\<lambda>d. op_value d = oper) FILTER_OPERATORS"

definition isNumericType :: "string \<Rightarrow> bool" where
  "isNumericType fieldType \<longleftrightarrow> fieldType \<in> set NUMERIC_TYPES"

definition isNoValueOperator :: "FilterOperator \<Rightarrow> bool" where
  "isNoValueOperator oper \<longleftrightarrow> oper = IsNull \<or> oper = IsNotNull"

definition isArrayValueOperator :: "FilterOperator \<Rightarrow> bool" where
  "isArrayValueOperator oper \<longleftrightarrow> oper = In \<or> oper = NotIn"

definition isBooleanType :: "string \<Rightarrow> bool" where
  "isBooleanType fieldType \<longleftrightarrow> fieldType = ''bool''"

definition isStringType :: "string \<Rightarrow> bool" where
  "isStringType fieldType \<longleftrightarrow> fieldType = ''string''"

lemmas type_test_defs = isNumericType_def NUMERIC_TYPES_def isBooleanType_def isStringType_def

section \<open>Values\<close>

definition quote_string :: "string \<Rightarrow> string" where
  "quote_string s = [dquote] @ replace_all dquote [backslash, dquote] s @ [dquote]"

definition formatValueForExpr :: "js_value \<Rightarrow> string \<Rightarrow> string" where
  "formatValueForExpr v fieldType =
     (if isBooleanType fieldType
      then (if toLowerCase (js_String v) = ''true'' then ''true'' else ''false'')
      else if isNumericType fieldType then js_String v
      else quote_string (js_String v))"

definition split_items :: "js_value \<Rightarrow> string list" where
  "split_items v = filter (\<lambda>item. item \<noteq> []) (map trim (split_on (CHR '','') (js_String v)))"

definition formatArrayValueForExpr :: "js_value \<Rightarrow> string \<Rightarrow> string" where
  "formatArrayValueForExpr v fieldType =
     (let items = split_items v;
          formattedItems = map (\<lambda>item.
            if isBooleanType fieldType then (if toLowerCase item = ''true'' then ''true'' else ''false'')
            else if isNumericType fieldType then item
            else quote_string item) items
      in ''['' @ join '', '' formattedItems @ '']'')"

section \<open>Arithmetic expressions\<close>

fun operator_symbol :: "ArithmeticOperator \<Rightarrow> string" where
  "operator_symbol Plus = ''+''"
| "operator_symbol Minus = ''-''"
| "operator_symbol Times = ''*''"
| "operator_symbol Divide = ''/''"
| "operator_symbol Modulo = ''%''"

definition is_zero :: "js_number \<Rightarrow> bool" where
  "is_zero x = (case x of Fin m k \<Rightarrow> m = 0 | _ \<Rightarrow> False)"

fun isSyntheticSingleOperandExpression :: "ArithmeticExpressionNode \<Rightarrow> bool" where
  "isSyntheticSingleOperandExpression (ExprNode i l oper (Operand (LiteralOperand v))) \<longleftrightarrow>
     oper = Plus \<and> is_zero v"
| "isSyntheticSingleOperandExpression _ \<longleftrightarrow> False"

text \<open>\<open>arithmeticOperandToExpr\<close> on a plain operand, then on the union.\<close>

fun operandToExpr :: "ArithmeticOperand \<Rightarrow> string" where
  "operandToExpr (FieldOperand field _) = field"
| "operandToExpr (FunctionOperand f args) = f @ ''('' @ join '', '' (map operandToExpr args) @ '')''"
| "operandToExpr (LiteralOperand v) = number_to_string v"

fun arithmeticOperandToExpr :: "OperandOrNode \<Rightarrow> string"
  and arithmeticExpressionToExpr :: "ArithmeticExpressionNode \<Rightarrow> string" where
  "arithmeticOperandToExpr (Node e) = arithmeticExpressionToExpr e"
| "arithmeticOperandToExpr (Operand v) = operandToExpr v"
| "arithmeticExpressionToExpr (ExprNode i l oper r) =
     (if isSyntheticSingleOperandExpression (ExprNode i l oper r) then arithmeticOperandToExpr l
      else ''('' @ arithmeticOperandToExpr l @ '' '' @ operator_symbol oper @ '' '' @
           arithmeticOperandToExpr r @ '')'')"

subsection \<open>Display\<close>

fun OPERATOR_PRECEDENCE :: "ArithmeticOperator \<Rightarrow> nat" where
  "OPERATOR_PRECEDENCE Plus = 1"
| "OPERATOR_PRECEDENCE Minus = 1"
| "OPERATOR_PRECEDENCE Times = 2"
| "OPERATOR_PRECEDENCE Divide = 2"
| "OPERATOR_PRECEDENCE Modulo = 2"

definition ASSOCIATIVE_OPERATORS :: "ArithmeticOperator list" where
  "ASSOCIATIVE_OPERATORS = [Plus, Times]"

fun OPERATOR_DISPLAY_SYMBOLS :: "ArithmeticOperator \<Rightarrow> string" where
  "OPERATOR_DISPLAY_SYMBOLS Plus = ''+''"
| "OPERATOR_DISPLAY_SYMBOLS Minus = ''-''"
| "OPERATOR_DISPLAY_SYMBOLS Times = [CHR 0xD7]"
| "OPERATOR_DISPLAY_SYMBOLS Divide = [CHR 0xF7]"
| "OPERATOR_DISPLAY_SYMBOLS Modulo = ''%''"

fun operandToDisplayString :: "ArithmeticOperand \<Rightarrow> string" where
  "operandToDisplayString (FieldOperand field _) = field"
| "operandToDisplayString (FunctionOperand f args) =
     f @ ''('' @ join '', '' (map operandToDisplayString args) @ '')''"
| "operandToDisplayString (LiteralOperand v) = number_to_string v"

text \<open>The parenthesis rule: the cases of the code, in its order.\<close>

definition needs_parens :: "ArithmeticOperator \<Rightarrow> ArithmeticOperator option \<Rightarrow> bool \<Rightarrow> bool" where
  "needs_parens currentOp parentOperator isRightOperand =
     (case parentOperator of
        None \<Rightarrow> False
      | Some parent \<Rightarrow>
          if currentOp = parent \<and> currentOp \<in> set ASSOCIATIVE_OPERATORS then False
          else if OPERATOR_PRECEDENCE currentOp < OPERATOR_PRECEDENCE parent then True
          else OPERATOR_PRECEDENCE currentOp = OPERATOR_PRECEDENCE parent \<and> isRightOperand \<and>
               parent \<notin> set ASSOCIATIVE_OPERATORS)"

fun arithmeticOperandToDisplayString :: "OperandOrNode \<Rightarrow> ArithmeticOperator option \<Rightarrow> bool \<Rightarrow> string"
  and arithmeticExpressionToDisplayString ::
    "ArithmeticExpressionNode \<Rightarrow> ArithmeticOperator option \<Rightarrow> bool \<Rightarrow> string" where
  "arithmeticOperandToDisplayString (Node e) parentOperator isRightOperand =
     arithmeticExpressionToDisplayString e parentOperator isRightOperand"
| "arithmeticOperandToDisplayString (Operand v) parentOperator isRightOperand = operandToDisplayString v"
| "arithmeticExpressionToDisplayString (ExprNode i l oper r) parentOperator isRightOperand =
     (if isSyntheticSingleOperandExpression (ExprNode i l oper r)
      then arithmeticOperandToDisplayString l (Some oper) False
      else let leftStr = arithmeticOperandToDisplayString l (Some oper) False;
               rightStr = arithmeticOperandToDisplayString r (Some oper) True;
               innerExpr = leftStr @ '' '' @ OPERATOR_DISPLAY_SYMBOLS oper @ '' '' @ rightStr
           in if needs_parens oper parentOperator isRightOperand then ''('' @ innerExpr @ '')''
              else innerExpr)"

subsection \<open>Completeness\<close>

fun isOperandComplete :: "ArithmeticOperand \<Rightarrow> bool" where
  "isOperandComplete (LiteralOperand _) \<longleftrightarrow> True"
| "isOperandComplete (FieldOperand field _) \<longleftrightarrow> field \<noteq> []"
| "isOperandComplete (FunctionOperand f args) \<longleftrightarrow> f \<noteq> [] \<and> list_all isOperandComplete args"

fun isArithmeticOperandComplete :: "OperandOrNode \<Rightarrow> bool"
  and isExprNodeComplete :: "ArithmeticExpressionNode \<Rightarrow> bool" where
  "isArithmeticOperandComplete (Node e) \<longleftrightarrow> isExprNodeComplete e"
| "isArithmeticOperandComplete (Operand v) \<longleftrightarrow> isOperandComplete v"
| "isExprNodeComplete (ExprNode i l oper r) \<longleftrightarrow>
     isArithmeticOperandComplete l \<and> isArithmeticOperandComplete r"

definition isArithmeticExpressionComplete :: "ArithmeticExpressionNode option \<Rightarrow> bool" where
  "isArithmeticExpressionComplete e = (case e of None \<Rightarrow> False | Some n \<Rightarrow> isExprNodeComplete n)"

definition getArithmeticExpressionType :: string where
  "getArithmeticExpressionType = ''float64''"

section \<open>Rules\<close>

definition rule_left_side :: "FilterRule \<Rightarrow> string" where
  "rule_left_side rule =
     (if useArithmeticExpression rule
      then (case arithmeticExpression rule of
              Some e \<Rightarrow> arithmeticExpressionToExpr e | None \<Rightarrow> rule_field rule)
      else rule_field rule)"

definition rule_value_type :: "FilterRule \<Rightarrow> string" where
  "rule_value_type rule =
     (if useArithmeticExpression rule \<and> arithmeticExpression rule \<noteq> None
      then getArithmeticExpressionType else rule_fieldType rule)"

definition comparison_expr :: "FilterOperator \<Rightarrow> string \<Rightarrow> string \<Rightarrow> js_value \<Rightarrow> string \<Rightarrow> string" where
  "comparison_expr oper symbol leftSide v valueType =
     (if isNoValueOperator oper then leftSide @ '' '' @ symbol
      else if isArrayValueOperator oper
      then leftSide @ '' '' @ symbol @ '' '' @ formatArrayValueForExpr v valueType
      else leftSide @ '' '' @ symbol @ '' '' @ formatValueForExpr v valueType)"

definition ruleToExpr :: "FilterRule \<Rightarrow> js_error + string" where
  "ruleToExpr rule =
     (case find_operator (rule_operator rule) of
        None \<Rightarrow> Inl UnknownOperator
      | Some d \<Rightarrow>
          (let leftSide = rule_left_side rule;
               valueType = rule_value_type rule;
               expr = comparison_expr (rule_operator rule) (exprSymbol d) leftSide (rule_value rule) valueType
           in Inr (if rule_not rule then ''!('' @ expr @ '')'' else expr)))"

definition conditionToExpr :: "FilterCondition \<Rightarrow> js_error + string" where
  "conditionToExpr c =
     (case find_operator (cond_operator c) of
        None \<Rightarrow> Inl UnknownOperator
      | Some d \<Rightarrow> Inr (comparison_expr (cond_operator c) (exprSymbol d) (cond_field c) (cond_value c) (cond_fieldType c)))"

definition has_value :: "js_value \<Rightarrow> bool" where
  "has_value v \<longleftrightarrow> v \<noteq> Undefined \<and> v \<noteq> Str ''''"

definition isRuleComplete :: "FilterRule \<Rightarrow> bool" where
  "isRuleComplete rule =
     (let hasLeftSide = (if useArithmeticExpression rule
                         then isArithmeticExpressionComplete (arithmeticExpression rule)
                         else rule_field rule \<noteq> [])
      in if isNoValueOperator (rule_operator rule) then hasLeftSide
         else hasLeftSide \<and> has_value (rule_value rule))"

section \<open>Groups\<close>

fun combinator_symbol :: "LogicOperator \<Rightarrow> string" where
  "combinator_symbol And = ''and''"
| "combinator_symbol Or = ''or''"

text \<open>How a group puts the expressions of its children together.\<close>

definition combine_group :: "LogicOperator \<Rightarrow> bool \<Rightarrow> string list \<Rightarrow> string" where
  "combine_group comb neg expressions =
     (if expressions = [] then ''''
      else let result = (case expressions of
                           [e] \<Rightarrow> e
                         | _ \<Rightarrow> ''('' @ join ('' '' @ combinator_symbol comb @ '' '') expressions @ '')'')
           in if neg then ''!('' @ result @ '')'' else result)"

fun groupToExpr :: "FilterGroup \<Rightarrow> js_error + string"
  and groupToExpr_loop :: "FilterItem list \<Rightarrow> js_error + string list" where
  "groupToExpr (FilterGroup i c n cs) =
     (case groupToExpr_loop cs of Inl e \<Rightarrow> Inl e | Inr expressions \<Rightarrow> Inr (combine_group c n expressions))"
| "groupToExpr_loop [] = Inr []"
| "groupToExpr_loop (RuleItem r # cs) =
     (if isRuleComplete r
      then case ruleToExpr r of
             Inl e \<Rightarrow> Inl e
           | Inr s \<Rightarrow> (case groupToExpr_loop cs of Inl e \<Rightarrow> Inl e | Inr ss \<Rightarrow> Inr (s # ss))
      else groupToExpr_loop cs)"
| "groupToExpr_loop (GroupItem g # cs) =
     (case groupToExpr g of
        Inl e \<Rightarrow> Inl e
      | Inr s \<Rightarrow> if s = [] then groupToExpr_loop cs
                else (case groupToExpr_loop cs of Inl e \<Rightarrow> Inl e | Inr ss \<Rightarrow> Inr (s # ss)))"

fun sequence :: "('e + 'a) list \<Rightarrow> 'e + 'a list" where
  "sequence [] = Inr []"
| "sequence (Inl e # xs) = Inl e"
| "sequence (Inr x # xs) = (case sequence xs of Inl e \<Rightarrow> Inl e | Inr ys \<Rightarrow> Inr (x # ys))"

definition toExprString :: "FilterConfig \<Rightarrow> js_error + string" where
  "toExprString config =
     (if \<not> cfg_enabled config then Inr ''''
      else case cfg_root config of
        Some g \<Rightarrow> groupToExpr g
      | None \<Rightarrow>
          (case legacy_conditions config of
             None \<Rightarrow> Inr ''''
           | Some conds \<Rightarrow>
               (case sequence (map conditionToExpr
                        (filter (\<lambda>c. cond_field c \<noteq> [] \<and> has_value (cond_value c)) conds)) of
                  Inl e \<Rightarrow> Inl e
                | Inr expressions \<Rightarrow>
                    Inr (join ('' '' @ combinator_symbol (opt_or (legacy_combinator config) And) @ '' '')
                          expressions))))"

section \<open>Lemmas\<close>

lemma find_operator_total: "\<exists>d. find_operator oper = Some d"
  by (cases oper) (auto simp: find_operator_def FILTER_OPERATORS_def opdef_def)

text \<open>The text of a rule before a NOT is put around it.\<close>

definition rule_comparison :: "FilterRule \<Rightarrow> string" where
  "rule_comparison rule =
     comparison_expr (rule_operator rule) (exprSymbol (the (find_operator (rule_operator rule))))
       (rule_left_side rule) (rule_value rule) (rule_value_type rule)"

lemma ruleToExpr_eq:
  "ruleToExpr r = Inr (if rule_not r then ''!('' @ rule_comparison r @ '')'' else rule_comparison r)"
  using find_operator_total [of "rule_operator r"]
  by (auto simp: ruleToExpr_def rule_comparison_def Let_def)

lemma comparison_expr_nonempty [simp]: "comparison_expr oper symbol l v t \<noteq> []"
  by (simp add: comparison_expr_def)

lemma rule_comparison_nonempty [simp]: "rule_comparison r \<noteq> []" "[] \<noteq> rule_comparison r"
  using comparison_expr_nonempty by (metis rule_comparison_def)+

lemma ruleToExpr_nonempty: "ruleToExpr r = Inr s \<Longrightarrow> s \<noteq> []"
  by (auto simp: ruleToExpr_eq split: if_splits)

lemma join_Nil_iff: "[] \<notin> set ss \<Longrightarrow> join sep ss = [] \<longleftrightarrow> ss = []"
  by (induction sep ss rule: join.induct) auto

lemma combine_group_Nil_iff: "[] \<notin> set ss \<Longrightarrow> combine_group c n ss = [] \<longleftrightarrow> ss = []"
  by (auto simp: combine_group_def Let_def split: list.splits)

text \<open>Serialisation never throws, and is empty exactly when no rule is complete.\<close>

lemma groupToExpr_shape:
  "\<exists>s. groupToExpr g = Inr s \<and> (s = [] \<longleftrightarrow> (\<forall>r \<in> set (getAllRules g). \<not> isRuleComplete r))"
  "\<exists>ss. groupToExpr_loop cs = Inr ss \<and> [] \<notin> set ss \<and>
     (ss = [] \<longleftrightarrow> (\<forall>r \<in> set (getAllRules_loop cs). \<not> isRuleComplete r))"
proof (induction g and cs rule: filter_tree_induct)
  case (Group i c n cs)
  then show ?case by (auto simp: combine_group_Nil_iff)
next
  case (Rule r cs)
  then show ?case by (auto simp: ruleToExpr_eq)
next
  case (Sub g cs)
  then obtain s ss where s: "groupToExpr g = Inr s"
      "s = [] \<longleftrightarrow> (\<forall>r \<in> set (getAllRules g). \<not> isRuleComplete r)"
    and ss: "groupToExpr_loop cs = Inr ss" "[] \<notin> set ss"
      "ss = [] \<longleftrightarrow> (\<forall>r \<in> set (getAllRules_loop cs). \<not> isRuleComplete r)"
    by blast
  show ?case
  proof (cases "s = []")
    case True
    with s ss show ?thesis by auto
  next
    case False
    with s ss show ?thesis by auto
  qed
qed simp

lemmas serialise_defs = formatValueForExpr_def formatArrayValueForExpr_def split_items_def
  quote_string_def replace_all_def comparison_expr_def isNoValueOperator_def isArrayValueOperator_def
  rule_left_side_def rule_value_type_def getArithmeticExpressionType_def
  find_operator_def FILTER_OPERATORS_def opdef_def ruleToExpr_def rule_comparison_def
  isRuleComplete_def has_value_def combine_group_def

end
