(* ===== verification/Filter_Reading.thy ===== *)
theory Filter_Reading
  imports Filter_Expr Complex_Main
begin

text \<open>
  What the strings of \<open>Filter_Expr\<close> mean: the reading of an expression with the usual
  precedences and left association, as inductive relations between a string and its value, and
  the proofs that the serialisers write strings with the value of the tree they serialise.
\<close>

section \<open>Boolean expressions\<close>

text \<open>
  A comparison is an operand, NOT and parentheses bind tightest, then \<open>and\<close>, then \<open>or\<close>.
  \<open>cmp s b\<close> says that the comparison \<open>s\<close> has the truth value \<open>b\<close>.
\<close>

inductive reads_unary :: "(string \<Rightarrow> bool \<Rightarrow> bool) \<Rightarrow> string \<Rightarrow> bool \<Rightarrow> bool"
  and reads_and :: "(string \<Rightarrow> bool \<Rightarrow> bool) \<Rightarrow> string \<Rightarrow> bool \<Rightarrow> bool"
  and reads_or :: "(string \<Rightarrow> bool \<Rightarrow> bool) \<Rightarrow> string \<Rightarrow> bool \<Rightarrow> bool"
  for cmp where
  unary_cmp: "cmp s b \<Longrightarrow> reads_unary cmp s b"
| unary_not: "reads_or cmp s b \<Longrightarrow> reads_unary cmp (''!('' @ s @ '')'') (\<not> b)"
| unary_paren: "reads_or cmp s b \<Longrightarrow> reads_unary cmp (''('' @ s @ '')'') b"
| and_one: "reads_unary cmp s b \<Longrightarrow> reads_and cmp s b"
| and_more: "reads_unary cmp s b \<Longrightarrow> reads_and cmp t b' \<Longrightarrow> reads_and cmp (s @ '' and '' @ t) (b \<and> b')"
| or_one: "reads_and cmp s b \<Longrightarrow> reads_or cmp s b"
| or_more: "reads_and cmp s b \<Longrightarrow> reads_or cmp t b' \<Longrightarrow> reads_or cmp (s @ '' or '' @ t) (b \<or> b')"

text \<open>The truth value of a rule tree: incomplete rules and groups without complete rules are left out.\<close>

definition rule_truth :: "(FilterRule \<Rightarrow> bool) \<Rightarrow> FilterRule \<Rightarrow> bool" where
  "rule_truth \<rho> r = (if rule_not r then \<not> \<rho> r else \<rho> r)"

definition combine_truth :: "LogicOperator \<Rightarrow> bool \<Rightarrow> bool list \<Rightarrow> bool option" where
  "combine_truth c n bs =
     (if bs = [] then None
      else let b = (case c of And \<Rightarrow> list_all id bs | Or \<Rightarrow> list_ex id bs) in Some (if n then \<not> b else b))"

fun group_truth :: "(FilterRule \<Rightarrow> bool) \<Rightarrow> FilterGroup \<Rightarrow> bool option"
  and items_truth :: "(FilterRule \<Rightarrow> bool) \<Rightarrow> FilterItem list \<Rightarrow> bool list" where
  "group_truth \<rho> (FilterGroup i c n cs) = combine_truth c n (items_truth \<rho> cs)"
| "items_truth \<rho> [] = []"
| "items_truth \<rho> (RuleItem r # cs) =
     (if isRuleComplete r then rule_truth \<rho> r # items_truth \<rho> cs else items_truth \<rho> cs)"
| "items_truth \<rho> (GroupItem g # cs) =
     (case group_truth \<rho> g of None \<Rightarrow> items_truth \<rho> cs | Some b \<Rightarrow> b # items_truth \<rho> cs)"

text \<open>The comparisons a complete rule writes, with the truth value of the rule.\<close>

definition comparison_reads :: "(FilterRule \<Rightarrow> bool) \<Rightarrow> string \<Rightarrow> bool \<Rightarrow> bool" where
  "comparison_reads \<rho> s b \<longleftrightarrow> (\<exists>r. isRuleComplete r \<and> s = rule_comparison r \<and> b = \<rho> r)"

lemma reads_or_unary: "reads_unary cmp s b \<Longrightarrow> reads_or cmp s b"
  by (intro or_one and_one)

lemma ruleToExpr_reads:
  assumes "isRuleComplete r" and "ruleToExpr r = Inr s"
  shows "reads_unary (comparison_reads \<rho>) s (rule_truth \<rho> r)"
proof -
  have cmp: "reads_unary (comparison_reads \<rho>) (rule_comparison r) (\<rho> r)"
    using assms(1) by (auto intro!: unary_cmp simp: comparison_reads_def)
  show ?thesis
  proof (cases "rule_not r")
    case True
    then show ?thesis using assms(2) unary_not [OF reads_or_unary [OF cmp]]
      by (simp add: ruleToExpr_eq rule_truth_def)
  next
    case False
    with assms(2) cmp show ?thesis by (simp add: ruleToExpr_eq rule_truth_def)
  qed
qed

lemma join_and_reads:
  "list_all2 (reads_unary cmp) ss bs \<Longrightarrow> ss \<noteq> [] \<Longrightarrow> reads_and cmp (join '' and '' ss) (list_all id bs)"
proof (induction "'' and ''" ss arbitrary: bs rule: join.induct)
  case (2 x)
  then obtain b where "bs = [b]" and "reads_unary cmp x b" by (auto simp: list_all2_Cons1)
  then show ?case by (auto intro: and_one)
next
  case (3 x y ys)
  then obtain b bs' where bs: "bs = b # bs'" and b: "reads_unary cmp x b"
      and bs': "list_all2 (reads_unary cmp) (y # ys) bs'"
    by (auto simp: list_all2_Cons1)
  have "reads_and cmp (join '' and '' (y # ys)) (list_all id bs')" using "3.hyps" bs' by blast
  from and_more [OF b this] bs show ?case by simp
qed simp

lemma join_or_reads:
  "list_all2 (reads_unary cmp) ss bs \<Longrightarrow> ss \<noteq> [] \<Longrightarrow> reads_or cmp (join '' or '' ss) (list_ex id bs)"
proof (induction "'' or ''" ss arbitrary: bs rule: join.induct)
  case (2 x)
  then obtain b where "bs = [b]" and "reads_unary cmp x b" by (auto simp: list_all2_Cons1)
  then show ?case by (auto intro: reads_or_unary)
next
  case (3 x y ys)
  then obtain b bs' where bs: "bs = b # bs'" and b: "reads_unary cmp x b"
      and bs': "list_all2 (reads_unary cmp) (y # ys) bs'"
    by (auto simp: list_all2_Cons1)
  have "reads_or cmp (join '' or '' (y # ys)) (list_ex id bs')" using "3.hyps" bs' by blast
  from or_more [OF and_one [OF b] this] bs show ?case by simp
qed simp

lemma combine_group_reads:
  assumes "list_all2 (reads_unary cmp) ss bs" and "ss \<noteq> []"
  shows "\<exists>b. combine_truth c n bs = Some b \<and> reads_unary cmp (combine_group c n ss) b"
proof -
  define inner where "inner = (case ss of [e] \<Rightarrow> e
     | _ \<Rightarrow> ''('' @ join ('' '' @ combinator_symbol c @ '' '') ss @ '')'')"
  define b where "b = (case c of And \<Rightarrow> list_all id bs | Or \<Rightarrow> list_ex id bs)"
  have nonempty: "bs \<noteq> []" using assms by auto
  have inner: "reads_unary cmp inner b"
  proof (cases "\<exists>e. ss = [e]")
    case True
    with assms show ?thesis
      by (auto simp: inner_def b_def list_all2_Cons1 split: LogicOperator.splits)
  next
    case False
    then have inner_eq: "inner = ''('' @ join ('' '' @ combinator_symbol c @ '' '') ss @ '')''"
      using assms(2) by (auto simp: inner_def split: list.splits)
    have "reads_or cmp (join ('' '' @ combinator_symbol c @ '' '') ss) b"
      using or_one [OF join_and_reads [OF assms]] join_or_reads [OF assms]
      by (cases c) (simp_all add: b_def)
    from unary_paren [OF this] inner_eq show ?thesis by simp
  qed
  have "combine_truth c n bs = Some (if n then \<not> b else b)"
    using nonempty by (simp add: combine_truth_def b_def Let_def)
  moreover have "combine_group c n ss = (if n then ''!('' @ inner @ '')'' else inner)"
    using assms(2) by (simp add: combine_group_def inner_def Let_def)
  ultimately show ?thesis using inner unary_not [OF reads_or_unary [OF inner]] by simp
qed

lemma groupToExpr_reads_aux:
  "groupToExpr g = Inr s \<Longrightarrow>
     (if s = [] then group_truth \<rho> g = None
      else \<exists>b. group_truth \<rho> g = Some b \<and> reads_unary (comparison_reads \<rho>) s b)"
  "groupToExpr_loop cs = Inr ss \<Longrightarrow>
     list_all2 (reads_unary (comparison_reads \<rho>)) ss (items_truth \<rho> cs) \<and> [] \<notin> set ss"
proof (induction g and cs arbitrary: s and ss rule: filter_tree_induct)
  case (Group i c n cs)
  then obtain ss where ss: "groupToExpr_loop cs = Inr ss" "s = combine_group c n ss"
    by (auto split: sum.splits)
  with Group.IH have IH: "list_all2 (reads_unary (comparison_reads \<rho>)) ss (items_truth \<rho> cs)" "[] \<notin> set ss"
    by blast+
  show ?case
  proof (cases "ss = []")
    case True
    with IH ss show ?thesis by (simp add: combine_group_def combine_truth_def)
  next
    case False
    with IH combine_group_reads [OF IH(1) False] ss show ?thesis by (auto simp: combine_group_Nil_iff)
  qed
next
  case (Rule r cs)
  show ?case
  proof (cases "isRuleComplete r")
    case True
    with Rule.prems obtain s ss' where "ruleToExpr r = Inr s" "groupToExpr_loop cs = Inr ss'" "ss = s # ss'"
      by (auto split: sum.splits)
    moreover from this True have "reads_unary (comparison_reads \<rho>) s (rule_truth \<rho> r)" and "s \<noteq> []"
      using ruleToExpr_reads ruleToExpr_nonempty by blast+
    ultimately show ?thesis using Rule.IH True by simp
  next
    case False
    with Rule show ?thesis by simp
  qed
next
  case (Sub g cs)
  from Sub.prems obtain s where s: "groupToExpr g = Inr s" by (auto split: sum.splits)
  from Sub.IH(1) [OF s] Sub.IH(2) Sub.prems s show ?case
    by (auto split: sum.splits if_splits)
qed simp

section \<open>Arithmetic display strings\<close>

text \<open>
  Sums of products of atoms, both associating to the left. The flag of \<open>reads_prod\<close> is set
  when the chain has a \<open>%\<close> outside parentheses.
\<close>

inductive reads_atom ::
    "(ArithmeticOperator \<Rightarrow> 'v \<Rightarrow> 'v \<Rightarrow> 'v) \<Rightarrow> (ArithmeticOperand \<Rightarrow> 'v) \<Rightarrow> string \<Rightarrow> 'v \<Rightarrow> bool"
  and reads_prod ::
    "(ArithmeticOperator \<Rightarrow> 'v \<Rightarrow> 'v \<Rightarrow> 'v) \<Rightarrow> (ArithmeticOperand \<Rightarrow> 'v) \<Rightarrow> bool \<Rightarrow> string \<Rightarrow> 'v \<Rightarrow> bool"
  and reads_sum ::
    "(ArithmeticOperator \<Rightarrow> 'v \<Rightarrow> 'v \<Rightarrow> 'v) \<Rightarrow> (ArithmeticOperand \<Rightarrow> 'v) \<Rightarrow> string \<Rightarrow> 'v \<Rightarrow> bool"
  for bin atm where
  atom: "reads_atom bin atm (operandToDisplayString x) (atm x)"
| paren: "reads_sum bin atm s v \<Longrightarrow> reads_atom bin atm (''('' @ s @ '')'') v"
| prod_one: "reads_atom bin atm s v \<Longrightarrow> reads_prod bin atm m s v"
| prod_more: "reads_prod bin atm m s v \<Longrightarrow> reads_atom bin atm t w \<Longrightarrow> oper \<in> {Times, Divide} \<Longrightarrow>
    reads_prod bin atm m (s @ '' '' @ OPERATOR_DISPLAY_SYMBOLS oper @ '' '' @ t) (bin oper v w)"
| prod_mod: "reads_prod bin atm m s v \<Longrightarrow> reads_atom bin atm t w \<Longrightarrow>
    reads_prod bin atm True (s @ '' '' @ OPERATOR_DISPLAY_SYMBOLS Modulo @ '' '' @ t) (bin Modulo v w)"
| sum_one: "reads_prod bin atm m s v \<Longrightarrow> reads_sum bin atm s v"
| sum_more: "reads_sum bin atm s v \<Longrightarrow> reads_prod bin atm m t w \<Longrightarrow> oper \<in> {Plus, Minus} \<Longrightarrow>
    reads_sum bin atm (s @ '' '' @ OPERATOR_DISPLAY_SYMBOLS oper @ '' '' @ t) (bin oper v w)"

text \<open>The value of an expression; the synthetic node of a single operand has its value.\<close>

fun eval_operand :: "(ArithmeticOperator \<Rightarrow> 'v \<Rightarrow> 'v \<Rightarrow> 'v) \<Rightarrow> (ArithmeticOperand \<Rightarrow> 'v) \<Rightarrow> OperandOrNode \<Rightarrow> 'v"
  and eval_node :: "(ArithmeticOperator \<Rightarrow> 'v \<Rightarrow> 'v \<Rightarrow> 'v) \<Rightarrow> (ArithmeticOperand \<Rightarrow> 'v) \<Rightarrow> ArithmeticExpressionNode \<Rightarrow> 'v"
where
  "eval_operand bin atm (Operand x) = atm x"
| "eval_operand bin atm (Node e) = eval_node bin atm e"
| "eval_node bin atm (ExprNode i l oper r) =
     (if isSyntheticSingleOperandExpression (ExprNode i l oper r) then eval_operand bin atm l
      else bin oper (eval_operand bin atm l) (eval_operand bin atm r))"

text \<open>A \<open>%\<close> that the display leaves outside parentheses in a chain of products.\<close>

fun chain_mod :: "OperandOrNode \<Rightarrow> bool" where
  "chain_mod (Operand x) = False"
| "chain_mod (Node (ExprNode i l oper r)) =
     (\<not> isSyntheticSingleOperandExpression (ExprNode i l oper r) \<and>
      (oper = Modulo \<or> oper \<in> {Times, Divide} \<and> chain_mod l \<or> oper = Times \<and> chain_mod r))"

text \<open>
  The expressions the display shows faithfully: a synthetic node below another node holds a
  plain operand, and no chain with a \<open>%\<close> is the right operand of a product.
\<close>

fun nested_safe :: "OperandOrNode \<Rightarrow> bool" where
  "nested_safe (Operand x) = True"
| "nested_safe (Node (ExprNode i l oper r)) \<longleftrightarrow>
     nested_safe l \<and> nested_safe r \<and> \<not> (oper = Times \<and> chain_mod r) \<and>
     (isSyntheticSingleOperandExpression (ExprNode i l oper r) \<longrightarrow> \<not> isArithmeticExpressionNode l)"

fun display_safe :: "ArithmeticExpressionNode \<Rightarrow> bool" where
  "display_safe (ExprNode i l oper r) \<longleftrightarrow>
     nested_safe l \<and> nested_safe r \<and> \<not> (oper = Times \<and> chain_mod r)"

text \<open>The algebra the flattening relies on.\<close>

locale flattening_laws =
  fixes bin :: "ArithmeticOperator \<Rightarrow> 'v \<Rightarrow> 'v \<Rightarrow> 'v"
  assumes plus_plus: "bin Plus a (bin Plus b c) = bin Plus (bin Plus a b) c"
    and plus_minus: "bin Plus a (bin Minus b c) = bin Minus (bin Plus a b) c"
    and times_times: "bin Times a (bin Times b c) = bin Times (bin Times a b) c"
    and times_divide: "bin Times a (bin Divide b c) = bin Divide (bin Times a b) c"
begin

lemma sum_append:
  "reads_sum bin atm t w \<Longrightarrow> reads_sum bin atm s v \<Longrightarrow>
     reads_sum bin atm (s @ '' '' @ OPERATOR_DISPLAY_SYMBOLS Plus @ '' '' @ t) (bin Plus v w)"
proof (induction rule: reads_atom_reads_prod_reads_sum.inducts(3)
    [where ?P1.0 = "\<lambda>_ _. True" and ?P2.0 = "\<lambda>_ _ _. True"])
  case (sum_one m t w)
  then show ?case using sum_more [of bin atm s v m t w Plus] by simp
next
  case (sum_more t1 w1 m t2 w2 oper)
  then have "reads_sum bin atm (s @ '' '' @ OPERATOR_DISPLAY_SYMBOLS Plus @ '' '' @ t1) (bin Plus v w1)" by blast
  from reads_atom_reads_prod_reads_sum.sum_more [OF this sum_more(2) sum_more(4)] sum_more(4)
  show ?case by (auto simp: plus_plus plus_minus)
qed auto

lemma prod_append:
  "reads_prod bin atm b t w \<Longrightarrow> \<not> b \<Longrightarrow> reads_prod bin atm m s v \<Longrightarrow>
     reads_prod bin atm m (s @ '' '' @ OPERATOR_DISPLAY_SYMBOLS Times @ '' '' @ t) (bin Times v w)"
proof (induction rule: reads_atom_reads_prod_reads_sum.inducts(2)
    [where ?P1.0 = "\<lambda>_ _. True" and ?P3.0 = "\<lambda>_ _. True"])
  case (prod_one t w b)
  then show ?case using prod_more [of bin atm m s v t w Times] by simp
next
  case (prod_more b t1 w1 t2 w2 oper)
  then have "reads_prod bin atm m (s @ '' '' @ OPERATOR_DISPLAY_SYMBOLS Times @ '' '' @ t1) (bin Times v w1)" by blast
  from reads_atom_reads_prod_reads_sum.prod_more [OF this prod_more(2) prod_more(4)] prod_more(4)
  show ?case by (auto simp: times_times times_divide)
qed auto

lemma prod_mono: "reads_prod bin atm b s v \<Longrightarrow> b = m \<or> m \<Longrightarrow> reads_prod bin atm m s v"
proof (induction rule: reads_atom_reads_prod_reads_sum.inducts(2)
    [where ?P1.0 = "\<lambda>_ _. True" and ?P3.0 = "\<lambda>_ _. True"])
  case (prod_mod b s v t w)
  then show ?case using reads_atom_reads_prod_reads_sum.prod_mod [of bin atm m s v t w] by simp
next
  case (prod_more b s v t w oper)
  then show ?case using reads_atom_reads_prod_reads_sum.prod_more [of bin atm m s v t w oper] by blast
qed (auto intro: prod_one)

text \<open>The reading of an expression shown without outer parentheses, by its operator.\<close>

definition inner_reads :: "(ArithmeticOperand \<Rightarrow> 'v) \<Rightarrow> OperandOrNode \<Rightarrow> string \<Rightarrow> 'v \<Rightarrow> bool" where
  "inner_reads atm x s v \<longleftrightarrow>
     (case x of
        Operand _ \<Rightarrow> reads_atom bin atm s v
      | Node e \<Rightarrow> if isSyntheticSingleOperandExpression e then reads_sum bin atm s v
                else if ae_operator e \<in> {Plus, Minus} then reads_sum bin atm s v
                else reads_prod bin atm (chain_mod x) s v)"

lemma atom_sum: "reads_atom bin atm s v \<Longrightarrow> reads_sum bin atm s v"
  by (rule sum_one [OF prod_one])

lemma inner_sum: "inner_reads atm x s v \<Longrightarrow> reads_sum bin atm s v"
  by (auto simp: inner_reads_def intro: atom_sum sum_one split: OperandOrNode.splits if_splits)

text \<open>An operand in its place: what its parent can rely on.\<close>

definition placed_reads ::
    "(ArithmeticOperand \<Rightarrow> 'v) \<Rightarrow> ArithmeticOperator \<Rightarrow> bool \<Rightarrow> OperandOrNode \<Rightarrow> string \<Rightarrow> 'v \<Rightarrow> bool" where
  "placed_reads atm parent isRight x s v \<longleftrightarrow>
     (case parent of
        Plus \<Rightarrow> reads_sum bin atm s v
      | Minus \<Rightarrow> if isRight then reads_prod bin atm True s v else reads_sum bin atm s v
      | Times \<Rightarrow> reads_prod bin atm (chain_mod x) s v
      | _ \<Rightarrow> if isRight then reads_atom bin atm s v else reads_prod bin atm (chain_mod x) s v)"

lemma placed_atom: "reads_atom bin atm s v \<Longrightarrow> placed_reads atm parent isRight x s v"
  by (auto simp: placed_reads_def intro: prod_one atom_sum split: ArithmeticOperator.splits)

lemma placed_node:
  assumes "inner_reads atm (Node e) (arithmeticExpressionToDisplayString e None False) v"
    and "\<not> isSyntheticSingleOperandExpression e"
  shows "placed_reads atm parent isRight (Node e)
           (arithmeticExpressionToDisplayString e (Some parent) isRight) v"
proof -
  obtain i l oper r where e: "e = ExprNode i l oper r" by (cases e)
  define inner where "inner = arithmeticExpressionToDisplayString e None False"
  have outer: "arithmeticExpressionToDisplayString e (Some parent) isRight =
      (if needs_parens oper (Some parent) isRight then ''('' @ inner @ '')'' else inner)"
    using assms(2) by (simp add: inner_def e Let_def needs_parens_def)
  show ?thesis
  proof (cases "needs_parens oper (Some parent) isRight")
    case True
    have "reads_atom bin atm (''('' @ inner @ '')'') v"
      using paren [OF inner_sum [OF assms(1)]] by (simp add: inner_def)
    with True outer show ?thesis by (simp add: placed_atom)
  next
    case False
    then show ?thesis using assms outer inner_sum [OF assms(1)]
      by (cases oper; cases parent)
        (auto simp: inner_reads_def placed_reads_def needs_parens_def ASSOCIATIVE_OPERATORS_def e inner_def
          intro: prod_mono split: if_splits)
  qed
qed

lemma synthetic_plus: "isSyntheticSingleOperandExpression (ExprNode i l oper r) \<Longrightarrow> oper = Plus"
  by (cases "ExprNode i l oper r" rule: isSyntheticSingleOperandExpression.cases) auto

lemma inner_from_operands:
  assumes l: "placed_reads atm oper False l (arithmeticOperandToDisplayString l (Some oper) False) (eval_operand bin atm l)"
    and r: "placed_reads atm oper True r (arithmeticOperandToDisplayString r (Some oper) True) (eval_operand bin atm r)"
    and mod: "\<not> (oper = Times \<and> chain_mod r)"
  shows "inner_reads atm (Node (ExprNode i l oper r))
           (arithmeticExpressionToDisplayString (ExprNode i l oper r) None False)
           (eval_node bin atm (ExprNode i l oper r))"
proof (cases "isSyntheticSingleOperandExpression (ExprNode i l oper r)")
  case True
  with l synthetic_plus [OF True] show ?thesis by (simp add: inner_reads_def placed_reads_def)
next
  case False
  note unfold = inner_reads_def placed_reads_def needs_parens_def
  show ?thesis
  proof (cases oper)
    case Plus
    with False l r sum_append show ?thesis by (simp add: unfold)
  next
    case Minus
    with False l r sum_more [where oper = Minus and m = True] show ?thesis by (simp add: unfold)
  next
    case Times
    with mod False l r prod_append [where b = "chain_mod r"] show ?thesis by (simp add: unfold)
  next
    case Divide
    with False l r prod_more [where oper = Divide] show ?thesis by (simp add: unfold)
  next
    case Modulo
    with False l r prod_mod show ?thesis by (simp add: unfold)
  qed
qed

lemma nested_reads:
  "nested_safe x \<Longrightarrow> placed_reads atm parent isRight x
     (arithmeticOperandToDisplayString x (Some parent) isRight) (eval_operand bin atm x)"
proof (induction x arbitrary: parent isRight rule: nested_safe.induct)
  case (1 x)
  then show ?case by (simp add: placed_atom atom)
next
  case (2 i l oper r)
  show ?case
  proof (cases "isSyntheticSingleOperandExpression (ExprNode i l oper r)")
    case True
    with "2.prems" obtain y where "l = Operand y" by (cases l) auto
    with True show ?thesis by (simp add: placed_atom atom)
  next
    case False
    have "inner_reads atm (Node (ExprNode i l oper r))
           (arithmeticExpressionToDisplayString (ExprNode i l oper r) None False)
           (eval_node bin atm (ExprNode i l oper r))"
      using 2 by (intro inner_from_operands) auto
    from placed_node [OF this False] show ?thesis by simp
  qed
qed

lemma display_reads:
  assumes "display_safe e"
  shows "reads_sum bin atm (arithmeticExpressionToDisplayString e None False) (eval_node bin atm e)"
proof -
  obtain i l oper r where e: "e = ExprNode i l oper r" by (cases e)
  have "inner_reads atm (Node e) (arithmeticExpressionToDisplayString e None False) (eval_node bin atm e)"
    using assms unfolding e by (intro inner_from_operands nested_reads) auto
  then show ?thesis by (rule inner_sum)
qed

end

text \<open>Exact rational arithmetic has these laws, division by zero included.\<close>

fun rat_arith :: "ArithmeticOperator \<Rightarrow> rat \<Rightarrow> rat \<Rightarrow> rat" where
  "rat_arith Plus a b = a + b"
| "rat_arith Minus a b = a - b"
| "rat_arith Times a b = a * b"
| "rat_arith Divide a b = a / b"
| "rat_arith Modulo a b = a - b * of_int \<lfloor>a / b\<rfloor>"

interpretation rat_flattening: flattening_laws rat_arith
  by unfold_locales simp_all

section \<open>Properties\<close>

text \<open>
  C1. The expression string of an enabled configuration: serialisation never throws, the string
  is empty exactly when no rule at any depth is complete, and otherwise, read with the usual
  precedences, it has the truth value of the rule tree (combinators, NOTs of rules and groups,
  nesting), whatever the truth values of the single comparisons.
\<close>

theorem toExprString_meaning:
  assumes "cfg_enabled c" and "cfg_root c = Some g"
  shows "\<exists>s. toExprString c = Inr s \<and>
    (s = [] \<longleftrightarrow> (\<forall>r \<in> set (getAllRules g). \<not> isRuleComplete r)) \<and>
    (if s = [] then group_truth \<rho> g = None
     else \<exists>b. group_truth \<rho> g = Some b \<and> reads_unary (comparison_reads \<rho>) s b)"
proof -
  obtain s where s: "groupToExpr g = Inr s" "s = [] \<longleftrightarrow> (\<forall>r \<in> set (getAllRules g). \<not> isRuleComplete r)"
    using groupToExpr_shape(1) by blast
  with groupToExpr_reads_aux(1) [OF s(1), of \<rho>] assms show ?thesis by (simp add: toExprString_def)
qed

definition sample_rule :: "string \<Rightarrow> FilterOperator \<Rightarrow> FilterRule" where
  "sample_rule field oper = createEmptyRule field \<lparr>rule_field := field, rule_operator := oper\<rparr>"

theorem toExprString_meaning_witness:
  "\<exists>s. toExprString \<lparr>cfg_enabled = True, cfg_root = Some (FilterGroup ''g'' Or False
       [RuleItem (sample_rule ''x'' IsNull), GroupItem (FilterGroup ''h'' And True
          [RuleItem (sample_rule ''y'' IsNotNull), RuleItem (sample_rule ''z'' Eq)])]),
     legacy_combinator = None, legacy_conditions = None\<rparr> = Inr s \<and> s \<noteq> [] \<and>
     reads_unary (comparison_reads (\<lambda>r. rule_field r = ''y'')) s False"
proof -
  let ?g = "FilterGroup ''g'' Or False
       [RuleItem (sample_rule ''x'' IsNull), GroupItem (FilterGroup ''h'' And True
          [RuleItem (sample_rule ''y'' IsNotNull), RuleItem (sample_rule ''z'' Eq)])]"
  have complete: "isRuleComplete (sample_rule ''x'' IsNull)" "isRuleComplete (sample_rule ''y'' IsNotNull)"
    "\<not> isRuleComplete (sample_rule ''z'' Eq)"
    by (simp_all add: isRuleComplete_def sample_rule_def createEmptyRule_def isNoValueOperator_def has_value_def)
  then have "group_truth (\<lambda>r. rule_field r = ''y'') ?g = Some False"
    by (simp add: combine_truth_def rule_truth_def sample_rule_def createEmptyRule_def)
  with complete show ?thesis
    using toExprString_meaning [of "\<lparr>cfg_enabled = True, cfg_root = Some ?g,
        legacy_combinator = None, legacy_conditions = None\<rparr>" ?g "\<lambda>r. rule_field r = ''y''"]
    by (auto split: if_splits)
qed


definition field_opd :: "string \<Rightarrow> OperandOrNode" where
  "field_opd f = Operand (FieldOperand f ''int'')"


text \<open>
  The display is not injective: \<open>2 * (5 % 3)\<close> and \<open>(2 * 5) % 3\<close> are shown as the
  same string, while the expressions sent to the backend and their values differ.
\<close>

theorem display_collision:
  "let two = Operand (LiteralOperand (Fin 2 0)); five = Operand (LiteralOperand (Fin 5 0));
       three = Operand (LiteralOperand (Fin 3 0));
       e1 = ExprNode ''1'' two Times (Node (ExprNode ''2'' five Modulo three));
       e2 = ExprNode ''1'' (Node (ExprNode ''2'' two Times five)) Modulo three
   in arithmeticExpressionToDisplayString e1 None False = arithmeticExpressionToDisplayString e2 None False \<and>
      arithmeticExpressionToExpr e1 \<noteq> arithmeticExpressionToExpr e2 \<and>
      eval_node rat_arith (\<lambda>x. case x of LiteralOperand (Fin m _) \<Rightarrow> of_int m | _ \<Rightarrow> 0) e1 = 4 \<and>
      eval_node rat_arith (\<lambda>x. case x of LiteralOperand (Fin m _) \<Rightarrow> of_int m | _ \<Rightarrow> 0) e2 = 1"
proof -
  have "number_to_string (Fin 2 0) = ''2''" "number_to_string (Fin 5 0) = ''5''" "number_to_string (Fin 3 0) = ''3''"
    by code_simp+
  moreover have "\<lfloor>5 / 3 :: rat\<rfloor> = 1" "\<lfloor>10 / 3 :: rat\<rfloor> = 3"
    by (simp_all add: floor_eq_iff)
  ultimately show ?thesis by (simp add: Let_def needs_parens_def ASSOCIATIVE_OPERATORS_def)
qed

text \<open>
  A rule on an arithmetic expression compares with a quoted string: whatever the value,
  a number included, it is written between double quotes, because the type of an arithmetic
  expression, \<open>float64\<close>, is not among the numeric types of the operator table.
\<close>

theorem arithmetic_rule_value_quoted:
  assumes "useArithmeticExpression r" and "arithmeticExpression r = Some e"
    and "rule_operator r = Gt" and "\<not> rule_not r"
  shows "ruleToExpr r = Inr (arithmeticExpressionToExpr e @ '' > '' @ quote_string (js_String (rule_value r)))"
  using assms
  by (simp add: ruleToExpr_eq rule_comparison_def comparison_expr_def rule_left_side_def rule_value_type_def
      getArithmeticExpressionType_def isNoValueOperator_def isArrayValueOperator_def formatValueForExpr_def
      type_test_defs find_operator_def FILTER_OPERATORS_def opdef_def)

theorem arithmetic_rule_value_quoted_witness:
  "ruleToExpr (createEmptyRule ''r'' \<lparr>useArithmeticExpression := True,
       arithmeticExpression := Some (ExprNode ''1'' (field_opd ''a'') Plus (field_opd ''b'')),
       rule_operator := Gt, rule_value := Num (Fin 7 0)\<rparr>)
   = Inr (''(a + b) > '' @ [dquote] @ ''7'' @ [dquote])"
proof -
  have "quote_string ''7'' = [dquote] @ ''7'' @ [dquote]" by (simp add: quote_string_def replace_all_def)
  moreover have "number_to_string (Fin 7 0) = ''7''" by code_simp
  ultimately show ?thesis
    using arithmetic_rule_value_quoted [of "createEmptyRule ''r'' \<lparr>useArithmeticExpression := True,
       arithmeticExpression := Some (ExprNode ''1'' (field_opd ''a'') Plus (field_opd ''b'')),
       rule_operator := Gt, rule_value := Num (Fin 7 0)\<rparr>" "ExprNode ''1'' (field_opd ''a'') Plus (field_opd ''b'')"]
    by (simp add: createEmptyRule_def field_opd_def)
qed

end
