(* ===== verification/Js_Numbers.thy ===== *)
theory Js_Numbers
  imports Js_Prelude
begin

text \<open>
  Facts on the number and string functions of \<open>Js_Prelude\<close>: digits, separators, trimming, and
  that reading back a printed number gives the number.
\<close>

section \<open>Separators and blanks\<close>

lemma digit_char_val: "is_digit c \<Longrightarrow> c \<noteq> CHR ''.'' \<and> c \<noteq> CHR '','' \<and> \<not> is_ws c"
  by (auto simp: is_digit_def is_ws_def Let_def)

lemma digits_no_sep:
  "list_all is_digit s \<Longrightarrow> CHR ''.'' \<notin> set s" "list_all is_digit s \<Longrightarrow> CHR '','' \<notin> set s"
  by (auto simp: list_all_iff dest: digit_char_val)

lemma trim_no_ws: "list_all (\<lambda>c. \<not> is_ws c) s \<Longrightarrow> trim s = s"
proof -
  assume "list_all (\<lambda>c. \<not> is_ws c) s"
  then have "\<And>c. c \<in> set s \<Longrightarrow> \<not> is_ws c" by (simp add: list_all_iff)
  then have "s = [] \<or> \<not> is_ws (hd s)" "rev s = [] \<or> \<not> is_ws (hd (rev s))"
    by (metis hd_in_set set_rev)+
  then have "dropWhile is_ws s = s" "dropWhile is_ws (rev s) = rev s"
    by (simp_all only: dropWhile_eq_self_iff)
  then show ?thesis by (simp add: trim_def)
qed

lemma replace_all_absent: "c \<notin> set s \<Longrightarrow> replace_all c r s = s"
  by (induction s) (auto simp: replace_all_def)

lemma replace_all_append: "replace_all c r (s @ t) = replace_all c r s @ replace_all c r t"
  by (simp add: replace_all_def)

lemma replace_all_sep: "replace_all c r (c # t) = r @ replace_all c r t"
  by (simp add: replace_all_def)

lemma replace_first_append: "c \<notin> set s \<Longrightarrow> replace_first c r (s @ c # t) = s @ r @ t"
  by (induction s) auto

lemma lastIndexOf_absent: "c \<notin> set s \<Longrightarrow> lastIndexOf c s = -1"
  by (induction s) auto

lemma lastIndexOf_append: "c \<notin> set t \<Longrightarrow> lastIndexOf c (s @ c # t) = int (length s)"
  by (induction s) (auto simp: lastIndexOf_absent Let_def)

lemma ws_sep [simp]: "\<not> is_ws (CHR ''.'')" "\<not> is_ws (CHR '','')"
  by (simp_all add: is_ws_def)

lemma digits_no_ws: "list_all is_digit s \<Longrightarrow> list_all (\<lambda>c. \<not> is_ws c) s"
  by (auto simp: list_all_iff dest: digit_char_val)

lemma not_ws: "is_digit c \<or> c \<in> set ''.e+-'' \<Longrightarrow> \<not> is_ws c"
  by (auto dest: digit_char_val) (auto simp: is_ws_def)

section \<open>Digits\<close>

lemma digit_char_is_digit [simp]: "d < 10 \<Longrightarrow> is_digit (digit_char d)"
  by (simp add: is_digit_def digit_char_def)

lemma digit_val_char [simp]: "d < 10 \<Longrightarrow> digit_val (digit_char d) = d"
  by (simp add: digit_val_def digit_char_def)

lemma digits_value_append: "digits_value (xs @ ys) = digits_value xs * 10 ^ length ys + digits_value ys"
proof (induction ys rule: rev_induct)
  case (snoc y ys)
  have "digits_value (zs @ [y]) = 10 * digits_value zs + digit_val y" for zs
    by (simp add: digits_value_def)
  from this [of "xs @ ys"] this [of ys] snoc show ?case by (simp add: algebra_simps)
qed (simp add: digits_value_def)

lemma nat_digits_spec [simp]:
  "nat_digits n \<noteq> []" "list_all is_digit (nat_digits n)" "digits_value (nat_digits n) = n"
  by (induction n rule: nat_digits.induct; subst nat_digits.simps;
      simp add: digits_value_append; simp add: digits_value_def)+

lemma digits_value_zeros [simp]: "digits_value (replicate n (CHR ''0'')) = 0"
  by (induction n) (simp_all add: digits_value_def digit_val_def)

lemma digits_value_zero_Cons [simp]: "digits_value (CHR ''0'' # xs) = digits_value xs"
  by (simp add: digits_value_def digit_val_def)

lemma is_digit_zero [simp]: "is_digit (CHR ''0'')"
  by (simp add: is_digit_def)

lemma not_digit [simp]:
  "\<not> is_digit (CHR ''.'')" "\<not> is_digit (CHR '','')" "\<not> is_digit (CHR ''e'')" "\<not> is_digit (CHR ''-'')"
  "\<not> is_digit (CHR ''+'')" "\<not> is_digit (CHR ''x'')" "\<not> is_digit (CHR ''X'')" "\<not> is_digit (CHR ''o'')"
  "\<not> is_digit (CHR ''O'')" "\<not> is_digit (CHR ''b'')" "\<not> is_digit (CHR ''B'')" "\<not> is_digit (CHR ''I'')" "\<not> is_digit (CHR ''N'')"
  by (simp_all add: is_digit_def)

lemma digit_run [simp]:
  "list_all is_digit ds \<Longrightarrow> takeWhile is_digit ds = ds"
  "list_all is_digit ds \<Longrightarrow> dropWhile is_digit ds = []"
  "list_all is_digit ds \<Longrightarrow> \<not> is_digit c \<Longrightarrow> takeWhile is_digit (ds @ c # r) = ds"
  "list_all is_digit ds \<Longrightarrow> \<not> is_digit c \<Longrightarrow> dropWhile is_digit (ds @ c # r) = c # r"
  by (auto simp: list_all_iff)

section \<open>Reading the forms a number is printed in\<close>

lemma not_infinity: "list_all is_digit ds \<Longrightarrow> ds \<noteq> [] \<Longrightarrow> ds @ r \<noteq> ''Infinity''"
  by (cases ds) auto

lemma unsigned_decimal_forms:
  assumes "list_all is_digit ip" and "ip \<noteq> []" and "list_all is_digit fp"
  shows "unsigned_decimal ip = Some (mk_decimal (int (digits_value ip)) 0)"
    and "unsigned_decimal (ip @ ''.'' @ fp) =
           Some (mk_decimal (int (digits_value (ip @ fp))) (- int (length fp)))"
    and "unsigned_decimal (ip @ ''e'' @ t) =
           map_option (\<lambda>x. mk_decimal (int (digits_value ip)) x) (parse_exponent t)"
    and "unsigned_decimal (ip @ ''.'' @ fp @ ''e'' @ t) =
           map_option (\<lambda>x. mk_decimal (int (digits_value (ip @ fp))) (x - int (length fp))) (parse_exponent t)"
  using assms not_infinity [of ip "[]"] not_infinity [of ip "CHR ''.'' # fp"]
    not_infinity [of ip "CHR ''e'' # t"] not_infinity [of ip "CHR ''.'' # fp @ CHR ''e'' # t"]
  by (simp_all add: unsigned_decimal_def Let_def algebra_simps)

lemma parse_exponent_show:
  "parse_exponent ((if 0 \<le> e then ''+'' else ''-'') @ nat_digits (nat \<bar>e\<bar>)) = Some e"
  by (simp add: parse_exponent_def)

lemma show_exponent_eq:
  "show_exponent e = ''e'' @ (if 0 \<le> e then ''+'' else ''-'') @ nat_digits (nat \<bar>e\<bar>)"
  by (simp add: show_exponent_def)

lemma mk_decimal_shift: "0 \<le> e \<Longrightarrow> mk_decimal (m * 10 ^ nat e) 0 = mk_decimal m e"
  by (simp add: mk_decimal_def)

lemma read_show_positive:
  assumes ds: "list_all is_digit ds" "ds \<noteq> []"
  shows "unsigned_decimal (show_positive ds n) =
           Some (mk_decimal (int (digits_value ds)) (n - int (length ds)))"
proof -
  let ?k = "int (length ds)"
  have parts: "list_all is_digit (take j ds)" "list_all is_digit (drop j ds)" for j
    using ds(1) by (auto simp: list_all_iff dest: in_set_takeD in_set_dropD)
  consider (int) "?k \<le> n" "n \<le> 21" | (point) "\<not> ?k \<le> n" "0 < n" "n \<le> 21"
    | (zeros) "- 6 < n" "n \<le> 0" | (one) "n \<le> - 6 \<or> 21 < n" "?k = 1"
    | (exp) "n \<le> - 6 \<or> 21 < n" "?k \<noteq> 1"
    by linarith
  then show ?thesis
  proof cases
    case int
    then have "show_positive ds n = ds @ replicate (nat (n - ?k)) (CHR ''0'')"
      by (simp add: show_positive_def)
    moreover have "list_all is_digit (ds @ replicate (nat (n - ?k)) (CHR ''0''))"
      using ds by (auto simp: list_all_iff)
    ultimately show ?thesis
      using unsigned_decimal_forms(1) [of "ds @ replicate (nat (n - ?k)) (CHR ''0'')" "[]"] ds int
        mk_decimal_shift [of "n - ?k"]
      by (simp add: digits_value_append)
  next
    case point
    then have "show_positive ds n = take (nat n) ds @ ''.'' @ drop (nat n) ds"
      by (simp add: show_positive_def)
    then show ?thesis
      using unsigned_decimal_forms(2) [of "take (nat n) ds" "drop (nat n) ds"] parts ds point
      by simp
  next
    case zeros
    moreover from this have "\<not> int (length ds) \<le> n" using ds by (cases ds) auto
    ultimately have "show_positive ds n = ''0'' @ ''.'' @ (replicate (nat (- n)) (CHR ''0'') @ ds)"
      by (simp add: show_positive_def)
    moreover have "list_all is_digit (replicate (nat (- n)) (CHR ''0'') @ ds)"
      using ds by (auto simp: list_all_iff)
    ultimately show ?thesis
      using unsigned_decimal_forms(2) [of "''0''" "replicate (nat (- n)) (CHR ''0'') @ ds"] zeros
        digits_value_append [of "replicate (Suc (nat (- n))) (CHR ''0'')" ds]
      by simp
  next
    case one
    then have "show_positive ds n = ds @ show_exponent (n - 1)"
      by (auto simp: show_positive_def)
    with one show ?thesis
      using unsigned_decimal_forms(3) [of ds "[]"] ds parse_exponent_show [of "n - 1"]
      by (simp add: show_exponent_eq)
  next
    case exp
    then have "show_positive ds n = take 1 ds @ ''.'' @ drop 1 ds @ show_exponent (n - 1)"
      using ds by (auto simp: show_positive_def Let_def)
    moreover have "int (length ds) \<ge> 1" using ds by (cases ds) auto
    ultimately show ?thesis
      using unsigned_decimal_forms(4) [of "take 1 ds" "drop 1 ds"] parts ds exp
        parse_exponent_show [of "n - 1"]
      by (simp add: show_exponent_eq algebra_simps)
  qed
qed

section \<open>Printing and reading back\<close>

lemma strip_zeros_spec:
  "m \<noteq> 0 \<Longrightarrow> strip_zeros m e = (m', e') \<Longrightarrow>
     m' \<noteq> 0 \<and> \<not> 10 dvd m' \<and> e \<le> e' \<and> m = m' * 10 ^ nat (e' - e)"
proof (induction m e arbitrary: m' e' rule: strip_zeros.induct)
  case (1 m e)
  show ?case
  proof (cases "10 dvd m")
    case True
    with "1.prems" have "m div 10 \<noteq> 0" by auto
    moreover have "strip_zeros (m div 10) (e + 1) = (m', e')"
      using "1.prems" True by (simp add: strip_zeros.simps [of m])
    ultimately have IH: "m' \<noteq> 0" "\<not> 10 dvd m'" "e + 1 \<le> e'" "m div 10 = m' * 10 ^ nat (e' - (e + 1))"
      using "1.IH" "1.prems"(1) True by blast+
    have "nat (e' - e) = Suc (nat (e' - (e + 1)))" using IH(3) by simp
    with IH True show ?thesis by (auto simp: mult.assoc dest: dvd_mult_div_cancel)
  next
    case False
    with "1.prems" show ?thesis by (simp add: strip_zeros.simps [of m])
  qed
qed

lemma normalize_strip: "\<not> 10 dvd m \<Longrightarrow> normalize (m * 10 ^ j) (j + k) = Fin m k"
proof (induction j)
  case 0
  then show ?case by (cases k) simp_all
qed (simp add: mult.assoc)

lemma normalize_canonical: "canonical (Fin m k) \<Longrightarrow> normalize m k = Fin m k"
  by (cases k) simp_all

text \<open>The digits and exponent of a canonical number give it back.\<close>

lemma mk_decimal_strip:
  assumes "canonical (Fin (int m) k)" and "m \<noteq> 0" and "strip_zeros m (- int k) = (m', e)"
  shows "mk_decimal (int m') e = Fin (int m) k"
proof -
  from strip_zeros_spec [OF assms(2,3)]
  have m: "\<not> 10 dvd m'" "- int k \<le> e" "m = m' * 10 ^ nat (e + int k)" by simp_all
  show ?thesis
  proof (cases "k = 0")
    case True
    with m show ?thesis by (simp add: mk_decimal_def)
  next
    case False
    with assms(1) have "\<not> 10 dvd m" by simp presburger
    with m have "nat (e + int k) = 0" by (metis dvd_power dvd_triv_right dvd_trans gr0I)
    with m have "e = - int k" "m' = m" by simp_all
    with False assms(1) show ?thesis by (simp add: mk_decimal_def normalize_canonical)
  qed
qed

definition unsigned_text :: "string \<Rightarrow> bool" where
  "unsigned_text s \<longleftrightarrow> (\<exists>c t. s = c # t \<and> is_digit c) \<and> set s \<subseteq> {c. is_digit c} \<union> set ''.e+-''"

lemma unsigned_text_show:
  assumes "list_all is_digit ds" and "ds \<noteq> []"
  shows "unsigned_text (show_positive ds n)"
proof -
  obtain c t where ds: "ds = c # t" "is_digit c" "list_all is_digit t" using assms by (cases ds) auto
  have "set (nat_digits j) \<subseteq> {c. is_digit c}" for j
    using nat_digits_spec(2) [of j] by (auto simp: list_all_iff)
  moreover have "set (take j ds) \<subseteq> {c. is_digit c}" "set (drop j ds) \<subseteq> {c. is_digit c}" for j
    using assms(1) by (auto simp: list_all_iff dest: in_set_takeD in_set_dropD)
  ultimately show ?thesis
    using ds assms(1)
    by (auto simp: unsigned_text_def show_positive_def show_exponent_eq Let_def list_all_iff
        take_Cons' subset_iff dest: in_set_takeD)
qed

lemma unsigned_text_trim:
  assumes "unsigned_text s"
  shows "trim s = s \<and> trim (''-'' @ s) = ''-'' @ s"
proof -
  have "\<not> is_ws c" if "c \<in> set s" for c
    using assms that by (intro not_ws) (auto simp: unsigned_text_def)
  moreover have "\<not> is_ws (CHR ''-'')" by (simp add: is_ws_def)
  ultimately show ?thesis by (auto simp: list_all_iff intro!: trim_no_ws)
qed

lemma unsigned_text_radix:
  "unsigned_text s \<Longrightarrow> take 2 s \<notin> {''0x'', ''0X''} \<union> {''0o'', ''0O''} \<union> {''0b'', ''0B''}"
  by (cases s; cases "tl s") (auto simp: unsigned_text_def)

lemma read_unsigned_text:
  assumes "unsigned_text s"
  shows "string_to_number s = (case unsigned_decimal s of None \<Rightarrow> NaN | Some x \<Rightarrow> x)"
    and "string_to_number (''-'' @ s) = (case unsigned_decimal s of None \<Rightarrow> NaN | Some x \<Rightarrow> js_uminus x)"
proof -
  obtain c t where s: "s = c # t" "is_digit c" using assms by (auto simp: unsigned_text_def)
  then have c: "c \<noteq> CHR ''-''" "c \<noteq> CHR ''+''" by auto
  have radix: "take 2 s \<noteq> ''0x''" "take 2 s \<noteq> ''0X''" "take 2 s \<noteq> ''0o''" "take 2 s \<noteq> ''0O''"
    "take 2 s \<noteq> ''0b''" "take 2 s \<noteq> ''0B''"
    using unsigned_text_radix [OF assms] by auto
  note unfold = string_to_number_def Let_def signed_decimal_def
  show "string_to_number s = (case unsigned_decimal s of None \<Rightarrow> NaN | Some x \<Rightarrow> x)"
    using radix unsigned_text_trim [OF assms] c s(1) unfolding unfold by auto
  show "string_to_number (''-'' @ s) = (case unsigned_decimal s of None \<Rightarrow> NaN | Some x \<Rightarrow> js_uminus x)"
    using unsigned_text_trim [OF assms] unfolding unfold by simp
qed

lemma number_to_string_Fin:
  assumes "canonical (Fin m k)" and "m \<noteq> 0"
  shows "\<exists>u. unsigned_text u \<and> unsigned_decimal u = Some (Fin \<bar>m\<bar> k) \<and>
    number_to_string (Fin m k) = (if m < 0 then ''-'' @ u else u)"
proof -
  define a where "a = nat \<bar>m\<bar>"
  obtain m' e where strip: "strip_zeros a (- int k) = (m', e)" by (meson surj_pair)
  define ds where "ds = nat_digits m'"
  have ds: "list_all is_digit ds" "ds \<noteq> []" "digits_value ds = m'" by (simp_all add: ds_def)
  have "mk_decimal (int m') e = Fin (int a) k"
    using assms strip by (intro mk_decimal_strip) (auto simp: a_def)
  with read_show_positive [OF ds(1,2), of "int (length ds) + e"] ds(3)
  have "unsigned_decimal (show_positive ds (int (length ds) + e)) = Some (Fin \<bar>m\<bar> k)"
    by (simp add: a_def)
  with unsigned_text_show [OF ds(1,2), of "int (length ds) + e"] assms(2) strip show ?thesis
    by (intro exI [of _ "show_positive ds (int (length ds) + e)"]) (simp add: a_def ds_def Let_def)
qed

lemma string_number_roundtrip:
  assumes "canonical x"
  shows "string_to_number (number_to_string x) = x"
proof (cases x)
  case (Fin m k)
  show ?thesis
  proof (cases "m = 0")
    case True
    with assms Fin show ?thesis by (simp add: string_to_number_def trim_def is_ws_def signed_decimal_def
        unsigned_decimal_def digits_value_def digit_val_def mk_decimal_def)
  next
    case False
    with assms Fin number_to_string_Fin obtain u where "unsigned_text u"
        "unsigned_decimal u = Some (Fin \<bar>m\<bar> k)" "number_to_string x = (if m < 0 then ''-'' @ u else u)"
      by blast
    with read_unsigned_text [of u] Fin False show ?thesis by simp
  qed
qed (simp_all add: string_to_number_def trim_def is_ws_def signed_decimal_def unsigned_decimal_def)

lemma number_to_string_plain:
  assumes "canonical x" shows "trim (number_to_string x) = number_to_string x"
    "CHR '','' \<notin> set (number_to_string x)" "number_to_string x \<noteq> []"
proof -
  have "trim (number_to_string x) = number_to_string x \<and> CHR '','' \<notin> set (number_to_string x) \<and>
      number_to_string x \<noteq> []"
  proof (cases "\<exists>m k. x = Fin m k \<and> m \<noteq> 0")
    case True
    then obtain m k where x: "x = Fin m k" "m \<noteq> 0" by blast
    with assms number_to_string_Fin obtain u where u: "unsigned_text u"
        "number_to_string x = (if m < 0 then ''-'' @ u else u)" by blast
    then have "CHR '','' \<notin> set u" "u \<noteq> []" by (auto simp: unsigned_text_def)
    with u unsigned_text_trim [of u] show ?thesis by simp
  next
    case False
    then show ?thesis by (cases x) (auto simp: trim_def is_ws_def)
  qed
  then show "trim (number_to_string x) = number_to_string x" "CHR '','' \<notin> set (number_to_string x)"
    "number_to_string x \<noteq> []" by blast+
qed

lemma number_text: "number_to_string x \<noteq> []"
proof -
  have "show_positive ds n \<noteq> []" if "ds \<noteq> []" for ds n
    using that by (auto simp: show_positive_def Let_def)
  moreover have "nat_digits n \<noteq> []" for n by (subst nat_digits.simps) simp
  ultimately show ?thesis by (cases x) (auto simp: Let_def split: prod.split)
qed

section \<open>Reading a number at the start of a text\<close>

text \<open>\<open>parseInt(s, 10)\<close> and \<open>parseFloat(s)\<close>.\<close>

definition signed_part :: "string \<Rightarrow> bool \<times> string" where
  "signed_part s = (case dropWhile is_ws s of c # cs \<Rightarrow> if c = CHR ''-'' then (True, cs) else if c = CHR ''+'' then (False, cs) else (False, c # cs)
     | [] \<Rightarrow> (False, []))"

definition parse_int :: "string \<Rightarrow> js_number" where
  "parse_int s =
     (let (neg, r) = signed_part s; ds = takeWhile is_digit r; v = mk_decimal (int (digits_value ds)) 0
      in if ds = [] then NaN else if neg then js_uminus v else v)"

definition parse_float :: "string \<Rightarrow> js_number" where
  "parse_float s =
     (let (neg, r) = signed_part s; ks = filter (\<lambda>k. unsigned_decimal (take k r) \<noteq> None) (upt 0 (length r + 1))
      in if ks = [] then NaN else let v = the (unsigned_decimal (take (last ks) r)) in if neg then js_uminus v else v)"

end
