(* ===== verification/Filter_Validation.thy ===== *)
theory Filter_Validation
  imports Filter_Expr Js_Numbers "HOL-Library.AList"
begin

text \<open>
  Local validation of the filter (ui/src/modules/filter/utils.ts): arithmetic expressions,
  rules, legacy conditions, whole configurations, and the reading of what the user types.
  The errors of an object keyed by rule id are an association list without repeated keys.
  The tests \<open>!rule.operator\<close> and \<open>!expr.operator\<close> never hold in the model: the operator of a
  rule and of an expression node is always one of the union's members.
\<close>

section \<open>Arithmetic expressions\<close>

datatype ErrorLocation = LeftLoc | RightLoc | OperatorLoc

record ArithmeticExpressionValidation =
  aev_isValid :: bool
  aev_error :: "string option"
  errorLocation :: "ErrorLocation option"

definition arith_ok :: ArithmeticExpressionValidation where
  "arith_ok = \<lparr>aev_isValid = True, aev_error = None, errorLocation = None\<rparr>"

definition arith_error :: "string \<Rightarrow> ErrorLocation option \<Rightarrow> ArithmeticExpressionValidation" where
  "arith_error msg loc = \<lparr>aev_isValid = False, aev_error = Some msg, errorLocation = loc\<rparr>"

definition field_message :: "ErrorLocation \<Rightarrow> bool \<Rightarrow> bool \<Rightarrow> string" where
  "field_message location isChained isCurrentLevelChained =
     (if location = LeftLoc
      then if isChained then ''Select a field for the current expression''
           else ''Select a field for the left operand''
      else if isCurrentLevelChained then ''Select a field for the next operand''
           else ''Select a field for the right operand'')"

text \<open>\<open>validateArithmeticOperand\<close> on a plain operand; the loop stops at the first bad argument.\<close>

fun validateOperand :: "ErrorLocation \<Rightarrow> bool \<Rightarrow> bool \<Rightarrow> ArithmeticOperand \<Rightarrow> ArithmeticExpressionValidation option"
  and validateArguments :: "ErrorLocation \<Rightarrow> bool \<Rightarrow> bool \<Rightarrow> ArithmeticOperand list \<Rightarrow> ArithmeticExpressionValidation option"
where
  "validateOperand location isChained lvl (FieldOperand field _) =
     (if field = [] then Some (arith_error (field_message location isChained lvl) (Some location)) else None)"
| "validateOperand location isChained lvl (LiteralOperand _) = None"
| "validateOperand location isChained lvl (FunctionOperand f args) =
     (if f = [] then Some (arith_error ''Function name is required'' (Some location))
      else validateArguments location isChained lvl args)"
| "validateArguments location isChained lvl [] = None"
| "validateArguments location isChained lvl (arg # args) =
     (case validateOperand location isChained lvl arg of
        Some v \<Rightarrow> if \<not> aev_isValid v then Some v else validateArguments location isChained lvl args
      | None \<Rightarrow> validateArguments location isChained lvl args)"

fun validateArithmeticOperand ::
    "OperandOrNode \<Rightarrow> ErrorLocation \<Rightarrow> bool \<Rightarrow> bool \<Rightarrow> ArithmeticExpressionValidation option"
  and validateExprNode :: "ArithmeticExpressionNode \<Rightarrow> bool \<Rightarrow> ArithmeticExpressionValidation"
where
  "validateArithmeticOperand (Node e) location isChained lvl =
     (let v = validateExprNode e True in if aev_isValid v then None else Some v)"
| "validateArithmeticOperand (Operand x) location isChained lvl = validateOperand location isChained lvl x"
| "validateExprNode (ExprNode i l oper r) isChained =
     (let isCurrentLevelChained = isArithmeticExpressionNode l
      in case validateArithmeticOperand l LeftLoc isChained isCurrentLevelChained of
           Some leftError \<Rightarrow> leftError
         | None \<Rightarrow>
             (case validateArithmeticOperand r RightLoc isChained isCurrentLevelChained of
                Some rightError \<Rightarrow> rightError
              | None \<Rightarrow> arith_ok))"

definition validateArithmeticExpression ::
    "ArithmeticExpressionNode option \<Rightarrow> bool \<Rightarrow> ArithmeticExpressionValidation" where
  "validateArithmeticExpression expr isChained =
     (case expr of
        None \<Rightarrow> arith_error ''Complete both operands to continue building the expression'' None
      | Some e \<Rightarrow> validateExprNode e isChained)"

section \<open>Numeric input\<close>

definition normalizeNumericInput :: "string \<Rightarrow> string" where
  "normalizeNumericInput input =
     (let trimmed = trim input
      in if CHR ''.'' \<in> set trimmed \<and> CHR '','' \<in> set trimmed
         then if lastIndexOf (CHR ''.'') trimmed < lastIndexOf (CHR '','') trimmed
              then replace_first (CHR '','') ''.'' (replace_all (CHR ''.'') '''' trimmed)
              else replace_all (CHR '','') '''' trimmed
         else if CHR '','' \<in> set trimmed then replace_first (CHR '','') ''.'' trimmed
         else trimmed)"

definition parseValueForType :: "string \<Rightarrow> string \<Rightarrow> js_value" where
  "parseValueForType inputValue fieldType =
     (if isBooleanType fieldType then Bool (toLowerCase inputValue = ''true'')
      else if isNumericType fieldType
      then if inputValue = '''' \<or> trim inputValue = '''' then Str ''''
           else let num = string_to_number (normalizeNumericInput inputValue)
                in if isNaN num then Str inputValue else Num num
      else Str inputValue)"

definition getDefaultValueForType :: "string \<Rightarrow> js_value" where
  "getDefaultValueForType fieldType =
     (if isBooleanType fieldType then Bool True
      else if isNumericType fieldType then Num (Fin 0 0)
      else Str '''')"

section \<open>Rules and conditions\<close>

record RuleErrors =
  err_field :: "string option"
  err_operator :: "string option"
  err_value :: "string option"

definition no_errors :: RuleErrors where
  "no_errors = \<lparr>err_field = None, err_operator = None, err_value = None\<rparr>"

record RuleValidation =
  rv_isValid :: bool
  rv_errors :: RuleErrors

definition is_bool_text :: "string \<Rightarrow> bool" where
  "is_bool_text s \<longleftrightarrow> toLowerCase s = ''true'' \<or> toLowerCase s = ''false''"

text \<open>The value check of a rule; the same code stands in the check of a legacy condition.\<close>

definition single_number :: "js_value \<Rightarrow> js_number" where
  "single_number v =
     (case v of Str s \<Rightarrow> string_to_number (normalizeNumericInput s) | _ \<Rightarrow> js_Number v)"

definition array_value_error :: "js_value \<Rightarrow> string \<Rightarrow> string option" where
  "array_value_error v fieldType =
     (let items = split_items v
      in if items = [] then Some ''At least one value is required''
         else if isNumericType fieldType
         then if list_ex (\<lambda>item. isNaN (string_to_number item)) items
              then Some ''All values must be numbers'' else None
         else if isBooleanType fieldType
         then if list_ex (\<lambda>item. \<not> is_bool_text item) items
              then Some ''All values must be true or false'' else None
         else None)"

definition single_value_error :: "js_value \<Rightarrow> string \<Rightarrow> string option" where
  "single_value_error v fieldType =
     (if isBooleanType fieldType \<and> \<not> is_bool_text (js_String v)
      then Some ''Value must be true or false''
      else if isNumericType fieldType \<and> isNaN (single_number v) then Some ''Value must be a number''
      else None)"

definition value_error :: "FilterOperator \<Rightarrow> js_value \<Rightarrow> string \<Rightarrow> string option" where
  "value_error oper v fieldType =
     (if isNoValueOperator oper then None
      else if \<not> has_value v then Some ''Value is required''
      else if fieldType = [] then None
      else if isArrayValueOperator oper then array_value_error v fieldType
      else single_value_error v fieldType)"

definition operator_error :: "FilterOperator \<Rightarrow> string \<Rightarrow> string option" where
  "operator_error oper fieldType =
     (if fieldType \<noteq> [] \<and> \<not> list_ex (\<lambda>d. op_value d = oper) (getOperatorsForType fieldType)
      then Some (''Operator not supported for '' @ fieldType @ '' fields'') else None)"

definition validateRuleLocally :: "FilterRule \<Rightarrow> RuleValidation" where
  "validateRuleLocally rule =
     (let fieldError =
            (if useArithmeticExpression rule
             then (let v = validateArithmeticExpression (arithmeticExpression rule) False
                   in if aev_isValid v then None
                      else Some (case aev_error v of
                                   Some msg \<Rightarrow> if msg = [] then ''Invalid expression'' else msg
                                 | None \<Rightarrow> ''Invalid expression''))
             else if rule_field rule = [] then Some ''Field is required'' else None);
          effectiveFieldType =
            (if useArithmeticExpression rule then getArithmeticExpressionType else rule_fieldType rule);
          valueError = value_error (rule_operator rule) (rule_value rule) effectiveFieldType;
          operatorError =
            (if useArithmeticExpression rule then None
             else operator_error (rule_operator rule) (rule_fieldType rule));
          errors = \<lparr>err_field = fieldError, err_operator = operatorError, err_value = valueError\<rparr>
      in \<lparr>rv_isValid = (errors = no_errors), rv_errors = errors\<rparr>)"

definition validateConditionLocally :: "FilterCondition \<Rightarrow> RuleValidation" where
  "validateConditionLocally c =
     (let errors =
            \<lparr>err_field = (if cond_field c = [] then Some ''Field is required'' else None),
             err_operator = operator_error (cond_operator c) (cond_fieldType c),
             err_value = value_error (cond_operator c) (cond_value c) (cond_fieldType c)\<rparr>
      in \<lparr>rv_isValid = (errors = no_errors), rv_errors = errors\<rparr>)"

section \<open>Configurations\<close>

record FilterConfigValidation =
  fcv_isValid :: bool
  conditionErrors :: "(string \<times> RuleErrors) list"
  globalErrors :: "string list"

definition record_rule :: "FilterRule \<Rightarrow> (string \<times> RuleErrors) list \<Rightarrow> (string \<times> RuleErrors) list" where
  "record_rule r errs =
     (let v = validateRuleLocally r
      in if rv_isValid v then errs else AList.update (rule_id r) (rv_errors v) errs)"

fun validateGroupRecursively :: "FilterGroup \<Rightarrow> (string \<times> RuleErrors) list \<Rightarrow> (string \<times> RuleErrors) list"
  and validateItems :: "FilterItem list \<Rightarrow> (string \<times> RuleErrors) list \<Rightarrow> (string \<times> RuleErrors) list" where
  "validateGroupRecursively (FilterGroup i c n cs) errs = validateItems cs errs"
| "validateItems [] errs = errs"
| "validateItems (RuleItem r # cs) errs = validateItems cs (record_rule r errs)"
| "validateItems (GroupItem g # cs) errs = validateItems cs (validateGroupRecursively g errs)"

definition record_condition :: "(string \<times> RuleErrors) list \<Rightarrow> FilterCondition \<Rightarrow> (string \<times> RuleErrors) list" where
  "record_condition errs c =
     (let v = validateConditionLocally c
      in if rv_isValid v then errs else AList.update (cond_id c) (rv_errors v) errs)"

definition validateFilterConfigLocally :: "FilterConfig \<Rightarrow> FilterConfigValidation" where
  "validateFilterConfigLocally config =
     (if \<not> cfg_enabled config then \<lparr>fcv_isValid = True, conditionErrors = [], globalErrors = []\<rparr>
      else let (cErrs, gErrs) =
             (case cfg_root config of
                Some g \<Rightarrow>
                  (validateGroupRecursively g [],
                   if countRulesInGroup g = 0 then [''At least one filter rule is required''] else [])
              | None \<Rightarrow>
                  (case legacy_conditions config of
                     Some conds \<Rightarrow>
                       (foldl record_condition [] conds,
                        if conds = [] then [''At least one filter condition is required''] else [])
                   | None \<Rightarrow> ([], [])))
           in \<lparr>fcv_isValid = (cErrs = [] \<and> gErrs = []), conditionErrors = cErrs, globalErrors = gErrs\<rparr>)"


section \<open>Lemmas\<close>

lemma arith_simps [simp]:
  "aev_isValid arith_ok" "\<not> aev_isValid (arith_error m l)"
  "aev_error arith_ok = None" "aev_error (arith_error m l) = Some m"
  by (simp_all add: arith_ok_def arith_error_def)

lemma field_message_nonempty [simp]: "field_message location c l \<noteq> []"
  by (simp add: field_message_def)

text \<open>A failed check carries an error with a message, and never a success.\<close>

definition arith_failure :: "ArithmeticExpressionValidation \<Rightarrow> bool" where
  "arith_failure v \<longleftrightarrow> \<not> aev_isValid v \<and> (\<exists>m. aev_error v = Some m \<and> m \<noteq> [])"

lemma validateOperand_spec:
  "case validateOperand location c l x of None \<Rightarrow> isOperandComplete x
     | Some v \<Rightarrow> \<not> isOperandComplete x \<and> arith_failure v"
  "case validateArguments location c l xs of None \<Rightarrow> list_all isOperandComplete xs
     | Some v \<Rightarrow> \<not> list_all isOperandComplete xs \<and> arith_failure v"
  by (induction location c l x and location c l xs rule: validateOperand_validateArguments.induct)
    (auto simp: arith_failure_def split: option.splits if_splits)

lemma validateExprNode_spec:
  "case validateArithmeticOperand x location c l of None \<Rightarrow> isArithmeticOperandComplete x
     | Some v \<Rightarrow> \<not> isArithmeticOperandComplete x \<and> arith_failure v"
  "if isExprNodeComplete e then validateExprNode e c = arith_ok else arith_failure (validateExprNode e c)"
proof (induction x location c l and e c rule: validateArithmeticOperand_validateExprNode.induct)
  case (1 e location c l)
  then show ?case by (auto simp: Let_def arith_failure_def split: if_splits)
next
  case (2 x location c l)
  then show ?case using validateOperand_spec(1) [where location = location and c = c and l = l and x = x] by (simp split: option.splits)
next
  case (3 i l oper r c)
  then show ?case by (auto simp: Let_def split: option.splits)
qed

lemma no_errors_iff:
  "\<lparr>err_field = a, err_operator = b, err_value = v\<rparr> = no_errors \<longleftrightarrow> a = None \<and> b = None \<and> v = None"
  by (simp add: no_errors_def)

lemma value_error_has_value: "value_error oper v t = None \<Longrightarrow> isNoValueOperator oper \<or> has_value v"
  by (auto simp: value_error_def split: if_splits)

lemma validRule_complete: "rv_isValid (validateRuleLocally r) \<Longrightarrow> isRuleComplete r"
  using validateExprNode_spec(2) [of "the (arithmeticExpression r)" False]
  by (auto simp: validateRuleLocally_def isRuleComplete_def no_errors_iff Let_def
      validateArithmeticExpression_def isArithmeticExpressionComplete_def arith_failure_def
      dest: value_error_has_value split: option.splits if_splits)

lemma record_rule_Nil: "record_rule r errs = [] \<longleftrightarrow> errs = [] \<and> rv_isValid (validateRuleLocally r)"
  by (cases errs) (auto simp: record_rule_def Let_def)

lemma validateGroup_Nil:
  "validateGroupRecursively g errs = [] \<longleftrightarrow>
     errs = [] \<and> (\<forall>r \<in> set (getAllRules g). rv_isValid (validateRuleLocally r))"
  "validateItems cs errs = [] \<longleftrightarrow>
     errs = [] \<and> (\<forall>r \<in> set (getAllRules_loop cs). rv_isValid (validateRuleLocally r))"
  by (induction g errs and cs errs rule: validateGroupRecursively_validateItems.induct)
    (auto simp: record_rule_Nil)


lemma normalize_number: "canonical x \<Longrightarrow> normalizeNumericInput (number_to_string x) = number_to_string x"
  by (simp add: normalizeNumericInput_def number_to_string_plain)

lemma type_test_disjoint [simp]: "isNumericType t \<Longrightarrow> \<not> isBooleanType t"
  by (auto simp: type_test_defs)

text \<open>A numeric value the user typed is a number whenever it passes validation.\<close>

lemma single_number_parse:
  assumes "isNumericType t" and "single_value_error (parseValueForType s t) t = None"
    and "has_value (parseValueForType s t)"
  shows "\<exists>n. parseValueForType s t = Num n \<and> n \<noteq> NaN"
  using assms
  by (auto simp: parseValueForType_def single_value_error_def single_number_def has_value_def Let_def
      isNaN_def split: if_splits)

lemma lower_true: "toLowerCase ''true'' = ''true''" "toLowerCase ''false'' = ''false''"
  by (simp_all add: toLowerCase_def lower_char_def char_of_def of_char_def)

section \<open>Properties\<close>

text \<open>
  The error check of an arithmetic expression agrees with the completeness test the
  serialiser uses: the expression is valid exactly when it is complete, a valid result carries no
  message, and every failure carries a non-empty one.
\<close>

theorem validateArithmeticExpression_spec:
  "let v = validateArithmeticExpression e isChained
   in (aev_isValid v \<longleftrightarrow> isArithmeticExpressionComplete e) \<and>
      (if aev_isValid v then v = arith_ok else \<exists>m. aev_error v = Some m \<and> m \<noteq> [])"
proof (cases e)
  case (Some n)
  with validateExprNode_spec(2) [of n isChained] show ?thesis
    by (auto simp: validateArithmeticExpression_def isArithmeticExpressionComplete_def
        arith_failure_def Let_def split: if_splits)
qed (simp add: validateArithmeticExpression_def isArithmeticExpressionComplete_def)

text \<open>
  C6. An enabled configuration with a tree is valid exactly when it has a rule and every
  rule at every depth passes its own check; then every rule is complete, none is left out of the
  expression, and the expression is not empty.
\<close>

theorem validateFilterConfig_spec:
  assumes "cfg_enabled c" and "cfg_root c = Some g"
  shows "(fcv_isValid (validateFilterConfigLocally c) \<longleftrightarrow>
      getAllRules g \<noteq> [] \<and> list_all (\<lambda>r. rv_isValid (validateRuleLocally r)) (getAllRules g)) \<and>
    (fcv_isValid (validateFilterConfigLocally c) \<longrightarrow>
      list_all isRuleComplete (getAllRules g) \<and> (\<exists>s. toExprString c = Inr s \<and> s \<noteq> []))"
proof -
  have iff: "fcv_isValid (validateFilterConfigLocally c) \<longleftrightarrow>
      getAllRules g \<noteq> [] \<and> list_all (\<lambda>r. rv_isValid (validateRuleLocally r)) (getAllRules g)"
    using assms validateGroup_Nil(1) [of g "[]"]
    by (auto simp: validateFilterConfigLocally_def countRulesInGroup_length list_all_iff)
  obtain s where "groupToExpr g = Inr s" "s = [] \<longleftrightarrow> (\<forall>r \<in> set (getAllRules g). \<not> isRuleComplete r)"
    using groupToExpr_shape(1) by blast
  with iff assms show ?thesis
    by (cases "getAllRules g") (auto simp: toExprString_def list_all_iff dest: validRule_complete)
qed

theorem validateFilterConfig_spec_witness:
  "\<exists>s. toExprString \<lparr>cfg_enabled = True, cfg_root = Some (FilterGroup ''g'' And False
       [RuleItem (createEmptyRule ''a'' \<lparr>rule_field := ''x'', rule_fieldType := ''int'', rule_operator := IsNull\<rparr>)]),
     legacy_combinator = None, legacy_conditions = None\<rparr> = Inr s \<and> s \<noteq> []"
proof -
  let ?r = "createEmptyRule ''a'' \<lparr>rule_field := ''x'', rule_fieldType := ''int'', rule_operator := IsNull\<rparr>"
  have "rv_isValid (validateRuleLocally ?r)"
    by (simp add: validateRuleLocally_def createEmptyRule_def value_error_def operator_error_def
        isNoValueOperator_def getOperatorsForType_def FILTER_OPERATORS_def opdef_def ALL_TYPES_def no_errors_iff)
  then show ?thesis
    using validateFilterConfig_spec [of "\<lparr>cfg_enabled = True, cfg_root = Some (FilterGroup ''g'' And False
       [RuleItem ?r]), legacy_combinator = None, legacy_conditions = None\<rparr>" "FilterGroup ''g'' And False [RuleItem ?r]"]
    by simp
qed

text \<open>
  The number formats of the value field, for digit strings \<open>a\<close>, \<open>b\<close>, \<open>c\<close>: plain and
  English decimals stay, a decimal comma becomes a point, and of two kinds of separators the
  last is the decimal one. A lone thousands comma is read as a decimal comma, and of several
  commas only the first is rewritten.
\<close>

theorem normalize_formats:
  assumes "list_all is_digit a" and "list_all is_digit b" and "list_all is_digit c"
  shows "normalizeNumericInput a = a \<and>
    normalizeNumericInput (a @ ''.'' @ b) = a @ ''.'' @ b \<and>
    normalizeNumericInput (a @ '','' @ b) = a @ ''.'' @ b \<and>
    normalizeNumericInput (a @ '','' @ b @ ''.'' @ c) = a @ b @ ''.'' @ c \<and>
    normalizeNumericInput (a @ ''.'' @ b @ '','' @ c) = a @ b @ ''.'' @ c \<and>
    normalizeNumericInput (a @ '','' @ b @ '','' @ c) = a @ ''.'' @ b @ '','' @ c"
proof -
  note no_sep = digits_no_sep [OF assms(1)] digits_no_sep [OF assms(2)] digits_no_sep [OF assms(3)]
  have trims: "trim (a @ s @ b @ t @ c) = a @ s @ b @ t @ c"
    if "s \<in> {''.'', '',''}" "t \<in> {''.'', '',''}" for s t
    using that assms[THEN digits_no_ws] by (intro trim_no_ws) auto
  have last1: "lastIndexOf (CHR ''.'') (a @ CHR '','' # b @ CHR ''.'' # c) = int (length a + 1 + length b)"
    using lastIndexOf_append [of "CHR ''.''" c "a @ CHR '','' # b"] no_sep by simp
  have last2: "lastIndexOf (CHR '','') (a @ CHR '','' # b @ CHR ''.'' # c) = int (length a)"
    using lastIndexOf_append [of "CHR '',''" "b @ CHR ''.'' # c" a] no_sep by simp
  have last3: "lastIndexOf (CHR '','') (a @ CHR ''.'' # b @ CHR '','' # c) = int (length a + 1 + length b)"
    using lastIndexOf_append [of "CHR '',''" c "a @ CHR ''.'' # b"] no_sep by simp
  have last4: "lastIndexOf (CHR ''.'') (a @ CHR ''.'' # b @ CHR '','' # c) = int (length a)"
    using lastIndexOf_append [of "CHR ''.''" "b @ CHR '','' # c" a] no_sep by simp
  have t0: "trim a = a" using assms(1) by (simp add: trim_no_ws digits_no_ws)
  have t1: "trim (a @ CHR ''.'' # b) = a @ CHR ''.'' # b"
    "trim (a @ CHR '','' # b) = a @ CHR '','' # b"
    using assms[THEN digits_no_ws] by (simp_all add: trim_no_ws)
  have rep: "replace_first (CHR '','') ''.'' (a @ b @ CHR '','' # c) = a @ b @ CHR ''.'' # c"
    using replace_first_append [of "CHR '',''" "a @ b" "''.''" c] no_sep by simp
  show ?thesis
    using no_sep trims[of "'',''" "''.''"] trims[of "''.''" "'',''"] trims[of "'',''" "'',''"] t0 t1
    by (simp add: normalizeNumericInput_def last1 last2 last3 last4 replace_first_append
        replace_all_append replace_all_sep replace_all_absent rep)
qed


theorem normalize_formats_witness:
  "normalizeNumericInput ''1,000'' = ''1.000'' \<and> normalizeNumericInput ''1.234,5'' = ''1234.5''"
  using normalize_formats [of "''1''" "''234''" "''5''"] normalize_formats [of "''1''" "''000''" "''''"]
  by (simp add: is_digit_def)

text \<open>
  What the filter writes for a number it reads back as that number: for every numeric type
  and every decimal, with or without exponent, \<open>parseValueForType\<close> inverts
  \<open>formatValueForExpr\<close>.
\<close>

theorem value_roundtrip:
  assumes "isNumericType t" and "canonical x" and "x \<noteq> NaN"
  shows "parseValueForType (formatValueForExpr (Num x) t) t = Num x"
  using assms number_to_string_plain [OF assms(2)]
  by (simp add: parseValueForType_def formatValueForExpr_def normalize_number string_number_roundtrip
      isNaN_def Let_def)

theorem value_roundtrip_witness:
  "parseValueForType (formatValueForExpr (Num (Fin (-125) 2)) ''float'') ''float'' = Num (Fin (-125) 2)"
  using value_roundtrip [of "''float''" "Fin (-125) 2"] by (simp add: type_test_defs)

text \<open>
  A comparison with one typed value that passes validation is well-typed: a value parsed
  for a numeric type is a number and is written as its digits, and for a boolean it is written
  as the boolean itself.
\<close>

theorem valid_single_value:
  assumes "value_error oper (parseValueForType s t) t = None"
    and "\<not> isNoValueOperator oper" and "\<not> isArrayValueOperator oper"
  shows "(isNumericType t \<longrightarrow> (\<exists>n. parseValueForType s t = Num n \<and> n \<noteq> NaN \<and>
      formatValueForExpr (parseValueForType s t) t = number_to_string n)) \<and>
    (isBooleanType t \<longrightarrow> formatValueForExpr (parseValueForType s t) t =
      (if toLowerCase s = ''true'' then ''true'' else ''false''))"
proof (intro conjI impI)
  assume t: "isNumericType t"
  then have "t \<noteq> []" by (auto simp: type_test_defs)
  with assms have "single_value_error (parseValueForType s t) t = None" "has_value (parseValueForType s t)"
    by (auto simp: value_error_def split: if_splits)
  from single_number_parse [OF t this] t show "\<exists>n. parseValueForType s t = Num n \<and> n \<noteq> NaN \<and>
      formatValueForExpr (parseValueForType s t) t = number_to_string n"
    by (auto simp: formatValueForExpr_def)
next
  assume "isBooleanType t"
  then show "formatValueForExpr (parseValueForType s t) t = (if toLowerCase s = ''true'' then ''true'' else ''false'')"
    by (simp add: parseValueForType_def formatValueForExpr_def lower_true)
qed

theorem valid_single_value_witness:
  "formatValueForExpr (parseValueForType ''TRUE'' ''bool'') ''bool'' = ''true''"
proof -
  have "value_error Eq (parseValueForType ''TRUE'' ''bool'') ''bool'' = None"
    by (simp add: value_error_def parseValueForType_def type_test_defs isNoValueOperator_def
        isArrayValueOperator_def single_value_error_def is_bool_text_def has_value_def lower_true)
  moreover have "toLowerCase ''TRUE'' = ''true''"
    by code_simp
  ultimately show ?thesis
    using valid_single_value [of Eq "''TRUE''" "''bool''"]
    by (simp add: isNoValueOperator_def isArrayValueOperator_def isBooleanType_def)
qed

end
