(* ===== verification/Slices.thy ===== *)
theory Slices
  imports Validation_State
begin

text \<open>
  The source-side slices of the store: deduplication, join, steps, topics, OTLP and resources
  (ui/src/store/*.store.ts), each a record with one function per action. Arrays indexed by
  topic are partial maps from the topic index.
\<close>

section \<open>Deduplication\<close>

datatype TimeUnit = Seconds | Minutes | Hours | Days

record DeduplicationConfig =
  dc_enabled :: bool
  dc_window :: js_number
  dc_unit :: TimeUnit
  dc_key :: string
  dc_keyType :: string

record DeduplicationStore =
  deduplicationConfigs :: "nat \<rightharpoonup> DeduplicationConfig"
  dedup_validation :: ValidationState

definition initialDeduplicationStore :: DeduplicationStore where
  "initialDeduplicationStore = \<lparr>deduplicationConfigs = Map.empty, dedup_validation = createInitialValidation\<rparr>"

definition updateDeduplication :: "time \<Rightarrow> nat \<Rightarrow> DeduplicationConfig \<Rightarrow> DeduplicationStore \<Rightarrow> DeduplicationStore" where
  "updateDeduplication now topicIndex config s =
     s\<lparr>deduplicationConfigs := (deduplicationConfigs s)(topicIndex \<mapsto> config),
       dedup_validation := createValidValidation now\<rparr>"

definition getDeduplication :: "nat \<Rightarrow> DeduplicationStore \<Rightarrow> DeduplicationConfig option" where
  "getDeduplication topicIndex s = deduplicationConfigs s topicIndex"

definition skippedDeduplication :: DeduplicationConfig where
  "skippedDeduplication = \<lparr>dc_enabled = False, dc_window = Fin 0 0, dc_unit = Minutes, dc_key = '''', dc_keyType = ''''\<rparr>"

definition clearedDeduplication :: DeduplicationConfig where
  "clearedDeduplication = \<lparr>dc_enabled = True, dc_window = Fin 1 0, dc_unit = Minutes, dc_key = '''', dc_keyType = ''''\<rparr>"

definition skipDeduplication :: "time \<Rightarrow> nat \<Rightarrow> DeduplicationStore \<Rightarrow> DeduplicationStore" where
  "skipDeduplication now topicIndex s =
     s\<lparr>deduplicationConfigs := (deduplicationConfigs s)(topicIndex \<mapsto> skippedDeduplication),
       dedup_validation := createValidValidation now\<rparr>"

definition invalidateDeduplication :: "time \<Rightarrow> nat \<Rightarrow> DeduplicationStore \<Rightarrow> DeduplicationStore" where
  "invalidateDeduplication now topicIndex s =
     s\<lparr>deduplicationConfigs := (deduplicationConfigs s)(topicIndex \<mapsto> clearedDeduplication),
       dedup_validation := createInvalidatedValidation now ''topic-changed''\<rparr>"

definition resetDeduplicationStore :: "DeduplicationStore \<Rightarrow> DeduplicationStore" where
  "resetDeduplicationStore s =
     s\<lparr>deduplicationConfigs := Map.empty, dedup_validation := createInitialValidation\<rparr>"

definition dedup_markAsValid :: "time \<Rightarrow> DeduplicationStore \<Rightarrow> DeduplicationStore" where
  "dedup_markAsValid now s = s\<lparr>dedup_validation := createValidValidation now\<rparr>"

definition dedup_markAsInvalidated :: "time \<Rightarrow> string \<Rightarrow> DeduplicationStore \<Rightarrow> DeduplicationStore" where
  "dedup_markAsInvalidated now sec s = s\<lparr>dedup_validation := createInvalidatedValidation now sec\<rparr>"

definition dedup_markAsNotConfigured :: "DeduplicationStore \<Rightarrow> DeduplicationStore" where
  "dedup_markAsNotConfigured s = s\<lparr>dedup_validation := createInitialValidation\<rparr>"

definition dedup_resetValidation :: "DeduplicationStore \<Rightarrow> DeduplicationStore" where
  "dedup_resetValidation s = s\<lparr>dedup_validation := createInitialValidation\<rparr>"

lemmas dedup_defs = initialDeduplicationStore_def updateDeduplication_def getDeduplication_def
  skippedDeduplication_def clearedDeduplication_def skipDeduplication_def
  invalidateDeduplication_def resetDeduplicationStore_def dedup_markAsValid_def
  dedup_markAsInvalidated_def dedup_markAsNotConfigured_def dedup_resetValidation_def

interpretation dedup_slice: validated_slice dedup_validation deduplicationConfigs
  dedup_markAsValid dedup_markAsInvalidated dedup_markAsNotConfigured dedup_resetValidation
  by unfold_locales (simp_all add: dedup_defs)

section \<open>Join\<close>

datatype JoinOrientation = LeftSide | RightSide

record JoinStream =
  streamId :: string
  js_topicName :: string
  joinKey :: string
  joinTimeWindowValue :: js_number
  joinTimeWindowUnit :: string
  orientation :: JoinOrientation

record JoinStore =
  join_enabled :: bool
  join_type :: string
  streams :: "JoinStream list"
  join_validation :: ValidationState

definition initialJoinStore :: JoinStore where
  "initialJoinStore = \<lparr>join_enabled = False, join_type = ''temporal'', streams = [],
     join_validation = createInitialValidation\<rparr>"

definition setEnabled :: "bool \<Rightarrow> JoinStore \<Rightarrow> JoinStore" where
  "setEnabled b s = s\<lparr>join_enabled := b\<rparr>"

definition setType :: "string \<Rightarrow> JoinStore \<Rightarrow> JoinStore" where
  "setType t s = s\<lparr>join_type := t\<rparr>"

text \<open>The code copies each stream field by field, which is the identity on a stream.\<close>

definition copy_stream :: "JoinStream \<Rightarrow> JoinStream" where
  "copy_stream st = \<lparr>streamId = streamId st, js_topicName = js_topicName st, joinKey = joinKey st,
     joinTimeWindowValue = joinTimeWindowValue st, joinTimeWindowUnit = joinTimeWindowUnit st,
     orientation = orientation st\<rparr>"

definition setStreams :: "time \<Rightarrow> JoinStream list \<Rightarrow> JoinStore \<Rightarrow> JoinStore" where
  "setStreams now sts s = s\<lparr>streams := map copy_stream sts, join_validation := createValidValidation now\<rparr>"

definition getIsJoinDirty :: "JoinStore \<Rightarrow> bool" where
  "getIsJoinDirty s \<longleftrightarrow> streams s \<noteq> []"

definition resetJoinStore :: "JoinStore \<Rightarrow> JoinStore" where
  "resetJoinStore s = initialJoinStore"

definition join_markAsValid :: "time \<Rightarrow> JoinStore \<Rightarrow> JoinStore" where
  "join_markAsValid now s = s\<lparr>join_validation := createValidValidation now\<rparr>"

definition join_markAsInvalidated :: "time \<Rightarrow> string \<Rightarrow> JoinStore \<Rightarrow> JoinStore" where
  "join_markAsInvalidated now sec s = s\<lparr>join_validation := createInvalidatedValidation now sec\<rparr>"

definition join_markAsNotConfigured :: "JoinStore \<Rightarrow> JoinStore" where
  "join_markAsNotConfigured s = s\<lparr>join_validation := createInitialValidation\<rparr>"

definition join_resetValidation :: "JoinStore \<Rightarrow> JoinStore" where
  "join_resetValidation s = s\<lparr>join_validation := createInitialValidation\<rparr>"

lemmas join_defs = initialJoinStore_def setEnabled_def setType_def copy_stream_def setStreams_def
  getIsJoinDirty_def resetJoinStore_def join_markAsValid_def join_markAsInvalidated_def
  join_markAsNotConfigured_def join_resetValidation_def

interpretation join_slice: validated_slice join_validation "\<lambda>s. (join_enabled s, join_type s, streams s)"
  join_markAsValid join_markAsInvalidated join_markAsNotConfigured join_resetValidation
  by unfold_locales (simp_all add: join_defs)

section \<open>Steps\<close>

record StepsStore =
  activeStepId :: "string option"
  completedStepIds :: "string list"
  resumeStepId :: "string option"

definition initialStepsStore :: StepsStore where
  "initialStepsStore = \<lparr>activeStepId = None, completedStepIds = [], resumeStepId = None\<rparr>"

definition setActiveStepId :: "string option \<Rightarrow> StepsStore \<Rightarrow> StepsStore" where
  "setActiveStepId i s = s\<lparr>activeStepId := i\<rparr>"

definition setCompletedStepIds :: "string list \<Rightarrow> StepsStore \<Rightarrow> StepsStore" where
  "setCompletedStepIds ids s = s\<lparr>completedStepIds := ids\<rparr>"

definition addCompletedStepId :: "string \<Rightarrow> StepsStore \<Rightarrow> StepsStore" where
  "addCompletedStepId i s =
     (if i \<notin> set (completedStepIds s) then s\<lparr>completedStepIds := completedStepIds s @ [i]\<rparr> else s)"

definition setResumeStepId :: "string option \<Rightarrow> StepsStore \<Rightarrow> StepsStore" where
  "setResumeStepId i s = s\<lparr>resumeStepId := i\<rparr>"

definition clearResumeStepId :: "StepsStore \<Rightarrow> StepsStore" where
  "clearResumeStepId s = s\<lparr>resumeStepId := None\<rparr>"

definition removeCompletedStepsAfterId :: "string \<Rightarrow> string list \<Rightarrow> StepsStore \<Rightarrow> StepsStore" where
  "removeCompletedStepsAfterId instanceId journeyInstanceIds s =
     (let idx = indexOf journeyInstanceIds instanceId
      in if idx = -1 then s
         else s\<lparr>completedStepIds := filter (\<lambda>i.
                let journeyIdx = indexOf journeyInstanceIds i in journeyIdx \<noteq> -1 \<and> journeyIdx \<le> idx)
              (completedStepIds s)\<rparr>)"

definition resetStepsStore :: "StepsStore \<Rightarrow> StepsStore" where
  "resetStepsStore s = initialStepsStore"

section \<open>Topics\<close>

datatype InitialOffset = Earliest | Latest

datatype EventPosition = PosNumber js_number | PosString string

fun offset_position :: "InitialOffset \<Rightarrow> EventPosition" where
  "offset_position Earliest = PosString ''earliest''"
| "offset_position Latest = PosString ''latest''"

record KafkaEvent =
  event :: json
  topicIndex :: nat
  position :: EventPosition
  kafkaOffset :: "js_number option"
  isAtEarliest :: "bool option"
  isAtLatest :: "bool option"
  isManualEvent :: "bool option"

record KafkaFieldSchema =
  fs_name :: string
  fs_type :: string
  inferredType :: "string option"
  userType :: "string option"
  isManuallyAdded :: "bool option"
  isRemoved :: "bool option"

datatype SchemaSource = Internal | External | RegistryResolvedFromEvent

record KafkaTopic =
  topic_name :: string
  topic_index :: nat
  events :: "KafkaEvent list"
  selectedEvent :: KafkaEvent
  initialOffset :: InitialOffset
  replicas :: "js_number option"
  partitionCount :: "js_number option"
  topic_schema :: "KafkaFieldSchema list option"
  schemaSource :: "SchemaSource option"
  schemaRegistrySubject :: "string option"
  schemaRegistryVersion :: "string option"

record TopicsStore =
  availableTopics :: "string list"
  topics_topicCount :: nat
  topics :: "nat \<rightharpoonup> KafkaTopic"
  topics_validation :: ValidationState

definition initialTopicsStore :: TopicsStore where
  "initialTopicsStore = \<lparr>availableTopics = [], topics_topicCount = 0, topics = Map.empty,
     topics_validation = createInitialValidation\<rparr>"

definition setAvailableTopics :: "string list \<Rightarrow> TopicsStore \<Rightarrow> TopicsStore" where
  "setAvailableTopics ts s = s\<lparr>availableTopics := ts\<rparr>"

definition topics_setTopicCount :: "nat \<Rightarrow> TopicsStore \<Rightarrow> TopicsStore" where
  "topics_setTopicCount n s = s\<lparr>topics_topicCount := n\<rparr>"

definition updateTopic :: "time \<Rightarrow> KafkaTopic \<Rightarrow> TopicsStore \<Rightarrow> TopicsStore" where
  "updateTopic now topic s =
     s\<lparr>topics := (topics s)(topic_index topic \<mapsto> topic), topics_validation := createValidValidation now\<rparr>"

definition getTopic :: "nat \<Rightarrow> TopicsStore \<Rightarrow> KafkaTopic option" where
  "getTopic i s = topics s i"

definition getEvent :: "nat \<Rightarrow> nat \<Rightarrow> TopicsStore \<Rightarrow> KafkaEvent option" where
  "getEvent i eventIndex s =
     (case topics s i of
        None \<Rightarrow> None
      | Some topic \<Rightarrow> if eventIndex < length (events topic) then Some (events topic ! eventIndex) else None)"

text \<open>The topic that \<open>invalidateTopicDependentState\<close> leaves: name, index and offset only.\<close>

definition cleanedTopic :: "nat \<Rightarrow> KafkaTopic \<Rightarrow> KafkaTopic" where
  "cleanedTopic i topic =
     \<lparr>topic_name = topic_name topic, topic_index = topic_index topic, events = [],
      selectedEvent = \<lparr>event = JNull, topicIndex = i, position = offset_position (initialOffset topic),
        kafkaOffset = None, isAtEarliest = None, isAtLatest = None, isManualEvent = None\<rparr>,
      initialOffset = initialOffset topic, replicas = None, partitionCount = None, topic_schema = None,
      schemaSource = None, schemaRegistrySubject = None, schemaRegistryVersion = None\<rparr>"

definition resetTopicsStore :: "TopicsStore \<Rightarrow> TopicsStore" where
  "resetTopicsStore s = s\<lparr>topics := Map.empty, availableTopics := [], topics_topicCount := 0,
     topics_validation := createInitialValidation\<rparr>"

definition topics_markAsValid :: "time \<Rightarrow> TopicsStore \<Rightarrow> TopicsStore" where
  "topics_markAsValid now s = s\<lparr>topics_validation := createValidValidation now\<rparr>"

definition topics_markAsInvalidated :: "time \<Rightarrow> string \<Rightarrow> TopicsStore \<Rightarrow> TopicsStore" where
  "topics_markAsInvalidated now sec s = s\<lparr>topics_validation := createInvalidatedValidation now sec\<rparr>"

definition topics_markAsNotConfigured :: "TopicsStore \<Rightarrow> TopicsStore" where
  "topics_markAsNotConfigured s = s\<lparr>topics_validation := createInitialValidation\<rparr>"

definition topics_resetValidation :: "TopicsStore \<Rightarrow> TopicsStore" where
  "topics_resetValidation s = s\<lparr>topics_validation := createInitialValidation\<rparr>"

lemmas topics_defs = initialTopicsStore_def setAvailableTopics_def topics_setTopicCount_def
  updateTopic_def getTopic_def getEvent_def cleanedTopic_def resetTopicsStore_def
  topics_markAsValid_def topics_markAsInvalidated_def topics_markAsNotConfigured_def
  topics_resetValidation_def

interpretation topics_slice: validated_slice topics_validation
  "\<lambda>s. (availableTopics s, topics_topicCount s, topics s)"
  topics_markAsValid topics_markAsInvalidated topics_markAsNotConfigured topics_resetValidation
  by unfold_locales (simp_all add: topics_defs)

section \<open>OTLP\<close>

datatype SourceType = SrcKafka | SrcOtlpLogs | SrcOtlpTraces | SrcOtlpMetrics

fun source_type_text :: "SourceType \<Rightarrow> string" where
  "source_type_text SrcKafka = ''kafka''"
| "source_type_text SrcOtlpLogs = ''otlp.logs''"
| "source_type_text SrcOtlpTraces = ''otlp.traces''"
| "source_type_text SrcOtlpMetrics = ''otlp.metrics''"

definition isOtlpSource :: "string \<Rightarrow> bool" where
  "isOtlpSource sourceType \<longleftrightarrow> sourceType = source_type_text SrcOtlpLogs \<or>
     sourceType = source_type_text SrcOtlpTraces \<or> sourceType = source_type_text SrcOtlpMetrics"

definition getOtlpSignalLabel :: "string \<Rightarrow> string" where
  "getOtlpSignalLabel sourceType =
     (if sourceType = source_type_text SrcOtlpLogs then ''Logs''
      else if sourceType = source_type_text SrcOtlpTraces then ''Traces''
      else if sourceType = source_type_text SrcOtlpMetrics then ''Metrics'' else '''')"

record OtlpSchemaField =
  of_name :: string
  of_type :: string

definition otlp_field :: "string \<Rightarrow> string \<Rightarrow> OtlpSchemaField" where
  "otlp_field n t = \<lparr>of_name = n, of_type = t\<rparr>"

definition OTLP_LOGS_FIELDS :: "OtlpSchemaField list" where
  "OTLP_LOGS_FIELDS =
     [otlp_field ''timestamp'' ''string'', otlp_field ''observed_timestamp'' ''string'',
      otlp_field ''severity_number'' ''uint'', otlp_field ''severity_text'' ''string'',
      otlp_field ''body'' ''string'', otlp_field ''trace_id'' ''string'', otlp_field ''span_id'' ''string'',
      otlp_field ''flags'' ''uint'', otlp_field ''dropped_attributes_count'' ''uint'',
      otlp_field ''resource_attributes'' ''map'', otlp_field ''scope_name'' ''string'',
      otlp_field ''scope_version'' ''string'', otlp_field ''scope_attributes'' ''map'',
      otlp_field ''attributes'' ''map'']"

definition OTLP_TRACES_FIELDS :: "OtlpSchemaField list" where
  "OTLP_TRACES_FIELDS =
     [otlp_field ''trace_id'' ''string'', otlp_field ''span_id'' ''string'',
      otlp_field ''parent_span_id'' ''string'', otlp_field ''trace_state'' ''string'',
      otlp_field ''flags'' ''uint'', otlp_field ''name'' ''string'', otlp_field ''kind'' ''string'',
      otlp_field ''start_timestamp'' ''string'', otlp_field ''end_timestamp'' ''string'',
      otlp_field ''duration_ns'' ''uint'', otlp_field ''status_code'' ''string'',
      otlp_field ''status_message'' ''string'', otlp_field ''dropped_attributes_count'' ''uint'',
      otlp_field ''dropped_events_count'' ''uint'', otlp_field ''dropped_links_count'' ''uint'',
      otlp_field ''events'' ''array'', otlp_field ''links'' ''array'',
      otlp_field ''resource_attributes'' ''map'', otlp_field ''scope_name'' ''string'',
      otlp_field ''scope_version'' ''string'', otlp_field ''scope_attributes'' ''map'',
      otlp_field ''attributes'' ''map'']"

definition OTLP_METRICS_FIELDS :: "OtlpSchemaField list" where
  "OTLP_METRICS_FIELDS =
     [otlp_field ''timestamp'' ''string'', otlp_field ''start_timestamp'' ''string'',
      otlp_field ''metric_name'' ''string'', otlp_field ''metric_description'' ''string'',
      otlp_field ''metric_unit'' ''string'', otlp_field ''metric_type'' ''string'',
      otlp_field ''aggregation_temporality'' ''string'', otlp_field ''is_monotonic'' ''bool'',
      otlp_field ''flags'' ''uint'', otlp_field ''value_double'' ''float'', otlp_field ''value_int'' ''int'',
      otlp_field ''count'' ''uint'', otlp_field ''sum'' ''float'', otlp_field ''min'' ''float'',
      otlp_field ''max'' ''float'', otlp_field ''bucket_counts'' ''array'',
      otlp_field ''explicit_bounds'' ''array'', otlp_field ''resource_attributes'' ''map'',
      otlp_field ''scope_name'' ''string'', otlp_field ''scope_version'' ''string'',
      otlp_field ''scope_attributes'' ''map'', otlp_field ''attributes'' ''map'']"

definition getOtlpFieldsForSignalType :: "string \<Rightarrow> OtlpSchemaField list" where
  "getOtlpFieldsForSignalType sourceType =
     (if sourceType = source_type_text SrcOtlpLogs then OTLP_LOGS_FIELDS
      else if sourceType = source_type_text SrcOtlpTraces then OTLP_TRACES_FIELDS
      else if sourceType = source_type_text SrcOtlpMetrics then OTLP_METRICS_FIELDS else [])"

record OtlpDeduplicationConfig =
  od_enabled :: bool
  od_key :: string
  time_window :: string

record OtlpStore =
  signalType :: "SourceType option"
  sourceId :: string
  otlp_deduplication :: OtlpDeduplicationConfig
  schemaFields :: "OtlpSchemaField list"
  otlp_validation :: ValidationState

definition initialDeduplication :: OtlpDeduplicationConfig where
  "initialDeduplication = \<lparr>od_enabled = False, od_key = '''', time_window = ''5m''\<rparr>"

definition initialOtlpStore :: OtlpStore where
  "initialOtlpStore = \<lparr>signalType = None, sourceId = '''', otlp_deduplication = initialDeduplication,
     schemaFields = [], otlp_validation = createInitialValidation\<rparr>"

definition setSignalType :: "SourceType \<Rightarrow> OtlpStore \<Rightarrow> OtlpStore" where
  "setSignalType t s =
     s\<lparr>signalType := Some t, schemaFields := getOtlpFieldsForSignalType (source_type_text t),
       otlp_deduplication := initialDeduplication, otlp_validation := createInitialValidation\<rparr>"

definition setSourceId :: "string \<Rightarrow> OtlpStore \<Rightarrow> OtlpStore" where
  "setSourceId i s = s\<lparr>sourceId := i\<rparr>"

record OtlpDeduplicationUpdates =
  up_enabled :: "bool option"
  up_key :: "string option"
  up_time_window :: "string option"

definition keep_or :: "'a option \<Rightarrow> 'a \<Rightarrow> 'a" where
  "keep_or u old = (case u of None \<Rightarrow> old | Some x \<Rightarrow> x)"

definition setDeduplication :: "OtlpDeduplicationUpdates \<Rightarrow> OtlpStore \<Rightarrow> OtlpStore" where
  "setDeduplication u s =
     (let d = otlp_deduplication s
      in s\<lparr>otlp_deduplication := \<lparr>od_enabled = keep_or (up_enabled u) (od_enabled d),
            od_key = keep_or (up_key u) (od_key d),
            time_window = keep_or (up_time_window u) (time_window d)\<rparr>\<rparr>)"

definition otlp_skipDeduplication :: "time \<Rightarrow> OtlpStore \<Rightarrow> OtlpStore" where
  "otlp_skipDeduplication now s =
     s\<lparr>otlp_deduplication := initialDeduplication, otlp_validation := createValidValidation now\<rparr>"

definition resetOtlpStore :: "OtlpStore \<Rightarrow> OtlpStore" where
  "resetOtlpStore s = initialOtlpStore"

definition otlp_markAsValid :: "time \<Rightarrow> OtlpStore \<Rightarrow> OtlpStore" where
  "otlp_markAsValid now s = s\<lparr>otlp_validation := createValidValidation now\<rparr>"

definition otlp_markAsInvalidated :: "time \<Rightarrow> string \<Rightarrow> OtlpStore \<Rightarrow> OtlpStore" where
  "otlp_markAsInvalidated now sec s = s\<lparr>otlp_validation := createInvalidatedValidation now sec\<rparr>"

definition otlp_markAsNotConfigured :: "OtlpStore \<Rightarrow> OtlpStore" where
  "otlp_markAsNotConfigured s = s\<lparr>otlp_validation := createInitialValidation\<rparr>"

definition otlp_resetValidation :: "OtlpStore \<Rightarrow> OtlpStore" where
  "otlp_resetValidation s = s\<lparr>otlp_validation := createInitialValidation\<rparr>"

lemmas otlp_defs = initialOtlpStore_def initialDeduplication_def setSignalType_def setSourceId_def
  setDeduplication_def otlp_skipDeduplication_def resetOtlpStore_def otlp_markAsValid_def
  otlp_markAsInvalidated_def otlp_markAsNotConfigured_def otlp_resetValidation_def

interpretation otlp_slice: validated_slice otlp_validation
  "\<lambda>s. (signalType s, sourceId s, otlp_deduplication s, schemaFields s)"
  otlp_markAsValid otlp_markAsInvalidated otlp_markAsNotConfigured otlp_resetValidation
  by unfold_locales (simp_all add: otlp_defs)

section \<open>Resources\<close>

record ResourcesStore =
  pipeline_resources :: "json option"
  fields_policy :: "string list"

definition initialResourcesStore :: ResourcesStore where
  "initialResourcesStore = \<lparr>pipeline_resources = None, fields_policy = []\<rparr>"

definition setResources :: "json option \<Rightarrow> ResourcesStore \<Rightarrow> ResourcesStore" where
  "setResources r s = s\<lparr>pipeline_resources := r\<rparr>"

definition setFieldsPolicy :: "string list \<Rightarrow> ResourcesStore \<Rightarrow> ResourcesStore" where
  "setFieldsPolicy p s = s\<lparr>fields_policy := p\<rparr>"

definition hydrateResources :: "json option \<Rightarrow> string list option \<Rightarrow> ResourcesStore \<Rightarrow> ResourcesStore" where
  "hydrateResources r immutable s = s\<lparr>pipeline_resources := r, fields_policy := keep_or immutable []\<rparr>"

definition resetResources :: "ResourcesStore \<Rightarrow> ResourcesStore" where
  "resetResources s = s\<lparr>pipeline_resources := None, fields_policy := []\<rparr>"

section \<open>Properties\<close>

lemma indexOf_range: "indexOf xs y = -1 \<or> 0 \<le> indexOf xs y \<and> indexOf xs y < int (length xs)"
  by (induction xs) (auto simp: Let_def)

lemma indexOf_absent: "indexOf xs y = -1 \<longleftrightarrow> y \<notin> set xs"
proof (induction xs)
  case (Cons x xs)
  then show ?case using indexOf_range [of xs y] by (auto simp: Let_def)
qed simp

text \<open>An element comes no later than \<open>x\<close> exactly when it stands before the first \<open>x\<close> or is it.\<close>

lemma indexOf_le:
  assumes "x \<in> set xs"
  shows "indexOf xs y \<noteq> -1 \<and> indexOf xs y \<le> indexOf xs x \<longleftrightarrow>
    y = x \<or> y \<in> set (takeWhile (\<lambda>z. z \<noteq> x) xs)"
  using assms
proof (induction xs)
  case (Cons a xs)
  show ?case
  proof (cases "a = x")
    case True
    then show ?thesis using indexOf_range [of xs y] by (auto simp: Let_def)
  next
    case False
    with Cons.prems have "x \<in> set xs" by simp
    with Cons.IH False show ?thesis
      using indexOf_range [of xs y] indexOf_range [of xs x] indexOf_absent [of xs x]
      by (auto simp: Let_def)
  qed
qed simp

text \<open>
  Going back in the journey: completed steps are kept exactly when they are the given
  step or stand before it in the journey, in their order; nothing changes when the step is not
  in the journey; the active and the resume step are kept; and the operation is idempotent.
\<close>

theorem removeCompletedStepsAfterId_spec:
  "let t = removeCompletedStepsAfterId i journey s
   in completedStepIds t =
        (if i \<in> set journey
         then filter (\<lambda>j. j = i \<or> j \<in> set (takeWhile (\<lambda>k. k \<noteq> i) journey)) (completedStepIds s)
         else completedStepIds s) \<and>
      activeStepId t = activeStepId s \<and> resumeStepId t = resumeStepId s \<and>
      removeCompletedStepsAfterId i journey t = t"
proof (cases "i \<in> set journey")
  case True
  then show ?thesis
    using indexOf_le [OF True] indexOf_absent [of journey i]
    by (simp add: removeCompletedStepsAfterId_def Let_def)
next
  case False
  then show ?thesis using indexOf_absent [of journey i] by (simp add: removeCompletedStepsAfterId_def Let_def)
qed

text \<open>
  Selecting an OTLP signal type loads the fields of that signal, which are never empty and
  have distinct names, drops the deduplication of the previous signal and clears the validation;
  the source types that load fields are exactly the OTLP ones, and those that have a label.
\<close>

theorem otlp_signal_spec:
  "let t = setSignalType ty s
   in signalType t = Some ty \<and> sourceId t = sourceId s \<and>
      (schemaFields t \<noteq> [] \<longleftrightarrow> isOtlpSource (source_type_text ty)) \<and>
      (getOtlpSignalLabel (source_type_text ty) \<noteq> '''' \<longleftrightarrow> isOtlpSource (source_type_text ty)) \<and>
      distinct (map of_name (schemaFields t)) \<and>
      otlp_deduplication t = initialDeduplication \<and> vs_status (otlp_validation t) = NotConfigured"
  by (cases ty) (simp_all add: otlp_defs getOtlpFieldsForSignalType_def OTLP_LOGS_FIELDS_def
      OTLP_TRACES_FIELDS_def OTLP_METRICS_FIELDS_def isOtlpSource_def getOtlpSignalLabel_def
      otlp_field_def createInitialValidation_def)

end
