(* ===== verification/Clickhouse_Slices.thy ===== *)
theory Clickhouse_Slices
  imports Validation_State
begin

text \<open>
  The ClickHouse slices (ui/src/store/clickhouse-connection.store.ts and
  clickhouse-destination.store.ts): the connection with its cached metadata, and the destination
  with its two paths. \<open>Record<string, _>\<close> is a partial map; \<open>Date.now()\<close> is an argument.
\<close>

section \<open>Connection\<close>

record DirectConnection =
  dc_host :: string
  dc_httpPort :: string
  dc_username :: string
  dc_password :: string
  dc_database :: "string option"
  dc_useSSL :: "bool option"
  dc_nativePort :: string
  skipCertificateVerification :: "bool option"

datatype ConnectionStatus = ConnIdle | ConnLoading | ConnSuccess | ConnError

text \<open>\<open>connectionError\<close> is optional and nullable: absent, null or a message.\<close>

datatype NullableText = Absent | Null | Text string

record ClickhouseConnection =
  directConnection :: DirectConnection
  connectionStatus :: "ConnectionStatus option"
  connectionError :: NullableText

record ClickHouseMetadata =
  lastFetched :: time
  connectionId :: string
  databases :: "string list option"
  tables :: "(string \<rightharpoonup> string list) option"
  tableSchemas :: "(string \<rightharpoonup> json list) option"

record ClickhouseConnectionStore =
  clickhouseConnection :: ClickhouseConnection
  clickhouseMetadata :: "ClickHouseMetadata option"
  cc_validation :: ValidationState

definition initialClickhouseConnection :: ClickhouseConnection where
  "initialClickhouseConnection =
     \<lparr>directConnection = \<lparr>dc_host = '''', dc_httpPort = '''', dc_username = '''', dc_password = '''',
        dc_database = None, dc_useSSL = Some True, dc_nativePort = '''',
        skipCertificateVerification = Some False\<rparr>,
      connectionStatus = Some ConnIdle, connectionError = Null\<rparr>"

definition initialClickhouseConnectionStore :: ClickhouseConnectionStore where
  "initialClickhouseConnectionStore =
     \<lparr>clickhouseConnection = initialClickhouseConnection, clickhouseMetadata = None,
      cc_validation = createInitialValidation\<rparr>"

definition isDifferentConnection :: "ClickhouseConnection \<Rightarrow> ClickhouseConnection \<Rightarrow> bool" where
  "isDifferentConnection prev connector \<longleftrightarrow>
     dc_host (directConnection prev) \<noteq> dc_host (directConnection connector) \<or>
     dc_httpPort (directConnection prev) \<noteq> dc_httpPort (directConnection connector) \<or>
     dc_username (directConnection prev) \<noteq> dc_username (directConnection connector) \<or>
     dc_password (directConnection prev) \<noteq> dc_password (directConnection connector)"

definition setClickhouseConnection ::
    "time \<Rightarrow> ClickhouseConnection \<Rightarrow> ClickhouseConnectionStore \<Rightarrow> ClickhouseConnectionStore" where
  "setClickhouseConnection now connector s =
     (let v = (if connectionStatus connector = Some ConnSuccess then createValidValidation now
               else cc_validation s)
      in if isDifferentConnection (clickhouseConnection s) connector
         then s\<lparr>clickhouseConnection := connector, clickhouseMetadata := None, cc_validation := v\<rparr>
         else s\<lparr>clickhouseConnection := connector, cc_validation := v\<rparr>)"

text \<open>
  \<open>Object.values(directConnection).some(value => value !== '')\<close>: a boolean is not the empty
  string, and an absent property has no value.
\<close>

definition has_entered_value :: "DirectConnection \<Rightarrow> bool" where
  "has_entered_value d \<longleftrightarrow>
     dc_host d \<noteq> '''' \<or> dc_httpPort d \<noteq> '''' \<or> dc_username d \<noteq> '''' \<or> dc_password d \<noteq> '''' \<or>
     (case dc_database d of Some v \<Rightarrow> v \<noteq> '''' | None \<Rightarrow> False) \<or> dc_useSSL d \<noteq> None \<or>
     dc_nativePort d \<noteq> '''' \<or> skipCertificateVerification d \<noteq> None"

definition getIsClickhouseConnectionDirty :: "ClickhouseConnectionStore \<Rightarrow> bool" where
  "getIsClickhouseConnectionDirty s \<longleftrightarrow>
     (let c = clickhouseConnection s
      in has_entered_value (directConnection c) \<or> connectionStatus c \<noteq> Some ConnIdle \<or>
         connectionError c \<noteq> Null)"

text \<open>\<open>x || default\<close> on an optional property of the optional metadata.\<close>

definition meta_or :: "(ClickHouseMetadata \<Rightarrow> 'a option) \<Rightarrow> 'a \<Rightarrow> ClickhouseConnectionStore \<Rightarrow> 'a" where
  "meta_or sel dflt s =
     (case clickhouseMetadata s of
        None \<Rightarrow> dflt
      | Some m \<Rightarrow> (case sel m of None \<Rightarrow> dflt | Some x \<Rightarrow> x))"

definition updateDatabases :: "time \<Rightarrow> string list \<Rightarrow> string \<Rightarrow> ClickhouseConnectionStore \<Rightarrow> ClickhouseConnectionStore" where
  "updateDatabases now dbs cid s =
     s\<lparr>clickhouseMetadata := Some \<lparr>lastFetched = now, connectionId = cid, databases = Some dbs,
        tables = Some (meta_or tables Map.empty s), tableSchemas = Some (meta_or tableSchemas Map.empty s)\<rparr>\<rparr>"

definition updateTables ::
    "time \<Rightarrow> string \<Rightarrow> string list \<Rightarrow> string \<Rightarrow> ClickhouseConnectionStore \<Rightarrow> ClickhouseConnectionStore" where
  "updateTables now database ts cid s =
     s\<lparr>clickhouseMetadata := Some \<lparr>lastFetched = now, connectionId = cid,
        databases = Some (meta_or databases [] s),
        tables = Some ((meta_or tables Map.empty s)(database \<mapsto> ts)),
        tableSchemas = Some (meta_or tableSchemas Map.empty s)\<rparr>\<rparr>"

definition schema_key :: "string \<Rightarrow> string \<Rightarrow> string" where
  "schema_key database table = database @ '':'' @ table"

definition updateTableSchema ::
    "time \<Rightarrow> string \<Rightarrow> string \<Rightarrow> json list \<Rightarrow> string \<Rightarrow> ClickhouseConnectionStore \<Rightarrow> ClickhouseConnectionStore" where
  "updateTableSchema now database table schema cid s =
     s\<lparr>clickhouseMetadata := Some \<lparr>lastFetched = now, connectionId = cid,
        databases = Some (meta_or databases [] s), tables = Some (meta_or tables Map.empty s),
        tableSchemas = Some ((meta_or tableSchemas Map.empty s)(schema_key database table \<mapsto> schema))\<rparr>\<rparr>"

definition clearMetadata :: "ClickhouseConnectionStore \<Rightarrow> ClickhouseConnectionStore" where
  "clearMetadata s = s\<lparr>clickhouseMetadata := None\<rparr>"

definition getDatabases :: "ClickhouseConnectionStore \<Rightarrow> string list" where
  "getDatabases s = meta_or databases [] s"

definition getTables :: "string \<Rightarrow> ClickhouseConnectionStore \<Rightarrow> string list" where
  "getTables database s = (case meta_or tables Map.empty s database of None \<Rightarrow> [] | Some ts \<Rightarrow> ts)"

definition getTableSchema :: "string \<Rightarrow> string \<Rightarrow> ClickhouseConnectionStore \<Rightarrow> json list" where
  "getTableSchema database table s =
     (case meta_or tableSchemas Map.empty s (schema_key database table) of None \<Rightarrow> [] | Some sc \<Rightarrow> sc)"

definition getConnectionId :: "ClickhouseConnectionStore \<Rightarrow> string option" where
  "getConnectionId s =
     (case clickhouseMetadata s of
        None \<Rightarrow> None | Some m \<Rightarrow> if connectionId m = '''' then None else Some (connectionId m))"

definition resetClickhouseStore :: "ClickhouseConnectionStore \<Rightarrow> ClickhouseConnectionStore" where
  "resetClickhouseStore s = initialClickhouseConnectionStore"

definition cc_markAsValid :: "time \<Rightarrow> ClickhouseConnectionStore \<Rightarrow> ClickhouseConnectionStore" where
  "cc_markAsValid now s = s\<lparr>cc_validation := createValidValidation now\<rparr>"

definition cc_markAsInvalidated :: "time \<Rightarrow> string \<Rightarrow> ClickhouseConnectionStore \<Rightarrow> ClickhouseConnectionStore" where
  "cc_markAsInvalidated now sec s = s\<lparr>cc_validation := createInvalidatedValidation now sec\<rparr>"

definition cc_markAsNotConfigured :: "ClickhouseConnectionStore \<Rightarrow> ClickhouseConnectionStore" where
  "cc_markAsNotConfigured s = s\<lparr>cc_validation := createInitialValidation\<rparr>"

definition cc_resetValidation :: "ClickhouseConnectionStore \<Rightarrow> ClickhouseConnectionStore" where
  "cc_resetValidation s = s\<lparr>cc_validation := createInitialValidation\<rparr>"

lemmas cc_defs = initialClickhouseConnection_def initialClickhouseConnectionStore_def
  setClickhouseConnection_def updateDatabases_def updateTables_def updateTableSchema_def
  clearMetadata_def getDatabases_def getTables_def getTableSchema_def getConnectionId_def
  resetClickhouseStore_def cc_markAsValid_def cc_markAsInvalidated_def cc_markAsNotConfigured_def
  cc_resetValidation_def meta_or_def

interpretation cc_slice: validated_slice cc_validation "\<lambda>s. (clickhouseConnection s, clickhouseMetadata s)"
  cc_markAsValid cc_markAsInvalidated cc_markAsNotConfigured cc_resetValidation
  by unfold_locales (simp_all add: cc_defs)

section \<open>Destination\<close>

datatype DestinationPath = CreatePath | ExistingPath

record ClickhouseDestinationState =
  cd_scheme :: string
  cd_database :: string
  cd_table :: string
  cd_mapping :: "json list"
  destinationColumns :: "json list"
  maxBatchSize :: js_number
  maxDelayTime :: js_number
  maxDelayTimeUnit :: string
  destinationPath :: DestinationPath
  cd_tableName :: "string option"
  cd_engine :: "string option"
  cd_orderBy :: "string option"

record ClickhouseDestinationStore =
  clickhouseDestination :: ClickhouseDestinationState
  cd_validation :: ValidationState

definition defaultDestinationState :: ClickhouseDestinationState where
  "defaultDestinationState =
     \<lparr>cd_scheme = '''', cd_database = '''', cd_table = '''', cd_mapping = [], destinationColumns = [],
      maxBatchSize = Fin 1000 0, maxDelayTime = Fin 1 0, maxDelayTimeUnit = ''m'',
      destinationPath = CreatePath, cd_tableName = None, cd_engine = None, cd_orderBy = None\<rparr>"

definition initialClickhouseDestinationStore :: ClickhouseDestinationStore where
  "initialClickhouseDestinationStore =
     \<lparr>clickhouseDestination = defaultDestinationState, cd_validation = createInitialValidation\<rparr>"

text \<open>
  A partial update: \<open>None\<close> is an absent key. The three optional fields of the state can also be
  set to \<open>undefined\<close>, which is \<open>Some None\<close>.
\<close>

record DestinationUpdates =
  du_scheme :: "string option"
  du_database :: "string option"
  du_table :: "string option"
  du_mapping :: "json list option"
  du_destinationColumns :: "json list option"
  du_maxBatchSize :: "js_number option"
  du_maxDelayTime :: "js_number option"
  du_maxDelayTimeUnit :: "string option"
  du_destinationPath :: "DestinationPath option"
  du_tableName :: "string option option"
  du_engine :: "string option option"
  du_orderBy :: "string option option"

definition upd :: "'a option \<Rightarrow> 'a \<Rightarrow> 'a" where
  "upd u old = (case u of None \<Rightarrow> old | Some x \<Rightarrow> x)"

definition apply_destination :: "DestinationUpdates \<Rightarrow> ClickhouseDestinationState \<Rightarrow> ClickhouseDestinationState" where
  "apply_destination u d =
     \<lparr>cd_scheme = upd (du_scheme u) (cd_scheme d), cd_database = upd (du_database u) (cd_database d),
      cd_table = upd (du_table u) (cd_table d), cd_mapping = upd (du_mapping u) (cd_mapping d),
      destinationColumns = upd (du_destinationColumns u) (destinationColumns d),
      maxBatchSize = upd (du_maxBatchSize u) (maxBatchSize d),
      maxDelayTime = upd (du_maxDelayTime u) (maxDelayTime d),
      maxDelayTimeUnit = upd (du_maxDelayTimeUnit u) (maxDelayTimeUnit d),
      destinationPath = upd (du_destinationPath u) (destinationPath d),
      cd_tableName = upd (du_tableName u) (cd_tableName d),
      cd_engine = upd (du_engine u) (cd_engine d), cd_orderBy = upd (du_orderBy u) (cd_orderBy d)\<rparr>"

definition no_updates :: DestinationUpdates where
  "no_updates = \<lparr>du_scheme = None, du_database = None, du_table = None, du_mapping = None,
     du_destinationColumns = None, du_maxBatchSize = None, du_maxDelayTime = None,
     du_maxDelayTimeUnit = None, du_destinationPath = None, du_tableName = None, du_engine = None,
     du_orderBy = None\<rparr>"

definition getPathSpecificReset :: "DestinationPath \<Rightarrow> DestinationUpdates" where
  "getPathSpecificReset newPath =
     (if newPath = CreatePath
      then no_updates\<lparr>du_destinationPath := Some CreatePath, du_table := Some '''', du_tableName := Some None,
             du_engine := Some None, du_orderBy := Some None, du_mapping := Some [],
             du_destinationColumns := Some []\<rparr>
      else no_updates\<lparr>du_destinationPath := Some ExistingPath, du_tableName := Some None,
             du_engine := Some None, du_orderBy := Some None, du_mapping := Some [],
             du_destinationColumns := Some []\<rparr>)"

definition resetDestinationState :: "ClickhouseDestinationStore \<Rightarrow> ClickhouseDestinationStore" where
  "resetDestinationState s = s\<lparr>clickhouseDestination := defaultDestinationState\<rparr>"

text \<open>
  \<open>{ ...default, ...current, ...destination }\<close>: the argument has every required key, and an
  optional key it does not carry keeps the current value.
\<close>

definition setClickhouseDestination ::
    "time \<Rightarrow> ClickhouseDestinationState \<Rightarrow> ClickhouseDestinationStore \<Rightarrow> ClickhouseDestinationStore" where
  "setClickhouseDestination now d s =
     (let current = clickhouseDestination s;
          keep = (\<lambda>new old. case new of None \<Rightarrow> old | Some x \<Rightarrow> Some x);
          merged = d\<lparr>cd_tableName := keep (cd_tableName d) (cd_tableName current),
                     cd_engine := keep (cd_engine d) (cd_engine current),
                     cd_orderBy := keep (cd_orderBy d) (cd_orderBy current)\<rparr>
      in s\<lparr>clickhouseDestination := merged, cd_validation := createValidValidation now\<rparr>)"

definition updateClickhouseDestinationDraft ::
    "DestinationUpdates \<Rightarrow> ClickhouseDestinationStore \<Rightarrow> ClickhouseDestinationStore" where
  "updateClickhouseDestinationDraft u s =
     s\<lparr>clickhouseDestination := apply_destination u (clickhouseDestination s)\<rparr>"

definition setDestinationPath :: "DestinationPath \<Rightarrow> ClickhouseDestinationStore \<Rightarrow> ClickhouseDestinationStore" where
  "setDestinationPath path s =
     s\<lparr>clickhouseDestination := apply_destination (getPathSpecificReset path) (clickhouseDestination s)\<rparr>"

definition getIsDestinationMappingDirty :: "ClickhouseDestinationStore \<Rightarrow> bool" where
  "getIsDestinationMappingDirty s \<longleftrightarrow> list_ex (\<lambda>v. v \<noteq> JStr '''') (cd_mapping (clickhouseDestination s))"

definition resetDestinationStore :: "ClickhouseDestinationStore \<Rightarrow> ClickhouseDestinationStore" where
  "resetDestinationStore s = initialClickhouseDestinationStore"

definition cd_markAsValid :: "time \<Rightarrow> ClickhouseDestinationStore \<Rightarrow> ClickhouseDestinationStore" where
  "cd_markAsValid now s = s\<lparr>cd_validation := createValidValidation now\<rparr>"

definition cd_markAsInvalidated :: "time \<Rightarrow> string \<Rightarrow> ClickhouseDestinationStore \<Rightarrow> ClickhouseDestinationStore" where
  "cd_markAsInvalidated now sec s = s\<lparr>cd_validation := createInvalidatedValidation now sec\<rparr>"

definition cd_markAsNotConfigured :: "ClickhouseDestinationStore \<Rightarrow> ClickhouseDestinationStore" where
  "cd_markAsNotConfigured s = s\<lparr>cd_validation := createInitialValidation\<rparr>"

definition cd_resetValidation :: "ClickhouseDestinationStore \<Rightarrow> ClickhouseDestinationStore" where
  "cd_resetValidation s = s\<lparr>cd_validation := createInitialValidation\<rparr>"

lemmas cd_defs = defaultDestinationState_def initialClickhouseDestinationStore_def
  apply_destination_def no_updates_def getPathSpecificReset_def resetDestinationState_def
  setClickhouseDestination_def updateClickhouseDestinationDraft_def setDestinationPath_def
  resetDestinationStore_def cd_markAsValid_def cd_markAsInvalidated_def cd_markAsNotConfigured_def
  cd_resetValidation_def upd_def

interpretation cd_slice: validated_slice cd_validation clickhouseDestination
  cd_markAsValid cd_markAsInvalidated cd_markAsNotConfigured cd_resetValidation
  by unfold_locales (simp_all add: cd_defs)

section \<open>Properties\<close>

lemma schema_key_inj:
  assumes "CHR '':'' \<notin> set d" and "CHR '':'' \<notin> set d'"
  shows "schema_key d t = schema_key d' t' \<longleftrightarrow> d = d' \<and> t = t'"
proof -
  have "takeWhile (\<lambda>c. c \<noteq> CHR '':'') (schema_key x t) = x" if "CHR '':'' \<notin> set x" for x t
    using that by (simp add: schema_key_def) (induction x, auto)
  with assms have "d = d'" if "schema_key d t = schema_key d' t'" using that by metis
  then show ?thesis by (auto simp: schema_key_def)
qed

text \<open>
  The metadata cache: what a database's tables or a table's schema were last updated to is
  what a lookup returns, updates leave the other entries alone when database names have no
  colon, and a changed host, port or user empties the cache while a mere status change keeps it.
\<close>

theorem metadata_cache:
  assumes "CHR '':'' \<notin> set d" and "CHR '':'' \<notin> set d'"
  shows "getTables d' (updateTables now d ts cid s) = (if d' = d then ts else getTables d' s) \<and>
    getTableSchema d' t' (updateTableSchema now d t sc cid s) =
      (if d' = d \<and> t' = t then sc else getTableSchema d' t' s) \<and>
    getTableSchema d' t' (updateTables now d ts cid s) = getTableSchema d' t' s \<and>
    getTables d' (updateTableSchema now d t sc cid s) = getTables d' s \<and>
    clickhouseMetadata (setClickhouseConnection now c s) =
      (if isDifferentConnection (clickhouseConnection s) c then None else clickhouseMetadata s)"
  using schema_key_inj [OF assms(2,1)]
  by (simp add: cc_defs Let_def split: option.splits)

theorem metadata_cache_witness:
  "getTableSchema ''a'' ''t'' (updateTableSchema 5 ''a'' ''t'' [JNull] ''c'' initialClickhouseConnectionStore) = [JNull]"
  using metadata_cache [of "''a''" "''a''" 5 "[]" "''c''" initialClickhouseConnectionStore "''t''" "''t''" "[JNull]"]
  by simp

text \<open>
  The key of the schema cache joins database and table with a colon: with a colon in the
  database name the schema of one table is returned for another.
\<close>

theorem schema_cache_collision:
  "getTableSchema ''a'' ''b:c'' (updateTableSchema 5 ''a:b'' ''c'' [JNull] ''x'' initialClickhouseConnectionStore)
   = [JNull]"
  by (simp add: cc_defs schema_key_def)

text \<open>
  The dirty test of the connection form is true in every state whose SSL or certificate
  switch is present, the initial and the reset state among them.
\<close>

theorem connection_always_dirty:
  "getIsClickhouseConnectionDirty initialClickhouseConnectionStore \<and>
   getIsClickhouseConnectionDirty (resetClickhouseStore s) \<and>
   (dc_useSSL (directConnection (clickhouseConnection s)) = Some b \<longrightarrow> getIsClickhouseConnectionDirty s)"
  by (auto simp: cc_defs getIsClickhouseConnectionDirty_def has_entered_value_def Let_def)

theorem connection_always_dirty_witness:
  "getIsClickhouseConnectionDirty (initialClickhouseConnectionStore)"
  using connection_always_dirty [of initialClickhouseConnectionStore True] by blast

text \<open>
  Switching the destination path forgets the mapping, the columns and the settings of the
  create path, keeps the batch settings and the database, keeps the table name only towards the
  existing path, leaves the validation state alone, and doing it twice is doing it once.
\<close>

theorem destination_path_spec:
  "let d = clickhouseDestination s; d' = clickhouseDestination (setDestinationPath p s)
   in destinationPath d' = p \<and> cd_mapping d' = [] \<and> destinationColumns d' = [] \<and>
      cd_tableName d' = None \<and> cd_engine d' = None \<and> cd_orderBy d' = None \<and>
      cd_table d' = (if p = CreatePath then '''' else cd_table d) \<and>
      maxBatchSize d' = maxBatchSize d \<and> maxDelayTime d' = maxDelayTime d \<and>
      maxDelayTimeUnit d' = maxDelayTimeUnit d \<and> cd_database d' = cd_database d \<and>
      cd_scheme d' = cd_scheme d \<and>
      cd_validation (setDestinationPath p s) = cd_validation s \<and>
      \<not> getIsDestinationMappingDirty (setDestinationPath p s) \<and>
      setDestinationPath p (setDestinationPath p s) = setDestinationPath p s"
  by (cases p) (simp_all add: cd_defs getIsDestinationMappingDirty_def Let_def)

end
