(* ===== verification/Kafka_Slice.thy ===== *)
theory Kafka_Slice
  imports Validation_State
begin

text \<open>
  The Kafka connection: the form of each authentication method and its checks
  (ui/src/scheme/kafka.scheme.ts) and the slice that stores them (ui/src/store/kafka.store.ts).
  An optional property is an option. The checks are the required-field rules and the refinement
  of the connection form, as the list of messages the form library collects; the library's own
  parsing is not modelled.
\<close>

section \<open>Forms\<close>

record TruststoreForm =
  location :: "string option"
  ts_password :: "string option"
  ts_type :: "string option"
  algorithm :: "string option"
  certificates :: "string option"
  certificatesFileName :: "string option"
  skipTlsVerification :: "bool option"

record SaslUserForm =
  su_username :: string
  su_password :: string
  su_truststore :: "TruststoreForm option"
  consumerGroup :: "string option"

text \<open>SASL/PLAIN, SCRAM-256 and SCRAM-512 have the same form.\<close>

record NoAuthForm =
  na_truststore :: "TruststoreForm option"

record SaslJaasForm =
  jaasConfig :: string

record SaslGssapiForm =
  kerberosPrincipal :: string
  kerberosKeytab :: string
  kerberosKeytabFileName :: "string option"
  kerberosRealm :: string
  kdc :: string
  serviceName :: string
  krb5Config :: string
  krb5ConfigFileName :: "string option"
  gs_truststore :: "TruststoreForm option"

record SaslOauthbearerForm =
  oauthBearerToken :: string

record DelegationTokensForm =
  delegationToken :: string

record LdapForm =
  ldapServerUrl :: string
  ldapServerPort :: string
  ldapBindDn :: string
  ldapBindPassword :: string
  ldapUserSearchFilter :: "string option"
  ldapBaseDn :: "string option"

record AwsIamForm =
  awsRegion :: string
  awsAccessKey :: string
  awsAccessKeySecret :: string
  awsAuthorizationIdentity :: "string option"
  awsIAMRoleArn :: "string option"
  awsSessionToken :: "string option"

record MtlsForm =
  clientCert :: string
  clientKey :: string
  mtls_password :: string

datatype RegistryAuth = RegNone | RegApiKey | RegBasic

record SchemaRegistryForm =
  sr_enabled :: bool
  sr_url :: "string option"
  sr_authMethod :: RegistryAuth
  sr_apiKey :: "string option"
  sr_apiSecret :: "string option"
  sr_username :: "string option"
  sr_password :: "string option"

text \<open>The credentials of a connection: the discriminated union on \<open>authMethod\<close>.\<close>

datatype KafkaCredentials =
    SaslPlain SaslUserForm
  | SaslJaas SaslJaasForm
  | SaslGssapi SaslGssapiForm
  | SaslOauthbearer SaslOauthbearerForm
  | SaslScram256 SaslUserForm
  | SaslScram512 SaslUserForm
  | AwsMskIam AwsIamForm
  | DelegationTokens DelegationTokensForm
  | SaslLdap LdapForm
  | MutualTls MtlsForm
  | NoAuth NoAuthForm

fun credentials_method :: "KafkaCredentials \<Rightarrow> string" where
  "credentials_method (SaslPlain _) = ''SASL/PLAIN''"
| "credentials_method (SaslJaas _) = ''SASL/JAAS''"
| "credentials_method (SaslGssapi _) = ''SASL/GSSAPI''"
| "credentials_method (SaslOauthbearer _) = ''SASL/OAUTHBEARER''"
| "credentials_method (SaslScram256 _) = ''SASL/SCRAM-256''"
| "credentials_method (SaslScram512 _) = ''SASL/SCRAM-512''"
| "credentials_method (AwsMskIam _) = ''AWS_MSK_IAM''"
| "credentials_method (DelegationTokens _) = ''Delegation tokens''"
| "credentials_method (SaslLdap _) = ''SASL/LDAP''"
| "credentials_method (MutualTls _) = ''mTLS''"
| "credentials_method (NoAuth _) = ''NO_AUTH''"

record KafkaConnectionForm =
  kc_credentials :: KafkaCredentials
  kc_securityProtocol :: string
  kc_bootstrapServers :: string
  kc_isConnected :: "bool option"
  kc_schemaRegistry :: "SchemaRegistryForm option"

section \<open>Checks of the connection form\<close>

definition requiresSSL :: "string \<Rightarrow> bool" where
  "requiresSSL securityProtocol \<longleftrightarrow> securityProtocol = ''SASL_SSL'' \<or> securityProtocol = ''SSL''"

definition required :: "string \<Rightarrow> string \<Rightarrow> string list" where
  "required v msg = (if v = [] then [msg] else [])"

definition required_opt :: "string option \<Rightarrow> string \<Rightarrow> string list" where
  "required_opt v msg = (case v of Some x \<Rightarrow> required x msg | None \<Rightarrow> [])"

text \<open>The \<open>min(1, ...)\<close> rules of the forms.\<close>

fun credentials_issues :: "KafkaCredentials \<Rightarrow> string list" where
  "credentials_issues (SaslPlain f) =
     required (su_username f) ''Username is required'' @ required (su_password f) ''Password is required''"
| "credentials_issues (SaslScram256 f) =
     required (su_username f) ''Username is required'' @ required (su_password f) ''Password is required''"
| "credentials_issues (SaslScram512 f) =
     required (su_username f) ''Username is required'' @ required (su_password f) ''Password is required''"
| "credentials_issues (SaslJaas f) = required (jaasConfig f) ''JAAS config is required''"
| "credentials_issues (SaslGssapi f) =
     required (kerberosPrincipal f) ''Kerberos principal is required'' @
     required (kerberosKeytab f) ''Kerberos keytab is required'' @
     required (kerberosRealm f) ''Kerberos realm is required'' @
     required (kdc f) ''Kerberos KDC is required'' @
     required (serviceName f) ''Kerberos service name is required'' @
     required (krb5Config f) ''Kerberos configuration is required''"
| "credentials_issues (SaslOauthbearer f) = required (oauthBearerToken f) ''OAuth bearer token is required''"
| "credentials_issues (AwsMskIam f) =
     required (awsRegion f) ''AWS region is required'' @
     required (awsAccessKey f) ''AWS access key is required'' @
     required (awsAccessKeySecret f) ''AWS access key secret is required''"
| "credentials_issues (DelegationTokens f) = required (delegationToken f) ''Delegation token is required''"
| "credentials_issues (SaslLdap f) =
     required (ldapServerUrl f) ''LDAP server URL is required'' @
     required (ldapServerPort f) ''LDAP server port is required'' @
     required (ldapBindDn f) ''LDAP bind DN is required'' @
     required (ldapBindPassword f) ''LDAP bind password is required'' @
     required_opt (ldapUserSearchFilter f) ''LDAP user search filter is required'' @
     required_opt (ldapBaseDn f) ''LDAP base DN is required''"
| "credentials_issues (MutualTls f) =
     required (clientCert f) ''Client certificate is required'' @
     required (clientKey f) ''Client key is required'' @
     required (mtls_password f) ''Password is required''"
| "credentials_issues (NoAuth f) = []"

text \<open>\<open>!x?.trim()\<close>.\<close>

definition blank_opt :: "string option \<Rightarrow> bool" where
  "blank_opt v = (case v of None \<Rightarrow> True | Some x \<Rightarrow> trim x = [])"

definition registry_issues :: "SchemaRegistryForm option \<Rightarrow> string list" where
  "registry_issues r =
     (case r of
        None \<Rightarrow> []
      | Some f \<Rightarrow>
          (if sr_enabled f \<and> blank_opt (sr_url f)
           then [''Registry URL is required when Schema Registry is enabled''] else []) @
          (if sr_enabled f \<and> sr_authMethod f = RegBasic
           then (if blank_opt (sr_username f) then [''Username is required''] else []) @
                (if blank_opt (sr_password f) then [''Password is required''] else [])
           else []))"

text \<open>The methods that take a trust store, and the store they carry.\<close>

fun method_truststore :: "KafkaCredentials \<Rightarrow> TruststoreForm option option" where
  "method_truststore (SaslPlain f) = Some (su_truststore f)"
| "method_truststore (NoAuth f) = Some (na_truststore f)"
| "method_truststore (SaslGssapi f) = Some (gs_truststore f)"
| "method_truststore (SaslScram256 f) = Some (su_truststore f)"
| "method_truststore (SaslScram512 f) = Some (su_truststore f)"
| "method_truststore _ = None"

definition certificate_missing :: "TruststoreForm option \<Rightarrow> bool" where
  "certificate_missing ts \<longleftrightarrow>
     (let skipVerification = (case ts of None \<Rightarrow> False | Some t \<Rightarrow> skipTlsVerification t = Some True);
          certs = (case ts of None \<Rightarrow> None | Some t \<Rightarrow> certificates t)
      in \<not> skipVerification \<and> blank_opt certs)"

definition certificate_issues :: "KafkaConnectionForm \<Rightarrow> string list" where
  "certificate_issues c =
     (if requiresSSL (kc_securityProtocol c)
      then (case method_truststore (kc_credentials c) of
              Some ts \<Rightarrow> if certificate_missing ts then [''Certificate is required when using SSL/TLS''] else []
            | None \<Rightarrow> [])
      else [])"

definition refine_issues :: "KafkaConnectionForm \<Rightarrow> string list" where
  "refine_issues c = registry_issues (kc_schemaRegistry c) @ certificate_issues c"

definition base_issues :: "KafkaConnectionForm \<Rightarrow> string list" where
  "base_issues c =
     required (kc_bootstrapServers c) ''Bootstrap servers are required'' @ credentials_issues (kc_credentials c)"

text \<open>
  A missing text does not stop the refinement: the issues of both are collected. Their order
  in the list is not meant to be the library's; the form is accepted when there is none.
\<close>

definition KafkaConnectionFormSchema :: "KafkaConnectionForm \<Rightarrow> string list" where
  "KafkaConnectionFormSchema c = base_issues c @ refine_issues c"

section \<open>The slice\<close>

record KafkaStore =
  isConnected :: bool
  authMethod :: string
  securityProtocol :: string
  bootstrapServers :: string
  saslPlain :: SaslUserForm
  saslJaas :: SaslJaasForm
  saslGssapi :: SaslGssapiForm
  saslOauthbearer :: SaslOauthbearerForm
  saslScram256 :: SaslUserForm
  saslScram512 :: SaslUserForm
  noAuth :: NoAuthForm
  awsIam :: AwsIamForm
  delegationTokens :: DelegationTokensForm
  ldap :: LdapForm
  mtls :: MtlsForm
  schemaRegistry :: SchemaRegistryForm
  kafka_validation :: ValidationState

definition emptyTruststore :: TruststoreForm where
  "emptyTruststore = \<lparr>location = Some '''', ts_password = Some '''', ts_type = Some '''', algorithm = Some '''',
     certificates = Some '''', certificatesFileName = Some '''', skipTlsVerification = Some False\<rparr>"

definition emptySaslUser :: SaslUserForm where
  "emptySaslUser = \<lparr>su_username = '''', su_password = '''', su_truststore = Some emptyTruststore,
     consumerGroup = Some ''''\<rparr>"

definition initialKafkaStore :: KafkaStore where
  "initialKafkaStore =
     \<lparr>isConnected = False, authMethod = '''', securityProtocol = '''', bootstrapServers = '''',
      saslPlain = emptySaslUser, saslJaas = \<lparr>jaasConfig = ''''\<rparr>,
      saslGssapi = \<lparr>kerberosPrincipal = '''', kerberosKeytab = '''', kerberosKeytabFileName = Some '''',
        kerberosRealm = '''', kdc = '''', serviceName = '''', krb5Config = '''', krb5ConfigFileName = Some '''',
        gs_truststore = Some emptyTruststore\<rparr>,
      saslOauthbearer = \<lparr>oauthBearerToken = ''''\<rparr>,
      saslScram256 = emptySaslUser, saslScram512 = emptySaslUser,
      noAuth = \<lparr>na_truststore = Some emptyTruststore\<rparr>,
      awsIam = \<lparr>awsRegion = '''', awsAccessKey = '''', awsAccessKeySecret = '''', awsAuthorizationIdentity = None,
        awsIAMRoleArn = Some '''', awsSessionToken = None\<rparr>,
      delegationTokens = \<lparr>delegationToken = ''''\<rparr>,
      ldap = \<lparr>ldapServerUrl = '''', ldapServerPort = '''', ldapBindDn = '''', ldapBindPassword = '''',
        ldapUserSearchFilter = Some '''', ldapBaseDn = Some ''''\<rparr>,
      mtls = \<lparr>clientCert = '''', clientKey = '''', mtls_password = ''''\<rparr>,
      schemaRegistry = \<lparr>sr_enabled = False, sr_url = Some '''', sr_authMethod = RegNone, sr_apiKey = Some '''',
        sr_apiSecret = Some '''', sr_username = Some '''', sr_password = Some ''''\<rparr>,
      kafka_validation = createInitialValidation\<rparr>"

definition setKafkaAuthMethod :: "string \<Rightarrow> KafkaStore \<Rightarrow> KafkaStore" where
  "setKafkaAuthMethod v s = s\<lparr>authMethod := v\<rparr>"

definition setKafkaSecurityProtocol :: "string \<Rightarrow> KafkaStore \<Rightarrow> KafkaStore" where
  "setKafkaSecurityProtocol v s = s\<lparr>securityProtocol := v\<rparr>"

definition setKafkaBootstrapServers :: "string \<Rightarrow> KafkaStore \<Rightarrow> KafkaStore" where
  "setKafkaBootstrapServers v s = s\<lparr>bootstrapServers := v\<rparr>"

text \<open>The eleven setters of the credentials, one per constructor of the union.\<close>

fun setKafkaCredentials :: "KafkaCredentials \<Rightarrow> KafkaStore \<Rightarrow> KafkaStore" where
  "setKafkaCredentials (SaslPlain f) s = s\<lparr>saslPlain := f\<rparr>"
| "setKafkaCredentials (SaslJaas f) s = s\<lparr>saslJaas := f\<rparr>"
| "setKafkaCredentials (SaslGssapi f) s = s\<lparr>saslGssapi := f\<rparr>"
| "setKafkaCredentials (SaslOauthbearer f) s = s\<lparr>saslOauthbearer := f\<rparr>"
| "setKafkaCredentials (SaslScram256 f) s = s\<lparr>saslScram256 := f\<rparr>"
| "setKafkaCredentials (SaslScram512 f) s = s\<lparr>saslScram512 := f\<rparr>"
| "setKafkaCredentials (AwsMskIam f) s = s\<lparr>awsIam := f\<rparr>"
| "setKafkaCredentials (DelegationTokens f) s = s\<lparr>delegationTokens := f\<rparr>"
| "setKafkaCredentials (SaslLdap f) s = s\<lparr>ldap := f\<rparr>"
| "setKafkaCredentials (MutualTls f) s = s\<lparr>mtls := f\<rparr>"
| "setKafkaCredentials (NoAuth f) s = s\<lparr>noAuth := f\<rparr>"

definition setKafkaSchemaRegistry :: "SchemaRegistryForm \<Rightarrow> KafkaStore \<Rightarrow> KafkaStore" where
  "setKafkaSchemaRegistry v s = s\<lparr>schemaRegistry := v\<rparr>"

text \<open>\<open>{ ...kafkaStore, ...connection }\<close>: the keys of the chosen union member and of the base.\<close>

definition setKafkaConnection :: "time \<Rightarrow> KafkaConnectionForm \<Rightarrow> KafkaStore \<Rightarrow> KafkaStore" where
  "setKafkaConnection now c s =
     (let s1 = setKafkaCredentials (kc_credentials c) s
      in s1\<lparr>authMethod := credentials_method (kc_credentials c),
            securityProtocol := kc_securityProtocol c, bootstrapServers := kc_bootstrapServers c,
            isConnected := (case kc_isConnected c of None \<Rightarrow> isConnected s | Some b \<Rightarrow> b),
            schemaRegistry := (case kc_schemaRegistry c of None \<Rightarrow> schemaRegistry s | Some r \<Rightarrow> r),
            kafka_validation := createValidValidation now\<rparr>)"

definition setIsConnected :: "bool \<Rightarrow> KafkaStore \<Rightarrow> KafkaStore" where
  "setIsConnected b s = s\<lparr>isConnected := b\<rparr>"

definition getIsKafkaConnectionDirty :: "KafkaStore \<Rightarrow> bool" where
  "getIsKafkaConnectionDirty s \<longleftrightarrow>
     authMethod s \<noteq> '''' \<or> securityProtocol s \<noteq> '''' \<or> bootstrapServers s \<noteq> ''''"

definition resetKafkaStore :: "KafkaStore \<Rightarrow> KafkaStore" where
  "resetKafkaStore s = initialKafkaStore"

definition kafka_markAsValid :: "time \<Rightarrow> KafkaStore \<Rightarrow> KafkaStore" where
  "kafka_markAsValid now s = s\<lparr>kafka_validation := createValidValidation now\<rparr>"

definition kafka_markAsInvalidated :: "time \<Rightarrow> string \<Rightarrow> KafkaStore \<Rightarrow> KafkaStore" where
  "kafka_markAsInvalidated now sec s = s\<lparr>kafka_validation := createInvalidatedValidation now sec\<rparr>"

definition kafka_markAsNotConfigured :: "KafkaStore \<Rightarrow> KafkaStore" where
  "kafka_markAsNotConfigured s = s\<lparr>kafka_validation := createInitialValidation\<rparr>"

definition kafka_resetValidation :: "KafkaStore \<Rightarrow> KafkaStore" where
  "kafka_resetValidation s = s\<lparr>kafka_validation := createInitialValidation\<rparr>"

lemmas kafka_validation_defs = kafka_markAsValid_def kafka_markAsInvalidated_def
  kafka_markAsNotConfigured_def kafka_resetValidation_def

text \<open>Everything of the slice but its validation.\<close>

definition kafka_data :: "KafkaStore \<Rightarrow> KafkaStore" where
  "kafka_data s = s\<lparr>kafka_validation := createInitialValidation\<rparr>"

interpretation kafka_slice: validated_slice kafka_validation kafka_data
  kafka_markAsValid kafka_markAsInvalidated kafka_markAsNotConfigured kafka_resetValidation
  by unfold_locales (simp_all add: kafka_validation_defs kafka_data_def)

section \<open>Properties\<close>

text \<open>The credentials of the method a store has selected.\<close>

definition selected_credentials :: "KafkaStore \<Rightarrow> KafkaCredentials option" where
  "selected_credentials s =
     List.find (\<lambda>c. credentials_method c = authMethod s)
       [SaslPlain (saslPlain s), SaslJaas (saslJaas s), SaslGssapi (saslGssapi s),
        SaslOauthbearer (saslOauthbearer s), SaslScram256 (saslScram256 s), SaslScram512 (saslScram512 s),
        AwsMskIam (awsIam s), DelegationTokens (delegationTokens s), SaslLdap (ldap s), MutualTls (mtls s),
        NoAuth (noAuth s)]"

text \<open>
  Storing a connection: the method, credentials, protocol and servers of the form are what
  the store then has selected, the slice is valid and dirty, and a reset after it gives the
  initial slice, without any of the credentials.
\<close>

theorem kafka_connection_stored:
  "let t = setKafkaConnection now c s
   in selected_credentials t = Some (kc_credentials c) \<and>
      securityProtocol t = kc_securityProtocol c \<and> bootstrapServers t = kc_bootstrapServers c \<and>
      kafka_validation t = createValidValidation now \<and> getIsKafkaConnectionDirty t \<and>
      resetKafkaStore t = initialKafkaStore \<and> \<not> getIsKafkaConnectionDirty (resetKafkaStore t)"
  by (cases "kc_credentials c")
    (simp_all add: setKafkaConnection_def selected_credentials_def Let_def getIsKafkaConnectionDirty_def
      resetKafkaStore_def initialKafkaStore_def)

text \<open>
  A connection form that passes all checks has servers, and over SSL a method with a trust
  store has a certificate or skips verification explicitly; an enabled schema registry has a
  URL, and with basic authentication a user and a password.
\<close>

theorem kafka_form_accepted:
  assumes "KafkaConnectionFormSchema c = []"
  shows "kc_bootstrapServers c \<noteq> [] \<and>
    (requiresSSL (kc_securityProtocol c) \<longrightarrow>
      (\<forall>ts. method_truststore (kc_credentials c) = Some ts \<longrightarrow>
        (\<exists>t. ts = Some t \<and> (skipTlsVerification t = Some True \<or>
           (\<exists>certs. certificates t = Some certs \<and> trim certs \<noteq> []))))) \<and>
    (\<forall>f. kc_schemaRegistry c = Some f \<and> sr_enabled f \<longrightarrow>
      (\<exists>u. sr_url f = Some u \<and> trim u \<noteq> []) \<and>
      (sr_authMethod f = RegBasic \<longrightarrow> \<not> blank_opt (sr_username f) \<and> \<not> blank_opt (sr_password f)))"
proof -
  have base: "base_issues c = []" and ref: "refine_issues c = []"
    using assms by (simp_all add: KafkaConnectionFormSchema_def)
  have "kc_bootstrapServers c \<noteq> []" using base by (simp add: base_issues_def required_def split: if_splits)
  moreover have "certificate_issues c = []" "registry_issues (kc_schemaRegistry c) = []"
    using ref by (simp_all add: refine_issues_def)
  ultimately show ?thesis
    by (auto simp: certificate_issues_def certificate_missing_def registry_issues_def blank_opt_def Let_def
        split: if_splits option.splits)
qed

theorem kafka_form_accepted_witness:
  "skipTlsVerification (emptyTruststore\<lparr>skipTlsVerification := Some True\<rparr>) = Some True \<and>
   KafkaConnectionFormSchema \<lparr>kc_credentials = NoAuth \<lparr>na_truststore = Some (emptyTruststore\<lparr>skipTlsVerification := Some True\<rparr>)\<rparr>,
     kc_securityProtocol = ''SSL'', kc_bootstrapServers = ''k:9093'', kc_isConnected = None,
     kc_schemaRegistry = None\<rparr> = []"
proof -
  let ?c = "\<lparr>kc_credentials = NoAuth \<lparr>na_truststore = Some (emptyTruststore\<lparr>skipTlsVerification := Some True\<rparr>)\<rparr>,
     kc_securityProtocol = ''SSL'', kc_bootstrapServers = ''k:9093'', kc_isConnected = None,
     kc_schemaRegistry = None\<rparr> :: KafkaConnectionForm"
  have ok: "KafkaConnectionFormSchema ?c = []"
    by (simp add: KafkaConnectionFormSchema_def base_issues_def refine_issues_def required_def
        registry_issues_def certificate_issues_def certificate_missing_def)
  from kafka_form_accepted [OF ok] ok show ?thesis by simp
qed

end
