(* ===== verification/Transformation_Store.thy ===== *)
theory Transformation_Store
  imports Validation_State "HOL-Library.Multiset"
begin

text \<open>
  The transformation slice (ui/src/store/transformation.store.ts): function arguments, fields,
  the completeness tests and the actions. Ids made by \<open>uuidv4()\<close> are arguments, a list of them
  where an action makes several fields.
\<close>

section \<open>Data\<close>

datatype LiteralType = LitString | LitNumber | LitBoolean

datatype ElementType = ElemTypeString | ElemTypeNumber | ElemTypeNested

datatype SlotType = FieldSlot | FunctionSlot | LiteralSlot

record ConcatSlot =
  cs_id :: string
  cs_slotType :: SlotType
  cs_fieldName :: "string option"
  cs_fieldType :: "string option"
  cs_literalValue :: "string option"

datatype FunctionArg =
    FieldArg (arg_fieldName: string) (arg_fieldType: string)
  | LiteralArg js_value LiteralType
  | ArrayArg "ArrayElement list" ElementType
  | NestedArg (arg_functionName: string) (arg_functionArgs: "FunctionArg list")
  | WaterfallArg "WaterfallSlot list"
  | ConcatArg "ConcatSlot list" "PostProcessFunction list option"
and ArrayElement = StringElem string | NumberElem js_number | ArgElem FunctionArg
and WaterfallSlot =
    WaterfallSlot (ws_id: string) (ws_slotType: SlotType) (ws_fieldName: "string option")
      (ws_fieldType: "string option") (ws_functionName: "string option")
      (ws_functionArgs: "FunctionArg list option") (ws_literalValue: "string option")
      (ws_literalType: "LiteralType option")
and PostProcessFunction =
    PostProcess (pp_id: string) (pp_functionName: string) (pp_additionalArgs: "FunctionArg list")

datatype ExpressionMode = SimpleMode | NestedMode | RawMode

datatype TransformArithmeticOperator = TPlus | TMinus | TTimes | TDivide | TModulo

record TransformArithmeticExpression =
  ta_operator :: TransformArithmeticOperator
  ta_operand :: js_number

datatype FieldKind = Computed | Passthrough

record TransformationField =
  tf_id :: string
  tf_type :: FieldKind
  outputFieldName :: string
  outputFieldType :: string
  functionName :: "string option"
  functionArgs :: "FunctionArg list option"
  sourceField :: "string option"
  sourceFieldType :: "string option"
  expressionMode :: "ExpressionMode option"
  rawExpression :: "string option"
  tf_arithmetic :: "TransformArithmeticExpression option"

record TransformationConfig =
  tc_enabled :: bool
  tc_fields :: "TransformationField list"

record TransformationStore =
  transformationConfig :: TransformationConfig
  lastSavedTransformationSnapshot :: "TransformationConfig option"
  tr_expressionString :: string
  tr_backendValidation :: BackendValidation
  tr_validation :: ValidationState

section \<open>Constructors of fields\<close>

definition createEmptyPassthroughField :: "string \<Rightarrow> TransformationField" where
  "createEmptyPassthroughField newId =
     \<lparr>tf_id = newId, tf_type = Passthrough, outputFieldName = '''', outputFieldType = '''',
      functionName = None, functionArgs = None, sourceField = Some '''', sourceFieldType = Some '''',
      expressionMode = None, rawExpression = None, tf_arithmetic = None\<rparr>"

definition createEmptyComputedField :: "string \<Rightarrow> ExpressionMode \<Rightarrow> TransformationField" where
  "createEmptyComputedField newId mode =
     \<lparr>tf_id = newId, tf_type = Computed, outputFieldName = '''', outputFieldType = '''',
      functionName = Some '''', functionArgs = Some [], sourceField = None, sourceFieldType = None,
      expressionMode = Some mode, rawExpression = Some '''', tf_arithmetic = None\<rparr>"

definition createPassthroughField :: "string \<Rightarrow> string \<Rightarrow> string \<Rightarrow> string option \<Rightarrow> TransformationField" where
  "createPassthroughField newId srcField srcType outName =
     \<lparr>tf_id = newId, tf_type = Passthrough,
      outputFieldName = (case outName of Some n \<Rightarrow> if n = '''' then srcField else n | None \<Rightarrow> srcField),
      outputFieldType = srcType, functionName = None, functionArgs = None,
      sourceField = Some srcField, sourceFieldType = Some srcType,
      expressionMode = None, rawExpression = None, tf_arithmetic = None\<rparr>"

definition createComputedField ::
    "string \<Rightarrow> string \<Rightarrow> FunctionArg list \<Rightarrow> string \<Rightarrow> string \<Rightarrow> TransformationField" where
  "createComputedField newId fname args outName outType =
     \<lparr>tf_id = newId, tf_type = Computed, outputFieldName = outName, outputFieldType = outType,
      functionName = Some fname, functionArgs = Some args, sourceField = None, sourceFieldType = None,
      expressionMode = None, rawExpression = None, tf_arithmetic = None\<rparr>"

section \<open>Completeness\<close>

text \<open>\<open>!!x\<close> for an optional string.\<close>

definition truthy :: "string option \<Rightarrow> bool" where
  "truthy v \<longleftrightarrow> (case v of None \<Rightarrow> False | Some s \<Rightarrow> s \<noteq> '''')"

definition hasSourceField :: "TransformationField \<Rightarrow> bool" where
  "hasSourceField f \<longleftrightarrow>
     (case functionArgs f of Some (FieldArg n _ # _) \<Rightarrow> n \<noteq> '''' | _ \<Rightarrow> False)"

definition isFieldComplete :: "TransformationField \<Rightarrow> bool" where
  "isFieldComplete f \<longleftrightarrow>
     (if outputFieldName f = '''' then False
      else case tf_type f of
          Passthrough \<Rightarrow> truthy (sourceField f)
        | Computed \<Rightarrow>
            if expressionMode f = Some RawMode
            then (case rawExpression f of None \<Rightarrow> False | Some e \<Rightarrow> e \<noteq> '''' \<and> trim e \<noteq> [])
            else if hasSourceField f \<and> tf_arithmetic f \<noteq> None then True
            else truthy (functionName f) \<and> (case functionArgs f of None \<Rightarrow> False | Some as \<Rightarrow> as \<noteq> []))"

fun isNestedFunctionArg :: "FunctionArg \<Rightarrow> bool" where
  "isNestedFunctionArg (NestedArg _ _) = True"
| "isNestedFunctionArg _ = False"

fun isNestedFunctionComplete :: "FunctionArg \<Rightarrow> bool"
  and nested_args_complete :: "FunctionArg list \<Rightarrow> bool" where
  "isNestedFunctionComplete (NestedArg f args) \<longleftrightarrow> f \<noteq> '''' \<and> nested_args_complete args"
| "isNestedFunctionComplete (FieldArg n _) \<longleftrightarrow> n \<noteq> ''''"
| "isNestedFunctionComplete _ \<longleftrightarrow> True"
| "nested_args_complete [] \<longleftrightarrow> True"
| "nested_args_complete (a # args) \<longleftrightarrow> isNestedFunctionComplete a \<and> nested_args_complete args"

definition countCompleteFields :: "TransformationField list \<Rightarrow> nat" where
  "countCompleteFields fs = length (filter isFieldComplete fs)"

section \<open>Actions\<close>

definition initialTransformationConfig :: TransformationConfig where
  "initialTransformationConfig = \<lparr>tc_enabled = False, tc_fields = []\<rparr>"

definition initialTransformationStore :: TransformationStore where
  "initialTransformationStore =
     \<lparr>transformationConfig = initialTransformationConfig, lastSavedTransformationSnapshot = None,
      tr_expressionString = '''', tr_backendValidation = initialBackendValidation,
      tr_validation = createInitialValidation\<rparr>"

definition setTransformationEnabled :: "bool \<Rightarrow> TransformationStore \<Rightarrow> TransformationStore" where
  "setTransformationEnabled b s = s\<lparr>transformationConfig := (transformationConfig s)\<lparr>tc_enabled := b\<rparr>\<rparr>"

text \<open>The three actions that add fields share this update.\<close>

definition put_fields ::
    "time \<Rightarrow> (TransformationField list \<Rightarrow> TransformationField list) \<Rightarrow> TransformationStore \<Rightarrow> TransformationStore" where
  "put_fields now f s =
     s\<lparr>transformationConfig := \<lparr>tc_enabled = True, tc_fields = f (tc_fields (transformationConfig s))\<rparr>,
       tr_validation := createValidValidation now\<rparr>"

text \<open>\<open>Partial<TransformationField>\<close>: \<open>None\<close> is an absent key; \<open>Some None\<close> sets an optional one to \<open>undefined\<close>.\<close>

record FieldUpdates =
  fu_type :: "FieldKind option"
  fu_outputFieldName :: "string option"
  fu_outputFieldType :: "string option"
  fu_functionName :: "string option option"
  fu_functionArgs :: "FunctionArg list option option"
  fu_sourceField :: "string option option"
  fu_sourceFieldType :: "string option option"
  fu_expressionMode :: "ExpressionMode option option"
  fu_rawExpression :: "string option option"
  fu_arithmetic :: "TransformArithmeticExpression option option"

definition given :: "'a option option \<Rightarrow> 'a option" where
  "given u = (case u of None \<Rightarrow> None | Some v \<Rightarrow> v)"

definition or_default :: "'a option \<Rightarrow> 'a \<Rightarrow> 'a" where
  "or_default u d = (case u of None \<Rightarrow> d | Some v \<Rightarrow> v)"

definition new_field :: "string \<Rightarrow> FieldUpdates \<Rightarrow> TransformationField" where
  "new_field newId u =
     \<lparr>tf_id = newId, tf_type = or_default (fu_type u) Passthrough,
      outputFieldName = or_default (fu_outputFieldName u) '''',
      outputFieldType = or_default (fu_outputFieldType u) '''',
      functionName = given (fu_functionName u), functionArgs = given (fu_functionArgs u),
      sourceField = given (fu_sourceField u), sourceFieldType = given (fu_sourceFieldType u),
      expressionMode = Some (or_default (given (fu_expressionMode u)) SimpleMode),
      rawExpression = given (fu_rawExpression u), tf_arithmetic = given (fu_arithmetic u)\<rparr>"

definition addField :: "time \<Rightarrow> string \<Rightarrow> FieldUpdates \<Rightarrow> TransformationStore \<Rightarrow> TransformationStore" where
  "addField now newId u = put_fields now (\<lambda>fs. fs @ [new_field newId u])"

definition addPassthroughField ::
    "time \<Rightarrow> string \<Rightarrow> string \<Rightarrow> string \<Rightarrow> string option \<Rightarrow> TransformationStore \<Rightarrow> TransformationStore" where
  "addPassthroughField now newId srcField srcType outName =
     put_fields now (\<lambda>fs. fs @ [createPassthroughField newId srcField srcType outName])"

definition addComputedField ::
    "time \<Rightarrow> string \<Rightarrow> string \<Rightarrow> FunctionArg list \<Rightarrow> string \<Rightarrow> string \<Rightarrow> TransformationStore \<Rightarrow> TransformationStore" where
  "addComputedField now newId fname args outName outType =
     put_fields now (\<lambda>fs. fs @ [createComputedField newId fname args outName outType])"

definition apply_field :: "FieldUpdates \<Rightarrow> TransformationField \<Rightarrow> TransformationField" where
  "apply_field u f =
     \<lparr>tf_id = tf_id f, tf_type = or_default (fu_type u) (tf_type f),
      outputFieldName = or_default (fu_outputFieldName u) (outputFieldName f),
      outputFieldType = or_default (fu_outputFieldType u) (outputFieldType f),
      functionName = or_default (fu_functionName u) (functionName f),
      functionArgs = or_default (fu_functionArgs u) (functionArgs f),
      sourceField = or_default (fu_sourceField u) (sourceField f),
      sourceFieldType = or_default (fu_sourceFieldType u) (sourceFieldType f),
      expressionMode = or_default (fu_expressionMode u) (expressionMode f),
      rawExpression = or_default (fu_rawExpression u) (rawExpression f),
      tf_arithmetic = or_default (fu_arithmetic u) (tf_arithmetic f)\<rparr>"

definition updateField :: "time \<Rightarrow> string \<Rightarrow> FieldUpdates \<Rightarrow> TransformationStore \<Rightarrow> TransformationStore" where
  "updateField now fieldId u s =
     s\<lparr>transformationConfig := (transformationConfig s)\<lparr>tc_fields :=
         map (\<lambda>f. if tf_id f = fieldId then apply_field u f else f) (tc_fields (transformationConfig s))\<rparr>,
       tr_validation := createValidValidation now\<rparr>"

definition removeField :: "time \<Rightarrow> string \<Rightarrow> TransformationStore \<Rightarrow> TransformationStore" where
  "removeField now fieldId s =
     (let updatedFields = filter (\<lambda>f. tf_id f \<noteq> fieldId) (tc_fields (transformationConfig s))
      in s\<lparr>transformationConfig := \<lparr>tc_enabled = (updatedFields \<noteq> []), tc_fields = updatedFields\<rparr>,
           tr_validation := createValidValidation now\<rparr>)"

text \<open>
  \<open>splice\<close>: a negative index counts from the end, both are clamped to the array. When the
  first splice removes nothing the code would insert \<open>undefined\<close>; the model has no such list and
  returns \<open>None\<close>.
\<close>

definition splice_start :: "int \<Rightarrow> nat \<Rightarrow> nat" where
  "splice_start i n = (if i < 0 then nat (max 0 (int n + i)) else min (nat i) n)"

definition move_element :: "int \<Rightarrow> int \<Rightarrow> 'a list \<Rightarrow> 'a list option" where
  "move_element fromIndex toIndex xs =
     (let i = splice_start fromIndex (length xs)
      in if i < length xs
         then let rest = take i xs @ drop (Suc i) xs; j = splice_start toIndex (length rest)
              in Some (take j rest @ [xs ! i] @ drop j rest)
         else None)"

definition reorderFields :: "int \<Rightarrow> int \<Rightarrow> TransformationStore \<Rightarrow> TransformationStore option" where
  "reorderFields fromIndex toIndex s =
     map_option (\<lambda>fs. s\<lparr>transformationConfig := (transformationConfig s)\<lparr>tc_fields := fs\<rparr>\<rparr>)
       (move_element fromIndex toIndex (tc_fields (transformationConfig s)))"

definition clearFields :: "TransformationStore \<Rightarrow> TransformationStore" where
  "clearFields s =
     s\<lparr>transformationConfig := \<lparr>tc_enabled = False, tc_fields = []\<rparr>, tr_expressionString := '''',
       tr_backendValidation := \<lparr>bv_status = Idle, bv_error = None\<rparr>\<rparr>"

definition addAllFieldsAsPassthrough ::
    "time \<Rightarrow> string list \<Rightarrow> (string \<times> string) list \<Rightarrow> TransformationStore \<Rightarrow> TransformationStore" where
  "addAllFieldsAsPassthrough now newIds srcs =
     put_fields now (\<lambda>_. map2 (\<lambda>i (n, t). createPassthroughField i n t None) newIds srcs)"

definition tr_setExpressionString :: "string \<Rightarrow> TransformationStore \<Rightarrow> TransformationStore" where
  "tr_setExpressionString e s = s\<lparr>tr_expressionString := e\<rparr>"

definition tr_setBackendValidation :: "BackendValidation \<Rightarrow> TransformationStore \<Rightarrow> TransformationStore" where
  "tr_setBackendValidation v s = s\<lparr>tr_backendValidation := v\<rparr>"

definition getTransformationConfig :: "TransformationStore \<Rightarrow> TransformationConfig" where
  "getTransformationConfig s = transformationConfig s"

definition setTransformationConfig :: "TransformationConfig \<Rightarrow> TransformationStore \<Rightarrow> TransformationStore" where
  "setTransformationConfig c s = s\<lparr>transformationConfig := c\<rparr>"

definition setLastSavedTransformationSnapshot ::
    "TransformationConfig option \<Rightarrow> TransformationStore \<Rightarrow> TransformationStore" where
  "setLastSavedTransformationSnapshot c s = s\<lparr>lastSavedTransformationSnapshot := c\<rparr>"

definition getLastSavedTransformationSnapshot :: "TransformationStore \<Rightarrow> TransformationConfig option" where
  "getLastSavedTransformationSnapshot s = lastSavedTransformationSnapshot s"

text \<open>The copy through JSON is the identity on configurations whose numbers are finite.\<close>

definition restoreFromLastSavedSnapshot :: "TransformationStore \<Rightarrow> TransformationStore" where
  "restoreFromLastSavedSnapshot s =
     (case lastSavedTransformationSnapshot s of
        None \<Rightarrow> s | Some snapshot \<Rightarrow> s\<lparr>transformationConfig := snapshot\<rparr>)"

definition skipTransformation :: "time \<Rightarrow> TransformationStore \<Rightarrow> TransformationStore" where
  "skipTransformation now s =
     s\<lparr>transformationConfig := \<lparr>tc_enabled = False, tc_fields = []\<rparr>, tr_expressionString := '''',
       tr_backendValidation := \<lparr>bv_status = Idle, bv_error = None\<rparr>, tr_validation := createValidValidation now\<rparr>"

definition resetTransformationStore :: "TransformationStore \<Rightarrow> TransformationStore" where
  "resetTransformationStore s =
     s\<lparr>transformationConfig := \<lparr>tc_enabled = False, tc_fields = []\<rparr>, lastSavedTransformationSnapshot := None,
       tr_expressionString := '''', tr_backendValidation := initialBackendValidation,
       tr_validation := createInitialValidation\<rparr>"

definition getIntermediarySchema :: "TransformationStore \<Rightarrow> (string \<times> string) list" where
  "getIntermediarySchema s =
     (let c = transformationConfig s
      in if \<not> tc_enabled c \<or> tc_fields c = [] then []
         else map (\<lambda>f. (outputFieldName f, outputFieldType f)) (filter isFieldComplete (tc_fields c)))"

definition hasFields :: "TransformationStore \<Rightarrow> bool" where
  "hasFields s \<longleftrightarrow> tc_fields (transformationConfig s) \<noteq> []"

definition getFieldCount :: "TransformationStore \<Rightarrow> nat" where
  "getFieldCount s = length (tc_fields (transformationConfig s))"

definition tr_markAsValid :: "time \<Rightarrow> TransformationStore \<Rightarrow> TransformationStore" where
  "tr_markAsValid now s = s\<lparr>tr_validation := createValidValidation now\<rparr>"

definition tr_markAsInvalidated :: "time \<Rightarrow> string \<Rightarrow> TransformationStore \<Rightarrow> TransformationStore" where
  "tr_markAsInvalidated now sec s = s\<lparr>tr_validation := createInvalidatedValidation now sec\<rparr>"

definition tr_markAsNotConfigured :: "TransformationStore \<Rightarrow> TransformationStore" where
  "tr_markAsNotConfigured s = s\<lparr>tr_validation := createInitialValidation\<rparr>"

definition tr_resetValidation :: "TransformationStore \<Rightarrow> TransformationStore" where
  "tr_resetValidation s = s\<lparr>tr_validation := createInitialValidation\<rparr>"

lemmas tr_validation_defs = tr_markAsValid_def tr_markAsInvalidated_def tr_markAsNotConfigured_def
  tr_resetValidation_def

interpretation tr_slice: validated_slice tr_validation
  "\<lambda>s. (transformationConfig s, lastSavedTransformationSnapshot s, tr_expressionString s, tr_backendValidation s)"
  tr_markAsValid tr_markAsInvalidated tr_markAsNotConfigured tr_resetValidation
  by unfold_locales (simp_all add: tr_validation_defs)

section \<open>The slice as a state machine\<close>

datatype TransformationAction =
    SetTransformationEnabled bool
  | AddField string FieldUpdates
  | AddPassthroughField string string string "string option"
  | AddComputedField string string "FunctionArg list" string string
  | UpdateField string FieldUpdates
  | RemoveField string
  | ReorderFields int int
  | ClearFields
  | AddAllFieldsAsPassthrough "string list" "(string \<times> string) list"
  | SetTransformationConfig TransformationConfig
  | SetTrExpressionString string
  | SetTrBackendValidation BackendValidation
  | SkipTransformation

fun transformation_step :: "time \<Rightarrow> TransformationAction \<Rightarrow> TransformationStore \<Rightarrow> TransformationStore option" where
  "transformation_step now (SetTransformationEnabled b) s = Some (setTransformationEnabled b s)"
| "transformation_step now (AddField i u) s = Some (addField now i u s)"
| "transformation_step now (AddPassthroughField i n t out) s = Some (addPassthroughField now i n t out s)"
| "transformation_step now (AddComputedField i f args n t) s = Some (addComputedField now i f args n t s)"
| "transformation_step now (UpdateField i u) s = Some (updateField now i u s)"
| "transformation_step now (RemoveField i) s = Some (removeField now i s)"
| "transformation_step now (ReorderFields a b) s = reorderFields a b s"
| "transformation_step now ClearFields s = Some (clearFields s)"
| "transformation_step now (AddAllFieldsAsPassthrough is srcs) s = Some (addAllFieldsAsPassthrough now is srcs s)"
| "transformation_step now (SetTransformationConfig c) s = Some (setTransformationConfig c s)"
| "transformation_step now (SetTrExpressionString e) s = Some (tr_setExpressionString e s)"
| "transformation_step now (SetTrBackendValidation v) s = Some (tr_setBackendValidation v s)"
| "transformation_step now SkipTransformation s = Some (skipTransformation now s)"

fun transformation_run :: "(time \<times> TransformationAction) list \<Rightarrow> TransformationStore \<Rightarrow> TransformationStore option" where
  "transformation_run [] s = Some s"
| "transformation_run ((now, a) # as) s =
     (case transformation_step now a s of None \<Rightarrow> None | Some t \<Rightarrow> transformation_run as t)"

lemmas transformation_action_defs = setTransformationEnabled_def put_fields_def addField_def
  addPassthroughField_def addComputedField_def updateField_def removeField_def reorderFields_def
  clearFields_def addAllFieldsAsPassthrough_def tr_setExpressionString_def tr_setBackendValidation_def
  setTransformationConfig_def skipTransformation_def

lemma step_keeps_snapshot:
  "transformation_step now a s = Some t \<Longrightarrow> lastSavedTransformationSnapshot t = lastSavedTransformationSnapshot s"
  by (cases a) (auto simp: transformation_action_defs Let_def)

lemma run_keeps_snapshot:
  "transformation_run as s = Some t \<Longrightarrow> lastSavedTransformationSnapshot t = lastSavedTransformationSnapshot s"
  by (induction as s rule: transformation_run.induct)
    (auto split: option.splits dest: step_keeps_snapshot)

section \<open>Properties\<close>

lemma splice_start_inside: "0 \<le> i \<Longrightarrow> i < int n \<Longrightarrow> splice_start i n = nat i"
  by (simp add: splice_start_def)

lemma mset_insert_at: "mset (take j rest @ [x] @ drop j rest) = add_mset x (mset rest)"
  by (metis append_take_drop_id mset_append union_mset_add_mset_right append_Cons append_Nil mset.simps(2))

lemma mset_remove_at: "i < length xs \<Longrightarrow> add_mset (xs ! i) (mset (take i xs @ drop (Suc i) xs)) = mset xs"
  by (metis id_take_nth_drop mset_append mset.simps(2) union_mset_add_mset_right)

text \<open>
  Dragging a field to another place: the fields are a permutation of what they were, the
  moved field stands at the target index, the other fields keep their order, and nothing else
  of the slice changes.
\<close>

theorem reorderFields_spec:
  assumes "0 \<le> a" and "a < int (getFieldCount s)" and "0 \<le> b" and "b < int (getFieldCount s)"
  shows "\<exists>t. reorderFields a b s = Some t \<and>
    (let xs = tc_fields (transformationConfig s); ys = tc_fields (transformationConfig t)
     in mset ys = mset xs \<and> ys ! nat b = xs ! nat a \<and>
        take (nat b) ys @ drop (Suc (nat b)) ys = take (nat a) xs @ drop (Suc (nat a)) xs \<and>
        t = s\<lparr>transformationConfig := (transformationConfig s)\<lparr>tc_fields := ys\<rparr>\<rparr>)"
proof -
  define xs where "xs = tc_fields (transformationConfig s)"
  define i j where "i = nat a" and "j = nat b"
  have ij: "i < length xs" "j < length xs" "splice_start a (length xs) = i"
    using assms by (auto simp: i_def j_def xs_def getFieldCount_def splice_start_def)
  define rest where "rest = take i xs @ drop (Suc i) xs"
  have rest: "length rest = length xs - 1" using ij by (simp add: rest_def)
  have sj: "splice_start b (length rest) = j" using assms ij rest by (simp add: splice_start_def j_def)
  define ys where "ys = take j rest @ [xs ! i] @ drop j rest"
  have j_le: "j \<le> length rest" using ij rest by simp
  have move: "move_element a b xs = Some ys"
    unfolding move_element_def Let_def ij(3) using ij(1) sj by (simp add: rest_def [symmetric] ys_def)
  have "mset ys = mset xs"
    using mset_insert_at [of j rest "xs ! i"] mset_remove_at [OF ij(1)] by (simp add: ys_def rest_def)
  moreover have "ys ! j = xs ! i" using j_le by (simp add: ys_def nth_append)
  moreover have "take j ys @ drop (Suc j) ys = rest" using j_le by (simp add: ys_def)
  ultimately show ?thesis using move
    by (intro exI [of _ "s\<lparr>transformationConfig := (transformationConfig s)\<lparr>tc_fields := ys\<rparr>\<rparr>"])
      (simp add: reorderFields_def xs_def [symmetric] i_def [symmetric] j_def [symmetric] rest_def [symmetric] Let_def)
qed

definition two_fields :: TransformationStore where
  "two_fields = addPassthroughField 1 ''b'' ''y'' ''int'' None
     (addPassthroughField 0 ''a'' ''x'' ''string'' None initialTransformationStore)"

theorem reorderFields_spec_witness:
  "\<exists>t. reorderFields 0 1 two_fields = Some t \<and> map tf_id (tc_fields (transformationConfig two_fields)) = [''a'', ''b''] \<and>
     tf_id (tc_fields (transformationConfig t) ! 1) = ''a''"
proof -
  have "tc_fields (transformationConfig two_fields) =
      [createPassthroughField ''a'' ''x'' ''string'' None, createPassthroughField ''b'' ''y'' ''int'' None]"
    by (simp add: two_fields_def transformation_action_defs initialTransformationStore_def
        initialTransformationConfig_def)
  then show ?thesis
    using reorderFields_spec [of 0 two_fields 1] by (auto simp: getFieldCount_def createPassthroughField_def Let_def)
qed

text \<open>
  Leaving the section without saving: whatever edits follow a save, in any order and
  number, restoring the snapshot gives the configuration that was saved.
\<close>

theorem restore_after_edits:
  assumes "transformation_run edits (setLastSavedTransformationSnapshot (Some c) s) = Some t"
  shows "getTransformationConfig (restoreFromLastSavedSnapshot t) = c"
  using run_keeps_snapshot [OF assms]
  by (simp add: restoreFromLastSavedSnapshot_def setLastSavedTransformationSnapshot_def getTransformationConfig_def)

theorem restore_after_edits_witness:
  "\<exists>t. transformation_run [(1, RemoveField ''a''), (2, SkipTransformation)]
         (setLastSavedTransformationSnapshot (Some (transformationConfig two_fields)) two_fields) = Some t \<and>
       tc_fields (transformationConfig t) = [] \<and>
       getTransformationConfig (restoreFromLastSavedSnapshot t) = transformationConfig two_fields"
proof -
  let ?s = "setLastSavedTransformationSnapshot (Some (transformationConfig two_fields)) two_fields"
  have run: "transformation_run [(1, RemoveField ''a''), (2, SkipTransformation)] ?s =
      Some (skipTransformation 2 (removeField 1 ''a'' ?s))"
    by simp
  from restore_after_edits [OF this] show ?thesis unfolding run by (simp add: skipTransformation_def)
qed

text \<open>
  Removing a field leaves exactly the fields with another id, in order, and keeps the
  transformation enabled exactly while fields remain; the intermediary schema lists, in order,
  the complete fields of an enabled transformation and nothing of a disabled one, and every name
  in it is non-empty.
\<close>

theorem removeField_schema_spec:
  "let t = removeField now i s; c = transformationConfig t
   in tc_fields c = filter (\<lambda>f. tf_id f \<noteq> i) (tc_fields (transformationConfig s)) \<and>
      (tc_enabled c \<longleftrightarrow> hasFields t) \<and>
      getIntermediarySchema t = map (\<lambda>f. (outputFieldName f, outputFieldType f)) (filter isFieldComplete (tc_fields c)) \<and>
      list_all (\<lambda>(n, _). n \<noteq> '''') (getIntermediarySchema t) \<and>
      length (getIntermediarySchema t) = countCompleteFields (tc_fields c) \<and>
      getIntermediarySchema (setTransformationEnabled False s) = []"
proof -
  define fs where "fs = filter (\<lambda>f. tf_id f \<noteq> i) (tc_fields (transformationConfig s))"
  have named: "outputFieldName f \<noteq> []" if "isFieldComplete f" for f
    using that by (auto simp: isFieldComplete_def)
  have "getIntermediarySchema (removeField now i s) =
      map (\<lambda>f. (outputFieldName f, outputFieldType f)) (filter isFieldComplete fs)"
    by (cases "fs = []") (simp_all add: getIntermediarySchema_def removeField_def Let_def fs_def [symmetric])
  with named show ?thesis
    by (auto simp: removeField_def hasFields_def Let_def list_all_iff fs_def [symmetric]
        countCompleteFields_def setTransformationEnabled_def getIntermediarySchema_def [of "s\<lparr>transformationConfig := c\<rparr>" for c])
qed

end
