(* ===== verification/Root_Store.thy ===== *)
theory Root_Store
  imports Filter_Store Slices Clickhouse_Slices Kafka_Slice Transformation_Store "HOL-Library.AList"
begin

text \<open>
  The core slice (ui/src/store/core.ts), the composed store of all slices (ui/src/store/index.ts)
  and the operations that reach across slices. Analytics calls are left out; the \<open>isDirty\<close>
  cookie is a field of the composed store. Of a loaded pipeline the model has what these
  operations read; the rest is carried along. Hydration from a pipeline is not modelled here.
\<close>

section \<open>Pipelines and the operation type\<close>

record TopicDeduplication =
  td_enabled :: "bool option"
  td_id_field :: "string option"

record Pipeline =
  pipeline_id :: string
  pipeline_name :: string
  pipeline_topics :: "TopicDeduplication option list option"
  pipeline_join_enabled :: "bool option"
  pipeline_rest :: json

text \<open>\<open>dedup?.enabled && dedup?.key?.trim().length > 0\<close> on the pair of enabled and key.\<close>

definition has_dedup :: "(nat \<rightharpoonup> bool \<times> string) \<Rightarrow> nat \<Rightarrow> bool" where
  "has_dedup configs i = (case configs i of None \<Rightarrow> False | Some (b, key) \<Rightarrow> b \<and> trim key \<noteq> [])"

definition computeOperationType :: "nat \<Rightarrow> (nat \<rightharpoonup> bool \<times> string) \<Rightarrow> bool \<Rightarrow> string" where
  "computeOperationType topicCount configs hasJoin =
     (if topicCount = 1 \<and> \<not> hasJoin then if has_dedup configs 0 then ''deduplication'' else ''ingest-only''
      else if topicCount = 2 \<and> hasJoin
      then if has_dedup configs 0 \<and> has_dedup configs 1 then ''deduplication-joining'' else ''joining''
      else ''ingest-only'')"

definition isTopicDedup :: "TopicDeduplication option \<Rightarrow> bool" where
  "isTopicDedup d =
     (case d of
        None \<Rightarrow> False
      | Some t \<Rightarrow> td_enabled t = Some True \<and>
                  (case td_id_field t of None \<Rightarrow> False | Some f \<Rightarrow> trim f \<noteq> []))"

definition determineOperationType :: "Pipeline \<Rightarrow> string" where
  "determineOperationType pipeline =
     (let ts = (case pipeline_topics pipeline of None \<Rightarrow> [] | Some ts \<Rightarrow> ts);
          hasJoin = (pipeline_join_enabled pipeline = Some True)
      in if length ts = 1 \<and> \<not> hasJoin
         then if isTopicDedup (ts ! 0) then ''deduplication'' else ''ingest-only''
         else if 1 < length ts \<and> hasJoin
         then if isTopicDedup (ts ! 0) \<and> isTopicDedup (ts ! 1) then ''deduplication-joining'' else ''joining''
         else ''ingest-only'')"

section \<open>The core slice\<close>

datatype StoreMode = CreateMode | EditMode | ViewMode

record CoreStore =
  pipelineId :: string
  pipelineName :: string
  topicCount :: nat
  sourceType :: string
  operationsSelected :: string
  pipelineVersion :: "string option"
  outboundEventPreview :: "json list"
  analyticsConsent :: bool
  consentAnswered :: bool
  isDirty :: bool
  apiConfig :: json
  mode :: StoreMode
  baseConfig :: "Pipeline option"
  lastSavedConfig :: "Pipeline option"
  saveHistory :: "Pipeline list"
  selectedBindingVersions :: "(string \<times> string option) list"

definition initialCoreStore :: CoreStore where
  "initialCoreStore =
     \<lparr>pipelineId = '''', pipelineName = '''', topicCount = 0, sourceType = ''kafka'',
      operationsSelected = '''', pipelineVersion = None, outboundEventPreview = [],
      analyticsConsent = False, consentAnswered = False, isDirty = False, apiConfig = JObj [],
      mode = CreateMode, baseConfig = None, lastSavedConfig = None, saveHistory = [],
      selectedBindingVersions = []\<rparr>"

definition setPipelineId :: "string \<Rightarrow> CoreStore \<Rightarrow> CoreStore" where
  "setPipelineId v c = c\<lparr>pipelineId := v\<rparr>"

definition setPipelineName :: "string \<Rightarrow> CoreStore \<Rightarrow> CoreStore" where
  "setPipelineName v c = c\<lparr>pipelineName := v\<rparr>"

definition setSourceType :: "string \<Rightarrow> CoreStore \<Rightarrow> CoreStore" where
  "setSourceType v c = c\<lparr>sourceType := v\<rparr>"

definition setPipelineVersion :: "string option \<Rightarrow> CoreStore \<Rightarrow> CoreStore" where
  "setPipelineVersion v c = c\<lparr>pipelineVersion := v\<rparr>"

definition setOperationsSelected :: "string \<Rightarrow> CoreStore \<Rightarrow> CoreStore" where
  "setOperationsSelected v c = c\<lparr>operationsSelected := v\<rparr>"

definition setAnalyticsConsent :: "bool \<Rightarrow> CoreStore \<Rightarrow> CoreStore" where
  "setAnalyticsConsent v c = c\<lparr>analyticsConsent := v\<rparr>"

definition setConsentAnswered :: "bool \<Rightarrow> CoreStore \<Rightarrow> CoreStore" where
  "setConsentAnswered v c = c\<lparr>consentAnswered := v\<rparr>"

definition setOutboundEventPreview :: "json list \<Rightarrow> CoreStore \<Rightarrow> CoreStore" where
  "setOutboundEventPreview v c = c\<lparr>outboundEventPreview := v\<rparr>"

definition setApiConfig :: "json \<Rightarrow> CoreStore \<Rightarrow> CoreStore" where
  "setApiConfig v c = c\<lparr>apiConfig := v\<rparr>"

definition setMode :: "StoreMode \<Rightarrow> CoreStore \<Rightarrow> CoreStore" where
  "setMode v c = c\<lparr>mode := v\<rparr>"

definition setBaseConfig :: "Pipeline option \<Rightarrow> CoreStore \<Rightarrow> CoreStore" where
  "setBaseConfig v c = c\<lparr>baseConfig := v\<rparr>"

definition resetToInitial :: "CoreStore \<Rightarrow> CoreStore" where
  "resetToInitial c =
     (case baseConfig c of
        None \<Rightarrow> c
      | Some b \<Rightarrow> c\<lparr>pipelineId := pipeline_id b, pipelineName := pipeline_name b, topicCount := 0,
           operationsSelected := '''', outboundEventPreview := [], analyticsConsent := False,
           consentAnswered := False, isDirty := False, apiConfig := JObj []\<rparr>)"

definition discardChanges :: "CoreStore \<Rightarrow> CoreStore" where
  "discardChanges c = (case baseConfig c of None \<Rightarrow> c | Some _ \<Rightarrow> resetToInitial c)"

definition enterCreateMode :: "CoreStore \<Rightarrow> CoreStore" where
  "enterCreateMode c =
     initialCoreStore\<lparr>mode := CreateMode, baseConfig := None, lastSavedConfig := None, saveHistory := [],
       analyticsConsent := analyticsConsent c, consentAnswered := consentAnswered c\<rparr>"

definition isDirtyComparedToBase :: "CoreStore \<Rightarrow> bool" where
  "isDirtyComparedToBase c =
     (case baseConfig c of
        None \<Rightarrow> False
      | Some b \<Rightarrow> pipelineId c \<noteq> pipeline_id b \<or> pipelineName c \<noteq> pipeline_name b)"

definition setLastSavedConfig :: "Pipeline option \<Rightarrow> CoreStore \<Rightarrow> CoreStore" where
  "setLastSavedConfig v c = c\<lparr>lastSavedConfig := v\<rparr>"

definition addToSaveHistory :: "Pipeline \<Rightarrow> CoreStore \<Rightarrow> CoreStore" where
  "addToSaveHistory p c = c\<lparr>saveHistory := saveHistory c @ [p], lastSavedConfig := Some p\<rparr>"

definition getLastSavedConfig :: "CoreStore \<Rightarrow> Pipeline option" where
  "getLastSavedConfig c = lastSavedConfig c"

definition getSaveHistory :: "CoreStore \<Rightarrow> Pipeline list" where
  "getSaveHistory c = saveHistory c"

definition clearSaveHistory :: "CoreStore \<Rightarrow> CoreStore" where
  "clearSaveHistory c = c\<lparr>saveHistory := [], lastSavedConfig := None\<rparr>"

definition setSelectedBindingVersion :: "string \<Rightarrow> string option \<Rightarrow> CoreStore \<Rightarrow> CoreStore" where
  "setSelectedBindingVersion topicName version c =
     c\<lparr>selectedBindingVersions := AList.update topicName version (selectedBindingVersions c)\<rparr>"

definition resetBindingSelection :: "CoreStore \<Rightarrow> CoreStore" where
  "resetBindingSelection c = c\<lparr>selectedBindingVersions := []\<rparr>"

definition isViewingHistoricalBinding :: "CoreStore \<Rightarrow> bool" where
  "isViewingHistoricalBinding c \<longleftrightarrow> list_ex (\<lambda>(_, v). v \<noteq> None) (selectedBindingVersions c)"

section \<open>The composed store\<close>

record RootStore =
  kafkaStore :: KafkaStore
  topicsStore :: TopicsStore
  deduplicationStore :: DeduplicationStore
  joinStore :: JoinStore
  filterStore :: FilterStore
  transformationStore :: TransformationStore
  clickhouseConnectionStore :: ClickhouseConnectionStore
  clickhouseDestinationStore :: ClickhouseDestinationStore
  stepsStore :: StepsStore
  resourcesStore :: ResourcesStore
  otlpStore :: OtlpStore
  coreStore :: CoreStore
  isDirtyCookie :: "string option"

definition initialStore :: "string \<Rightarrow> RootStore" where
  "initialStore newId =
     \<lparr>kafkaStore = initialKafkaStore, topicsStore = initialTopicsStore,
      deduplicationStore = initialDeduplicationStore, joinStore = initialJoinStore,
      filterStore = initialFilterStore newId, transformationStore = initialTransformationStore,
      clickhouseConnectionStore = initialClickhouseConnectionStore,
      clickhouseDestinationStore = initialClickhouseDestinationStore, stepsStore = initialStepsStore,
      resourcesStore = initialResourcesStore, otlpStore = initialOtlpStore, coreStore = initialCoreStore,
      isDirtyCookie = None\<rparr>"

text \<open>Operations of the core slice that read other slices or write the cookie.\<close>

definition getComputedOperation :: "RootStore \<Rightarrow> string" where
  "getComputedOperation s =
     (let n = topicCount (coreStore s)
      in if n = 0 then ''''
         else computeOperationType n
                (\<lambda>i. map_option (\<lambda>c. (dc_enabled c, dc_key c)) (deduplicationConfigs (deduplicationStore s) i))
                (join_enabled (joinStore s)))"

definition updateOperation :: "RootStore \<Rightarrow> RootStore" where
  "updateOperation s = s\<lparr>coreStore := (coreStore s)\<lparr>operationsSelected := getComputedOperation s\<rparr>\<rparr>"

definition setTopicCount :: "nat \<Rightarrow> RootStore \<Rightarrow> RootStore" where
  "setTopicCount n s = updateOperation (s\<lparr>coreStore := (coreStore s)\<lparr>topicCount := n\<rparr>\<rparr>)"

definition markAsDirty :: "RootStore \<Rightarrow> RootStore" where
  "markAsDirty s = s\<lparr>coreStore := (coreStore s)\<lparr>isDirty := True\<rparr>, isDirtyCookie := Some ''true''\<rparr>"

definition markAsClean :: "RootStore \<Rightarrow> RootStore" where
  "markAsClean s = s\<lparr>coreStore := (coreStore s)\<lparr>isDirty := False\<rparr>, isDirtyCookie := Some ''false''\<rparr>"

definition resetPipelineState :: "nat \<Rightarrow> bool \<Rightarrow> RootStore \<Rightarrow> RootStore" where
  "resetPipelineState n force s =
     (let currentConfig = coreStore s
      in if force \<or> isDirty currentConfig \<and> n \<noteq> topicCount currentConfig
         then updateOperation (s\<lparr>coreStore := (coreStore s)\<lparr>topicCount := n, outboundEventPreview := [],
                isDirty := False\<rparr>\<rparr>)
         else updateOperation (s\<lparr>coreStore := (coreStore s)\<lparr>topicCount := n\<rparr>\<rparr>))"

text \<open>\<open>invalidateTopicDependentState\<close> of the topics slice, in the order of its calls.\<close>

definition invalidateTopicDependentState :: "time \<Rightarrow> nat \<Rightarrow> RootStore \<Rightarrow> RootStore" where
  "invalidateTopicDependentState now i s =
     (case topics (topicsStore s) i of
        None \<Rightarrow> s
      | Some topic \<Rightarrow>
          (let s1 = s\<lparr>joinStore := setEnabled False (joinStore s)\<rparr>;
               s2 = s1\<lparr>joinStore := setType '''' (joinStore s1)\<rparr>;
               s3 = s2\<lparr>joinStore := setStreams now [] (joinStore s2)\<rparr>;
               s4 = s3\<lparr>deduplicationStore := invalidateDeduplication now i (deduplicationStore s3)\<rparr>
           in s4\<lparr>topicsStore := (topicsStore s4)\<lparr>topics := (topics (topicsStore s4))(i \<mapsto> cleanedTopic i topic)\<rparr>\<rparr>))"

text \<open>The resets that the two full resets of the store have in common, in their order.\<close>

definition resetSlices :: "string \<Rightarrow> RootStore \<Rightarrow> RootStore" where
  "resetSlices newId s =
     s\<lparr>kafkaStore := resetKafkaStore (kafkaStore s), topicsStore := resetTopicsStore (topicsStore s),
       deduplicationStore := resetDeduplicationStore (deduplicationStore s),
       joinStore := resetJoinStore (joinStore s), filterStore := resetFilterStore newId (filterStore s),
       transformationStore := resetTransformationStore (transformationStore s),
       clickhouseConnectionStore := resetClickhouseStore (clickhouseConnectionStore s),
       clickhouseDestinationStore := resetDestinationStore (clickhouseDestinationStore s),
       stepsStore := resetStepsStore (stepsStore s), resourcesStore := resetResources (resourcesStore s),
       otlpStore := resetOtlpStore (otlpStore s), coreStore := enterCreateMode (coreStore s)\<rparr>"

definition set_topics_count :: "nat \<Rightarrow> RootStore \<Rightarrow> RootStore" where
  "set_topics_count n s = s\<lparr>topicsStore := (topicsStore s)\<lparr>topics_topicCount := n\<rparr>\<rparr>"

definition resetAllPipelineState :: "string \<Rightarrow> nat \<Rightarrow> bool \<Rightarrow> RootStore \<Rightarrow> RootStore" where
  "resetAllPipelineState newId n force s =
     (let currentConfig = coreStore s
      in if force \<or> isDirty currentConfig \<and> n \<noteq> topicCount currentConfig
         then set_topics_count n (setTopicCount n (resetSlices newId s))
         else set_topics_count n (setTopicCount n s))"

definition resetForNewPipeline :: "string \<Rightarrow> nat \<Rightarrow> RootStore \<Rightarrow> RootStore" where
  "resetForNewPipeline newId n s =
     (let s1 = resetAllPipelineState newId n True s; s2 = s1\<lparr>isDirtyCookie := None\<rparr>
      in s2\<lparr>coreStore := clearSaveHistory (coreStore s2)\<rparr>)"

definition resetFormValidationStates :: "RootStore \<Rightarrow> RootStore" where
  "resetFormValidationStates s =
     s\<lparr>kafkaStore := kafka_resetValidation (kafkaStore s), topicsStore := topics_resetValidation (topicsStore s),
       deduplicationStore := dedup_resetValidation (deduplicationStore s),
       joinStore := join_resetValidation (joinStore s), filterStore := filter_resetValidation (filterStore s),
       transformationStore := tr_resetValidation (transformationStore s),
       clickhouseConnectionStore := cc_resetValidation (clickhouseConnectionStore s),
       clickhouseDestinationStore := cd_resetValidation (clickhouseDestinationStore s)\<rparr>"

definition clearAllUserData :: "string \<Rightarrow> RootStore \<Rightarrow> RootStore" where
  "clearAllUserData newId s =
     (let s1 = resetSlices newId s; s2 = s1\<lparr>isDirtyCookie := None\<rparr>
      in s2\<lparr>coreStore := clearSaveHistory (coreStore s2)\<rparr>)"

lemmas reset_defs = resetSlices_def resetKafkaStore_def resetTopicsStore_def resetDeduplicationStore_def
  resetJoinStore_def resetFilterStore_def resetTransformationStore_def resetClickhouseStore_def
  resetDestinationStore_def resetStepsStore_def resetResources_def resetOtlpStore_def
  enterCreateMode_def clearSaveHistory_def setTopicCount_def updateOperation_def set_topics_count_def

lemmas initial_defs = initialStore_def initialTopicsStore_def initialDeduplicationStore_def
  initialFilterStore_def initialFilterConfig_def initialTransformationStore_def
  initialTransformationConfig_def initialResourcesStore_def initialCoreStore_def

section \<open>Properties\<close>

text \<open>What a full reset leaves: a fresh store but for the consent the user gave.\<close>

definition fresh_store :: "string \<Rightarrow> nat \<Rightarrow> RootStore \<Rightarrow> RootStore" where
  "fresh_store newId n s =
     (let s0 = initialStore newId
      in s0\<lparr>topicsStore := (topicsStore s0)\<lparr>topics_topicCount := n\<rparr>,
            coreStore := (coreStore s0)\<lparr>topicCount := n,
              operationsSelected := (if n = 0 then '''' else ''ingest-only''),
              analyticsConsent := analyticsConsent (coreStore s),
              consentAnswered := consentAnswered (coreStore s)\<rparr>\<rparr>)"

lemma resetSlices_eq:
  "resetSlices newId s =
     (initialStore newId)\<lparr>isDirtyCookie := isDirtyCookie s,
       coreStore := initialCoreStore\<lparr>analyticsConsent := analyticsConsent (coreStore s),
         consentAnswered := consentAnswered (coreStore s)\<rparr>\<rparr>"
  by (simp add: reset_defs initial_defs)

text \<open>
  C8. Starting a new pipeline leaves no trace of the previous one: whatever the store held,
  the result is the initial store with the new topic count, its computed operation and the
  user's consent; clearing all user data likewise gives the initial store with the consent.
\<close>

theorem full_reset_leaves_no_residue:
  "resetForNewPipeline newId n s = fresh_store newId n s \<and> clearAllUserData newId s = fresh_store newId 0 s"
  by (simp add: resetForNewPipeline_def clearAllUserData_def resetAllPipelineState_def Let_def
      resetSlices_eq fresh_store_def set_topics_count_def setTopicCount_def updateOperation_def
      getComputedOperation_def computeOperationType_def has_dedup_def clearSaveHistory_def initial_defs
      initialJoinStore_def)

text \<open>
  Changing the topic count: without \<open>force\<close> a clean store, or one whose count does not
  change, keeps every slice but the count and the operation; a dirty store whose count changes
  is reset entirely. In every case the two copies of the count agree and the selected operation
  is the computed one.
\<close>

theorem resetAllPipelineState_spec:
  "let t = resetAllPipelineState newId n force s
   in topicCount (coreStore t) = n \<and> topics_topicCount (topicsStore t) = n \<and>
      operationsSelected (coreStore t) = getComputedOperation t \<and>
      (if force \<or> isDirty (coreStore s) \<and> n \<noteq> topicCount (coreStore s)
       then t = (fresh_store newId n s)\<lparr>isDirtyCookie := isDirtyCookie s\<rparr>
       else kafkaStore t = kafkaStore s \<and> topics (topicsStore t) = topics (topicsStore s) \<and>
            deduplicationStore t = deduplicationStore s \<and> joinStore t = joinStore s \<and>
            filterStore t = filterStore s \<and> transformationStore t = transformationStore s \<and>
            clickhouseConnectionStore t = clickhouseConnectionStore s \<and>
            clickhouseDestinationStore t = clickhouseDestinationStore s \<and>
            stepsStore t = stepsStore s \<and> otlpStore t = otlpStore s \<and>
            isDirty (coreStore t) = isDirty (coreStore s))"
  by (simp add: resetAllPipelineState_def Let_def resetSlices_eq fresh_store_def set_topics_count_def
      setTopicCount_def updateOperation_def getComputedOperation_def computeOperationType_def has_dedup_def
      initial_defs initialJoinStore_def)

text \<open>
  Changing a topic clears what depended on it: the topic keeps its name, index and offset
  only, its deduplication is emptied and marked as invalidated, the join is switched off and
  emptied; other topics, their deduplication and all other slices are kept, and an unknown index
  changes nothing. The join slice, though emptied, is marked valid.
\<close>

theorem invalidateTopic_spec:
  "let t = invalidateTopicDependentState now i s
   in (if topics (topicsStore s) i = None then t = s
       else (\<exists>topic t0. topics (topicsStore s) i = Some t0 \<and> topics (topicsStore t) i = Some topic \<and>
               topic_name topic = topic_name t0 \<and> initialOffset topic = initialOffset t0 \<and>
               events topic = [] \<and> topic_schema topic = None) \<and>
            getDeduplication i (deduplicationStore t) = Some clearedDeduplication \<and>
            vs_status (dedup_validation (deduplicationStore t)) = Invalidated \<and>
            join_enabled (joinStore t) = False \<and> \<not> getIsJoinDirty (joinStore t) \<and>
            vs_status (join_validation (joinStore t)) = Valid) \<and>
      (\<forall>j. j \<noteq> i \<longrightarrow> getTopic j (topicsStore t) = getTopic j (topicsStore s) \<and>
         getDeduplication j (deduplicationStore t) = getDeduplication j (deduplicationStore s)) \<and>
      topics_validation (topicsStore t) = topics_validation (topicsStore s) \<and>
      t\<lparr>topicsStore := topicsStore s, deduplicationStore := deduplicationStore s, joinStore := joinStore s\<rparr> = s"
  by (cases "topics (topicsStore s) i")
    (simp_all add: invalidateTopicDependentState_def Let_def topics_defs dedup_defs join_defs validation_defs)

definition sample_topic :: KafkaTopic where
  "sample_topic =
     \<lparr>topic_name = ''orders'', topic_index = 1, events = [],
      selectedEvent = \<lparr>event = JNull, topicIndex = 1, position = PosString ''latest'', kafkaOffset = None,
        isAtEarliest = None, isAtLatest = None, isManualEvent = None\<rparr>,
      initialOffset = Latest, replicas = Some (Fin 1 0), partitionCount = None, topic_schema = Some [],
      schemaSource = None, schemaRegistrySubject = None, schemaRegistryVersion = None\<rparr>"

definition sample_topics :: RootStore where
  "sample_topics = (initialStore ''r'')\<lparr>topicsStore := initialTopicsStore\<lparr>topics := [1 \<mapsto> sample_topic]\<rparr>\<rparr>"

theorem invalidateTopic_spec_witness:
  "vs_status (join_validation (joinStore (invalidateTopicDependentState 5 1 sample_topics))) = Valid \<and>
   getTopic 0 (topicsStore (invalidateTopicDependentState 5 1 sample_topics)) = None"
  using invalidateTopic_spec [of 5 1 sample_topics]
  by (simp add: Let_def sample_topics_def getTopic_def)

text \<open>The deduplication configurations that belong to the topics of a pipeline.\<close>

definition pipeline_configs :: "TopicDeduplication option list \<Rightarrow> nat \<rightharpoonup> bool \<times> string" where
  "pipeline_configs ts i =
     (if i < length ts
      then map_option (\<lambda>d. (td_enabled d = Some True, case td_id_field d of None \<Rightarrow> '''' | Some f \<Rightarrow> f)) (ts ! i)
      else None)"

lemma has_dedup_pipeline: "i < length ts \<Longrightarrow> has_dedup (pipeline_configs ts) i = isTopicDedup (ts ! i)"
  by (auto simp: has_dedup_def pipeline_configs_def isTopicDedup_def trim_def split: option.splits)

text \<open>
  The operation type of a loaded pipeline is the one the store computes from its topics,
  deduplication and join, for every pipeline of at most two topics; with three topics and a join
  the two disagree.
\<close>

theorem operation_types_agree:
  assumes "pipeline_topics p = Some ts" and "length ts \<le> 2"
  shows "determineOperationType p =
    computeOperationType (length ts) (pipeline_configs ts) (pipeline_join_enabled p = Some True)"
proof -
  consider "length ts = 0" | "length ts = 1" | "length ts = 2" using assms(2) by linarith
  then show ?thesis
    using assms(1) has_dedup_pipeline [of 0 ts] has_dedup_pipeline [of 1 ts]
    by cases (simp_all add: determineOperationType_def computeOperationType_def Let_def)
qed

definition sample_pipeline :: "nat \<Rightarrow> Pipeline" where
  "sample_pipeline n =
     \<lparr>pipeline_id = ''p'', pipeline_name = ''p'',
      pipeline_topics = Some (replicate n (Some \<lparr>td_enabled = Some True, td_id_field = Some ''id''\<rparr>)),
      pipeline_join_enabled = Some True, pipeline_rest = JNull\<rparr>"

theorem operation_types_agree_witness:
  "determineOperationType (sample_pipeline 2) =
     computeOperationType 2 (pipeline_configs (replicate 2 (Some \<lparr>td_enabled = Some True, td_id_field = Some ''id''\<rparr>))) True \<and>
   determineOperationType (sample_pipeline 3) \<noteq>
     computeOperationType 3 (pipeline_configs (replicate 3 (Some \<lparr>td_enabled = Some True, td_id_field = Some ''id''\<rparr>))) True"
  using operation_types_agree [of "sample_pipeline 2" "replicate 2 (Some \<lparr>td_enabled = Some True, td_id_field = Some ''id''\<rparr>)"]
  by (simp add: sample_pipeline_def determineOperationType_def computeOperationType_def Let_def)

end
