(* ===== verification/Validation_Engine.thy ===== *)
theory Validation_Engine
  imports Root_Store
begin

text \<open>
  The validation engine (ui/src/store/state-machine): the dependency graph, the maps between
  sections, graph nodes and slices, and the operations that mark sections valid, invalidated
  or not configured across the slices of the composed store.
\<close>

section \<open>Sections and the graph\<close>

datatype StepKeys =
    KAFKA_CONNECTION | TOPIC_SELECTION_1 | TOPIC_SELECTION_2 | KAFKA_TYPE_VERIFICATION
  | DEDUPLICATION_CONFIGURATOR | TOPIC_DEDUPLICATION_CONFIGURATOR_1 | TOPIC_DEDUPLICATION_CONFIGURATOR_2
  | FILTER_CONFIGURATOR | TRANSFORMATION_CONFIGURATOR | JOIN_CONFIGURATOR | CLICKHOUSE_CONNECTION
  | CLICKHOUSE_MAPPER | PIPELINE_RESOURCES | REVIEW_CONFIGURATION | DEPLOY_PIPELINE
  | OTLP_SIGNAL_TYPE | OTLP_DEDUPLICATION

definition all_steps :: "StepKeys list" where
  "all_steps = [KAFKA_CONNECTION, TOPIC_SELECTION_1, TOPIC_SELECTION_2, KAFKA_TYPE_VERIFICATION,
     DEDUPLICATION_CONFIGURATOR, TOPIC_DEDUPLICATION_CONFIGURATOR_1, TOPIC_DEDUPLICATION_CONFIGURATOR_2,
     FILTER_CONFIGURATOR, TRANSFORMATION_CONFIGURATOR, JOIN_CONFIGURATOR, CLICKHOUSE_CONNECTION,
     CLICKHOUSE_MAPPER, PIPELINE_RESOURCES, REVIEW_CONFIGURATION, DEPLOY_PIPELINE, OTLP_SIGNAL_TYPE,
     OTLP_DEDUPLICATION]"

fun step_text :: "StepKeys \<Rightarrow> string" where
  "step_text KAFKA_CONNECTION = ''kafka-connection''"
| "step_text TOPIC_SELECTION_1 = ''topic-selection-1''"
| "step_text TOPIC_SELECTION_2 = ''topic-selection-2''"
| "step_text KAFKA_TYPE_VERIFICATION = ''kafka-type-verification''"
| "step_text DEDUPLICATION_CONFIGURATOR = ''deduplication-configurator''"
| "step_text TOPIC_DEDUPLICATION_CONFIGURATOR_1 = ''topic-deduplication-configurator-1''"
| "step_text TOPIC_DEDUPLICATION_CONFIGURATOR_2 = ''topic-deduplication-configurator-2''"
| "step_text FILTER_CONFIGURATOR = ''filter-configurator''"
| "step_text TRANSFORMATION_CONFIGURATOR = ''transformation-configurator''"
| "step_text JOIN_CONFIGURATOR = ''join-configurator''"
| "step_text CLICKHOUSE_CONNECTION = ''clickhouse-connection''"
| "step_text CLICKHOUSE_MAPPER = ''clickhouse-mapper''"
| "step_text PIPELINE_RESOURCES = ''pipeline-resources''"
| "step_text REVIEW_CONFIGURATION = ''review-configuration''"
| "step_text DEPLOY_PIPELINE = ''deploy-pipeline''"
| "step_text OTLP_SIGNAL_TYPE = ''otlp-signal-type''"
| "step_text OTLP_DEDUPLICATION = ''otlp-deduplication''"

datatype NodeType = OperationNode | StepNode | SliceNode

record DependencyNode =
  node_id :: string
  node_type :: NodeType
  dependencies :: "string list"
  dependents :: "string list"
  resetMethod :: string

record DependencyGraph =
  nodes :: "(string \<times> DependencyNode) list"
  edges :: "(string \<times> string) list"

definition node :: "string \<Rightarrow> NodeType \<Rightarrow> string list \<Rightarrow> string list \<Rightarrow> string \<Rightarrow> string \<times> DependencyNode" where
  "node i ty deps dpts m =
     (i, \<lparr>node_id = i, node_type = ty, dependencies = deps, dependents = dpts, resetMethod = m\<rparr>)"

definition DEPENDENCY_GRAPH :: DependencyGraph where
  "DEPENDENCY_GRAPH =
     \<lparr>nodes =
       [node ''deduplication'' OperationNode [''kafka-connection'']
          [''topic-selection'', ''deduplication-configurator'', ''clickhouse-connection'', ''clickhouse-mapper'']
          ''resetOperationState'',
        node ''joining'' OperationNode [''kafka-connection'']
          [''topic-selection'', ''join-configurator'', ''clickhouse-connection'', ''clickhouse-mapper'']
          ''resetOperationState'',
        node ''deduplication-joining'' OperationNode [''kafka-connection'']
          [''topic-selection'', ''deduplication-configurator'', ''join-configurator'', ''clickhouse-connection'',
           ''clickhouse-mapper'']
          ''resetOperationState'',
        node ''ingest-only'' OperationNode [''kafka-connection''] [''clickhouse-connection'', ''clickhouse-mapper'']
          ''resetOperationState'',
        node ''kafka-connection'' StepNode []
          [''topic-selection'', ''deduplication-configurator'', ''join-configurator'', ''clickhouse-mapper'']
          ''resetKafkaConnection'',
        node ''topic-selection'' StepNode [''kafka-connection''] [''join-configurator'', ''clickhouse-mapper'']
          ''resetTopicSelection'',
        node ''deduplication-configurator'' StepNode [] [] ''resetDeduplicationConfig'',
        node ''join-configurator'' StepNode [] [''clickhouse-mapper''] ''resetJoinConfig'',
        node ''clickhouse-connection'' StepNode
          [''kafka-connection'', ''topic-selection'', ''deduplication-configurator'', ''join-configurator'']
          [''clickhouse-mapper''] ''resetClickhouseConnection'',
        node ''clickhouse-mapper'' StepNode [''clickhouse-connection''] [] ''resetClickhouseMapper'',
        node ''kafkaStore'' SliceNode [] [''topicsStore'', ''clickhouseStore''] ''resetKafkaStore'',
        node ''topicsStore'' SliceNode [''kafkaStore''] [''joinStore'', ''clickhouseStore''] ''resetTopicsStore'',
        node ''joinStore'' SliceNode [''topicsStore''] [''clickhouseStore''] ''resetJoinStore'',
        node ''clickhouseStore'' SliceNode [''kafkaStore''] [] ''resetClickhouseStore'',
        node ''stepsStore'' SliceNode [] [] ''resetStepsStore''],
      edges =
       [(''kafkaStore'', ''topicsStore''), (''kafkaStore'', ''clickhouseStore''), (''kafkaStore'', ''joinStore''),
        (''topicsStore'', ''joinStore''), (''topicsStore'', ''clickhouseStore''), (''joinStore'', ''clickhouseStore''),
        (''stepsStore'', ''kafkaStore''), (''stepsStore'', ''topicsStore''), (''stepsStore'', ''joinStore''),
        (''stepsStore'', ''clickhouseStore'')]\<rparr>"

section \<open>Maps between sections, nodes and slices\<close>

datatype SliceId = KafkaId | TopicsId | DedupId | FilterId | TransformationId | JoinId
  | ConnectionId | DestinationId | CoreId

fun getStoreSliceForSection :: "StepKeys \<Rightarrow> SliceId list option" where
  "getStoreSliceForSection KAFKA_CONNECTION = Some [KafkaId]"
| "getStoreSliceForSection TOPIC_SELECTION_1 = Some [TopicsId]"
| "getStoreSliceForSection TOPIC_SELECTION_2 = Some [TopicsId]"
| "getStoreSliceForSection KAFKA_TYPE_VERIFICATION = Some [TopicsId]"
| "getStoreSliceForSection DEDUPLICATION_CONFIGURATOR = Some [DedupId]"
| "getStoreSliceForSection TOPIC_DEDUPLICATION_CONFIGURATOR_1 = Some [DedupId, TopicsId]"
| "getStoreSliceForSection TOPIC_DEDUPLICATION_CONFIGURATOR_2 = Some [DedupId, TopicsId]"
| "getStoreSliceForSection FILTER_CONFIGURATOR = Some [FilterId]"
| "getStoreSliceForSection TRANSFORMATION_CONFIGURATOR = Some [TransformationId]"
| "getStoreSliceForSection JOIN_CONFIGURATOR = Some [JoinId]"
| "getStoreSliceForSection CLICKHOUSE_CONNECTION = Some [ConnectionId]"
| "getStoreSliceForSection CLICKHOUSE_MAPPER = Some [DestinationId]"
| "getStoreSliceForSection REVIEW_CONFIGURATION = Some [CoreId]"
| "getStoreSliceForSection DEPLOY_PIPELINE = Some [CoreId]"
| "getStoreSliceForSection _ = None"

fun getSectionNodeMapping :: "StepKeys \<Rightarrow> string" where
  "getSectionNodeMapping KAFKA_CONNECTION = ''kafka-connection''"
| "getSectionNodeMapping TOPIC_SELECTION_1 = ''topic-selection''"
| "getSectionNodeMapping TOPIC_SELECTION_2 = ''topic-selection''"
| "getSectionNodeMapping KAFKA_TYPE_VERIFICATION = ''kafka-type-verification''"
| "getSectionNodeMapping DEDUPLICATION_CONFIGURATOR = ''deduplication-configurator''"
| "getSectionNodeMapping TOPIC_DEDUPLICATION_CONFIGURATOR_1 = ''deduplication-configurator''"
| "getSectionNodeMapping TOPIC_DEDUPLICATION_CONFIGURATOR_2 = ''deduplication-configurator''"
| "getSectionNodeMapping FILTER_CONFIGURATOR = ''filter-configurator''"
| "getSectionNodeMapping TRANSFORMATION_CONFIGURATOR = ''transformation-configurator''"
| "getSectionNodeMapping JOIN_CONFIGURATOR = ''join-configurator''"
| "getSectionNodeMapping CLICKHOUSE_CONNECTION = ''clickhouse-connection''"
| "getSectionNodeMapping CLICKHOUSE_MAPPER = ''clickhouse-mapper''"
| "getSectionNodeMapping PIPELINE_RESOURCES = ''pipeline-resources''"
| "getSectionNodeMapping REVIEW_CONFIGURATION = ''review-configuration''"
| "getSectionNodeMapping DEPLOY_PIPELINE = ''deploy-pipeline''"
| "getSectionNodeMapping OTLP_SIGNAL_TYPE = ''otlp-signal-type''"
| "getSectionNodeMapping OTLP_DEDUPLICATION = ''otlp-deduplication''"

definition node_sections :: "(string \<times> StepKeys) list" where
  "node_sections =
     [(''kafka-connection'', KAFKA_CONNECTION), (''topic-selection'', TOPIC_SELECTION_1),
      (''kafka-type-verification'', KAFKA_TYPE_VERIFICATION),
      (''deduplication-configurator'', DEDUPLICATION_CONFIGURATOR),
      (''filter-configurator'', FILTER_CONFIGURATOR), (''transformation-configurator'', TRANSFORMATION_CONFIGURATOR),
      (''join-configurator'', JOIN_CONFIGURATOR), (''clickhouse-connection'', CLICKHOUSE_CONNECTION),
      (''clickhouse-mapper'', CLICKHOUSE_MAPPER), (''pipeline-resources'', PIPELINE_RESOURCES)]"

definition getNodeSectionMapping :: "string \<Rightarrow> StepKeys option" where
  "getNodeSectionMapping = map_of node_sections"

definition findDependentSections :: "DependencyGraph \<Rightarrow> StepKeys \<Rightarrow> StepKeys list" where
  "findDependentSections g sec =
     (let nodeId = getSectionNodeMapping sec
      in if nodeId = '''' then []
         else case map_of (nodes g) nodeId of
             None \<Rightarrow> []
           | Some nd \<Rightarrow> List.map_filter getNodeSectionMapping (dependents nd))"

section \<open>The engine\<close>

text \<open>
  The validation methods of a slice of the composed store; the core slice has none, so the
  guards \<open>slice?.markAsValid\<close> of the code skip it.
\<close>

fun slice_markAsValid :: "time \<Rightarrow> SliceId \<Rightarrow> RootStore \<Rightarrow> RootStore" where
  "slice_markAsValid now KafkaId s = s\<lparr>kafkaStore := kafka_markAsValid now (kafkaStore s)\<rparr>"
| "slice_markAsValid now TopicsId s = s\<lparr>topicsStore := topics_markAsValid now (topicsStore s)\<rparr>"
| "slice_markAsValid now DedupId s = s\<lparr>deduplicationStore := dedup_markAsValid now (deduplicationStore s)\<rparr>"
| "slice_markAsValid now FilterId s = s\<lparr>filterStore := filter_markAsValid now (filterStore s)\<rparr>"
| "slice_markAsValid now TransformationId s = s\<lparr>transformationStore := tr_markAsValid now (transformationStore s)\<rparr>"
| "slice_markAsValid now JoinId s = s\<lparr>joinStore := join_markAsValid now (joinStore s)\<rparr>"
| "slice_markAsValid now ConnectionId s =
     s\<lparr>clickhouseConnectionStore := cc_markAsValid now (clickhouseConnectionStore s)\<rparr>"
| "slice_markAsValid now DestinationId s =
     s\<lparr>clickhouseDestinationStore := cd_markAsValid now (clickhouseDestinationStore s)\<rparr>"
| "slice_markAsValid now CoreId s = s"

fun slice_markAsInvalidated :: "time \<Rightarrow> string \<Rightarrow> SliceId \<Rightarrow> RootStore \<Rightarrow> RootStore" where
  "slice_markAsInvalidated now sec KafkaId s = s\<lparr>kafkaStore := kafka_markAsInvalidated now sec (kafkaStore s)\<rparr>"
| "slice_markAsInvalidated now sec TopicsId s = s\<lparr>topicsStore := topics_markAsInvalidated now sec (topicsStore s)\<rparr>"
| "slice_markAsInvalidated now sec DedupId s =
     s\<lparr>deduplicationStore := dedup_markAsInvalidated now sec (deduplicationStore s)\<rparr>"
| "slice_markAsInvalidated now sec FilterId s = s\<lparr>filterStore := filter_markAsInvalidated now sec (filterStore s)\<rparr>"
| "slice_markAsInvalidated now sec TransformationId s =
     s\<lparr>transformationStore := tr_markAsInvalidated now sec (transformationStore s)\<rparr>"
| "slice_markAsInvalidated now sec JoinId s = s\<lparr>joinStore := join_markAsInvalidated now sec (joinStore s)\<rparr>"
| "slice_markAsInvalidated now sec ConnectionId s =
     s\<lparr>clickhouseConnectionStore := cc_markAsInvalidated now sec (clickhouseConnectionStore s)\<rparr>"
| "slice_markAsInvalidated now sec DestinationId s =
     s\<lparr>clickhouseDestinationStore := cd_markAsInvalidated now sec (clickhouseDestinationStore s)\<rparr>"
| "slice_markAsInvalidated now sec CoreId s = s"

fun slice_markAsNotConfigured :: "SliceId \<Rightarrow> RootStore \<Rightarrow> RootStore" where
  "slice_markAsNotConfigured KafkaId s = s\<lparr>kafkaStore := kafka_markAsNotConfigured (kafkaStore s)\<rparr>"
| "slice_markAsNotConfigured TopicsId s = s\<lparr>topicsStore := topics_markAsNotConfigured (topicsStore s)\<rparr>"
| "slice_markAsNotConfigured DedupId s =
     s\<lparr>deduplicationStore := dedup_markAsNotConfigured (deduplicationStore s)\<rparr>"
| "slice_markAsNotConfigured FilterId s = s\<lparr>filterStore := filter_markAsNotConfigured (filterStore s)\<rparr>"
| "slice_markAsNotConfigured TransformationId s =
     s\<lparr>transformationStore := tr_markAsNotConfigured (transformationStore s)\<rparr>"
| "slice_markAsNotConfigured JoinId s = s\<lparr>joinStore := join_markAsNotConfigured (joinStore s)\<rparr>"
| "slice_markAsNotConfigured ConnectionId s =
     s\<lparr>clickhouseConnectionStore := cc_markAsNotConfigured (clickhouseConnectionStore s)\<rparr>"
| "slice_markAsNotConfigured DestinationId s =
     s\<lparr>clickhouseDestinationStore := cd_markAsNotConfigured (clickhouseDestinationStore s)\<rparr>"
| "slice_markAsNotConfigured CoreId s = s"

fun slice_resetValidation :: "SliceId \<Rightarrow> RootStore \<Rightarrow> RootStore" where
  "slice_resetValidation KafkaId s = s\<lparr>kafkaStore := kafka_resetValidation (kafkaStore s)\<rparr>"
| "slice_resetValidation TopicsId s = s\<lparr>topicsStore := topics_resetValidation (topicsStore s)\<rparr>"
| "slice_resetValidation DedupId s = s\<lparr>deduplicationStore := dedup_resetValidation (deduplicationStore s)\<rparr>"
| "slice_resetValidation FilterId s = s\<lparr>filterStore := filter_resetValidation (filterStore s)\<rparr>"
| "slice_resetValidation TransformationId s = s\<lparr>transformationStore := tr_resetValidation (transformationStore s)\<rparr>"
| "slice_resetValidation JoinId s = s\<lparr>joinStore := join_resetValidation (joinStore s)\<rparr>"
| "slice_resetValidation ConnectionId s =
     s\<lparr>clickhouseConnectionStore := cc_resetValidation (clickhouseConnectionStore s)\<rparr>"
| "slice_resetValidation DestinationId s =
     s\<lparr>clickhouseDestinationStore := cd_resetValidation (clickhouseDestinationStore s)\<rparr>"
| "slice_resetValidation CoreId s = s"

fun slice_validation :: "SliceId \<Rightarrow> RootStore \<Rightarrow> ValidationState option" where
  "slice_validation KafkaId s = Some (kafka_validation (kafkaStore s))"
| "slice_validation TopicsId s = Some (topics_validation (topicsStore s))"
| "slice_validation DedupId s = Some (dedup_validation (deduplicationStore s))"
| "slice_validation FilterId s = Some (validation (filterStore s))"
| "slice_validation TransformationId s = Some (tr_validation (transformationStore s))"
| "slice_validation JoinId s = Some (join_validation (joinStore s))"
| "slice_validation ConnectionId s = Some (cc_validation (clickhouseConnectionStore s))"
| "slice_validation DestinationId s = Some (cd_validation (clickhouseDestinationStore s))"
| "slice_validation CoreId s = None"

text \<open>\<open>slices.forEach(...)\<close> for the slices of a section, when it has any.\<close>

definition for_section :: "(SliceId \<Rightarrow> RootStore \<Rightarrow> RootStore) \<Rightarrow> StepKeys \<Rightarrow> RootStore \<Rightarrow> RootStore" where
  "for_section f sec s = (case getStoreSliceForSection sec of None \<Rightarrow> s | Some ids \<Rightarrow> fold f ids s)"

definition onSectionConfigured :: "DependencyGraph \<Rightarrow> time \<Rightarrow> StepKeys \<Rightarrow> RootStore \<Rightarrow> RootStore" where
  "onSectionConfigured g now sec s =
     (let s1 = for_section (slice_markAsValid now) sec s
      in fold (for_section (slice_markAsInvalidated now (step_text sec))) (findDependentSections g sec) s1)"

definition onSectionReset :: "DependencyGraph \<Rightarrow> StepKeys \<Rightarrow> RootStore \<Rightarrow> RootStore" where
  "onSectionReset g sec s =
     (let s1 = for_section slice_markAsNotConfigured sec s
      in fold (for_section slice_markAsNotConfigured) (findDependentSections g sec) s1)"

definition invalidateSection :: "time \<Rightarrow> StepKeys \<Rightarrow> string \<Rightarrow> RootStore \<Rightarrow> RootStore" where
  "invalidateSection now sec by_sec = for_section (slice_markAsInvalidated now by_sec) sec"

definition markSectionAsValid :: "time \<Rightarrow> StepKeys \<Rightarrow> RootStore \<Rightarrow> RootStore" where
  "markSectionAsValid now sec = for_section (slice_markAsValid now) sec"

definition getSectionValidation :: "StepKeys \<Rightarrow> RootStore \<Rightarrow> ValidationState list option" where
  "getSectionValidation sec s =
     map_option (map (\<lambda>i. case slice_validation i s of Some v \<Rightarrow> v | None \<Rightarrow> createInitialValidation))
       (getStoreSliceForSection sec)"

definition resetAllValidations :: "RootStore \<Rightarrow> RootStore" where
  "resetAllValidations s = fold (for_section slice_resetValidation) all_steps s"

section \<open>Lemmas\<close>

text \<open>Everything of the store but the validation states the engine manages.\<close>

definition store_data :: "RootStore \<Rightarrow> RootStore" where
  "store_data s = resetFormValidationStates s"

definition slices_of :: "StepKeys \<Rightarrow> SliceId list" where
  "slices_of sec = (case getStoreSliceForSection sec of None \<Rightarrow> [] | Some ids \<Rightarrow> ids)"

lemmas slice_method_defs = kafka_validation_defs topics_markAsValid_def topics_markAsInvalidated_def
  topics_markAsNotConfigured_def topics_resetValidation_def dedup_markAsValid_def
  dedup_markAsInvalidated_def dedup_markAsNotConfigured_def dedup_resetValidation_def
  filter_markAsValid_def filter_markAsInvalidated_def filter_markAsNotConfigured_def
  filter_resetValidation_def tr_validation_defs join_markAsValid_def join_markAsInvalidated_def
  join_markAsNotConfigured_def join_resetValidation_def cc_markAsValid_def cc_markAsInvalidated_def
  cc_markAsNotConfigured_def cc_resetValidation_def cd_markAsValid_def cd_markAsInvalidated_def
  cd_markAsNotConfigured_def cd_resetValidation_def

text \<open>
  What the engine needs of the slices it drives: a method sets the validation of its own slice
  (the core slice has none) and touches no other slice and no data.
\<close>

locale slice_marker =
  fixes mark :: "SliceId \<Rightarrow> RootStore \<Rightarrow> RootStore"
    and v :: ValidationState
  assumes mark_validation: "slice_validation i (mark j s) =
      (if i = j \<and> i \<noteq> CoreId then Some v else slice_validation i s)"
    and mark_data: "store_data (mark j s) = store_data s"
begin

lemma fold_mark:
  "slice_validation i (fold mark ids s) =
     (if i \<in> set ids \<and> i \<noteq> CoreId then Some v else slice_validation i s)"
  by (induction ids arbitrary: s) (auto simp: mark_validation)

lemma fold_data: "store_data (fold mark ids s) = store_data s"
  by (induction ids arbitrary: s) (simp_all add: mark_data)

lemma section_validation:
  "slice_validation i (for_section mark sec s) =
     (if i \<in> set (slices_of sec) \<and> i \<noteq> CoreId then Some v else slice_validation i s)"
  by (simp add: for_section_def slices_of_def fold_mark split: option.split)

lemma section_data: "store_data (for_section mark sec s) = store_data s"
  by (simp add: for_section_def fold_data split: option.split)

lemma sections_validation:
  "slice_validation i (fold (for_section mark) secs s) =
     (if i \<in> set (concat (map slices_of secs)) \<and> i \<noteq> CoreId then Some v else slice_validation i s)"
  by (induction secs arbitrary: s) (auto simp: section_validation)

lemma sections_data: "store_data (fold (for_section mark) secs s) = store_data s"
  by (induction secs arbitrary: s) (simp_all add: section_data)

end

interpretation valid_marker: slice_marker "slice_markAsValid now" "createValidValidation now" for now
proof unfold_locales
  fix i j s
  show "slice_validation i (slice_markAsValid now j s) =
      (if i = j \<and> i \<noteq> CoreId then Some (createValidValidation now) else slice_validation i s)"
    by (cases j; cases i) (simp_all add: slice_method_defs)
  show "store_data (slice_markAsValid now j s) = store_data s"
    by (cases j) (simp_all add: slice_method_defs store_data_def resetFormValidationStates_def)
qed

interpretation invalid_marker: slice_marker "slice_markAsInvalidated now sec"
  "createInvalidatedValidation now sec" for now sec
proof unfold_locales
  fix i j s
  show "slice_validation i (slice_markAsInvalidated now sec j s) =
      (if i = j \<and> i \<noteq> CoreId then Some (createInvalidatedValidation now sec) else slice_validation i s)"
    by (cases j; cases i) (simp_all add: slice_method_defs)
  show "store_data (slice_markAsInvalidated now sec j s) = store_data s"
    by (cases j) (simp_all add: slice_method_defs store_data_def resetFormValidationStates_def)
qed

interpretation unconfigured_marker: slice_marker slice_markAsNotConfigured createInitialValidation
proof unfold_locales
  fix i j s
  show "slice_validation i (slice_markAsNotConfigured j s) =
      (if i = j \<and> i \<noteq> CoreId then Some createInitialValidation else slice_validation i s)"
    by (cases j; cases i) (simp_all add: slice_method_defs)
  show "store_data (slice_markAsNotConfigured j s) = store_data s"
    by (cases j) (simp_all add: slice_method_defs store_data_def resetFormValidationStates_def)
qed

interpretation reset_marker: slice_marker slice_resetValidation createInitialValidation
proof unfold_locales
  fix i j s
  show "slice_validation i (slice_resetValidation j s) =
      (if i = j \<and> i \<noteq> CoreId then Some createInitialValidation else slice_validation i s)"
    by (cases j; cases i) (simp_all add: slice_method_defs)
  show "store_data (slice_resetValidation j s) = store_data s"
    by (cases j) (simp_all add: slice_method_defs store_data_def resetFormValidationStates_def)
qed

text \<open>The sections the graph invalidates for a section.\<close>

lemma dependent_sections:
  "findDependentSections DEPENDENCY_GRAPH sec =
     (case sec of
        KAFKA_CONNECTION \<Rightarrow> [TOPIC_SELECTION_1, DEDUPLICATION_CONFIGURATOR, JOIN_CONFIGURATOR, CLICKHOUSE_MAPPER]
      | TOPIC_SELECTION_1 \<Rightarrow> [JOIN_CONFIGURATOR, CLICKHOUSE_MAPPER]
      | TOPIC_SELECTION_2 \<Rightarrow> [JOIN_CONFIGURATOR, CLICKHOUSE_MAPPER]
      | JOIN_CONFIGURATOR \<Rightarrow> [CLICKHOUSE_MAPPER]
      | CLICKHOUSE_CONNECTION \<Rightarrow> [CLICKHOUSE_MAPPER]
      | _ \<Rightarrow> [])"
  by (cases sec)
    (simp_all add: findDependentSections_def DEPENDENCY_GRAPH_def node_def getNodeSectionMapping_def
      node_sections_def List.map_filter_def)

lemma store_data_configured: "store_data (onSectionConfigured g now sec s) = store_data s"
  by (simp add: onSectionConfigured_def Let_def invalid_marker.sections_data valid_marker.section_data)

section \<open>Properties\<close>

text \<open>
  C9. Configuring a section, for any graph: the slices of the dependent sections become
  invalidated by it, its own other slices valid, every other slice keeps its validation, the core
  slice has none, and no data of any slice changes. Resetting a section does the same with the
  state of an unconfigured section.
\<close>

theorem onSectionConfigured_spec:
  "slice_validation i (onSectionConfigured g now sec s) =
     (if i = CoreId then None
      else if i \<in> set (concat (map slices_of (findDependentSections g sec)))
      then Some (createInvalidatedValidation now (step_text sec))
      else if i \<in> set (slices_of sec) then Some (createValidValidation now)
      else slice_validation i s) \<and>
   slice_validation i (onSectionReset g sec s) =
     (if i = CoreId then None
      else if i \<in> set (concat (map slices_of (sec # findDependentSections g sec)))
      then Some createInitialValidation
      else slice_validation i s) \<and>
   store_data (onSectionConfigured g now sec s) = store_data s \<and>
   store_data (onSectionReset g sec s) = store_data s"
  by (simp add: onSectionConfigured_def onSectionReset_def Let_def store_data_configured
      invalid_marker.sections_validation valid_marker.section_validation
      unconfigured_marker.sections_validation unconfigured_marker.section_validation
      invalid_marker.sections_data valid_marker.section_data
      unconfigured_marker.sections_data unconfigured_marker.section_data)

text \<open>A place for every slice in the journey, along which the graph of the code points.\<close>

fun slice_rank :: "SliceId \<Rightarrow> nat" where
  "slice_rank KafkaId = 0"
| "slice_rank TopicsId = 1"
| "slice_rank DedupId = 2"
| "slice_rank FilterId = 3"
| "slice_rank TransformationId = 3"
| "slice_rank JoinId = 3"
| "slice_rank ConnectionId = 4"
| "slice_rank DestinationId = 5"
| "slice_rank CoreId = 6"

lemma invalidated_is_downstream:
  "i \<in> set (concat (map slices_of (findDependentSections DEPENDENCY_GRAPH sec))) \<Longrightarrow> j \<in> set (slices_of sec) \<Longrightarrow>
     slice_rank j < slice_rank i"
  by (cases sec) (auto simp: dependent_sections slices_of_def)

text \<open>
  Configuring a section of the code's graph never invalidates that section: all its slices
  are valid afterwards, and every slice whose validation got worse comes later in the journey.
\<close>

theorem configured_section_stays_valid:
  assumes "i \<in> set (slices_of sec)" and "i \<noteq> CoreId"
  shows "slice_validation i (onSectionConfigured DEPENDENCY_GRAPH now sec s) = Some (createValidValidation now) \<and>
    (\<forall>j. slice_validation j (onSectionConfigured DEPENDENCY_GRAPH now sec s) \<noteq> slice_validation j s \<longrightarrow>
       j \<in> set (slices_of sec) \<or> slice_rank i < slice_rank j)"
proof -
  have "i \<notin> set (concat (map slices_of (findDependentSections DEPENDENCY_GRAPH sec)))"
    using invalidated_is_downstream [OF _ assms(1)] by blast
  moreover have "slice_rank i < slice_rank j"
    if "j \<in> set (concat (map slices_of (findDependentSections DEPENDENCY_GRAPH sec)))" for j
    using invalidated_is_downstream [OF that assms(1)] .
  ultimately show ?thesis
    using assms
    by (simp add: onSectionConfigured_def Let_def invalid_marker.sections_validation
        valid_marker.section_validation del: set_concat)
qed

theorem configured_section_stays_valid_witness:
  "slice_validation TopicsId (onSectionConfigured DEPENDENCY_GRAPH 7 TOPIC_SELECTION_1 (initialStore ''r''))
   = Some (createValidValidation 7)"
  using configured_section_stays_valid [of TopicsId TOPIC_SELECTION_1] by (simp add: slices_of_def)

definition journey :: "StepKeys list" where
  "journey = [KAFKA_CONNECTION, TOPIC_SELECTION_1, TOPIC_SELECTION_2, KAFKA_TYPE_VERIFICATION,
     DEDUPLICATION_CONFIGURATOR, FILTER_CONFIGURATOR, TRANSFORMATION_CONFIGURATOR, JOIN_CONFIGURATOR,
     CLICKHOUSE_CONNECTION, CLICKHOUSE_MAPPER]"

lemma configured_validation:
  "slice_validation i (onSectionConfigured DEPENDENCY_GRAPH now sec s) =
     (if i = CoreId then None
      else if i \<in> set (concat (map slices_of (findDependentSections DEPENDENCY_GRAPH sec)))
      then Some (createInvalidatedValidation now (step_text sec))
      else if i \<in> set (slices_of sec) then Some (createValidValidation now)
      else slice_validation i s)"
  by (simp add: onSectionConfigured_def Let_def invalid_marker.sections_validation valid_marker.section_validation)


definition dependents_of :: "string \<Rightarrow> string list" where
  "dependents_of n = (case map_of (nodes DEPENDENCY_GRAPH) n of None \<Rightarrow> [] | Some nd \<Rightarrow> dependents nd)"

definition dependencies_of :: "string \<Rightarrow> string list" where
  "dependencies_of n = (case map_of (nodes DEPENDENCY_GRAPH) n of None \<Rightarrow> [] | Some nd \<Rightarrow> dependencies nd)"

text \<open>
  The steps of the dependency graph form an acyclic, transitively closed relation, so that
  invalidating the direct dependents of a section reaches all its indirect ones; but the two
  directions of the graph disagree: the ClickHouse connection names the Kafka connection, the
  topics and the join among its dependencies, and none of them names it as a dependent.
\<close>

theorem dependency_graph_closed:
  "list_all (\<lambda>(n, nd). n \<notin> set (dependents nd) \<and>
      list_all (\<lambda>m. set (dependents_of m) \<subseteq> set (dependents nd) \<and> n \<notin> set (dependents_of m)) (dependents nd))
    (filter (\<lambda>(n, nd). node_type nd = StepNode) (nodes DEPENDENCY_GRAPH)) \<and>
   ''kafka-connection'' \<in> set (dependencies_of ''clickhouse-connection'') \<and>
   ''clickhouse-connection'' \<notin> set (dependents_of ''kafka-connection'') \<and>
   ''clickhouse-connection'' \<notin> set (dependents_of ''topic-selection'') \<and>
   ''clickhouse-connection'' \<notin> set (dependents_of ''join-configurator'')"
  by (auto simp: DEPENDENCY_GRAPH_def node_def dependents_of_def dependencies_of_def)

text \<open>
  The engine's reset of all validations and the store's reset of the form validations are
  the same operation: every slice a section has is not configured afterwards, no data is lost;
  the OTLP slice, which no section maps to, keeps its validation.
\<close>

theorem resetAllValidations_spec:
  "resetAllValidations s = resetFormValidationStates s \<and>
   (i = CoreId \<or> slice_validation i (resetAllValidations s) = Some createInitialValidation) \<and>
   otlp_validation (otlpStore (resetAllValidations s)) = otlp_validation (otlpStore s)"
proof -
  have eq: "resetAllValidations s = resetFormValidationStates s"
    by (simp add: resetAllValidations_def all_steps_def for_section_def resetFormValidationStates_def
        slice_method_defs)
  show ?thesis unfolding eq by (cases i) (simp_all add: resetFormValidationStates_def slice_method_defs)
qed

end
