(* ===== verification/Expr_Parser.thy ===== *)
theory Expr_Parser
  imports Filter_Expr
begin

text \<open>
  From the abstract syntax of an Expr expression to the filter tree
  (ui/src/modules/filter/parser/exprParser.ts, second half). The context holds the unsupported
  features met so far and the number of ids drawn; \<open>uu\<close> is the stream of \<open>uuidv4()\<close>.
  A literal carries its value and its \<open>literalType\<close> in one constructor.
\<close>

section \<open>Syntax\<close>

datatype ASTLiteral = StringLit string | NumberLit js_number | BooleanLit bool | NilLit

datatype ASTNode =
    BinaryExpr string ASTNode ASTNode
  | UnaryExpr string ASTNode
  | Identifier string
  | Literal ASTLiteral
  | ArrayLiteral "ASTNode list"
  | Parenthesized ASTNode
  | FunctionCall string "ASTNode list"

fun ast_type :: "ASTNode \<Rightarrow> string" where
  "ast_type (BinaryExpr _ _ _) = ''BinaryExpr''"
| "ast_type (UnaryExpr _ _) = ''UnaryExpr''"
| "ast_type (Identifier _) = ''Identifier''"
| "ast_type (Literal _) = ''Literal''"
| "ast_type (ArrayLiteral _) = ''Array''"
| "ast_type (Parenthesized _) = ''Parenthesized''"
| "ast_type (FunctionCall _ _) = ''FunctionCall''"

definition COMPARISON_OPERATOR_MAP :: "string \<Rightarrow> FilterOperator option" where
  "COMPARISON_OPERATOR_MAP = map_of [(''=='', Eq), (''!='', Neq), (''>'', Gt), (''<'', Lt), (''>='', Gte), (''<='', Lte)]"

definition LOGICAL_OPERATOR_MAP :: "string \<Rightarrow> LogicOperator option" where
  "LOGICAL_OPERATOR_MAP = map_of [(''&&'', And), (''and'', And), (''||'', Or), (''or'', Or)]"

definition ARITHMETIC_OPERATORS :: "string \<Rightarrow> ArithmeticOperator option" where
  "ARITHMETIC_OPERATORS = map_of [(''+'', Plus), (''-'', Minus), (''*'', Times), (''/'', Divide), (''%'', Modulo)]"

section \<open>Context\<close>

record TransformContext =
  unsupportedFeatures :: "string list"
  drawn :: nat

definition push :: "string \<Rightarrow> TransformContext \<Rightarrow> TransformContext" where
  "push f ctx = ctx\<lparr>unsupportedFeatures := unsupportedFeatures ctx @ [f]\<rparr>"

definition next_id :: "(nat \<Rightarrow> string) \<Rightarrow> TransformContext \<Rightarrow> string \<times> TransformContext" where
  "next_id uu ctx = (uu (drawn ctx), ctx\<lparr>drawn := drawn ctx + 1\<rparr>)"

section \<open>Literals, fields and arithmetic operands\<close>

definition inferFieldType :: "ASTLiteral \<Rightarrow> string" where
  "inferFieldType l =
     (case l of
        NumberLit n \<Rightarrow> if isInteger n then ''int'' else ''float64''
      | BooleanLit _ \<Rightarrow> ''bool''
      | NilLit \<Rightarrow> ''string''
      | StringLit _ \<Rightarrow> ''string'')"

fun isArithmeticExpression :: "ASTNode \<Rightarrow> bool" where
  "isArithmeticExpression (BinaryExpr oper _ _) \<longleftrightarrow> ARITHMETIC_OPERATORS oper \<noteq> None"
| "isArithmeticExpression (Parenthesized e) \<longleftrightarrow> isArithmeticExpression e"
| "isArithmeticExpression (FunctionCall _ _) \<longleftrightarrow> True"
| "isArithmeticExpression _ \<longleftrightarrow> False"

fun toArithmeticOperand ::
    "(nat \<Rightarrow> string) \<Rightarrow> ASTNode \<Rightarrow> TransformContext \<Rightarrow> OperandOrNode option \<times> TransformContext"
  and toArguments ::
    "(nat \<Rightarrow> string) \<Rightarrow> ASTNode list \<Rightarrow> TransformContext \<Rightarrow> ArithmeticOperand list option \<times> TransformContext"
where
  "toArithmeticOperand uu (Identifier n) ctx = (Some (Operand (FieldOperand n ''float64'')), ctx)"
| "toArithmeticOperand uu (Literal l) ctx =
     (case l of NumberLit v \<Rightarrow> (Some (Operand (LiteralOperand v)), ctx) | _ \<Rightarrow> (None, ctx))"
| "toArithmeticOperand uu (Parenthesized e) ctx = toArithmeticOperand uu e ctx"
| "toArithmeticOperand uu (FunctionCall f args) ctx =
     (case toArguments uu args ctx of
        (None, ctx1) \<Rightarrow> (None, ctx1)
      | (Some xs, ctx1) \<Rightarrow> (Some (Operand (FunctionOperand f xs)), ctx1))"
| "toArithmeticOperand uu (BinaryExpr oper l r) ctx =
     (case ARITHMETIC_OPERATORS oper of
        None \<Rightarrow> (None, ctx)
      | Some aop \<Rightarrow>
          (let (left, ctx1) = toArithmeticOperand uu l ctx;
               (right, ctx2) = toArithmeticOperand uu r ctx1
           in case (left, right) of
                (Some a, Some b) \<Rightarrow>
                  (let (i, ctx3) = next_id uu ctx2 in (Some (Node (ExprNode i a aop b)), ctx3))
              | _ \<Rightarrow> (None, ctx2)))"
| "toArithmeticOperand uu (UnaryExpr oper e) ctx = (None, ctx)"
| "toArithmeticOperand uu (ArrayLiteral es) ctx = (None, ctx)"
| "toArguments uu [] ctx = (Some [], ctx)"
| "toArguments uu (arg # args) ctx =
     (case toArithmeticOperand uu arg ctx of
        (None, ctx1) \<Rightarrow> (None, ctx1)
      | (Some (Node _), ctx1) \<Rightarrow> (None, push ''Complex expressions inside function arguments'' ctx1)
      | (Some (Operand x), ctx1) \<Rightarrow>
          (case toArguments uu args ctx1 of
             (None, ctx2) \<Rightarrow> (None, ctx2)
           | (Some xs, ctx2) \<Rightarrow> (Some (x # xs), ctx2)))"

fun extractFieldName :: "ASTNode \<Rightarrow> string option" where
  "extractFieldName (Identifier n) = Some n"
| "extractFieldName (Parenthesized e) = extractFieldName e"
| "extractFieldName _ = None"

text \<open>\<open>!fieldName\<close> also holds of the empty string.\<close>

definition field_of :: "ASTNode \<Rightarrow> string option" where
  "field_of e = (case extractFieldName e of Some n \<Rightarrow> if n = '''' then None else Some n | None \<Rightarrow> None)"

fun literal_value :: "ASTLiteral \<Rightarrow> js_value" where
  "literal_value (StringLit s) = Str s"
| "literal_value (NumberLit n) = Num n"
| "literal_value (BooleanLit b) = Bool b"
| "literal_value NilLit = Undefined"

fun extractLiteral :: "ASTNode \<Rightarrow> (js_value \<times> string) option" where
  "extractLiteral (Literal l) = (if l = NilLit then None else Some (literal_value l, inferFieldType l))"
| "extractLiteral (Parenthesized e) = extractLiteral e"
| "extractLiteral _ = None"

fun literal_text :: "ASTLiteral \<Rightarrow> string" where
  "literal_text NilLit = ''null''"
| "literal_text l = js_String (literal_value l)"

fun element_text :: "ASTNode \<Rightarrow> string option" where
  "element_text (Literal l) = Some (literal_text l)"
| "element_text _ = None"

fun extractArrayValues :: "ASTNode \<Rightarrow> string option" where
  "extractArrayValues (ArrayLiteral es) = Some (join '', '' (List.map_filter element_text es))"
| "extractArrayValues _ = None"

section \<open>Comparisons\<close>

definition new_rule ::
    "string \<Rightarrow> string \<Rightarrow> string \<Rightarrow> FilterOperator \<Rightarrow> js_value \<Rightarrow> bool \<Rightarrow> FilterRule" where
  "new_rule i field fieldType oper v neg =
     \<lparr>rule_id = i, rule_field = field, rule_fieldType = fieldType, useArithmeticExpression = False,
      arithmeticExpression = None, rule_operator = oper, rule_value = v, rule_not = neg\<rparr>"

definition array_type :: "ASTNode \<Rightarrow> string" where
  "array_type right =
     (case right of ArrayLiteral (Literal l # _) \<Rightarrow> inferFieldType l | _ \<Rightarrow> ''string'')"

fun swapped_operator :: "FilterOperator \<Rightarrow> FilterOperator option" where
  "swapped_operator Gt = Some Lt"
| "swapped_operator Lt = Some Gt"
| "swapped_operator Gte = Some Lte"
| "swapped_operator Lte = Some Gte"
| "swapped_operator Eq = Some Eq"
| "swapped_operator Neq = Some Neq"
| "swapped_operator _ = None"

type_synonym comparison_result = "FilterRule option \<times> TransformContext"

definition emit :: "(nat \<Rightarrow> string) \<Rightarrow> (string \<Rightarrow> FilterRule) \<Rightarrow> TransformContext \<Rightarrow> comparison_result" where
  "emit uu mk ctx = (let (i, ctx1) = next_id uu ctx in (Some (mk i), ctx1))"

definition transform_membership ::
    "(nat \<Rightarrow> string) \<Rightarrow> string \<Rightarrow> ASTNode \<Rightarrow> ASTNode \<Rightarrow> bool \<Rightarrow> TransformContext \<Rightarrow> comparison_result" where
  "transform_membership uu oper left right neg ctx =
     (case (field_of left, extractArrayValues right) of
        (Some f, Some vs) \<Rightarrow>
          emit uu (\<lambda>i. new_rule i f (array_type right) (if oper = ''in'' then In else NotIn) (Str vs) neg) ctx
      | _ \<Rightarrow> (None, push (''Complex '' @ oper @ '' expression'') ctx))"

definition transform_nil ::
    "(nat \<Rightarrow> string) \<Rightarrow> string \<Rightarrow> ASTNode \<Rightarrow> bool \<Rightarrow> TransformContext \<Rightarrow> comparison_result" where
  "transform_nil uu oper left neg ctx =
     (case field_of left of
        None \<Rightarrow> (None, push ''Complex nil comparison'' ctx)
      | Some f \<Rightarrow>
          if oper = ''=='' then emit uu (\<lambda>i. new_rule i f ''string'' (if neg then IsNotNull else IsNull) (Str '''') False) ctx
          else if oper = ''!='' then emit uu (\<lambda>i. new_rule i f ''string'' (if neg then IsNull else IsNotNull) (Str '''') False) ctx
          else (None, push (''Invalid nil operator: '' @ oper) ctx))"

text \<open>A single operand is wrapped in the synthetic node \<open>operand + 0\<close>.\<close>

definition transform_arithmetic ::
    "(nat \<Rightarrow> string) \<Rightarrow> FilterOperator \<Rightarrow> ASTNode \<Rightarrow> ASTNode \<Rightarrow> bool \<Rightarrow> TransformContext \<Rightarrow> comparison_result" where
  "transform_arithmetic uu mappedOp left right neg ctx =
     (let (result, ctx1) = toArithmeticOperand uu left ctx
      in case (result, extractLiteral right) of
           (Some x, Some (v, _)) \<Rightarrow>
             (let (e, ctx2) =
                (case x of
                   Node n \<Rightarrow> (n, ctx1)
                 | Operand _ \<Rightarrow>
                     (let (i, ctx') = next_id uu ctx1
                      in (ExprNode i x Plus (Operand (LiteralOperand (Fin 0 0))), ctx')))
              in emit uu (\<lambda>i. (new_rule i '''' ''float64'' mappedOp v neg)
                   \<lparr>useArithmeticExpression := True, arithmeticExpression := Some e\<rparr>) ctx2)
         | _ \<Rightarrow> (None, push ''Complex arithmetic comparison'' ctx1))"

definition transform_standard ::
    "(nat \<Rightarrow> string) \<Rightarrow> FilterOperator \<Rightarrow> ASTNode \<Rightarrow> ASTNode \<Rightarrow> bool \<Rightarrow> TransformContext \<Rightarrow> comparison_result" where
  "transform_standard uu mappedOp left right neg ctx =
     (case (field_of left, extractLiteral right) of
        (Some f, Some (v, ty)) \<Rightarrow> emit uu (\<lambda>i. new_rule i f ty mappedOp v neg) ctx
      | _ \<Rightarrow>
          (case (field_of right, extractLiteral left, swapped_operator mappedOp) of
             (Some f, Some (v, ty), Some sop) \<Rightarrow> emit uu (\<lambda>i. new_rule i f ty sop v neg) ctx
           | _ \<Rightarrow> (None, push ''Complex comparison expression'' ctx)))"

definition transformComparison ::
    "(nat \<Rightarrow> string) \<Rightarrow> string \<Rightarrow> ASTNode \<Rightarrow> ASTNode \<Rightarrow> bool \<Rightarrow> TransformContext \<Rightarrow> comparison_result" where
  "transformComparison uu oper left right neg ctx =
     (if oper = ''in'' \<or> oper = ''not in'' then transform_membership uu oper left right neg ctx
      else case COMPARISON_OPERATOR_MAP oper of
          None \<Rightarrow> (None, push (''Unsupported operator: '' @ oper) ctx)
        | Some mappedOp \<Rightarrow>
            if right = Literal NilLit then transform_nil uu oper left neg ctx
            else if isArithmeticExpression left then transform_arithmetic uu mappedOp left right neg ctx
            else transform_standard uu mappedOp left right neg ctx)"

section \<open>Trees\<close>

fun toggle_not :: "FilterItem \<Rightarrow> FilterItem" where
  "toggle_not (RuleItem r) = RuleItem (r\<lparr>rule_not := \<not> rule_not r\<rparr>)"
| "toggle_not (GroupItem (FilterGroup i c n cs)) = GroupItem (FilterGroup i c (\<not> n) cs)"

definition is_not_operator :: "string \<Rightarrow> bool" where
  "is_not_operator oper \<longleftrightarrow> oper = ''!'' \<or> oper = ''not''"

definition same_operator :: "LogicOperator \<Rightarrow> ASTNode \<Rightarrow> bool" where
  "same_operator lop node =
     (case node of BinaryExpr oper _ _ \<Rightarrow> LOGICAL_OPERATOR_MAP oper = Some lop | _ \<Rightarrow> False)"

text \<open>What a group is made of, from the operands that could be transformed.\<close>

definition make_group ::
    "(nat \<Rightarrow> string) \<Rightarrow> LogicOperator \<Rightarrow> FilterItem list \<Rightarrow> TransformContext \<Rightarrow> FilterItem option \<times> TransformContext" where
  "make_group uu lop items ctx =
     (case items of
        [] \<Rightarrow> (None, ctx)
      | [it] \<Rightarrow> (Some it, ctx)
      | _ \<Rightarrow> (let (i, ctx1) = next_id uu ctx in (Some (GroupItem (FilterGroup i lop False items)), ctx1)))"

function (sequential) transformAST ::
    "(nat \<Rightarrow> string) \<Rightarrow> ASTNode \<Rightarrow> TransformContext \<Rightarrow> FilterItem option \<times> TransformContext"
  and collectOperands ::
    "(nat \<Rightarrow> string) \<Rightarrow> LogicOperator \<Rightarrow> ASTNode \<Rightarrow> TransformContext \<Rightarrow> FilterItem list \<times> TransformContext"
where
  "transformAST uu (Parenthesized e) ctx = transformAST uu e ctx"
| "transformAST uu (UnaryExpr oper e) ctx =
     (if is_not_operator oper
      then (case transformAST uu e ctx of
              (None, ctx1) \<Rightarrow> (None, ctx1) | (Some it, ctx1) \<Rightarrow> (Some (toggle_not it), ctx1))
      else (None, push (''Unexpected expression type: '' @ ast_type (UnaryExpr oper e)) ctx))"
| "transformAST uu (BinaryExpr oper l r) ctx =
     (case LOGICAL_OPERATOR_MAP oper of
        Some lop \<Rightarrow>
          (let (ls, ctx1) = collectOperands uu lop l ctx; (rs, ctx2) = collectOperands uu lop r ctx1
           in make_group uu lop (ls @ rs) ctx2)
      | None \<Rightarrow>
          (case transformComparison uu oper l r False ctx of
             (None, ctx1) \<Rightarrow> (None, ctx1) | (Some rl, ctx1) \<Rightarrow> (Some (RuleItem rl), ctx1)))"
| "transformAST uu e ctx = (None, push (''Unexpected expression type: '' @ ast_type e) ctx)"
| "collectOperands uu lop node ctx =
     (if same_operator lop node
      then (case node of
              BinaryExpr _ l r \<Rightarrow>
                (let (ls, ctx1) = collectOperands uu lop l ctx; (rs, ctx2) = collectOperands uu lop r ctx1
                 in (ls @ rs, ctx2))
            | _ \<Rightarrow> ([], ctx))
      else (case transformAST uu node ctx of
              (None, ctx1) \<Rightarrow> ([], ctx1) | (Some it, ctx1) \<Rightarrow> ([it], ctx1)))"
  by pat_completeness auto

termination
  by (relation "measure (case_sum (\<lambda>(_, e, _). 2 * size e) (\<lambda>(_, _, e, _). 2 * size e + 1))") auto

declare collectOperands.simps [simp del]

lemma collect_same:
  "LOGICAL_OPERATOR_MAP oper = Some lop \<Longrightarrow>
     collectOperands uu lop (BinaryExpr oper l r) ctx =
       (let (ls, ctx1) = collectOperands uu lop l ctx; (rs, ctx2) = collectOperands uu lop r ctx1
        in (ls @ rs, ctx2))"
  by (subst collectOperands.simps) (simp add: same_operator_def)

lemma collect_other:
  "\<not> same_operator lop node \<Longrightarrow>
     collectOperands uu lop node ctx =
       (case transformAST uu node ctx of
          (None, ctx1) \<Rightarrow> ([], ctx1) | (Some it, ctx1) \<Rightarrow> ([it], ctx1))"
  by (subst collectOperands.simps) simp

section \<open>Results\<close>

record ParseResult =
  pr_success :: bool
  pr_filterGroup :: "FilterGroup option"
  pr_error :: "string option"
  pr_unsupportedFeatures :: "string list option"

definition parse_failure :: "string \<Rightarrow> ParseResult" where
  "parse_failure msg =
     \<lparr>pr_success = False, pr_filterGroup = None, pr_error = Some msg, pr_unsupportedFeatures = None\<rparr>"

text \<open>The part of \<open>parseExprToFilterTree\<close> after the syntax tree is there.\<close>

definition ast_to_result :: "(nat \<Rightarrow> string) \<Rightarrow> ASTNode option \<Rightarrow> ParseResult" where
  "ast_to_result uu ast =
     (case ast of
        None \<Rightarrow> parse_failure ''Failed to convert expression to AST''
      | Some a \<Rightarrow>
          (case transformAST uu a \<lparr>unsupportedFeatures = [], drawn = 0\<rparr> of
             (None, ctx) \<Rightarrow>
               (parse_failure ''Failed to transform expression to filter tree'')
                 \<lparr>pr_unsupportedFeatures := Some (unsupportedFeatures ctx)\<rparr>
           | (Some it, ctx) \<Rightarrow>
               (let g = (case it of
                           GroupItem g \<Rightarrow> g
                         | RuleItem r \<Rightarrow> FilterGroup (fst (next_id uu ctx)) And False [RuleItem r])
                in \<lparr>pr_success = True, pr_filterGroup = Some g, pr_error = None,
                    pr_unsupportedFeatures =
                      (if unsupportedFeatures ctx \<noteq> [] then Some (unsupportedFeatures ctx) else None)\<rparr>)))"

definition fully_supported :: "ParseResult \<Rightarrow> bool" where
  "fully_supported res \<longleftrightarrow>
     pr_success res \<and> (case pr_unsupportedFeatures res of None \<Rightarrow> True | Some fs \<Rightarrow> fs = [])"

section \<open>Reported features\<close>

text \<open>Features are only added, and every operand that is dropped adds one.\<close>

definition reports :: "bool \<Rightarrow> TransformContext \<Rightarrow> TransformContext \<Rightarrow> bool" where
  "reports lost ctx ctx' \<longleftrightarrow>
     (\<exists>fs. unsupportedFeatures ctx' = unsupportedFeatures ctx @ fs \<and> (lost \<longrightarrow> fs \<noteq> []))"

lemma reports_refl [simp, intro]: "reports False ctx ctx"
  by (simp add: reports_def)

lemma reports_push [simp, intro]: "reports b ctx (push f ctx)"
  by (simp add: reports_def push_def)

lemma reports_trans: "reports a c1 c2 \<Longrightarrow> reports b c2 c3 \<Longrightarrow> (l \<Longrightarrow> a \<or> b) \<Longrightarrow> reports l c1 c3"
  unfolding reports_def by (metis append_assoc append_is_Nil_conv)

lemma reports_same: "unsupportedFeatures ctx' = unsupportedFeatures ctx \<Longrightarrow> reports False ctx ctx'"
  by (simp add: reports_def)

lemma reports_silent:
  "reports a c1 c2 \<Longrightarrow> reports b c2 c3 \<Longrightarrow> unsupportedFeatures c3 = unsupportedFeatures c1 \<Longrightarrow>
     \<not> a \<and> \<not> b \<and> unsupportedFeatures c2 = unsupportedFeatures c1 \<and>
     unsupportedFeatures c3 = unsupportedFeatures c2"
  unfolding reports_def by (elim exE conjE) simp

lemma next_id_features [simp]:
  "unsupportedFeatures (snd (next_id uu ctx)) = unsupportedFeatures ctx"
  by (simp add: next_id_def)

lemma emit_eq: "emit uu mk ctx = (Some (mk (uu (drawn ctx))), snd (next_id uu ctx))"
  by (simp add: emit_def next_id_def)

lemma arithmetic_reports:
  "reports False ctx (snd (toArithmeticOperand uu e ctx)) \<and>
     (fst (toArithmeticOperand uu e ctx) \<noteq> None \<longrightarrow>
        unsupportedFeatures (snd (toArithmeticOperand uu e ctx)) = unsupportedFeatures ctx)"
  "reports False ctx (snd (toArguments uu es ctx)) \<and>
     (fst (toArguments uu es ctx) \<noteq> None \<longrightarrow>
        unsupportedFeatures (snd (toArguments uu es ctx)) = unsupportedFeatures ctx)"
proof (induction uu e ctx and uu es ctx rule: toArithmeticOperand_toArguments.induct)
  case (5 uu oper l r ctx)
  show ?case
  proof (cases "ARITHMETIC_OPERATORS oper")
    case (Some aop)
    obtain x c1 where l: "toArithmeticOperand uu l ctx = (x, c1)" by fastforce
    obtain y c2 where r: "toArithmeticOperand uu r c1 = (y, c2)" by fastforce
    have r': "reports False c1 c2" "y \<noteq> None \<Longrightarrow> unsupportedFeatures c2 = unsupportedFeatures c1"
      using "5.IH"(2) [OF Some l [symmetric]] r by auto
    from "5.IH"(1) [OF Some] l Some r r' show ?thesis
      by (auto simp: next_id_def reports_def split: option.splits)
  qed simp
next
  case (9 uu arg args ctx)
  obtain x c1 where a: "toArithmeticOperand uu arg ctx = (x, c1)" by fastforce
  obtain y c2 where r: "toArguments uu args c1 = (y, c2)" by fastforce
  show ?case
  proof (cases "\<exists>z. x = Some (Operand z)")
    case True
    then obtain z where x: "x = Some (Operand z)" by blast
    have "reports False c1 c2" "y \<noteq> None \<Longrightarrow> unsupportedFeatures c2 = unsupportedFeatures c1"
      using "9.IH"(2) [OF a [symmetric] x refl] r by auto
    with "9.IH"(1) a r x show ?thesis by (auto simp: reports_def split: option.splits)
  next
    case False
    with "9.IH"(1) a show ?thesis
      by (auto simp: reports_def push_def split: option.splits OperandOrNode.splits)
  qed
qed (auto split: ASTLiteral.splits option.splits prod.splits)

lemma arithmetic_comparison_reports:
  "reports (fst (transform_arithmetic uu mop l r neg ctx) = None) ctx
     (snd (transform_arithmetic uu mop l r neg ctx))"
  using arithmetic_reports(1) [of ctx uu l]
  by (auto simp: transform_arithmetic_def emit_def next_id_def reports_def push_def
      split: prod.splits option.splits OperandOrNode.splits)

lemma comparison_reports:
  "reports (fst (transformComparison uu oper l r neg ctx) = None) ctx
     (snd (transformComparison uu oper l r neg ctx))"
proof -
  have "reports (fst (transform_membership uu oper l r neg ctx) = None) ctx
      (snd (transform_membership uu oper l r neg ctx))"
    "reports (fst (transform_nil uu oper l neg ctx) = None) ctx (snd (transform_nil uu oper l neg ctx))"
    "reports (fst (transform_standard uu mop l r neg ctx) = None) ctx
      (snd (transform_standard uu mop l r neg ctx))" for mop
    by (auto simp: transform_membership_def transform_nil_def transform_standard_def emit_eq
        intro: reports_same split: option.splits)
  then show ?thesis
    by (simp add: transformComparison_def arithmetic_comparison_reports split: option.split)
qed

lemma transform_reports:
  "reports (fst (transformAST uu e ctx) = None) ctx (snd (transformAST uu e ctx))"
  "reports (fst (collectOperands uu lop e ctx) = []) ctx (snd (collectOperands uu lop e ctx))"
proof (induction uu e ctx and uu lop e ctx rule: transformAST_collectOperands.induct)
  case (3 uu oper l r ctx)
  show ?case
  proof (cases "LOGICAL_OPERATOR_MAP oper")
    case None
    with comparison_reports [of uu oper l r False ctx] show ?thesis by (auto split: prod.splits option.splits)
  next
    case (Some lop)
    obtain ls c1 where l: "collectOperands uu lop l ctx = (ls, c1)" by fastforce
    obtain rs c2 where r: "collectOperands uu lop r c1 = (rs, c2)" by fastforce
    have "reports (rs = []) c1 c2" using "3.IH"(2) [OF Some l [symmetric] refl] r by simp
    moreover have "reports (ls = []) ctx c1" using "3.IH"(1) [OF Some] l by simp
    ultimately have "reports (ls @ rs = []) ctx c2" by (blast intro: reports_trans)
    with Some l r show ?thesis by (auto simp: make_group_def next_id_def reports_def split: list.splits)
  qed
next
  case (5 uu lop node ctx)
  show ?case
  proof (cases "same_operator lop node")
    case True
    then obtain oper l r where node: "node = BinaryExpr oper l r" "LOGICAL_OPERATOR_MAP oper = Some lop"
      by (auto simp: same_operator_def split: ASTNode.splits)
    obtain ls c1 where l: "collectOperands uu lop l ctx = (ls, c1)" by fastforce
    obtain rs c2 where r: "collectOperands uu lop r c1 = (rs, c2)" by fastforce
    have "reports (rs = []) c1 c2" using "5.IH"(2) [OF True node(1) l [symmetric] refl] r by simp
    moreover have "reports (ls = []) ctx c1" using "5.IH"(1) [OF True node(1)] l by simp
    ultimately have "reports (ls @ rs = []) ctx c2" by (blast intro: reports_trans)
    with node l r show ?thesis by (simp add: collect_same)
  next
    case False
    with "5.IH"(3) show ?thesis by (auto simp: collect_other split: prod.splits option.splits)
  qed
qed (auto split: prod.splits option.splits)

end
