(* ===== verification/Expr_Semantics.thy ===== *)
theory Expr_Semantics
  imports Expr_Parser Filter_Reading Js_Numbers
begin

text \<open>
  What an Expr expression and a filter tree mean, and the proof that \<open>transformAST\<close> keeps the
  meaning: an evaluator for the syntax trees, one for the rules, the conditions under which an
  expression has a faithful tree, and the expression of a tree.
\<close>

section \<open>Values\<close>

text \<open>
  A semantics gives the value of a field, a literal (\<open>Undefined\<close> stands for \<open>nil\<close>), the
  operators, the functions, and the truth of a comparison; \<open>rel S In\<close> is membership in a value
  that is not an array literal.
\<close>

record 'v semantics =
  fld :: "string \<Rightarrow> 'v"
  lit :: "js_value \<Rightarrow> 'v"
  arith :: "ArithmeticOperator \<Rightarrow> 'v \<Rightarrow> 'v \<Rightarrow> 'v"
  call :: "string \<Rightarrow> 'v list \<Rightarrow> 'v"
  unary :: "string \<Rightarrow> 'v \<Rightarrow> 'v"
  arr :: "'v list \<Rightarrow> 'v"
  rel :: "FilterOperator \<Rightarrow> 'v \<Rightarrow> 'v \<Rightarrow> bool"

lemma size_list_member: "x \<in> set xs \<Longrightarrow> size x < Suc (size_list size xs)"
  by (induction xs) auto

text \<open>A comparison with the value of its right side, and the elements of an array literal.\<close>

definition comparison_truth :: "'v semantics \<Rightarrow> string \<Rightarrow> 'v \<Rightarrow> 'v \<Rightarrow> 'v list option \<Rightarrow> bool" where
  "comparison_truth S oper v w elems =
     (let member = (case elems of Some ws \<Rightarrow> list_ex (rel S Eq v) ws | None \<Rightarrow> rel S In v w)
      in if oper = ''in'' then member
         else if oper = ''not in'' then \<not> member
         else (case COMPARISON_OPERATOR_MAP oper of Some cop \<Rightarrow> rel S cop v w | None \<Rightarrow> False))"

function (sequential) ast_value :: "'v semantics \<Rightarrow> ASTNode \<Rightarrow> 'v"
  and ast_truth :: "'v semantics \<Rightarrow> ASTNode \<Rightarrow> bool" where
  "ast_value S (Identifier n) = fld S n"
| "ast_value S (Literal l) = lit S (literal_value l)"
| "ast_value S (Parenthesized e) = ast_value S e"
| "ast_value S (FunctionCall f args) = call S f (map (ast_value S) args)"
| "ast_value S (ArrayLiteral es) = arr S (map (ast_value S) es)"
| "ast_value S (UnaryExpr oper e) =
     (if is_not_operator oper then lit S (Bool (\<not> ast_truth S e)) else unary S oper (ast_value S e))"
| "ast_value S (BinaryExpr oper l r) =
     (case ARITHMETIC_OPERATORS oper of
        Some aop \<Rightarrow> arith S aop (ast_value S l) (ast_value S r)
      | None \<Rightarrow> lit S (Bool (ast_truth S (BinaryExpr oper l r))))"
| "ast_truth S (Parenthesized e) = ast_truth S e"
| "ast_truth S (UnaryExpr oper e) =
     (if is_not_operator oper then \<not> ast_truth S e
      else rel S Eq (unary S oper (ast_value S e)) (lit S (Bool True)))"
| "ast_truth S (BinaryExpr oper l r) =
     (case LOGICAL_OPERATOR_MAP oper of
        Some And \<Rightarrow> ast_truth S l \<and> ast_truth S r
      | Some Or \<Rightarrow> ast_truth S l \<or> ast_truth S r
      | None \<Rightarrow>
          comparison_truth S oper (ast_value S l) (ast_value S r)
            (case r of ArrayLiteral es \<Rightarrow> Some (map (ast_value S) es) | _ \<Rightarrow> None))"
| "ast_truth S e = rel S Eq (ast_value S e) (lit S (Bool True))"
  by pat_completeness auto

termination
  by (relation "measure (case_sum 
      (\<lambda>(_, e). 3 * size e + (case e of BinaryExpr _ _ _ \<Rightarrow> 2 | _ \<Rightarrow> 0)) (\<lambda>(_, e). 3 * size e + 1))")
    (auto dest: size_list_member split: ASTNode.splits)

section \<open>Rules\<close>

fun operand_value :: "'v semantics \<Rightarrow> ArithmeticOperand \<Rightarrow> 'v" where
  "operand_value S (FieldOperand n _) = fld S n"
| "operand_value S (LiteralOperand v) = lit S (Num v)"
| "operand_value S (FunctionOperand f args) = call S f (map (operand_value S) args)"

definition rule_left_value :: "'v semantics \<Rightarrow> FilterRule \<Rightarrow> 'v" where
  "rule_left_value S r =
     (case arithmeticExpression r of
        Some e \<Rightarrow> if useArithmeticExpression r then eval_node (arith S) (operand_value S) e
                  else fld S (rule_field r)
      | None \<Rightarrow> fld S (rule_field r))"

text \<open>An item of an array value, read at the type of the rule.\<close>

definition typed_element :: "string \<Rightarrow> string \<Rightarrow> js_value" where
  "typed_element ty t =
     (if ty = ''bool'' then Bool (toLowerCase t = ''true'')
      else if isNumericType ty \<or> ty = ''float64'' then Num (string_to_number t) else Str t)"

definition rule_member :: "'v semantics \<Rightarrow> FilterRule \<Rightarrow> bool" where
  "rule_member S r = list_ex
     (\<lambda>t. rel S Eq (rule_left_value S r) (lit S (typed_element (rule_fieldType r) t)))
     (split_items (rule_value r))"

definition rule_holds :: "'v semantics \<Rightarrow> FilterRule \<Rightarrow> bool" where
  "rule_holds S r =
     (case rule_operator r of
        In \<Rightarrow> rule_member S r
      | NotIn \<Rightarrow> \<not> rule_member S r
      | IsNull \<Rightarrow> rel S Eq (rule_left_value S r) (lit S Undefined)
      | IsNotNull \<Rightarrow> rel S Neq (rule_left_value S r) (lit S Undefined)
      | oper \<Rightarrow> rel S oper (rule_left_value S r) (lit S (rule_value r)))"

section \<open>Faithful expressions\<close>

text \<open>
  The limits of the tree form: no empty names; an added literal zero, which the tree drops, is
  neutral; no empty string is compared with (a rule with an empty value counts as incomplete);
  and the elements of an array are literals of one type whose texts survive the join with commas.
\<close>

fun zero_literal :: "ASTNode \<Rightarrow> bool" where
  "zero_literal (Literal (NumberLit v)) \<longleftrightarrow> is_zero v"
| "zero_literal (Parenthesized e) \<longleftrightarrow> zero_literal e"
| "zero_literal _ \<longleftrightarrow> False"

fun arith_faithful :: "'v semantics \<Rightarrow> ASTNode \<Rightarrow> bool" where
  "arith_faithful S (Identifier n) \<longleftrightarrow> n \<noteq> ''''"
| "arith_faithful S (Parenthesized e) \<longleftrightarrow> arith_faithful S e"
| "arith_faithful S (FunctionCall f args) \<longleftrightarrow> f \<noteq> '''' \<and> list_all (arith_faithful S) args"
| "arith_faithful S (BinaryExpr oper l r) \<longleftrightarrow>
     arith_faithful S l \<and> arith_faithful S r \<and>
     (oper = ''+'' \<and> zero_literal r \<longrightarrow> arith S Plus (ast_value S l) (ast_value S r) = ast_value S l)"
| "arith_faithful S _ \<longleftrightarrow> True"

fun nonempty_literal :: "ASTNode \<Rightarrow> bool" where
  "nonempty_literal (Literal l) \<longleftrightarrow> l \<noteq> StringLit ''''"
| "nonempty_literal (Parenthesized e) \<longleftrightarrow> nonempty_literal e"
| "nonempty_literal _ \<longleftrightarrow> True"

fun element_faithful :: "string \<Rightarrow> ASTNode \<Rightarrow> bool" where
  "element_faithful ty (Literal (StringLit s)) \<longleftrightarrow>
     ty = ''string'' \<and> s \<noteq> [] \<and> trim s = s \<and> CHR '','' \<notin> set s"
| "element_faithful ty (Literal (NumberLit n)) \<longleftrightarrow> ty \<in> {''int'', ''float64''} \<and> canonical n"
| "element_faithful ty (Literal (BooleanLit b)) \<longleftrightarrow> ty = ''bool''"
| "element_faithful ty _ \<longleftrightarrow> False"

definition array_faithful :: "ASTNode \<Rightarrow> bool" where
  "array_faithful r \<longleftrightarrow>
     (case r of ArrayLiteral es \<Rightarrow> es \<noteq> [] \<and> list_all (element_faithful (array_type r)) es | _ \<Rightarrow> True)"

fun faithful :: "'v semantics \<Rightarrow> ASTNode \<Rightarrow> bool" where
  "faithful S (Parenthesized e) \<longleftrightarrow> faithful S e"
| "faithful S (UnaryExpr oper e) \<longleftrightarrow> faithful S e"
| "faithful S (BinaryExpr oper l r) \<longleftrightarrow>
     (if LOGICAL_OPERATOR_MAP oper \<noteq> None then faithful S l \<and> faithful S r
      else if oper \<in> {''in'', ''not in''} then array_faithful r
      else arith_faithful S l \<and> nonempty_literal l \<and> nonempty_literal r)"
| "faithful S _ \<longleftrightarrow> True"

section \<open>Arithmetic and arrays\<close>

lemma synthetic_iff:
  "isSyntheticSingleOperandExpression (ExprNode i l oper r) \<longleftrightarrow>
     oper = Plus \<and> (\<exists>v. r = Operand (LiteralOperand v) \<and> is_zero v)"
  by (cases "ExprNode i l oper r" rule: isSyntheticSingleOperandExpression.cases) auto

lemma plus_operator: "ARITHMETIC_OPERATORS oper = Some Plus \<longleftrightarrow> oper = ''+''"
  by (auto simp: ARITHMETIC_OPERATORS_def split: if_splits)

lemma arithmetic_value:
  "toArithmeticOperand uu e ctx = (Some x, ctx') \<Longrightarrow> arith_faithful S e \<Longrightarrow>
     eval_operand (arith S) (operand_value S) x = ast_value S e \<and> isArithmeticOperandComplete x \<and>
     (\<forall>v. x = Operand (LiteralOperand v) \<longrightarrow> is_zero v \<longrightarrow> zero_literal e)"
  "toArguments uu es ctx = (Some xs, ctx') \<Longrightarrow> list_all (arith_faithful S) es \<Longrightarrow>
     map (operand_value S) xs = map (ast_value S) es \<and> list_all isOperandComplete xs"
proof (induction uu e ctx and uu es ctx arbitrary: x ctx' and xs ctx'
    rule: toArithmeticOperand_toArguments.induct)
  case (5 uu oper l r ctx)
  obtain a c1 where l: "toArithmeticOperand uu l ctx = (a, c1)" by fastforce
  obtain b c2 where r: "toArithmeticOperand uu r c1 = (b, c2)" by fastforce
  from "5.prems"(1) l r obtain aop a' b' where some: "ARITHMETIC_OPERATORS oper = Some aop"
      "a = Some a'" "b = Some b'" "x = Node (ExprNode (uu (drawn c2)) a' aop b')"
    by (auto simp: next_id_def split: option.splits)
  note IH = "5.IH"(1) [OF some(1), of a' c1] "5.IH"(2) [OF some(1) l [symmetric] refl, of b' c2]
  from IH l r some "5.prems"(2) show ?case by (auto simp: synthetic_iff plus_operator)
next
  case (9 uu arg args ctx)
  obtain a c1 where a: "toArithmeticOperand uu arg ctx = (a, c1)" by fastforce
  obtain b c2 where r: "toArguments uu args c1 = (b, c2)" by fastforce
  from "9.prems"(1) a r obtain z zs where some: "a = Some (Operand z)" "b = Some zs" "xs = z # zs"
    by (auto split: option.splits OperandOrNode.splits)
  from "9.IH"(1) [of "Operand z" c1] "9.IH"(2) [OF a [symmetric] some(1) refl, of zs c2] a r some "9.prems"(2)
  show ?case by auto
qed (auto split: ASTLiteral.splits option.splits prod.splits)

lemma split_on_plain: "CHR '','' \<notin> set s \<Longrightarrow> split_on (CHR '','') s = [s]"
  by (induction s) auto

lemma split_on_join:
  "list_all (\<lambda>s. CHR '','' \<notin> set s) ss \<Longrightarrow> ss \<noteq> [] \<Longrightarrow>
     split_on (CHR '','') (join '', '' ss) = hd ss # map (\<lambda>s. CHR '' '' # s) (tl ss)"
proof (induction "'', ''" ss rule: join.induct)
  case (3 x y ys)
  have "split_on (CHR '','') (x @ CHR '','' # t) = x # split_on (CHR '','') t" for t
    using "3.prems" by (induction x) auto
  with 3 show ?case by simp
qed (simp_all add: split_on_plain)

lemma trim_space: "trim s = s \<Longrightarrow> trim (CHR '' '' # s) = s"
  by (simp add: trim_def is_ws_def)

lemma split_items_join:
  assumes "list_all (\<lambda>s. CHR '','' \<notin> set s \<and> trim s = s \<and> s \<noteq> []) ss"
  shows "split_items (Str (join '', '' ss)) = ss"
proof (cases ss)
  case Nil
  then show ?thesis by (simp add: split_items_def trim_def)
next
  case (Cons s ss')
  have "split_on (CHR '','') (join '', '' ss) = s # map (\<lambda>s. CHR '' '' # s) ss'"
    using assms split_on_join [of ss] Cons by (auto simp: list_all_iff)
  moreover have "map (trim \<circ> (\<lambda>s. CHR '' '' # s)) ss' = ss'"
    using assms Cons by (auto simp: list_all_iff trim_space intro!: map_idI)
  ultimately show ?thesis using assms Cons
    by (simp add: split_items_def list_all_iff filter_id_conv)
qed

lemma element_text_faithful:
  assumes "element_faithful ty e"
  shows "\<exists>t. element_text e = Some t \<and> CHR '','' \<notin> set t \<and> trim t = t \<and> t \<noteq> [] \<and>
    lit S (typed_element ty t) = ast_value S e"
  using assms
proof (cases "(ty, e)" rule: element_faithful.cases)
  case (3 ty' b)
  then show ?thesis using assms by (cases b) (auto simp: typed_element_def trim_def is_ws_def toLowerCase_def lower_char_def)
qed (auto simp: typed_element_def number_to_string_plain string_number_roundtrip type_test_defs)

lemma array_elements:
  assumes "list_all (element_faithful ty) es"
  defines "ts \<equiv> List.map_filter element_text es"
  shows "split_items (Str (join '', '' ts)) = ts \<and> (es \<noteq> [] \<longrightarrow> join '', '' ts \<noteq> []) \<and>
    map (\<lambda>t. lit S (typed_element ty t)) ts = map (ast_value S) es"
proof -
  have "list_all (\<lambda>s. CHR '','' \<notin> set s \<and> trim s = s \<and> s \<noteq> []) ts \<and>
      map (\<lambda>t. lit S (typed_element ty t)) ts = map (ast_value S) es \<and> (es \<noteq> [] \<longrightarrow> ts \<noteq> [] \<and> hd ts \<noteq> [])"
    using assms(1) unfolding ts_def
  proof (induction es)
    case (Cons e es)
    with element_text_faithful [of ty e S] show ?case by (auto simp: List.map_filter_simps)
  qed (simp add: List.map_filter_simps)
  moreover have "ss \<noteq> [] \<Longrightarrow> hd ss \<noteq> [] \<Longrightarrow> join '', '' ss \<noteq> []" for ss
    by (cases "('', '', ss)" rule: join.cases) auto
  ultimately show ?thesis using split_items_join by blast
qed

section \<open>Comparisons\<close>

text \<open>Comparing from the right is comparing from the left with the mirrored operator.\<close>

locale comparison_laws =
  fixes rel :: "FilterOperator \<Rightarrow> 'v \<Rightarrow> 'v \<Rightarrow> bool"
  assumes gt_lt: "rel Gt a b = rel Lt b a"
    and gte_lte: "rel Gte a b = rel Lte b a"
    and eq_sym: "rel Eq a b = rel Eq b a"
    and neq_sym: "rel Neq a b = rel Neq b a"
begin

lemma swapped: "swapped_operator oper = Some sop \<Longrightarrow> rel sop a b = rel oper b a"
  using gt_lt gte_lte eq_sym neq_sym by (cases oper) auto

end

definition holds_as :: "'v semantics \<Rightarrow> FilterRule \<Rightarrow> bool \<Rightarrow> bool" where
  "holds_as S r b \<longleftrightarrow> isRuleComplete r \<and> rule_truth (rule_holds S) r = b"

lemma field_of_value:
  "field_of e = Some f \<Longrightarrow> ast_value S e = fld S f \<and> f \<noteq> []"
proof -
  have "extractFieldName e = Some f \<Longrightarrow> ast_value S e = fld S f"
    by (induction e rule: extractFieldName.induct) auto
  then show "field_of e = Some f \<Longrightarrow> ?thesis" by (auto simp: field_of_def split: option.splits if_splits)
qed

lemma extractLiteral_value:
  "extractLiteral e = Some (v, ty) \<Longrightarrow>
     ast_value S e = lit S v \<and> v \<noteq> Undefined \<and> (nonempty_literal e \<longrightarrow> has_value v)"
proof (induction e rule: extractLiteral.induct)
  case (1 l)
  then show ?case by (cases l) (auto simp: has_value_def)
qed auto

lemmas rule_facts = holds_as_def isRuleComplete_def rule_truth_def rule_holds_def rule_left_value_def
  new_rule_def isNoValueOperator_def Let_def

lemma mapped_operator:
  "COMPARISON_OPERATOR_MAP oper = Some mop \<Longrightarrow> mop \<in> {Eq, Neq, Gt, Lt, Gte, Lte}"
  by (auto simp: COMPARISON_OPERATOR_MAP_def split: if_splits)

lemma standard_rule:
  assumes "mop \<in> {Eq, Neq, Gt, Lt, Gte, Lte}" and "f \<noteq> []" and "has_value v"
  shows "holds_as S (new_rule i f ty mop v False) (rel S mop (fld S f) (lit S v))"
  using assms by (auto simp: rule_facts)

lemma membership_faithful:
  assumes "transform_membership uu oper l r False ctx = (Some rl, ctx')" and "array_faithful r"
    and "oper = ''in'' \<or> oper = ''not in''"
  shows "holds_as S rl (comparison_truth S oper (ast_value S l) (ast_value S r)
      (case r of ArrayLiteral es \<Rightarrow> Some (map (ast_value S) es) | _ \<Rightarrow> None))"
proof -
  from assms(1) obtain f vs where f: "field_of l = Some f" and vs: "extractArrayValues r = Some vs"
      and rl: "rl = new_rule (uu (drawn ctx)) f (array_type r) (if oper = ''in'' then In else NotIn) (Str vs) False"
    by (auto simp: transform_membership_def emit_eq split: option.splits)
  from vs obtain es where r: "r = ArrayLiteral es" and vs': "vs = join '', '' (List.map_filter element_text es)"
    by (auto elim: extractArrayValues.elims)
  from assms(2) r have es: "list_all (element_faithful (array_type r)) es" "es \<noteq> []" by (auto simp: array_faithful_def)
  from array_elements [OF es(1), of S] es(2) vs' have "has_value (Str vs)"
      "map (\<lambda>t. lit S (typed_element (array_type r) t)) (split_items (Str vs)) = map (ast_value S) es"
    by (auto simp: has_value_def)
  moreover have "rule_member S rl = list_ex (rel S Eq (fld S f))
      (map (\<lambda>t. lit S (typed_element (array_type r) t)) (split_items (Str vs)))"
    unfolding rule_member_def by (simp add: rl new_rule_def rule_left_value_def list_ex_iff)
  ultimately have "rule_member S rl = list_ex (rel S Eq (fld S f)) (map (ast_value S) es)"
    by simp
  with \<open>has_value (Str vs)\<close> assms(3) field_of_value [OF f, of S] r show ?thesis
    by (auto simp: rl rule_facts comparison_truth_def)
qed

lemma nil_faithful:
  assumes "transform_nil uu oper l False ctx = (Some rl, ctx')"
  shows "holds_as S rl (comparison_truth S oper (ast_value S l) (lit S Undefined) None)"
proof -
  from assms obtain f where "field_of l = Some f" "oper = ''=='' \<or> oper = ''!=''"
      "rl = new_rule (uu (drawn ctx)) f ''string'' (if oper = ''=='' then IsNull else IsNotNull) (Str []) False"
    by (auto simp: transform_nil_def emit_eq split: option.splits if_splits)
  with field_of_value [of l f S] show ?thesis
    by (auto simp: rule_facts comparison_truth_def COMPARISON_OPERATOR_MAP_def)
qed

lemma arithmetic_faithful:
  assumes "transform_arithmetic uu mop l r False ctx = (Some rl, ctx')"
    and "mop \<in> {Eq, Neq, Gt, Lt, Gte, Lte}" and "arith_faithful S l" and "nonempty_literal r"
  shows "holds_as S rl (rel S mop (ast_value S l) (ast_value S r))"
proof -
  obtain a c1 where l: "toArithmeticOperand uu l ctx = (a, c1)" by fastforce
  from assms(1) l obtain x v ty where x: "a = Some x" and v: "extractLiteral r = Some (v, ty)"
    by (auto simp: transform_arithmetic_def split: option.splits)
  from arithmetic_value(1) [of uu l ctx x c1 S] l x assms(3)
  have val: "eval_operand (arith S) (operand_value S) x = ast_value S l" "isArithmeticOperandComplete x" by auto
  from assms(1) l x v obtain e i where rl: "rl = (new_rule i [] ''float64'' mop v False)
      \<lparr>useArithmeticExpression := True, arithmeticExpression := Some e\<rparr>"
    and e: "e = (case x of Node n \<Rightarrow> n | Operand _ \<Rightarrow> ExprNode (uu (drawn c1)) x Plus (Operand (LiteralOperand (Fin 0 0))))"
    by (auto simp: transform_arithmetic_def emit_eq next_id_def split: OperandOrNode.splits)
  have "eval_node (arith S) (operand_value S) e = ast_value S l" "isExprNodeComplete e"
    using val by (auto simp: e is_zero_def split: OperandOrNode.splits)
  with extractLiteral_value [OF v, of S] assms(2,4) show ?thesis
    by (auto simp: rl rule_facts isArithmeticExpressionComplete_def)
qed

lemma standard_faithful:
  assumes "transform_standard uu mop l r False ctx = (Some rl, ctx')"
    and "mop \<in> {Eq, Neq, Gt, Lt, Gte, Lte}" and "comparison_laws (rel S)"
    and "nonempty_literal l" and "nonempty_literal r"
  shows "holds_as S rl (rel S mop (ast_value S l) (ast_value S r))"
proof (cases "\<exists>f v ty. field_of l = Some f \<and> extractLiteral r = Some (v, ty)")
  case True
  then obtain f v ty where 1: "field_of l = Some f" "extractLiteral r = Some (v, ty)" by blast
  with assms(1) have "rl = new_rule (uu (drawn ctx)) f ty mop v False" by (simp add: transform_standard_def emit_eq)
  with standard_rule [OF assms(2), of f v S] field_of_value [OF 1(1), of S] extractLiteral_value [OF 1(2), of S] assms(5)
  show ?thesis by simp
next
  case False
  with assms(1) obtain f v ty sop where 1: "field_of r = Some f" "extractLiteral l = Some (v, ty)"
      "swapped_operator mop = Some sop" "rl = new_rule (uu (drawn ctx)) f ty sop v False"
    by (auto simp: transform_standard_def emit_eq split: option.splits)
  have "sop \<in> {Eq, Neq, Gt, Lt, Gte, Lte}" using 1(3) by (cases mop) auto
  from standard_rule [OF this, of f v S] field_of_value [OF 1(1), of S] extractLiteral_value [OF 1(2), of S]
    assms(4) comparison_laws.swapped [OF assms(3) 1(3)] 1(4)
  show ?thesis by simp
qed

lemma comparison_faithful:
  assumes "transformComparison uu oper l r False ctx = (Some rl, ctx')"
    and "comparison_laws (rel S)" and "faithful S (BinaryExpr oper l r)" and "LOGICAL_OPERATOR_MAP oper = None"
  shows "holds_as S rl (ast_truth S (BinaryExpr oper l r))"
proof (cases "oper = ''in'' \<or> oper = ''not in''")
  case True
  with assms membership_faithful [of uu oper l r ctx rl ctx' S] show ?thesis
    by (auto simp: transformComparison_def)
next
  case False
  with assms(1) obtain mop where mop: "COMPARISON_OPERATOR_MAP oper = Some mop"
    by (auto simp: transformComparison_def split: option.splits)
  with False assms(4) have truth: "ast_truth S (BinaryExpr oper l r) = rel S mop (ast_value S l) (ast_value S r)"
    by (simp add: comparison_truth_def)
  show ?thesis
  proof (cases "r = Literal NilLit")
    case True
    with assms(1) False mop nil_faithful [of uu oper l ctx rl ctx' S] assms(4) show ?thesis
      by (simp add: transformComparison_def)
  next
    case right: False
    with assms(1,3,4) False mop mapped_operator [OF mop]
      arithmetic_faithful [of uu mop l r ctx rl ctx' S] standard_faithful [of uu mop l r ctx rl ctx' S] assms(2)
    show ?thesis unfolding truth by (auto simp: transformComparison_def split: if_splits)
  qed
qed

section \<open>Trees\<close>

lemma items_truth_append: "items_truth \<rho> (xs @ ys) = items_truth \<rho> xs @ items_truth \<rho> ys"
proof (induction xs)
  case (Cons x xs)
  then show ?case by (cases x) (auto split: option.split)
qed simp

definition combined :: "LogicOperator \<Rightarrow> bool list \<Rightarrow> bool" where
  "combined c bs = (case c of And \<Rightarrow> list_all id bs | Or \<Rightarrow> list_ex id bs)"

lemma combined_append:
  "combined c (bs @ bs') = (case c of And \<Rightarrow> combined c bs \<and> combined c bs' | Or \<Rightarrow> combined c bs \<or> combined c bs')"
  by (cases c) (auto simp: combined_def list_all_iff list_ex_iff)

lemma toggle_not_truth:
  "items_truth (rule_holds S) [it] = [b] \<Longrightarrow> items_truth (rule_holds S) [toggle_not it] = [\<not> b]"
proof (cases it)
  case (RuleItem r)
  have left: "rule_left_value S (r\<lparr>rule_not := n\<rparr>) = rule_left_value S r" for n
    by (simp add: rule_left_value_def split: option.split)
  have member: "rule_member S (r\<lparr>rule_not := n\<rparr>) = rule_member S r" for n
    by (simp add: rule_member_def left)
  have "isRuleComplete (r\<lparr>rule_not := n\<rparr>) = isRuleComplete r"
    "rule_holds S (r\<lparr>rule_not := n\<rparr>) = rule_holds S r" for n
    by (simp_all add: isRuleComplete_def rule_holds_def left member cong: FilterOperator.case_cong)
  moreover assume "items_truth (rule_holds S) [it] = [b]"
  ultimately show ?thesis using RuleItem by (auto simp: rule_truth_def split: if_splits)
next
  case (GroupItem g)
  moreover assume "items_truth (rule_holds S) [it] = [b]"
  ultimately show ?thesis by (cases g) (auto simp: combine_truth_def Let_def split: if_splits option.splits)
qed

lemma make_group_truth:
  assumes "make_group uu lop items ctx = (Some it, ctx')" and "items_truth \<rho> items \<noteq> []"
  shows "items_truth \<rho> [it] = [combined lop (items_truth \<rho> items)]"
proof (cases "\<exists>x. items = [x]")
  case True
  then obtain x where x: "items = [x]" by blast
  have "length (items_truth \<rho> [x]) \<le> 1" by (cases x) (auto split: option.split)
  then obtain b where b: "items_truth \<rho> [x] = [b]" using assms(2) x
    by (cases "items_truth \<rho> [x]") auto
  have "combined lop [b] = b" by (cases lop) (simp_all add: combined_def)
  with b x assms(1) show ?thesis by (simp add: make_group_def)
next
  case False
  with assms have it: "it = GroupItem (FilterGroup (uu (drawn ctx)) lop False items)"
    by (auto simp: make_group_def next_id_def split: list.splits)
  with assms(2) show ?thesis by (simp add: combine_truth_def combined_def)
qed

lemma both_operands:
  assumes l: "collectOperands uu lop l ctx = (ls, c1)" and r: "collectOperands uu lop r c1 = (rs, c2)"
    and silent: "unsupportedFeatures c2 = unsupportedFeatures ctx"
    and oper: "LOGICAL_OPERATOR_MAP oper = Some lop" and faith: "faithful S (BinaryExpr oper l r)"
    and IHl: "faithful S l \<Longrightarrow> unsupportedFeatures c1 = unsupportedFeatures ctx \<Longrightarrow>
      items_truth \<rho> ls \<noteq> [] \<and> combined lop (items_truth \<rho> ls) = ast_truth S l"
    and IHr: "faithful S r \<Longrightarrow> unsupportedFeatures c2 = unsupportedFeatures c1 \<Longrightarrow>
      items_truth \<rho> rs \<noteq> [] \<and> combined lop (items_truth \<rho> rs) = ast_truth S r"
  shows "items_truth \<rho> (ls @ rs) \<noteq> [] \<and>
    combined lop (items_truth \<rho> (ls @ rs)) = ast_truth S (BinaryExpr oper l r)"
proof -
  have "reports (ls = []) ctx c1" "reports (rs = []) c1 c2"
    using transform_reports(2) [of uu lop l ctx] transform_reports(2) [of uu lop r c1] l r by simp_all
  from reports_silent [OF this silent]
  have "unsupportedFeatures c1 = unsupportedFeatures ctx" "unsupportedFeatures c2 = unsupportedFeatures c1"
    by blast+
  moreover have "faithful S l" "faithful S r" using faith oper by simp_all
  ultimately have "items_truth \<rho> ls \<noteq> [] \<and> combined lop (items_truth \<rho> ls) = ast_truth S l"
    "items_truth \<rho> rs \<noteq> [] \<and> combined lop (items_truth \<rho> rs) = ast_truth S r"
    using IHl IHr by blast+
  with oper show ?thesis by (cases lop) (simp_all add: items_truth_append combined_append)
qed

lemma transform_faithful:
  assumes laws: "comparison_laws (rel S)"
  shows "transformAST uu e ctx = (Some it, ctx') \<Longrightarrow> faithful S e \<Longrightarrow>
      unsupportedFeatures ctx' = unsupportedFeatures ctx \<Longrightarrow>
      items_truth (rule_holds S) [it] = [ast_truth S e]"
    and "collectOperands uu lop e ctx = (its, ctx') \<Longrightarrow> faithful S e \<Longrightarrow>
      unsupportedFeatures ctx' = unsupportedFeatures ctx \<Longrightarrow>
      items_truth (rule_holds S) its \<noteq> [] \<and> combined lop (items_truth (rule_holds S) its) = ast_truth S e"
proof (induction uu e ctx and uu lop e ctx arbitrary: it ctx' and its ctx'
    rule: transformAST_collectOperands.induct)
  case (2 uu oper e ctx)
  then obtain x where "transformAST uu e ctx = (Some x, ctx')" "it = toggle_not x" "is_not_operator oper"
    by (auto split: if_splits prod.splits option.splits)
  with 2 toggle_not_truth [of S x] show ?case by auto
next
  case (3 uu oper l r ctx)
  show ?case
  proof (cases "LOGICAL_OPERATOR_MAP oper")
    case None
    with "3.prems"(1) obtain rl where "transformComparison uu oper l r False ctx = (Some rl, ctx')" "it = RuleItem rl"
      by (auto split: prod.splits option.splits)
    from comparison_faithful [OF this(1) laws "3.prems"(2) None] this(2) show ?thesis by (simp add: holds_as_def)
  next
    case (Some lop)
    obtain ls c1 where l: "collectOperands uu lop l ctx = (ls, c1)" by fastforce
    obtain rs c2 where r: "collectOperands uu lop r c1 = (rs, c2)" by fastforce
    from "3.prems"(1) Some l r have group: "make_group uu lop (ls @ rs) c2 = (Some it, ctx')" by simp
    then have silent: "unsupportedFeatures c2 = unsupportedFeatures ctx" using "3.prems"(3)
      by (auto simp: make_group_def next_id_def split: list.splits)
    have both: "items_truth (rule_holds S) (ls @ rs) \<noteq> [] \<and>
        combined lop (items_truth (rule_holds S) (ls @ rs)) = ast_truth S (BinaryExpr oper l r)"
      by (rule both_operands [OF l r silent Some "3.prems"(2) "3.IH"(1) [OF Some l]
            "3.IH"(2) [OF Some l [symmetric] refl r]])
    from make_group_truth [OF group conjunct1 [OF both]] show ?thesis
      unfolding conjunct2 [OF both] .
  qed
next
  case (5 uu lop node ctx)
  show ?case
  proof (cases "same_operator lop node")
    case True
    then obtain oper l r where node: "node = BinaryExpr oper l r" and oper: "LOGICAL_OPERATOR_MAP oper = Some lop"
      by (auto simp: same_operator_def split: ASTNode.splits)
    obtain ls c1 where l: "collectOperands uu lop l ctx = (ls, c1)" by fastforce
    obtain rs c2 where r: "collectOperands uu lop r c1 = (rs, c2)" by fastforce
    from "5.prems"(1) node oper l r have its: "its = ls @ rs" "ctx' = c2"
      by (simp_all add: collect_same)
    from "5.prems"(3) its have silent: "unsupportedFeatures c2 = unsupportedFeatures ctx" by simp
    from "5.prems"(2) node have "faithful S (BinaryExpr oper l r)" by simp
    then show ?thesis unfolding its(1) node
      by (rule both_operands [OF l r silent oper _ "5.IH"(1) [OF True node l]
            "5.IH"(2) [OF True node l [symmetric] refl r]])
  next
    case False
    have "fst (transformAST uu node ctx) \<noteq> None"
    proof
      assume "fst (transformAST uu node ctx) = None"
      with "5.prems"(1,3) False transform_reports(1) [of uu node ctx] show False
        by (auto simp: collect_other reports_def split: prod.splits)
    qed
    with "5.prems"(1) False obtain x where "transformAST uu node ctx = (Some x, ctx')" "its = [x]"
      by (auto simp: collect_other split: prod.splits option.splits)
    with "5.IH"(3) [OF False this(1)] "5.prems"(2,3) show ?thesis
      by (cases lop) (auto simp: combined_def)
  qed
qed auto

section \<open>A concrete semantics\<close>

datatype expr_val = VNum rat | VStr string | VBool bool | VNil | VArr "expr_val list"

fun js_val :: "js_value \<Rightarrow> expr_val" where
  "js_val (Num (Fin m k)) = VNum (of_int m / 10 ^ k)"
| "js_val (Str s) = VStr s"
| "js_val (Bool b) = VBool b"
| "js_val _ = VNil"

fun val_arith :: "ArithmeticOperator \<Rightarrow> expr_val \<Rightarrow> expr_val \<Rightarrow> expr_val" where
  "val_arith oper (VNum a) (VNum b) = VNum (rat_arith oper a b)"
| "val_arith oper (VStr s) (VStr t) = (if oper = Plus then VStr (s @ t) else VNil)"
| "val_arith _ _ _ = VNil"

fun val_rel :: "FilterOperator \<Rightarrow> expr_val \<Rightarrow> expr_val \<Rightarrow> bool" where
  "val_rel Eq a b = (a = b)"
| "val_rel Neq a b = (a \<noteq> b)"
| "val_rel Gt (VNum a) (VNum b) = (b < a)"
| "val_rel Lt (VNum a) (VNum b) = (a < b)"
| "val_rel Gte (VNum a) (VNum b) = (b \<le> a)"
| "val_rel Lte (VNum a) (VNum b) = (a \<le> b)"
| "val_rel In a (VArr bs) = (a \<in> set bs)"
| "val_rel _ _ _ = False"

definition expr_semantics :: "(string \<Rightarrow> expr_val) \<Rightarrow> (string \<Rightarrow> expr_val list \<Rightarrow> expr_val) \<Rightarrow> expr_val semantics" where
  "expr_semantics env funs =
     \<lparr>fld = env, lit = js_val, arith = val_arith, call = funs,
      unary = (\<lambda>_ _. VNil), arr = VArr, rel = val_rel\<rparr>"

interpretation expr_comparison: comparison_laws val_rel
proof unfold_locales
  show "val_rel Gt a b = val_rel Lt b a" for a b by (cases a; cases b) auto
  show "val_rel Gte a b = val_rel Lte b a" for a b by (cases a; cases b) auto
qed auto

section \<open>Properties\<close>


definition sample_ast :: ASTNode where
  "sample_ast = BinaryExpr ''and''
     (Parenthesized (BinaryExpr ''or'' (BinaryExpr ''<'' (Literal (NumberLit (Fin 10 0))) (Identifier ''x''))
        (UnaryExpr ''!'' (BinaryExpr ''=='' (Identifier ''n'') (Literal NilLit)))))
     (BinaryExpr ''in'' (Identifier ''s'') (ArrayLiteral [Literal (StringLit ''a''), Literal (StringLit ''b'')]))"




text \<open>
  Two losses are not reported: an element of an array that is no literal disappears from the
  list (a \<open>nil\<close> becomes the text \<open>null\<close>), and a comparison with the empty string
  becomes a rule that counts as incomplete, so that saving the loaded filter writes nothing.
\<close>

theorem unreported_losses:
  "f \<noteq> [] \<longrightarrow>
     (\<exists>r. transformAST uu (BinaryExpr ''in'' (Identifier f)
            (ArrayLiteral [Literal (StringLit ''a''), Identifier x, Literal NilLit])) ctx
            = (Some (RuleItem r), snd (next_id uu ctx)) \<and> rule_value r = Str ''a, null'') \<and>
     (\<exists>g. ast_to_result uu (Some (BinaryExpr ''=='' (Identifier f) (Literal (StringLit ''''))))
            = \<lparr>pr_success = True, pr_filterGroup = Some g, pr_error = None, pr_unsupportedFeatures = None\<rparr> \<and>
          groupToExpr g = Inr '''')"
  by (auto simp: LOGICAL_OPERATOR_MAP_def COMPARISON_OPERATOR_MAP_def transformComparison_def
      transform_membership_def transform_standard_def field_of_def emit_eq new_rule_def List.map_filter_simps
      ast_to_result_def Let_def next_id_def isRuleComplete_def isNoValueOperator_def has_value_def combine_group_def)

theorem unreported_losses_witness:
  "\<exists>g. pr_filterGroup (ast_to_result nat_digits
       (Some (BinaryExpr ''=='' (Identifier ''name'') (Literal (StringLit ''''))))) = Some g \<and> groupToExpr g = Inr ''''"
proof -
  obtain g where "ast_to_result nat_digits (Some (BinaryExpr ''=='' (Identifier ''name'') (Literal (StringLit ''''))))
      = \<lparr>pr_success = True, pr_filterGroup = Some g, pr_error = None, pr_unsupportedFeatures = None\<rparr>"
      "groupToExpr g = Inr ''''"
    using unreported_losses [of "''name''" nat_digits] by blast
  then show ?thesis by simp
qed

text \<open>
  A comparison with a decimal fraction does not survive loading and saving: the loaded
  rule has the type \<open>float64\<close>, which is no numeric type of the operator table, so the number is
  written back as a quoted string; an integer is written back as it was.
\<close>

theorem loaded_number_rewritten:
  assumes "f \<noteq> []"
  shows "\<exists>r. transformAST uu (BinaryExpr ''>'' (Identifier f) (Literal (NumberLit n))) ctx
      = (Some (RuleItem r), snd (next_id uu ctx)) \<and>
    ruleToExpr r = Inr (f @ '' > '' @
      (if isInteger n then number_to_string n else quote_string (number_to_string n)))"
  using assms
  by (auto simp: LOGICAL_OPERATOR_MAP_def COMPARISON_OPERATOR_MAP_def transformComparison_def
      transform_standard_def field_of_def emit_eq new_rule_def inferFieldType_def ruleToExpr_eq
      rule_comparison_def comparison_expr_def rule_left_side_def rule_value_type_def isNoValueOperator_def
      isArrayValueOperator_def formatValueForExpr_def type_test_defs find_operator_def FILTER_OPERATORS_def opdef_def)

theorem loaded_number_rewritten_witness:
  "\<exists>r. fst (transformAST nat_digits (BinaryExpr ''>'' (Identifier ''price'') (Literal (NumberLit (Fin 105 1))))
       \<lparr>unsupportedFeatures = [], drawn = 0\<rparr>) = Some (RuleItem r) \<and>
     ruleToExpr r = Inr (''price > '' @ quote_string ''10.5'')"
proof -
  have "number_to_string (Fin 105 1) = ''10.5''" by code_simp
  with loaded_number_rewritten [of "''price''" nat_digits "Fin 105 1" "\<lparr>unsupportedFeatures = [], drawn = 0\<rparr>"]
  show ?thesis by fastforce
qed

end
