(* ===== verification/Expr_Roundtrip.thy ===== *)
theory Expr_Roundtrip
  imports Expr_Semantics
begin

text \<open>
  Saving and loading a filter: the syntax tree of the expression the serialiser writes for a
  rule tree (the tree the Expr grammar gives the string), and the proof that the parser's
  transformation turns it back into the same tree, up to the ids, which are drawn anew.
\<close>

section \<open>The syntax tree of a saved filter\<close>

fun literal_of :: "js_value \<Rightarrow> ASTLiteral" where
  "literal_of (Str s) = StringLit s"
| "literal_of (Num n) = NumberLit n"
| "literal_of (Bool b) = BooleanLit b"
| "literal_of Undefined = NilLit"

fun operator_text :: "FilterOperator \<Rightarrow> string" where
  "operator_text Eq = ''==''"
| "operator_text Neq = ''!=''"
| "operator_text Gt = ''>''"
| "operator_text Lt = ''<''"
| "operator_text Gte = ''>=''"
| "operator_text Lte = ''<=''"
| "operator_text In = ''in''"
| "operator_text NotIn = ''not in''"
| "operator_text IsNull = ''==''"
| "operator_text IsNotNull = ''!=''"

definition element_literals :: "FilterRule \<Rightarrow> ASTLiteral list" where
  "element_literals r = map (\<lambda>t. literal_of (typed_element (rule_fieldType r) t)) (split_items (rule_value r))"

definition rule_ast :: "FilterRule \<Rightarrow> ASTNode" where
  "rule_ast r =
     (let right = (if isNoValueOperator (rule_operator r) then Literal NilLit
                   else if isArrayValueOperator (rule_operator r) then ArrayLiteral (map Literal (element_literals r))
                   else Literal (literal_of (rule_value r)));
          e = BinaryExpr (operator_text (rule_operator r)) (Identifier (rule_field r)) right
      in if rule_not r then UnaryExpr ''!'' (Parenthesized e) else e)"

definition chain :: "LogicOperator \<Rightarrow> ASTNode list \<Rightarrow> ASTNode" where
  "chain c es = foldl (BinaryExpr (combinator_symbol c)) (hd es) (tl es)"

fun group_ast :: "FilterGroup \<Rightarrow> ASTNode" and items_ast :: "FilterItem list \<Rightarrow> ASTNode list" where
  "group_ast (FilterGroup i c n cs) =
     (let inner = Parenthesized (chain c (items_ast cs))
      in if n then UnaryExpr ''!'' (Parenthesized inner) else inner)"
| "items_ast [] = []"
| "items_ast (RuleItem r # cs) = rule_ast r # items_ast cs"
| "items_ast (GroupItem g # cs) = group_ast g # items_ast cs"

section \<open>Trees that load back\<close>

text \<open>
  A plain rule whose type is the one the parser infers; an array value is written the way the
  parser joins it. A group has at least two children: one with a single child is saved as the
  child alone.
\<close>

definition loadable_rule :: "FilterRule \<Rightarrow> bool" where
  "loadable_rule r \<longleftrightarrow>
     rule_field r \<noteq> '''' \<and> \<not> useArithmeticExpression r \<and> arithmeticExpression r = None \<and>
     (if isNoValueOperator (rule_operator r) then rule_fieldType r = ''string'' \<and> rule_value r = Str ''''
      else if isArrayValueOperator (rule_operator r)
      then element_literals r \<noteq> [] \<and> NilLit \<notin> set (element_literals r) \<and>
           rule_fieldType r = inferFieldType (hd (element_literals r)) \<and>
           rule_value r = Str (join '', '' (map literal_text (element_literals r)))
      else rule_value r \<noteq> Undefined \<and> rule_fieldType r = inferFieldType (literal_of (rule_value r)))"

fun loadable :: "FilterGroup \<Rightarrow> bool" and loadable_items :: "FilterItem list \<Rightarrow> bool" where
  "loadable (FilterGroup i c n cs) \<longleftrightarrow> 2 \<le> length cs \<and> loadable_items cs"
| "loadable_items [] \<longleftrightarrow> True"
| "loadable_items (RuleItem r # cs) \<longleftrightarrow> loadable_rule r \<and> loadable_items cs"
| "loadable_items (GroupItem g # cs) \<longleftrightarrow> loadable g \<and> loadable_items cs"

fun erase_ids :: "FilterGroup \<Rightarrow> FilterGroup" and erase_items :: "FilterItem list \<Rightarrow> FilterItem list" where
  "erase_ids (FilterGroup i c n cs) = FilterGroup '''' c n (erase_items cs)"
| "erase_items [] = []"
| "erase_items (RuleItem r # cs) = RuleItem (r\<lparr>rule_id := ''''\<rparr>) # erase_items cs"
| "erase_items (GroupItem g # cs) = GroupItem (erase_ids g) # erase_items cs"

lemma erase_items_append: "erase_items (xs @ ys) = erase_items xs @ erase_items ys"
proof (induction xs)
  case (Cons x xs)
  then show ?case by (cases x) auto
qed simp

lemma erase_items_length [simp]: "length (erase_items xs) = length xs"
proof (induction xs)
  case (Cons x xs)
  then show ?case by (cases x) auto
qed simp

section \<open>Loading\<close>

text \<open>\<open>loads uu it e\<close>: wherever \<open>e\<close> is transformed, the result is \<open>it\<close> up to ids and nothing is reported.\<close>

definition loads :: "(nat \<Rightarrow> string) \<Rightarrow> FilterItem \<Rightarrow> ASTNode \<Rightarrow> bool" where
  "loads uu it e \<longleftrightarrow>
     (\<forall>lop. \<not> same_operator lop e) \<and>
     (\<forall>ctx. \<exists>it' ctx'. transformAST uu e ctx = (Some it', ctx') \<and> erase_items [it'] = erase_items [it] \<and>
        unsupportedFeatures ctx' = unsupportedFeatures ctx)"

lemma literal_value_of: "v \<noteq> Undefined \<Longrightarrow> literal_value (literal_of v) = v \<and> literal_of v \<noteq> NilLit"
  by (cases v) auto

lemma operator_maps:
  "LOGICAL_OPERATOR_MAP (operator_text oper) = None"
  "\<not> isArrayValueOperator oper \<Longrightarrow> \<not> isNoValueOperator oper \<Longrightarrow>
     COMPARISON_OPERATOR_MAP (operator_text oper) = Some oper \<and> operator_text oper \<notin> {''in'', ''not in''}"
  by (cases oper; simp add: LOGICAL_OPERATOR_MAP_def COMPARISON_OPERATOR_MAP_def isArrayValueOperator_def
      isNoValueOperator_def)+

lemma comparison_loads:
  assumes "loadable_rule r" and "\<not> rule_not r"
  shows "\<exists>r' ctx'. transformAST uu (rule_ast r) ctx = (Some (RuleItem r'), ctx') \<and>
    r'\<lparr>rule_id := ''''\<rparr> = r\<lparr>rule_id := ''''\<rparr> \<and> unsupportedFeatures ctx' = unsupportedFeatures ctx"
proof -
  let ?r = "new_rule (uu (drawn ctx)) (rule_field r) (rule_fieldType r) (rule_operator r) (rule_value r) False"
  have field: "field_of (Identifier (rule_field r)) = Some (rule_field r)"
    using assms(1) by (simp add: field_of_def loadable_rule_def)
  have plain: "\<not> useArithmeticExpression r" "arithmeticExpression r = None"
    using assms(1) by (simp_all add: loadable_rule_def)
  have parts: "transformComparison uu (operator_text (rule_operator r)) (Identifier (rule_field r)) right False ctx
      = (Some ?r, snd (next_id uu ctx)) \<Longrightarrow> rule_ast r = BinaryExpr (operator_text (rule_operator r))
          (Identifier (rule_field r)) right \<Longrightarrow> ?thesis" for right
    using assms(2) plain by (simp add: operator_maps new_rule_def)
  consider (nil) "isNoValueOperator (rule_operator r)"
    | (array) "isArrayValueOperator (rule_operator r)"
    | (single) "\<not> isNoValueOperator (rule_operator r)" "\<not> isArrayValueOperator (rule_operator r)" by blast
  then show ?thesis
  proof cases
    case nil
    then have "rule_operator r = IsNull \<or> rule_operator r = IsNotNull" by (simp add: isNoValueOperator_def)
    with nil assms show ?thesis
      by (intro parts [of "Literal NilLit"])
        (auto simp: rule_ast_def loadable_rule_def transformComparison_def transform_nil_def emit_eq field
          COMPARISON_OPERATOR_MAP_def)
  next
    case array
    then have op: "rule_operator r = In \<or> rule_operator r = NotIn" "\<not> isNoValueOperator (rule_operator r)"
      by (auto simp: isArrayValueOperator_def isNoValueOperator_def)
    have texts: "List.map_filter element_text (map Literal ls) = map literal_text ls" for ls
      by (induction ls) (simp_all add: List.map_filter_simps)
    have "array_type (ArrayLiteral (map Literal (element_literals r))) = rule_fieldType r"
      using assms(1) op array by (cases "element_literals r") (auto simp: array_type_def loadable_rule_def)
    with op array assms show ?thesis
      by (intro parts [of "ArrayLiteral (map Literal (element_literals r))"])
        (auto simp: rule_ast_def loadable_rule_def transformComparison_def transform_membership_def emit_eq field texts)
  next
    case single
    with assms operator_maps [of "rule_operator r"] literal_value_of [of "rule_value r"] show ?thesis
      by (intro parts [of "Literal (literal_of (rule_value r))"])
        (auto simp: rule_ast_def loadable_rule_def transformComparison_def transform_standard_def emit_eq field)
  qed
qed

lemma erased_not:
  "r\<lparr>rule_id := ''''\<rparr> = s\<lparr>rule_id := ''''\<rparr> \<Longrightarrow>
     r\<lparr>rule_not := \<not> rule_not r, rule_id := ''''\<rparr> = s\<lparr>rule_not := \<not> rule_not s, rule_id := ''''\<rparr>"
  by (cases r; cases s) simp

lemma not_loads:
  assumes "loads uu it e" shows "loads uu (toggle_not it) (UnaryExpr ''!'' (Parenthesized e))"
  unfolding loads_def
proof (intro conjI allI)
  show "\<not> same_operator lop (UnaryExpr ''!'' (Parenthesized e))" for lop by (simp add: same_operator_def)
  fix ctx
  from assms obtain x c where x: "transformAST uu e ctx = (Some x, c)" "erase_items [x] = erase_items [it]"
      "unsupportedFeatures c = unsupportedFeatures ctx"
    unfolding loads_def by blast
  from x(2) have "erase_items [toggle_not x] = erase_items [toggle_not it]"
    by (cases x rule: toggle_not.cases; cases it rule: toggle_not.cases)
      (auto intro: erased_not)
  with x show "\<exists>it' ctx'. transformAST uu (UnaryExpr ''!'' (Parenthesized e)) ctx = (Some it', ctx') \<and>
      erase_items [it'] = erase_items [toggle_not it] \<and> unsupportedFeatures ctx' = unsupportedFeatures ctx"
    by (simp add: is_not_operator_def)
qed

lemma rule_loads:
  assumes "loadable_rule r" shows "loads uu (RuleItem r) (rule_ast r)"
proof -
  have positive: "loads uu (RuleItem r) (rule_ast r)" if "loadable_rule r" "\<not> rule_not r" for r
    unfolding loads_def
  proof (intro conjI allI)
    show "\<not> same_operator lop (rule_ast r)" for lop
      using that(2) by (simp add: same_operator_def rule_ast_def operator_maps)
    show "\<exists>it' ctx'. transformAST uu (rule_ast r) ctx = (Some it', ctx') \<and>
        erase_items [it'] = erase_items [RuleItem r] \<and> unsupportedFeatures ctx' = unsupportedFeatures ctx" for ctx
      using comparison_loads [OF that, of uu ctx] by fastforce
  qed
  show ?thesis
  proof (cases "rule_not r")
    case True
    let ?r = "r\<lparr>rule_not := False\<rparr>"
    have "element_literals ?r = element_literals r" by (simp add: element_literals_def)
    then have "loadable_rule ?r = loadable_rule r" "rule_ast r = UnaryExpr ''!'' (Parenthesized (rule_ast ?r))"
      using True by (simp_all add: loadable_rule_def rule_ast_def Let_def)
    moreover have "toggle_not (RuleItem ?r) = RuleItem r" using True by (cases r) simp
    ultimately show ?thesis using not_loads [OF positive [of ?r]] assms by simp
  qed (use positive assms in blast)
qed

lemma combinator_logical: "LOGICAL_OPERATOR_MAP (combinator_symbol c) = Some c"
  by (cases c) (simp_all add: LOGICAL_OPERATOR_MAP_def)

lemma chain_snoc: "es \<noteq> [] \<Longrightarrow> chain c (es @ [e]) = BinaryExpr (combinator_symbol c) (chain c es) e"
  by (cases es) (simp_all add: chain_def)

lemma logical_collects:
  "LOGICAL_OPERATOR_MAP oper = Some lop \<Longrightarrow>
     transformAST uu (BinaryExpr oper l r) ctx =
       (let (items, c) = collectOperands uu lop (BinaryExpr oper l r) ctx in make_group uu lop items c)"
  by (simp add: collect_same split: prod.split)

lemma chain_collects:
  "list_all2 (loads uu) its es \<Longrightarrow> es \<noteq> [] \<Longrightarrow>
     \<exists>its' ctx'. collectOperands uu lop (chain lop es) ctx = (its', ctx') \<and>
       erase_items its' = erase_items its \<and> unsupportedFeatures ctx' = unsupportedFeatures ctx"
proof (induction es arbitrary: its ctx rule: rev_induct)
  case (snoc e es)
  from snoc.prems(1) obtain its0 it where its: "its = its0 @ [it]" "list_all2 (loads uu) its0 es" "loads uu it e"
    by (auto simp: list_all2_append2 list_all2_Cons2)
  have last: "\<exists>it' ctx'. collectOperands uu lop e ctx = ([it'], ctx') \<and> erase_items [it'] = erase_items [it] \<and>
      unsupportedFeatures ctx' = unsupportedFeatures ctx" for ctx
  proof -
    from its(3) have "\<not> same_operator lop e" by (simp add: loads_def)
    moreover from its(3) obtain x c where "transformAST uu e ctx = (Some x, c)" "erase_items [x] = erase_items [it]"
        "unsupportedFeatures c = unsupportedFeatures ctx" unfolding loads_def by blast
    ultimately show ?thesis by (simp add: collect_other)
  qed
  show ?case
  proof (cases "es = []")
    case True
    with its last [of ctx] show ?thesis by (auto simp: chain_def)
  next
    case False
    from snoc.IH [OF its(2) False, of ctx] obtain ls c1 where l: "collectOperands uu lop (chain lop es) ctx = (ls, c1)"
        "erase_items ls = erase_items its0" "unsupportedFeatures c1 = unsupportedFeatures ctx"
      by blast
    from last [of c1] l(3) obtain x c2 where "collectOperands uu lop e c1 = ([x], c2)"
        "erase_items [x] = erase_items [it]" "unsupportedFeatures c2 = unsupportedFeatures ctx" by auto
    with l False its(1) show ?thesis
      by (simp add: chain_snoc collect_same combinator_logical erase_items_append)
  qed
qed simp

lemma toggle_group: "toggle_not (GroupItem (FilterGroup i c False cs)) = GroupItem (FilterGroup i c True cs)"
  by simp

lemma tree_loads:
  "loadable g \<Longrightarrow> loads uu (GroupItem g) (group_ast g)"
  "loadable_items cs \<Longrightarrow> list_all2 (loads uu) cs (items_ast cs)"
proof (induction g and cs rule: filter_tree_induct)
  case (Group i c n cs)
  then have items: "list_all2 (loads uu) cs (items_ast cs)" and two: "2 \<le> length cs" by simp_all
  then have two': "2 \<le> length (items_ast cs)" by (simp add: list_all2_lengthD)
  then obtain es e where es: "items_ast cs = es @ [e]" "es \<noteq> []"
    by (cases "items_ast cs" rule: rev_cases) force+
  have "loads uu (GroupItem (FilterGroup i c False cs)) (Parenthesized (chain c (items_ast cs)))"
    unfolding loads_def
  proof (intro conjI allI)
    show "\<not> same_operator lop (Parenthesized (chain c (items_ast cs)))" for lop by (simp add: same_operator_def)
    fix ctx
    from chain_collects [OF items, of c ctx] es obtain its c1
      where col: "collectOperands uu c (chain c (items_ast cs)) ctx = (its, c1)"
        "erase_items its = erase_items cs" "unsupportedFeatures c1 = unsupportedFeatures ctx" by auto
    from arg_cong [OF col(2), of length] two have "2 \<le> length its" by simp
    then have "make_group uu c its c1 = (Some (GroupItem (FilterGroup (uu (drawn c1)) c False its)), snd (next_id uu c1))"
      by (auto simp: make_group_def next_id_def split: list.splits)
    moreover have "chain c (items_ast cs) = BinaryExpr (combinator_symbol c) (chain c es) e"
      using es by (simp add: chain_snoc)
    ultimately have "transformAST uu (chain c (items_ast cs)) ctx =
        (Some (GroupItem (FilterGroup (uu (drawn c1)) c False its)), snd (next_id uu c1))"
      using col(1) by (simp only: logical_collects [OF combinator_logical]) simp
    with col show "\<exists>it' ctx'. transformAST uu (Parenthesized (chain c (items_ast cs))) ctx = (Some it', ctx') \<and>
        erase_items [it'] = erase_items [GroupItem (FilterGroup i c False cs)] \<and>
        unsupportedFeatures ctx' = unsupportedFeatures ctx"
      by simp
  qed
  with not_loads [OF this] show ?case by (cases n) (simp_all add: Let_def)
next
  case (Rule r cs)
  then show ?case by (simp add: rule_loads)
qed simp_all

section \<open>Properties\<close>


definition sample_tree :: FilterGroup where
  "sample_tree = FilterGroup ''g'' Or True
     [RuleItem (new_rule ''1'' ''age'' ''int'' Gte (Num (Fin 18 0)) True),
      GroupItem (FilterGroup ''h'' And False
        [RuleItem (new_rule ''2'' ''city'' ''string'' In (Str ''Bonn, Ulm'') False),
         RuleItem (new_rule ''3'' ''note'' ''string'' IsNull (Str '''') True)])]"


end
