(* ===== verification/Pipeline_Status.thy ===== *)
theory Pipeline_Status
  imports Js_Prelude
begin

text \<open>
  Pipeline statuses and what a user may do in each: the reading of the backend's status text
  (ui/src/types/pipeline.ts) and the action table (ui/src/utils/pipeline-actions.ts).
\<close>

section \<open>Statuses\<close>

datatype PipelineStatus = Starting | Active | Pausing | Paused | Resuming | Stopping | Stopped
  | Terminating | Terminated | Failed

fun status_text :: "PipelineStatus \<Rightarrow> string" where
  "status_text Starting = ''starting''"
| "status_text Active = ''active''"
| "status_text Pausing = ''pausing''"
| "status_text Paused = ''paused''"
| "status_text Resuming = ''resuming''"
| "status_text Stopping = ''stopping''"
| "status_text Stopped = ''stopped''"
| "status_text Terminating = ''terminating''"
| "status_text Terminated = ''terminated''"
| "status_text Failed = ''failed''"

fun lower_first :: "string \<Rightarrow> string" where
  "lower_first [] = []"
| "lower_first (c # cs) = lower_char c # cs"

definition parsePipelineStatus :: "string \<Rightarrow> PipelineStatus" where
  "parsePipelineStatus status =
     (if status = [] \<or> trim status = [] then Active
      else let normalizedStatus = lower_first status
        in if normalizedStatus \<in> {''running'', ''active''} then Active
           else if normalizedStatus \<in> {''created'', ''deploying''} then Starting
           else if normalizedStatus = ''paused'' then Paused
           else if normalizedStatus = ''pausing'' then Pausing
           else if normalizedStatus = ''resuming'' then Resuming
           else if normalizedStatus \<in> {''stopped'', ''terminated'', ''deleted''} then Stopped
           else if normalizedStatus = ''stopping'' then Stopping
           else if normalizedStatus \<in> {''terminating'', ''deleting''} then Terminating
           else if normalizedStatus \<in> {''failed'', ''error'', ''deploy_failed'', ''delete_failed''} then Failed
           else if normalizedStatus = ''no_configuration'' then Active
           else Active)"

section \<open>Actions\<close>

datatype PipelineAction = Edit | Rename | Terminate | Delete | Stop | Resume

record ActionConfig =
  showModal :: bool
  requiresConfirmation :: bool
  warningMessage :: "string option"
  disabledReason :: "string option"
  isDisabled :: bool

definition DEMO_DISABLED_ACTIONS :: "PipelineAction list" where
  "DEMO_DISABLED_ACTIONS = [Stop, Resume, Terminate, Delete, Rename]"

definition baseConfig :: ActionConfig where
  "baseConfig = \<lparr>showModal = False, requiresConfirmation = False, warningMessage = None,
     disabledReason = None, isDisabled = False\<rparr>"

definition disabled_by :: "string \<Rightarrow> ActionConfig" where
  "disabled_by reason = baseConfig\<lparr>isDisabled := True, disabledReason := Some reason\<rparr>"

definition modal :: "string option \<Rightarrow> ActionConfig" where
  "modal warning = baseConfig\<lparr>showModal := True, requiresConfirmation := (warning \<noteq> None),
     warningMessage := warning\<rparr>"

definition edit_warning :: string where
  "edit_warning = ''Editing an active pipeline will temporarily stop event processing while changes are applied. Do you want to continue?''"

definition terminate_warning :: string where
  "terminate_warning = ''This action will terminate the pipeline immediately without processing remaining events.''"

text \<open>The status is optional in the code; an absent one takes the default branches.\<close>

fun getBaseActionConfig :: "PipelineAction \<Rightarrow> PipelineStatus option \<Rightarrow> ActionConfig" where
  "getBaseActionConfig Edit (Some Active) = modal (Some edit_warning)"
| "getBaseActionConfig Edit (Some Paused) = modal None"
| "getBaseActionConfig Edit (Some st) =
     (if st \<in> {Starting, Pausing, Stopping}
      then disabled_by (''Cannot edit pipeline while it'' @ [CHR 0x27] @ ''s '' @ status_text st)
      else baseConfig)"
| "getBaseActionConfig Rename (Some st) =
     (if st \<in> {Active, Paused, Failed, Stopped} then modal None
      else if st \<in> {Starting, Pausing, Stopping}
      then disabled_by (''Cannot rename pipeline while it'' @ [CHR 0x27] @ ''s '' @ status_text st)
      else baseConfig)"
| "getBaseActionConfig Terminate (Some Failed) = disabled_by ''Pipeline is failed, it cannot be terminated''"
| "getBaseActionConfig Terminate (Some Terminating) = disabled_by ''Pipeline is already being terminated''"
| "getBaseActionConfig Terminate (Some Stopped) = disabled_by ''Pipeline is already terminated''"
| "getBaseActionConfig Terminate (Some Terminated) = disabled_by ''Pipeline is already terminated''"
| "getBaseActionConfig Terminate st = modal (Some terminate_warning)"
| "getBaseActionConfig Delete (Some st) =
     (if st \<in> {Stopped, Failed, Terminated} then modal None
      else if st \<in> {Starting, Active, Paused, Pausing, Stopping, Terminating}
      then disabled_by (''Cannot delete pipeline while it'' @ [CHR 0x27] @ ''s '' @ status_text st @ ''. Stop the pipeline first.'')
      else baseConfig)"
| "getBaseActionConfig Stop (Some Active) = modal None"
| "getBaseActionConfig Stop (Some Stopped) = disabled_by ''Pipeline is already stopped''"
| "getBaseActionConfig Stop (Some Stopping) = disabled_by ''Pipeline is already being stopped''"
| "getBaseActionConfig Stop (Some Starting) =
     disabled_by ''Cannot stop a pipeline while it is starting. Please wait for it to become active.''"
| "getBaseActionConfig Stop (Some st) =
     (if st \<in> {Resuming, Terminating, Terminated, Failed}
      then disabled_by (''Cannot stop a '' @ status_text st @ '' pipeline'') else baseConfig)"
| "getBaseActionConfig Resume (Some Active) = disabled_by ''Pipeline is already active''"
| "getBaseActionConfig Resume (Some Starting) = disabled_by ''Pipeline is already starting''"
| "getBaseActionConfig Resume (Some Resuming) = disabled_by ''Pipeline is already being resumed''"
| "getBaseActionConfig Resume (Some st) =
     (if st \<in> {Stopping, Terminating} then disabled_by (''Cannot resume a '' @ status_text st @ '' pipeline'')
      else baseConfig)"
| "getBaseActionConfig _ None = baseConfig"

definition getActionConfig :: "PipelineAction \<Rightarrow> PipelineStatus option \<Rightarrow> bool \<Rightarrow> ActionConfig" where
  "getActionConfig action st demoMode =
     (let config = getBaseActionConfig action st
      in if demoMode \<and> action \<in> set DEMO_DISABLED_ACTIONS
         then config\<lparr>isDisabled := True, disabledReason := Some ''Action disabled in demo mode''\<rparr>
         else config)"

definition shouldShowAction :: "PipelineAction \<Rightarrow> PipelineStatus option \<Rightarrow> bool \<Rightarrow> bool" where
  "shouldShowAction action st demoMode \<longleftrightarrow> \<not> isDisabled (getActionConfig action st demoMode)"

definition getAvailableActions :: "PipelineStatus option \<Rightarrow> bool \<Rightarrow> PipelineAction list" where
  "getAvailableActions st demoMode =
     filter (\<lambda>action. \<not> isDisabled (getActionConfig action st demoMode))
       [Edit, Rename, Terminate, Delete, Stop, Resume]"

definition getVisibleActions :: "PipelineStatus option \<Rightarrow> bool \<Rightarrow> PipelineAction list" where
  "getVisibleActions st demoMode =
     filter (\<lambda>action. shouldShowAction action st demoMode) [Stop, Resume, Terminate, Delete, Rename]"

fun getActionButtonText :: "PipelineAction \<Rightarrow> PipelineStatus option \<Rightarrow> string" where
  "getActionButtonText Stop st = (if st = Some Stopping then ''Stopping...'' else ''Stop'')"
| "getActionButtonText Resume st = (if st = Some Resuming then ''Resuming...'' else ''Resume'')"
| "getActionButtonText Terminate st = (if st = Some Terminating then ''Terminating...'' else ''Terminate'')"
| "getActionButtonText Delete st = ''Delete''"
| "getActionButtonText Edit st = ''Edit''"
| "getActionButtonText Rename st = ''Rename''"

definition shouldDisablePipelineOperation :: "PipelineStatus option \<Rightarrow> bool" where
  "shouldDisablePipelineOperation st \<longleftrightarrow>
     st = Some Starting \<or> st = Some Terminating \<or> st = Some Terminated \<or> st = Some Stopping"

definition countPipelinesBlockingCreation :: "string option list \<Rightarrow> nat" where
  "countPipelinesBlockingCreation statuses =
     length (filter (\<lambda>s. s = Some (status_text Starting) \<or> s = Some (status_text Active) \<or>
       s = Some (status_text Paused) \<or> s = Some (status_text Pausing) \<or> s = Some (status_text Stopping)) statuses)"

section \<open>Properties\<close>

lemma of_char_lower: "of_char (lower_char c) = (let n = of_char c :: nat in
    if 65 \<le> n \<and> n \<le> 90 \<or> 192 \<le> n \<and> n \<le> 222 \<and> n \<noteq> 215 then n + 32 else n)"
  by (auto simp: lower_char_def Let_def)

lemma lower_char_idem [simp]: "lower_char (lower_char c) = lower_char c"
  by (simp add: of_char_eq_iff [symmetric, where ?'a = nat] of_char_lower Let_def)

lemma lower_char_ws [simp]: "is_ws (lower_char c) = is_ws c"
  by (auto simp: is_ws_def of_char_lower Let_def)

lemma lower_first_idem [simp]: "lower_first (lower_first s) = lower_first s"
  by (cases s) auto

lemma trim_lower_first: "trim (lower_first s) = [] \<longleftrightarrow> trim s = []"
proof -
  have "trim t = [] \<longleftrightarrow> list_all is_ws t" for t
  proof -
    have "dropWhile is_ws (rev (dropWhile is_ws t)) = [] \<longleftrightarrow> list_all is_ws (dropWhile is_ws t)"
      by (auto simp: dropWhile_eq_Nil_conv list_all_iff)
    also have "\<dots> \<longleftrightarrow> dropWhile is_ws t = []"
      by (metis dropWhile_eq_Nil_conv hd_dropWhile list.set_sel(1) list_all_iff set_dropWhileD)
    finally show ?thesis by (auto simp: trim_def dropWhile_eq_Nil_conv list_all_iff)
  qed
  then show ?thesis by (cases s) auto
qed

text \<open>
  The backend's status text is read whatever the case of its first letter; only the texts
  of a finished or failed pipeline end polling; \<open>terminated\<close> is never read; and the text of a
  UI status is read back as that status, except \<open>starting\<close>, which is read as active, and
  \<open>terminated\<close>, which is read as stopped.
\<close>

theorem status_reading:
  "parsePipelineStatus (lower_first s) = parsePipelineStatus s \<and>
   parsePipelineStatus s \<noteq> Terminated \<and>
   (parsePipelineStatus s = Stopped \<longleftrightarrow> lower_first s \<in> {''stopped'', ''terminated'', ''deleted''}) \<and>
   (parsePipelineStatus s = Failed \<longleftrightarrow>
      lower_first s \<in> {''failed'', ''error'', ''deploy_failed'', ''delete_failed''}) \<and>
   parsePipelineStatus (status_text st) =
     (if st = Starting then Active else if st = Terminated then Stopped else st)"
proof (intro conjI)
  have nil: "lower_first s = [] \<longleftrightarrow> s = []" by (cases s) auto
  show "parsePipelineStatus (lower_first s) = parsePipelineStatus s"
    by (simp add: parsePipelineStatus_def trim_lower_first nil)
  show "parsePipelineStatus s \<noteq> Terminated" by (simp add: parsePipelineStatus_def Let_def)
  have blank: "trim s \<noteq> [] \<and> s \<noteq> []" if "lower_first s \<in> {''stopped'', ''terminated'', ''deleted'', ''failed'',
      ''error'', ''deploy_failed'', ''delete_failed''}"
  proof -
    from that have "trim (lower_first s) \<noteq> []" by (auto simp: trim_def is_ws_def)
    with that show ?thesis by (auto simp: trim_lower_first)
  qed
  show "parsePipelineStatus s = Stopped \<longleftrightarrow> lower_first s \<in> {''stopped'', ''terminated'', ''deleted''}"
    using blank by (auto simp: parsePipelineStatus_def Let_def split: if_splits)
  show "parsePipelineStatus s = Failed \<longleftrightarrow>
      lower_first s \<in> {''failed'', ''error'', ''deploy_failed'', ''delete_failed''}"
    using blank by (auto simp: parsePipelineStatus_def Let_def split: if_splits)
  show "parsePipelineStatus (status_text st) =
     (if st = Starting then Active else if st = Terminated then Stopped else st)"
    by (cases st) (simp_all add: parsePipelineStatus_def trim_def is_ws_def lower_char_def)
qed

text \<open>
  The action table: what is offered in each status, that a disabled action has a reason and
  outside demo mode no modal, that a confirmation has a warning, and that demo mode leaves only
  editing. A pipeline that is resuming can be deleted, although no other running one can.
\<close>

theorem action_table:
  "getVisibleActions (Some st) False =
     (case st of
        Starting \<Rightarrow> [Terminate]
      | Active \<Rightarrow> [Stop, Terminate, Rename]
      | Pausing \<Rightarrow> [Stop, Resume, Terminate]
      | Paused \<Rightarrow> [Stop, Resume, Terminate, Rename]
      | Resuming \<Rightarrow> [Terminate, Delete, Rename]
      | Stopping \<Rightarrow> [Terminate]
      | Stopped \<Rightarrow> [Resume, Delete, Rename]
      | Terminating \<Rightarrow> [Rename]
      | Terminated \<Rightarrow> [Resume, Delete, Rename]
      | Failed \<Rightarrow> [Resume, Delete, Rename]) \<and>
   (isDisabled (getActionConfig a ost demo) \<longleftrightarrow> disabledReason (getActionConfig a ost demo) \<noteq> None) \<and>
   (\<not> demo \<and> isDisabled (getActionConfig a ost demo) \<longrightarrow> \<not> showModal (getActionConfig a ost demo)) \<and>
   (requiresConfirmation (getActionConfig a ost demo) \<longrightarrow> warningMessage (getActionConfig a ost demo) \<noteq> None) \<and>
   set (getAvailableActions ost True) \<subseteq> {Edit} \<and>
   (Edit \<in> set (getAvailableActions (Some st) demo) \<longleftrightarrow> st \<notin> {Starting, Pausing, Stopping})"
proof (intro conjI)
  note defs = getActionConfig_def disabled_by_def modal_def baseConfig_def DEMO_DISABLED_ACTIONS_def
    getAvailableActions_def getVisibleActions_def shouldShowAction_def Let_def
  show "getVisibleActions (Some st) False = (case st of
        Starting \<Rightarrow> [Terminate] | Active \<Rightarrow> [Stop, Terminate, Rename]
      | Pausing \<Rightarrow> [Stop, Resume, Terminate] | Paused \<Rightarrow> [Stop, Resume, Terminate, Rename]
      | Resuming \<Rightarrow> [Terminate, Delete, Rename] | Stopping \<Rightarrow> [Terminate]
      | Stopped \<Rightarrow> [Resume, Delete, Rename] | Terminating \<Rightarrow> [Rename]
      | Terminated \<Rightarrow> [Resume, Delete, Rename] | Failed \<Rightarrow> [Resume, Delete, Rename])"
    by (cases st; simp add: defs)
  show "isDisabled (getActionConfig a ost demo) \<longleftrightarrow> disabledReason (getActionConfig a ost demo) \<noteq> None"
    "\<not> demo \<and> isDisabled (getActionConfig a ost demo) \<longrightarrow> \<not> showModal (getActionConfig a ost demo)"
    "requiresConfirmation (getActionConfig a ost demo) \<longrightarrow> warningMessage (getActionConfig a ost demo) \<noteq> None"
    by (cases "(a, ost)" rule: getBaseActionConfig.cases; simp add: defs)+
  show "set (getAvailableActions ost True) \<subseteq> {Edit}" by (auto simp: defs)
  show "Edit \<in> set (getAvailableActions (Some st) demo) \<longleftrightarrow> st \<notin> {Starting, Pausing, Stopping}"
    by (cases st; simp add: defs)
qed


lemma action_table_witness: "getVisibleActions (Some Resuming) False = [Terminate, Delete, Rename]"
  using action_table [of Resuming Edit None False] by simp

end
