(* ===== verification/Status_Manager.thy ===== *)
theory Status_Manager
  imports Pipeline_Status "HOL-Library.AList"
begin

text \<open>
  The polling of pipeline statuses (ui/src/services/pipeline-status-manager.ts). Trackers are
  objects with identity: a health request in flight holds one that may have been replaced in the
  map. So the state has a heap of trackers (the address is the position), the map from pipeline
  ids to addresses, the pending timers and the requests in flight. One step is one run of the
  event loop; an \<open>await\<close> ends a step and the response is a later one. The callbacks are recorded
  in the order they are called, with the address of their tracker; they are assumed not to call
  the manager back or to throw, as those of the state manager do not. Times are milliseconds.
\<close>

section \<open>State\<close>

record Tracker =
  pipelineId :: string
  maxDurationMinutes :: "nat option"
  currentStatus :: "PipelineStatus option"
  elapsedTime :: nat
  timeoutId :: "nat option"
  isActive :: bool
  errorCount :: nat
  lastErrorTime :: int
  operationName :: string

datatype Callback =
    OnStatusChange nat string PipelineStatus "PipelineStatus option"
  | OnError nat string
  | OnTimeout nat string
  | OnDestroyed nat string

record ManagerStats =
  activeTrackers :: nat
  totalPollingOperations :: nat
  backendSyncEnabled :: bool
  lastBackendSync :: "int option"
  orphanedPipelinesDetected :: nat

record Manager =
  heap :: "Tracker list"
  trackers :: "(string \<times> nat) list"
  timers :: "(nat \<times> nat \<times> nat) list"
  next_timer :: nat
  inflight :: "nat list"
  stats :: ManagerStats
  backendSyncInterval :: bool
  syncs :: "string list list"
  called :: "Callback list"

definition MAX_ERROR_COUNT :: nat where "MAX_ERROR_COUNT = 5"
definition ERROR_BACKOFF_TIME :: int where "ERROR_BACKOFF_TIME = 30000"
definition DEFAULT_MAX_DURATION :: nat where "DEFAULT_MAX_DURATION = 30"

definition initialManager :: Manager where
  "initialManager =
     \<lparr>heap = [], trackers = [], timers = [], next_timer = 1, inflight = [],
      stats = \<lparr>activeTrackers = 0, totalPollingOperations = 0, backendSyncEnabled = True,
        lastBackendSync = None, orphanedPipelinesDetected = 0\<rparr>,
      backendSyncInterval = True, syncs = [], called = []\<rparr>"

definition upd_tracker :: "nat \<Rightarrow> (Tracker \<Rightarrow> Tracker) \<Rightarrow> Manager \<Rightarrow> Manager" where
  "upd_tracker a f m = m\<lparr>heap := (heap m)[a := f (heap m ! a)]\<rparr>"

definition notify :: "Callback \<Rightarrow> Manager \<Rightarrow> Manager" where
  "notify c m = m\<lparr>called := called m @ [c]\<rparr>"

definition set_stats :: "(ManagerStats \<Rightarrow> ManagerStats) \<Rightarrow> Manager \<Rightarrow> Manager" where
  "set_stats f m = m\<lparr>stats := f (stats m)\<rparr>"

section \<open>Operations\<close>

definition getNextInterval :: "nat \<Rightarrow> nat" where
  "getNextInterval elapsed =
     (if elapsed < 60000 then 2000
      else if elapsed < 120000 then 5000
      else if elapsed < 180000 then 10000
      else if elapsed < 240000 then 15000 else 30000)"

definition isFinalStatus :: "PipelineStatus \<Rightarrow> bool" where
  "isFinalStatus st \<longleftrightarrow> st = Stopped \<or> st = Failed"

text \<open>The limit in milliseconds: zero and absent durations fall back to the default.\<close>

definition maxDuration :: "Tracker \<Rightarrow> nat" where
  "maxDuration tr =
     (case maxDurationMinutes tr of
        Some (Suc k) \<Rightarrow> Suc k | _ \<Rightarrow> DEFAULT_MAX_DURATION) * 60 * 1000"

definition scheduleNextCheck :: "nat \<Rightarrow> Manager \<Rightarrow> Manager" where
  "scheduleNextCheck a m =
     (if \<not> isActive (heap m ! a) then m
      else let t = next_timer m; nextInterval = getNextInterval (elapsedTime (heap m ! a))
           in upd_tracker a (timeoutId_update (\<lambda>_. Some t))
                (m\<lparr>timers := timers m @ [(t, a, nextInterval)], next_timer := t + 1\<rparr>))"

definition destroyTracker :: "nat \<Rightarrow> Manager \<Rightarrow> Manager" where
  "destroyTracker a m =
     (let m1 = upd_tracker a (isActive_update (\<lambda>_. False)) m;
          m2 = (case timeoutId (heap m1 ! a) of
                  None \<Rightarrow> m1
                | Some t \<Rightarrow> upd_tracker a (timeoutId_update (\<lambda>_. None))
                              (m1\<lparr>timers := filter (\<lambda>x. fst x \<noteq> t) (timers m1)\<rparr>))
      in notify (OnDestroyed a (pipelineId (heap m ! a))) m2)"

definition stopTracking :: "string \<Rightarrow> Manager \<Rightarrow> bool \<times> Manager" where
  "stopTracking i m =
     (case map_of (trackers m) i of
        None \<Rightarrow> (False, m)
      | Some a \<Rightarrow>
          (let m1 = destroyTracker a m; m2 = m1\<lparr>trackers := AList.delete i (trackers m1)\<rparr>
           in (True, set_stats (activeTrackers_update (\<lambda>_. length (trackers m2))) m2)))"

definition stop :: "string \<Rightarrow> Manager \<Rightarrow> Manager" where
  "stop i m = snd (stopTracking i m)"

definition killAllTracking :: "Manager \<Rightarrow> Manager" where
  "killAllTracking m =
     (let m1 = fold (\<lambda>x. destroyTracker (snd x)) (trackers m) m
      in set_stats (activeTrackers_update (\<lambda>_. 0)) (m1\<lparr>trackers := []\<rparr>))"

definition new_tracker :: "string \<Rightarrow> nat option \<Rightarrow> string option \<Rightarrow> Tracker" where
  "new_tracker i maxMinutes name =
     \<lparr>pipelineId = i, maxDurationMinutes = maxMinutes, currentStatus = None, elapsedTime = 0,
      timeoutId = None, isActive = True, errorCount = 0, lastErrorTime = 0,
      operationName = (case name of Some n \<Rightarrow> if n = [] then ''status check'' else n | None \<Rightarrow> ''status check'')\<rparr>"

definition trackPipeline :: "string \<Rightarrow> nat option \<Rightarrow> string option \<Rightarrow> Manager \<Rightarrow> Manager" where
  "trackPipeline i maxMinutes name m =
     (let m1 = stop i m; a = length (heap m1);
          m2 = m1\<lparr>heap := heap m1 @ [new_tracker i maxMinutes name], trackers := trackers m1 @ [(i, a)]\<rparr>;
          m3 = set_stats (activeTrackers_update (\<lambda>_. length (trackers m2))) m2
      in scheduleNextCheck a m3)"

text \<open>The callback of the timer of a tracker, up to the request it sends.\<close>

definition timerFires :: "nat \<Rightarrow> nat \<Rightarrow> nat \<Rightarrow> int \<Rightarrow> Manager \<Rightarrow> Manager" where
  "timerFires t a interval now m =
     (let m0 = m\<lparr>timers := removeAll (t, a, interval) (timers m)\<rparr>
      in if \<not> isActive (heap m0 ! a) then m0
         else let m1 = upd_tracker a (elapsedTime_update (\<lambda>e. e + interval)) m0; tr = heap m1 ! a
           in if maxDuration tr \<le> elapsedTime tr
              then stop (pipelineId tr) (notify (OnTimeout a (pipelineId tr)) m1)
              else if MAX_ERROR_COUNT \<le> errorCount tr \<and> now - lastErrorTime tr < ERROR_BACKOFF_TIME
              then scheduleNextCheck a m1
              else set_stats (totalPollingOperations_update Suc) (m1\<lparr>inflight := inflight m1 @ [a]\<rparr>))"

text \<open>The rest of \<open>performStatusCheck\<close>, then of the timer's callback, when the response is there.\<close>

definition healthOk :: "nat \<Rightarrow> string \<Rightarrow> Manager \<Rightarrow> Manager" where
  "healthOk a overall_status m =
     (let newStatus = parsePipelineStatus overall_status; tr = heap m ! a;
          m1 = upd_tracker a (\<lambda>x. x\<lparr>currentStatus := Some newStatus, errorCount := 0\<rparr>) m;
          m2 = (if currentStatus tr \<noteq> Some newStatus
                then notify (OnStatusChange a (pipelineId tr) newStatus (currentStatus tr)) m1 else m1)
      in if isFinalStatus newStatus then stop (pipelineId tr) m2 else m2)"

definition healthFailed :: "nat \<Rightarrow> int \<Rightarrow> Manager \<Rightarrow> Manager" where
  "healthFailed a now m =
     (let m1 = upd_tracker a (\<lambda>x. x\<lparr>errorCount := errorCount x + 1, lastErrorTime := now\<rparr>) m;
          tr = heap m1 ! a; m2 = notify (OnError a (pipelineId tr)) m1
      in if MAX_ERROR_COUNT \<le> errorCount tr then stop (pipelineId tr) m2 else m2)"

definition healthArrives :: "nat \<Rightarrow> string option \<Rightarrow> int \<Rightarrow> Manager \<Rightarrow> Manager" where
  "healthArrives a res now m =
     (let m0 = m\<lparr>inflight := remove1 a (inflight m)\<rparr>;
          m1 = (case res of Some s \<Rightarrow> healthOk a s m0 | None \<Rightarrow> healthFailed a now m0)
      in scheduleNextCheck a m1)"

definition getTrackingStatus :: "string \<Rightarrow> Manager \<Rightarrow> (bool \<times> PipelineStatus option \<times> nat \<times> string) option" where
  "getTrackingStatus i m =
     map_option (\<lambda>a. let tr = heap m ! a in (isActive tr, currentStatus tr, elapsedTime tr, operationName tr))
       (map_of (trackers m) i)"

subsection \<open>Backend synchronisation\<close>

definition setBackendSyncEnabled :: "bool \<Rightarrow> Manager \<Rightarrow> Manager" where
  "setBackendSyncEnabled en m =
     (set_stats (backendSyncEnabled_update (\<lambda>_. en)) m)\<lparr>backendSyncInterval := en\<rparr>"

definition detectOrphans :: "Manager \<Rightarrow> Manager" where
  "detectOrphans m =
     (let trackedIds = map fst (trackers m)
      in if trackedIds = [] then m else m\<lparr>syncs := syncs m @ [trackedIds]\<rparr>)"

definition syncTick :: "Manager \<Rightarrow> Manager" where
  "syncTick m =
     (if backendSyncInterval m \<and> backendSyncEnabled (stats m) \<and> trackers m \<noteq> [] then detectOrphans m else m)"

definition stop_orphan :: "string \<Rightarrow> Manager \<Rightarrow> Manager" where
  "stop_orphan i m =
     (case map_of (trackers m) i of None \<Rightarrow> m | Some a \<Rightarrow> stop i (notify (OnError a i) m))"

definition pipelinesArrive :: "string list \<Rightarrow> string list option \<Rightarrow> int \<Rightarrow> Manager \<Rightarrow> Manager" where
  "pipelinesArrive trackedIds res now m =
     (let m0 = m\<lparr>syncs := remove1 trackedIds (syncs m)\<rparr>
      in case res of
           None \<Rightarrow> m0
         | Some existingIds \<Rightarrow>
             (let orphaned = filter (\<lambda>i. i \<notin> set existingIds) trackedIds;
                  m1 = (if orphaned \<noteq> []
                        then set_stats (orphanedPipelinesDetected_update (\<lambda>k. k + length orphaned))
                               (fold stop_orphan orphaned m0)
                        else m0)
              in set_stats (lastBackendSync_update (\<lambda>_. Some now)) m1))"

section \<open>Steps\<close>

text \<open>A step is labelled with the tracker whose timer fires, if one does; a run lists the labels.\<close>

inductive manager_step :: "Manager \<Rightarrow> nat option \<Rightarrow> Manager \<Rightarrow> bool" where
  track: "manager_step m None (trackPipeline i maxMinutes name m)"
| stop: "manager_step m None (stop i m)"
| kill: "manager_step m None (killAllTracking m)"
| fire: "(t, a, interval) \<in> set (timers m) \<Longrightarrow> manager_step m (Some a) (timerFires t a interval now m)"
| health: "a \<in> set (inflight m) \<Longrightarrow> manager_step m None (healthArrives a res now m)"
| sync: "manager_step m None (setBackendSyncEnabled en m)"
| tick: "manager_step m None (syncTick m)"
| sync_now: "manager_step m None (detectOrphans m)"
| pipelines: "ids \<in> set (syncs m) \<Longrightarrow> manager_step m None (pipelinesArrive ids res now m)"

inductive manager_run :: "nat list \<Rightarrow> Manager \<Rightarrow> bool" where
  initial: "manager_run [] initialManager"
| quiet: "manager_run as m \<Longrightarrow> manager_step m None m' \<Longrightarrow> manager_run as m'"
| fires: "manager_run as m \<Longrightarrow> manager_step m (Some a) m' \<Longrightarrow> manager_run (as @ [a]) m'"

definition manager_reachable :: "Manager \<Rightarrow> bool" where
  "manager_reachable m \<longleftrightarrow> (\<exists>as. manager_run as m)"

section \<open>The invariant\<close>

text \<open>
  \<open>managed X m\<close>: the map and the heap agree, and so do the timers. The trackers of \<open>X\<close> are
  those whose callback is running: only they may be active with neither a pending timer nor a
  request in flight.
\<close>

definition waiting :: "Manager \<Rightarrow> nat \<Rightarrow> bool" where
  "waiting m a \<longleftrightarrow> a \<in> (fst \<circ> snd) ` set (timers m)"

definition within_limits :: "Tracker \<Rightarrow> bool" where
  "within_limits tr \<longleftrightarrow> errorCount tr < MAX_ERROR_COUNT \<and> elapsedTime tr < maxDuration tr"

definition registered :: "Manager \<Rightarrow> bool" where
  "registered m \<longleftrightarrow>
     distinct (map fst (trackers m)) \<and> activeTrackers (stats m) = length (trackers m) \<and>
     (\<forall>(i, a) \<in> set (trackers m). a < length (heap m) \<and> pipelineId (heap m ! a) = i \<and> isActive (heap m ! a)) \<and>
     (\<forall>a < length (heap m). isActive (heap m ! a) \<longrightarrow> (pipelineId (heap m ! a), a) \<in> set (trackers m))"

definition timed :: "Manager \<Rightarrow> bool" where
  "timed m \<longleftrightarrow>
     distinct (map fst (timers m)) \<and>
     (\<forall>(t, a, interval) \<in> set (timers m). a < length (heap m) \<and>
        timeoutId (heap m ! a) = Some t \<and> isActive (heap m ! a) \<and>
        interval = getNextInterval (elapsedTime (heap m ! a))) \<and>
     (\<forall>a < length (heap m). \<forall>t. timeoutId (heap m ! a) = Some t \<longrightarrow>
        t < next_timer m \<and> (\<forall>b < length (heap m). timeoutId (heap m ! b) = Some t \<longrightarrow> b = a))"

definition polled :: "nat set \<Rightarrow> Manager \<Rightarrow> bool" where
  "polled X m \<longleftrightarrow>
     distinct (inflight m) \<and> (\<forall>a \<in> set (inflight m). a < length (heap m)) \<and>
     (\<forall>a < length (heap m). isActive (heap m ! a) \<longrightarrow>
        (if a \<in> X then \<not> waiting m a \<and> a \<notin> set (inflight m)
         else within_limits (heap m ! a) \<and> waiting m a = (a \<notin> set (inflight m))))"

definition managed :: "nat set \<Rightarrow> Manager \<Rightarrow> bool" where
  "managed X m \<longleftrightarrow> registered m \<and> timed m \<and> polled X m"

lemmas manager_defs = upd_tracker_def notify_def set_stats_def

lemma heap_upd [simp]:
  "heap (notify c m) = heap m" "heap (set_stats f m) = heap m"
  "trackers (notify c m) = trackers m" "trackers (set_stats f m) = trackers m"
  "trackers (upd_tracker a g m) = trackers m"
  "timers (notify c m) = timers m" "timers (set_stats f m) = timers m" "timers (upd_tracker a g m) = timers m"
  "inflight (notify c m) = inflight m" "inflight (set_stats f m) = inflight m"
  "inflight (upd_tracker a g m) = inflight m"
  "next_timer (notify c m) = next_timer m" "next_timer (set_stats f m) = next_timer m"
  "next_timer (upd_tracker a g m) = next_timer m"
  "stats (notify c m) = stats m" "stats (upd_tracker a g m) = stats m" "stats (set_stats f m) = f (stats m)"
  "heap (upd_tracker a g m) = (heap m)[a := g (heap m ! a)]"
  by (simp_all add: manager_defs)

lemma waiting_upd [simp]:
  "waiting (notify c m) = waiting m" "waiting (set_stats f m) = waiting m" "waiting (upd_tracker a g m) = waiting m"
  by (simp_all add: waiting_def fun_eq_iff)

lemma managed_notify [simp]: "managed X (notify c m) = managed X m"
  by (simp add: managed_def registered_def timed_def polled_def)

lemma managed_stats: "activeTrackers (f (stats m)) = activeTrackers (stats m) \<Longrightarrow> managed X (set_stats f m) = managed X m"
  by (simp add: managed_def registered_def timed_def polled_def)

lemma parts_upd [simp]:
  "timed (m\<lparr>trackers := x\<rparr>) = timed m" "timed (m\<lparr>inflight := y\<rparr>) = timed m"
  "timed (set_stats f m) = timed m" "timed (notify c m) = timed m"
  "polled X (m\<lparr>trackers := x\<rparr>) = polled X m" "polled X (set_stats f m) = polled X m" "polled X (notify c m) = polled X m"
  "waiting (m\<lparr>trackers := x\<rparr>) = waiting m" "waiting (m\<lparr>inflight := y\<rparr>) = waiting m"
  "registered (m\<lparr>inflight := y\<rparr>) = registered m" "registered (m\<lparr>timers := z\<rparr>) = registered m"
  "registered (notify c m) = registered m"
  by (simp_all add: timed_def polled_def registered_def waiting_def fun_eq_iff)

lemma others_upd [simp]:
  "managed X (m\<lparr>syncs := x\<rparr>) = managed X m" "managed X (m\<lparr>backendSyncInterval := b\<rparr>) = managed X m"
  by (simp_all add: managed_def timed_def polled_def registered_def waiting_def)

text \<open>The one active tracker of a pipeline.\<close>

lemma registered_unique:
  "registered m \<Longrightarrow> a < length (heap m) \<Longrightarrow> isActive (heap m ! a) \<Longrightarrow> map_of (trackers m) (pipelineId (heap m ! a)) = Some a"
  by (auto simp: registered_def)

lemma timed_timer:
  "timed m \<Longrightarrow> (t, a, i) \<in> set (timers m) \<Longrightarrow>
     a < length (heap m) \<and> timeoutId (heap m ! a) = Some t \<and> isActive (heap m ! a) \<and>
     i = getNextInterval (elapsedTime (heap m ! a))"
  unfolding timed_def by blast

lemma timed_fresh: "timed m \<Longrightarrow> a < length (heap m) \<Longrightarrow> timeoutId (heap m ! a) = Some t \<Longrightarrow> t < next_timer m"
  unfolding timed_def by blast

lemma timed_inj:
  "timed m \<Longrightarrow> a < length (heap m) \<Longrightarrow> b < length (heap m) \<Longrightarrow> timeoutId (heap m ! a) = Some t \<Longrightarrow>
     timeoutId (heap m ! b) = Some t \<Longrightarrow> b = a"
  unfolding timed_def by blast

lemma timed_distinct: "timed m \<Longrightarrow> distinct (map fst (timers m))"
  by (simp add: timed_def)

lemma destroy_heap:
  assumes "a < length (heap m)"
  shows "heap (destroyTracker a m) = (heap m)[a := (heap m ! a)\<lparr>isActive := False, timeoutId := None\<rparr>]"
    and "trackers (destroyTracker a m) = trackers m" and "inflight (destroyTracker a m) = inflight m"
    and "next_timer (destroyTracker a m) = next_timer m" and "stats (destroyTracker a m) = stats m"
  using assms by (auto simp: destroyTracker_def Let_def split: option.split)
   (cases "heap m ! a"; simp)+

lemma destroy_timers:
  assumes "timed m" and "a < length (heap m)"
  shows "set (timers (destroyTracker a m)) = {x \<in> set (timers m). fst (snd x) \<noteq> a} \<and>
    distinct (map fst (timers (destroyTracker a m)))"
proof (cases "timeoutId (heap m ! a)")
  case None
  have "fst (snd x) \<noteq> a" if x: "x \<in> set (timers m)" for x
    using timed_timer [OF assms(1), of "fst x" "fst (snd x)" "snd (snd x)"] x None by auto
  moreover have "timers (destroyTracker a m) = timers m"
    using None assms(2) by (simp add: destroyTracker_def Let_def)
  ultimately show ?thesis using timed_distinct [OF assms(1)] by auto
next
  case (Some t)
  have "fst x \<noteq> t \<longleftrightarrow> fst (snd x) \<noteq> a" if x: "x \<in> set (timers m)" for x
  proof -
    obtain t' b i where xeq: "x = (t', b, i)" by (cases x)
    with timed_timer [OF assms(1), of t' b i] x
    have b: "b < length (heap m)" "timeoutId (heap m ! b) = Some t'" by simp_all
    with timed_inj [OF assms b(1) Some] Some xeq show ?thesis by (cases "t' = t") auto
  qed
  moreover have "timers (destroyTracker a m) = filter (\<lambda>x. fst x \<noteq> t) (timers m)"
    using Some assms(2) by (simp add: destroyTracker_def Let_def)
  ultimately show ?thesis using timed_distinct [OF assms(1)] by (auto simp: distinct_map_filter)
qed

lemma timedI:
  assumes "distinct (map fst (timers m))"
    and "\<And>t a i. (t, a, i) \<in> set (timers m) \<Longrightarrow> a < length (heap m) \<and> timeoutId (heap m ! a) = Some t \<and>
      isActive (heap m ! a) \<and> i = getNextInterval (elapsedTime (heap m ! a))"
    and "\<And>a t. a < length (heap m) \<Longrightarrow> timeoutId (heap m ! a) = Some t \<Longrightarrow> t < next_timer m"
    and "\<And>a b t. a < length (heap m) \<Longrightarrow> b < length (heap m) \<Longrightarrow> timeoutId (heap m ! a) = Some t \<Longrightarrow>
      timeoutId (heap m ! b) = Some t \<Longrightarrow> b = a"
  shows "timed m"
  unfolding timed_def using assms by blast

lemma destroy_timed:
  assumes "timed m" and "a < length (heap m)"
  shows "timed (destroyTracker a m)"
proof (rule timedI)
  show "distinct (map fst (timers (destroyTracker a m)))" using destroy_timers [OF assms] by blast
  show "b < length (heap (destroyTracker a m)) \<and> timeoutId (heap (destroyTracker a m) ! b) = Some t \<and>
      isActive (heap (destroyTracker a m) ! b) \<and> i = getNextInterval (elapsedTime (heap (destroyTracker a m) ! b))"
    if "(t, b, i) \<in> set (timers (destroyTracker a m))" for t b i
    using that destroy_timers [OF assms] timed_timer [OF assms(1), of t b i] assms(2) by (auto simp: destroy_heap)
  show "t < next_timer (destroyTracker a m)"
    if "b < length (heap (destroyTracker a m))" "timeoutId (heap (destroyTracker a m) ! b) = Some t" for b t
    using that timed_fresh [OF assms(1), of b t] assms(2) by (cases "b = a") (simp_all add: destroy_heap)
  show "c = b" if "b < length (heap (destroyTracker a m))" "c < length (heap (destroyTracker a m))"
    "timeoutId (heap (destroyTracker a m) ! b) = Some t" "timeoutId (heap (destroyTracker a m) ! c) = Some t" for b c t
    using that timed_inj [OF assms(1), of b c t] assms(2) by (cases "b = a"; cases "c = a") (simp_all add: destroy_heap)
qed

lemma destroy_waiting:
  assumes "timed m" and "a < length (heap m)"
  shows "waiting (destroyTracker a m) b \<longleftrightarrow> waiting m b \<and> b \<noteq> a"
proof -
  have "set (timers (destroyTracker a m)) = {x \<in> set (timers m). fst (snd x) \<noteq> a}"
    using destroy_timers [OF assms] by blast
  then show ?thesis unfolding waiting_def by auto
qed

lemma polled_active:
  "polled X m \<Longrightarrow> b < length (heap m) \<Longrightarrow> isActive (heap m ! b) \<Longrightarrow>
     (if b \<in> X then \<not> waiting m b \<and> b \<notin> set (inflight m)
      else within_limits (heap m ! b) \<and> waiting m b = (b \<notin> set (inflight m)))"
  by (simp add: polled_def)

lemma polledI:
  assumes "distinct (inflight m)" and "\<And>a. a \<in> set (inflight m) \<Longrightarrow> a < length (heap m)"
    and "\<And>b. b < length (heap m) \<Longrightarrow> isActive (heap m ! b) \<Longrightarrow>
      (if b \<in> X then \<not> waiting m b \<and> b \<notin> set (inflight m)
       else within_limits (heap m ! b) \<and> waiting m b = (b \<notin> set (inflight m)))"
  shows "polled X m"
  using assms by (simp add: polled_def)

lemma polled_inflight: "polled X m \<Longrightarrow> distinct (inflight m) \<and> (\<forall>a \<in> set (inflight m). a < length (heap m))"
  by (simp add: polled_def)

lemma destroy_polled:
  assumes "timed m" and "polled X m" and "a < length (heap m)"
  shows "polled X (destroyTracker a m)"
proof (rule polledI)
  fix b assume "b < length (heap (destroyTracker a m))" "isActive (heap (destroyTracker a m) ! b)"
  with assms(3) have "b < length (heap m)" "isActive (heap m ! b)" "b \<noteq> a"
    by (cases "b = a"; simp add: destroy_heap)+
  with polled_active [OF assms(2)] assms show "if b \<in> X then \<not> waiting (destroyTracker a m) b \<and>
        b \<notin> set (inflight (destroyTracker a m))
      else within_limits (heap (destroyTracker a m) ! b) \<and>
        waiting (destroyTracker a m) b = (b \<notin> set (inflight (destroyTracker a m)))"
    by (simp add: destroy_heap destroy_waiting)
qed (use polled_inflight [OF assms(2)] assms(3) in \<open>simp_all add: destroy_heap\<close>)

section \<open>Each operation keeps it\<close>

lemma registered_entry:
  "registered m \<Longrightarrow> (i, a) \<in> set (trackers m) \<Longrightarrow>
     a < length (heap m) \<and> pipelineId (heap m ! a) = i \<and> isActive (heap m ! a)"
  unfolding registered_def by blast

lemma registered_active:
  "registered m \<Longrightarrow> a < length (heap m) \<Longrightarrow> isActive (heap m ! a) \<Longrightarrow> (pipelineId (heap m ! a), a) \<in> set (trackers m)"
  unfolding registered_def by blast

lemma registered_distinct: "registered m \<Longrightarrow> distinct (map fst (trackers m))"
  by (simp add: registered_def)

lemma registered_count: "registered m \<Longrightarrow> activeTrackers (stats m) = length (trackers m)"
  by (simp add: registered_def)

lemma registeredI:
  assumes "distinct (map fst (trackers m))" and "activeTrackers (stats m) = length (trackers m)"
    and "\<And>i a. (i, a) \<in> set (trackers m) \<Longrightarrow> a < length (heap m) \<and> pipelineId (heap m ! a) = i \<and> isActive (heap m ! a)"
    and "\<And>a. a < length (heap m) \<Longrightarrow> isActive (heap m ! a) \<Longrightarrow> (pipelineId (heap m ! a), a) \<in> set (trackers m)"
  shows "registered m"
  unfolding registered_def using assms by blast

lemma registered_trackers:
  "registered m \<Longrightarrow> map_of (trackers m) i = Some a \<Longrightarrow>
     a < length (heap m) \<and> pipelineId (heap m ! a) = i \<and> isActive (heap m ! a)"
  by (rule registered_entry) (auto dest: map_of_SomeD)

lemma stop_eq:
  "stop i m = (case map_of (trackers m) i of None \<Rightarrow> m
     | Some a \<Rightarrow> set_stats (activeTrackers_update (\<lambda>_. length (AList.delete i (trackers m))))
         ((destroyTracker a m)\<lparr>trackers := AList.delete i (trackers m)\<rparr>))"
  by (auto simp: stop_def stopTracking_def Let_def destroyTracker_def split: option.splits)

lemma stop_managed:
  assumes "managed X m" shows "managed X (stop i m)"
proof (cases "map_of (trackers m) i")
  case None
  with assms show ?thesis by (simp add: stop_eq)
next
  case (Some a)
  let ?d = "destroyTracker a m"
  let ?m = "?d\<lparr>trackers := AList.delete i (trackers m)\<rparr>"
  from assms have m: "registered m" "timed m" "polled X m" by (simp_all add: managed_def)
  from registered_trackers [OF m(1) Some] have a: "a < length (heap m)" "pipelineId (heap m ! a) = i" by simp_all
  have "timed ?d" "polled X ?d" by (rule destroy_timed [OF m(2) a(1)], rule destroy_polled [OF m(2,3) a(1)])
  then have "timed ?m" "polled X ?m" by simp_all
  moreover have "registered (set_stats (activeTrackers_update (\<lambda>_. length (AList.delete i (trackers m)))) ?m)"
  proof (rule registeredI, goal_cases)
    case 1
    then show ?case using registered_distinct [OF m(1)] by (simp add: distinct_delete)
  next
    case (3 j b)
    then have jb: "(j, b) \<in> set (trackers m)" "j \<noteq> i" by (auto simp: AList.delete_eq)
    with registered_entry [OF m(1) jb(1)] a show ?case by (cases "b = a") (simp_all add: destroy_heap)
  next
    case (4 b)
    then have b: "b < length (heap m)" "isActive (heap m ! b)" "b \<noteq> a"
      using a by (cases "b = a"; simp add: destroy_heap)+
    from registered_active [OF m(1) b(1,2)] have "(pipelineId (heap m ! b), b) \<in> set (trackers m)" .
    moreover have "pipelineId (heap m ! b) \<noteq> i"
      using registered_unique [OF m(1) b(1,2)] Some b(3) by auto
    ultimately show ?case using a b by (simp add: destroy_heap AList.delete_eq)
  qed simp
  ultimately show ?thesis using Some by (simp add: stop_eq managed_def)
qed

lemma managedD: "managed X m \<Longrightarrow> registered m \<and> timed m \<and> polled X m"
  by (simp add: managed_def)

text \<open>A callback that is running may change its tracker as long as the map does not notice.\<close>

lemma upd_managed:
  assumes m: "managed {a} m" and a: "a < length (heap m)"
    and f: "pipelineId (f (heap m ! a)) = pipelineId (heap m ! a)" "isActive (f (heap m ! a)) = isActive (heap m ! a)"
      "timeoutId (f (heap m ! a)) = timeoutId (heap m ! a)"
  shows "managed {a} (upd_tracker a f m)"
proof -
  from m have r: "registered m" and t: "timed m" and p: "polled {a} m" by (simp_all add: managed_def)
  have nth: "heap (upd_tracker a f m) ! b = (if b = a then f (heap m ! a) else heap m ! b)" for b
    using a by simp
  have no_timer: "b \<noteq> a" if "(u, b, i) \<in> set (timers m)" for u b i
  proof
    assume "b = a"
    with timed_timer [OF t that] have "isActive (heap m ! a)" by simp
    with polled_active [OF p a] have "\<not> waiting m a" by simp
    with that \<open>b = a\<close> show False by (force simp: waiting_def)
  qed
  have "registered (upd_tracker a f m)"
  proof (rule registeredI)
    show "b < length (heap (upd_tracker a f m)) \<and> pipelineId (heap (upd_tracker a f m) ! b) = j \<and>
        isActive (heap (upd_tracker a f m) ! b)" if "(j, b) \<in> set (trackers (upd_tracker a f m))" for j b
      using registered_entry [OF r, of j b] that f a by (cases "b = a") simp_all
    show "(pipelineId (heap (upd_tracker a f m) ! b), b) \<in> set (trackers (upd_tracker a f m))"
      if "b < length (heap (upd_tracker a f m))" "isActive (heap (upd_tracker a f m) ! b)" for b
      using registered_active [OF r, of b] that f by (cases "b = a") (simp_all add: nth)
  qed (simp_all add: registered_distinct [OF r] registered_count [OF r])
  moreover have "timed (upd_tracker a f m)"
  proof (rule timedI)
    show "b < length (heap (upd_tracker a f m)) \<and> timeoutId (heap (upd_tracker a f m) ! b) = Some u \<and>
        isActive (heap (upd_tracker a f m) ! b) \<and> i = getNextInterval (elapsedTime (heap (upd_tracker a f m) ! b))"
      if "(u, b, i) \<in> set (timers (upd_tracker a f m))" for u b i
      using timed_timer [OF t, of u b i] no_timer [of u b i] that by (simp add: nth)
    show "u < next_timer (upd_tracker a f m)" if "b < length (heap (upd_tracker a f m))"
      "timeoutId (heap (upd_tracker a f m) ! b) = Some u" for b u
      using timed_fresh [OF t, of b u] that f by (cases "b = a") (simp_all add: nth)
    show "c = b" if "b < length (heap (upd_tracker a f m))" "c < length (heap (upd_tracker a f m))"
      "timeoutId (heap (upd_tracker a f m) ! b) = Some u" "timeoutId (heap (upd_tracker a f m) ! c) = Some u" for b c u
      using timed_inj [OF t, of b c u] that f by (cases "b = a"; cases "c = a") (simp_all add: nth)
  qed (simp add: timed_distinct [OF t])
  moreover have "polled {a} (upd_tracker a f m)"
  proof (rule polledI)
    fix b assume b: "b < length (heap (upd_tracker a f m))" "isActive (heap (upd_tracker a f m) ! b)"
    then have "b < length (heap m)" "isActive (heap m ! b)" using f by (cases "b = a"; simp add: nth)+
    from polled_active [OF p this] show "if b \<in> {a} then \<not> waiting (upd_tracker a f m) b \<and>
          b \<notin> set (inflight (upd_tracker a f m))
        else within_limits (heap (upd_tracker a f m) ! b) \<and>
          waiting (upd_tracker a f m) b = (b \<notin> set (inflight (upd_tracker a f m)))"
      by (simp add: nth split: if_splits)
  qed (use polled_inflight [OF p] in simp_all)
  ultimately show ?thesis by (simp add: managed_def)
qed

lemma polled_mono:
  "polled {a} m \<Longrightarrow> (a < length (heap m) \<Longrightarrow> \<not> isActive (heap m ! a)) \<Longrightarrow> polled {} m"
  by (rule polledI) (use polled_inflight in blast, use polled_inflight in blast,
      use polled_active in \<open>metis empty_iff singletonD\<close>)

lemma schedule_managed:
  assumes m: "managed {a} m" and a: "a < length (heap m)" and lim: "isActive (heap m ! a) \<Longrightarrow> within_limits (heap m ! a)"
  shows "managed {} (scheduleNextCheck a m)"
proof (cases "isActive (heap m ! a)")
  case False
  with m polled_mono [of a m] show ?thesis by (simp add: managed_def scheduleNextCheck_def)
next
  case True
  from m have r: "registered m" and t: "timed m" and p: "polled {a} m" by (simp_all add: managed_def)
  let ?u = "next_timer m" and ?n = "scheduleNextCheck a m"
  have n: "heap ?n = (heap m)[a := (heap m ! a)\<lparr>timeoutId := Some ?u\<rparr>]" "trackers ?n = trackers m"
    "timers ?n = timers m @ [(?u, a, getNextInterval (elapsedTime (heap m ! a)))]" "next_timer ?n = ?u + 1"
    "inflight ?n = inflight m" "stats ?n = stats m"
    using True by (simp_all add: scheduleNextCheck_def Let_def upd_tracker_def)
  have nth: "heap ?n ! b = (if b = a then (heap m ! a)\<lparr>timeoutId := Some ?u\<rparr> else heap m ! b)" for b
    using a by (simp add: n)
  from polled_active [OF p a True] have idle: "\<not> waiting m a" "a \<notin> set (inflight m)" by simp_all
  have old: "u < ?u \<and> b \<noteq> a" if "(u, b, i) \<in> set (timers m)" for u b i
  proof
    show "u < ?u" using timed_timer [OF t that] timed_fresh [OF t, of b u] by simp
    show "b \<noteq> a" using that idle(1) by (force simp: waiting_def)
  qed
  have "registered ?n"
  proof (rule registeredI)
    show "b < length (heap ?n) \<and> pipelineId (heap ?n ! b) = j \<and> isActive (heap ?n ! b)"
      if "(j, b) \<in> set (trackers ?n)" for j b
      using registered_entry [OF r, of j b] that a by (cases "b = a") (simp_all add: n)
    show "(pipelineId (heap ?n ! b), b) \<in> set (trackers ?n)" if "b < length (heap ?n)" "isActive (heap ?n ! b)" for b
      using registered_active [OF r, of b] that by (cases "b = a") (simp_all add: nth n)
  qed (simp_all add: n registered_distinct [OF r] registered_count [OF r])
  moreover have "timed ?n"
  proof (rule timedI)
    show "distinct (map fst (timers ?n))" using timed_distinct [OF t] old by (force simp: n)
    show "b < length (heap ?n) \<and> timeoutId (heap ?n ! b) = Some u \<and> isActive (heap ?n ! b) \<and>
        i = getNextInterval (elapsedTime (heap ?n ! b))" if "(u, b, i) \<in> set (timers ?n)" for u b i
    proof (cases "(u, b, i) \<in> set (timers m)")
      case True
      with timed_timer [OF t True] old [OF True] show ?thesis by (simp add: nth) (simp add: n)
    next
      case False
      with that have "u = ?u" "b = a" "i = getNextInterval (elapsedTime (heap m ! a))" by (auto simp: n)
      with True a show ?thesis by (simp add: nth) (simp add: n)
    qed
    show "u < next_timer ?n" if "b < length (heap ?n)" "timeoutId (heap ?n ! b) = Some u" for b u
      using timed_fresh [OF t, of b u] that by (cases "b = a") (auto simp: nth n(4) simp: n(1))
    show "c = b" if "b < length (heap ?n)" "c < length (heap ?n)" "timeoutId (heap ?n ! b) = Some u"
      "timeoutId (heap ?n ! c) = Some u" for b c u
      using timed_inj [OF t, of b c u] timed_fresh [OF t, of b u] timed_fresh [OF t, of c u] that
      by (cases "b = a"; cases "c = a") (auto simp: nth n(1))
  qed
  moreover have "polled {} ?n"
  proof (rule polledI)
    fix b assume b: "b < length (heap ?n)" "isActive (heap ?n ! b)"
    have w: "waiting ?n b \<longleftrightarrow> b = a \<or> waiting m b" by (auto simp: waiting_def n)
    from b have "b < length (heap m)" "isActive (heap m ! b)" by (cases "b = a"; simp add: nth n(1))+
    from polled_active [OF p this] lim [OF True] idle show "if b \<in> {} then \<not> waiting ?n b \<and> b \<notin> set (inflight ?n)
        else within_limits (heap ?n ! b) \<and> waiting ?n b = (b \<notin> set (inflight ?n))"
      by (auto simp: w nth n(5) within_limits_def maxDuration_def split: if_splits)
  qed (use polled_inflight [OF p] in \<open>simp_all add: n\<close>)
  ultimately show ?thesis by (simp add: managed_def)
qed

lemma track_managed:
  assumes "managed {} m" shows "managed {} (trackPipeline i maxMinutes name m)"
proof -
  define m1 where "m1 = stop i m"
  define a where "a = length (heap m1)"
  define tr where "tr = new_tracker i maxMinutes name"
  define m2 where "m2 = m1\<lparr>heap := heap m1 @ [tr], trackers := trackers m1 @ [(i, a)]\<rparr>"
  define m3 where "m3 = set_stats (activeTrackers_update (\<lambda>_. length (trackers m2))) m2"
  have eq: "trackPipeline i maxMinutes name m = scheduleNextCheck a m3"
    by (simp add: trackPipeline_def Let_def m1_def a_def tr_def m2_def m3_def)
  from stop_managed [OF assms, of i] have r: "registered m1" and t: "timed m1" and p: "polled {} m1"
    by (simp_all add: m1_def managed_def)
  have new: "pipelineId tr = i" "isActive tr" "timeoutId tr = None" "within_limits tr"
    by (simp_all add: tr_def new_tracker_def within_limits_def MAX_ERROR_COUNT_def maxDuration_def
        DEFAULT_MAX_DURATION_def split: option.splits nat.splits)
  have m3: "heap m3 = heap m1 @ [tr]" "trackers m3 = trackers m1 @ [(i, a)]" "timers m3 = timers m1"
    "next_timer m3 = next_timer m1" "inflight m3 = inflight m1" "activeTrackers (stats m3) = length (trackers m3)"
    by (simp_all add: m3_def m2_def)
  have nth: "heap m3 ! b = (if b = a then tr else heap m1 ! b)" if "b < length (heap m3)" for b
    using that by (auto simp: m3(1) a_def nth_append)
  have fresh: "b \<noteq> a" if "b < length (heap m1)" for b using that by (simp add: a_def)
  have out: "i \<notin> fst ` set (trackers m1)"
    using assms registered_distinct [OF conjunct1 [OF managedD [OF assms]]]
    by (auto simp: m1_def stop_eq AList.delete_eq map_of_eq_None_iff split: option.splits)
  have "registered m3"
  proof (rule registeredI)
    show "distinct (map fst (trackers m3))" using registered_distinct [OF r] out by (simp add: m3)
    show "b < length (heap m3) \<and> pipelineId (heap m3 ! b) = j \<and> isActive (heap m3 ! b)"
      if "(j, b) \<in> set (trackers m3)" for j b
      using registered_entry [OF r, of j b] that new by (auto simp: m3 a_def nth_append)
    show "(pipelineId (heap m3 ! b), b) \<in> set (trackers m3)" if "b < length (heap m3)" "isActive (heap m3 ! b)" for b
      using registered_active [OF r, of b] that new by (cases "b = a") (auto simp: m3 a_def nth_append)
  qed (simp add: m3)
  moreover have "timed m3"
  proof (rule timedI)
    show "b < length (heap m3) \<and> timeoutId (heap m3 ! b) = Some u \<and> isActive (heap m3 ! b) \<and>
        k = getNextInterval (elapsedTime (heap m3 ! b))" if "(u, b, k) \<in> set (timers m3)" for u b k
      using timed_timer [OF t, of u b k] that by (simp add: m3 nth_append)
    show "u < next_timer m3" if "b < length (heap m3)" "timeoutId (heap m3 ! b) = Some u" for b u
      using timed_fresh [OF t, of b u] that new(3) by (auto simp: m3 nth_append less_Suc_eq split: if_splits)
    show "c = b" if "b < length (heap m3)" "c < length (heap m3)" "timeoutId (heap m3 ! b) = Some u"
      "timeoutId (heap m3 ! c) = Some u" for b c u
      using timed_inj [OF t, of b c u] that new(3) by (auto simp: m3 nth_append less_Suc_eq split: if_splits)
  qed (simp add: m3 timed_distinct [OF t])
  moreover have "polled {a} m3"
  proof (rule polledI)
    fix b assume b: "b < length (heap m3)" "isActive (heap m3 ! b)"
    have w: "waiting m3 c = waiting m1 c" for c by (simp add: waiting_def m3)
    have idle: "\<not> waiting m1 a" "a \<notin> set (inflight m1)"
      using timed_timer [OF t, of _ a] polled_inflight [OF p] by (auto simp: waiting_def a_def) (metis less_irrefl timed_timer [OF t])
    show "if b \<in> {a} then \<not> waiting m3 b \<and> b \<notin> set (inflight m3)
        else within_limits (heap m3 ! b) \<and> waiting m3 b = (b \<notin> set (inflight m3))"
    proof (cases "b = a")
      case False
      with b have "b < length (heap m1)" "isActive (heap m1 ! b)" by (auto simp: m3 a_def nth_append less_Suc_eq split: if_splits)
      with polled_active [OF p] False show ?thesis by (auto simp: w m3 nth_append)
    qed (use idle in \<open>simp add: w m3\<close>)
  qed (use polled_inflight [OF p] in \<open>auto simp: m3\<close>)
  ultimately have "managed {a} m3" by (simp add: managed_def)
  then show ?thesis unfolding eq using new(4)
    by (intro schedule_managed) (simp_all add: m3 a_def)
qed

lemma fold_destroy:
  assumes "\<forall>x \<in> set xs. snd x < length (heap m)" and "timed m" and "polled X m"
  shows "let d = fold (\<lambda>x. destroyTracker (snd x)) xs m
    in timed d \<and> polled X d \<and> length (heap d) = length (heap m) \<and> trackers d = trackers m \<and>
       (\<forall>b < length (heap m). isActive (heap d ! b) \<longrightarrow> isActive (heap m ! b) \<and> b \<notin> snd ` set xs)"
  using assms
proof (induction xs arbitrary: m)
  case (Cons x xs)
  from Cons.prems have x: "snd x < length (heap m)" by simp
  let ?m = "destroyTracker (snd x) m"
  have len: "length (heap ?m) = length (heap m)" "trackers ?m = trackers m" using x by (simp_all add: destroy_heap)
  have inactive: "isActive (heap ?m ! b) \<longleftrightarrow> isActive (heap m ! b) \<and> b \<noteq> snd x" if "b < length (heap m)" for b
    using x that by (simp add: destroy_heap nth_list_update)
  from Cons.IH [of ?m] Cons.prems x destroy_timed [of m "snd x"] destroy_polled [of m X "snd x"]
  show ?case by (auto simp: Let_def len inactive)
qed simp

lemma kill_managed:
  assumes "managed {} m" shows "managed {} (killAllTracking m) \<and> timers (killAllTracking m) = [] \<and>
    (\<forall>a < length (heap (killAllTracking m)). \<not> isActive (heap (killAllTracking m) ! a))"
proof -
  from assms have r: "registered m" and t: "timed m" and p: "polled {} m" by (simp_all add: managed_def)
  let ?d = "fold (\<lambda>x. destroyTracker (snd x)) (trackers m) m"
  have "\<forall>x \<in> set (trackers m). snd x < length (heap m)" using registered_entry [OF r] by auto
  from fold_destroy [OF this t p] have d: "timed ?d" "polled {} ?d" "length (heap ?d) = length (heap m)"
      "\<And>b. b < length (heap m) \<Longrightarrow> isActive (heap ?d ! b) \<Longrightarrow> isActive (heap m ! b) \<and> b \<notin> snd ` set (trackers m)"
    by (auto simp: Let_def)
  have dead: "\<not> isActive (heap ?d ! b)" if "b < length (heap ?d)" for b
    using d(3) d(4) [of b] registered_active [OF r, of b] that by force
  have none: "timers ?d = []"
  proof (rule ccontr)
    assume "timers ?d \<noteq> []"
    then obtain u b k where "(u, b, k) \<in> set (timers ?d)" by (metis list.set_intros(1) neq_Nil_conv prod_cases3)
    from timed_timer [OF d(1) this] dead [of b] show False by simp
  qed
  let ?k = "killAllTracking m"
  have k: "heap ?k = heap ?d" "trackers ?k = []" "timers ?k = timers ?d" "activeTrackers (stats ?k) = 0"
    by (simp_all add: killAllTracking_def Let_def)
  have "registered ?k" by (rule registeredI) (use dead k in simp_all)
  moreover have "timed ?k" "polled {} ?k" using d(1,2) by (simp_all add: killAllTracking_def Let_def)
  ultimately show ?thesis using dead none k by (simp add: managed_def)
qed

lemma stop_length:
  assumes "registered m" shows "length (heap (stop i m)) = length (heap m)"
  using registered_trackers [OF assms] by (auto simp: stop_eq destroy_heap split: option.splits)

lemma stop_dead:
  assumes r: "registered m" and a: "a < length (heap m)"
  shows "\<not> isActive (heap (stop (pipelineId (heap m ! a)) m) ! a)"
proof (cases "isActive (heap m ! a)")
  case True
  with registered_unique [OF r a] a show ?thesis by (simp add: stop_eq destroy_heap)
next
  case False
  then show ?thesis using registered_trackers [OF r]
    by (auto simp: stop_eq destroy_heap nth_list_update split: option.splits)
qed

lemma stop_settles:
  assumes m: "managed {a} m" and a: "a < length (heap m)"
  shows "managed {} (stop (pipelineId (heap m ! a)) m)"
proof -
  from m have r: "registered m" by (simp add: managed_def)
  from stop_managed [OF m, of "pipelineId (heap m ! a)"] stop_dead [OF r a] polled_mono show ?thesis
    by (auto simp: managed_def)
qed

lemma fire_started:
  assumes m: "managed {} m" and x: "(t, a, i) \<in> set (timers m)"
  shows "managed {a} (m\<lparr>timers := removeAll (t, a, i) (timers m)\<rparr>)"
proof -
  from m have r: "registered m" and td: "timed m" and p: "polled {} m" by (simp_all add: managed_def)
  let ?m = "m\<lparr>timers := removeAll (t, a, i) (timers m)\<rparr>"
  from timed_timer [OF td x] have a: "a < length (heap m)" "isActive (heap m ! a)" by simp_all
  have only: "y = (t, a, i)" if y1: "y \<in> set (timers m)" and y2: "fst (snd y) = a" for y
  proof -
    from y2 obtain t' i' where y: "y = (t', a, i')" by (cases y) auto
    with timed_timer [OF td, of t' a i'] timed_timer [OF td x] y1 show ?thesis by simp
  qed
  have w: "waiting ?m b \<longleftrightarrow> waiting m b \<and> b \<noteq> a" for b
  proof -
    have "y \<noteq> (t, a, i) \<longleftrightarrow> fst (snd y) \<noteq> a" if "y \<in> set (timers m)" for y
      using only [OF that] by fastforce
    then have "set (timers ?m) = {y \<in> set (timers m). fst (snd y) \<noteq> a}" by auto
    then show ?thesis unfolding waiting_def by auto
  qed
  have "timed ?m"
  proof (rule timedI)
    show "distinct (map fst (timers ?m))" using timed_distinct [OF td]
      by (simp add: removeAll_filter_not_eq distinct_map_filter)
    show "b < length (heap ?m) \<and> timeoutId (heap ?m ! b) = Some u \<and> isActive (heap ?m ! b) \<and>
        k = getNextInterval (elapsedTime (heap ?m ! b))" if "(u, b, k) \<in> set (timers ?m)" for u b k
      using timed_timer [OF td, of u b k] that by simp
    show "u < next_timer ?m" if "b < length (heap ?m)" "timeoutId (heap ?m ! b) = Some u" for b u
      using timed_fresh [OF td, of b u] that by simp
    show "c = b" if "b < length (heap ?m)" "c < length (heap ?m)" "timeoutId (heap ?m ! b) = Some u"
      "timeoutId (heap ?m ! c) = Some u" for b c u
      using timed_inj [OF td, of b c u] that by simp
  qed
  moreover have "polled {a} ?m"
  proof (rule polledI)
    fix b assume "b < length (heap ?m)" "isActive (heap ?m ! b)"
    with polled_active [OF p, of b] have "within_limits (heap m ! b)" "waiting m b = (b \<notin> set (inflight m))" by simp_all
    moreover have "waiting m a" using x by (force simp: waiting_def)
    ultimately show "if b \<in> {a} then \<not> waiting ?m b \<and> b \<notin> set (inflight ?m)
        else within_limits (heap ?m ! b) \<and> waiting ?m b = (b \<notin> set (inflight ?m))"
      using w by (cases "b = a") simp_all
  qed (use polled_inflight [OF p] in simp_all)
  ultimately show ?thesis using r by (simp add: managed_def)
qed

lemma request_managed:
  assumes m: "managed {a} m" and a: "a < length (heap m)" "isActive (heap m ! a)" "within_limits (heap m ! a)"
  shows "managed {} (set_stats (totalPollingOperations_update Suc) (m\<lparr>inflight := inflight m @ [a]\<rparr>))"
proof -
  from m have r: "registered m" and t: "timed m" and p: "polled {a} m" by (simp_all add: managed_def)
  from polled_active [OF p a(1,2)] have idle: "\<not> waiting m a" "a \<notin> set (inflight m)" by simp_all
  have "polled {} (m\<lparr>inflight := inflight m @ [a]\<rparr>)"
  proof (rule polledI)
    fix b assume "b < length (heap (m\<lparr>inflight := inflight m @ [a]\<rparr>))" "isActive (heap (m\<lparr>inflight := inflight m @ [a]\<rparr>) ! b)"
    with polled_active [OF p, of b] a(3) idle show "if b \<in> {} then
          \<not> waiting (m\<lparr>inflight := inflight m @ [a]\<rparr>) b \<and> b \<notin> set (inflight (m\<lparr>inflight := inflight m @ [a]\<rparr>))
        else within_limits (heap (m\<lparr>inflight := inflight m @ [a]\<rparr>) ! b) \<and>
          waiting (m\<lparr>inflight := inflight m @ [a]\<rparr>) b = (b \<notin> set (inflight (m\<lparr>inflight := inflight m @ [a]\<rparr>)))"
      by (auto split: if_splits)
  qed (use polled_inflight [OF p] idle a(1) in auto)
  with r t have "managed {} (m\<lparr>inflight := inflight m @ [a]\<rparr>)" by (simp add: managed_def)
  then show ?thesis by (simp add: managed_stats)
qed

lemma fire_managed:
  assumes m: "managed {} m" and x: "(t, a, i) \<in> set (timers m)"
  shows "managed {} (timerFires t a i now m)"
proof -
  from m have td: "timed m" and p: "polled {} m" by (simp_all add: managed_def)
  from timed_timer [OF td x] have a: "a < length (heap m)" "isActive (heap m ! a)" by simp_all
  from polled_active [OF p a] have err: "errorCount (heap m ! a) < MAX_ERROR_COUNT" by (simp add: within_limits_def)
  let ?m0 = "m\<lparr>timers := removeAll (t, a, i) (timers m)\<rparr>"
  let ?m1 = "upd_tracker a (elapsedTime_update (\<lambda>e. e + i)) ?m0"
  have m1: "managed {a} ?m1" using fire_started [OF m x] a by (intro upd_managed) simp_all
  have tr: "heap ?m1 ! a = (heap m ! a)\<lparr>elapsedTime := elapsedTime (heap m ! a) + i\<rparr>" using a by simp
  show ?thesis
  proof (cases "maxDuration (heap ?m1 ! a) \<le> elapsedTime (heap ?m1 ! a)")
    case True
    have "managed {} (stop (pipelineId (heap ?m1 ! a)) (notify (OnTimeout a (pipelineId (heap ?m1 ! a))) ?m1))"
      using stop_settles [of a "notify (OnTimeout a (pipelineId (heap ?m1 ! a))) ?m1"] m1 a by simp
    with True a show ?thesis by (simp add: timerFires_def Let_def)
  next
    case False
    with err have lim: "within_limits (heap ?m1 ! a)" using a by (simp add: within_limits_def)
    have "timerFires t a i now m = set_stats (totalPollingOperations_update Suc) (?m1\<lparr>inflight := inflight ?m1 @ [a]\<rparr>)"
      using False err a by (simp add: timerFires_def Let_def)
    moreover have "managed {} (set_stats (totalPollingOperations_update Suc) (?m1\<lparr>inflight := inflight ?m1 @ [a]\<rparr>))"
      by (rule request_managed [OF m1 _ _ lim]) (use a in simp_all)
    ultimately show ?thesis by simp
  qed
qed

lemma response_started:
  assumes m: "managed {} m" and x: "a \<in> set (inflight m)"
  shows "managed {a} (m\<lparr>inflight := remove1 a (inflight m)\<rparr>)"
proof -
  from m have r: "registered m" and t: "timed m" and p: "polled {} m" by (simp_all add: managed_def)
  let ?m = "m\<lparr>inflight := remove1 a (inflight m)\<rparr>"
  have "polled {a} ?m"
  proof (rule polledI)
    fix b assume "b < length (heap ?m)" "isActive (heap ?m ! b)"
    with polled_active [OF p, of b] x polled_inflight [OF p] show "if b \<in> {a} then \<not> waiting ?m b \<and> b \<notin> set (inflight ?m)
        else within_limits (heap ?m ! b) \<and> waiting ?m b = (b \<notin> set (inflight ?m))"
      by (auto split: if_splits)
  qed (use polled_inflight [OF p] in \<open>auto dest: notin_set_remove1\<close>)
  with r t show ?thesis by (simp add: managed_def)
qed

lemma health_managed:
  assumes m: "managed {} m" and x: "a \<in> set (inflight m)"
  shows "managed {} (healthArrives a res now m)"
proof -
  from m have p: "polled {} m" by (simp add: managed_def)
  from polled_inflight [OF p] x have a: "a < length (heap m)" by simp
  let ?m0 = "m\<lparr>inflight := remove1 a (inflight m)\<rparr>"
  define r where "r = (case res of Some s \<Rightarrow> healthOk a s ?m0 | None \<Rightarrow> healthFailed a now ?m0)"
  have step: "managed {a} r' \<Longrightarrow> length (heap r') = length (heap m) \<Longrightarrow>
      (isActive (heap r' ! a) \<Longrightarrow> within_limits (heap r' ! a)) \<Longrightarrow> managed {} (scheduleNextCheck a r')" for r'
    using a by (intro schedule_managed) simp_all
  have started: "managed {a} (upd_tracker a f ?m0)" if "pipelineId (f (heap m ! a)) = pipelineId (heap m ! a)"
    "isActive (f (heap m ! a)) = isActive (heap m ! a)" "timeoutId (f (heap m ! a)) = timeoutId (heap m ! a)" for f
    using response_started [OF m x] a that by (intro upd_managed) simp_all
  have killed: "managed {} (scheduleNextCheck a (stop (pipelineId (heap n ! a)) n))"
    if n: "managed {a} n" "length (heap n) = length (heap m)" for n
  proof -
    from n(1) have rn: "registered n" by (simp add: managed_def)
    from stop_managed [OF n(1)] stop_dead [OF rn] stop_length [OF rn] n(2) a show ?thesis
      by (intro step) auto
  qed
  have old: "within_limits (heap m ! a)" if "isActive (heap m ! a)"
    using polled_active [OF p a that] by simp
  show ?thesis
  proof (cases res)
    case (Some s)
    let ?f = "\<lambda>t. t\<lparr>currentStatus := Some (parsePipelineStatus s), errorCount := 0\<rparr>"
    define n where "n = (if currentStatus (heap m ! a) \<noteq> Some (parsePipelineStatus s)
      then notify (OnStatusChange a (pipelineId (heap m ! a)) (parsePipelineStatus s) (currentStatus (heap m ! a)))
        (upd_tracker a ?f ?m0) else upd_tracker a ?f ?m0)"
    have n: "managed {a} n" "heap n = heap (upd_tracker a ?f ?m0)" using started [of ?f] by (simp_all add: n_def)
    have eq: "healthOk a s ?m0 = (if isFinalStatus (parsePipelineStatus s)
        then stop (pipelineId (heap n ! a)) n else n)"
      using a n(2) by (simp add: healthOk_def Let_def n_def)
    have "managed {} (scheduleNextCheck a n)" using n old a
      by (intro step) (auto simp: within_limits_def MAX_ERROR_COUNT_def maxDuration_def)
    with killed [OF n(1)] n eq a Some show ?thesis by (simp add: healthArrives_def Let_def)
  next
    case None
    let ?f = "\<lambda>t. t\<lparr>errorCount := errorCount t + 1, lastErrorTime := now\<rparr>"
    define n where "n = notify (OnError a (pipelineId (heap m ! a))) (upd_tracker a ?f ?m0)"
    have n: "managed {a} n" "heap n = heap (upd_tracker a ?f ?m0)" using started [of ?f] by (simp_all add: n_def)
    have eq: "healthFailed a now ?m0 = (if MAX_ERROR_COUNT \<le> errorCount (heap n ! a)
        then stop (pipelineId (heap n ! a)) n else n)"
      using a by (simp add: healthFailed_def Let_def n_def)
    have "managed {} (scheduleNextCheck a n)" if "\<not> MAX_ERROR_COUNT \<le> errorCount (heap n ! a)"
      using n old a that by (intro step) (auto simp: within_limits_def maxDuration_def)
    with killed [OF n(1)] n eq a None show ?thesis by (simp add: healthArrives_def Let_def)
  qed
qed

lemma orphan_managed: "managed {} m \<Longrightarrow> managed {} (stop_orphan i m)"
  by (auto simp: stop_orphan_def intro!: stop_managed split: option.split)

lemma fold_orphan_managed: "managed {} m \<Longrightarrow> managed {} (fold stop_orphan is m)"
  by (induction "is" arbitrary: m) (simp_all add: orphan_managed)

lemma step_managed: "manager_step m l m' \<Longrightarrow> managed {} m \<Longrightarrow> managed {} m'"
proof (induction rule: manager_step.induct)
  case (sync m en)
  then show ?case by (simp add: setBackendSyncEnabled_def managed_stats)
next
  case (pipelines ids m res now)
  have "managed {} (fold stop_orphan xs (m\<lparr>syncs := remove1 ids (syncs m)\<rparr>))" for xs
    using pipelines.prems by (intro fold_orphan_managed) simp
  then show ?case using pipelines.prems
    by (auto simp: pipelinesArrive_def Let_def managed_stats split: option.split)
qed (simp_all add: track_managed stop_managed kill_managed fire_managed health_managed syncTick_def detectOrphans_def Let_def)

lemma initial_managed: "managed {} initialManager"
  by (simp add: managed_def registered_def timed_def polled_def initialManager_def)

lemma run_managed: "manager_run as m \<Longrightarrow> managed {} m"
  by (induction rule: manager_run.induct) (use initial_managed step_managed in blast)+

section \<open>What a step leaves alone\<close>

text \<open>Only its own timer moves the elapsed time of a tracker; a tracker that stopped stays so.\<close>

definition same_life :: "Tracker \<Rightarrow> Tracker \<Rightarrow> bool" where
  "same_life x y \<longleftrightarrow>
     elapsedTime y = elapsedTime x \<and> pipelineId y = pipelineId x \<and> maxDuration y = maxDuration x \<and>
     (isActive y \<longrightarrow> isActive x)"

definition keeps :: "Manager \<Rightarrow> Manager \<Rightarrow> bool" where
  "keeps m m' \<longleftrightarrow>
     length (heap m) \<le> length (heap m') \<and> (\<forall>b < length (heap m). same_life (heap m ! b) (heap m' ! b)) \<and>
     (\<forall>b. length (heap m) \<le> b \<and> b < length (heap m') \<longrightarrow> elapsedTime (heap m' ! b) = 0)"

lemma same_life_refl [simp]: "same_life x x"
  by (simp add: same_life_def)

lemma same_life_trans: "same_life x y \<Longrightarrow> same_life y z \<Longrightarrow> same_life x z"
  by (auto simp: same_life_def)

lemma keepsD: "keeps m m' \<Longrightarrow> b < length (heap m) \<Longrightarrow> b < length (heap m') \<and> same_life (heap m ! b) (heap m' ! b)"
  by (simp add: keeps_def)

lemma keepsI:
  "length (heap m) \<le> length (heap m') \<Longrightarrow>
     (\<And>b. b < length (heap m) \<Longrightarrow> same_life (heap m ! b) (heap m' ! b)) \<Longrightarrow>
     (\<And>b. length (heap m) \<le> b \<Longrightarrow> b < length (heap m') \<Longrightarrow> elapsedTime (heap m' ! b) = 0) \<Longrightarrow> keeps m m'"
  by (simp add: keeps_def)

lemma keeps_fresh: "keeps m m' \<Longrightarrow> length (heap m) \<le> b \<Longrightarrow> b < length (heap m') \<Longrightarrow> elapsedTime (heap m' ! b) = 0"
  by (simp add: keeps_def)

lemma keeps_same: "heap m' = heap m \<Longrightarrow> keeps m m'"
  by (simp add: keeps_def)

lemma keeps_trans: "keeps m1 m2 \<Longrightarrow> keeps m2 m3 \<Longrightarrow> keeps m1 m3"
proof (rule keepsI)
  assume k: "keeps m1 m2" "keeps m2 m3"
  then show "length (heap m1) \<le> length (heap m3)" by (simp add: keeps_def)
  show "same_life (heap m1 ! b) (heap m3 ! b)" if "b < length (heap m1)" for b
    using that keepsD [OF k(1)] keepsD [OF k(2)] same_life_trans by blast
  show "elapsedTime (heap m3 ! b) = 0" if "length (heap m1) \<le> b" "b < length (heap m3)" for b
    using that keeps_fresh [OF k(1)] keeps_fresh [OF k(2)] keepsD [OF k(2), of b]
    by (cases "b < length (heap m2)") (auto simp: same_life_def)
qed

lemma keeps_upd: "(\<And>x. same_life x (f x)) \<Longrightarrow> keeps m (upd_tracker a f m)"
  by (cases "a < length (heap m)") (auto simp: keeps_def nth_list_update)

lemma keeps_schedule: "keeps m (scheduleNextCheck a m)"
proof -
  have "keeps m (upd_tracker a (timeoutId_update (\<lambda>_. Some t)) m)" for t
    by (rule keeps_upd) (simp add: same_life_def maxDuration_def)
  then show ?thesis by (simp add: scheduleNextCheck_def Let_def keeps_def upd_tracker_def)
qed

lemma keeps_destroy: "keeps m (destroyTracker a m)"
proof (cases "a < length (heap m)")
  case True
  then show ?thesis
    by (auto simp: keeps_def destroy_heap nth_list_update same_life_def maxDuration_def)
next
  case False
  then have "heap (destroyTracker a m) = heap m"
    by (simp add: destroyTracker_def Let_def list_update_beyond split: option.split)
  then show ?thesis by (rule keeps_same)
qed

lemma keeps_stop: "keeps m (stop i m)"
  using keeps_destroy by (auto simp: stop_eq keeps_def split: option.split)

lemma keeps_track: "keeps m (trackPipeline i d n m)"
proof -
  have "keeps (stop i m) (trackPipeline i d n m)"
    unfolding trackPipeline_def Let_def
    by (rule keeps_trans [OF _ keeps_schedule]) (auto simp: keeps_def nth_append new_tracker_def)
  with keeps_stop show ?thesis by (rule keeps_trans)
qed

lemma keeps_kill: "keeps m (killAllTracking m)"
proof -
  have "keeps m (fold (\<lambda>x. destroyTracker (snd x)) xs m)" for xs
    by (induction xs arbitrary: m) (auto intro: keeps_same keeps_trans keeps_destroy)
  from this [of "trackers m"] show ?thesis by (simp add: killAllTracking_def Let_def keeps_def)
qed

lemma keeps_life: "same_life (heap m ! a) x \<Longrightarrow> heap n = (heap m)[a := x] \<Longrightarrow> keeps m n"
  by (cases "a < length (heap m)") (auto simp: keeps_def nth_list_update list_update_beyond)

lemma keeps_if_stop: "keeps m n \<Longrightarrow> keeps m (if c then stop i n else n)"
  using keeps_trans keeps_stop by simp

lemma keeps_health: "keeps m (healthArrives a res now m)"
proof -
  let ?m = "m\<lparr>inflight := remove1 a (inflight m)\<rparr>"
  have "keeps m (healthOk a s ?m)" for s
    unfolding healthOk_def Let_def
    by (intro keeps_if_stop keeps_life [where a = a and x = "(heap m ! a)\<lparr>currentStatus :=
          Some (parsePipelineStatus s), errorCount := 0\<rparr>"]) (simp_all add: same_life_def maxDuration_def)
  moreover have "keeps m (healthFailed a now ?m)"
    unfolding healthFailed_def Let_def
    by (intro keeps_if_stop keeps_life [where a = a and x = "(heap m ! a)\<lparr>errorCount :=
          errorCount (heap m ! a) + 1, lastErrorTime := now\<rparr>"]) (simp_all add: same_life_def maxDuration_def)
  ultimately have "keeps m (case res of Some s \<Rightarrow> healthOk a s ?m | None \<Rightarrow> healthFailed a now ?m)"
    by (simp split: option.split)
  then show ?thesis unfolding healthArrives_def Let_def by (rule keeps_trans [OF _ keeps_schedule])
qed

lemma keeps_pipelines: "keeps m (pipelinesArrive ids res now m)"
proof -
  have one: "keeps m (stop_orphan i m)" for i m
    using keeps_stop [of "notify c m" for c] by (auto simp: stop_orphan_def keeps_def split: option.split)
  have "keeps m (fold stop_orphan xs m)" for xs m
    by (induction xs arbitrary: m) (auto intro: keeps_same keeps_trans one)
  from this [of "m\<lparr>syncs := q\<rparr>" for q] show ?thesis
    by (auto simp: pipelinesArrive_def Let_def keeps_def split: option.split)
qed

lemma keeps_step: "manager_step m l m' \<Longrightarrow> l = None \<Longrightarrow> keeps m m'"
  by (induction rule: manager_step.induct)
    (auto simp: syncTick_def detectOrphans_def setBackendSyncEnabled_def Let_def
      intro: keeps_same keeps_track keeps_stop keeps_kill keeps_health keeps_pipelines)

lemma fire_keeps:
  assumes "isActive (heap m ! a)"
  shows "keeps (upd_tracker a (elapsedTime_update (\<lambda>e. e + i)) m) (timerFires t a i now m)"
proof -
  let ?m1 = "upd_tracker a (elapsedTime_update (\<lambda>e. e + i)) (m\<lparr>timers := removeAll (t, a, i) (timers m)\<rparr>)"
  have h: "heap ?m1 = heap (upd_tracker a (elapsedTime_update (\<lambda>e. e + i)) m)" by (simp add: upd_tracker_def)
  have "keeps ?m1 (timerFires t a i now m)"
    using assms keeps_trans [OF keeps_same [of "notify c ?m1" ?m1 for c] keeps_stop] keeps_schedule
    by (auto simp: timerFires_def Let_def intro: keeps_same)
  with h show ?thesis by (simp add: keeps_def)
qed

end
