(* ===== verification/Status_Polling.thy ===== *)
theory Status_Polling
  imports Status_Manager
begin

text \<open>
  What the polling of pipeline statuses does over a run of the manager: one loop per tracked
  pipeline, a bounded number of requests, the reaction to a response, and the backend's orphans.
\<close>

section \<open>The schedule\<close>

text \<open>The elapsed time a tracker has counted when its timer has fired \<open>n\<close> times.\<close>

definition elapsed_after :: "nat \<Rightarrow> nat" where
  "elapsed_after n = ((\<lambda>e. e + getNextInterval e) ^^ n) 0"

lemma elapsed_Suc: "elapsed_after (Suc n) = elapsed_after n + getNextInterval (elapsed_after n)"
  by (simp add: elapsed_after_def)

lemma elapsed_0 [simp]: "elapsed_after 0 = 0"
  by (simp add: elapsed_after_def)

lemma elapsed_ge: "2000 * n \<le> elapsed_after n"
proof (induction n)
  case (Suc n)
  have "2000 \<le> getNextInterval (elapsed_after n)" by (simp add: getNextInterval_def)
  with Suc.IH show ?case by (simp add: elapsed_Suc)
qed simp

lemma elapsed_mono: "m \<le> n \<Longrightarrow> elapsed_after m \<le> elapsed_after n"
  by (rule lift_Suc_mono_le [where f = elapsed_after]) (simp_all add: elapsed_Suc)

text \<open>While the interval is \<open>d\<close>, firings add up.\<close>

lemma elapsed_phase:
  assumes "\<And>j. j < k \<Longrightarrow> getNextInterval (elapsed_after n + j * d) = d"
  shows "elapsed_after (n + k) = elapsed_after n + k * d"
  using assms
proof (induction k)
  case (Suc k)
  then have "elapsed_after (n + k) = elapsed_after n + k * d" by simp
  with Suc.prems [of k] show ?case by (simp add: elapsed_Suc)
qed simp

lemma elapsed_104: "elapsed_after 104 = 1800000"
proof -
  have "elapsed_after (0 + 30) = 60000" by (subst elapsed_phase [where d = 2000]) (auto simp: getNextInterval_def)
  then have "elapsed_after (30 + 12) = 120000" by (subst elapsed_phase [where d = 5000]) (auto simp: getNextInterval_def)
  then have "elapsed_after (42 + 6) = 180000" by (subst elapsed_phase [where d = 10000]) (auto simp: getNextInterval_def)
  then have "elapsed_after (48 + 4) = 240000" by (subst elapsed_phase [where d = 15000]) (auto simp: getNextInterval_def)
  then have "elapsed_after (52 + 52) = 1800000" by (subst elapsed_phase [where d = 30000]) (auto simp: getNextInterval_def)
  then show ?thesis by simp
qed

text \<open>The firings a run counts for a tracker: each but the last has left it within its limit.\<close>

definition spent :: "nat \<Rightarrow> Tracker \<Rightarrow> bool" where
  "spent n tr \<longleftrightarrow> elapsedTime tr = elapsed_after n \<and> (\<forall>k. n = Suc k \<longrightarrow> elapsed_after k < maxDuration tr)"

definition charged :: "nat list \<Rightarrow> Manager \<Rightarrow> bool" where
  "charged as m \<longleftrightarrow> (\<forall>a. if a < length (heap m) then spent (count_list as a) (heap m ! a) else count_list as a = 0)"

lemma chargedD: "charged as m \<Longrightarrow> a < length (heap m) \<Longrightarrow> spent (count_list as a) (heap m ! a)"
  by (simp add: charged_def)

lemma charged_keeps:
  assumes "charged as m" and "keeps m m'" shows "charged as m'"
  unfolding charged_def
proof (intro allI)
  fix a
  show "if a < length (heap m') then spent (count_list as a) (heap m' ! a) else count_list as a = 0"
  proof (cases "a < length (heap m)")
    case True
    with keepsD [OF assms(2) True] chargedD [OF assms(1) True] show ?thesis
      by (simp add: same_life_def spent_def)
  next
    case False
    with assms(1) have "count_list as a = 0" by (simp add: charged_def)
    with False show ?thesis using keeps_fresh [OF assms(2), of a] by (simp add: spent_def)
  qed
qed

lemma run_charged: "manager_run as m \<Longrightarrow> charged as m"
proof (induction rule: manager_run.induct)
  case initial
  then show ?case by (simp add: charged_def initialManager_def)
next
  case (quiet as m m')
  then show ?case using charged_keeps keeps_step by blast
next
  case (fires as m a m')
  from fires.hyps(2) obtain t i now where x: "(t, a, i) \<in> set (timers m)" and m': "m' = timerFires t a i now m"
    by (auto elim: manager_step.cases)
  from run_managed [OF fires.hyps(1)] have td: "timed m" and p: "polled {} m" by (simp_all add: managed_def)
  from timed_timer [OF td x] have a: "a < length (heap m)" "isActive (heap m ! a)"
    and i: "i = getNextInterval (elapsedTime (heap m ! a))" by simp_all
  from polled_active [OF p a] have lim: "elapsedTime (heap m ! a) < maxDuration (heap m ! a)"
    by (simp add: within_limits_def)
  let ?m1 = "upd_tracker a (elapsedTime_update (\<lambda>e. e + i)) m"
  have "charged (as @ [a]) ?m1"
    unfolding charged_def
  proof (intro allI)
    fix b
    show "if b < length (heap ?m1) then spent (count_list (as @ [a]) b) (heap ?m1 ! b)
      else count_list (as @ [a]) b = 0"
    proof (cases "b = a")
      case True
      with chargedD [OF fires.IH a(1)] lim a(1) i show ?thesis
        by (simp add: spent_def maxDuration_def elapsed_Suc)
    next
      case False
      with fires.IH show ?thesis by (simp add: charged_def)
    qed
  qed
  with fire_keeps [OF a(2)] m' show ?case using charged_keeps by blast
qed

section \<open>Properties\<close>

text \<open>
  C14. Polling ends. In every run of the manager, a tracker whose timer has fired \<open>n\<close> times has
  counted the elapsed time of the progressive schedule, and is not active any more once that
  reaches its limit; so \<open>n\<close> is at most 30 for each minute of the limit, and at most 104 with the default
  of 30 minutes.
\<close>

theorem polling_ends:
  assumes "manager_run as m" and "a < length (heap m)"
  shows "elapsedTime (heap m ! a) = elapsed_after (count_list as a) \<and>
    (isActive (heap m ! a) \<longrightarrow> elapsed_after (count_list as a) < maxDuration (heap m ! a)) \<and>
    count_list as a \<le> maxDuration (heap m ! a) div 2000 \<and>
    (maxDurationMinutes (heap m ! a) = None \<longrightarrow> count_list as a \<le> 104)"
proof -
  let ?n = "count_list as a" and ?d = "maxDuration (heap m ! a)"
  from chargedD [OF run_charged [OF assms(1)] assms(2)]
  have e: "elapsedTime (heap m ! a) = elapsed_after ?n" and l: "\<And>k. ?n = Suc k \<Longrightarrow> elapsed_after k < ?d"
    by (simp_all add: spent_def)
  from run_managed [OF assms(1)] have p: "polled {} m" by (simp add: managed_def)
  have "elapsed_after ?n < ?d" if "isActive (heap m ! a)"
    using polled_active [OF p assms(2) that] e by (simp add: within_limits_def)
  moreover have "?n \<le> ?d div 2000"
  proof (cases ?n)
    case (Suc k)
    have "?d = ?d div 2000 * 2000" by (simp add: maxDuration_def)
    with l [OF Suc] elapsed_ge [of k] Suc show ?thesis by linarith
  qed simp
  moreover have "?n \<le> 104" if "maxDurationMinutes (heap m ! a) = None"
  proof (cases ?n)
    case (Suc k)
    from that l [OF Suc] have "elapsed_after k < elapsed_after 104"
      by (simp add: maxDuration_def DEFAULT_MAX_DURATION_def elapsed_104)
    then have "k < 104" using elapsed_mono [of 104 k] by linarith
    with Suc show ?thesis by simp
  qed simp
  ultimately show ?thesis using e by blast
qed

text \<open>
  C13. In every reachable state of the manager: a pipeline has at most one active tracker, the one
  registered for it, and the statistics count them; every pending timer belongs to an active
  tracker; an active tracker has exactly one of a single pending timer and a request in flight,
  so polling neither stops by itself nor doubles; and it has had fewer than five failures in a
  row and has time left. A failed check therefore never leads to the error backoff: what a timer
  does never depends on the clock.
\<close>

theorem one_polling_loop:
  assumes "manager_reachable m"
  shows "(\<forall>a b. a < length (heap m) \<and> b < length (heap m) \<and> isActive (heap m ! a) \<and> isActive (heap m ! b) \<and>
        pipelineId (heap m ! a) = pipelineId (heap m ! b) \<longrightarrow> a = b) \<and>
    (\<forall>i a. map_of (trackers m) i = Some a \<longleftrightarrow>
        a < length (heap m) \<and> isActive (heap m ! a) \<and> pipelineId (heap m ! a) = i) \<and>
    activeTrackers (stats m) = length (trackers m) \<and>
    (\<forall>(t, a, i) \<in> set (timers m). a < length (heap m) \<and> isActive (heap m ! a)) \<and>
    (\<forall>a < length (heap m). isActive (heap m ! a) \<longrightarrow>
        ((\<exists>!x. x \<in> set (timers m) \<and> fst (snd x) = a) \<noteq> (a \<in> set (inflight m))) \<and>
        errorCount (heap m ! a) < MAX_ERROR_COUNT \<and> elapsedTime (heap m ! a) < maxDuration (heap m ! a)) \<and>
    (\<forall>(t, a, i) \<in> set (timers m). \<forall>now now'. timerFires t a i now m = timerFires t a i now' m)"
proof -
  from assms obtain as where "manager_run as m" by (auto simp: manager_reachable_def)
  then have "managed {} m" by (rule run_managed)
  then have r: "registered m" and td: "timed m" and p: "polled {} m" by (simp_all add: managed_def)
  have 1: "map_of (trackers m) i = Some a \<longleftrightarrow>
        a < length (heap m) \<and> isActive (heap m ! a) \<and> pipelineId (heap m ! a) = i" for i a
    using registered_trackers [OF r] registered_unique [OF r] by blast
  then have 2: "a = b" if "a < length (heap m)" "b < length (heap m)" "isActive (heap m ! a)" "isActive (heap m ! b)"
    "pipelineId (heap m ! a) = pipelineId (heap m ! b)" for a b
    using that by (metis option.inject)
  have 3: "(\<exists>!x. x \<in> set (timers m) \<and> fst (snd x) = a) \<longleftrightarrow> waiting m a" for a
  proof
    assume "waiting m a"
    then obtain t i where x: "(t, a, i) \<in> set (timers m)" by (auto simp: waiting_def)
    show "\<exists>!x. x \<in> set (timers m) \<and> fst (snd x) = a"
    proof (rule ex1I)
      show "(t, a, i) \<in> set (timers m) \<and> fst (snd (t, a, i)) = a" using x by simp
      show "y = (t, a, i)" if "y \<in> set (timers m) \<and> fst (snd y) = a" for y
        using timed_timer [OF td, of "fst y" a "snd (snd y)"] timed_timer [OF td x] that by (cases y) simp
    qed
  qed (force simp: waiting_def)
  have 4: "timerFires t a i now m = timerFires t a i now' m" if "(t, a, i) \<in> set (timers m)" for t a i now now'
  proof -
    from timed_timer [OF td that] have a: "a < length (heap m)" "isActive (heap m ! a)" by simp_all
    from polled_active [OF p a] have "errorCount (heap m ! a) < MAX_ERROR_COUNT" by (simp add: within_limits_def)
    with a(1) have "\<not> MAX_ERROR_COUNT \<le> errorCount (heap (upd_tracker a (elapsedTime_update (\<lambda>e. e + i))
      (m\<lparr>timers := removeAll (t, a, i) (timers m)\<rparr>)) ! a)" by simp
    then show ?thesis unfolding timerFires_def Let_def by (simp only: simp_thms if_False)
  qed
  have 5: "((\<exists>!x. x \<in> set (timers m) \<and> fst (snd x) = a) \<noteq> (a \<in> set (inflight m))) \<and>
      errorCount (heap m ! a) < MAX_ERROR_COUNT \<and> elapsedTime (heap m ! a) < maxDuration (heap m ! a)"
    if "a < length (heap m)" "isActive (heap m ! a)" for a
    using polled_active [OF p that] by (simp add: 3 within_limits_def)
  show ?thesis
  proof (intro conjI)
    show "activeTrackers (stats m) = length (trackers m)" using registered_count [OF r] .
    show "\<forall>(t, a, i) \<in> set (timers m). a < length (heap m) \<and> isActive (heap m ! a)"
      using timed_timer [OF td] by blast
    show "\<forall>(t, a, i) \<in> set (timers m). \<forall>now now'. timerFires t a i now m = timerFires t a i now' m"
      using 4 by blast
  qed (use 1 2 5 in simp_all)
qed

section \<open>Responses\<close>

lemma called_upd [simp]:
  "called (notify c m) = called m @ [c]" "called (set_stats f m) = called m" "called (upd_tracker a g m) = called m"
  by (simp_all add: manager_defs)

lemma destroy_called: "called (destroyTracker a m) = called m @ [OnDestroyed a (pipelineId (heap m ! a))]"
  by (simp add: destroyTracker_def Let_def split: option.split)

lemma stop_called:
  "called (stop i m) = called m @
     (case map_of (trackers m) i of None \<Rightarrow> [] | Some a \<Rightarrow> [OnDestroyed a (pipelineId (heap m ! a))])"
  by (simp add: stop_eq destroy_called split: option.split)

lemma stop_map [simp]: "map_of (trackers (stop i m)) = (map_of (trackers m))(i := None)"
  by (auto simp: stop_eq delete_conv' fun_eq_iff split: option.split)

lemma schedule_same [simp]:
  "called (scheduleNextCheck a m) = called m" "trackers (scheduleNextCheck a m) = trackers m"
  "stats (scheduleNextCheck a m) = stats m"
  by (simp_all add: scheduleNextCheck_def Let_def upd_tracker_def)

lemma destroy_field:
  "(\<And>x t v. c (x\<lparr>isActive := v\<rparr>) = c x) \<Longrightarrow> (\<And>x t. c (x\<lparr>timeoutId := t\<rparr>) = c x) \<Longrightarrow>
     c (heap (destroyTracker a m) ! b) = c (heap m ! b)"
  by (cases "a < length (heap m)")
    (auto simp: destroyTracker_def Let_def nth_list_update list_update_beyond split: option.split)

lemma update_field: "(\<And>x. c (f x) = c x) \<Longrightarrow> c (xs[a := f (xs ! a)] ! b) = c (xs ! b)"
  by (cases "a < length xs") (simp_all add: nth_list_update list_update_beyond)

lemma loop_fields [simp]:
  "currentStatus (heap (stop i m) ! b) = currentStatus (heap m ! b)"
  "errorCount (heap (stop i m) ! b) = errorCount (heap m ! b)"
  "currentStatus (heap (scheduleNextCheck a m) ! b) = currentStatus (heap m ! b)"
  "errorCount (heap (scheduleNextCheck a m) ! b) = errorCount (heap m ! b)"
  by (simp_all add: stop_eq scheduleNextCheck_def Let_def destroy_field update_field split: option.split)

lemma loop_inflight [simp]:
  "inflight (stop i m) = inflight m" "inflight (scheduleNextCheck a m) = inflight m"
  by (simp_all add: stop_eq scheduleNextCheck_def Let_def destroyTracker_def upd_tracker_def notify_def split: option.split)

text \<open>
  The reaction to a health response for the registered tracker of a pipeline. A status is stored and
  clears the failures, its change is reported once, and a final one ends the tracking; a failure is
  counted and reported, and the fifth in a row ends the tracking. Tracking that does not end goes
  on with a pending timer, and the other pipelines stay tracked as they were.
\<close>

theorem response_spec:
  assumes "manager_reachable m" and "a \<in> set (inflight m)" and "map_of (trackers m) i = Some a"
    and "m' = healthArrives a res now m"
  shows "(case res of
      Some s \<Rightarrow>
        (let st = parsePipelineStatus s; old = currentStatus (heap m ! a)
         in currentStatus (heap m' ! a) = Some st \<and> errorCount (heap m' ! a) = 0 \<and>
            called m' = called m @ (if old = Some st then [] else [OnStatusChange a i st old]) @
              (if st = Stopped \<or> st = Failed then [OnDestroyed a i] else []) \<and>
            (map_of (trackers m') i = None \<longleftrightarrow> st = Stopped \<or> st = Failed))
    | None \<Rightarrow>
        (let n = errorCount (heap m ! a) + 1
         in errorCount (heap m' ! a) = n \<and> currentStatus (heap m' ! a) = currentStatus (heap m ! a) \<and>
            called m' = called m @ [OnError a i] @ (if n = 5 then [OnDestroyed a i] else []) \<and>
            (map_of (trackers m') i = None \<longleftrightarrow> n = 5))) \<and>
    (\<forall>j. j = i \<and> map_of (trackers m') i = None \<or> map_of (trackers m') j = map_of (trackers m) j) \<and>
    (map_of (trackers m') i = Some a \<longrightarrow> waiting m' a)"
proof -
  from assms(1) have m: "managed {} m" by (auto simp: manager_reachable_def dest: run_managed)
  then have r: "registered m" and p: "polled {} m" by (simp_all add: managed_def)
  from registered_trackers [OF r assms(3)] have a: "a < length (heap m)" "pipelineId (heap m ! a) = i"
    "isActive (heap m ! a)" by simp_all
  from polled_active [OF p a(1,3)] have e: "errorCount (heap m ! a) < 5" by (simp add: within_limits_def MAX_ERROR_COUNT_def)
  let ?m = "m\<lparr>inflight := remove1 a (inflight m)\<rparr>"
  have m': "m' = scheduleNextCheck a (case res of Some s \<Rightarrow> healthOk a s ?m | None \<Rightarrow> healthFailed a now ?m)"
    by (simp add: assms(4) healthArrives_def Let_def)
  have fst: "case res of
      Some s \<Rightarrow>
        (let st = parsePipelineStatus s; old = currentStatus (heap m ! a)
         in currentStatus (heap m' ! a) = Some st \<and> errorCount (heap m' ! a) = 0 \<and>
            called m' = called m @ (if old = Some st then [] else [OnStatusChange a i st old]) @
              (if st = Stopped \<or> st = Failed then [OnDestroyed a i] else []) \<and>
            (map_of (trackers m') i = None \<longleftrightarrow> st = Stopped \<or> st = Failed))
    | None \<Rightarrow>
        (let n = errorCount (heap m ! a) + 1
         in errorCount (heap m' ! a) = n \<and> currentStatus (heap m' ! a) = currentStatus (heap m ! a) \<and>
            called m' = called m @ [OnError a i] @ (if n = 5 then [OnDestroyed a i] else []) \<and>
            (map_of (trackers m') i = None \<longleftrightarrow> n = 5))"
    using a(1,2) e assms(3)
    by (simp add: m' Let_def healthOk_def healthFailed_def isFinalStatus_def stop_called MAX_ERROR_COUNT_def split: option.split)
  have others: "j = i \<and> map_of (trackers m') i = None \<or> map_of (trackers m') j = map_of (trackers m) j" for j
    using a(1,2) by (simp add: m' Let_def healthOk_def healthFailed_def split: option.split)
  have m'm: "managed {} m'" using step_managed [OF manager_step.health [OF assms(2)] m] assms(4) by simp
  then have r': "registered m'" and p': "polled {} m'" by (simp_all add: managed_def)
  have "a \<notin> set (inflight m')"
    using polled_inflight [OF p] by (simp add: m' Let_def healthOk_def healthFailed_def split: option.split)
  have "waiting m' a" if "map_of (trackers m') i = Some a"
  proof -
    from registered_trackers [OF r' that] have "a < length (heap m')" "isActive (heap m' ! a)" by simp_all
    with polled_active [OF p'] \<open>a \<notin> set (inflight m')\<close> show ?thesis by simp
  qed
  with fst others show ?thesis by blast
qed

text \<open>
  A concrete run: a pipeline is tracked, its first request is sent, and it is tracked anew (as a
  new operation on it does) before the response arrives.
\<close>

definition restarted :: Manager where
  "restarted = trackPipeline ''p'' None None (timerFires 1 0 2000 0 (trackPipeline ''p'' None None initialManager))"

lemma requested_run: "manager_run [0] (timerFires 1 0 2000 0 (trackPipeline ''p'' None None initialManager))"
proof -
  let ?m = "trackPipeline ''p'' None None initialManager"
  have "manager_run [] ?m" by (rule manager_run.quiet [OF manager_run.initial manager_step.track])
  moreover have "(1, 0, 2000) \<in> set (timers ?m)"
    by (simp add: trackPipeline_def stop_eq scheduleNextCheck_def initialManager_def Let_def manager_defs
      new_tracker_def getNextInterval_def)
  ultimately have "manager_run ([] @ [0]) (timerFires 1 0 2000 0 ?m)"
    by (rule manager_run.fires [OF _ manager_step.fire])
  then show ?thesis by simp
qed

lemma restarted_run: "manager_run [0] restarted"
  unfolding restarted_def by (rule manager_run.quiet [OF requested_run manager_step.track])

lemma restarted_reachable: "manager_reachable restarted"
  using restarted_run by (auto simp: manager_reachable_def)

text \<open>
  The response to a request of a replaced tracker still acts on the pipeline: if it has a final status,
  or is the fifth failure, it ends the tracking by the new tracker, which has not failed, and the
  caller of the new tracking is told only that it was destroyed.
\<close>

theorem stale_response:
  assumes "manager_reachable m" and "a \<in> set (inflight m)" and "\<not> isActive (heap m ! a)"
    and "map_of (trackers m) (pipelineId (heap m ! a)) = Some b"
    and "parsePipelineStatus s = Stopped \<or> parsePipelineStatus s = Failed"
    and "m' = healthArrives a (Some s) now m"
  shows "isActive (heap m ! b) \<and> \<not> isActive (heap m' ! b) \<and>
    map_of (trackers m') (pipelineId (heap m ! a)) = None \<and>
    filter (\<lambda>c. case c of OnStatusChange d _ _ _ \<Rightarrow> d = b | OnError d _ \<Rightarrow> d = b | OnTimeout d _ \<Rightarrow> d = b
        | OnDestroyed d _ \<Rightarrow> d = b) (drop (length (called m)) (called m')) =
      [OnDestroyed b (pipelineId (heap m ! a))]"
proof -
  from assms(1) have m: "managed {} m" by (auto simp: manager_reachable_def dest: run_managed)
  then have r: "registered m" and p: "polled {} m" by (simp_all add: managed_def)
  from registered_trackers [OF r assms(4)] have b: "b < length (heap m)"
    "pipelineId (heap m ! b) = pipelineId (heap m ! a)" "isActive (heap m ! b)" by simp_all
  from polled_inflight [OF p] assms(2) have a: "a < length (heap m)" by blast
  from b assms(3) have ab: "a \<noteq> b" by auto
  have unreg: "map_of (trackers m') (pipelineId (heap m ! a)) = None"
    using assms(5,6) a by (simp add: healthArrives_def healthOk_def Let_def isFinalStatus_def)
  from step_managed [OF manager_step.health [OF assms(2)] m] assms(6) have "registered m'" by (simp add: managed_def)
  moreover have "b < length (heap m')" "pipelineId (heap m' ! b) = pipelineId (heap m ! a)"
    using keepsD [OF keeps_health b(1)] b(2) assms(6) by (simp_all add: same_life_def)
  ultimately have "\<not> isActive (heap m' ! b)" using registered_unique unreg by force
  moreover have "called m' = called m @ (if currentStatus (heap m ! a) = Some (parsePipelineStatus s) then []
      else [OnStatusChange a (pipelineId (heap m ! a)) (parsePipelineStatus s) (currentStatus (heap m ! a))]) @
      [OnDestroyed b (pipelineId (heap m ! a))]"
    using assms(4,5,6) a b(2) ab
    by (auto simp: healthArrives_def healthOk_def Let_def isFinalStatus_def stop_called)
  ultimately show ?thesis using unreg b(3) ab by simp
qed

section \<open>Orphans\<close>

definition orphan_calls :: "Manager \<Rightarrow> string \<Rightarrow> Callback list" where
  "orphan_calls m i = (case map_of (trackers m) i of None \<Rightarrow> [] | Some a \<Rightarrow> [OnError a i, OnDestroyed a i])"

lemma orphan_map: "map_of (trackers (stop_orphan i m)) = (map_of (trackers m))(i := None)"
  by (auto simp: stop_orphan_def fun_eq_iff split: option.split)

lemma orphans_stopped:
  assumes "managed {} m" and "distinct is"
  shows "called (fold stop_orphan is m) = called m @ concat (map (orphan_calls m) is) \<and>
    map_of (trackers (fold stop_orphan is m)) = (\<lambda>i. if i \<in> set is then None else map_of (trackers m) i)"
  using assms
proof (induction "is" arbitrary: m)
  case (Cons i "is")
  let ?m = "stop_orphan i m"
  from Cons.prems(1) have r: "registered m" by (simp add: managed_def)
  have c: "called ?m = called m @ orphan_calls m i"
    using registered_trackers [OF r] by (auto simp: stop_orphan_def stop_called orphan_calls_def split: option.split)
  have "orphan_calls ?m j = orphan_calls m j" if "j \<in> set is" for j
    using Cons.prems(2) that by (auto simp: orphan_calls_def orphan_map)
  then have "concat (map (orphan_calls ?m) is) = concat (map (orphan_calls m) is)" by (simp cong: map_cong)
  with Cons.IH [OF orphan_managed [OF Cons.prems(1)]] Cons.prems(2) c show ?case
    by (auto simp: orphan_map fun_eq_iff)
qed simp

text \<open>
  The synchronisation with the backend. Of the pipelines that were tracked when the list was asked for,
  exactly those that the backend does not list are untracked, each after its tracker has been told
  of the error and that it is destroyed; the others stay tracked, the count follows, and a failed request changes
  nothing but that it is over.
\<close>

theorem orphan_sync:
  assumes "manager_reachable m" and "distinct ids" and "m' = pipelinesArrive ids (Some existing) now m"
  shows "map_of (trackers m') = (\<lambda>i. if i \<in> set ids - set existing then None else map_of (trackers m) i) \<and>
    called m' = called m @ concat (map (orphan_calls m) (filter (\<lambda>i. i \<notin> set existing) ids)) \<and>
    activeTrackers (stats m') = length (trackers m') \<and>
    lastBackendSync (stats m') = Some now \<and>
    pipelinesArrive ids None now m = m\<lparr>syncs := remove1 ids (syncs m)\<rparr>"
proof -
  let ?m = "m\<lparr>syncs := remove1 ids (syncs m)\<rparr>" and ?o = "filter (\<lambda>i. i \<notin> set existing) ids"
  from assms(1) have m: "managed {} ?m" by (auto simp: manager_reachable_def dest: run_managed)
  have o: "orphan_calls ?m = orphan_calls m" by (simp add: orphan_calls_def fun_eq_iff)
  from orphans_stopped [OF m, of ?o] assms(2)
  have f: "called (fold stop_orphan ?o ?m) = called m @ concat (map (orphan_calls m) ?o)"
    "map_of (trackers (fold stop_orphan ?o ?m)) = (\<lambda>i. if i \<in> set ?o then None else map_of (trackers m) i)"
    by (auto simp: o fun_eq_iff)
  have "registered (fold stop_orphan ?o ?m)" using fold_orphan_managed [OF m] by (simp add: managed_def)
  from registered_count [OF this] registered_count [of ?m] m
  have c: "activeTrackers (stats m') = length (trackers m')"
    by (cases "?o = []") (simp_all add: assms(3) pipelinesArrive_def Let_def managed_def)
  have e: "?o = [] \<Longrightarrow> set ids - set existing = {}" by (auto simp: filter_empty_conv)
  show ?thesis
  proof (intro conjI)
    show "map_of (trackers m') = (\<lambda>i. if i \<in> set ids - set existing then None else map_of (trackers m) i)"
    proof (cases "?o = []")
      case True
      with e have "i \<notin> set ids - set existing" for i by blast
      with True show ?thesis by (auto simp: assms(3) pipelinesArrive_def Let_def fun_eq_iff)
    qed (use f(2) in \<open>simp add: assms(3) pipelinesArrive_def Let_def\<close>)
    show "called m' = called m @ concat (map (orphan_calls m) ?o)"
      using f(1) by (simp add: assms(3) pipelinesArrive_def Let_def)
  qed (use c in \<open>simp_all add: assms(3) pipelinesArrive_def Let_def\<close>)
qed

section \<open>Witnesses\<close>

lemmas manager_eval = trackPipeline_def stop_eq scheduleNextCheck_def initialManager_def Let_def manager_defs
  new_tracker_def getNextInterval_def timerFires_def destroyTracker_def AList.delete_eq

lemma restarted_state:
  "map_of (trackers restarted) ''p'' = Some 1" "inflight restarted = [0]" "length (heap restarted) = 2"
  "\<not> isActive (heap restarted ! 0)" "pipelineId (heap restarted ! 0) = ''p''"
  "pipelineId (heap restarted ! 1) = ''p''" "isActive (heap restarted ! 1)"
  by (simp_all add: restarted_def manager_eval maxDuration_def DEFAULT_MAX_DURATION_def MAX_ERROR_COUNT_def)

lemma polling_ends_witness: "count_list [0] (0::nat) \<le> maxDuration (heap restarted ! 0) div 2000"
  using polling_ends [OF restarted_run, of 0] restarted_state by simp

lemma one_polling_loop_witness: "activeTrackers (stats restarted) = length (trackers restarted)"
  using one_polling_loop [OF restarted_reachable] by blast

lemma terminated_status: "parsePipelineStatus ''terminated'' = Stopped"
  by code_simp

lemma response_spec_witness:
  "errorCount (heap (healthArrives 0 None 7000
    (timerFires 1 0 2000 0 (trackPipeline ''p'' None None initialManager))) ! 0) = 1"
proof -
  let ?m = "timerFires 1 0 2000 0 (trackPipeline ''p'' None None initialManager)"
  have e: "map_of (trackers ?m) ''p'' = Some 0" "inflight ?m = [0]" "errorCount (heap ?m ! 0) = 0"
    by (simp_all add: manager_eval maxDuration_def DEFAULT_MAX_DURATION_def MAX_ERROR_COUNT_def)
  with response_spec [of ?m 0 "''p''" _ None 7000] requested_run show ?thesis
    by (simp add: manager_reachable_def) blast
qed

lemma stale_response_witness:
  "map_of (trackers (healthArrives 0 (Some ''terminated'') 7000 restarted)) ''p'' = None \<and> isActive (heap restarted ! 1)"
  using stale_response [OF restarted_reachable, of 0 1 "''terminated''" _ 7000] restarted_state
  by (simp add: terminated_status)

lemma orphan_sync_witness: "trackers (pipelinesArrive [''p''] (Some []) 9000 restarted) = []"
proof -
  let ?m = "pipelinesArrive [''p''] (Some []) 9000 restarted"
  from orphan_sync [OF restarted_reachable, of "[''p'']" ?m "[]" 9000]
  have "map_of (trackers ?m) = (\<lambda>i. if i \<in> set [''p''] - set [] then None else map_of (trackers restarted) i)" by simp
  moreover have "map_of (trackers restarted) i = None" if "i \<noteq> ''p''" for i
    using that by (simp add: restarted_def manager_eval maxDuration_def DEFAULT_MAX_DURATION_def MAX_ERROR_COUNT_def)
  ultimately have "map_of (trackers ?m) i = None" for i by simp
  then show ?thesis by (metis list.exhaust list.set_intros(1) map_of_eq_None_iff image_eqI empty_iff)
qed

end
