(* ===== verification/State_Manager.thy ===== *)
theory State_Manager
  imports Status_Polling
begin

text \<open>
  The single source of the pipeline statuses the pages show (ui/src/services/pipeline-state-manager.ts)
  and the operations the pages report to it (hooks/usePipelineState.ts). It owns the status map, the
  listeners and the monitored set, and drives the status manager, whose callbacks come back as
  status updates. A listener is a number; what it is told is recorded. Trackers that were
  given no callback ignore the call, as those of \<open>onDestroyed\<close> do here.
\<close>

section \<open>State and operations\<close>

record StatusStore =
  statusManager :: Manager
  pipelineState :: "(string \<times> PipelineStatus) list"
  stateListeners :: "nat list"
  monitoredPipelines :: "string list"
  heard :: "(nat \<times> string \<times> PipelineStatus) list"

datatype Operation = OpStop | OpResume | OpTerminate | OpDelete | OpDeploy

definition initialStatusStore :: StatusStore where
  "initialStatusStore =
     \<lparr>statusManager = initialManager, pipelineState = [], stateListeners = [], monitoredPipelines = [], heard = []\<rparr>"

definition getPipelineStatus :: "string \<Rightarrow> StatusStore \<Rightarrow> PipelineStatus option" where
  "getPipelineStatus i s = map_of (pipelineState s) i"

definition setPipelineStatus :: "string \<Rightarrow> PipelineStatus \<Rightarrow> StatusStore \<Rightarrow> StatusStore" where
  "setPipelineStatus i st s =
     (if map_of (pipelineState s) i \<noteq> Some st
      then s\<lparr>pipelineState := AList.update i st (pipelineState s),
             heard := heard s @ map (\<lambda>l. (l, i, st)) (stateListeners s)\<rparr>
      else s)"

definition subscribeTo :: "nat \<Rightarrow> StatusStore \<Rightarrow> StatusStore" where
  "subscribeTo l s = s\<lparr>stateListeners := set_add l (stateListeners s)\<rparr>"

definition unsubscribe :: "nat \<Rightarrow> StatusStore \<Rightarrow> StatusStore" where
  "unsubscribe l s = s\<lparr>stateListeners := removeAll l (stateListeners s)\<rparr>"

text \<open>The callbacks of a tracker: a change of status goes into the map, the others are logged.\<close>

definition deliver :: "Callback \<Rightarrow> StatusStore \<Rightarrow> StatusStore" where
  "deliver c s = (case c of OnStatusChange a i newStatus previousStatus \<Rightarrow> setPipelineStatus i newStatus s | _ \<Rightarrow> s)"

text \<open>An operation of the status manager, with the callbacks it makes.\<close>

definition on_manager :: "(Manager \<Rightarrow> Manager) \<Rightarrow> StatusStore \<Rightarrow> StatusStore" where
  "on_manager f s =
     (let m = statusManager s; m' = f m
      in fold deliver (drop (length (called m)) (called m')) (s\<lparr>statusManager := m'\<rparr>))"

fun shouldTrackOperation :: "Operation \<Rightarrow> bool" where
  "shouldTrackOperation OpDelete = False"
| "shouldTrackOperation _ = True"

fun getMaxDurationForOperation :: "Operation \<Rightarrow> nat" where
  "getMaxDurationForOperation OpStop = 30"
| "getMaxDurationForOperation OpResume = 10"
| "getMaxDurationForOperation OpTerminate = 15"
| "getMaxDurationForOperation OpDeploy = 20"
| "getMaxDurationForOperation OpDelete = 30"

fun operation_text :: "Operation \<Rightarrow> string" where
  "operation_text OpStop = ''stop''"
| "operation_text OpResume = ''resume''"
| "operation_text OpTerminate = ''terminate''"
| "operation_text OpDelete = ''delete''"
| "operation_text OpDeploy = ''deploy''"

definition reportOperation :: "string \<Rightarrow> Operation \<Rightarrow> StatusStore \<Rightarrow> StatusStore" where
  "reportOperation i operation s =
     (if shouldTrackOperation operation
      then on_manager (trackPipeline i (Some (getMaxDurationForOperation operation)) (Some (operation_text operation))) s
      else s)"

definition reportOptimisticUpdate :: "string \<Rightarrow> PipelineStatus \<Rightarrow> StatusStore \<Rightarrow> StatusStore" where
  "reportOptimisticUpdate i st s = setPipelineStatus i st s"

definition startMonitoring :: "string list \<Rightarrow> StatusStore \<Rightarrow> StatusStore" where
  "startMonitoring ids s =
     (let s1 = s\<lparr>monitoredPipelines := fold set_add ids (monitoredPipelines s)\<rparr>
      in fold (\<lambda>i. on_manager (trackPipeline i (Some 60) (Some ''general monitoring''))) ids s1)"

text \<open>No id, and the empty one, stop everything.\<close>

definition stopMonitoring :: "string option \<Rightarrow> StatusStore \<Rightarrow> StatusStore" where
  "stopMonitoring i s =
     (case i of
        Some (c # cs) \<Rightarrow>
          on_manager (stop (c # cs)) (s\<lparr>monitoredPipelines := removeAll (c # cs) (monitoredPipelines s)\<rparr>)
      | _ \<Rightarrow> on_manager killAllTracking (s\<lparr>monitoredPipelines := []\<rparr>))"

definition cleanup :: "StatusStore \<Rightarrow> StatusStore" where
  "cleanup s = (stopMonitoring None s)\<lparr>pipelineState := [], stateListeners := []\<rparr>"

text \<open>What the pages report.\<close>

fun optimistic_status :: "Operation \<Rightarrow> PipelineStatus" where
  "optimistic_status OpStop = Stopping"
| "optimistic_status OpResume = Resuming"
| "optimistic_status OpTerminate = Terminating"
| "optimistic_status OpDeploy = Active"
| "optimistic_status OpDelete = Stopped"

fun report :: "Operation \<Rightarrow> string \<Rightarrow> StatusStore \<Rightarrow> StatusStore" where
  "report OpDelete i s = reportOptimisticUpdate i (optimistic_status OpDelete) s"
| "report operation i s = reportOperation i operation (reportOptimisticUpdate i (optimistic_status operation) s)"

definition revertOptimisticUpdate :: "string \<Rightarrow> PipelineStatus \<Rightarrow> StatusStore \<Rightarrow> StatusStore" where
  "revertOptimisticUpdate i originalStatus s = reportOptimisticUpdate i originalStatus s"

section \<open>Steps\<close>

inductive store_step :: "StatusStore \<Rightarrow> StatusStore \<Rightarrow> bool" where
  subscribe: "store_step s (subscribeTo l s)"
| unsubscribe: "store_step s (unsubscribe l s)"
| operation: "store_step s (report operation i s)"
| revert: "store_step s (revertOptimisticUpdate i st s)"
| monitor: "store_step s (startMonitoring ids s)"
| stop: "store_step s (stopMonitoring i s)"
| cleanup: "store_step s (cleanup s)"
| polling: "manager_step (statusManager s) x (f (statusManager s)) \<Longrightarrow> store_step s (on_manager f s)"

definition store_reachable :: "StatusStore \<Rightarrow> bool" where
  "store_reachable = store_step\<^sup>*\<^sup>* initialStatusStore"

lemma set_status_manager [simp]:
  "statusManager (setPipelineStatus i st s) = statusManager s"
  "stateListeners (setPipelineStatus i st s) = stateListeners s"
  by (simp_all add: setPipelineStatus_def)

lemma deliver_manager [simp]:
  "statusManager (deliver c s) = statusManager s" "stateListeners (deliver c s) = stateListeners s"
  by (simp_all add: deliver_def split: Callback.split)

lemma delivered [simp]:
  "statusManager (fold deliver cs s) = statusManager s" "stateListeners (fold deliver cs s) = stateListeners s"
  by (induction cs arbitrary: s) simp_all

lemma on_manager_manager [simp]:
  "statusManager (on_manager f s) = f (statusManager s)" "stateListeners (on_manager f s) = stateListeners s"
  by (simp_all add: on_manager_def Let_def)

lemma manager_reachable_step: "manager_step m x m' \<Longrightarrow> manager_reachable m \<Longrightarrow> manager_reachable m'"
  by (cases x) (auto simp: manager_reachable_def intro: manager_run.quiet manager_run.fires)

lemma monitors_reachable:
  "manager_reachable (statusManager s) \<Longrightarrow>
     manager_reachable (statusManager (fold (\<lambda>i. on_manager (trackPipeline i d n)) ids s))"
proof (induction ids arbitrary: s)
  case (Cons i ids)
  from manager_reachable_step [OF manager_step.track Cons.prems] show ?case by (simp add: Cons.IH)
qed simp

text \<open>Whatever the pages do, the status manager they drive is in a state its own steps reach.\<close>

lemma store_step_reachable:
  "store_step s s' \<Longrightarrow> manager_reachable (statusManager s) \<Longrightarrow> manager_reachable (statusManager s')"
proof (induction rule: store_step.induct)
  case (operation s op i)
  then show ?case by (cases op) (auto simp: reportOperation_def reportOptimisticUpdate_def
      intro: manager_reachable_step [OF manager_step.track])
next
  case (stop s i)
  then show ?case by (auto simp: stopMonitoring_def intro: manager_reachable_step [OF manager_step.stop]
      manager_reachable_step [OF manager_step.kill] split: option.split list.split)
next
  case (cleanup s)
  then show ?case by (simp add: cleanup_def stopMonitoring_def manager_reachable_step [OF manager_step.kill])
next
  case (polling s x f)
  then show ?case using manager_reachable_step by simp
qed (simp_all add: subscribeTo_def unsubscribe_def revertOptimisticUpdate_def reportOptimisticUpdate_def
  startMonitoring_def Let_def monitors_reachable)

lemma store_manager_reachable: "store_reachable s \<Longrightarrow> manager_reachable (statusManager s)"
  unfolding store_reachable_def
proof (induction rule: rtranclp_induct)
  case base
  have "manager_run [] initialManager" by (rule manager_run.initial)
  then show ?case by (auto simp: initialStatusStore_def manager_reachable_def)
qed (rule store_step_reachable)

section \<open>What listeners are told\<close>

definition told :: "nat \<Rightarrow> string \<Rightarrow> (nat \<times> string \<times> PipelineStatus) list \<Rightarrow> PipelineStatus list" where
  "told l i h = map (snd \<circ> snd) (filter (\<lambda>x. fst x = l \<and> fst (snd x) = i) h)"

definition follows :: "StatusStore \<Rightarrow> nat \<Rightarrow> StatusStore \<Rightarrow> bool" where
  "follows s0 l s \<longleftrightarrow>
     length (heard s0) \<le> length (heard s) \<and>
     (\<forall>i. let news = map_of (pipelineState s0) i # map Some (told l i (drop (length (heard s0)) (heard s)))
          in distinct_adj news \<and> map_of (pipelineState s) i = last news)"

lemma told_append [simp]: "told l i (xs @ ys) = told l i xs @ told l i ys"
  by (simp add: told_def)

lemma told_map: "distinct ls \<Longrightarrow> l \<in> set ls \<Longrightarrow> told l j (map (\<lambda>l. (l, i, st)) ls) = (if j = i then [st] else [])"
  by (induction ls) (auto simp: told_def filter_empty_conv)

lemma follows_refl: "follows s l s"
  by (simp add: follows_def told_def)

lemma follows_same:
  "follows s0 l s \<Longrightarrow> pipelineState s' = pipelineState s \<Longrightarrow> heard s' = heard s \<Longrightarrow> follows s0 l s'"
  by (simp add: follows_def)

lemma distinct_adj_snoc: "distinct_adj (x # xs) \<Longrightarrow> last (x # xs) \<noteq> y \<Longrightarrow> distinct_adj ((x # xs) @ [y])"
  by (induction xs arbitrary: x) auto

lemma follows_set:
  assumes f: "follows s0 l s" and l: "l \<in> set (stateListeners s)" "distinct (stateListeners s)"
  shows "follows s0 l (setPipelineStatus i st s)"
proof (cases "map_of (pipelineState s) i = Some st")
  case True
  with f show ?thesis by (simp add: setPipelineStatus_def)
next
  case False
  show ?thesis
    unfolding follows_def
  proof (intro conjI allI)
    show "length (heard s0) \<le> length (heard (setPipelineStatus i st s))"
      using f by (simp add: follows_def setPipelineStatus_def)
    fix j
    let ?n = "map_of (pipelineState s0) j # map Some (told l j (drop (length (heard s0)) (heard s)))"
    from f have n: "distinct_adj ?n" "map_of (pipelineState s) j = last ?n" by (simp_all add: follows_def Let_def)
    show "let news = map_of (pipelineState s0) j #
          map Some (told l j (drop (length (heard s0)) (heard (setPipelineStatus i st s))))
        in distinct_adj news \<and> map_of (pipelineState (setPipelineStatus i st s)) j = last news"
    proof (cases "j = i")
      case True
      with False n have "last ?n \<noteq> Some st" by auto
      with n(1) have "distinct_adj (?n @ [Some st])" by (rule distinct_adj_snoc)
      with True False f l show ?thesis
        by (simp add: setPipelineStatus_def told_map update_conv' follows_def)
    next
      case False
      with \<open>map_of (pipelineState s) i \<noteq> Some st\<close> n f l show ?thesis
        by (simp add: setPipelineStatus_def told_map update_conv' follows_def)
    qed
  qed
qed

lemma follows_on_manager:
  assumes "follows s0 l s" and "l \<in> set (stateListeners s)" and "distinct (stateListeners s)"
  shows "follows s0 l (on_manager f s)"
proof -
  have "follows s0 l (fold deliver cs s')"
    if "follows s0 l s'" "l \<in> set (stateListeners s')" "distinct (stateListeners s')" for cs s'
    using that
  proof (induction cs arbitrary: s')
    case (Cons c cs)
    then show ?case by (cases c) (simp_all add: deliver_def follows_set)
  qed simp
  then show ?thesis using assms by (simp add: on_manager_def Let_def follows_def)
qed

lemma monitors_listeners [simp]:
  "stateListeners (fold (\<lambda>i. on_manager (trackPipeline i d n)) ids s) = stateListeners s"
  by (induction ids arbitrary: s) simp_all

lemma follows_monitors:
  "follows s0 l s \<Longrightarrow> l \<in> set (stateListeners s) \<Longrightarrow> distinct (stateListeners s) \<Longrightarrow>
     follows s0 l (fold (\<lambda>i. on_manager (trackPipeline i d n)) ids s)"
  by (induction ids arbitrary: s) (simp_all add: follows_on_manager)

lemmas store_ops = reportOperation_def reportOptimisticUpdate_def revertOptimisticUpdate_def startMonitoring_def
  stopMonitoring_def subscribeTo_def unsubscribe_def Let_def

lemma listeners_distinct: "store_step s s' \<Longrightarrow> distinct (stateListeners s) \<Longrightarrow> distinct (stateListeners s')"
proof (induction rule: store_step.induct)
  case (operation s op i)
  then show ?case by (cases op) (simp_all add: store_ops)
qed (auto simp: store_ops cleanup_def distinct_removeAll split: option.split list.split)

lemma reachable_distinct: "store_reachable s \<Longrightarrow> distinct (stateListeners s)"
  unfolding store_reachable_def
  by (induction rule: rtranclp_induct) (simp_all add: initialStatusStore_def listeners_distinct)

lemma follows_step:
  assumes "store_step s s'" and "follows s0 l s" and "l \<in> set (stateListeners s)" and "l \<in> set (stateListeners s')"
    and "distinct (stateListeners s)"
  shows "follows s0 l s'"
  using assms
proof (induction rule: store_step.induct)
  case (operation s op i)
  then show ?case by (cases op) (simp_all add: store_ops follows_set follows_on_manager)
next
  case (monitor s ids)
  then have "follows s0 l (s\<lparr>monitoredPipelines := q\<rparr>)" for q by (rule_tac follows_same) simp_all
  with monitor show ?case by (simp add: store_ops follows_monitors)
next
  case (stop s i)
  then have "follows s0 l (s\<lparr>monitoredPipelines := q\<rparr>)" for q by (rule_tac follows_same) simp_all
  with stop show ?case by (auto simp: stopMonitoring_def follows_on_manager split: option.split list.split)
next
  case (cleanup s)
  then show ?case by (simp add: cleanup_def)
qed (auto simp: store_ops follows_set follows_on_manager intro: follows_same)

text \<open>
  C15. A listener follows the statuses. Whatever operations, timers and responses come while a listener
  stays subscribed, it has been told, for each pipeline, every change of the status since it
  subscribed, in order and without repetition: what it was told last is the status the store
  now has, and if it was told nothing the status has not changed.
\<close>

theorem listener_follows:
  assumes "store_reachable s0" and "l \<in> set (stateListeners s0)"
    and "(\<lambda>s s'. store_step s s' \<and> l \<in> set (stateListeners s'))\<^sup>*\<^sup>* s0 s"
  shows "(let news = getPipelineStatus i s0 # map Some (told l i (drop (length (heard s0)) (heard s)))
    in distinct_adj news \<and> getPipelineStatus i s = last news)"
proof -
  from assms(3) have "follows s0 l s \<and> store_reachable s \<and> l \<in> set (stateListeners s)"
  proof (induction rule: rtranclp_induct)
    case base
    with assms show ?case by (simp add: follows_refl)
  next
    case (step s s')
    then have "follows s0 l s'" using follows_step reachable_distinct by blast
    moreover have "store_reachable s'" using step unfolding store_reachable_def by (meson rtranclp.rtrancl_into_rtrancl)
    ultimately show ?case using step by blast
  qed
  then show ?thesis by (simp add: follows_def getPipelineStatus_def Let_def)
qed

section \<open>From the backend to the page\<close>

lemma response_called:
  assumes "a < length (heap m)"
  shows "called (healthArrives a (Some txt) now m) = called m @
      (if currentStatus (heap m ! a) = Some (parsePipelineStatus txt) then []
       else [OnStatusChange a (pipelineId (heap m ! a)) (parsePipelineStatus txt) (currentStatus (heap m ! a))]) @
      (if isFinalStatus (parsePipelineStatus txt)
       then case map_of (trackers m) (pipelineId (heap m ! a)) of None \<Rightarrow> []
         | Some b \<Rightarrow> [OnDestroyed b (if a = b then pipelineId (heap m ! a) else pipelineId (heap m ! b))] else [])"
    and "called (healthArrives a None now m) = called m @ [OnError a (pipelineId (heap m ! a))] @
      (if MAX_ERROR_COUNT \<le> errorCount (heap m ! a) + 1
       then case map_of (trackers m) (pipelineId (heap m ! a)) of None \<Rightarrow> []
         | Some b \<Rightarrow> [OnDestroyed b (if a = b then pipelineId (heap m ! a) else pipelineId (heap m ! b))] else [])"
  using assms
  by (auto simp: healthArrives_def healthOk_def healthFailed_def Let_def stop_called split: option.split)

lemma deliver_destroyed: "fold deliver (case x of None \<Rightarrow> [] | Some b \<Rightarrow> [OnDestroyed b (f b)]) s = s"
  by (simp add: deliver_def split: option.split)

lemma response_delivered:
  assumes "a < length (heap (statusManager s))"
  shows "on_manager (healthArrives a (Some txt) now) s =
      (let s1 = s\<lparr>statusManager := healthArrives a (Some txt) now (statusManager s)\<rparr>; tr = heap (statusManager s) ! a
       in if currentStatus tr = Some (parsePipelineStatus txt) then s1
          else setPipelineStatus (pipelineId tr) (parsePipelineStatus txt) s1)"
    and "on_manager (healthArrives a None now) s = s\<lparr>statusManager := healthArrives a None now (statusManager s)\<rparr>"
  using assms
  by (auto simp: on_manager_def Let_def response_called deliver_destroyed) (simp_all add: deliver_def deliver_destroyed)

lemma track_delivered: "pipelineState (on_manager (trackPipeline i d n) s) = pipelineState s"
proof -
  have "drop (length (called m)) (called (trackPipeline i d n m)) =
      (case map_of (trackers m) i of None \<Rightarrow> [] | Some b \<Rightarrow> [OnDestroyed b (pipelineId (heap m ! b))])" for m
    by (simp add: trackPipeline_def Let_def stop_called)
  then show ?thesis by (simp add: on_manager_def Let_def deliver_destroyed)
qed

lemma track_map: "map_of (trackers (trackPipeline i d n m)) = (map_of (trackers m))(i \<mapsto> length (heap (stop i m)))"
  by (auto simp: trackPipeline_def Let_def fun_eq_iff map_add_def split: option.split)

lemma track_length: "length (heap (trackPipeline i d n m)) = length (heap (stop i m)) + 1"
  by (simp add: trackPipeline_def Let_def scheduleNextCheck_def)

lemma track_inflight: "inflight (trackPipeline i d n m) = inflight m"
  by (simp add: trackPipeline_def Let_def)

lemma track_new:
  "\<exists>t. heap (trackPipeline i d n m) ! length (heap (stop i m)) = (new_tracker i d n)\<lparr>timeoutId := t\<rparr>"
  by (auto simp: trackPipeline_def Let_def scheduleNextCheck_def new_tracker_def)

text \<open>
  What a response shows. The page of a pipeline shows the status in the response exactly if it differs from
  the one that the asking tracker had before; otherwise, and after a failed request, the page keeps
  what it shows, whether or not that is the status. No other pipeline is touched.
\<close>

theorem response_shown:
  assumes "store_reachable s" and "a \<in> set (inflight (statusManager s))"
  shows "getPipelineStatus i (on_manager (healthArrives a res now) s) =
      (case res of
         Some txt \<Rightarrow>
           if i = pipelineId (heap (statusManager s) ! a) \<and>
              currentStatus (heap (statusManager s) ! a) \<noteq> Some (parsePipelineStatus txt)
           then Some (parsePipelineStatus txt) else getPipelineStatus i s
       | None \<Rightarrow> getPipelineStatus i s)"
proof -
  from assms(1) have "polled {} (statusManager s)"
    using store_manager_reachable run_managed by (auto simp: manager_reachable_def managed_def)
  with assms(2) have "a < length (heap (statusManager s))" using polled_inflight by blast
  from response_delivered [OF this] show ?thesis
    by (auto simp: getPipelineStatus_def Let_def setPipelineStatus_def update_conv' split: option.split)
qed

text \<open>
  The report of an operation other than delete. The page shows its transitional status at once, the tracking so
  far of the pipeline ends, and a new tracker starts, with no status and the limit
  of the operation, waiting for its first request. Since it has no status, whatever its first
  response says is shown.
\<close>

theorem operation_tracked:
  assumes "store_reachable s" and "operation \<noteq> OpDelete"
    and "m = statusManager s" and "m' = statusManager (report operation i s)"
  shows "getPipelineStatus i (report operation i s) = Some (optimistic_status operation) \<and>
    map_of (trackers m') i = Some (length (heap m)) \<and>
    (\<forall>j. j = i \<or> map_of (trackers m') j = map_of (trackers m) j) \<and>
    length (heap m') = length (heap m) + 1 \<and>
    (let tr = heap m' ! length (heap m)
     in currentStatus tr = None \<and> elapsedTime tr = 0 \<and> isActive tr \<and>
        maxDuration tr = getMaxDurationForOperation operation * 60000) \<and>
    waiting m' (length (heap m)) \<and>
    (case map_of (trackers m) i of None \<Rightarrow> True | Some b \<Rightarrow> \<not> isActive (heap m' ! b))"
proof -
  let ?d = "getMaxDurationForOperation operation" and ?n = "operation_text operation" and ?a = "length (heap m)"
  have m: "manager_reachable m" using assms(1,3) store_manager_reachable by simp
  then have mm: "managed {} m" by (auto simp: manager_reachable_def dest: run_managed)
  then have r: "registered m" by (simp add: managed_def)
  have rep: "report operation i s = on_manager (trackPipeline i (Some ?d) (Some ?n))
      (setPipelineStatus i (optimistic_status operation) s)"
    using assms(2) by (cases operation) (simp_all add: store_ops)
  then have m': "m' = trackPipeline i (Some ?d) (Some ?n) m" by (simp add: assms(3,4))
  have "managed {} m'" using step_managed [OF manager_step.track mm] m' by simp
  then have r': "registered m'" and p': "polled {} m'" by (simp_all add: managed_def)
  have "getPipelineStatus i (report operation i s) = Some (optimistic_status operation)"
    by (simp add: rep track_delivered getPipelineStatus_def setPipelineStatus_def update_conv')
  moreover have tr: "map_of (trackers m') = (map_of (trackers m))(i \<mapsto> ?a)"
    by (simp add: m' track_map stop_length [OF r])
  moreover have len: "length (heap m') = ?a + 1" by (simp add: m' track_length stop_length [OF r])
  moreover have h: "currentStatus (heap m' ! ?a) = None \<and> elapsedTime (heap m' ! ?a) = 0 \<and>
      isActive (heap m' ! ?a) \<and> maxDuration (heap m' ! ?a) = ?d * 60000"
    using track_new [of i "Some ?d" "Some ?n" m]
    by (cases operation) (auto simp: m' stop_length [OF r] new_tracker_def maxDuration_def)
  moreover have "\<not> isActive (heap m' ! b)" if "map_of (trackers m) i = Some b" for b
  proof
    assume act: "isActive (heap m' ! b)"
    from registered_trackers [OF r that] have b: "b < ?a" "pipelineId (heap m ! b) = i" by simp_all
    with keepsD [OF keeps_track b(1)] m' have "pipelineId (heap m' ! b) = i" by (simp add: same_life_def)
    with registered_unique [OF r' _ act] len b tr show False by simp
  qed
  moreover have "waiting m' ?a"
  proof -
    have "?a \<notin> set (inflight m')"
      using polled_inflight [of "{}" m] mm by (auto simp: m' track_inflight managed_def)
    with polled_active [OF p', of ?a] h len show ?thesis by simp
  qed
  ultimately show ?thesis by (simp split: option.split)
qed

text \<open>
  A response that arrives late can leave a wrong status on the page. If the tracker it belongs to
  has been replaced by one that has meanwhile seen the status, the page shows the old one, and
  any further response with the status the pipeline does have leaves it there.
\<close>

lemma late_response_sticks:
  assumes "store_reachable s" and "a \<in> set (inflight (statusManager s))"
    and "pipelineId (heap (statusManager s) ! a) = i"
    and "currentStatus (heap (statusManager s) ! a) \<noteq> Some (parsePipelineStatus late)"
    and "map_of (trackers (statusManager s)) i = Some b" and "a \<noteq> b"
    and "currentStatus (heap (statusManager s) ! b) = Some (parsePipelineStatus txt)"
    and "s' = on_manager (healthArrives a (Some late) now) s"
  shows "getPipelineStatus i s' = Some (parsePipelineStatus late) \<and>
    currentStatus (heap (statusManager s') ! b) = Some (parsePipelineStatus txt) \<and>
    getPipelineStatus i (on_manager (healthArrives b (Some txt) now') s') = Some (parsePipelineStatus late)"
proof -
  from assms(1) have mm: "managed {} (statusManager s)"
    using store_manager_reachable run_managed by (auto simp: manager_reachable_def)
  then have a: "a < length (heap (statusManager s))" using assms(2) polled_inflight by (auto simp: managed_def)
  from mm assms(5) have b: "b < length (heap (statusManager s))"
    using registered_trackers by (auto simp: managed_def)
  have shown: "getPipelineStatus i s' = Some (parsePipelineStatus late)"
    using response_delivered [OF a] assms(3,4,8)
    by (simp add: Let_def getPipelineStatus_def setPipelineStatus_def update_conv')
  have seen: "currentStatus (heap (statusManager s') ! b) = Some (parsePipelineStatus txt)"
    using assms(6,7,8) by (simp add: healthArrives_def healthOk_def Let_def)
  have "b < length (heap (statusManager s'))"
    using keepsD [OF keeps_health b] assms(8) by simp
  from response_delivered [OF this] seen shown show ?thesis by (simp add: Let_def getPipelineStatus_def)
qed

section \<open>Witnesses\<close>

text \<open>A monitored pipeline is resumed while the first request of the monitoring is in flight.\<close>

definition snapshot :: "Tracker list \<Rightarrow> nat \<Rightarrow> (nat \<times> nat \<times> nat) list \<Rightarrow> nat \<Rightarrow> nat list \<Rightarrow> nat \<Rightarrow> Callback list \<Rightarrow>
    (string \<times> PipelineStatus) list \<Rightarrow> (nat \<times> string \<times> PipelineStatus) list \<Rightarrow> StatusStore" where
  "snapshot h a ts n fl polls cs ps hs =
     \<lparr>statusManager =
       \<lparr>heap = h, trackers = [(''p'', a)], timers = ts, next_timer = n, inflight = fl,
        stats = \<lparr>activeTrackers = 1, totalPollingOperations = polls, backendSyncEnabled = True,
          lastBackendSync = None, orphanedPipelinesDetected = 0\<rparr>,
        backendSyncInterval = True, syncs = [], called = cs\<rparr>,
      pipelineState = ps, stateListeners = [1], monitoredPipelines = [''p''], heard = hs\<rparr>"

definition tracker_p :: "nat \<Rightarrow> string \<Rightarrow> PipelineStatus option \<Rightarrow> nat \<Rightarrow> nat option \<Rightarrow> bool \<Rightarrow> Tracker" where
  "tracker_p d n st e t act =
     \<lparr>pipelineId = ''p'', maxDurationMinutes = Some d, currentStatus = st, elapsedTime = e, timeoutId = t,
      isActive = act, errorCount = 0, lastErrorTime = 0, operationName = n\<rparr>"

lemmas store_eval = manager_eval store_ops on_manager_def deliver_def set_add_def setPipelineStatus_def
  initialStatusStore_def maxDuration_def DEFAULT_MAX_DURATION_def MAX_ERROR_COUNT_def snapshot_def tracker_p_def

definition raced :: StatusStore where
  "raced = snapshot
     [tracker_p 60 ''general monitoring'' None 2000 None False, tracker_p 10 ''resume'' (Some Active) 2000 (Some 3) True]
     1 [(3, 1, 2000)] 4 [0] 2 [OnDestroyed 0 ''p'', OnStatusChange 1 ''p'' Active None]
     [(''p'', Active)] [(1, ''p'', Resuming), (1, ''p'', Active)]"

lemma running_status: "parsePipelineStatus ''Running'' = Active" "parsePipelineStatus ''Paused'' = Paused"
  by code_simp+

lemma raced_reachable: "store_reachable raced"
proof -
  let ?s1 = "snapshot [tracker_p 60 ''general monitoring'' None 0 (Some 1) True] 0 [(1, 0, 2000)] 2 [] 0 [] [] []"
  let ?s2 = "snapshot [tracker_p 60 ''general monitoring'' None 2000 (Some 1) True] 0 [] 2 [0] 1 [] [] []"
  let ?old = "tracker_p 60 ''general monitoring'' None 2000 None False"
  let ?s3 = "snapshot [?old, tracker_p 10 ''resume'' None 0 (Some 2) True] 1 [(2, 1, 2000)] 3 [0] 1 [OnDestroyed 0 ''p'']
    [(''p'', Resuming)] [(1, ''p'', Resuming)]"
  let ?s4 = "snapshot [?old, tracker_p 10 ''resume'' None 2000 (Some 2) True] 1 [] 3 [0, 1] 2 [OnDestroyed 0 ''p'']
    [(''p'', Resuming)] [(1, ''p'', Resuming)]"
  have 1: "startMonitoring [''p''] (subscribeTo 1 initialStatusStore) = ?s1" by (simp add: store_eval)
  have 2: "on_manager (timerFires 1 0 2000 0) ?s1 = ?s2" by (simp add: store_eval)
  have 3: "report OpResume ''p'' ?s2 = ?s3" by (simp add: store_eval)
  have 4: "on_manager (timerFires 2 1 2000 0) ?s3 = ?s4" by (simp add: store_eval)
  have 5: "on_manager (healthArrives 1 (Some ''Running'') 0) ?s4 = raced"
    by (simp add: store_eval raced_def healthArrives_def healthOk_def isFinalStatus_def running_status)
  have "store_step initialStatusStore (subscribeTo 1 initialStatusStore)" by (rule store_step.subscribe)
  moreover have "store_step (subscribeTo 1 initialStatusStore) ?s1" using store_step.monitor 1 by metis
  moreover have "store_step ?s1 ?s2" unfolding 2 [symmetric]
    by (rule store_step.polling, rule manager_step.fire) (simp add: snapshot_def)
  moreover have "store_step ?s2 ?s3" using store_step.operation 3 by metis
  moreover have "store_step ?s3 ?s4" unfolding 4 [symmetric]
    by (rule store_step.polling, rule manager_step.fire) (simp add: snapshot_def)
  moreover have "store_step ?s4 raced" unfolding 5 [symmetric]
    by (rule store_step.polling, rule manager_step.health) (simp add: snapshot_def)
  ultimately show ?thesis unfolding store_reachable_def by (meson rtranclp.rtrancl_into_rtrancl rtranclp.rtrancl_refl)
qed

lemma raced_state:
  "inflight (statusManager raced) = [0]" "pipelineId (heap (statusManager raced) ! 0) = ''p''"
  "currentStatus (heap (statusManager raced) ! 0) = None"
  "map_of (trackers (statusManager raced)) ''p'' = Some 1"
  "currentStatus (heap (statusManager raced) ! 1) = Some Active"
  "stateListeners raced = [1]" "getPipelineStatus ''p'' raced = Some Active"
  by (simp_all add: raced_def snapshot_def tracker_p_def getPipelineStatus_def)

lemma late_response_sticks_witness:
  "getPipelineStatus ''p'' (on_manager (healthArrives 0 (Some ''Paused'') 0) raced) = Some Paused"
  using late_response_sticks [OF raced_reachable, of 0 "''p''" "''Paused''" 1 "''Running''"] raced_state running_status
  by simp

lemma response_shown_witness:
  "getPipelineStatus ''q'' (on_manager (healthArrives 0 None 0) raced) = getPipelineStatus ''q'' raced"
  using response_shown [OF raced_reachable, of 0 "''q''" None 0] raced_state by simp

lemma operation_tracked_witness:
  "getPipelineStatus ''p'' (report OpStop ''p'' raced) = Some Stopping"
  using operation_tracked [OF raced_reachable, of OpStop _ _ "''p''"] by simp

lemma listener_follows_witness:
  "getPipelineStatus ''p'' (report OpStop ''p'' raced) =
     last (Some Active # map Some (told 1 ''p'' (drop (length (heard raced)) (heard (report OpStop ''p'' raced)))))"
proof -
  have "(\<lambda>s s'. store_step s s' \<and> 1 \<in> set (stateListeners s'))\<^sup>*\<^sup>* raced (report OpStop ''p'' raced)"
    using store_step.operation [of raced OpStop "''p''"] raced_state by (intro r_into_rtranclp) (simp add: store_ops)
  from listener_follows [OF raced_reachable _ this, of "''p''"] raced_state show ?thesis by (simp add: Let_def)
qed

end
