(* ===== verification/SSE_Manager.thy ===== *)
theory SSE_Manager
  imports Pipeline_Status "HOL-Library.AList"
begin

text \<open>
  The client of the status stream (ui/src/services/pipeline-sse-manager.ts, configuration in
  types/sse.ts). Event sources, timers and intervals have identities: those that are open or
  pending are listed in the state, whether or not the manager still knows them. One step is
  one call, one event of an open source, or one timer. Whether the constructor of an event source throws
  is an argument. Listeners are numbers; what they are told is recorded. Times are milliseconds.
\<close>

section \<open>State\<close>

datatype SSEConnectionState = Connecting | Connected | Disconnected | ErrorState | Reconnecting

record SSEManagerConfig =
  maxReconnectAttempts :: nat
  reconnectDelay :: nat
  maxReconnectDelay :: nat
  heartbeatTimeout :: int
  enablePollingFallback :: bool

definition DEFAULT_SSE_CONFIG :: SSEManagerConfig where
  "DEFAULT_SSE_CONFIG =
     \<lparr>maxReconnectAttempts = 5, reconnectDelay = 1000, maxReconnectDelay = 30000,
      heartbeatTimeout = 45000, enablePollingFallback = True\<rparr>"

datatype Notice =
    ConnectionNotice nat SSEConnectionState
  | StatusNotice nat string PipelineStatus
  | FallbackTriggered

record SSEManager =
  config :: SSEManagerConfig
  eventSource :: "nat option"
  connectionState :: SSEConnectionState
  subscribedPipelineIds :: "string list"
  statusListeners :: "nat list"
  connectionListeners :: "nat list"
  pipelineStatusCache :: "(string \<times> PipelineStatus) list"
  reconnectAttempts :: nat
  reconnectTimeoutId :: "nat option"
  lastHeartbeat :: int
  heartbeatCheckIntervalId :: "nat option"
  fallbackToPollingTriggered :: bool
  sources :: "(nat \<times> string list) list"
  timeouts :: "(nat \<times> nat) list"
  intervals :: "nat list"
  next_id :: nat
  notices :: "Notice list"

definition initialSSEManager :: "SSEManagerConfig \<Rightarrow> SSEManager" where
  "initialSSEManager c =
     \<lparr>config = c, eventSource = None, connectionState = Disconnected, subscribedPipelineIds = [],
      statusListeners = [], connectionListeners = [], pipelineStatusCache = [], reconnectAttempts = 0,
      reconnectTimeoutId = None, lastHeartbeat = 0, heartbeatCheckIntervalId = None,
      fallbackToPollingTriggered = False, sources = [], timeouts = [], intervals = [], next_id = 1, notices = []\<rparr>"

section \<open>Operations\<close>

definition setConnectionState :: "SSEConnectionState \<Rightarrow> SSEManager \<Rightarrow> SSEManager" where
  "setConnectionState st s =
     (if connectionState s = st then s
      else s\<lparr>connectionState := st,
             notices := notices s @ map (\<lambda>l. ConnectionNotice l st) (connectionListeners s)\<rparr>)"

definition notifyStatusChange :: "string \<Rightarrow> PipelineStatus \<Rightarrow> SSEManager \<Rightarrow> SSEManager" where
  "notifyStatusChange i st s = s\<lparr>notices := notices s @ map (\<lambda>l. StatusNotice l i st) (statusListeners s)\<rparr>"

definition clearReconnectTimeout :: "SSEManager \<Rightarrow> SSEManager" where
  "clearReconnectTimeout s =
     (case reconnectTimeoutId s of
        None \<Rightarrow> s
      | Some t \<Rightarrow> s\<lparr>timeouts := filter (\<lambda>x. fst x \<noteq> t) (timeouts s), reconnectTimeoutId := None\<rparr>)"

definition clearHeartbeatCheck :: "SSEManager \<Rightarrow> SSEManager" where
  "clearHeartbeatCheck s =
     (case heartbeatCheckIntervalId s of
        None \<Rightarrow> s
      | Some t \<Rightarrow> s\<lparr>intervals := removeAll t (intervals s), heartbeatCheckIntervalId := None\<rparr>)"

definition startHeartbeatCheck :: "SSEManager \<Rightarrow> SSEManager" where
  "startHeartbeatCheck s =
     (let s1 = clearHeartbeatCheck s
      in s1\<lparr>heartbeatCheckIntervalId := Some (next_id s1), intervals := intervals s1 @ [next_id s1],
            next_id := next_id s1 + 1\<rparr>)"

definition closeEventSource :: "SSEManager \<Rightarrow> SSEManager" where
  "closeEventSource s =
     (case eventSource s of
        None \<Rightarrow> s
      | Some x \<Rightarrow> s\<lparr>sources := filter (\<lambda>y. fst y \<noteq> x) (sources s), eventSource := None\<rparr>)"

definition disconnect :: "SSEManager \<Rightarrow> SSEManager" where
  "disconnect s = setConnectionState Disconnected (closeEventSource (clearHeartbeatCheck (clearReconnectTimeout s)))"

text \<open>The wait before the \<open>n\<close>-th reconnection in a row.\<close>

definition reconnect_delay :: "SSEManagerConfig \<Rightarrow> nat \<Rightarrow> nat" where
  "reconnect_delay c n = min (reconnectDelay c * 2 ^ (n - 1)) (maxReconnectDelay c)"

definition handleConnectionError :: "SSEManager \<Rightarrow> SSEManager" where
  "handleConnectionError s =
     (let s1 = closeEventSource (clearHeartbeatCheck s);
          s2 = s1\<lparr>reconnectAttempts := reconnectAttempts s1 + 1\<rparr>
      in if maxReconnectAttempts (config s2) \<le> reconnectAttempts s2
         then let s3 = setConnectionState ErrorState s2
           in if enablePollingFallback (config s3)
              then s3\<lparr>fallbackToPollingTriggered := True, notices := notices s3 @ [FallbackTriggered]\<rparr>
              else s3
         else let delay = reconnect_delay (config s2) (reconnectAttempts s2);
                  s3 = setConnectionState Reconnecting s2
           in s3\<lparr>reconnectTimeoutId := Some (next_id s3), timeouts := timeouts s3 @ [(next_id s3, delay)],
                 next_id := next_id s3 + 1\<rparr>)"

definition connect :: "bool \<Rightarrow> SSEManager \<Rightarrow> SSEManager" where
  "connect ok s =
     (if subscribedPipelineIds s = [] then s
      else if fallbackToPollingTriggered s then s
      else let s1 = setConnectionState Connecting s
        in if ok
           then s1\<lparr>eventSource := Some (next_id s1), sources := sources s1 @ [(next_id s1, subscribedPipelineIds s1)],
                   next_id := next_id s1 + 1\<rparr>
           else handleConnectionError s1)"

definition reconnect :: "bool \<Rightarrow> SSEManager \<Rightarrow> SSEManager" where
  "reconnect ok s = connect ok (disconnect s)"

definition subscribe :: "string list \<Rightarrow> bool \<Rightarrow> SSEManager \<Rightarrow> SSEManager" where
  "subscribe ids ok s =
     (let newIds = filter (\<lambda>i. i \<notin> set (subscribedPipelineIds s)) ids
      in if newIds = [] then s
         else reconnect ok (s\<lparr>subscribedPipelineIds := fold set_add newIds (subscribedPipelineIds s)\<rparr>))"

definition unsubscribe :: "string list \<Rightarrow> bool \<Rightarrow> SSEManager \<Rightarrow> SSEManager" where
  "unsubscribe ids ok s =
     (let removed = filter (\<lambda>i. i \<in> set (subscribedPipelineIds s)) ids;
          s1 = s\<lparr>subscribedPipelineIds := filter (\<lambda>i. i \<notin> set ids) (subscribedPipelineIds s),
                 pipelineStatusCache := fold AList.delete removed (pipelineStatusCache s)\<rparr>
      in if removed = [] then s
         else if subscribedPipelineIds s1 = [] then disconnect s1 else reconnect ok s1)"

definition addStatusListener :: "nat \<Rightarrow> SSEManager \<Rightarrow> SSEManager" where
  "addStatusListener l s =
     s\<lparr>statusListeners := set_add l (statusListeners s)\<rparr>"

definition addConnectionListener :: "nat \<Rightarrow> SSEManager \<Rightarrow> SSEManager" where
  "addConnectionListener l s =
     s\<lparr>connectionListeners := set_add l (connectionListeners s),
       notices := notices s @ [ConnectionNotice l (connectionState s)]\<rparr>"

definition removeStatusListener :: "nat \<Rightarrow> SSEManager \<Rightarrow> SSEManager" where
  "removeStatusListener l s = s\<lparr>statusListeners := removeAll l (statusListeners s)\<rparr>"

definition removeConnectionListener :: "nat \<Rightarrow> SSEManager \<Rightarrow> SSEManager" where
  "removeConnectionListener l s = s\<lparr>connectionListeners := removeAll l (connectionListeners s)\<rparr>"

definition getPipelineStatus :: "string \<Rightarrow> SSEManager \<Rightarrow> PipelineStatus option" where
  "getPipelineStatus i s = map_of (pipelineStatusCache s) i"

definition resetFallback :: "SSEManager \<Rightarrow> SSEManager" where
  "resetFallback s = s\<lparr>fallbackToPollingTriggered := False, reconnectAttempts := 0\<rparr>"

subsection \<open>Events\<close>

definition sourceOpens :: "int \<Rightarrow> SSEManager \<Rightarrow> SSEManager" where
  "sourceOpens now s =
     startHeartbeatCheck ((setConnectionState Connected s)\<lparr>reconnectAttempts := 0, lastHeartbeat := now\<rparr>)"

definition handleStatusUpdate :: "string \<Rightarrow> PipelineStatus \<Rightarrow> SSEManager \<Rightarrow> SSEManager" where
  "handleStatusUpdate i st s =
     notifyStatusChange i st (s\<lparr>pipelineStatusCache := AList.update i st (pipelineStatusCache s)\<rparr>)"

definition handleBatchUpdate :: "(string \<times> PipelineStatus) list \<Rightarrow> SSEManager \<Rightarrow> SSEManager" where
  "handleBatchUpdate updates s = fold (\<lambda>(i, st). handleStatusUpdate i st) updates s"

definition handleHeartbeat :: "int \<Rightarrow> SSEManager \<Rightarrow> SSEManager" where
  "handleHeartbeat timestamp s = s\<lparr>lastHeartbeat := timestamp\<rparr>"

definition heartbeatCheck :: "int \<Rightarrow> SSEManager \<Rightarrow> SSEManager" where
  "heartbeatCheck now s =
     (if heartbeatTimeout (config s) < now - lastHeartbeat s then handleConnectionError s else s)"

definition reconnectFires :: "nat \<Rightarrow> bool \<Rightarrow> SSEManager \<Rightarrow> SSEManager" where
  "reconnectFires t ok s = connect ok (s\<lparr>timeouts := filter (\<lambda>x. fst x \<noteq> t) (timeouts s)\<rparr>)"

definition visibilityChange :: "bool \<Rightarrow> bool \<Rightarrow> SSEManager \<Rightarrow> SSEManager" where
  "visibilityChange hidden ok s =
     (if hidden then disconnect s
      else if subscribedPipelineIds s \<noteq> [] \<and> \<not> fallbackToPollingTriggered s then connect ok s
      else s)"

section \<open>Steps\<close>

text \<open>
  A step may change whether the page is hidden. In a strict run the page does nothing that
  reconnects while it is hidden.
\<close>

inductive sse_step :: "bool \<Rightarrow> bool \<Rightarrow> SSEManager \<Rightarrow> bool \<Rightarrow> SSEManager \<Rightarrow> bool" for strict where
  subscribe: "\<not> (strict \<and> h) \<Longrightarrow> sse_step strict h s h (subscribe ids ok s)"
| unsubscribe: "\<not> (strict \<and> h) \<Longrightarrow> sse_step strict h s h (unsubscribe ids ok s)"
| reconnect: "\<not> (strict \<and> h) \<Longrightarrow> sse_step strict h s h (reconnect ok s)"
| disconnect: "sse_step strict h s h (disconnect s)"
| resetFallback: "sse_step strict h s h (resetFallback s)"
| addStatusListener: "sse_step strict h s h (addStatusListener l s)"
| addConnectionListener: "sse_step strict h s h (addConnectionListener l s)"
| removeStatusListener: "sse_step strict h s h (removeStatusListener l s)"
| removeConnectionListener: "sse_step strict h s h (removeConnectionListener l s)"
| opens: "(x, ids) \<in> set (sources s) \<Longrightarrow> sse_step strict h s h (sourceOpens now s)"
| status: "(x, ids) \<in> set (sources s) \<Longrightarrow> sse_step strict h s h (handleStatusUpdate i st s)"
| batch: "(x, ids) \<in> set (sources s) \<Longrightarrow> sse_step strict h s h (handleBatchUpdate us s)"
| heartbeat: "(x, ids) \<in> set (sources s) \<Longrightarrow> sse_step strict h s h (handleHeartbeat now s)"
| fails: "(x, ids) \<in> set (sources s) \<Longrightarrow> sse_step strict h s h (handleConnectionError s)"
| timer: "(t, d) \<in> set (timeouts s) \<Longrightarrow> sse_step strict h s h (reconnectFires t ok s)"
| check: "t \<in> set (intervals s) \<Longrightarrow> sse_step strict h s h (heartbeatCheck now s)"
| hide: "sse_step strict False s True (visibilityChange True ok s)"
| reveal: "sse_step strict True s False (visibilityChange False ok s)"

inductive sse_run :: "bool \<Rightarrow> SSEManagerConfig \<Rightarrow> bool \<Rightarrow> SSEManager \<Rightarrow> bool" for strict c where
  initial: "sse_run strict c h (initialSSEManager c)"
| step: "sse_run strict c h s \<Longrightarrow> sse_step strict h s h' s' \<Longrightarrow> sse_run strict c h' s'"

section \<open>The invariant\<close>

text \<open>
  The connection state machine: what is open, pending and running is exactly what the manager
  knows of and what its state says.
\<close>

definition live :: "SSEManager \<Rightarrow> bool" where
  "live s \<longleftrightarrow> connectionState s = Connecting \<or> connectionState s = Connected"

definition sse_ok :: "bool \<Rightarrow> SSEManager \<Rightarrow> bool" where
  "sse_ok h s \<longleftrightarrow>
     sources s = (case eventSource s of None \<Rightarrow> [] | Some x \<Rightarrow> [(x, subscribedPipelineIds s)]) \<and>
     (eventSource s = None \<longleftrightarrow> \<not> live s) \<and>
     (if connectionState s = Reconnecting
      then \<exists>t n. timeouts s = [(t, reconnect_delay (config s) n)] \<and> reconnectTimeoutId s = Some t \<and>
             1 \<le> n \<and> n < maxReconnectAttempts (config s)
      else timeouts s = []) \<and>
     intervals s = (case heartbeatCheckIntervalId s of None \<Rightarrow> [] | Some t \<Rightarrow> [t]) \<and>
     (heartbeatCheckIntervalId s = None \<or> connectionState s = Connected) \<and>
     (live s \<or> connectionState s = Reconnecting \<longrightarrow> subscribedPipelineIds s \<noteq> [] \<and> \<not> fallbackToPollingTriggered s) \<and>
     (h \<longrightarrow> connectionState s = Disconnected)"

lemmas sse_defs = setConnectionState_def clearReconnectTimeout_def clearHeartbeatCheck_def
  closeEventSource_def startHeartbeatCheck_def Let_def

lemma connection_fields [simp]:
  "connectionState (setConnectionState st s) = st" "eventSource (setConnectionState st s) = eventSource s"
  "subscribedPipelineIds (setConnectionState st s) = subscribedPipelineIds s"
  "fallbackToPollingTriggered (setConnectionState st s) = fallbackToPollingTriggered s"
  "sources (setConnectionState st s) = sources s" "timeouts (setConnectionState st s) = timeouts s"
  "intervals (setConnectionState st s) = intervals s" "config (setConnectionState st s) = config s"
  "heartbeatCheckIntervalId (setConnectionState st s) = heartbeatCheckIntervalId s"
  "reconnectTimeoutId (setConnectionState st s) = reconnectTimeoutId s"
  by (simp_all add: setConnectionState_def)

lemma disconnect_fields [simp]:
  "connectionState (disconnect s) = Disconnected" "eventSource (disconnect s) = None"
  "heartbeatCheckIntervalId (disconnect s) = None" "config (disconnect s) = config s"
  "subscribedPipelineIds (disconnect s) = subscribedPipelineIds s"
  "fallbackToPollingTriggered (disconnect s) = fallbackToPollingTriggered s"
  "reconnectAttempts (disconnect s) = reconnectAttempts s"
  by (simp_all add: disconnect_def sse_defs split: option.split)

text \<open>What a disconnect needs: nothing is open, pending or running but what the manager knows of.\<close>

definition known :: "SSEManager \<Rightarrow> bool" where
  "known s \<longleftrightarrow>
     fst ` set (sources s) \<subseteq> set_option (eventSource s) \<and> fst ` set (timeouts s) \<subseteq> set_option (reconnectTimeoutId s) \<and>
     set (intervals s) \<subseteq> set_option (heartbeatCheckIntervalId s)"

lemma disconnect_known: "known s \<Longrightarrow> sources (disconnect s) = [] \<and> timeouts (disconnect s) = [] \<and> intervals (disconnect s) = []"
  by (auto simp: known_def disconnect_def sse_defs filter_empty_conv removeAll_filter_not_eq split: option.split)

lemma ok_known: "sse_ok h s \<Longrightarrow> known s"
  by (cases "connectionState s = Reconnecting") (auto simp: sse_ok_def known_def split: option.splits)

text \<open>The states after a disconnect, and after a connect from there.\<close>

definition idle :: "SSEManager \<Rightarrow> bool" where
  "idle s \<longleftrightarrow> sources s = [] \<and> timeouts s = [] \<and> intervals s = [] \<and> eventSource s = None \<and> heartbeatCheckIntervalId s = None"

lemma idle_ok: "idle s \<Longrightarrow> connectionState s = Disconnected \<Longrightarrow> sse_ok h s"
  by (simp add: idle_def sse_ok_def live_def)

lemma disconnect_idle: "known s \<Longrightarrow> idle (disconnect s)"
  using disconnect_known by (simp add: idle_def)

lemma error_ok:
  assumes "known s" and "timeouts s = []" and "subscribedPipelineIds s \<noteq> []" and "\<not> fallbackToPollingTriggered s"
  shows "sse_ok False (handleConnectionError s)"
  using assms
  by (auto simp: known_def handleConnectionError_def sse_defs sse_ok_def live_def filter_empty_conv
      removeAll_filter_not_eq split: option.split)

lemma connect_ok:
  assumes "idle s" and "connectionState s \<in> {Disconnected, ErrorState} \<or> subscribedPipelineIds s \<noteq> [] \<and> \<not> fallbackToPollingTriggered s"
  shows "sse_ok False (connect ok s)"
proof (cases "subscribedPipelineIds s = [] \<or> fallbackToPollingTriggered s")
  case True
  with assms show ?thesis by (auto simp: connect_def idle_def sse_ok_def live_def)
next
  case False
  have "sse_ok False (handleConnectionError (setConnectionState Connecting s))"
    by (rule error_ok) (use assms False in \<open>simp_all add: known_def idle_def setConnectionState_def\<close>)
  moreover have "sse_ok False ((setConnectionState Connecting s)\<lparr>eventSource := Some x,
      sources := sources (setConnectionState Connecting s) @ [(x, subscribedPipelineIds s)], next_id := n\<rparr>)" for x n
    using assms False by (simp add: idle_def sse_ok_def live_def setConnectionState_def)
  ultimately show ?thesis using False by (simp add: connect_def Let_def)
qed

lemma reconnect_ok: "known s \<Longrightarrow> sse_ok False (reconnect ok s)"
  unfolding reconnect_def by (rule connect_ok) (simp_all add: disconnect_idle)

lemma disconnect_ok: "known s \<Longrightarrow> sse_ok h (disconnect s)"
  by (simp add: idle_ok disconnect_idle)

lemma ok_parts:
  assumes "sse_ok h s"
  shows "(x, ids) \<in> set (sources s) \<Longrightarrow> live s \<and> \<not> h"
    and "(t, d) \<in> set (timeouts s) \<Longrightarrow> connectionState s = Reconnecting \<and> \<not> h \<and> timeouts s = [(t, d)] \<and> eventSource s = None"
    and "t \<in> set (intervals s) \<Longrightarrow> connectionState s = Connected \<and> \<not> h"
  using assms by (auto simp: sse_ok_def live_def split: option.splits if_splits)

lemma live_error: "sse_ok False s \<Longrightarrow> live s \<Longrightarrow> sse_ok False (handleConnectionError s)"
  by (rule error_ok) (auto simp: ok_known sse_ok_def live_def)

lemma told_ok [simp]:
  "sse_ok h (notifyStatusChange i st s) = sse_ok h s" "sse_ok h (s\<lparr>pipelineStatusCache := c\<rparr>) = sse_ok h s"
  "sse_ok h (s\<lparr>lastHeartbeat := n\<rparr>) = sse_ok h s" "sse_ok h (handleStatusUpdate i st s) = sse_ok h s"
  by (simp_all add: notifyStatusChange_def handleStatusUpdate_def sse_ok_def live_def cong: option.case_cong)

lemma listeners_ok [simp]:
  "sse_ok h (addStatusListener l s) = sse_ok h s" "sse_ok h (addConnectionListener l s) = sse_ok h s"
  "sse_ok h (removeStatusListener l s) = sse_ok h s" "sse_ok h (removeConnectionListener l s) = sse_ok h s"
  by (simp_all add: addStatusListener_def addConnectionListener_def removeStatusListener_def
      removeConnectionListener_def sse_ok_def live_def cong: option.case_cong)

lemma reset_ok: "sse_ok h s \<Longrightarrow> sse_ok h (resetFallback s)"
  by (auto simp: resetFallback_def sse_ok_def live_def cong: option.case_cong)

lemma batch_ok [simp]: "sse_ok h (handleBatchUpdate us s) = sse_ok h s"
  unfolding handleBatchUpdate_def by (induction us arbitrary: s) (simp_all add: split_beta)

lemma opens_ok:
  assumes "sse_ok False s" and "live s" shows "sse_ok False (sourceOpens now s)"
proof -
  obtain x where x: "eventSource s = Some x" "sources s = [(x, subscribedPipelineIds s)]" "timeouts s = []"
    "subscribedPipelineIds s \<noteq> []" "\<not> fallbackToPollingTriggered s"
    using assms by (auto simp: sse_ok_def live_def split: option.splits)
  moreover have "intervals s = (case heartbeatCheckIntervalId s of None \<Rightarrow> [] | Some t \<Rightarrow> [t])"
    using assms by (simp add: sse_ok_def)
  ultimately show ?thesis
    by (simp add: sourceOpens_def clearHeartbeatCheck_def startHeartbeatCheck_def Let_def sse_ok_def live_def split: option.split)
qed

lemma timer_ok:
  assumes "sse_ok h s" and "(t, d) \<in> set (timeouts s)"
  shows "sse_ok False (reconnectFires t ok s)"
  unfolding reconnectFires_def
  by (rule connect_ok) (use assms ok_parts(2) [OF assms] in \<open>auto simp: idle_def sse_ok_def live_def\<close>)

lemma step_ok: "sse_step True h s h' s' \<Longrightarrow> sse_ok h s \<Longrightarrow> sse_ok h' s'"
proof (induction rule: sse_step.induct)
  case (subscribe h s ids ok)
  then have "known (s\<lparr>subscribedPipelineIds := q\<rparr>)" for q using ok_known by (simp add: known_def)
  with subscribe show ?case by (simp add: subscribe_def Let_def reconnect_ok)
next
  case (unsubscribe h s ids ok)
  then have "known (s\<lparr>subscribedPipelineIds := q, pipelineStatusCache := r\<rparr>)" for q r using ok_known by (simp add: known_def)
  with unsubscribe show ?case by (simp add: unsubscribe_def Let_def reconnect_ok disconnect_ok)
next
  case (reconnect h s ok)
  then show ?case using ok_known reconnect_ok by (cases h) simp_all
next
  case (disconnect h s)
  then show ?case using ok_known disconnect_ok by blast
next
  case (opens x ids s h now)
  with ok_parts(1) [OF opens.prems] show ?case by (cases h) (auto simp: opens_ok)
next
  case (fails x ids s h)
  with ok_parts(1) [OF fails.prems] show ?case by (cases h) (auto simp: live_error)
next
  case (timer t d s h ok)
  with ok_parts(2) [OF timer.prems] timer_ok [OF timer.prems timer.hyps] show ?case by (cases h) auto
next
  case (check t s h now)
  with ok_parts(3) [OF check.prems check.hyps] show ?case
    by (cases h) (auto simp: heartbeatCheck_def live_error live_def)
next
  case (hide s ok)
  then show ?case using ok_known disconnect_ok by (simp add: visibilityChange_def)
next
  case (reveal s ok)
  then have "connectionState s = Disconnected" and i: "idle s"
    by (auto simp: sse_ok_def idle_def live_def split: option.splits)
  with idle_ok [OF i] connect_ok [OF i] show ?case by (simp add: visibilityChange_def)
next
  case (resetFallback h s)
  then show ?case by (rule reset_ok)
qed (simp_all add: handleHeartbeat_def)

lemma config_basic [simp]:
  "config (clearReconnectTimeout s) = config s" "config (clearHeartbeatCheck s) = config s"
  "config (closeEventSource s) = config s" "config (handleStatusUpdate i st s) = config s"
  by (simp_all add: clearReconnectTimeout_def clearHeartbeatCheck_def closeEventSource_def
      handleStatusUpdate_def notifyStatusChange_def split: option.split)

lemma config_error [simp]: "config (handleConnectionError s) = config s" "config (startHeartbeatCheck s) = config s"
  by (simp_all add: handleConnectionError_def startHeartbeatCheck_def Let_def)

lemma config_same [simp]: "config (connect ok s) = config s" "config (reconnect ok s) = config s"
  by (simp_all add: connect_def reconnect_def Let_def)

lemma step_config: "sse_step strict h s h' s' \<Longrightarrow> config s' = config s"
proof (induction rule: sse_step.induct)
  case (batch x ids s h us)
  have "config (fold (\<lambda>(i, st). handleStatusUpdate i st) us s) = config s" for s
    by (induction us arbitrary: s) (simp_all add: split_beta)
  then show ?case by (simp add: handleBatchUpdate_def)
qed (simp_all add: subscribe_def unsubscribe_def resetFallback_def addStatusListener_def addConnectionListener_def
  removeStatusListener_def removeConnectionListener_def handleHeartbeat_def heartbeatCheck_def reconnectFires_def
  visibilityChange_def sourceOpens_def Let_def)

lemma run_config: "sse_run strict c h s \<Longrightarrow> config s = c"
  by (induction rule: sse_run.induct) (simp_all add: initialSSEManager_def step_config)

lemma run_ok: "sse_run True c h s \<Longrightarrow> sse_ok h s"
proof (induction rule: sse_run.induct)
  case (initial h)
  then show ?case by (simp add: initialSSEManager_def sse_ok_def live_def)
qed (rule step_ok)

text \<open>
  C16. The connection of the status stream while the page does nothing that reconnects while it is hidden. In every reachable
  state there is at most one open event source, it is the one the manager holds, it streams the
  subscribed pipelines, and it is open exactly when the state is connecting or connected; exactly in the state
  reconnecting one reconnection is pending, after a delay of the exponential schedule; at most one heartbeat check runs, and only while
  connected; and while the page is hidden nothing is open, pending or running.
\<close>

theorem single_connection:
  assumes "sse_run True c h s"
  shows "config s = c \<and>
    sources s = (case eventSource s of None \<Rightarrow> [] | Some x \<Rightarrow> [(x, subscribedPipelineIds s)]) \<and>
    (eventSource s \<noteq> None \<longleftrightarrow> connectionState s = Connecting \<or> connectionState s = Connected) \<and>
    (if connectionState s = Reconnecting
     then \<exists>t n. timeouts s = [(t, min (reconnectDelay c * 2 ^ (n - 1)) (maxReconnectDelay c))] \<and>
       reconnectTimeoutId s = Some t \<and> 1 \<le> n \<and> n < maxReconnectAttempts c
     else timeouts s = []) \<and>
    intervals s = (case heartbeatCheckIntervalId s of None \<Rightarrow> [] | Some t \<Rightarrow> [t]) \<and>
    (intervals s = [] \<or> connectionState s = Connected) \<and>
    (\<not> h \<or> sources s = [] \<and> timeouts s = [] \<and> intervals s = [] \<and> connectionState s = Disconnected)"
proof -
  have "sse_ok h s" using assms by (rule run_ok)
  moreover have "config s = c" using assms by (rule run_config)
  ultimately show ?thesis by (auto simp: sse_ok_def live_def reconnect_delay_def split: option.splits if_splits)
qed

text \<open>A round: the connection fails and, where the manager tries again, its timer fires and opens a new source.\<close>

definition failed_round :: "SSEManager \<Rightarrow> SSEManager" where
  "failed_round s =
     (let e = handleConnectionError s
      in if connectionState e = Reconnecting
         then case reconnectTimeoutId e of Some t \<Rightarrow> reconnectFires t True e | None \<Rightarrow> e else e)"

lemma error_attempts [simp]: "reconnectAttempts (handleConnectionError s) = reconnectAttempts s + 1"
  by (simp add: handleConnectionError_def sse_defs split: option.split)

lemma error_state:
  assumes "sse_ok False s" and "live s"
  shows "if reconnectAttempts s + 1 < maxReconnectAttempts (config s)
    then connectionState (handleConnectionError s) = Reconnecting \<and>
      map snd (timeouts (handleConnectionError s)) = [reconnect_delay (config s) (reconnectAttempts s + 1)]
    else connectionState (handleConnectionError s) = ErrorState \<and>
      fallbackToPollingTriggered (handleConnectionError s) = enablePollingFallback (config s)"
proof -
  from assms have "timeouts s = []" "\<not> fallbackToPollingTriggered s" by (auto simp: sse_ok_def live_def)
  then show ?thesis by (simp add: handleConnectionError_def sse_defs split: option.split)
qed

lemma round_live:
  assumes "sse_ok False s" and "live s" and "reconnectAttempts s + 1 < maxReconnectAttempts (config s)"
  shows "live (failed_round s)" and "sse_ok False (failed_round s)"
    and "reconnectAttempts (failed_round s) = reconnectAttempts s + 1" and "config (failed_round s) = config s"
proof -
  let ?e = "handleConnectionError s"
  have ok: "sse_ok False ?e" using assms live_error by blast
  have r: "connectionState ?e = Reconnecting" using error_state [OF assms(1,2)] assms(3) by simp
  then obtain t d where t: "timeouts ?e = [(t, d)]" "reconnectTimeoutId ?e = Some t"
    "subscribedPipelineIds ?e \<noteq> []" "\<not> fallbackToPollingTriggered ?e"
    using ok by (auto simp: sse_ok_def)
  then have f: "failed_round s = reconnectFires t True ?e" using r by (simp add: failed_round_def Let_def)
  with timer_ok [OF ok, of t d True] t show "sse_ok False (failed_round s)" by simp
  show "live (failed_round s)" "reconnectAttempts (failed_round s) = reconnectAttempts s + 1"
    "config (failed_round s) = config s"
    using t(3,4) by (simp_all add: f reconnectFires_def connect_def live_def Let_def)
      (simp_all add: setConnectionState_def)
qed

text \<open>
  Reconnecting ends. A manager whose connection was open and now fails \<open>max\<close> times in a row waits before
  the \<open>k\<close>-th new attempt for the initial delay doubled \<open>k - 1\<close> times, but never longer than the largest delay; the
  \<open>max\<close>-th failure leaves it in the error state with nothing open or pending, and has fallen
  back to polling if that is enabled.
\<close>

theorem reconnecting_ends:
  assumes "sse_run True c False s" and "live s" and "reconnectAttempts s = 0" and "1 \<le> maxReconnectAttempts c"
  shows "(\<forall>k. k + 1 < maxReconnectAttempts c \<longrightarrow>
      map snd (timeouts (handleConnectionError ((failed_round ^^ k) s))) =
        [min (reconnectDelay c * 2 ^ k) (maxReconnectDelay c)]) \<and>
    (let e = (failed_round ^^ maxReconnectAttempts c) s
     in connectionState e = ErrorState \<and> sources e = [] \<and> timeouts e = [] \<and>
        fallbackToPollingTriggered e = enablePollingFallback c)"
proof -
  have rounds: "live ((failed_round ^^ k) s) \<and> sse_ok False ((failed_round ^^ k) s) \<and>
      reconnectAttempts ((failed_round ^^ k) s) = k \<and> config ((failed_round ^^ k) s) = c"
    if "k < maxReconnectAttempts c" for k
    using that
  proof (induction k)
    case 0
    with assms run_ok [OF assms(1)] run_config [OF assms(1)] show ?case by simp
  next
    case (Suc k)
    then show ?case using round_live [of "(failed_round ^^ k) s"] by simp
  qed
  have "map snd (timeouts (handleConnectionError ((failed_round ^^ k) s))) =
        [min (reconnectDelay c * 2 ^ k) (maxReconnectDelay c)]" if "k + 1 < maxReconnectAttempts c" for k
    using error_state [of "(failed_round ^^ k) s"] rounds [of k] that by (simp add: reconnect_delay_def)
  moreover obtain n where n: "maxReconnectAttempts c = Suc n" using assms(4) by (cases "maxReconnectAttempts c") auto
  let ?l = "(failed_round ^^ n) s" and ?e = "handleConnectionError ((failed_round ^^ n) s)"
  from rounds [of n] n have l: "live ?l" "sse_ok False ?l" "reconnectAttempts ?l = n" "config ?l = c" by simp_all
  from error_state [OF l(2,1)] l n have e: "connectionState ?e = ErrorState"
    "fallbackToPollingTriggered ?e = enablePollingFallback c" by simp_all
  moreover have "sse_ok False ?e" using live_error l by blast
  moreover have "(failed_round ^^ maxReconnectAttempts c) s = ?e" using e by (simp add: n failed_round_def Let_def)
  ultimately show ?thesis by (auto simp: Let_def sse_ok_def live_def split: option.splits)
qed

text \<open>
  The heartbeat check compares two clocks. A heartbeat stores the time the server put in it; the
  next check of a connected manager tears the connection down exactly if that time is more than the timeout behind
  the client's clock, however recently the heartbeat has arrived.
\<close>

theorem heartbeat_by_server_clock:
  assumes "sse_run True c h s" and "t \<in> set (intervals s)" and "s' = heartbeatCheck now (handleHeartbeat timestamp s)"
  shows "if heartbeatTimeout c < now - timestamp
    then sources s' = [] \<and> (connectionState s' = Reconnecting \<or> connectionState s' = ErrorState)
    else s' = handleHeartbeat timestamp s"
proof -
  have ok: "sse_ok h s" and c: "config s = c" using assms(1) run_ok run_config by blast+
  from ok_parts(3) [OF ok assms(2)] have live: "live s" "\<not> h" by (auto simp: live_def)
  let ?s = "handleHeartbeat timestamp s"
  have "sse_ok False ?s" "live ?s" using ok live by (cases h; simp add: handleHeartbeat_def live_def)+
  from live_error [OF this] error_state [OF this] c assms(3) show ?thesis
    by (auto simp: heartbeatCheck_def handleHeartbeat_def sse_ok_def live_def split: option.splits if_splits)
qed

lemma connect_opens:
  assumes "subscribedPipelineIds s \<noteq> []" and "\<not> fallbackToPollingTriggered s"
  shows "sources (connect True s) = sources s @ [(next_id s, subscribedPipelineIds s)] \<and>
    eventSource (connect True s) = Some (next_id s) \<and> next_id (connect True s) = next_id s + 1 \<and>
    subscribedPipelineIds (connect True s) = subscribedPipelineIds s \<and>
    \<not> fallbackToPollingTriggered (connect True s)"
proof -
  have "next_id (setConnectionState st s) = next_id s" for st by (simp add: setConnectionState_def)
  with assms show ?thesis by (simp add: connect_def Let_def)
qed

lemma disconnect_sources: "sources (disconnect s) = (case eventSource s of None \<Rightarrow> sources s
    | Some x \<Rightarrow> filter (\<lambda>y. fst y \<noteq> x) (sources s))"
  by (simp add: disconnect_def clearReconnectTimeout_def clearHeartbeatCheck_def closeEventSource_def split: option.split)

text \<open>
  Two connections. If the page subscribes to a further pipeline while it is hidden, the manager has two event
  sources open once the page is shown again. It holds the second; the first stays open, and
  still changes the statuses, even after the manager disconnects.
\<close>

theorem hidden_subscription_leaks:
  assumes "sse_run True c True s" and "\<not> set ids \<subseteq> set (subscribedPipelineIds s)" and "\<not> fallbackToPollingTriggered s"
    and "s' = visibilityChange False True (subscribe ids True s)"
  shows "length (sources s') = 2 \<and> length (sources (disconnect s')) = 1 \<and>
    connectionState (disconnect s') = Disconnected"
proof -
  from assms(1) have ok: "sse_ok True s" by (rule run_ok)
  let ?n = "filter (\<lambda>i. i \<notin> set (subscribedPipelineIds s)) ids"
  have n: "?n \<noteq> []" using assms(2) by (auto simp: filter_empty_conv)
  have ne: "fold set_add xs ys \<noteq> []" if "xs \<noteq> []" for xs ys :: "string list"
    using that
  proof (induction xs arbitrary: ys)
    case (Cons x xs)
    then show ?case by (cases "xs = []") (auto simp: set_add_def)
  qed simp
  let ?d = "disconnect (s\<lparr>subscribedPipelineIds := fold set_add ?n (subscribedPipelineIds s)\<rparr>)"
  have "known (s\<lparr>subscribedPipelineIds := q\<rparr>)" for q using ok_known [OF ok] by (simp add: known_def)
  then have d: "sources ?d = []" using disconnect_known by blast
  have sub: "subscribe ids True s = connect True ?d" using n by (simp add: subscribe_def reconnect_def Let_def)
  let ?c = "connect True ?d"
  have c: "sources ?c = [(next_id ?d, subscribedPipelineIds ?d)]" "next_id ?c = next_id ?d + 1"
    "subscribedPipelineIds ?c \<noteq> []" "\<not> fallbackToPollingTriggered ?c"
    using connect_opens [of ?d] d ne [OF n] assms(3) by simp_all
  then have s': "s' = connect True ?c" by (simp add: assms(4) sub visibilityChange_def)
  from connect_opens [OF c(3,4)] c(1,2)
  have "sources s' = [(next_id ?d, subscribedPipelineIds ?d), (next_id ?d + 1, subscribedPipelineIds ?c)]"
    "eventSource s' = Some (next_id ?d + 1)" unfolding s' by simp_all
  then show ?thesis by (simp add: disconnect_sources)
qed

section \<open>Witnesses\<close>

definition open_manager :: SSEManager where
  "open_manager = sourceOpens 0 (subscribe [''p''] True (initialSSEManager DEFAULT_SSE_CONFIG))"

lemma open_manager_eq:
  "sources (subscribe [''p''] True (initialSSEManager DEFAULT_SSE_CONFIG)) = [(1, [''p''])]"
  "intervals open_manager = [2]" "live open_manager" "reconnectAttempts open_manager = 0"
  by (simp_all add: open_manager_def subscribe_def reconnect_def connect_def disconnect_def sse_defs live_def
      sourceOpens_def initialSSEManager_def DEFAULT_SSE_CONFIG_def set_add_def)

lemma open_manager_run: "sse_run True DEFAULT_SSE_CONFIG False open_manager"
proof -
  have "sse_run True DEFAULT_SSE_CONFIG False (subscribe [''p''] True (initialSSEManager DEFAULT_SSE_CONFIG))"
    by (rule sse_run.step [OF sse_run.initial sse_step.subscribe]) simp
  then show ?thesis unfolding open_manager_def
    by (rule sse_run.step [OF _ sse_step.opens [of 1 "[''p'']"]]) (simp add: open_manager_eq)
qed

lemma single_connection_witness: "intervals open_manager = [] \<or> connectionState open_manager = Connected"
  using single_connection [OF open_manager_run] by blast

lemma reconnecting_ends_witness:
  "fallbackToPollingTriggered ((failed_round ^^ maxReconnectAttempts DEFAULT_SSE_CONFIG) open_manager)"
  using reconnecting_ends [OF open_manager_run] open_manager_eq by (simp add: DEFAULT_SSE_CONFIG_def Let_def)

lemma heartbeat_by_server_clock_witness:
  "sources (heartbeatCheck 100000 (handleHeartbeat 50000 open_manager)) = []"
  using heartbeat_by_server_clock [OF open_manager_run, of 2 _ 100000 50000] open_manager_eq
  by (simp add: DEFAULT_SSE_CONFIG_def)

lemma hidden_subscription_leaks_witness:
  "length (sources (visibilityChange False True (subscribe [''p''] True (initialSSEManager DEFAULT_SSE_CONFIG)))) = 2"
  using hidden_subscription_leaks [OF sse_run.initial, of "[''p'']" DEFAULT_SSE_CONFIG]
  by (simp add: initialSSEManager_def)

end
