(* ===== verification/Transformation_Functions.thy ===== *)
theory Transformation_Functions
  imports Transformation_Store
begin

text \<open>
  The table of transformation functions (ui/src/modules/transformation/functions.ts) and the JSON
  data types (config/constants.ts). The usage examples of the help texts are left out; no argument
  of the table has a default value.
\<close>

section \<open>Definitions of functions\<close>

datatype FunctionCategory = Url | StringCat | TypeCat | Datetime | BooleanCat | ArrayCat | Utility

datatype ArgDefType = FieldDef | LiteralDef | ArrayDef | WaterfallDef | ConcatDef

record FunctionArgDef =
  ad_name :: string
  ad_description :: string
  ad_type :: ArgDefType
  ad_literalType :: "LiteralType option"
  ad_fieldTypes :: "string list option"
  ad_required :: "bool option"

record TransformationFunctionDef =
  fd_name :: string
  fd_category :: FunctionCategory
  fd_description :: string
  fd_args :: "FunctionArgDef list"
  fd_returnType :: string

text \<open>Every argument in the table is required.\<close>

definition arg_def :: "string \<Rightarrow> string \<Rightarrow> ArgDefType \<Rightarrow> LiteralType option \<Rightarrow> string list option \<Rightarrow> FunctionArgDef" where
  "arg_def n d t l ts = \<lparr>ad_name = n, ad_description = d, ad_type = t, ad_literalType = l, ad_fieldTypes = ts,
     ad_required = Some True\<rparr>"

definition function_def :: "string \<Rightarrow> FunctionCategory \<Rightarrow> string \<Rightarrow> FunctionArgDef list \<Rightarrow> string \<Rightarrow> TransformationFunctionDef" where
  "function_def n c d as r = \<lparr>fd_name = n, fd_category = c, fd_description = d, fd_args = as, fd_returnType = r\<rparr>"

definition NUMERIC_TYPES :: "string list" where "NUMERIC_TYPES = [''int'', ''uint'', ''float'']"
definition STRING_TYPES :: "string list" where "STRING_TYPES = [''string'']"
definition ALL_TYPES :: "string list" where "ALL_TYPES = STRING_TYPES @ NUMERIC_TYPES @ [''bool'', ''bytes'', ''array'']"

definition JSON_DATA_TYPES :: "string list" where
  "JSON_DATA_TYPES = [''string'', ''bool'', ''int'', ''uint'', ''float'', ''bytes'', ''array'']"

definition url_functions :: "TransformationFunctionDef list" where
  \<open>url_functions =
    [function_def ''parseQuery'' Url
       ''Parse a URL query string into an object''
       [arg_def ''queryString''
          ''The query string to parse (e.g., "cid=123&sid=456")''
          FieldDef None (Some STRING_TYPES)]
       ''string'',
     function_def ''getQueryParam'' Url
       ''Get a specific parameter value from a query string''
       [arg_def ''queryString''
          ''The query string to search''
          FieldDef None (Some STRING_TYPES),
        arg_def ''paramName''
          ''The name of the parameter to extract''
          LiteralDef (Some LitString) None]
       ''string'',
     function_def ''getNestedParam'' Url
       ''Get a nested parameter value (e.g., ep.event_id)''
       [arg_def ''queryString''
          ''The query string to search''
          FieldDef None (Some STRING_TYPES),
        arg_def ''paramName''
          ''The nested parameter name (e.g., "ep.event_id")''
          LiteralDef (Some LitString) None]
       ''string'',
     function_def ''urlDecode'' Url
       ''Decode a URL-encoded string''
       [arg_def ''encodedString''
          ''The URL-encoded string to decode''
          FieldDef None (Some STRING_TYPES)]
       ''string'',
     function_def ''extractPathType'' Url
       ''Extract the path type from a URL path''
       [arg_def ''path''
          ''The URL path (e.g., "/g/collect")''
          FieldDef None (Some STRING_TYPES)]
       ''string'']\<close>

definition string_functions :: "TransformationFunctionDef list" where
  \<open>string_functions =
    [function_def ''lower'' StringCat
       ''Convert a string to lowercase''
       [arg_def ''value''
          ''The string to convert''
          FieldDef None (Some STRING_TYPES)]
       ''string'',
     function_def ''upper'' StringCat
       ''Convert a string to uppercase''
       [arg_def ''value''
          ''The string to convert''
          FieldDef None (Some STRING_TYPES)]
       ''string'',
     function_def ''trim'' StringCat
       ''Remove leading and trailing whitespace from a string''
       [arg_def ''value''
          ''The string to trim''
          FieldDef None (Some STRING_TYPES)]
       ''string'',
     function_def ''split'' StringCat
       ''Split a string by a delimiter into an array''
       [arg_def ''value''
          ''The string to split''
          FieldDef None (Some STRING_TYPES),
        arg_def ''delimiter''
          ''The delimiter to split by''
          LiteralDef (Some LitString) None]
       ''array'',
     function_def ''join'' StringCat
       ''Join an array of strings with a delimiter''
       [arg_def ''values''
          ''The array of strings to join''
          FieldDef None (Some [''array'']),
        arg_def ''delimiter''
          ''The delimiter to join with''
          LiteralDef (Some LitString) None]
       ''string'',
     function_def ''concat'' StringCat
       ''Concatenate multiple strings or fields together''
       [arg_def ''values''
          ''Values to concatenate (fields or string literals)''
          ConcatDef None None]
       ''string'',
     function_def ''replace'' StringCat
       ''Replace occurrences of a substring with another string''
       [arg_def ''value''
          ''The string to modify''
          FieldDef None (Some STRING_TYPES),
        arg_def ''search''
          ''The substring to find''
          LiteralDef (Some LitString) None,
        arg_def ''replacement''
          ''The replacement string''
          LiteralDef (Some LitString) None]
       ''string'']\<close>

definition type_functions :: "TransformationFunctionDef list" where
  \<open>type_functions =
    [function_def ''toString'' TypeCat
       ''Convert a value to a string''
       [arg_def ''value''
          ''The value to convert''
          FieldDef None (Some ALL_TYPES)]
       ''string'',
     function_def ''toInt'' TypeCat
       ''Convert a string to an integer (returns 0 for invalid input)''
       [arg_def ''value''
          ''The string to convert''
          FieldDef None (Some STRING_TYPES)]
       ''int'',
     function_def ''toFloat'' TypeCat
       ''Convert a string to a float (returns 0.0 for invalid input)''
       [arg_def ''value''
          ''The string to convert''
          FieldDef None (Some STRING_TYPES)]
       ''float'']\<close>

definition datetime_functions :: "TransformationFunctionDef list" where
  \<open>datetime_functions =
    [function_def ''parseISO8601'' Datetime
       ''Parse an ISO 8601 date string into a time object''
       [arg_def ''dateString''
          ''The ISO 8601 date string to parse''
          FieldDef None (Some STRING_TYPES)]
       ''string'',
     function_def ''toDate'' Datetime
       ''Convert a time object to a date string (YYYY-MM-DD)''
       [arg_def ''timeValue''
          ''The time value to convert''
          FieldDef None (Some [''time.Time'', ''string''])]
       ''string'']\<close>

definition boolean_functions :: "TransformationFunctionDef list" where
  \<open>boolean_functions =
    [function_def ''contains'' BooleanCat
       ''Check if a string contains a substring''
       [arg_def ''value''
          ''The string to search in''
          FieldDef None (Some STRING_TYPES),
        arg_def ''substring''
          ''The substring to search for''
          LiteralDef (Some LitString) None]
       ''bool'',
     function_def ''hasPrefix'' BooleanCat
       ''Check if a string starts with a prefix''
       [arg_def ''value''
          ''The string to check''
          FieldDef None (Some STRING_TYPES),
        arg_def ''prefix''
          ''The prefix to check for''
          LiteralDef (Some LitString) None]
       ''bool'',
     function_def ''hasSuffix'' BooleanCat
       ''Check if a string ends with a suffix''
       [arg_def ''value''
          ''The string to check''
          FieldDef None (Some STRING_TYPES),
        arg_def ''suffix''
          ''The suffix to check for''
          LiteralDef (Some LitString) None]
       ''bool'',
     function_def ''hasKeyPrefix'' BooleanCat
       ''Check if a parsed query object has any key with given prefixes''
       [arg_def ''queryObject''
          ''The parsed query object (string in unified type set)''
          FieldDef None (Some [''string'']),
        arg_def ''prefixes''
          ''Array of key prefixes to check''
          ArrayDef None None]
       ''bool'',
     function_def ''hasAnyKey'' BooleanCat
       ''Check if a parsed query object has any of the specified keys''
       [arg_def ''queryObject''
          ''The parsed query object (string in unified type set)''
          FieldDef None (Some [''string'']),
        arg_def ''keys''
          ''Array of keys to check''
          ArrayDef None None]
       ''bool'']\<close>

definition array_functions :: "TransformationFunctionDef list" where
  \<open>array_functions =
    [function_def ''keys'' ArrayCat
       ''Get all keys from a parsed query object''
       [arg_def ''queryObject''
          ''The parsed query object (string in unified type set)''
          FieldDef None (Some [''string''])]
       ''array'',
     function_def ''len'' ArrayCat
       ''Get the length of a string, array, or object''
       [arg_def ''value''
          ''The value to measure''
          FieldDef None (Some [''string'', ''array''])]
       ''int'']\<close>

definition utility_functions :: "TransformationFunctionDef list" where
  \<open>utility_functions =
    [function_def ''parseUserAgent'' Utility
       ''Parse a user agent string and extract specific information''
       [arg_def ''userAgent''
          ''The user agent string to parse''
          FieldDef None (Some STRING_TYPES),
        arg_def ''component''
          ''The component to extract (device, os, browser)''
          LiteralDef (Some LitString) None]
       ''string'',
     function_def ''waterfall'' Utility
       ''Return the first non-empty value from an array of expressions (fields, functions, or literals)''
       [arg_def ''expressions''
          ''Array of expressions to evaluate - each can be a field reference, function call, or literal value''
          WaterfallDef None None]
       ''string'']\<close>

definition TRANSFORMATION_FUNCTIONS :: "TransformationFunctionDef list" where
  "TRANSFORMATION_FUNCTIONS = url_functions @ string_functions @ type_functions @ datetime_functions @
     boolean_functions @ array_functions @ utility_functions"

section \<open>Lookup\<close>

definition getFunctionsByCategory :: "FunctionCategory \<Rightarrow> TransformationFunctionDef list" where
  "getFunctionsByCategory category = filter (\<lambda>f. fd_category f = category) TRANSFORMATION_FUNCTIONS"

definition getCategories :: "FunctionCategory list" where
  "getCategories = fold set_add (map fd_category TRANSFORMATION_FUNCTIONS) []"

definition getFunctionByName :: "string \<Rightarrow> TransformationFunctionDef option" where
  "getFunctionByName n = find (\<lambda>f. fd_name f = n) TRANSFORMATION_FUNCTIONS"

fun getCategoryLabel :: "FunctionCategory \<Rightarrow> string" where
  "getCategoryLabel Url = ''URL & Query''"
| "getCategoryLabel StringCat = ''String''"
| "getCategoryLabel TypeCat = ''Type Conversion''"
| "getCategoryLabel Datetime = ''Date & Time''"
| "getCategoryLabel BooleanCat = ''Boolean''"
| "getCategoryLabel ArrayCat = ''Array & Object''"
| "getCategoryLabel Utility = ''Utility''"

section \<open>The normal form of types\<close>

text \<open>
  The type names are not among the property names of \<open>Object.prototype\<close>, which the lookup in the
  object literal would find.
\<close>

definition LEGACY_TYPE_TO_JSON :: "(string \<times> string) list" where
  "LEGACY_TYPE_TO_JSON =
     [(''int8'', ''int''), (''int16'', ''int''), (''int32'', ''int''), (''int64'', ''int''),
      (''uint'', ''uint''), (''uint8'', ''uint''), (''uint16'', ''uint''), (''uint32'', ''uint''), (''uint64'', ''uint''),
      (''number'', ''int''), (''float32'', ''float''), (''float64'', ''float''), (''[]string'', ''array''),
      (''time.Time'', ''string''), (''object'', ''string''), (''boolean'', ''bool'')]"

definition normalizeToJsonDataType :: "string \<Rightarrow> string" where
  "normalizeToJsonDataType ty =
     (if ty = [] then ''string''
      else let lower = trim (toLowerCase ty)
        in case map_of LEGACY_TYPE_TO_JSON lower of
             Some mapped \<Rightarrow> mapped
           | None \<Rightarrow>
               (case map_of LEGACY_TYPE_TO_JSON ty of
                  Some mapped \<Rightarrow> mapped
                | None \<Rightarrow> if lower \<in> set JSON_DATA_TYPES then lower else ''string''))"

definition inferOutputType :: "string \<Rightarrow> string" where
  "inferOutputType fname =
     (case getFunctionByName fname of Some f \<Rightarrow> normalizeToJsonDataType (fd_returnType f) | None \<Rightarrow> ''string'')"

lemmas function_tables = url_functions_def string_functions_def type_functions_def datetime_functions_def
  boolean_functions_def array_functions_def utility_functions_def

text \<open>The table: names are unique, every function has an argument, and all arguments are required.\<close>

lemma function_table:
  "distinct (map fd_name TRANSFORMATION_FUNCTIONS)"
  "\<forall>f \<in> set TRANSFORMATION_FUNCTIONS. fd_args f \<noteq> [] \<and> (\<forall>a \<in> set (fd_args f). ad_required a = Some True)"
  by (simp_all add: TRANSFORMATION_FUNCTIONS_def function_tables arg_def_def function_def_def)

lemma getFunctionByName_SomeD:
  "getFunctionByName n = Some f \<Longrightarrow> f \<in> set TRANSFORMATION_FUNCTIONS \<and> fd_name f = n"
  by (auto simp: getFunctionByName_def find_Some_iff)

end
