(* ===== verification/Transformation_Expr.thy ===== *)
theory Transformation_Expr
  imports Transformation_Functions
begin

text \<open>
  How transformation fields become expressions (ui/src/modules/transformation/utils.ts): field
  references, function arguments with their nested calls, waterfall and concat arguments, whole
  fields and the transform array sent to the backend.
\<close>

section \<open>Field references\<close>

definition ident_start :: "char \<Rightarrow> bool" where
  "ident_start c \<longleftrightarrow> (let n = of_char c :: nat in 65 \<le> n \<and> n \<le> 90 \<or> 97 \<le> n \<and> n \<le> 122 \<or> n = 95)"

definition ident_char :: "char \<Rightarrow> bool" where
  "ident_char c \<longleftrightarrow> ident_start c \<or> is_digit c"

fun valid_identifier :: "string \<Rightarrow> bool" where
  "valid_identifier [] \<longleftrightarrow> False"
| "valid_identifier (c # cs) \<longleftrightarrow> ident_start c \<and> list_all ident_char cs"

definition escape_quotes :: "string \<Rightarrow> string" where
  "escape_quotes s = replace_all dquote [backslash, dquote] s"

definition quoted :: "string \<Rightarrow> string" where
  "quoted s = [dquote] @ escape_quotes s @ [dquote]"

definition fieldNameToExpr :: "string \<Rightarrow> string" where
  "fieldNameToExpr fieldName =
     (if fieldName = [] then []
      else if valid_identifier fieldName then fieldName
      else let escaped = escape_quotes (replace_all backslash [backslash, backslash] fieldName)
        in ''$env['' @ [dquote] @ escaped @ [dquote] @ '']'')"

text \<open>\<open>s.replace(/ab/g, r)\<close> for two characters.\<close>

fun replace_pair :: "char \<Rightarrow> char \<Rightarrow> string \<Rightarrow> string \<Rightarrow> string" where
  "replace_pair a b r (x # y # s) =
     (if x = a \<and> y = b then r @ replace_pair a b r s else x # replace_pair a b r (y # s))"
| "replace_pair a b r s = s"

definition line_end :: "char \<Rightarrow> bool" where
  "line_end c \<longleftrightarrow> of_char c \<in> {10, 13 :: nat}"

text \<open>The body \<open>(?:[^q\\]|\\.)*\<close> of a key between quotes \<open>q\<close>.\<close>

fun key_body :: "char \<Rightarrow> string \<Rightarrow> bool" where
  "key_body q [] \<longleftrightarrow> True"
| "key_body q [c] \<longleftrightarrow> c \<noteq> q \<and> c \<noteq> backslash"
| "key_body q (c # d # s) \<longleftrightarrow>
     (if c = backslash then \<not> line_end d \<and> key_body q s else c \<noteq> q \<and> key_body q (d # s))"

definition env_key :: "char \<Rightarrow> string \<Rightarrow> string option" where
  "env_key q s =
     (if take 6 s = ''$env['' @ [q] \<and> 8 \<le> length s \<and> drop (length s - 2) s = q # '']''
         \<and> key_body q (take (length s - 8) (drop 6 s))
      then Some (take (length s - 8) (drop 6 s)) else None)"

definition unescape_key :: "char \<Rightarrow> string \<Rightarrow> string" where
  "unescape_key q s = replace_pair backslash q [q] (replace_pair backslash backslash [backslash] s)"

definition squote :: char where "squote = CHR 0x27"

definition exprToFieldName :: "string \<Rightarrow> string option" where
  "exprToFieldName expression =
     (let trimmed = trim expression
      in if trimmed = [] then None
         else if valid_identifier trimmed then Some trimmed
         else case env_key dquote trimmed of
                Some k \<Rightarrow> Some (unescape_key dquote k)
              | None \<Rightarrow> map_option (unescape_key squote) (env_key squote trimmed))"

section \<open>Arguments\<close>

fun arithmetic_symbol :: "TransformArithmeticOperator \<Rightarrow> string" where
  "arithmetic_symbol TPlus = ''+''"
| "arithmetic_symbol TMinus = ''-''"
| "arithmetic_symbol TTimes = ''*''"
| "arithmetic_symbol TDivide = ''/''"
| "arithmetic_symbol TModulo = ''%''"

definition formatArithmeticExpr :: "TransformArithmeticExpression \<Rightarrow> string" where
  "formatArithmeticExpr a = '' '' @ arithmetic_symbol (ta_operator a) @ '' '' @ number_to_string (ta_operand a)"

definition text_of :: "string option \<Rightarrow> string" where
  "text_of v = (case v of None \<Rightarrow> [] | Some s \<Rightarrow> s)"

definition call :: "string \<Rightarrow> string list \<Rightarrow> string" where
  "call f args = f @ ''('' @ join '', '' args @ '')''"

definition concatSlotToExpr :: "ConcatSlot \<Rightarrow> string" where
  "concatSlotToExpr slot =
     (case cs_slotType slot of
        FieldSlot \<Rightarrow> fieldNameToExpr (text_of (cs_fieldName slot))
      | LiteralSlot \<Rightarrow> quoted (text_of (cs_literalValue slot))
      | FunctionSlot \<Rightarrow> [])"

definition non_empty :: "string list \<Rightarrow> string list" where
  "non_empty = filter (\<lambda>s. s \<noteq> [])"

text \<open>The arguments of a function with a list of arguments, and of the list alone.\<close>

fun formatArgForExpr :: "FunctionArg \<Rightarrow> string"
  and formatElement :: "ElementType \<Rightarrow> ArrayElement \<Rightarrow> string"
  and waterfallSlotToExpr :: "WaterfallSlot \<Rightarrow> string"
  and wrap_post_process :: "PostProcessFunction list \<Rightarrow> string \<Rightarrow> string" where
  "formatArgForExpr (FieldArg n _) = fieldNameToExpr n"
| "formatArgForExpr (LiteralArg v t) = (if t = LitString then quoted (js_String v) else js_String v)"
| "formatArgForExpr (ArrayArg vs t) = ''['' @ join '', '' (map (formatElement t) vs) @ '']''"
| "formatArgForExpr (NestedArg f args) = (if f = [] then [] else call f (map formatArgForExpr args))"
| "formatArgForExpr (WaterfallArg slots) = ''['' @ join '', '' (non_empty (map waterfallSlotToExpr slots)) @ '']''"
| "formatArgForExpr (ConcatArg slots chain) =
     (let innerExpr = join '', '' (non_empty (map concatSlotToExpr slots))
      in case chain of
           None \<Rightarrow> innerExpr
         | Some fs \<Rightarrow> if fs = [] then innerExpr else wrap_post_process fs (''concat('' @ innerExpr @ '')''))"
| "formatElement t (ArgElem a) = formatArgForExpr a"
| "formatElement t (StringElem s) = (if t = ElemTypeString then quoted s else s)"
| "formatElement t (NumberElem n) =
     (if t = ElemTypeString then quoted (number_to_string n) else number_to_string n)"
| "waterfallSlotToExpr (WaterfallSlot _ ty fname _ fn args lit lty) =
     (case ty of
        FieldSlot \<Rightarrow> fieldNameToExpr (text_of fname)
      | LiteralSlot \<Rightarrow>
          if lty = Some LitNumber then (if text_of lit = [] then ''0'' else text_of lit) else quoted (text_of lit)
      | FunctionSlot \<Rightarrow>
          if text_of fn = [] then []
          else call (text_of fn) (case args of None \<Rightarrow> [] | Some as \<Rightarrow> map formatArgForExpr as))"
| "wrap_post_process [] expr = expr"
| "wrap_post_process (PostProcess _ f args # fs) expr =
     wrap_post_process fs
       (if f = [] then expr
        else let extra = join '', '' (map formatArgForExpr args)
          in f @ ''('' @ expr @ (if extra = [] then [] else '', '' @ extra) @ '')'')"

abbreviation nestedFunctionToExpr :: "string \<Rightarrow> FunctionArg list \<Rightarrow> string" where
  "nestedFunctionToExpr f args \<equiv> formatArgForExpr (NestedArg f args)"

abbreviation waterfallArrayToExpr :: "WaterfallSlot list \<Rightarrow> string" where
  "waterfallArrayToExpr slots \<equiv> formatArgForExpr (WaterfallArg slots)"

definition concatArrayToExpr :: "ConcatSlot list \<Rightarrow> PostProcessFunction list option \<Rightarrow> string" where
  "concatArrayToExpr slots chain = formatArgForExpr (ConcatArg slots chain)"

section \<open>Fields\<close>

definition with_arithmetic :: "TransformationField \<Rightarrow> string \<Rightarrow> string" where
  "with_arithmetic f expr = (case tf_arithmetic f of None \<Rightarrow> expr | Some a \<Rightarrow> expr @ formatArithmeticExpr a)"

definition raw_marker :: string where "raw_marker = ''__raw_expression__''"

definition computedFieldToExpr :: "TransformationField \<Rightarrow> string" where
  "computedFieldToExpr f =
     (if tf_type f \<noteq> Computed then []
      else if expressionMode f = Some RawMode \<and> text_of (rawExpression f) \<noteq> [] then text_of (rawExpression f)
      else if functionName f = Some raw_marker then
        (if text_of (rawExpression f) \<noteq> [] then text_of (rawExpression f)
         else case functionArgs f of Some (LiteralArg v _ # _) \<Rightarrow> js_String v | _ \<Rightarrow> [])
      else case functionArgs f of
        None \<Rightarrow> []
      | Some args \<Rightarrow>
          if text_of (functionName f) = [] then
            (case args of
               FieldArg n _ # _ \<Rightarrow>
                 (case tf_arithmetic f of
                    Some a \<Rightarrow> if n = [] then [] else fieldNameToExpr n @ formatArithmeticExpr a
                  | None \<Rightarrow> [])
             | _ \<Rightarrow> [])
          else case args of
            [ConcatArg slots (Some (p # ps))] \<Rightarrow>
              if functionName f = Some ''concat'' then with_arithmetic f (concatArrayToExpr slots (Some (p # ps)))
              else with_arithmetic f (call (text_of (functionName f)) (map formatArgForExpr args))
          | _ \<Rightarrow> with_arithmetic f (call (text_of (functionName f)) (map formatArgForExpr args)))"

definition passthroughFieldToExpr :: "TransformationField \<Rightarrow> string" where
  "passthroughFieldToExpr f =
     (if tf_type f \<noteq> Passthrough \<or> text_of (sourceField f) = [] then []
      else with_arithmetic f (fieldNameToExpr (text_of (sourceField f))))"

definition fieldToExpr :: "TransformationField \<Rightarrow> string" where
  "fieldToExpr f = (case tf_type f of Computed \<Rightarrow> computedFieldToExpr f | Passthrough \<Rightarrow> passthroughFieldToExpr f)"

definition toTransformationExpr :: "TransformationConfig \<Rightarrow> string" where
  "toTransformationExpr config =
     (if \<not> tc_enabled config \<or> tc_fields config = [] then []
      else let mappings = map (\<lambda>f. [dquote] @ outputFieldName f @ [dquote] @ '': '' @ fieldToExpr f)
             (filter (\<lambda>f. fieldToExpr f \<noteq> []) (filter isFieldComplete (tc_fields config)))
        in if mappings = [] then [] else ''{'' @ join '', '' mappings @ ''}'')"

record TransformArrayItem =
  expression :: string
  output_name :: string
  output_type :: string

definition toTransformArray :: "TransformationConfig \<Rightarrow> TransformArrayItem list" where
  "toTransformArray config =
     (if \<not> tc_enabled config \<or> tc_fields config = [] then []
      else filter (\<lambda>item. expression item \<noteq> [])
        (map (\<lambda>f. \<lparr>expression = fieldToExpr f, output_name = outputFieldName f,
            output_type = (if outputFieldType f = [] then ''string'' else outputFieldType f)\<rparr>)
          (filter isFieldComplete (tc_fields config))))"

definition completeFieldCount :: "TransformationConfig \<Rightarrow> nat" where
  "completeFieldCount config = length (filter isFieldComplete (tc_fields config))"

definition getCompleteFields :: "TransformationConfig \<Rightarrow> TransformationField list" where
  "getCompleteFields config = filter isFieldComplete (tc_fields config)"

record IntermediarySchemaField =
  is_name :: string
  is_type :: string
  is_sourceField :: "string option"
  is_functionName :: "string option"
  is_rawExpression :: "string option"

definition getIntermediarySchema :: "TransformationConfig \<Rightarrow> IntermediarySchemaField list" where
  "getIntermediarySchema config =
     (if \<not> tc_enabled config \<or> tc_fields config = [] then []
      else map (\<lambda>f. let field = \<lparr>is_name = outputFieldName f, is_type = outputFieldType f, is_sourceField = None,
              is_functionName = None, is_rawExpression = None\<rparr>
          in case tf_type f of
               Passthrough \<Rightarrow> field\<lparr>is_sourceField := sourceField f\<rparr>
             | Computed \<Rightarrow>
                 if expressionMode f = Some RawMode \<and> text_of (rawExpression f) \<noteq> []
                 then field\<lparr>is_rawExpression := rawExpression f\<rparr>
                 else field\<lparr>is_functionName := functionName f\<rparr>)
        (filter isFieldComplete (tc_fields config)))"

section \<open>Field references come back\<close>

lemma replace_pair_skip: "x \<noteq> a \<Longrightarrow> replace_pair a b r (x # s) = x # replace_pair a b r s"
  by (cases s) simp_all

definition escaped :: "string \<Rightarrow> string" where
  "escaped n = escape_quotes (replace_all backslash [backslash, backslash] n)"

lemma escaped_simps [simp]:
  "escaped [] = []"
  "escaped (c # n) =
     (if c = backslash then [backslash, backslash] else if c = dquote then [backslash, dquote] else [c]) @ escaped n"
  by (auto simp: escaped_def escape_quotes_def replace_all_def)

lemma unescape_backslashes: "replace_pair backslash backslash [backslash] (escaped n) = escape_quotes n"
proof (induction n)
  case (Cons c n)
  then show ?case by (auto simp: escape_quotes_def replace_all_def replace_pair_skip)
qed (simp add: escape_quotes_def replace_all_def)

lemma escape_quotes_simps [simp]:
  "escape_quotes [] = []"
  "escape_quotes (c # n) = (if c = dquote then [backslash, dquote] else [c]) @ escape_quotes n"
  by (auto simp: escape_quotes_def replace_all_def)

lemma unescape_quotes: "replace_pair backslash dquote [dquote] (escape_quotes n) = n"
proof (induction n)
  case (Cons c n)
  show ?case
  proof (cases "c = backslash")
    case True
    then have "replace_pair backslash dquote [dquote] (backslash # escape_quotes n) =
        backslash # replace_pair backslash dquote [dquote] (escape_quotes n)"
      by (cases n) auto
    with True Cons show ?thesis by simp
  next
    case False
    with Cons show ?thesis by (simp add: replace_pair_skip)
  qed
qed simp

lemma escaped_body: "key_body dquote (escaped n)"
proof (induction n)
  case (Cons c n)
  show ?case
  proof (cases "c = backslash \<or> c = dquote")
    case True
    with Cons show ?thesis by (auto simp: line_end_def)
  next
    case False
    with Cons show ?thesis by (cases "escaped n") auto
  qed
qed simp

lemma ident_not_ws: "ident_char c \<Longrightarrow> \<not> is_ws c"
  by (auto simp: ident_char_def ident_start_def is_digit_def is_ws_def Let_def)

lemma trim_identifier: "valid_identifier n \<Longrightarrow> trim n = n"
proof (cases n)
  case (Cons c cs)
  assume v: "valid_identifier n"
  then have "\<forall>x \<in> set n. ident_char x" using Cons by (auto simp: ident_char_def list_all_iff)
  then show ?thesis using Cons by (intro trim_bounded) (auto intro!: ident_not_ws)
qed simp

lemma reference_back:
  assumes "n \<noteq> []"
  shows "exprToFieldName (fieldNameToExpr n) = Some n"
proof (cases "valid_identifier n")
  case True
  then show ?thesis using assms by (simp add: fieldNameToExpr_def exprToFieldName_def trim_identifier)
next
  case False
  let ?s = "''$env['' @ [dquote] @ escaped n @ [dquote] @ '']''"
  have e: "fieldNameToExpr n = ?s" using assms False by (simp add: fieldNameToExpr_def escaped_def)
  have t: "trim ?s = ?s" by (rule trim_bounded) (simp_all add: is_ws_def)
  have i: "\<not> ident_start (CHR ''$'')" by (simp add: ident_start_def)
  have "env_key dquote ?s = Some (escaped n)" by (simp add: env_key_def escaped_body)
  then show ?thesis unfolding e exprToFieldName_def t
    using i by (simp add: Let_def unescape_key_def unescape_backslashes unescape_quotes)
qed

text \<open>
  A reference to a field, whatever its name, is read back as the name.
\<close>

theorem field_reference_roundtrip:
  assumes "n \<noteq> []"
  shows "exprToFieldName (fieldNameToExpr n) = Some n"
  using assms by (rule reference_back)

lemma field_reference_roundtrip_witness: "exprToFieldName (fieldNameToExpr ''@timestamp'') = Some ''@timestamp''"
  using field_reference_roundtrip [of "''@timestamp''"] by simp

end
