(* ===== verification/Transformation_Validation.thy ===== *)
theory Transformation_Validation
  imports Transformation_Expr Js_Numbers "HOL-Library.AList"
begin

text \<open>
  The validation of transformations (ui/src/modules/transformation/utils.ts): nested, waterfall
  and concat arguments, fields, the configuration, and the intermediary schema. A validation
  result is the error, if there is one. The tests for an absent argument are left out where the
  length has been compared before.
\<close>

section \<open>Arguments\<close>

definition nat_text :: "nat \<Rightarrow> string" where
  "nat_text n = nat_digits n"

definition requiredArgs :: "TransformationFunctionDef \<Rightarrow> FunctionArgDef list" where
  "requiredArgs d = filter (\<lambda>a. ad_required a \<noteq> Some False) (fd_args d)"

definition in_quotes :: "string \<Rightarrow> string" where
  "in_quotes s = [dquote] @ s @ [dquote]"

fun blank_value :: "js_value \<Rightarrow> bool" where
  "blank_value Undefined \<longleftrightarrow> True"
| "blank_value (Str s) \<longleftrightarrow> s = []"
| "blank_value _ \<longleftrightarrow> False"

text \<open>The loop over the required arguments of a function; \<open>p\<close> and \<open>q\<close> are the texts around the message.\<close>

fun check_args :: "string \<Rightarrow> string \<Rightarrow> FunctionArgDef list \<Rightarrow> FunctionArg list \<Rightarrow> string option" where
  "check_args p q (d # ds) (v # vs) =
     (case v of
        FieldArg n _ \<Rightarrow>
          if ad_type d = FieldDef \<and> n = [] then Some (p @ ''Field selection required for '' @ q @ in_quotes (ad_name d))
          else check_args p q ds vs
      | LiteralArg x _ \<Rightarrow>
          if ad_type d = LiteralDef \<and> blank_value x then Some (p @ ''Value required for '' @ q @ in_quotes (ad_name d))
          else check_args p q ds vs
      | _ \<Rightarrow> check_args p q ds vs)"
| "check_args p q _ _ = None"

fun validateNestedFunctionArg :: "FunctionArg \<Rightarrow> string option"
  and validate_nested_args :: "nat \<Rightarrow> FunctionArg list \<Rightarrow> string option" where
  "validateNestedFunctionArg (NestedArg f args) =
     (if f = [] then Some ''Nested function name is required''
      else case getFunctionByName f of
          None \<Rightarrow> Some (''Unknown nested function: '' @ f)
        | Some d \<Rightarrow>
            if length args < length (requiredArgs d)
            then Some (''Nested function '' @ f @ '' requires '' @ nat_text (length (requiredArgs d)) @ '' argument(s)'')
            else validate_nested_args 0 args)"
| "validateNestedFunctionArg (FieldArg n _) = None"
| "validateNestedFunctionArg (LiteralArg v t) = None"
| "validateNestedFunctionArg (ArrayArg vs t) = None"
| "validateNestedFunctionArg (WaterfallArg slots) = None"
| "validateNestedFunctionArg (ConcatArg slots chain) = None"
| "validate_nested_args i [] = None"
| "validate_nested_args i (a # args) =
     (case validateNestedFunctionArg a of
        Some e \<Rightarrow> Some e
      | None \<Rightarrow>
          (case a of
             FieldArg [] _ \<Rightarrow> Some (''Field selection required for argument '' @ nat_text (i + 1))
           | _ \<Rightarrow> validate_nested_args (i + 1) args))"

definition validateWaterfallSlot :: "WaterfallSlot \<Rightarrow> nat \<Rightarrow> string option" where
  "validateWaterfallSlot slot index =
     (let p = ''Slot '' @ nat_text (index + 1) @ '': ''
      in case ws_slotType slot of
           FieldSlot \<Rightarrow> if text_of (ws_fieldName slot) = [] then Some (p @ ''Field selection required'') else None
         | LiteralSlot \<Rightarrow> if text_of (ws_literalValue slot) = [] then Some (p @ ''Literal value required'') else None
         | FunctionSlot \<Rightarrow>
             let f = text_of (ws_functionName slot)
             in if f = [] then Some (p @ ''Function selection required'')
                else case getFunctionByName f of
                    None \<Rightarrow> Some (p @ ''Unknown function: '' @ f)
                  | Some d \<Rightarrow>
                      let args = (case ws_functionArgs slot of None \<Rightarrow> [] | Some as \<Rightarrow> as); n = length (requiredArgs d)
                      in if length args < n \<or> ws_functionArgs slot = None
                         then Some (p @ ''Function '' @ f @ '' requires '' @ nat_text n @ '' argument(s)'')
                         else check_args p [] (requiredArgs d) args)"

definition first_error :: "('a \<Rightarrow> nat \<Rightarrow> string option) \<Rightarrow> 'a list \<Rightarrow> string option" where
  "first_error v xs =
     (case filter (\<lambda>r. r \<noteq> None) (map (\<lambda>(x, i). v x i) (zip xs [0..<length xs])) of [] \<Rightarrow> None | r # _ \<Rightarrow> r)"

definition validateWaterfallArrayArg :: "WaterfallSlot list \<Rightarrow> string option" where
  "validateWaterfallArrayArg slots =
     (if length slots < 2 then Some ''Waterfall requires at least 2 expressions''
      else first_error validateWaterfallSlot slots)"

definition validateConcatSlot :: "ConcatSlot \<Rightarrow> nat \<Rightarrow> string option" where
  "validateConcatSlot slot index =
     (let p = ''Value '' @ nat_text (index + 1) @ '': ''
      in case cs_slotType slot of
           FieldSlot \<Rightarrow> if text_of (cs_fieldName slot) = [] then Some (p @ ''Field selection required'') else None
         | LiteralSlot \<Rightarrow> if cs_literalValue slot = None then Some (p @ ''Text value required'') else None
         | FunctionSlot \<Rightarrow> None)"

definition validatePostProcessFunction :: "PostProcessFunction \<Rightarrow> nat \<Rightarrow> string option" where
  "validatePostProcessFunction func index =
     (let p = ''Post-process function '' @ nat_text (index + 1) @ '': ''; f = pp_functionName func
      in if f = [] then Some (p @ ''Function selection required'')
         else case getFunctionByName f of
             None \<Rightarrow> Some (p @ ''Unknown function: '' @ f)
           | Some d \<Rightarrow>
               let req = filter (\<lambda>a. ad_required a \<noteq> Some False) (drop 1 (fd_args d))
               in if length (pp_additionalArgs func) < length req
                  then Some (p @ f @ '' requires '' @ nat_text (length req) @ '' additional argument(s)'')
                  else check_args p [] req (pp_additionalArgs func))"

definition validateConcatArrayArg :: "ConcatSlot list \<Rightarrow> PostProcessFunction list option \<Rightarrow> string option" where
  "validateConcatArrayArg slots chain =
     (if length slots < 1 then Some ''Concat requires at least 1 value''
      else case first_error validateConcatSlot slots of
          Some e \<Rightarrow> Some e
        | None \<Rightarrow> (case chain of None \<Rightarrow> None | Some fs \<Rightarrow> first_error validatePostProcessFunction fs))"

section \<open>Fields\<close>

record FieldErrors =
  e_outputFieldName :: "string option"
  e_functionName :: "string option"
  e_functionArgs :: "string option"
  e_sourceField :: "string option"
  e_rawExpression :: "string option"
  e_arithmeticExpression :: "string option"
  e_general :: "string option"

definition no_field_errors :: FieldErrors where
  "no_field_errors =
     \<lparr>e_outputFieldName = None, e_functionName = None, e_functionArgs = None, e_sourceField = None,
      e_rawExpression = None, e_arithmeticExpression = None, e_general = None\<rparr>"

definition output_name_pattern :: "string \<Rightarrow> bool" where
  "output_name_pattern s \<longleftrightarrow>
     valid_identifier s \<or>
     (case s of [] \<Rightarrow> False | c # cs \<Rightarrow> c = CHR ''@'' \<and> (valid_identifier cs \<or> cs \<noteq> [] \<and> list_all ident_char cs))"

definition output_name_error :: "string \<Rightarrow> string option" where
  "output_name_error n =
     (if n = [] \<or> trim n = [] then Some ''Output field name is required''
      else if output_name_pattern n then None
      else Some ''Field name must start with a letter, underscore, or @ and contain only alphanumeric characters and underscores'')"

text \<open>The loop over the arguments of a computed field.\<close>

fun field_args_error :: "FunctionArgDef list \<Rightarrow> FunctionArg list \<Rightarrow> string option" where
  "field_args_error (d # ds) (v # vs) =
     (case (case v of
              WaterfallArg slots \<Rightarrow> validateWaterfallArrayArg slots
            | ConcatArg slots chain \<Rightarrow> validateConcatArrayArg slots chain
            | NestedArg _ _ \<Rightarrow> validateNestedFunctionArg v
            | _ \<Rightarrow> check_args [] ''argument '' [d] [v]) of
        Some e \<Rightarrow> Some e
      | None \<Rightarrow> field_args_error ds vs)"
| "field_args_error _ _ = None"

definition arithmetic_error :: "TransformationField \<Rightarrow> string option" where
  "arithmetic_error f =
     (case tf_arithmetic f of
        Some a \<Rightarrow> if isNaN (ta_operand a) then Some ''Arithmetic operand must be a valid number'' else None
      | None \<Rightarrow> None)"

definition raw_expression_in_args :: "TransformationField \<Rightarrow> bool" where
  "raw_expression_in_args f \<longleftrightarrow>
     (case functionArgs f of
        Some (LiteralArg v _ # _) \<Rightarrow>
          (case v of Undefined \<Rightarrow> False | Str s \<Rightarrow> s \<noteq> []
            | Num x \<Rightarrow> (case x of NaN \<Rightarrow> False | Fin m k \<Rightarrow> m \<noteq> 0 | _ \<Rightarrow> True) | Bool b \<Rightarrow> b)
      | _ \<Rightarrow> False)"

definition composed_errors :: "TransformationField \<Rightarrow> FieldErrors \<Rightarrow> FieldErrors" where
  "composed_errors f errors =
     (let hasValidArithmetic = (case tf_arithmetic f of None \<Rightarrow> False | Some a \<Rightarrow> \<not> isNaN (ta_operand a));
          fname = text_of (functionName f)
      in if hasSourceField f \<and> hasValidArithmetic then errors
         else if fname = []
         then errors\<lparr>e_functionName := Some ''Function is required for computed fields (or select a source field with arithmetic)''\<rparr>
         else case getFunctionByName fname of
             None \<Rightarrow> errors\<lparr>e_functionName := Some (''Unknown function: '' @ fname)\<rparr>
           | Some d \<Rightarrow>
               (case functionArgs f of
                  None \<Rightarrow> errors\<lparr>e_functionArgs := Some (''Function '' @ fname @ '' requires '' @
                    nat_text (length (requiredArgs d)) @ '' argument(s)'')\<rparr>
                | Some args \<Rightarrow>
                    if length args < length (requiredArgs d)
                    then errors\<lparr>e_functionArgs := Some (''Function '' @ fname @ '' requires '' @
                      nat_text (length (requiredArgs d)) @ '' argument(s)'')\<rparr>
                    else errors\<lparr>e_functionArgs := field_args_error (requiredArgs d) args\<rparr>))"

definition validateFieldLocally :: "TransformationField \<Rightarrow> FieldErrors" where
  "validateFieldLocally f =
     (let errors = no_field_errors\<lparr>e_outputFieldName := output_name_error (outputFieldName f)\<rparr>
      in case tf_type f of
           Computed \<Rightarrow>
             if expressionMode f = Some RawMode
             then if text_of (rawExpression f) = [] \<or> trim (text_of (rawExpression f)) = []
               then errors\<lparr>e_rawExpression := Some ''Expression is required''\<rparr> else errors
             else if functionName f = Some raw_marker
             then if text_of (rawExpression f) = [] \<and> \<not> raw_expression_in_args f
               then errors\<lparr>e_general := Some ''Raw expression is missing''\<rparr> else errors
             else (composed_errors f errors)\<lparr>e_arithmeticExpression := arithmetic_error f\<rparr>
         | Passthrough \<Rightarrow>
             errors\<lparr>e_sourceField := (if text_of (sourceField f) = []
                 then Some ''Source field is required for passthrough fields'' else None),
               e_arithmeticExpression := arithmetic_error f\<rparr>)"

section \<open>The configuration\<close>

record TransformationConfigValidation =
  tv_isValid :: bool
  tv_fieldErrors :: "(string \<times> FieldErrors) list"
  tv_globalErrors :: "string list"

definition duplicates :: "string list \<Rightarrow> string list" where
  "duplicates names = map fst (filter (\<lambda>(n, i). indexOf names n \<noteq> int i) (zip names [0..<length names]))"

definition validateTransformationConfig :: "TransformationConfig \<Rightarrow> TransformationConfigValidation" where
  "validateTransformationConfig config =
     (if \<not> tc_enabled config then \<lparr>tv_isValid = True, tv_fieldErrors = [], tv_globalErrors = []\<rparr>
      else if tc_fields config = []
      then \<lparr>tv_isValid = False, tv_fieldErrors = [],
        tv_globalErrors = [''At least one transformation field is required when transformations are enabled'']\<rparr>
      else let dups = duplicates (non_empty (map outputFieldName (tc_fields config)));
        globalErrors = (if dups = [] then [] else [''Duplicate output field names: '' @ join '', '' (fold set_add dups [])]);
        fieldErrors = fold (\<lambda>f. if validateFieldLocally f = no_field_errors then id
            else AList.update (tf_id f) (validateFieldLocally f)) (tc_fields config) []
        in \<lparr>tv_isValid = (fieldErrors = [] \<and> globalErrors = []), tv_fieldErrors = fieldErrors,
            tv_globalErrors = globalErrors\<rparr>)"

section \<open>Accepted configurations are sent entirely\<close>

lemma no_errors [simp]:
  "e_outputFieldName no_field_errors = None" "e_functionName no_field_errors = None"
  "e_functionArgs no_field_errors = None" "e_sourceField no_field_errors = None"
  "e_rawExpression no_field_errors = None" "e_arithmeticExpression no_field_errors = None"
  "e_general no_field_errors = None"
  by (simp_all add: no_field_errors_def)

lemma truthy_text: "truthy v \<longleftrightarrow> text_of v \<noteq> []"
  by (simp add: truthy_def text_of_def split: option.split)

lemma fieldNameToExpr_non_empty: "fieldNameToExpr n = [] \<longleftrightarrow> n = []"
  by (simp add: fieldNameToExpr_def Let_def)

lemma with_arithmetic_non_empty: "e \<noteq> [] \<Longrightarrow> with_arithmetic f e \<noteq> []"
  by (simp add: with_arithmetic_def split: option.split)

lemma call_non_empty: "call f args \<noteq> []"
  by (simp add: call_def)

lemma wrap_non_empty: "e \<noteq> [] \<Longrightarrow> wrap_post_process fs e \<noteq> []"
proof (induction fs arbitrary: e)
  case (Cons p fs)
  then show ?case by (cases p) (simp add: Let_def)
qed simp

text \<open>A marked raw expression without any argument is not complete, whatever it holds.\<close>

definition has_arguments :: "TransformationField \<Rightarrow> bool" where
  "has_arguments f \<longleftrightarrow> expressionMode f = Some RawMode \<or> functionName f \<noteq> Some raw_marker \<or>
     (case functionArgs f of Some (_ # _) \<Rightarrow> True | _ \<Rightarrow> False)"

lemma errors_fields:
  "validateFieldLocally f = no_field_errors \<Longrightarrow>
     e_outputFieldName (validateFieldLocally f) = None \<and> e_functionName (validateFieldLocally f) = None \<and>
     e_functionArgs (validateFieldLocally f) = None \<and> e_sourceField (validateFieldLocally f) = None \<and>
     e_rawExpression (validateFieldLocally f) = None \<and> e_general (validateFieldLocally f) = None"
  by simp

lemma composed_output [simp]: "e_outputFieldName (composed_errors f e) = e_outputFieldName e"
  by (simp add: composed_errors_def Let_def split: option.split)

lemma valid_name: "validateFieldLocally f = no_field_errors \<Longrightarrow> outputFieldName f \<noteq> []"
  by (drule errors_fields) (auto simp: validateFieldLocally_def output_name_error_def Let_def split: FieldKind.splits if_splits)

lemma composed_valid:
  assumes "e_functionName (composed_errors f no_field_errors') = None"
    and "e_functionArgs (composed_errors f no_field_errors') = None"
  shows "hasSourceField f \<and> tf_arithmetic f \<noteq> None \<or>
    text_of (functionName f) \<noteq> [] \<and> (\<exists>a as. functionArgs f = Some (a # as))"
proof (cases "hasSourceField f \<and> (case tf_arithmetic f of None \<Rightarrow> False | Some a \<Rightarrow> \<not> isNaN (ta_operand a))")
  case True
  then show ?thesis by (auto split: option.splits)
next
  case False
  with assms obtain d where d: "text_of (functionName f) \<noteq> []" "getFunctionByName (text_of (functionName f)) = Some d"
    by (auto simp: composed_errors_def Let_def split: option.splits if_splits)
  have "requiredArgs d = fd_args d" "fd_args d \<noteq> []"
    using getFunctionByName_SomeD [OF d(2)] function_table(2) by (auto simp: requiredArgs_def filter_id_conv)
  moreover obtain args where "functionArgs f = Some args" "\<not> length args < length (requiredArgs d)"
    using assms False d by (auto simp: composed_errors_def Let_def split: option.splits if_splits)
  ultimately show ?thesis using d(1) by (cases args) auto
qed

lemma computed_expression:
  assumes "tf_type f = Computed" and "expressionMode f \<noteq> Some RawMode" and "functionName f \<noteq> Some raw_marker"
    and "hasSourceField f \<and> tf_arithmetic f \<noteq> None \<or>
      text_of (functionName f) \<noteq> [] \<and> (\<exists>a as. functionArgs f = Some (a # as))"
  shows "computedFieldToExpr f \<noteq> []"
proof (cases "text_of (functionName f) = []")
  case True
  with assms(4) obtain n ty as a where "functionArgs f = Some (FieldArg n ty # as)" "n \<noteq> []" "tf_arithmetic f = Some a"
    by (auto simp: hasSourceField_def split: option.splits list.splits FunctionArg.splits)
  with True assms(1-3) show ?thesis by (simp add: computedFieldToExpr_def fieldNameToExpr_non_empty)
next
  case False
  with assms(4) obtain a as where args: "functionArgs f = Some (a # as)"
    by (auto simp: hasSourceField_def split: option.splits list.splits)
  have "with_arithmetic f (call (text_of (functionName f)) xs) \<noteq> []" for xs
    by (rule with_arithmetic_non_empty) (rule call_non_empty)
  moreover have "with_arithmetic f (concatArrayToExpr slots (Some (p # ps))) \<noteq> []" for slots p ps
  proof (rule with_arithmetic_non_empty)
    have "wrap_post_process (p # ps) (''concat('' @ x) \<noteq> []" for x by (rule wrap_non_empty) simp
    then show "concatArrayToExpr slots (Some (p # ps)) \<noteq> []" by (simp add: concatArrayToExpr_def Let_def)
  qed
  ultimately show ?thesis using assms(1-3) False args
    by (auto simp: computedFieldToExpr_def split: FunctionArg.splits list.splits option.splits)
qed

lemma valid_field_sent:
  assumes "validateFieldLocally f = no_field_errors" and "has_arguments f"
  shows "isFieldComplete f \<and> fieldToExpr f \<noteq> []"
proof -
  from assms(1) have name: "outputFieldName f \<noteq> []" by (rule valid_name)
  note e = errors_fields [OF assms(1)]
  show ?thesis
  proof (cases "tf_type f")
    case Passthrough
    with e have "text_of (sourceField f) \<noteq> []" by (auto simp: validateFieldLocally_def Let_def split: if_splits)
    with name Passthrough show ?thesis
      by (simp add: isFieldComplete_def truthy_text fieldToExpr_def passthroughFieldToExpr_def
          with_arithmetic_non_empty fieldNameToExpr_non_empty)
  next
    case Computed
    show ?thesis
    proof (cases "expressionMode f = Some RawMode")
      case True
      with e Computed have "text_of (rawExpression f) \<noteq> []" "trim (text_of (rawExpression f)) \<noteq> []"
        by (auto simp: validateFieldLocally_def Let_def split: if_splits)
      with name Computed True show ?thesis
        by (auto simp: isFieldComplete_def text_of_def fieldToExpr_def computedFieldToExpr_def split: option.splits)
    next
      case mode: False
      show ?thesis
      proof (cases "functionName f = Some raw_marker")
        case True
        with e Computed mode have raw: "text_of (rawExpression f) \<noteq> [] \<or> raw_expression_in_args f"
          by (auto simp: validateFieldLocally_def Let_def split: if_splits)
        from True mode assms(2) obtain a as where "functionArgs f = Some (a # as)"
          by (auto simp: has_arguments_def split: option.splits list.splits)
        then have "isFieldComplete f" using name Computed mode True
          by (simp add: isFieldComplete_def truthy_def raw_marker_def)
        moreover have "computedFieldToExpr f \<noteq> []"
          using raw Computed mode True
          by (auto simp: computedFieldToExpr_def raw_expression_in_args_def number_text split: option.splits list.splits FunctionArg.splits js_value.splits)
        ultimately show ?thesis using Computed by (simp add: fieldToExpr_def)
      next
        case False
        from e Computed mode False have on: "output_name_error (outputFieldName f) = None"
          by (simp add: validateFieldLocally_def Let_def)
        with e Computed mode False have
          "e_functionName (composed_errors f (no_field_errors\<lparr>e_outputFieldName := None\<rparr>)) = None"
          "e_functionArgs (composed_errors f (no_field_errors\<lparr>e_outputFieldName := None\<rparr>)) = None"
          by (simp_all add: validateFieldLocally_def Let_def)
        from composed_valid [OF this] have c: "hasSourceField f \<and> tf_arithmetic f \<noteq> None \<or>
          text_of (functionName f) \<noteq> [] \<and> (\<exists>a as. functionArgs f = Some (a # as))" .
        then have "isFieldComplete f" using name Computed mode
          by (auto simp: isFieldComplete_def truthy_text)
        with computed_expression [OF Computed mode False c] Computed show ?thesis by (simp add: fieldToExpr_def)
      qed
    qed
  qed
qed

lemma indexOf_first: "n \<in> set xs \<Longrightarrow> \<exists>i < length xs. indexOf xs n = int i \<and> xs ! i = n \<and> (\<forall>j < i. xs ! j \<noteq> n)"
proof (induction xs)
  case (Cons x xs)
  show ?case
  proof (cases "x = n")
    case True
    then show ?thesis by (intro exI [of _ 0]) simp
  next
    case False
    with Cons obtain i where "i < length xs" "indexOf xs n = int i" "xs ! i = n" "\<forall>j < i. xs ! j \<noteq> n" by auto
    with False show ?thesis by (intro exI [of _ "Suc i"]) (auto simp: nth_Cons split: nat.splits)
  qed
qed simp

lemma duplicates_distinct: "duplicates xs = [] \<longleftrightarrow> distinct xs"
proof
  assume none: "duplicates xs = []"
  show "distinct xs"
    unfolding distinct_conv_nth
  proof (intro allI impI)
    fix i j assume ij: "i < length xs" "j < length xs" "i \<noteq> j"
    have first: "indexOf xs (xs ! k) = int k" if "k < length xs" for k
    proof -
      have "(xs ! k, k) \<in> set (zip xs [0..<length xs])" using that by (auto simp: in_set_zip)
      with none show ?thesis by (auto simp: duplicates_def filter_empty_conv)
    qed
    with ij show "xs ! i \<noteq> xs ! j" by (metis of_nat_eq_iff)
  qed
next
  assume d: "distinct xs"
  have "indexOf xs n = int k" if "(n, k) \<in> set (zip xs [0..<length xs])" for n k
  proof -
    from that have k: "k < length xs" "xs ! k = n" by (auto simp: in_set_zip)
    then have "n \<in> set xs" by auto
    from indexOf_first [OF this] obtain i where "i < length xs" "indexOf xs n = int i" "xs ! i = n" by blast
    with k d show ?thesis by (metis nth_eq_iff_index_eq)
  qed
  then show "duplicates xs = []" by (auto simp: duplicates_def filter_empty_conv)
qed

lemma field_errors_empty:
  "fold (\<lambda>f. if validateFieldLocally f = no_field_errors then id
     else AList.update (tf_id f) (validateFieldLocally f)) fs acc = [] \<Longrightarrow>
   acc = [] \<and> (\<forall>f \<in> set fs. validateFieldLocally f = no_field_errors)"
proof (induction fs arbitrary: acc)
  case (Cons f fs)
  have "AList.update k v xs \<noteq> []" for k :: string and v :: FieldErrors and xs by (cases xs) auto
  with Cons.IH [OF Cons.prems[simplified]] show ?case by (auto split: if_splits)
qed simp

lemma filter_all: "\<forall>x \<in> set xs. P x \<Longrightarrow> filter P xs = xs"
  by simp

text \<open>
  C17. A transformation that passes validation is sent entirely. Every field becomes one item of the
  transform array, in order, under its own name, with an expression that is not empty; and the
  names are distinct. Only a field marked as a raw expression must have an argument for that.
\<close>

theorem valid_transformation_sent:
  assumes "tv_isValid (validateTransformationConfig config)" and "tc_enabled config"
    and "\<forall>f \<in> set (tc_fields config). has_arguments f"
  shows "map output_name (toTransformArray config) = map outputFieldName (tc_fields config) \<and>
    distinct (map output_name (toTransformArray config)) \<and> toTransformArray config \<noteq> [] \<and>
    map expression (toTransformArray config) = map fieldToExpr (tc_fields config) \<and>
    (\<forall>item \<in> set (toTransformArray config). expression item \<noteq> []) \<and> toTransformationExpr config \<noteq> []"
proof -
  from assms(1,2) have ne: "tc_fields config \<noteq> []" by (auto simp: validateTransformationConfig_def)
  with assms(1,2) have v: "\<forall>f \<in> set (tc_fields config). validateFieldLocally f = no_field_errors"
    and d: "duplicates (non_empty (map outputFieldName (tc_fields config))) = []"
    by (auto simp: validateTransformationConfig_def Let_def dest!: field_errors_empty split: if_splits)
  with assms(3) have sent: "\<forall>f \<in> set (tc_fields config). isFieldComplete f \<and> fieldToExpr f \<noteq> []"
    using valid_field_sent by blast
  have "non_empty (map outputFieldName (tc_fields config)) = map outputFieldName (tc_fields config)"
    using v valid_name by (simp add: non_empty_def filter_id_conv)
  with d have dist: "distinct (map outputFieldName (tc_fields config))" by (simp add: duplicates_distinct)
  have c: "filter isFieldComplete (tc_fields config) = tc_fields config"
    "filter (\<lambda>f. fieldToExpr f \<noteq> []) (tc_fields config) = tc_fields config" using sent by simp_all
  have "toTransformArray config = map (\<lambda>f. \<lparr>expression = fieldToExpr f, output_name = outputFieldName f,
            output_type = (if outputFieldType f = [] then ''string'' else outputFieldType f)\<rparr>) (tc_fields config)"
    unfolding toTransformArray_def using assms(2) ne sent c(1) by (simp add: filter_id_conv)
  moreover have "toTransformationExpr config \<noteq> []"
    unfolding toTransformationExpr_def using assms(2) ne c by (simp add: Let_def)
  ultimately show ?thesis using ne sent dist by (simp add: comp_def)
qed

definition sample_field :: TransformationField where
  "sample_field = (createPassthroughField ''f'' ''@timestamp'' ''string'' None)"

lemma valid_transformation_sent_witness:
  "toTransformationExpr \<lparr>tc_enabled = True, tc_fields = [sample_field]\<rparr> \<noteq> []"
proof -
  have "tv_isValid (validateTransformationConfig \<lparr>tc_enabled = True, tc_fields = [sample_field]\<rparr>)"
    by code_simp
  from valid_transformation_sent [OF this] show ?thesis by (simp add: has_arguments_def sample_field_def createPassthroughField_def)
qed

end
