(* ===== verification/Transformation_Loading.thy ===== *)
theory Transformation_Loading
  imports Transformation_Expr
begin

text \<open>
  How a saved transformation is loaded: the adapter reads each expression of the backend's
  transform array (ui/src/modules/pipeline-adapters/v3.ts, the same code as in v2.ts), and the
  hydration puts the fields it made into the store (ui/src/store/hydration/transformation.ts, the
  branch for the internal format). The ids the hydration would generate for slots without one are
  an argument.
\<close>

section \<open>Reading expressions\<close>

text \<open>
  The splitting of an argument list: \<open>q\<close> is the quote of the string the scan is in, \<open>p\<close> the
  character before.
\<close>

fun scan_args :: "string list \<Rightarrow> string \<Rightarrow> int \<Rightarrow> char option \<Rightarrow> char option \<Rightarrow> string \<Rightarrow> string list \<times> string" where
  "scan_args args current depth q p [] = (args, current)"
| "scan_args args current depth q p (c # cs) =
     (if (c = dquote \<or> c = squote) \<and> p \<noteq> Some backslash
      then scan_args args (current @ [c]) depth
             (case q of None \<Rightarrow> Some c | Some x \<Rightarrow> if c = x then None else q) (Some c) cs
      else if q = None then
        if c = CHR ''('' \<or> c = CHR ''['' then scan_args args (current @ [c]) (depth + 1) q (Some c) cs
        else if c = CHR '')'' \<or> c = CHR '']'' then scan_args args (current @ [c]) (depth - 1) q (Some c) cs
        else if c = CHR '','' \<and> depth = 0 then scan_args (args @ [trim current]) [] depth q (Some c) cs
        else scan_args args (current @ [c]) depth q (Some c) cs
      else scan_args args (current @ [c]) depth q (Some c) cs)"

definition parseFunctionArgs :: "string \<Rightarrow> string list" where
  "parseFunctionArgs argsString =
     (let (args, current) = scan_args [] [] 0 None None argsString
      in if trim current \<noteq> [] then args @ [trim current] else args)"

text \<open>The match of \<open>/^([a-zA-Z_][a-zA-Z0-9_]*)\s*\((.+)\)$/\<close>.\<close>

definition function_match :: "string \<Rightarrow> (string \<times> string) option" where
  "function_match e =
     (let f = takeWhile ident_char e; r = dropWhile is_ws (dropWhile ident_char e)
      in if valid_identifier f \<and> 3 \<le> length r \<and> hd r = CHR ''('' \<and> last r = CHR '')'' \<and>
            list_all (\<lambda>c. \<not> line_end c) (butlast (tl r))
         then Some (f, butlast (tl r)) else None)"

definition integer_text :: "string \<Rightarrow> bool" where
  "integer_text s \<longleftrightarrow>
     (case s of [] \<Rightarrow> False
      | c # cs \<Rightarrow> if c = CHR ''-'' then cs \<noteq> [] \<and> list_all is_digit cs else list_all is_digit (c # cs))"

text \<open>\<open>v.replace(/^"|"$/g, '')\<close>\<close>

definition strip_quotes :: "string \<Rightarrow> string" where
  "strip_quotes v =
     (let s = (case v of c # cs \<Rightarrow> if c = dquote then cs else v | [] \<Rightarrow> [])
      in if s \<noteq> [] \<and> last s = dquote then butlast s else s)"

definition starts_ends :: "char \<Rightarrow> char \<Rightarrow> string \<Rightarrow> bool" where
  "starts_ends a b s \<longleftrightarrow> s \<noteq> [] \<and> hd s = a \<and> last s = b"

text \<open>\<open>parseInt\<close> of a text of this form is its decimal value; \<open>s.slice(1, -1)\<close> of one character is empty.\<close>

definition read_argument :: "string \<Rightarrow> FunctionArg" where
  "read_argument arg =
     (let trimmed = trim arg
      in if starts_ends dquote dquote trimmed then LiteralArg (Str (butlast (tl trimmed))) LitString
         else if starts_ends (CHR ''['') (CHR '']'') trimmed
         then ArrayArg (map (\<lambda>v. StringElem (strip_quotes (trim v))) (parseFunctionArgs (butlast (tl trimmed)))) ElemTypeString
         else if integer_text trimmed then LiteralArg (Num (string_to_number trimmed)) LitNumber
         else FieldArg (case exprToFieldName trimmed of Some n \<Rightarrow> n | None \<Rightarrow> trimmed) ''string'')"

definition loaded_field :: "nat \<Rightarrow> FieldKind \<Rightarrow> string \<Rightarrow> string \<Rightarrow> TransformationField" where
  "loaded_field index kind n t =
     \<lparr>tf_id = ''field-'' @ nat_digits index, tf_type = kind, outputFieldName = n, outputFieldType = t,
      functionName = None, functionArgs = None, sourceField = None, sourceFieldType = None,
      expressionMode = None, rawExpression = None, tf_arithmetic = None\<rparr>"

definition mapTransformToField :: "TransformArrayItem \<Rightarrow> nat \<Rightarrow> TransformationField" where
  "mapTransformToField transform index =
     (let e = expression transform; outputName = output_name transform;
          outputType = (if output_type transform = [] then ''string'' else output_type transform)
      in case exprToFieldName e of
           Some n \<Rightarrow> (loaded_field index Passthrough outputName outputType)
             \<lparr>sourceField := Some n, sourceFieldType := Some outputType\<rparr>
         | None \<Rightarrow>
             (case function_match e of
                Some (f, argsString) \<Rightarrow> (loaded_field index Computed outputName outputType)
                  \<lparr>functionName := Some f, functionArgs := Some (map read_argument (parseFunctionArgs argsString))\<rparr>
              | None \<Rightarrow> (loaded_field index Computed outputName outputType)
                  \<lparr>functionName := Some raw_marker, functionArgs := Some [LiteralArg (Str e) LitString],
                   rawExpression := Some e\<rparr>))"

section \<open>Hydration\<close>

definition or_text :: "string \<Rightarrow> string \<Rightarrow> string" where
  "or_text s d = (if s = [] then d else s)"

fun hydrated_slot :: "string \<Rightarrow> ConcatSlot \<Rightarrow> ConcatSlot" where
  "hydrated_slot uid slot = slot\<lparr>cs_id := or_text (cs_id slot) uid\<rparr>"

fun parseHydratedArg :: "string \<Rightarrow> FunctionArg \<Rightarrow> FunctionArg"
  and hydrated_element :: "string \<Rightarrow> ArrayElement \<Rightarrow> ArrayElement"
  and hydrated_waterfall_slot :: "string \<Rightarrow> WaterfallSlot \<Rightarrow> WaterfallSlot"
  and hydrated_function :: "string \<Rightarrow> PostProcessFunction \<Rightarrow> PostProcessFunction" where
  "parseHydratedArg uid (FieldArg n t) = FieldArg n (or_text t ''string'')"
| "parseHydratedArg uid (LiteralArg v t) = LiteralArg (if v = Undefined then Str [] else v) t"
| "parseHydratedArg uid (ArrayArg vs t) = ArrayArg (map (hydrated_element uid) vs) t"
| "parseHydratedArg uid (NestedArg f args) = NestedArg f (map (parseHydratedArg uid) args)"
| "parseHydratedArg uid (WaterfallArg slots) = WaterfallArg (map (hydrated_waterfall_slot uid) slots)"
| "parseHydratedArg uid (ConcatArg slots chain) =
     ConcatArg (map (hydrated_slot uid) slots)
       (case chain of None \<Rightarrow> None | Some fs \<Rightarrow> if fs = [] then None else Some (map (hydrated_function uid) fs))"
| "hydrated_element uid (ArgElem (NestedArg f args)) = ArgElem (NestedArg f (map (parseHydratedArg uid) args))"
| "hydrated_element uid v = v"
| "hydrated_waterfall_slot uid (WaterfallSlot i ty fname ftype fn args lit lty) =
     WaterfallSlot (or_text i uid) ty fname ftype fn (map_option (map (parseHydratedArg uid)) args) lit lty"
| "hydrated_function uid (PostProcess i f args) = PostProcess (or_text i uid) f (map (parseHydratedArg uid) args)"

definition hydrated_field :: "string \<Rightarrow> TransformationField \<Rightarrow> TransformationField" where
  "hydrated_field uid fieldDef =
     (let field = \<lparr>tf_id = or_text (tf_id fieldDef) uid, tf_type = tf_type fieldDef,
          outputFieldName = outputFieldName fieldDef,
          outputFieldType = or_text (outputFieldType fieldDef)
            (case tf_type fieldDef of Computed \<Rightarrow> ''computed'' | Passthrough \<Rightarrow> ''passthrough''),
          functionName = None, functionArgs = None, sourceField = None, sourceFieldType = None,
          expressionMode = None, rawExpression = None, tf_arithmetic = None\<rparr>
      in case tf_type fieldDef of
           Passthrough \<Rightarrow> field\<lparr>sourceField := Some (text_of (sourceField fieldDef)),
             sourceFieldType := Some (or_text (text_of (sourceFieldType fieldDef)) ''string'')\<rparr>
         | Computed \<Rightarrow> field\<lparr>functionName := Some (text_of (functionName fieldDef)),
             functionArgs := Some (map (parseHydratedArg uid)
               (case functionArgs fieldDef of None \<Rightarrow> [] | Some as \<Rightarrow> as))\<rparr>)"

text \<open>A saved field as it is after loading.\<close>

definition reloaded :: "string \<Rightarrow> nat \<Rightarrow> TransformArrayItem \<Rightarrow> TransformationField" where
  "reloaded uid index item = hydrated_field uid (mapTransformToField item index)"

end
