(* ===== verification/Transformation_Roundtrip.thy ===== *)
theory Transformation_Roundtrip
  imports Transformation_Loading Js_Numbers
begin

text \<open>
  Saving a transformation and loading it again: which fields come back with the expression they
  had, and which do not.
\<close>

section \<open>Splitting argument lists\<close>

text \<open>Scanning inside a string, up to its closing quote.\<close>

lemma scan_inside:
  "x \<notin> set s \<Longrightarrow> backslash \<notin> set s \<Longrightarrow>
     scan_args args cur d (Some x) p (s @ cs) = scan_args args (cur @ s) d (Some x) (if s = [] then p else Some (last s)) cs"
proof (induction s arbitrary: cur p)
  case (Cons c s)
  then show ?case by auto
qed simp

lemma scan_escaped:
  "backslash \<notin> set n \<Longrightarrow>
     scan_args args cur d (Some dquote) p (escape_quotes n @ cs) =
     scan_args args (cur @ escape_quotes n) d (Some dquote) (if n = [] then p else Some (last n)) cs"
proof (induction n arbitrary: cur p)
  case (Cons c n)
  then show ?case by auto
qed simp

text \<open>
  A text that leaves the scan where it was, wherever it stands outside strings and at whatever depth
  the brackets around it have.
\<close>

definition neutral :: "string \<Rightarrow> bool" where
  "neutral t \<longleftrightarrow> t \<noteq> [] \<and> \<not> is_ws (hd t) \<and> \<not> is_ws (last t) \<and> last t \<noteq> backslash \<and>
     (\<forall>args cur d p cs. p \<noteq> Some backslash \<and> 0 \<le> d \<longrightarrow>
        scan_args args cur d None p (t @ cs) = scan_args args (cur @ t) d None (Some (last t)) cs)"

lemma neutral_scan:
  "neutral t \<Longrightarrow> p \<noteq> Some backslash \<Longrightarrow> 0 \<le> d \<Longrightarrow>
     scan_args args cur d None p (t @ cs) = scan_args args (cur @ t) d None (Some (last t)) cs"
  unfolding neutral_def by blast

lemma neutral_trim: "neutral t \<Longrightarrow> trim t = t"
  unfolding neutral_def by (blast intro: trim_bounded)

text \<open>Characters that mean nothing to the scan.\<close>

definition inert :: "char \<Rightarrow> bool" where
  "inert c \<longleftrightarrow> c \<notin> {dquote, squote, backslash, CHR ''('', CHR ''['', CHR '')'', CHR '']'', CHR '',''}"

lemma scan_inert:
  "list_all inert t \<Longrightarrow>
     scan_args args cur d None p (t @ cs) = scan_args args (cur @ t) d None (if t = [] then p else Some (last t)) cs"
proof (induction t arbitrary: cur p)
  case (Cons c t)
  then show ?case by (auto simp: inert_def)
qed simp

lemma neutral_inert:
  "t \<noteq> [] \<Longrightarrow> list_all inert t \<Longrightarrow> \<not> is_ws (hd t) \<Longrightarrow> \<not> is_ws (last t) \<Longrightarrow> neutral t"
  unfolding neutral_def by (auto simp: scan_inert inert_def list_all_iff)

lemma last_not_in: "c \<notin> set s \<Longrightarrow> s \<noteq> [] \<Longrightarrow> last s \<noteq> c"
  using last_in_set by metis

lemma neutral_quoted: "dquote \<notin> set s \<Longrightarrow> backslash \<notin> set s \<Longrightarrow> neutral (dquote # s @ [dquote])"
  unfolding neutral_def using last_not_in [of backslash s] by (auto simp: scan_inside is_ws_def)

lemma neutral_env:
  assumes "backslash \<notin> set n"
  shows "neutral (''$env['' @ [dquote] @ escape_quotes n @ [dquote] @ '']'')"
  unfolding neutral_def using assms last_not_in [of backslash n]
  by (auto simp: scan_escaped is_ws_def squote_def)

lemma ident_inert: "ident_char c \<Longrightarrow> inert c"
  by (auto simp: ident_char_def ident_start_def is_digit_def inert_def squote_def Let_def)

lemma identifier_chars: "valid_identifier n \<Longrightarrow> list_all ident_char n"
  by (cases n) (auto simp: ident_char_def)

lemma neutral_identifier: "valid_identifier n \<Longrightarrow> neutral n"
proof -
  assume v: "valid_identifier n"
  then have "list_all ident_char n" by (rule identifier_chars)
  moreover from v have "n \<noteq> []" by auto
  ultimately show ?thesis
    by (intro neutral_inert) (auto simp: list_all_iff intro!: ident_inert ident_not_ws)
qed

lemma neutral_field: "n \<noteq> [] \<Longrightarrow> backslash \<notin> set n \<Longrightarrow> neutral (fieldNameToExpr n)"
  using neutral_identifier neutral_env by (simp add: fieldNameToExpr_def Let_def replace_all_absent)

lemma scan_join:
  assumes "\<forall>t \<in> set ts. neutral t" and "neutral t" and "0 < d" and "p \<noteq> Some backslash"
  shows "scan_args args cur d None p (join '', '' (t # ts) @ cs) =
    scan_args args (cur @ join '', '' (t # ts)) d None (Some (last (join '', '' (t # ts)))) cs"
  using assms
proof (induction ts arbitrary: t cur p)
  case Nil
  then show ?case by (simp add: neutral_scan)
next
  case (Cons u ts)
  have l: "last t \<noteq> backslash" using Cons.prems(2) by (simp add: neutral_def)
  have j: "join '', '' (u # ts) \<noteq> []" using Cons.prems(1) by (cases ts) (auto simp: neutral_def)
  have "scan_args args cur d None p (join '', '' (t # u # ts) @ cs) =
      scan_args args (cur @ t @ '', '') d None (Some (CHR '' '')) (join '', '' (u # ts) @ cs)"
    using Cons.prems by (simp add: neutral_scan) (simp add: squote_def)
  then show ?case using Cons.IH [where t = u and cur = "cur @ t @ '', ''" and p = "Some (CHR '' '')"] Cons.prems j by simp
qed

lemma join_ends:
  "\<forall>t \<in> set (t # ts). neutral t \<Longrightarrow>
     join '', '' (t # ts) \<noteq> [] \<and> hd (join '', '' (t # ts)) = hd t \<and> last (join '', '' (t # ts)) = last (last (t # ts))"
proof (induction ts arbitrary: t)
  case (Cons u ts)
  then have "t \<noteq> []" "join '', '' (u # ts) \<noteq> []" "last (join '', '' (u # ts)) = last (last (u # ts))"
    by (auto simp: neutral_def)
  then show ?case by simp
qed (simp add: neutral_def)

lemma neutral_array:
  assumes "\<forall>t \<in> set ts. neutral t"
  shows "neutral (''['' @ join '', '' ts @ '']'')"
proof (cases ts)
  case Nil
  then show ?thesis by (auto simp: neutral_def is_ws_def squote_def)
next
  case (Cons t us)
  have l: "last (join '', '' (t # us)) \<noteq> backslash"
    using join_ends [of t us] assms Cons last_in_set [of "t # us"] by (auto simp: neutral_def)
  show ?thesis
    unfolding neutral_def
  proof (intro conjI allI impI)
    fix args cur p cs and d :: int
    assume "p \<noteq> Some backslash \<and> 0 \<le> d"
    then show "scan_args args cur d None p ((''['' @ join '', '' ts @ '']'') @ cs) =
        scan_args args (cur @ ''['' @ join '', '' ts @ '']'') d None (Some (last (''['' @ join '', '' ts @ '']''))) cs"
      using scan_join [of us t "d + 1" "Some (CHR ''['')" args "cur @ ''[''" "CHR '']'' # cs"] assms Cons l
      by (simp add: squote_def)
  qed (simp_all add: is_ws_def)
qed

lemma trim_prefix: "list_all is_ws cur \<Longrightarrow> neutral t \<Longrightarrow> trim (cur @ t) = t"
proof -
  assume c: "list_all is_ws cur" and t: "neutral t"
  then have "dropWhile is_ws (cur @ t) = dropWhile is_ws t" by (simp add: dropWhile_append2 list_all_iff)
  then show ?thesis using neutral_trim [OF t] by (simp add: trim_def)
qed

lemma scan_top:
  assumes "\<forall>t \<in> set (t # ts). neutral t" and "list_all is_ws cur" and "p \<noteq> Some backslash"
  shows "\<exists>c. scan_args args cur 0 None p (join '', '' (t # ts)) = (args @ butlast (t # ts), c) \<and> trim c = last (t # ts)"
  using assms
proof (induction ts arbitrary: t cur p args)
  case Nil
  then show ?case using neutral_scan [of t p 0 args cur "[]"] trim_prefix by simp
next
  case (Cons u ts)
  have t: "neutral t" using Cons.prems by simp
  have "scan_args args cur 0 None p (join '', '' (t # u # ts)) =
      scan_args (args @ [t]) '' '' 0 None (Some (CHR '' '')) (join '', '' (u # ts))"
    using neutral_scan [OF t Cons.prems(3), of 0] trim_prefix [OF Cons.prems(2) t] t
    by (simp add: neutral_def squote_def)
  moreover have "\<exists>c. scan_args (args @ [t]) '' '' 0 None (Some (CHR '' '')) (join '', '' (u # ts)) =
      ((args @ [t]) @ butlast (u # ts), c) \<and> trim c = last (u # ts)"
    using Cons.prems by (intro Cons.IH) (simp_all add: is_ws_def)
  ultimately show ?case by simp
qed

text \<open>Splitting undoes joining.\<close>

lemma parse_join:
  assumes "\<forall>t \<in> set ts. neutral t"
  shows "parseFunctionArgs (join '', '' ts) = ts"
proof (cases ts)
  case Nil
  then show ?thesis by (simp add: parseFunctionArgs_def trim_def)
next
  case (Cons t us)
  with assms scan_top [of t us "[]" None "[]"] obtain c where
    c: "scan_args [] [] 0 None None (join '', '' ts) = (butlast ts, c)" "trim c = last ts" by auto
  have "last ts \<noteq> []" using assms Cons last_in_set [of ts] by (auto simp: neutral_def)
  with c Cons show ?thesis by (simp add: parseFunctionArgs_def)
qed


section \<open>Reading arguments back\<close>

lemma number_chars:
  "set (number_to_string x) \<subseteq> {c. is_digit c} \<union> set ''.e+-INaNfinity''"
proof (cases x)
  case (Fin m k)
  obtain s e where se: "strip_zeros (nat \<bar>m\<bar>) (- int k) = (s, e)" by fastforce
  have "unsigned_text (show_positive (nat_digits s) n)" for n by (rule unsigned_text_show) simp_all
  then have "set (show_positive (nat_digits s) n) \<subseteq> {c. is_digit c} \<union> set ''.e+-''" for n
    by (simp add: unsigned_text_def)
  then have "c \<in> {c. is_digit c} \<union> set ''.e+-''" if "c \<in> set (show_positive (nat_digits s) n)" for c n
    using that by blast
  then show ?thesis using Fin se by (auto simp: is_digit_zero Let_def)
qed auto

lemma number_end: "last (number_to_string x) \<notin> {CHR '')'', CHR '']''} \<and> \<not> is_ws (last (number_to_string x)) \<and>
    list_all (\<lambda>c. \<not> line_end c) (number_to_string x) \<and> number_to_string x \<noteq> []"
proof -
  have "number_to_string x \<noteq> []" by (rule number_text)
  moreover have "c \<notin> {CHR '')'', CHR '']''} \<and> \<not> is_ws c \<and> \<not> line_end c" if "c \<in> set (number_to_string x)" for c
  proof -
    from that number_chars [of x] have "is_digit c \<or> c \<in> set ''.e+-INaNfinity''" by blast
    then show ?thesis by (auto simp: is_digit_def is_ws_def line_end_def Let_def)
  qed
  ultimately show ?thesis using last_in_set by (auto simp: list_all_iff)
qed

text \<open>Texts that are written as string literals which are read back.\<close>

definition plain_text :: "string \<Rightarrow> bool" where
  "plain_text s \<longleftrightarrow> list_all (\<lambda>c. c \<noteq> dquote \<and> c \<noteq> backslash \<and> \<not> line_end c) s"

fun plain_arg :: "FunctionArg \<Rightarrow> bool" where
  "plain_arg (FieldArg n _) \<longleftrightarrow> n \<noteq> [] \<and> list_all (\<lambda>c. c \<noteq> backslash \<and> \<not> line_end c) n"
| "plain_arg (LiteralArg (Str s) LitString) \<longleftrightarrow> plain_text s"
| "plain_arg (LiteralArg (Num x) LitNumber) \<longleftrightarrow> canonical x \<and> integer_text (number_to_string x)"
| "plain_arg (LiteralArg (Bool b) LitBoolean) \<longleftrightarrow> True"
| "plain_arg (ArrayArg vs ElemTypeString) \<longleftrightarrow>
     list_all (\<lambda>v. case v of StringElem s \<Rightarrow> plain_text s | _ \<Rightarrow> False) vs"
| "plain_arg _ \<longleftrightarrow> False"

lemma quoted_plain: "plain_text s \<Longrightarrow> quoted s = dquote # s @ [dquote]"
proof -
  assume "plain_text s"
  then have "dquote \<notin> set s" by (auto simp: plain_text_def list_all_iff)
  then show ?thesis by (simp add: quoted_def escape_quotes_def replace_all_absent)
qed

lemma neutral_quoted_plain: "plain_text s \<Longrightarrow> neutral (quoted s)"
  by (simp add: quoted_plain) (rule neutral_quoted; auto simp: plain_text_def list_all_iff)

lemma integer_neutral: "integer_text s \<Longrightarrow> neutral s"
proof (rule neutral_inert)
  assume i: "integer_text s"
  show "s \<noteq> []" using i by (auto simp: integer_text_def)
  have c: "\<forall>c \<in> set s. is_digit c \<or> c = CHR ''-''" using i
    by (auto simp: integer_text_def list_all_iff split: list.splits if_splits)
  moreover have "inert c \<and> \<not> is_ws c" if "is_digit c \<or> c = CHR ''-''" for c
    using that by (auto simp: inert_def is_ws_def is_digit_def squote_def Let_def)
  ultimately show "list_all inert s" "\<not> is_ws (hd s)" "\<not> is_ws (last s)"
    using \<open>s \<noteq> []\<close> hd_in_set last_in_set by (auto simp: list_all_iff)
qed

lemma string_elements:
  "list_all (\<lambda>v. case v of StringElem s \<Rightarrow> plain_text s | _ \<Rightarrow> False) vs \<Longrightarrow>
     \<exists>ss. vs = map StringElem ss \<and> list_all plain_text ss"
proof (induction vs)
  case (Cons v vs)
  then obtain ss s where "vs = map StringElem ss" "list_all plain_text ss" "v = StringElem s" "plain_text s"
    by (auto split: ArrayElement.splits)
  then show ?case by (intro exI [of _ "s # ss"]) simp
qed simp

lemma format_strings:
  "formatArgForExpr (ArrayArg (map StringElem ss) ElemTypeString) = ''['' @ join '', '' (map quoted ss) @ '']''"
  by (simp add: comp_def)

lemma arg_neutral: "plain_arg a \<Longrightarrow> neutral (formatArgForExpr a)"
proof (induction a rule: plain_arg.induct)
  case (1 n t)
  then show ?case by (auto intro!: neutral_field simp: list_all_iff)
next
  case (5 vs)
  then obtain ss where "vs = map StringElem ss" "list_all plain_text ss" using string_elements by auto
  then show ?case using neutral_array [of "map quoted ss"]
    by (simp only: format_strings) (simp add: neutral_quoted_plain list_all_iff)
next
  case (4 b)
  then show ?case by (auto intro!: neutral_identifier simp: ident_char_def ident_start_def)
qed (simp_all add: neutral_quoted_plain integer_neutral)

lemma strip_quoted: "plain_text s \<Longrightarrow> strip_quotes (dquote # s @ [dquote]) = s"
  by (simp add: strip_quotes_def)

lemma reference_text:
  assumes "n \<noteq> []"
  shows "\<not> starts_ends dquote dquote (fieldNameToExpr n)" "\<not> starts_ends (CHR ''['') c (fieldNameToExpr n)"
    "\<not> integer_text (fieldNameToExpr n)"
  using assms by (cases n; auto simp: fieldNameToExpr_def Let_def starts_ends_def integer_text_def ident_start_def
      is_digit_def)+

lemma arg_back:
  assumes "plain_arg a"
  shows "formatArgForExpr (parseHydratedArg uid (read_argument (formatArgForExpr a))) = formatArgForExpr a"
  using assms
proof (induction a rule: plain_arg.induct)
  case (1 n t)
  then have n: "n \<noteq> []" by simp
  have "trim (fieldNameToExpr n) = fieldNameToExpr n" using arg_neutral [OF 1] neutral_trim by simp
  with reference_text [OF n] reference_back [OF n] show ?case by (simp add: read_argument_def Let_def)
next
  case (2 s)
  then show ?case using neutral_trim [OF neutral_quoted_plain [of s]]
    by (simp add: read_argument_def Let_def quoted_plain starts_ends_def)
next
  case (3 x)
  have i: "integer_text (number_to_string x)" and c: "canonical x" using 3 by simp_all
  then have "\<not> starts_ends dquote dquote (number_to_string x)" "\<not> starts_ends (CHR ''['') (CHR '']'') (number_to_string x)"
    by (auto simp: integer_text_def starts_ends_def is_digit_def split: list.splits if_splits)
  with i c neutral_trim [OF integer_neutral [OF i]] show ?case
    by (simp add: read_argument_def Let_def string_number_roundtrip)
next
  case (4 b)
  have "read_argument ''true'' = FieldArg ''true'' ''string''" "read_argument ''false'' = FieldArg ''false'' ''string''"
    "fieldNameToExpr ''true'' = ''true''" "fieldNameToExpr ''false'' = ''false''"
    by code_simp+
  then show ?case by (cases b) simp_all
next
  case (5 vs)
  then obtain ss where ss: "vs = map StringElem ss" "list_all plain_text ss" using string_elements by auto
  let ?b = "join '', '' (map quoted ss)"
  have n: "\<forall>t \<in> set (map quoted ss). neutral t" using ss(2) by (auto simp: neutral_quoted_plain list_all_iff)
  have f: "formatArgForExpr (ArrayArg vs ElemTypeString) = ''['' @ ?b @ '']''" using ss by (simp only: format_strings)
  have "trim (''['' @ ?b @ '']'') = ''['' @ ?b @ '']''" by (rule neutral_trim [OF neutral_array [OF n]])
  moreover have sq: "map (\<lambda>v. strip_quotes (trim v)) (map quoted ss) = ss"
    using ss(2) n by (induction ss) (auto simp: neutral_trim quoted_plain strip_quoted)
  have "butlast (tl (''['' @ ?b @ '']'')) = ?b" by (simp add: butlast_append)
  moreover have "starts_ends (CHR ''['') (CHR '']'') (''['' @ ?b @ '']'')"
    "\<not> starts_ends dquote dquote (''['' @ ?b @ '']'')" by (simp_all add: starts_ends_def)
  ultimately have "read_argument (''['' @ ?b @ '']'') =
      ArrayArg (map (\<lambda>v. StringElem (strip_quotes (trim v))) (map quoted ss)) ElemTypeString"
    unfolding read_argument_def Let_def by (simp only: parse_join [OF n] if_True if_False)
  also have "map (\<lambda>v. StringElem (strip_quotes (trim v))) (map quoted ss) =
      map StringElem (map (\<lambda>v. strip_quotes (trim v)) (map quoted ss))" by simp
  finally have "read_argument (''['' @ ?b @ '']'') = ArrayArg (map StringElem ss) ElemTypeString"
    by (simp only: sq)
  with f ss show ?case by (simp add: comp_def)
qed simp_all

section \<open>Whole fields\<close>

lemma last_dropWhile: "dropWhile P s \<noteq> [] \<Longrightarrow> last (dropWhile P s) = last s"
  by (induction s) auto

lemma no_function_match: "s \<noteq> [] \<Longrightarrow> last s \<noteq> CHR '')'' \<Longrightarrow> function_match s = None"
proof -
  assume s: "s \<noteq> []" "last s \<noteq> CHR '')''"
  let ?r = "dropWhile is_ws (dropWhile ident_char s)"
  have "last ?r = last s" if "?r \<noteq> []"
    using that by (metis last_dropWhile dropWhile.simps(1))
  with s show ?thesis
    by (cases "?r = []") (auto simp: function_match_def Let_def simp del: dropWhile_eq_Nil_conv)
qed

lemma function_match_call:
  assumes "valid_identifier f" and "b \<noteq> []" and "list_all (\<lambda>c. \<not> line_end c) b"
  shows "function_match (f @ ''('' @ b @ '')'') = Some (f, b)"
proof -
  have "\<forall>c \<in> set f. ident_char c" using identifier_chars [OF assms(1)] by (simp add: list_all_iff)
  moreover have "\<not> ident_char (CHR ''('')" "\<not> is_ws (CHR ''('')"
    by (simp_all add: ident_char_def ident_start_def is_digit_def is_ws_def)
  ultimately have "takeWhile ident_char (f @ ''('' @ b @ '')'') = f"
    "dropWhile is_ws (dropWhile ident_char (f @ ''('' @ b @ '')'')) = ''('' @ b @ '')''"
    by (simp_all add: takeWhile_append dropWhile_append)
  with assms show ?thesis by (cases b) (simp_all add: function_match_def Let_def butlast_append)
qed

lemma not_reference:
  assumes "s \<noteq> []" and "\<not> is_ws (hd s)" and "\<not> is_ws (last s)" and "\<not> list_all ident_char s"
    and "hd s \<noteq> CHR ''$'' \<or> last s \<noteq> CHR '']''"
  shows "exprToFieldName s = None"
proof -
  have t: "trim s = s" using assms by (intro trim_bounded)
  have i: "\<not> valid_identifier s" using identifier_chars assms(4) by blast
  have "env_key q s = None" for q
  proof -
    have "hd s = CHR ''$''" if "take 6 s = ''$env['' @ [q]" using that by (cases s) auto
    moreover have "last s = CHR '']''" if "drop (length s - 2) s = q # '']''"
      using that by (metis append_take_drop_id last_appendR last_ConsL last_ConsR list.discI)
    ultimately show ?thesis using assms(5) by (auto simp: env_key_def)
  qed
  with assms(1) t i show ?thesis by (simp add: exprToFieldName_def)
qed

text \<open>
  Fields of the simple kind: a field alone, or one call of a named function on plain
  arguments, with or without an arithmetic suffix.
\<close>

definition plain_field :: "TransformationField \<Rightarrow> bool" where
  "plain_field f \<longleftrightarrow> outputFieldName f \<noteq> [] \<and>
     (case tf_type f of
        Passthrough \<Rightarrow> text_of (sourceField f) \<noteq> [] \<and> \<not> is_ws (hd (text_of (sourceField f)))
      | Computed \<Rightarrow>
          expressionMode f \<noteq> Some RawMode \<and> functionName f \<noteq> Some raw_marker \<and>
          valid_identifier (text_of (functionName f)) \<and>
          (case functionArgs f of Some (a # as) \<Rightarrow> list_all plain_arg (a # as) | _ \<Rightarrow> False))"

lemma join_lines:
  "\<forall>t \<in> set ts. list_all (\<lambda>c. \<not> line_end c) t \<Longrightarrow> list_all (\<lambda>c. \<not> line_end c) (join '', '' ts)"
  by (induction "'', ''" ts rule: join.induct) (auto simp: line_end_def)

lemma plain_text_lines: "plain_text s \<Longrightarrow> list_all (\<lambda>c. \<not> line_end c) (quoted s)"
  by (simp add: quoted_plain) (simp add: plain_text_def list_all_iff line_end_def)

lemma plain_lines: "plain_arg a \<Longrightarrow> list_all (\<lambda>c. \<not> line_end c) (formatArgForExpr a)"
proof (induction a rule: plain_arg.induct)
  case (1 n t)
  then have n: "backslash \<notin> set n" "list_all (\<lambda>c. \<not> line_end c) n" by (auto simp: list_all_iff)
  have e: "list_all (\<lambda>c. \<not> line_end c) s \<Longrightarrow> list_all (\<lambda>c. \<not> line_end c) (escape_quotes s)" for s
    by (induction s) (simp_all add: line_end_def)
  show ?case
  proof (cases "valid_identifier n")
    case True
    with n 1 show ?thesis by (simp add: fieldNameToExpr_def)
  next
    case False
    with n 1 e [OF n(2)] show ?thesis
      by (simp add: fieldNameToExpr_def Let_def replace_all_absent) (simp add: line_end_def)
  qed
next
  case (2 s)
  then show ?case by (simp add: plain_text_lines)
next
  case (3 x)
  then show ?case using number_end by simp
next
  case (4 b)
  then show ?case by (simp add: line_end_def)
next
  case (5 vs)
  then obtain ss where ss: "vs = map StringElem ss" "list_all plain_text ss" using string_elements by auto
  then have "list_all (\<lambda>c. \<not> line_end c) (join '', '' (map quoted ss))"
    using plain_text_lines by (intro join_lines) (auto simp: list_all_iff [of plain_text])
  then show ?case unfolding ss(1) format_strings by (simp add: line_end_def)
qed simp_all

text \<open>What the hydration leaves of a loaded function call, and of a text it keeps.\<close>

lemma computed_call:
  assumes "tf_type f = Computed" and "expressionMode f \<noteq> Some RawMode" and "functionName f = Some g" and "g \<noteq> []"
    and "g \<noteq> raw_marker" and "functionArgs f = Some args"
    and "\<forall>a \<in> set args. case a of ConcatArg _ _ \<Rightarrow> False | _ \<Rightarrow> True"
  shows "computedFieldToExpr f = with_arithmetic f (call g (map formatArgForExpr args))"
proof (cases "\<exists>slots chain. args = [ConcatArg slots chain]")
  case True
  with assms(7) show ?thesis by auto
next
  case False
  with assms show ?thesis
    by (auto simp: computedFieldToExpr_def text_of_def split: list.splits FunctionArg.splits)
qed

lemma reloaded_call:
  assumes "valid_identifier g" and "g \<noteq> raw_marker" and "as \<noteq> []" and "list_all plain_arg as"
    and "expression item = call g (map formatArgForExpr as)"
  shows "fieldToExpr (reloaded uid index item) = expression item \<and> isFieldComplete (reloaded uid index item) = (output_name item \<noteq> [])"
proof -
  let ?ts = "map formatArgForExpr as" and ?f = "reloaded uid index item"
  have n: "\<forall>t \<in> set ?ts. neutral t" using assms(4) arg_neutral by (auto simp: list_all_iff)
  obtain t us where ts: "?ts = t # us" using assms(3) by (cases as) auto
  have b: "join '', '' ?ts \<noteq> []" using join_ends [of t us] n ts by simp
  have l: "list_all (\<lambda>c. \<not> line_end c) (join '', '' ?ts)"
    by (rule join_lines) (use plain_lines assms(4) in \<open>auto simp: list_all_iff [of plain_arg]\<close>)
  have fm: "function_match (expression item) = Some (g, join '', '' ?ts)"
    using function_match_call [OF assms(1) b l] assms(5) by (simp add: call_def)
  have g: "g \<noteq> []" "ident_start (hd g)" using assms(1) by (cases g; simp)+
  then have hd: "hd (expression item) = hd g" "last (expression item) = CHR '')''" "expression item \<noteq> []"
    using assms(5) by (simp_all add: call_def)
  have "exprToFieldName (expression item) = None"
    by (rule not_reference) (use g hd assms(5) in \<open>auto simp: ident_start_def is_ws_def call_def ident_char_def is_digit_def\<close>)
  then have m: "mapTransformToField item index = (loaded_field index Computed (output_name item)
      (if output_type item = [] then ''string'' else output_type item))
        \<lparr>functionName := Some g, functionArgs := Some (map read_argument ?ts)\<rparr>"
    using fm by (simp add: mapTransformToField_def Let_def parse_join [OF n])
  let ?args = "map (parseHydratedArg uid) (map read_argument ?ts)"
  have same: "map formatArgForExpr ?args = ?ts" using assms(4) arg_back by (simp add: list_all_iff)
  have nc: "\<forall>a \<in> set ?args. case a of ConcatArg _ _ \<Rightarrow> False | _ \<Rightarrow> True"
    by (auto simp: read_argument_def Let_def)
  have f: "tf_type ?f = Computed" "expressionMode ?f \<noteq> Some RawMode" "functionName ?f = Some g" "tf_arithmetic ?f = None"
    "functionArgs ?f = Some ?args" "outputFieldName ?f = output_name item" "expressionMode ?f = None"
    by (simp_all add: reloaded_def m hydrated_field_def Let_def loaded_field_def text_of_def)
  have "computedFieldToExpr ?f = expression item"
    unfolding computed_call [OF f(1-3) g(1) assms(2) f(5) nc] same by (simp add: with_arithmetic_def f(4) assms(5))
  then show ?thesis using f assms(3) g by (simp add: fieldToExpr_def isFieldComplete_def truthy_def)
qed

lemma reloaded_text:
  assumes "exprToFieldName (expression item) = None" and "function_match (expression item) = None"
    and "expression item \<noteq> []"
  shows "fieldToExpr (reloaded uid index item) = expression item \<and> isFieldComplete (reloaded uid index item) = (output_name item \<noteq> [])"
  using assms
  by (simp add: reloaded_def mapTransformToField_def Let_def hydrated_field_def loaded_field_def fieldToExpr_def
      computedFieldToExpr_def text_of_def isFieldComplete_def truthy_def raw_marker_def hasSourceField_def)

lemma reloaded_reference:
  assumes "expression item = fieldNameToExpr n" and "n \<noteq> []"
  shows "fieldToExpr (reloaded uid index item) = expression item \<and> isFieldComplete (reloaded uid index item) = (output_name item \<noteq> [])"
  using assms reference_back [OF assms(2)]
  by (simp add: reloaded_def mapTransformToField_def Let_def hydrated_field_def loaded_field_def fieldToExpr_def
      passthroughFieldToExpr_def text_of_def isFieldComplete_def truthy_def with_arithmetic_def)

lemma arithmetic_end:
  "formatArithmeticExpr a \<noteq> [] \<and> last (formatArithmeticExpr a) \<notin> {CHR '')'', CHR '']''} \<and>
   \<not> is_ws (last (formatArithmeticExpr a)) \<and> \<not> list_all ident_char (formatArithmeticExpr a)"
  using number_end [of "ta_operand a"]
  by (simp add: formatArithmeticExpr_def) (simp add: ident_char_def ident_start_def is_digit_def)

text \<open>An arithmetic suffix makes an expression one that is kept as it is.\<close>

lemma reloaded_arithmetic:
  assumes "expression item = b @ formatArithmeticExpr a" and "b \<noteq> []" and "\<not> is_ws (hd b)"
  shows "fieldToExpr (reloaded uid index item) = expression item \<and> isFieldComplete (reloaded uid index item) = (output_name item \<noteq> [])"
proof (rule reloaded_text)
  show "exprToFieldName (expression item) = None"
    by (rule not_reference) (use arithmetic_end [of a] assms in auto)
  show "function_match (expression item) = None"
    by (rule no_function_match) (use arithmetic_end [of a] assms in auto)
qed (use assms in simp)

text \<open>The item of a field in the transform array.\<close>

definition item_of :: "TransformationField \<Rightarrow> TransformArrayItem" where
  "item_of f = \<lparr>expression = fieldToExpr f, output_name = outputFieldName f,
     output_type = (if outputFieldType f = [] then ''string'' else outputFieldType f)\<rparr>"

lemma reference_start: "n \<noteq> [] \<Longrightarrow> fieldNameToExpr n \<noteq> [] \<and> \<not> is_ws (hd (fieldNameToExpr n))"
  by (cases n) (auto simp: fieldNameToExpr_def Let_def ident_start_def is_ws_def)

lemma passthrough_reloaded:
  assumes "plain_field f" and "tf_type f = Passthrough" and "f' = reloaded uid index (item_of f)"
  shows "fieldToExpr f' = expression (item_of f) \<and> isFieldComplete f' = (output_name (item_of f) \<noteq> [])"
proof -
  note Passthrough = assms(2)
  let ?n = "text_of (sourceField f)"
  from assms(1) Passthrough have n: "?n \<noteq> []" by (simp add: plain_field_def)
  show ?thesis
  proof (cases "tf_arithmetic f")
    case None
    with Passthrough n show ?thesis unfolding assms(3)
      by (intro reloaded_reference [of _ ?n]) (simp_all add: item_of_def fieldToExpr_def passthroughFieldToExpr_def with_arithmetic_def)
  next
    case (Some a)
    with Passthrough n reference_start [OF n] show ?thesis unfolding assms(3)
      by (intro reloaded_arithmetic [of _ "fieldNameToExpr ?n" a])
        (simp_all add: item_of_def fieldToExpr_def passthroughFieldToExpr_def with_arithmetic_def)
  qed
qed

lemma computed_reloaded:
  assumes "plain_field f" and "tf_type f = Computed" and "f' = reloaded uid index (item_of f)"
  shows "fieldToExpr f' = expression (item_of f) \<and> isFieldComplete f' = (output_name (item_of f) \<noteq> [])"
proof -
  note Computed = assms(2)
  from Computed obtain g a as where g: "functionName f = Some g" "valid_identifier g" "g \<noteq> raw_marker"
    and as: "functionArgs f = Some (a # as)" "list_all plain_arg (a # as)" and mode: "expressionMode f \<noteq> Some RawMode"
    using assms(1) by (auto simp: plain_field_def text_of_def split: option.splits list.splits)
  from g(2) have nonempty: "g \<noteq> []" by auto
  have "\<forall>x \<in> set (a # as). case x of ConcatArg _ _ \<Rightarrow> False | _ \<Rightarrow> True"
    using as(2) by (auto simp: list_all_iff split: FunctionArg.split)
  from computed_call [OF Computed mode g(1) nonempty g(3) as(1) this]
  have e: "expression (item_of f) = with_arithmetic f (call g (map formatArgForExpr (a # as)))"
    using Computed by (simp add: item_of_def fieldToExpr_def)
  show ?thesis
  proof (cases "tf_arithmetic f")
    case None
    with e g as show ?thesis unfolding assms(3) by (intro reloaded_call [of g "a # as"]) (simp_all add: with_arithmetic_def)
  next
    case (Some x)
    have "call g ts \<noteq> [] \<and> \<not> is_ws (hd (call g ts))" for ts
      using g(2) by (cases g) (auto simp: call_def ident_start_def is_ws_def)
    with Some e show ?thesis unfolding assms(3)
      by (intro reloaded_arithmetic [of _ "call g (map formatArgForExpr (a # as))" x]) (simp_all add: with_arithmetic_def)
  qed
qed

text \<open>
  C18. A field of the simple kind survives saving and loading: the item that the backend gets
  for it is loaded as a field with the same expression and the same output, and that field is complete, so
  that it is sent again.
\<close>

theorem simple_transform_roundtrip:
  assumes "plain_field f" and "f' = reloaded uid index (item_of f)"
  shows "fieldToExpr f' = fieldToExpr f \<and> outputFieldName f' = outputFieldName f \<and>
    output_type (item_of f') = output_type (item_of f) \<and> isFieldComplete f'"
proof -
  have other: "outputFieldName (reloaded uid index item) = output_name item"
    "outputFieldType (reloaded uid index item) = (if output_type item = [] then ''string'' else output_type item)" for item
    by (simp_all add: reloaded_def mapTransformToField_def Let_def hydrated_field_def loaded_field_def or_text_def
        split: option.split)
  have out: "outputFieldName f \<noteq> []" using assms(1) by (simp add: plain_field_def)
  have "fieldToExpr f' = expression (item_of f) \<and> isFieldComplete f' = (output_name (item_of f) \<noteq> [])"
    using passthrough_reloaded [OF assms(1) _ assms(2)] computed_reloaded [OF assms(1) _ assms(2)]
    by (cases "tf_type f") blast+
  with out other assms(2) show ?thesis by (simp add: item_of_def)
qed

lemma neutral_inner_call:
  assumes "valid_identifier h" and "valid_identifier n"
  shows "neutral (h @ ''('' @ n @ '')'')"
  unfolding neutral_def
proof (intro conjI allI impI)
  have h: "list_all inert h" "h \<noteq> []" and n: "list_all inert n"
    using assms identifier_chars ident_inert by (auto simp: list_all_iff)
  then show "h @ ''('' @ n @ '')'' \<noteq> []" by simp
  show "\<not> is_ws (hd (h @ ''('' @ n @ '')''))"
    using assms(1) neutral_identifier [OF assms(1)] by (cases h) (auto simp: neutral_def)
  show "\<not> is_ws (last (h @ ''('' @ n @ '')''))" "last (h @ ''('' @ n @ '')'') \<noteq> backslash"
    by (simp_all add: is_ws_def)
  fix args cur p cs and d :: int
  assume "p \<noteq> Some backslash \<and> 0 \<le> d"
  have "last h \<noteq> backslash" using h last_in_set by (auto simp: list_all_iff inert_def)
  then show "scan_args args cur d None p ((h @ ''('' @ n @ '')'') @ cs) =
      scan_args args (cur @ h @ ''('' @ n @ '')'') d None (Some (last (h @ ''('' @ n @ '')''))) cs"
    using h n by (simp add: scan_inert squote_def)
qed

text \<open>
  A nested call does not survive. A field that applies one function to a call of another is loaded as a
  call on a field whose name is the text of the inner call, and is saved again as a reference to a
  field of that name.
\<close>

theorem nested_call_corrupted:
  assumes "valid_identifier g" and "valid_identifier h" and "valid_identifier n" and "g \<noteq> raw_marker"
    and "expression item = formatArgForExpr (NestedArg g [NestedArg h [FieldArg n t]])"
  shows "expression item = g @ ''('' @ h @ ''('' @ n @ ''))'' \<and>
    functionArgs (reloaded uid index item) = Some [FieldArg (h @ ''('' @ n @ '')'') ''string''] \<and>
    fieldToExpr (reloaded uid index item) = g @ ''($env['' @ [dquote] @ h @ ''('' @ n @ '')'' @ [dquote] @ ''])''"
proof -
  let ?b = "h @ ''('' @ n @ '')''" and ?f = "reloaded uid index item"
  have ne: "g \<noteq> []" "h \<noteq> []" "n \<noteq> []" using assms(1-3) by auto
  have e: "expression item = g @ ''('' @ ?b @ '')''"
    using assms(5) ne assms(3) by (simp add: call_def fieldNameToExpr_def)
  have chars: "list_all ident_char h" "list_all ident_char n" "list_all ident_char g"
    using assms identifier_chars by blast+
  have b: "neutral ?b" by (rule neutral_inner_call [OF assms(2,3)])
  have id: "ident_char c \<Longrightarrow> \<not> line_end c \<and> c \<noteq> dquote \<and> c \<noteq> backslash" for c
    by (auto simp: ident_char_def ident_start_def is_digit_def line_end_def Let_def)
  have l: "list_all (\<lambda>c. \<not> line_end c) ?b"
    using chars id by (auto simp: list_all_iff line_end_def)
  have fm: "function_match (expression item) = Some (g, ?b)"
    unfolding e by (rule function_match_call) (use assms(1) ne l in simp_all)
  have start: "ident_start (hd g)" "ident_start (hd h)" using assms(1,2) ne by (cases g; cases h; simp)+
  have not_ref: "exprToFieldName (k @ ''('' @ r @ '')'') = None" if "k \<noteq> []" "ident_start (hd k)" for k r
    by (rule not_reference) (use that in \<open>auto simp: ident_start_def is_ws_def ident_char_def is_digit_def\<close>)
  have bref: "exprToFieldName ?b = None" by (rule not_ref [OF ne(2) start(2)])
  have tb: "trim ?b = ?b" using b by (rule neutral_trim)
  have hb: "hd ?b = hd h" "last ?b = CHR '')''" using ne by simp_all
  have nb: "\<not> starts_ends dquote dquote ?b" "\<not> starts_ends (CHR ''['') (CHR '']'') ?b"
    using hb by (auto simp: starts_ends_def)
  have nn: "\<not> integer_text ?b" using start(2) ne by (cases h) (auto simp: integer_text_def ident_start_def is_digit_def Let_def)
  have ra: "read_argument ?b = FieldArg ?b ''string''"
    using tb nb nn bref by (simp add: read_argument_def Let_def del: append_assoc)
  have pj: "parseFunctionArgs ?b = [?b]" using parse_join [of "[?b]"] b by simp
  have m: "mapTransformToField item index = (loaded_field index Computed (output_name item)
      (if output_type item = [] then ''string'' else output_type item))
        \<lparr>functionName := Some g, functionArgs := Some [FieldArg ?b ''string'']\<rparr>"
    using fm not_ref [OF ne(1) start(1), of ?b] unfolding mapTransformToField_def Let_def e
    by (simp add: pj [simplified] ra [simplified])
  have f: "tf_type ?f = Computed" "expressionMode ?f \<noteq> Some RawMode" "functionName ?f = Some g" "tf_arithmetic ?f = None"
    "functionArgs ?f = Some [FieldArg ?b ''string'']"
    by (simp_all add: reloaded_def m hydrated_field_def Let_def loaded_field_def text_of_def or_text_def)
  have quoteless: "dquote \<notin> set ?b" "backslash \<notin> set ?b" "\<not> valid_identifier ?b"
    using chars id identifier_chars [of ?b] by (auto simp: list_all_iff ident_char_def ident_start_def is_digit_def)
  have "fieldNameToExpr ?b = ''$env['' @ [dquote] @ ?b @ [dquote] @ '']''"
    using quoteless ne by (simp add: fieldNameToExpr_def Let_def escape_quotes_def replace_all_absent del: append_assoc)
  moreover have "computedFieldToExpr ?f = call g [fieldNameToExpr ?b]"
    using computed_call [OF f(1-3) ne(1) assms(4) f(5)] by (simp add: with_arithmetic_def f(4))
  ultimately show ?thesis using e f by (simp add: fieldToExpr_def call_def)
qed

definition lower_field :: TransformationField where
  "lower_field = \<lparr>tf_id = ''1'', tf_type = Computed, outputFieldName = ''out'', outputFieldType = ''string'',
     functionName = Some ''lower'', functionArgs = Some [FieldArg ''a.b'' ''string''], sourceField = None,
     sourceFieldType = None, expressionMode = None, rawExpression = None, tf_arithmetic = None\<rparr>"

lemma simple_transform_roundtrip_witness:
  "fieldToExpr (reloaded ''u'' 0 (item_of lower_field)) = fieldToExpr lower_field"
  using simple_transform_roundtrip [of lower_field "reloaded ''u'' 0 (item_of lower_field)" "''u''" 0]
  by (simp add: plain_field_def lower_field_def raw_marker_def text_of_def line_end_def ident_start_def ident_char_def)

lemma nested_call_corrupted_witness:
  "fieldToExpr (reloaded ''u'' 0 \<lparr>expression = ''lower(trim(a))'', output_name = ''out'', output_type = ''string''\<rparr>) =
     ''lower($env['' @ [dquote] @ ''trim(a)'' @ [dquote] @ ''])''"
  using nested_call_corrupted [of "''lower''" "''trim''" "''a''"
      "\<lparr>expression = ''lower(trim(a))'', output_name = ''out'', output_type = ''string''\<rparr>" "''string''" "''u''" 0]
  by (simp add: raw_marker_def call_def fieldNameToExpr_def ident_start_def ident_char_def)

end
