(* ===== verification/Durations.thy ===== *)
theory Durations
  imports Slices Js_Numbers
begin

text \<open>
  Durations as the backend writes them (2d12h, 1h30m, 45s) and as the forms hold them, a number and a
  unit. The windows of a join and of a deduplication are read by the same code
  (ui/src/store/hydration/join-configuration.ts, topics.ts, schema-binding.ts) and written by
  ui/src/modules/clickhouse/utils.ts; the delay of the destination is read by
  ui/src/store/hydration/clickhouse-destination.ts with a pattern of its own. The numbers that are
  read are whole, and are kept as such here.
\<close>

fun unit_seconds :: "TimeUnit \<Rightarrow> nat" where
  "unit_seconds Seconds = 1"
| "unit_seconds Minutes = 60"
| "unit_seconds Hours = 3600"
| "unit_seconds Days = 86400"

fun unit_letter :: "TimeUnit \<Rightarrow> char" where
  "unit_letter Seconds = CHR ''s''"
| "unit_letter Minutes = CHR ''m''"
| "unit_letter Hours = CHR ''h''"
| "unit_letter Days = CHR ''d''"

section \<open>Reading\<close>

text \<open>The group \<open>(\d+c)?\<close> of a pattern: the number it matched, 0 without a match, and the rest.\<close>

definition read_group :: "char \<Rightarrow> string \<Rightarrow> nat \<times> string" where
  "read_group c s =
     (let ds = takeWhile is_digit s; r = dropWhile is_digit s
      in if ds \<noteq> [] \<and> r \<noteq> [] \<and> hd r = c then (digits_value ds, tl r) else (0, s))"

definition read_groups :: "string \<Rightarrow> nat \<times> string" where
  "read_groups s =
     (let (days, r1) = read_group (CHR ''d'') s; (hours, r2) = read_group (CHR ''h'') r1;
          (minutes, r3) = read_group (CHR ''m'') r2; (seconds, r4) = read_group (CHR ''s'') r3
      in (days * 86400 + hours * 3600 + minutes * 60 + seconds, r4))"

text \<open>\<open>Math.round(a / b)\<close>\<close>

definition rounded :: "nat \<Rightarrow> nat \<Rightarrow> nat" where
  "rounded a b = (2 * a + b) div (2 * b)"

definition in_unit :: "nat \<Rightarrow> nat \<times> TimeUnit" where
  "in_unit secs =
     (if 86400 \<le> secs then (rounded secs 86400, Days)
      else if 3600 \<le> secs then (rounded secs 3600, Hours)
      else if 60 \<le> secs then (rounded secs 60, Minutes)
      else (secs, Seconds))"

fun letter_unit :: "char \<Rightarrow> TimeUnit" where
  "letter_unit c =
     (if c = CHR ''s'' then Seconds else if c = CHR ''m'' then Minutes else if c = CHR ''h'' then Hours
      else if c = CHR ''d'' then Days else Hours)"

text \<open>The fallback pattern \<open>/^(\d+)([smhd])$/\<close>.\<close>

definition simple_match :: "string \<Rightarrow> (nat \<times> TimeUnit) option" where
  "simple_match s =
     (if s \<noteq> [] \<and> butlast s \<noteq> [] \<and> list_all is_digit (butlast s) \<and> last s \<in> set ''smhd''
      then Some (if digits_value (butlast s) = 0 then 1 else digits_value (butlast s), letter_unit (last s)) else None)"

definition parseTimeWindow :: "string \<Rightarrow> nat \<times> TimeUnit" where
  "parseTimeWindow timeWindow =
     (let duration = (if timeWindow = [] then ''1h'' else timeWindow); (secs, rest) = read_groups duration
      in if rest = [] then in_unit secs
         else case simple_match duration of Some r \<Rightarrow> r | None \<Rightarrow> (1, Hours))"

text \<open>
  The delay of the destination: the pattern is not anchored, so what follows the part it matched is
  ignored.
\<close>

definition delay_in_unit :: "nat \<Rightarrow> nat \<times> TimeUnit" where
  "delay_in_unit secs =
     (if 86400 \<le> secs \<and> secs mod 86400 = 0 then (rounded secs 86400, Days)
      else if 3600 \<le> secs then (rounded secs 3600, Hours)
      else if 60 \<le> secs then (rounded secs 60, Minutes)
      else (secs, Seconds))"

definition parseMaxDelay :: "string \<Rightarrow> nat \<times> TimeUnit" where
  "parseMaxDelay s = (if s = [] then (1, Minutes) else delay_in_unit (fst (read_groups s)))"

section \<open>Writing\<close>

definition window_text :: "js_number \<Rightarrow> TimeUnit \<Rightarrow> string" where
  "window_text v u = number_to_string v @ [unit_letter u]"

abbreviation whole :: "nat \<Rightarrow> js_number" where
  "whole n \<equiv> Fin (int n) 0"

definition seconds_of :: "nat \<times> TimeUnit \<Rightarrow> nat" where
  "seconds_of w = fst w * unit_seconds (snd w)"

section \<open>Whole numbers as texts\<close>

lemma nat_digits_length: "0 < n \<Longrightarrow> 10 ^ (length (nat_digits n) - 1) \<le> n"
proof (induction n rule: nat_digits.induct)
  case (1 n)
  show ?case
  proof (cases "n < 10")
    case True
    with 1 show ?thesis by (subst nat_digits.simps) simp
  next
    case False
    then have IH: "10 ^ (length (nat_digits (n div 10)) - 1) \<le> n div 10" using 1 by simp
    obtain k where k: "length (nat_digits (n div 10)) = Suc k"
      using nat_digits_spec(1) [of "n div 10"] by (cases "length (nat_digits (n div 10))") auto
    from IH k have "10 ^ Suc k \<le> n div 10 * 10" by simp
    also have "\<dots> \<le> n" by (rule div_times_less_eq_dividend)
    finally have "10 ^ Suc k \<le> n" .
    with False k show ?thesis by (subst nat_digits.simps) simp
  qed
qed

lemma whole_number_text:
  assumes "n < 10 ^ 21"
  shows "list_all is_digit (number_to_string (whole n)) \<and> number_to_string (whole n) \<noteq> [] \<and>
    digits_value (number_to_string (whole n)) = n"
proof (cases "n = 0")
  case True
  then show ?thesis by (simp add: digits_value_def digit_val_def is_digit_def)
next
  case False
  obtain s e where se: "strip_zeros n 0 = (s, e)" by fastforce
  have sp: "0 \<le> e" "n = s * 10 ^ nat e" "s \<noteq> 0"
    using strip_zeros_spec [OF False se] by simp_all
  let ?ds = "nat_digits s"
  have "10 ^ (length ?ds - 1) \<le> s" using nat_digits_length sp by simp
  then have "10 ^ (length ?ds - 1 + nat e) \<le> n" using sp(2) by (simp add: power_add)
  then have "(10 :: nat) ^ (length ?ds - 1 + nat e) < 10 ^ 21" using assms by linarith
  then have "length ?ds - 1 + nat e < 21" by (rule power_less_imp_less_exp [rotated]) simp
  then have "int (length ?ds) + e \<le> 21" using sp(1) by linarith
  then have "number_to_string (whole n) = ?ds @ replicate (nat e) (CHR ''0'')"
    using False se sp(1) by (simp add: show_positive_def Let_def)
  moreover have "list_all is_digit (replicate (nat e) (CHR ''0''))" by (simp add: list_all_iff is_digit_def)
  ultimately show ?thesis using sp by (simp add: digits_value_append del: number_to_string.simps)
qed

section \<open>Loading what was saved\<close>

lemma read_group_hit: "list_all is_digit ds \<Longrightarrow> ds \<noteq> [] \<Longrightarrow> \<not> is_digit c \<Longrightarrow> read_group c (ds @ [c]) = (digits_value ds, [])"
  by (simp add: read_group_def Let_def takeWhile_append dropWhile_append list_all_iff)

lemma read_group_miss: "list_all is_digit ds \<Longrightarrow> \<not> is_digit c \<Longrightarrow> c \<noteq> c' \<Longrightarrow> read_group c' (ds @ [c]) = (0, ds @ [c])"
  by (simp add: read_group_def Let_def takeWhile_append dropWhile_append list_all_iff)

lemma read_group_Nil: "read_group c [] = (0, [])"
  by (simp add: read_group_def)

lemma read_window:
  assumes "n < 10 ^ 21"
  shows "read_groups (window_text (whole n) u) = (n * unit_seconds u, [])"
proof -
  let ?ds = "number_to_string (whole n)"
  have ds: "list_all is_digit ?ds" "?ds \<noteq> []" "digits_value ?ds = n" using whole_number_text [OF assms] by simp_all
  have "\<not> is_digit (unit_letter u)" by (cases u) (simp_all add: is_digit_def)
  then show ?thesis using ds
    by (cases u) (simp_all add: read_groups_def window_text_def read_group_hit read_group_miss read_group_Nil del: number_to_string.simps)
qed

lemma parse_window:
  "n < 10 ^ 21 \<Longrightarrow> parseTimeWindow (window_text (whole n) u) = in_unit (n * unit_seconds u)"
  using read_window [of n u] by (simp add: parseTimeWindow_def) (simp add: window_text_def)

lemma rounded_bounds:
  assumes "0 < b" shows "2 * (rounded a b * b) \<le> 2 * a + b \<and> 2 * a < 2 * (rounded a b * b) + b"
proof -
  have "2 * a + b = (2 * a + b) div (2 * b) * (2 * b) + (2 * a + b) mod (2 * b)" by (rule div_mult_mod_eq [symmetric])
  moreover have "(2 * a + b) mod (2 * b) < 2 * b" using assms by simp
  ultimately show ?thesis unfolding rounded_def by (simp add: algebra_simps)
qed

lemma rounded_exact: "b dvd a \<Longrightarrow> 0 < b \<Longrightarrow> rounded a b * b = a"
proof -
  assume b: "b dvd a" "0 < b"
  then obtain k where a: "a = b * k" by blast
  have "(2 * (b * k) + b) div (2 * b) = ((2 * b) * k + b) div (2 * b)" by (simp add: mult.assoc)
  also have "\<dots> = k" using b(2) by (subst div_mult_self4) simp_all
  finally show ?thesis using a by (simp add: rounded_def mult.commute)
qed

lemma rounded_same: "0 < b \<Longrightarrow> rounded a b * b = a \<longleftrightarrow> b dvd a"
  using rounded_exact by (metis dvd_triv_right)

lemma rounded_le: "2 \<le> b \<Longrightarrow> b \<le> a \<Longrightarrow> rounded a b \<le> a"
proof -
  assume b: "2 \<le> b" "b \<le> a"
  have "2 * (rounded a b * b) \<le> 2 * a + b" using rounded_bounds [of b a] b(1) by simp
  then have "2 * (rounded a b * b) \<le> 3 * a" using b(2) by linarith
  moreover have "rounded a b * 2 \<le> rounded a b * b" using b(1) by (rule mult_le_mono2)
  ultimately show ?thesis by linarith
qed

text \<open>Rounding to a unit does not pass the next larger one.\<close>

lemma rounded_below: "a < b * c \<Longrightarrow> 0 < b \<Longrightarrow> rounded a b \<le> c"
proof -
  assume a: "a < b * c" "0 < b"
  have "2 * a + b < 2 * b * (c + 1)" using a by (simp add: algebra_simps)
  then have "(2 * a + b) div (2 * b) < c + 1" using a(2) by (subst div_less_iff_less_mult) (simp_all add: mult.commute)
  then show ?thesis by (simp add: rounded_def)
qed

lemma rounded_above: "b \<le> a \<Longrightarrow> 0 < b \<Longrightarrow> 1 \<le> rounded a b"
  unfolding rounded_def by (simp add: div_greater_zero_iff Suc_le_eq)

lemma in_unit_stable: "seconds_of (in_unit (seconds_of (in_unit t))) = seconds_of (in_unit t)"
proof -
  have d: "1 \<le> rounded t 86400" if "86400 \<le> t" using rounded_above [of 86400 t] that by simp
  have h: "1 \<le> rounded t 3600 \<and> rounded t 3600 \<le> 24" if "3600 \<le> t" "t < 86400"
    using rounded_above [of 3600 t] rounded_below [of t 3600 24] that by simp
  have m: "1 \<le> rounded t 60 \<and> rounded t 60 \<le> 60" if "60 \<le> t" "t < 3600"
    using rounded_above [of 60 t] rounded_below [of t 60 60] that by simp
  have e: "rounded (k * b) b * b = k * b" if "0 < b" for k b using that by (intro rounded_exact) simp_all
  consider "86400 \<le> t" | "3600 \<le> t" "t < 86400" | "60 \<le> t" "t < 3600" | "t < 60" by linarith
  then show ?thesis
  proof cases
    case 1
    with d e [of 86400] show ?thesis by (simp add: in_unit_def seconds_of_def)
  next
    case 2
    with h e [of 3600] rounded_exact [of 86400 86400] show ?thesis
      by (cases "rounded t 3600 = 24") (auto simp: in_unit_def seconds_of_def)
  next
    case 3
    with m e [of 60] rounded_exact [of 3600 3600] show ?thesis
      by (cases "rounded t 60 = 60") (auto simp: in_unit_def seconds_of_def)
  qed (simp add: in_unit_def seconds_of_def)
qed

lemma in_unit_bounds:
  "2 * seconds_of (in_unit t) \<le> 2 * t + unit_seconds (snd (in_unit t)) \<and>
   2 * t \<le> 2 * seconds_of (in_unit t) + unit_seconds (snd (in_unit t))"
  using rounded_bounds [of 86400 t] rounded_bounds [of 3600 t] rounded_bounds [of 60 t]
  by (auto simp: in_unit_def seconds_of_def)

lemma in_unit_exact: "seconds_of (in_unit t) = t \<longleftrightarrow> unit_seconds (snd (in_unit t)) dvd t"
  using rounded_same [of 86400 t] rounded_same [of 3600 t] rounded_same [of 60 t]
  by (auto simp: in_unit_def seconds_of_def)

lemma in_unit_le: "fst (in_unit t) \<le> t"
  using rounded_le [of 86400 t] rounded_le [of 3600 t] rounded_le [of 60 t] by (auto simp: in_unit_def)



lemma delay_exact: "unit_seconds u dvd t \<Longrightarrow> t < 60 \<or> unit_seconds (snd (delay_in_unit t)) dvd t \<Longrightarrow> seconds_of (delay_in_unit t) = t"
  using rounded_same [of 86400 t] rounded_same [of 3600 t] rounded_same [of 60 t]
  by (auto simp: delay_in_unit_def seconds_of_def)

lemma read_millis:
  assumes "list_all is_digit ds" and "ds \<noteq> []"
  shows "read_groups (ds @ ''ms'') = (digits_value ds * 60, ''s'')"
  using assms by (simp add: read_groups_def read_group_def Let_def takeWhile_append dropWhile_append list_all_iff is_digit_def)

text \<open>
  A delay in milliseconds, which the backend accepts and writes, is loaded as one of so many
  minutes, because the pattern stops after the m; a window in milliseconds is loaded as one hour.
\<close>

theorem milliseconds_misread:
  assumes "0 < n"
  shows "parseMaxDelay (nat_digits n @ ''ms'') = delay_in_unit (n * 60) \<and>
    60 \<le> seconds_of (parseMaxDelay (nat_digits n @ ''ms'')) \<and>
    parseTimeWindow (nat_digits n @ ''ms'') = (1, Hours)"
proof -
  have r: "read_groups (nat_digits n @ ''ms'') = (n * 60, ''s'')" using read_millis [of "nat_digits n"] by simp
  have "60 \<le> n * 60" using assms by simp
  then have "60 \<le> seconds_of (delay_in_unit (n * 60))"
    using rounded_above [of 86400 "n * 60"] rounded_above [of 3600 "n * 60"] rounded_above [of 60 "n * 60"]
    by (auto simp: delay_in_unit_def seconds_of_def)
  with r show ?thesis
    by (simp add: parseMaxDelay_def parseTimeWindow_def simple_match_def butlast_append is_digit_def)
qed

lemma milliseconds_misread_witness: "parseMaxDelay (nat_digits 10 @ ''ms'') = (10, Minutes)"
  using milliseconds_misread [of 10] by (simp add: delay_in_unit_def rounded_def)

end
