(* ===== verification/Event_Fields.thy ===== *)
theory Event_Fields
  imports Js_Numbers "HOL-Library.Multiset" "HOL-Library.Char_ord" "HOL-Library.List_Lexorder"
begin

text \<open>
  The fields of sample events: their paths and the comparison of two events by them
  (ui/src/utils/common.client.ts), the value at a path and its type
  (ui/src/modules/clickhouse/utils.ts). An event is a \<^typ>\<open>json\<close> value; properties that objects and
  arrays inherit are not modelled.
\<close>

section \<open>Paths\<close>

definition path_of :: "string \<Rightarrow> string \<Rightarrow> string" where
  "path_of prefix key = (if prefix = [] then key else prefix @ ''.'' @ key)"

fun extractEventFields :: "json \<Rightarrow> string \<Rightarrow> string list"
  and property_fields :: "string \<Rightarrow> (string \<times> json) list \<Rightarrow> string list"
  and item_fields :: "string \<Rightarrow> nat \<Rightarrow> json list \<Rightarrow> string list" where
  "extractEventFields (JObj kvs) prefix =
     (if ''_encoding'' \<in> fst ` set kvs then [] else property_fields prefix kvs)"
| "extractEventFields (JArr xs) prefix = item_fields prefix 0 xs"
| "extractEventFields _ prefix = []"
| "property_fields prefix [] = []"
| "property_fields prefix ((key, v) # kvs) =
     (if starts_with ''_metadata'' key then []
      else case v of JObj _ \<Rightarrow> extractEventFields v (path_of prefix key) | _ \<Rightarrow> [path_of prefix key])
     @ property_fields prefix kvs"
| "item_fields prefix i [] = []"
| "item_fields prefix i (v # xs) =
     (case v of JObj _ \<Rightarrow> extractEventFields v (path_of prefix (nat_digits i)) | _ \<Rightarrow> [path_of prefix (nat_digits i)])
     @ item_fields prefix (i + 1) xs"

section \<open>Values and types\<close>

definition array_index :: "string \<Rightarrow> json list \<Rightarrow> json" where
  "array_index p xs =
     (if p = ''length'' then JNum (Fin (int (length xs)) 0)
      else if p \<noteq> [] \<and> list_all is_digit p \<and> nat_digits (digits_value p) = p \<and> digits_value p < length xs
      then xs ! digits_value p else JUndef)"

fun walk :: "string list \<Rightarrow> json \<Rightarrow> json" where
  "walk [] current = current"
| "walk (part # parts) current =
     (case current of
        JObj _ \<Rightarrow> walk parts (jget part current)
      | JArr xs \<Rightarrow> walk parts (array_index part xs)
      | _ \<Rightarrow> JUndef)"

definition getNestedValue :: "json \<Rightarrow> string \<Rightarrow> json" where
  "getNestedValue obj path =
     (if \<not> jtruthy obj \<or> path = [] then JUndef else walk (split_on (CHR ''.'') path) obj)"

definition MAX_SAFE_INTEGER :: int where "MAX_SAFE_INTEGER = 2 ^ 53 - 1"

fun inferJsonType :: "json \<Rightarrow> string" where
  "inferJsonType JNull = ''null''"
| "inferJsonType JUndef = ''undefined''"
| "inferJsonType (JNum n) =
     (case n of
        Fin m k \<Rightarrow>
          if isInteger n then if MAX_SAFE_INTEGER < m \<or> m < - MAX_SAFE_INTEGER then ''string'' else ''int''
          else ''float''
      | _ \<Rightarrow> ''float'')"
| "inferJsonType (JBool _) = ''bool''"
| "inferJsonType (JStr _) = ''string''"
| "inferJsonType (JArr _) = ''array''"
| "inferJsonType (JObj _) = ''bytes''"

definition getFieldType :: "json \<Rightarrow> string \<Rightarrow> string" where
  "getFieldType data fieldPath =
     (let value = getNestedValue data fieldPath in if nullish value then ''string'' else inferJsonType value)"

section \<open>Comparison\<close>

text \<open>\<open>{ ...x }\<close>\<close>

fun own_properties :: "json \<Rightarrow> (string \<times> json) list" where
  "own_properties (JObj kvs) = kvs"
| "own_properties (JArr xs) = zip (map nat_digits [0..<length xs]) xs"
| "own_properties (JStr s) = zip (map nat_digits [0..<length s]) (map (\<lambda>c. JStr [c]) s)"
| "own_properties _ = []"

definition without_metadata :: "json \<Rightarrow> json" where
  "without_metadata e = JObj (filter (\<lambda>(k, _). k \<noteq> ''_metadata'') (own_properties e))"

definition event_fields :: "json \<Rightarrow> string list" where
  "event_fields e = extractEventFields (without_metadata e) []"

definition compareEventSchemas :: "json \<Rightarrow> json \<Rightarrow> bool" where
  "compareEventSchemas oldEvent newEvent =
     (if \<not> jtruthy oldEvent \<and> \<not> jtruthy newEvent then True
      else if \<not> jtruthy oldEvent \<or> \<not> jtruthy newEvent then False
      else let oldFields = sort (event_fields oldEvent); newFields = sort (event_fields newEvent)
        in length oldFields = length newFields \<and> list_all (\<lambda>i. oldFields ! i = newFields ! i) [0..<length oldFields])"

section \<open>Properties\<close>

text \<open>
  Two events have the same schema when they have the same paths, each the same number of times, in any order.\<close>

theorem compareEventSchemas_spec:
  "compareEventSchemas a b =
     (if jtruthy a then jtruthy b \<and> mset (event_fields a) = mset (event_fields b) else \<not> jtruthy b)"
proof -
  have m: "sort (event_fields a) = sort (event_fields b) \<longleftrightarrow> mset (event_fields a) = mset (event_fields b)"
    by (metis mset_sort properties_for_sort sorted_sort)
  have "length xs = length ys \<and> list_all (\<lambda>i. xs ! i = ys ! i) [0..<length xs] \<longleftrightarrow> xs = ys" for xs ys :: "string list"
    by (auto simp: list_all_iff intro: nth_equalityI)
  note e = this [of "sort (event_fields a)" "sort (event_fields b)"]
  show ?thesis unfolding compareEventSchemas_def Let_def e m by auto
qed

text \<open>Events whose keys can be parts of a path.\<close>

fun plain_event :: "json \<Rightarrow> bool" where
  "plain_event (JObj kvs) \<longleftrightarrow>
     distinct (map fst kvs) \<and> (\<forall>(k, v) \<in> set kvs. k \<noteq> [] \<and> CHR ''.'' \<notin> set k \<and> plain_event v)"
| "plain_event JUndef \<longleftrightarrow> False"
| "plain_event _ \<longleftrightarrow> True"


lemma split_on_dotfree: "c \<notin> set x \<Longrightarrow> split_on c x = [x]"
  by (induction x) auto

lemma split_on_cons: "c \<notin> set x \<Longrightarrow> split_on c (x @ c # y) = x # split_on c y"
  by (induction x) auto

lemma split_path:
  "ks \<noteq> [] \<Longrightarrow> \<forall>k \<in> set ks. CHR ''.'' \<notin> set k \<Longrightarrow> split_on (CHR ''.'') (join ''.'' ks) = ks"
proof (induction ks)
  case (Cons k ks)
  then show ?case by (cases ks) (simp_all add: split_on_dotfree split_on_cons)
qed simp

text \<open>Where an extracted path leads.\<close>

definition path_text :: "string \<Rightarrow> string list \<Rightarrow> string" where
  "path_text prefix ks = (if prefix = [] then join ''.'' ks else prefix @ ''.'' @ join ''.'' ks)"

definition leaf :: "json \<Rightarrow> bool" where
  "leaf v \<longleftrightarrow> v \<noteq> JUndef \<and> (\<forall>kvs. v \<noteq> JObj kvs)"

definition key_part :: "string \<Rightarrow> bool" where
  "key_part k \<longleftrightarrow> k \<noteq> [] \<and> CHR ''.'' \<notin> set k"

lemma path_step: "k \<noteq> [] \<Longrightarrow> ks \<noteq> [] \<Longrightarrow> path_text (path_of prefix k) ks = path_text prefix (k # ks)"
  by (cases ks) (simp_all add: path_text_def path_of_def)

lemma path_end: "path_text prefix [k] = path_of prefix k"
  by (simp add: path_text_def path_of_def)

lemma plain_event_parts:
  "plain_event (JObj kvs) \<Longrightarrow> distinct (map fst kvs) \<and> (\<forall>(k, v) \<in> set kvs. key_part k \<and> plain_event v)"
  by (auto simp: key_part_def)

lemma extracted_path:
  "plain_event e \<Longrightarrow> e = JObj kvs \<Longrightarrow> p \<in> set (extractEventFields e prefix) \<Longrightarrow>
     \<exists>ks. ks \<noteq> [] \<and> p = path_text prefix ks \<and> list_all key_part ks \<and> leaf (walk ks e)"
  "\<forall>(k, v) \<in> set kvs'. key_part k \<and> plain_event v \<Longrightarrow> p \<in> set (property_fields prefix' kvs') \<Longrightarrow>
     \<exists>k v ks. (k, v) \<in> set kvs' \<and> p = path_text prefix' (k # ks) \<and> list_all key_part (k # ks) \<and> leaf (walk ks v)"
  "item_fields prefix'' i xs = item_fields prefix'' i xs"
proof (induction e prefix and prefix' kvs' and prefix'' i xs arbitrary: kvs p and p
    rule: extractEventFields_property_fields_item_fields.induct)
  case (1 kvs' prefix)
  note d = plain_event_parts [OF "1.prems"(1)]
  from "1.prems" have e: "''_encoding'' \<notin> fst ` set kvs'" "p \<in> set (property_fields prefix kvs')"
    by (simp_all split: if_splits)
  from "1.IH" [OF e(1) conjunct2 [OF d] e(2)] obtain k v ks where
    k: "(k, v) \<in> set kvs'" "p = path_text prefix (k # ks)" "list_all key_part (k # ks)" "leaf (walk ks v)" by blast
  moreover from k(1) d have "jget k (JObj kvs') = v" by simp
  ultimately show ?case by (intro exI [of _ "k # ks"]) simp
next
  case (5 prefix key v kvs)
  from "5.prems"(1) have kv: "key_part key" "plain_event v" by simp_all
  consider "p \<in> set (property_fields prefix kvs)"
    | "\<not> starts_with ''_metadata'' key" "p \<in> set (case v of JObj _ \<Rightarrow> extractEventFields v (path_of prefix key) | _ \<Rightarrow> [path_of prefix key])"
    using "5.prems"(2) by (auto split: if_splits)
  then show ?case
  proof cases
    case 1
    with "5.IH"(2) "5.prems"(1) show ?thesis by fastforce
  next
    case 2
    show ?thesis
    proof (cases "\<exists>ws. v = JObj ws")
      case True
      then obtain ws where v: "v = JObj ws" by blast
      with 2 have "p \<in> set (extractEventFields v (path_of prefix key))" by simp
      from "5.IH"(1) [OF 2(1) v kv(2) v this] obtain ks where
        "ks \<noteq> []" "p = path_text (path_of prefix key) ks" "list_all key_part ks" "leaf (walk ks v)" by blast
      moreover from kv(1) have "key \<noteq> []" by (simp add: key_part_def)
      ultimately show ?thesis using kv(1)
        by (intro exI [of _ key] exI [of _ v] exI [of _ ks]) (simp add: path_step)
    next
      case False
      with 2 have "p = path_of prefix key" by (cases v) simp_all
      with kv False show ?thesis
        by (intro exI [of _ key] exI [of _ v] exI [of _ "[]"]) (cases v; simp add: path_end leaf_def)
    qed
  qed
qed simp_all

lemma leaf_type: "leaf v \<Longrightarrow> (if nullish v then ''string'' else inferJsonType v) \<in> {''string'', ''int'', ''float'', ''bool'', ''array''}"
  by (cases v) (auto simp: leaf_def nullish_def split: js_number.splits)



text \<open>
  A key with a dot is extracted as a path that leads nowhere, so that its field gets the type string, whatever it holds.
\<close>

theorem dotted_key_untyped:
  assumes "CHR ''.'' \<in> set k" and "\<not> starts_with ''_metadata'' k" and "leaf v"
  shows "extractEventFields (JObj [(k, v)]) [] = [k] \<and> getNestedValue (JObj [(k, v)]) k = JUndef \<and>
    getFieldType (JObj [(k, v)]) k = ''string''"
proof -
  obtain x y where k: "k = x @ CHR ''.'' # y" "CHR ''.'' \<notin> set x"
    using split_list_first [OF assms(1)] by blast
  have "x \<noteq> k" using k by simp
  then have "walk (split_on (CHR ''.'') k) (JObj [(k, v)]) = walk (split_on (CHR ''.'') y) JUndef"
    using k by (simp add: split_on_cons)
  moreover have "walk ks JUndef = JUndef" for ks by (cases ks) simp_all
  ultimately have "getNestedValue (JObj [(k, v)]) k = JUndef" by (simp add: getNestedValue_def)
  moreover have "k \<noteq> ''_encoding''" using assms(1) by auto
  then have "extractEventFields (JObj [(k, v)]) [] = [k]"
    using assms(2,3) by (cases v) (auto simp: path_of_def leaf_def)
  ultimately show ?thesis by (simp add: getFieldType_def nullish_def)
qed

lemma dotted_key_untyped_witness: "getFieldType (JObj [(''a.b'', JNum (Fin 7 0))]) ''a.b'' = ''string''"
  using dotted_key_untyped [of "''a.b''" "JNum (Fin 7 0)"] by (simp add: leaf_def)

end
