(* ===== verification/Column_Types.thy ===== *)
theory Column_Types
  imports Js_Prelude
begin

text \<open>
  The columns of the destination table and the types they take (ui/src/modules/clickhouse/utils.ts
  and types.ts): which columns can be mapped, which field types fit which column types, the rows of a new
  mapping, the field that matches a column, the checks of a mapping, the columns to add.
\<close>

section \<open>Columns\<close>

record TableColumn =
  col_name :: string
  col_type :: "string option"
  column_type :: "string option"
  jsonType :: "string option"
  isNullable :: "bool option"
  isKey :: "bool option"
  eventField :: "string option"
  sourceTopic :: "string option"
  default_type :: "string option"
  default_expression :: "string option"
  default_kind :: "string option"

text \<open>\<open>s || ''\<close>, and truthiness of an optional text.\<close>

definition opt_text :: "string option \<Rightarrow> string" where
  "opt_text v = (case v of None \<Rightarrow> [] | Some s \<Rightarrow> s)"

definition column_default :: "TableColumn \<Rightarrow> string" where
  "column_default c = (if opt_text (default_type c) \<noteq> [] then opt_text (default_type c) else opt_text (default_kind c))"

definition shouldExcludeColumn :: "TableColumn \<Rightarrow> bool" where
  "shouldExcludeColumn c \<longleftrightarrow> column_default c = ''ALIAS'' \<or> column_default c = ''MATERIALIZED''"

definition hasDefaultExpression :: "TableColumn \<Rightarrow> bool" where
  "hasDefaultExpression c \<longleftrightarrow> opt_text (default_expression c) \<noteq> [] \<or> column_default c = ''DEFAULT''"

definition filterUserMappableColumns :: "TableColumn list \<Rightarrow> TableColumn list" where
  "filterUserMappableColumns = filter (\<lambda>c. \<not> shouldExcludeColumn c)"

section \<open>Type compatibility\<close>

definition TYPE_COMPATIBILITY_MAP :: "(string \<times> string list) list" where
  "TYPE_COMPATIBILITY_MAP =
     [(''string'', [''String'', ''FixedString'', ''DateTime'', ''DateTime64'', ''UUID'', ''Enum8'', ''Enum16'',
         ''Decimal'', ''Bool'', ''UInt8'', ''UInt16'', ''UInt32'', ''UInt64'', ''UInt128'', ''Date'', ''Date32'']),
      (''bool'', [''Bool'']),
      (''int'', [''Int8'', ''Int16'', ''Int32'', ''Int64'', ''UInt8'', ''UInt16'', ''UInt32'', ''UInt64'',
         ''DateTime'', ''DateTime64'']),
      (''float'', [''Float32'', ''Float64'', ''Decimal'', ''DateTime'', ''DateTime64'']),
      (''bytes'', [''String'']),
      (''array'', [''Array'', ''String'']),
      (''map'', [''Map(String, String)'', ''String'']),
      (''int8'', [''Int8'', ''Int16'', ''Int32'', ''Int64'']),
      (''int16'', [''Int16'', ''Int32'', ''Int64'']),
      (''int32'', [''Int32'', ''Int64'']),
      (''int64'', [''Int64'', ''DateTime'', ''DateTime64'']),
      (''uint'', [''UInt8'', ''UInt16'', ''UInt32'', ''UInt64'']),
      (''uint8'', [''UInt8'', ''UInt16'', ''UInt32'', ''UInt64'']),
      (''uint16'', [''UInt16'', ''UInt32'', ''UInt64'']),
      (''uint32'', [''UInt32'', ''UInt64'']),
      (''uint64'', [''UInt64'']),
      (''float32'', [''Float32'', ''Float64'']),
      (''float64'', [''Float64'']),
      (''number'', [''Int8'', ''Int16'', ''Int32'', ''Int64'', ''UInt8'', ''UInt16'', ''UInt32'', ''UInt64'',
         ''Float32'', ''Float64'', ''Decimal'']),
      (''boolean'', [''Bool'']),
      (''object'', [''String'']),
      (''null'', [''Nullable'']),
      (''undefined'', [''Nullable''])]"

lemma js_substring_shorter: "2 \<le> a \<Longrightarrow> a \<le> length s \<Longrightarrow> length (js_substring a (length s - 1) s) < length s"
  by (auto simp: js_substring_def max_def min_def)

lemma starts_with_length: "starts_with p s \<Longrightarrow> length p \<le> length s"
  by (induction p s rule: starts_with.induct) auto

lemma inner_shorter:
  "starts_with p s \<Longrightarrow> 2 \<le> length p \<Longrightarrow> length (js_substring (length p) (length s - 1) s) < length s"
  using js_substring_shorter [of "length p" s] starts_with_length [of p s] by simp

function isTypeCompatible :: "string \<Rightarrow> string \<Rightarrow> bool" where
  "isTypeCompatible sourceType clickhouseType =
     (if sourceType = [] \<or> clickhouseType = [] then False
      else if starts_with ''Nullable('' clickhouseType
      then isTypeCompatible sourceType (js_substring 9 (length clickhouseType - 1) clickhouseType)
      else if starts_with ''Array('' clickhouseType
      then sourceType = ''array'' \<or>
        isTypeCompatible sourceType (js_substring 6 (length clickhouseType - 1) clickhouseType)
      else if starts_with ''Map('' clickhouseType then sourceType = ''map''
      else if starts_with ''LowCardinality('' clickhouseType
      then isTypeCompatible sourceType (js_substring 15 (length clickhouseType - 1) clickhouseType)
      else case map_of TYPE_COMPATIBILITY_MAP (toLowerCase sourceType) of
          None \<Rightarrow> False
        | Some types \<Rightarrow> list_ex (\<lambda>t. has_substring t clickhouseType) types)"
  by pat_completeness auto
termination
  by (relation "measure (\<lambda>(_, t). length t)")
    (use inner_shorter [of "''Nullable(''"] inner_shorter [of "''Array(''"] inner_shorter [of "''LowCardinality(''"] in \<open>simp_all add: eval_nat_numeral\<close>)

declare isTypeCompatible.simps [simp del]

definition getDefaultClickHouseType :: "string \<Rightarrow> string" where
  "getDefaultClickHouseType jt =
     (if jt = [] then ''String''
      else case map_of TYPE_COMPATIBILITY_MAP (toLowerCase jt) of Some (t # _) \<Rightarrow> t | _ \<Rightarrow> ''String'')"

section \<open>Mappings\<close>

text \<open>An argument type or column type that is missing makes a row incompatible.\<close>

definition row_compatible :: "TableColumn \<Rightarrow> bool" where
  "row_compatible m \<longleftrightarrow> isTypeCompatible (opt_text (jsonType m)) (opt_text (col_type m))"

text \<open>The three lists of \<open>validateColumnMappings\<close>; the reasons it adds to the rows are texts.\<close>

definition validateColumnMappings :: "TableColumn list \<Rightarrow> TableColumn list \<times> TableColumn list \<times> TableColumn list" where
  "validateColumnMappings mappings =
     fold (\<lambda>m (valid, invalid, missing).
        if opt_text (eventField m) = [] then (valid, invalid, missing)
        else if opt_text (jsonType m) = [] then (valid, invalid, missing @ [m])
        else if row_compatible m then (valid @ [m], invalid, missing)
        else (valid, invalid @ [m], missing)) mappings ([], [], [])"

definition getMappingType :: "string \<Rightarrow> TableColumn list \<Rightarrow> string option" where
  "getMappingType field mapping =
     (case find (\<lambda>m. eventField m = Some field) mapping of Some m \<Rightarrow> jsonType m | None \<Rightarrow> Some ''string'')"

record AlterTableAddOperation =
  op_name :: string
  op_type :: string
  op_nullable :: bool

text \<open>\<open>t.replace(/^Nullable\((.*)\)$/, '$1')\<close>\<close>

definition line_terminator :: "char \<Rightarrow> bool" where
  "line_terminator c \<longleftrightarrow> of_char c \<in> {10, 13 :: nat}"

definition strip_nullable :: "string \<Rightarrow> string" where
  "strip_nullable t =
     (if starts_with ''Nullable('' t \<and> 10 \<le> length t \<and> last t = CHR '')'' \<and>
         list_all (\<lambda>c. \<not> line_terminator c) (butlast (drop 9 t))
      then butlast (drop 9 t) else t)"

definition computeAlterTableOperations :: "TableColumn list \<Rightarrow> string list \<Rightarrow> AlterTableAddOperation list" where
  "computeAlterTableOperations mapping existingColumnNames =
     (let existingSet = map trim existingColumnNames
      in concat (map (\<lambda>c. let n = trim (col_name c)
           in if n = [] then [] else if n \<in> set existingSet then []
              else [\<lparr>op_name = n,
                op_type = strip_nullable (if opt_text (col_type c) = [] then ''String'' else opt_text (col_type c)),
                op_nullable = (isNullable c \<noteq> Some False)\<rparr>]) mapping))"

definition new_column :: "string \<Rightarrow> string \<Rightarrow> string \<Rightarrow> TableColumn" where
  "new_column field ct jt =
     \<lparr>col_name = field, col_type = Some ct, column_type = None, jsonType = Some jt, isNullable = Some True,
      isKey = Some False, eventField = Some field, sourceTopic = None, default_type = None,
      default_expression = None, default_kind = None\<rparr>"

definition buildInitialMappingFromEventFields :: "string list \<Rightarrow> (string \<Rightarrow> string option) \<Rightarrow> TableColumn list" where
  "buildInitialMappingFromEventFields eventFields getJsonType =
     map (\<lambda>field. let jt = (if opt_text (getJsonType field) = [] then ''string'' else opt_text (getJsonType field))
        in new_column field (getDefaultClickHouseType jt) jt) eventFields"

section \<open>Matching fields to columns\<close>

definition match_key :: "string \<Rightarrow> string" where
  "match_key s = filter (\<lambda>c. c \<noteq> CHR ''_'' \<and> c \<noteq> CHR ''.'') (toLowerCase s)"

definition last_part :: "string \<Rightarrow> string" where
  "last_part field = last (split_on (CHR ''.'') field)"

definition or_find :: "'a option \<Rightarrow> 'a option \<Rightarrow> 'a option" where
  "or_find a b = (case a of None \<Rightarrow> b | Some x \<Rightarrow> a)"

text \<open>A match on the empty field name is falsy.\<close>

definition truthy_match :: "string option \<Rightarrow> string option" where
  "truthy_match v = (if v = Some [] then None else v)"

definition findBestMatchingField :: "string \<Rightarrow> string list \<Rightarrow> string option" where
  "findBestMatchingField columnName fs =
     (let n = match_key columnName
      in or_find (truthy_match (find (\<lambda>f. match_key f = n) fs))
           (or_find (truthy_match (find (\<lambda>f. match_key (last_part f) = n) fs))
             (find (\<lambda>f. has_substring n (match_key (last_part f)) \<or> has_substring (match_key (last_part f)) n) fs)))"

section \<open>Properties\<close>

lemma starts_with_append [simp]: "starts_with p (p @ s)"
  by (induction p) simp_all

lemma js_substring_inner: "js_substring (length p) (length (p @ t @ [c]) - 1) (p @ t @ [c]) = t"
  by (simp add: js_substring_def max_def min_def)

lemma inner_of:
  "js_substring 9 (length (''Nullable('' @ t @ '')'') - 1) (''Nullable('' @ t @ '')'') = t"
  "js_substring 6 (length (''Array('' @ t @ '')'') - 1) (''Array('' @ t @ '')'') = t"
  "js_substring 15 (length (''LowCardinality('' @ t @ '')'') - 1) (''LowCardinality('' @ t @ '')'') = t"
  using js_substring_inner [of "''Nullable(''" t "CHR '')''"] js_substring_inner [of "''Array(''" t "CHR '')''"]
    js_substring_inner [of "''LowCardinality(''" t "CHR '')''"] by (simp_all add: eval_nat_numeral)

text \<open>
  A column type in a wrapper takes the field types that the type inside takes, an array column
  also takes arrays, and a map column takes maps only.
\<close>

theorem compatible_wrappers:
  assumes "s \<noteq> []"
  shows "isTypeCompatible s (''Nullable('' @ t @ '')'') = isTypeCompatible s t \<and>
    isTypeCompatible s (''LowCardinality('' @ t @ '')'') = isTypeCompatible s t \<and>
    isTypeCompatible s (''Array('' @ t @ '')'') = (s = ''array'' \<or> isTypeCompatible s t) \<and>
    isTypeCompatible s (''Map('' @ t @ '')'') = (s = ''map'')"
proof (intro conjI)
  show "isTypeCompatible s (''Nullable('' @ t @ '')'') = isTypeCompatible s t"
    using assms inner_of(1) by (subst isTypeCompatible.simps) simp
  show "isTypeCompatible s (''LowCardinality('' @ t @ '')'') = isTypeCompatible s t"
    using assms inner_of(3) by (subst isTypeCompatible.simps) simp
  show "isTypeCompatible s (''Array('' @ t @ '')'') = (s = ''array'' \<or> isTypeCompatible s t)"
    using assms inner_of(2) by (subst isTypeCompatible.simps) simp
  show "isTypeCompatible s (''Map('' @ t @ '')'') = (s = ''map'')"
    using assms by (subst isTypeCompatible.simps) simp
qed

lemma validateColumnMappings_eq:
  "validateColumnMappings ms =
     (filter (\<lambda>m. opt_text (eventField m) \<noteq> [] \<and> opt_text (jsonType m) \<noteq> [] \<and> row_compatible m) ms,
      filter (\<lambda>m. opt_text (eventField m) \<noteq> [] \<and> opt_text (jsonType m) \<noteq> [] \<and> \<not> row_compatible m) ms,
      filter (\<lambda>m. opt_text (eventField m) \<noteq> [] \<and> opt_text (jsonType m) = []) ms)"
  unfolding validateColumnMappings_def by (induction ms rule: rev_induct) simp_all

definition default_fits :: "string \<times> string list \<Rightarrow> bool" where
  "default_fits e = (snd e \<noteq> [] \<and> toLowerCase (fst e) = fst e \<and> isTypeCompatible (fst e) (hd (snd e)))"

lemma defaults_fit: "list_all default_fits TYPE_COMPATIBILITY_MAP"
  by code_simp

lemma default_type_fits:
  assumes "jt \<in> fst ` set TYPE_COMPATIBILITY_MAP"
  shows "toLowerCase jt = jt \<and> isTypeCompatible jt (getDefaultClickHouseType jt)"
proof -
  from assms obtain ts where ts: "map_of TYPE_COMPATIBILITY_MAP jt = Some ts" by (auto simp: weak_map_of_SomeI dest: weak_map_of_SomeI)
  then have "(jt, ts) \<in> set TYPE_COMPATIBILITY_MAP" by (rule map_of_SomeD)
  with defaults_fit have f: "ts \<noteq> []" "toLowerCase jt = jt" "isTypeCompatible jt (hd ts)"
    by (auto simp: list_all_iff default_fits_def)
  then have "jt \<noteq> []" by (subst (asm) isTypeCompatible.simps) (auto split: if_splits)
  with f ts show ?thesis by (cases ts) (simp_all add: getDefaultClickHouseType_def)
qed

text \<open>
  The mapping made for a new table passes the checks as it is: when the types of the fields are
  among the known ones, no row is incompatible, none misses its type, and every field has its row.
\<close>

theorem initial_mapping_valid:
  assumes "\<forall>f \<in> set fs. f \<noteq> [] \<and> (case getJsonType f of None \<Rightarrow> True | Some t \<Rightarrow> t = [] \<or> t \<in> fst ` set TYPE_COMPATIBILITY_MAP)"
  shows "validateColumnMappings (buildInitialMappingFromEventFields fs getJsonType) =
      (buildInitialMappingFromEventFields fs getJsonType, [], []) \<and>
    map eventField (buildInitialMappingFromEventFields fs getJsonType) = map Some fs"
proof -
  let ?rows = "buildInitialMappingFromEventFields fs getJsonType"
  have "opt_text (eventField m) \<noteq> [] \<and> opt_text (jsonType m) \<noteq> [] \<and> row_compatible m" if m: "m \<in> set ?rows" for m
  proof -
    obtain f where f: "f \<in> set fs" and m: "m = (let jt = (if opt_text (getJsonType f) = [] then ''string'' else opt_text (getJsonType f))
        in new_column f (getDefaultClickHouseType jt) jt)"
      using m unfolding buildInitialMappingFromEventFields_def by auto
    let ?jt = "if opt_text (getJsonType f) = [] then ''string'' else opt_text (getJsonType f)"
    have "?jt \<in> fst ` set TYPE_COMPATIBILITY_MAP"
      using assms f by (auto simp: opt_text_def split: option.splits) (simp_all add: TYPE_COMPATIBILITY_MAP_def)
    from default_type_fits [OF this] f assms show ?thesis
      unfolding m Let_def by (simp add: new_column_def row_compatible_def opt_text_def)
  qed
  then have "filter (\<lambda>m. opt_text (eventField m) \<noteq> [] \<and> opt_text (jsonType m) \<noteq> [] \<and> row_compatible m) ?rows = ?rows"
    "filter (\<lambda>m. opt_text (eventField m) \<noteq> [] \<and> opt_text (jsonType m) \<noteq> [] \<and> \<not> row_compatible m) ?rows = []"
    "filter (\<lambda>m. opt_text (eventField m) \<noteq> [] \<and> opt_text (jsonType m) = []) ?rows = []"
    by (auto simp: filter_id_conv filter_empty_conv)
  moreover have "map eventField ?rows = map Some fs"
    by (simp add: buildInitialMappingFromEventFields_def Let_def new_column_def comp_def)
  ultimately show ?thesis by (simp only: validateColumnMappings_eq)
qed

lemma initial_mapping_valid_witness:
  "fst (snd (validateColumnMappings (buildInitialMappingFromEventFields [''a'', ''b''] (\<lambda>f. if f = ''a'' then Some ''map'' else None)))) = []"
  using initial_mapping_valid [of "[''a'', ''b'']" "\<lambda>f. if f = ''a'' then Some ''map'' else None"]
  by (simp add: TYPE_COMPATIBILITY_MAP_def)

text \<open>
  The test for a type in the list looks for it anywhere in the column type, so that signed
  fields of a fixed width are accepted by the unsigned columns that the list does not have; a scalar is
  accepted by an array of its type.
\<close>

theorem unsigned_columns_accept_signed:
  "list_all (\<lambda>(s, t). isTypeCompatible s t \<and> t \<notin> set (the (map_of TYPE_COMPATIBILITY_MAP s)))
     [(''int8'', ''UInt8''), (''int8'', ''UInt64''), (''int16'', ''UInt16''), (''int32'', ''UInt32''),
      (''int64'', ''UInt64''), (''string'', ''Array(String)'')]"
  by code_simp

lemma added_columns:
  "map op_name (computeAlterTableOperations mapping existing) =
     filter (\<lambda>n. n \<noteq> [] \<and> n \<notin> trim ` set existing) (map (\<lambda>c. trim (col_name c)) mapping)"
  by (induction mapping) (simp_all add: computeAlterTableOperations_def Let_def)

end
