(* ===== verification/Mapping_Validation.thy ===== *)
theory Mapping_Validation
  imports Column_Types
begin

text \<open>
  The checks of the mapping of fields to columns
  (ui/src/modules/clickhouse/hooks/useMappingValidation.ts): the issues that are computed on every
  change and the result that decides whether the mapping can be saved. The texts of the messages are
  left out.
\<close>

record ValidationIssues =
  unmappedNullableColumns :: "string list"
  unmappedNonNullableColumns :: "string list"
  unmappedDefaultColumns :: "string list"
  extraEventFields :: "string list"
  incompatibleTypeMappings :: "TableColumn list"
  missingTypeMappings :: "TableColumn list"
  duplicateDestinationColumns :: "string list"
  orderByInvalid :: bool
  unmappedStructuralFields :: "string list"

definition no_issues :: ValidationIssues where
  "no_issues =
     \<lparr>unmappedNullableColumns = [], unmappedNonNullableColumns = [], unmappedDefaultColumns = [],
      extraEventFields = [], incompatibleTypeMappings = [], missingTypeMappings = [],
      duplicateDestinationColumns = [], orderByInvalid = False, unmappedStructuralFields = []\<rparr>"

record MappingInput =
  schema_columns :: "TableColumn list"
  mappedColumns :: "TableColumn list"
  eventFields :: "string list"
  primaryEventFields :: "string list"
  secondaryEventFields :: "string list"
  single_mode :: bool
  create_path :: bool
  orderBy :: "string option"
  structuralFields :: "string list"

text \<open>The names that the map counts more than once, in the order they were first set.\<close>

definition duplicate_names :: "TableColumn list \<Rightarrow> string list" where
  "duplicate_names cols =
     (let ns = filter (\<lambda>n. n \<noteq> []) (map (\<lambda>c. trim (col_name c)) cols)
      in filter (\<lambda>n. 1 < length (filter ((=) n) ns)) (fold set_add ns []))"

definition is_mapped :: "TableColumn list \<Rightarrow> TableColumn \<Rightarrow> bool" where
  "is_mapped mapped c \<longleftrightarrow>
     (case find (\<lambda>m. col_name m = col_name c) mapped of None \<Rightarrow> False | Some m \<Rightarrow> opt_text (eventField m) \<noteq> [])"

definition isActuallyNullable :: "TableColumn \<Rightarrow> bool" where
  "isActuallyNullable c \<longleftrightarrow>
     (case col_type c of Some t \<Rightarrow> has_substring ''Nullable'' t | None \<Rightarrow> False) \<or> isNullable c = Some True"

definition note_unmapped :: "MappingInput \<Rightarrow> TableColumn \<Rightarrow> ValidationIssues \<Rightarrow> ValidationIssues" where
  "note_unmapped i c issues =
     (if is_mapped (mappedColumns i) c then issues
      else if hasDefaultExpression c
      then issues\<lparr>unmappedDefaultColumns := unmappedDefaultColumns issues @ [col_name c]\<rparr>
      else if isActuallyNullable c
      then issues\<lparr>unmappedNullableColumns := unmappedNullableColumns issues @ [col_name c]\<rparr>
      else issues\<lparr>unmappedNonNullableColumns := unmappedNonNullableColumns issues @ [col_name c]\<rparr>)"

definition unmapped_columns :: "MappingInput \<Rightarrow> ValidationIssues \<Rightarrow> ValidationIssues" where
  "unmapped_columns i issues = fold (note_unmapped i) (schema_columns i) issues"

definition field_mapped :: "MappingInput \<Rightarrow> string \<Rightarrow> bool" where
  "field_mapped i f \<longleftrightarrow> list_ex (\<lambda>c. eventField c = Some f) (mappedColumns i)"

definition with_types :: "MappingInput \<Rightarrow> ValidationIssues \<Rightarrow> ValidationIssues" where
  "with_types i issues =
     (let (valid, invalid, missing) = validateColumnMappings (mappedColumns i)
      in issues\<lparr>incompatibleTypeMappings := invalid, missingTypeMappings := missing\<rparr>)"

definition ordered :: "MappingInput \<Rightarrow> bool" where
  "ordered i \<longleftrightarrow> create_path i \<and> opt_text (orderBy i) \<noteq> []"

definition order_column_exists :: "MappingInput \<Rightarrow> bool" where
  "order_column_exists i \<longleftrightarrow>
     list_ex (\<lambda>c. Some (trim (col_name c)) = orderBy i \<or> eventField c = orderBy i) (mappedColumns i)"

definition validationIssues :: "MappingInput \<Rightarrow> ValidationIssues" where
  "validationIssues i =
     (if mappedColumns i = [] then no_issues\<lparr>orderByInvalid := ordered i\<rparr>
      else let issues = no_issues\<lparr>duplicateDestinationColumns := duplicate_names (mappedColumns i),
            orderByInvalid := ordered i \<and> \<not> order_column_exists i\<rparr>
        in if schema_columns i = [] then with_types i issues
           else let all_fields = (if single_mode i then eventFields i else primaryEventFields i @ secondaryEventFields i);
                    issues1 = (unmapped_columns i issues)\<lparr>extraEventFields := filter (\<lambda>f. \<not> field_mapped i f) all_fields\<rparr>
             in (with_types i issues1)\<lparr>unmappedStructuralFields := filter (\<lambda>f. \<not> field_mapped i f) (structuralFields i)\<rparr>)"

datatype Severity = ErrorResult | WarningResult

record ValidationResult =
  severity :: Severity
  canProceed :: bool
  title :: string

definition blocking :: "string \<Rightarrow> ValidationResult option" where
  "blocking t = Some \<lparr>severity = ErrorResult, canProceed = False, title = t\<rparr>"

definition asking :: "string \<Rightarrow> ValidationResult option" where
  "asking t = Some \<lparr>severity = WarningResult, canProceed = True, title = t\<rparr>"

definition validateMapping :: "MappingInput \<Rightarrow> ValidationIssues \<Rightarrow> ValidationResult option" where
  "validateMapping i issues =
     (if duplicateDestinationColumns issues \<noteq> [] then blocking ''Duplicate Column Names''
      else if orderByInvalid issues then blocking ''Invalid Order Field''
      else let mappedFieldsCount = length (filter (\<lambda>c. opt_text (eventField c) \<noteq> []) (mappedColumns i));
               totalColumnsCount = length (schema_columns i)
        in if incompatibleTypeMappings issues \<noteq> [] then blocking ''Error: Type Incompatibility''
           else if missingTypeMappings issues \<noteq> [] then blocking ''Error: Missing Type Information''
           else if unmappedNonNullableColumns issues \<noteq> [] then blocking ''Error: Null Constraint Violation''
           else if unmappedDefaultColumns issues \<noteq> [] then asking ''Default Values Will Be Used''
           else if mappedFieldsCount < totalColumnsCount \<and> unmappedNullableColumns issues \<noteq> []
           then asking ''Field Count Mismatch''
           else if extraEventFields issues \<noteq> [] then asking ''Extra Fields Detected''
           else if unmappedStructuralFields issues \<noteq> [] then asking ''Join/Dedup Keys Not Mapped to ClickHouse''
           else None)"

definition can_save :: "MappingInput \<Rightarrow> bool" where
  "can_save i \<longleftrightarrow>
     (case validateMapping i (validationIssues i) of None \<Rightarrow> True | Some r \<Rightarrow> canProceed r)"

section \<open>Properties\<close>

lemma can_save_issues:
  "can_save i \<longleftrightarrow>
     (let e = validationIssues i
      in duplicateDestinationColumns e = [] \<and> \<not> orderByInvalid e \<and> incompatibleTypeMappings e = [] \<and>
         missingTypeMappings e = [] \<and> unmappedNonNullableColumns e = [])"
  by (simp add: can_save_def validateMapping_def Let_def blocking_def asking_def)

definition can_be_omitted :: "MappingInput \<Rightarrow> TableColumn \<Rightarrow> bool" where
  "can_be_omitted i c \<longleftrightarrow> is_mapped (mappedColumns i) c \<or> hasDefaultExpression c \<or> isActuallyNullable c"

lemma unmapped_parts [simp]:
  "unmappedNonNullableColumns (unmapped_columns i e) =
     unmappedNonNullableColumns e @ map col_name (filter (\<lambda>c. \<not> can_be_omitted i c) (schema_columns i))"
  "duplicateDestinationColumns (unmapped_columns i e) = duplicateDestinationColumns e"
  "orderByInvalid (unmapped_columns i e) = orderByInvalid e"
proof -
  have "unmappedNonNullableColumns (fold (note_unmapped i) cs e) =
      unmappedNonNullableColumns e @ map col_name (filter (\<lambda>c. \<not> can_be_omitted i c) cs) \<and>
    duplicateDestinationColumns (fold (note_unmapped i) cs e) = duplicateDestinationColumns e \<and>
    orderByInvalid (fold (note_unmapped i) cs e) = orderByInvalid e" for cs
    by (induction cs arbitrary: e) (simp_all add: note_unmapped_def can_be_omitted_def)
  then show "unmappedNonNullableColumns (unmapped_columns i e) =
      unmappedNonNullableColumns e @ map col_name (filter (\<lambda>c. \<not> can_be_omitted i c) (schema_columns i))"
    "duplicateDestinationColumns (unmapped_columns i e) = duplicateDestinationColumns e"
    "orderByInvalid (unmapped_columns i e) = orderByInvalid e" by (simp_all add: unmapped_columns_def)
qed

definition row_typed :: "TableColumn \<Rightarrow> bool" where
  "row_typed m \<longleftrightarrow> (if opt_text (eventField m) = [] then True else opt_text (jsonType m) \<noteq> [] \<and> row_compatible m)"

lemma types_ok:
  "(fst (snd (validateColumnMappings ms)) = [] \<and> snd (snd (validateColumnMappings ms)) = []) = list_all row_typed ms"
  by (auto simp: validateColumnMappings_eq filter_empty_conv list_all_iff row_typed_def)

lemma with_types_parts [simp]:
  "incompatibleTypeMappings (with_types i e) = fst (snd (validateColumnMappings (mappedColumns i)))"
  "missingTypeMappings (with_types i e) = snd (snd (validateColumnMappings (mappedColumns i)))"
  "duplicateDestinationColumns (with_types i e) = duplicateDestinationColumns e"
  "orderByInvalid (with_types i e) = orderByInvalid e"
  "unmappedNonNullableColumns (with_types i e) = unmappedNonNullableColumns e"
  by (simp_all add: with_types_def split: prod.split)

lemma set_fold_set_add: "set (fold set_add xs ys) = set xs \<union> set ys"
  by (induction xs arbitrary: ys) auto

lemma occurrences_distinct: "(\<forall>n \<in> set ns. length (filter ((=) n) ns) \<le> 1) \<longleftrightarrow> distinct ns"
proof (induction ns)
  case (Cons x ns)
  have none: "x \<notin> set ns \<longleftrightarrow> filter ((=) x) ns = []" by (auto simp: filter_empty_conv)
  have "length (filter ((=) n) (x # ns)) \<le> 1 \<longleftrightarrow> length (filter ((=) n) ns) \<le> 1" if "n \<in> set ns" "x \<notin> set ns" for n
    using that by auto
  with Cons none show ?case by auto
qed simp

lemma duplicate_names_empty:
  "duplicate_names cols = [] \<longleftrightarrow> distinct (filter (\<lambda>n. n \<noteq> []) (map (\<lambda>c. trim (col_name c)) cols))"
proof -
  have "(\<forall>n \<in> set ns. length (filter ((=) n) ns) \<le> 1) \<longleftrightarrow> distinct ns" for ns :: "string list"
    by (rule occurrences_distinct)
  from this [of "filter (\<lambda>n. n \<noteq> []) (map (\<lambda>c. trim (col_name c)) cols)"] show ?thesis
    by (simp add: duplicate_names_def Let_def filter_empty_conv set_fold_set_add linorder_not_less)
qed

lemma can_save_spec:
  "can_save i =
     (if mappedColumns i = [] then \<not> ordered i
      else distinct (filter (\<lambda>n. n \<noteq> []) (map (\<lambda>c. trim (col_name c)) (mappedColumns i))) \<and>
        (if ordered i then order_column_exists i else True) \<and>
        list_all row_typed (mappedColumns i) \<and> list_all (can_be_omitted i) (schema_columns i))"
proof -
  have n: "duplicateDestinationColumns no_issues = []" "\<not> orderByInvalid no_issues"
    "incompatibleTypeMappings no_issues = []" "missingTypeMappings no_issues = []" "unmappedNonNullableColumns no_issues = []"
    by (simp_all add: no_issues_def)
  have o: "list_all (can_be_omitted i) cs \<longleftrightarrow> filter (\<lambda>c. \<not> can_be_omitted i c) cs = []" for cs
    by (simp add: filter_empty_conv list_all_iff)
  show ?thesis
  proof (cases "mappedColumns i = []")
    case True
    then show ?thesis using n by (simp add: can_save_issues validationIssues_def Let_def)
  next
    case False
    then show ?thesis using n types_ok [of "mappedColumns i"]
      by (cases "schema_columns i = []") (auto simp: can_save_issues validationIssues_def Let_def o duplicate_names_empty)
  qed
qed

lemma can_save_distinct: "can_save i \<Longrightarrow> distinct (filter (\<lambda>n. n \<noteq> []) (map (\<lambda>c. trim (col_name c)) (mappedColumns i)))"
  by (cases "mappedColumns i = []") (simp_all add: can_save_spec)

text \<open>
  C21. A mapping with rows can be saved exactly when the names of the columns differ, a new table has the
  column it is ordered by, every mapped row has a type that fits its column, and every column of
  an existing table is mapped, has a default or takes nulls. Without any row nothing but the order column is checked.
\<close>

theorem mapping_accepted:
  "can_save i =
     (if mappedColumns i = [] then \<not> ordered i
      else distinct (filter (\<lambda>n. n \<noteq> []) (map (\<lambda>c. trim (col_name c)) (mappedColumns i))) \<and>
        (if ordered i then order_column_exists i else True) \<and>
        list_all row_typed (mappedColumns i) \<and> list_all (can_be_omitted i) (schema_columns i))"
  by (rule can_save_spec)

definition one_column_input :: MappingInput where
  "one_column_input =
     \<lparr>schema_columns = [new_column ''id'' ''UInt64'' ''uint''], mappedColumns = [new_column ''id'' ''UInt64'' ''uint''],
      eventFields = [''id''], primaryEventFields = [], secondaryEventFields = [], single_mode = True,
      create_path = False, orderBy = None, structuralFields = []\<rparr>"

lemma one_column_saved: "can_save one_column_input"
  by code_simp

lemma mapping_accepted_witness: "can_save one_column_input"
  unfolding mapping_accepted [of one_column_input]
  by (simp add: one_column_input_def new_column_def ordered_def) code_simp

text \<open>
  When a mapping that can be saved is applied to an existing table, a column is added for each of
  its names that the table does not have, once, and for no other.
\<close>

theorem added_columns_new:
  assumes "can_save i" and "ops = computeAlterTableOperations (mappedColumns i) existing"
  shows "distinct (map op_name ops) \<and>
    op_name ` set ops = {n. n \<noteq> [] \<and> n \<in> (\<lambda>c. trim (col_name c)) ` set (mappedColumns i)} - trim ` set existing"
proof -
  let ?ns = "map (\<lambda>c. trim (col_name c)) (mappedColumns i)"
  have "distinct (filter (\<lambda>n. n \<noteq> []) ?ns)"
    using can_save_distinct [OF assms(1)] .
  then have "distinct (filter (\<lambda>n. n \<notin> trim ` set existing) (filter (\<lambda>n. n \<noteq> []) ?ns))" by (rule distinct_filter)
  then have "distinct (map op_name ops)" by (simp add: assms(2) added_columns conj_commute)
  moreover have "set (map op_name ops) = {n. n \<noteq> [] \<and> n \<in> set ?ns} - trim ` set existing"
    unfolding assms(2) added_columns by auto
  ultimately show ?thesis by simp
qed

lemma added_columns_new_witness:
  "distinct (map op_name (computeAlterTableOperations (mappedColumns one_column_input) [''name'']))"
  using added_columns_new [of one_column_input "computeAlterTableOperations (mappedColumns one_column_input) [''name'']" "[''name'']"]
    one_column_saved by simp

end
