(* ===== verification/Base64.thy ===== *)
theory Base64
  imports Js_Prelude
begin

text \<open>
  The encoding of certificates: \<open>Buffer.from(s).toString('base64')\<close>, the encoding of the UTF-8 bytes of a
  text, which ui/src/modules/clickhouse/utils.ts writes, and \<open>atob\<close>, whose result has a character for every
  byte, which ui/src/store/hydration/kafka-connection.ts reads.
\<close>

section \<open>Encoding\<close>

definition b64_char :: "nat \<Rightarrow> char" where
  "b64_char n =
     (if n < 26 then char_of (65 + n) else if n < 52 then char_of (97 + (n - 26))
      else if n < 62 then char_of (48 + (n - 52)) else if n = 62 then CHR ''+'' else CHR ''/'')"

text \<open>The six-bit values of the bytes, and the texts of the groups of four.\<close>

fun sextets :: "nat list \<Rightarrow> nat list" where
  "sextets (a # b # c # bs) =
     [a div 4, a mod 4 * 16 + b div 16, b mod 16 * 4 + c div 64, c mod 64] @ sextets bs"
| "sextets [a, b] = [a div 4, a mod 4 * 16 + b div 16, b mod 16 * 4]"
| "sextets [a] = [a div 4, a mod 4 * 16]"
| "sextets [] = []"

fun padding :: "nat list \<Rightarrow> string" where
  "padding (a # b # c # bs) = padding bs"
| "padding [a, b] = ''=''"
| "padding [a] = ''==''"
| "padding [] = []"

definition b64_bytes :: "nat list \<Rightarrow> string" where
  "b64_bytes bs = map b64_char (sextets bs) @ padding bs"

definition utf8_char :: "char \<Rightarrow> nat list" where
  "utf8_char c = (let n = of_char c in if n < 128 then [n] else [192 + n div 64, 128 + n mod 64])"

definition utf8 :: "string \<Rightarrow> nat list" where
  "utf8 s = concat (map utf8_char s)"

definition base64 :: "string \<Rightarrow> string" where
  "base64 s = b64_bytes (utf8 s)"

section \<open>Decoding\<close>

definition b64_value :: "char \<Rightarrow> nat option" where
  "b64_value c =
     (let n = of_char c :: nat
      in if 65 \<le> n \<and> n \<le> 90 then Some (n - 65) else if 97 \<le> n \<and> n \<le> 122 then Some (n - 71)
         else if 48 \<le> n \<and> n \<le> 57 then Some (n + 4) else if n = 43 then Some 62
         else if n = 47 then Some 63 else None)"

fun b64_groups :: "nat list \<Rightarrow> nat list" where
  "b64_groups (w # x # y # z # vs) =
     [w * 4 + x div 16, x mod 16 * 16 + y div 4, y mod 4 * 64 + z] @ b64_groups vs"
| "b64_groups [w, x, y] = [w * 4 + x div 16, x mod 16 * 16 + y div 4]"
| "b64_groups [w, x] = [w * 4 + x div 16]"
| "b64_groups _ = []"

text \<open>Two \<open>=\<close> at the end, or one, are dropped when the length is a multiple of four.\<close>

definition drop_padding :: "string \<Rightarrow> string" where
  "drop_padding s =
     (if length s mod 4 \<noteq> 0 \<or> s = [] then s
      else if last s = CHR ''='' then
        (if butlast s \<noteq> [] \<and> last (butlast s) = CHR ''='' then butlast (butlast s) else butlast s)
      else s)"

definition ascii_ws :: "char \<Rightarrow> bool" where
  "ascii_ws c \<longleftrightarrow> of_char c \<in> {9, 10, 12, 13, 32 :: nat}"

fun all_values :: "string \<Rightarrow> nat list option" where
  "all_values [] = Some []"
| "all_values (c # cs) =
     (case b64_value c of None \<Rightarrow> None | Some v \<Rightarrow> map_option (Cons v) (all_values cs))"

text \<open>\<open>None\<close> is the \<open>InvalidCharacterError\<close>.\<close>

definition atob :: "string \<Rightarrow> string option" where
  "atob s =
     (let d = drop_padding (filter (\<lambda>c. \<not> ascii_ws c) s)
      in if length d mod 4 = 1 then None
         else map_option (\<lambda>vs. map char_of (b64_groups vs)) (all_values d))"

section \<open>Decoding an encoding\<close>

lemma b64_value_char: "n < 64 \<Longrightarrow> b64_value (b64_char n) = Some n"
proof -
  assume n: "n < 64"
  consider "n < 26" | "26 \<le> n" "n < 52" | "52 \<le> n" "n < 62" | "n = 62" | "n = 63" using n by linarith
  then show ?thesis
    by cases (auto simp: b64_value_def b64_char_def Let_def)
qed

lemma not_b64: "b64_value (CHR ''='') = None" "ascii_ws c \<Longrightarrow> b64_value c = None"
  by (auto simp: b64_value_def ascii_ws_def Let_def)

lemma b64_char_props: "n < 64 \<Longrightarrow> b64_char n \<noteq> CHR ''='' \<and> \<not> ascii_ws (b64_char n)"
  using b64_value_char [of n] not_b64 by (metis option.distinct(1))

lemma sextet_bounds:
  fixes a b c :: nat
  assumes "a < 256" and "b < 256" and "c < 256"
  shows "a div 4 < 64" "a mod 4 * 16 + b div 16 < 64" "b mod 16 * 4 + c div 64 < 64" "c mod 64 < 64"
    "a mod 4 * 16 < 64" "b mod 16 * 4 < 64"
proof -
  have "a mod 4 < 4" "b mod 16 < 16" by simp_all
  moreover have "a div 4 < 64" "b div 16 < 16" "c div 64 < 4" using assms by (simp_all add: less_mult_imp_div_less)
  ultimately show "a div 4 < 64" "a mod 4 * 16 + b div 16 < 64" "b mod 16 * 4 + c div 64 < 64"
    "a mod 4 * 16 < 64" "b mod 16 * 4 < 64" by linarith+
qed simp

lemma sextets_small: "list_all (\<lambda>b. b < 256) bs \<Longrightarrow> list_all (\<lambda>v. v < 64) (sextets bs)"
proof (induction bs rule: sextets.induct)
  case (1 a b c bs)
  then show ?case using sextet_bounds [of a b c] by (simp only: sextets.simps list.pred_inject append_Cons append_Nil simp_thms)
next
  case (2 a b)
  then show ?case using sextet_bounds [of a b 0] by (simp only: sextets.simps list.pred_inject append_Cons append_Nil simp_thms)
next
  case (3 a)
  then show ?case using sextet_bounds [of a 0 0] by (simp only: sextets.simps list.pred_inject append_Cons append_Nil simp_thms)
qed simp

lemma joined_div: "(y :: nat) < m \<Longrightarrow> (x * m + y) div m = x" "y < m \<Longrightarrow> (x * m + y) mod m = y"
  by simp_all

lemma byte_back:
  fixes a b c :: nat
  assumes "a < 256" and "b < 256" and "c < 256"
  shows "a div 4 * 4 + (a mod 4 * 16 + b div 16) div 16 = a"
    "(a mod 4 * 16 + b div 16) mod 16 * 16 + (b mod 16 * 4 + c div 64) div 4 = b"
    "(b mod 16 * 4 + c div 64) mod 4 * 64 + c mod 64 = c"
    "a div 4 * 4 + a mod 4 * 16 div 16 = a" "(a mod 4 * 16 + b div 16) mod 16 * 16 + b mod 16 * 4 div 4 = b"
proof -
  have s: "b div 16 < 16" "c div 64 < 4" using assms by (simp_all add: less_mult_imp_div_less)
  note j = joined_div [OF s(1), of "a mod 4"] joined_div [OF s(2), of "b mod 16"]
  show "a div 4 * 4 + (a mod 4 * 16 + b div 16) div 16 = a" unfolding j by (rule div_mult_mod_eq)
  show "(a mod 4 * 16 + b div 16) mod 16 * 16 + (b mod 16 * 4 + c div 64) div 4 = b" unfolding j by (rule div_mult_mod_eq)
  show "(b mod 16 * 4 + c div 64) mod 4 * 64 + c mod 64 = c" unfolding j by (rule div_mult_mod_eq)
  have m: "x * k div k = x" if "0 < k" for x k :: nat using that by simp
  have "a mod 4 * 16 div 16 = a mod 4" "b mod 16 * 4 div 4 = b mod 16" by (rule m; simp)+
  then show "a div 4 * 4 + a mod 4 * 16 div 16 = a" "(a mod 4 * 16 + b div 16) mod 16 * 16 + b mod 16 * 4 div 4 = b"
    unfolding j by (simp_all only: div_mult_mod_eq)
qed

lemma padding_cases:
  "(padding bs = [] \<or> padding bs = ''='' \<and> sextets bs \<noteq> [] \<or> padding bs = ''=='') \<and>
   (\<exists>k. length (sextets bs) + length (padding bs) = 4 * k)"
proof (induction bs rule: sextets.induct)
  case (1 a b c bs)
  then obtain k where k: "length (sextets bs) + length (padding bs) = 4 * k" by blast
  have "length (sextets (a # b # c # bs)) + length (padding (a # b # c # bs)) = 4 * Suc k"
    using k by simp
  then have "\<exists>k. length (sextets (a # b # c # bs)) + length (padding (a # b # c # bs)) = 4 * k" by blast
  with 1 show ?case by auto
next
  case (2 a b)
  show ?case by (auto intro: exI [of _ 1])
next
  case (3 a)
  show ?case by (auto intro: exI [of _ 1])
qed auto

lemma groups_sextets: "list_all (\<lambda>b. b < 256) bs \<Longrightarrow> b64_groups (sextets bs) = bs"
proof (induction bs rule: sextets.induct)
  case (1 a b c bs)
  then show ?case using byte_back [of a b c]
    by (simp only: sextets.simps b64_groups.simps list.pred_inject append_Cons append_Nil simp_thms)
next
  case (2 a b)
  then show ?case using byte_back [of a b 0]
    by (simp only: sextets.simps b64_groups.simps list.pred_inject append_Cons append_Nil simp_thms)
next
  case (3 a)
  then show ?case using byte_back [of a 0 0]
    by (simp only: sextets.simps b64_groups.simps list.pred_inject append_Cons append_Nil simp_thms)
qed simp

lemma all_values_chars: "list_all (\<lambda>v. v < 64) vs \<Longrightarrow> all_values (map b64_char vs) = Some vs"
  by (induction vs) (simp_all add: b64_value_char)

lemma drop_padding_bytes:
  assumes "list_all (\<lambda>b. b < 256) bs"
  shows "drop_padding (b64_bytes bs) = map b64_char (sextets bs)"
proof -
  have len: "length (b64_bytes bs) mod 4 = 0"
    using padding_cases [of bs] by (auto simp: b64_bytes_def)
  have ne: "last (map b64_char (sextets bs)) \<noteq> CHR ''=''" if "sextets bs \<noteq> []"
    using that sextets_small [OF assms] b64_char_props last_in_set [of "sextets bs"] by (auto simp: last_map list_all_iff)
  consider "padding bs = []" | "padding bs = ''==''" | "padding bs = ''=''" "sextets bs \<noteq> []"
    using padding_cases [of bs] by blast
  then show ?thesis
  proof cases
    case 1
    then show ?thesis using len ne by (cases "sextets bs = []") (simp_all add: drop_padding_def b64_bytes_def)
  next
    case 2
    then show ?thesis using len by (simp add: drop_padding_def b64_bytes_def butlast_append)
  next
    case 3
    then show ?thesis using len ne by (simp add: drop_padding_def b64_bytes_def butlast_append)
  qed
qed

lemma b64_roundtrip:
  assumes "list_all (\<lambda>b. b < 256) bs"
  shows "atob (b64_bytes bs) = Some (map char_of bs)"
proof -
  have "\<not> ascii_ws (CHR ''='')" by (simp add: ascii_ws_def)
  then have "filter (\<lambda>c. \<not> ascii_ws c) (b64_bytes bs) = b64_bytes bs"
    using sextets_small [OF assms] b64_char_props
    using padding_cases [of bs] by (auto simp: filter_id_conv b64_bytes_def list_all_iff)
  moreover have "length (sextets bs) mod 4 \<noteq> 1"
  proof -
    have "m mod 4 \<noteq> 1" if "m + p = 4 * k" "p < 3" for m p k :: nat using that by presburger
    moreover have "length (padding bs) < 3" using padding_cases [of bs] by auto
    ultimately show ?thesis using padding_cases [of bs] by blast
  qed
  ultimately show ?thesis
    using all_values_chars [OF sextets_small [OF assms]] groups_sextets [OF assms]
    by (simp add: atob_def Let_def drop_padding_bytes [OF assms])
qed

lemma of_char_bound: "(of_char c :: nat) < 256"
proof -
  have "(of_char c :: nat) = of_char (char_of (of_char c :: nat) :: char)" by simp
  also have "\<dots> < 256" unfolding of_char_of by simp
  finally show ?thesis .
qed

lemma utf8_bytes: "list_all (\<lambda>b. b < 256) (utf8 s)"
proof -
  have "(of_char c :: nat) div 64 < 64" for c
    by (rule less_mult_imp_div_less, rule less_trans [OF of_char_bound]) simp
  then have "list_all (\<lambda>b. b < 256) (utf8_char c)" for c
    by (auto simp: utf8_char_def Let_def intro: less_trans [OF mod_less_divisor])
  then show ?thesis by (simp add: utf8_def list_all_iff)
qed

lemma utf8_ascii: "list_all (\<lambda>c. of_char c < (128 :: nat)) s \<Longrightarrow> map char_of (utf8 s) = s"
  by (induction s) (simp_all add: utf8_def utf8_char_def Let_def)

lemma atob_base64: "atob (base64 s) = Some (map char_of (utf8 s))"
  unfolding base64_def by (rule b64_roundtrip [OF utf8_bytes])

end
