(* ===== verification/Kafka_Params.thy ===== *)
theory Kafka_Params
  imports Kafka_Slice Base64
begin

text \<open>
  The Kafka connection of a pipeline configuration: how the store's connection becomes the connection
  parameters that are saved (ui/src/modules/clickhouse/utils.ts) and how saved parameters are loaded
  (ui/src/store/hydration/kafka-connection.ts). Whether the UI runs in Docker is an argument. The saved values
  that are read are texts, truth values and lists of texts; another kind of value is read as missing.
\<close>

section \<open>Saving\<close>

definition normalizeBroker :: "bool \<Rightarrow> string \<Rightarrow> string" where
  "normalizeBroker inDocker broker =
     (if broker = [] then broker
      else case split_on (CHR '':'') broker of
          host # rest \<Rightarrow>
            if inDocker \<and> (host = ''localhost'' \<or> host = ''127.0.0.1'' \<or> host = ''[::1]'')
            then ''host.docker.internal'' @ (case rest of port # _ \<Rightarrow> if port = [] then [] else '':'' @ port | [] \<Rightarrow> [])
            else broker
        | [] \<Rightarrow> broker)"

text \<open>The truststore that the method uses.\<close>

definition method_store :: "KafkaStore \<Rightarrow> TruststoreForm option" where
  "method_store ks =
     (if authMethod ks = ''SASL/PLAIN'' then su_truststore (saslPlain ks)
      else if authMethod ks = ''SASL/SCRAM-256'' then su_truststore (saslScram256 ks)
      else if authMethod ks = ''SASL/SCRAM-512'' then su_truststore (saslScram512 ks)
      else if authMethod ks = ''SASL/GSSAPI'' then gs_truststore (saslGssapi ks)
      else if authMethod ks = ''NO_AUTH'' then na_truststore (noAuth ks)
      else None)"

definition protocol_of :: "KafkaStore \<Rightarrow> string" where
  "protocol_of ks = (if securityProtocol ks = [] then ''PLAINTEXT'' else securityProtocol ks)"

definition isTLSEnabled :: "KafkaStore \<Rightarrow> bool" where
  "isTLSEnabled ks \<longleftrightarrow> protocol_of ks = ''SASL_SSL'' \<or> protocol_of ks = ''SSL''"

definition skip_tls :: "KafkaStore \<Rightarrow> bool" where
  "skip_tls ks = (case method_store ks of None \<Rightarrow> False | Some t \<Rightarrow> skipTlsVerification t = Some True)"

definition mechanism_of :: "string \<Rightarrow> string" where
  "mechanism_of m =
     (if m = ''NO_AUTH'' then ''NO_AUTH'' else if m = ''SASL/PLAIN'' then ''PLAIN''
      else if m = ''SASL/SCRAM-256'' then ''SCRAM-SHA-256'' else if m = ''SASL/SCRAM-512'' then ''SCRAM-SHA-512''
      else if m = ''SASL/GSSAPI'' then ''GSSAPI'' else ''NO_AUTH'')"

definition certificate_params :: "KafkaStore \<Rightarrow> (string \<times> json) list" where
  "certificate_params ks =
     (case method_store ks of
        Some t \<Rightarrow> (case certificates t of
            Some c \<Rightarrow> if isTLSEnabled ks \<and> c \<noteq> [] then [(''root_ca'', JStr (base64 c))] else []
          | None \<Rightarrow> [])
      | None \<Rightarrow> [])"

definition user_params :: "SaslUserForm \<Rightarrow> (string \<times> json) list" where
  "user_params f = [(''username'', JStr (su_username f)), (''password'', JStr (su_password f))]"

definition method_params :: "KafkaStore \<Rightarrow> (string \<times> json) list" where
  "method_params ks =
     (if authMethod ks = ''SASL/PLAIN'' then user_params (saslPlain ks) @ certificate_params ks
      else if authMethod ks = ''SASL/SCRAM-256'' then user_params (saslScram256 ks) @ certificate_params ks
      else if authMethod ks = ''SASL/SCRAM-512'' then user_params (saslScram512 ks) @ certificate_params ks
      else if authMethod ks = ''SASL/GSSAPI'' then
        [(''username'', JStr (kerberosPrincipal (saslGssapi ks))),
         (''kerberos_service_name'', JStr (serviceName (saslGssapi ks))),
         (''kerberos_realm'', JStr (kerberosRealm (saslGssapi ks))),
         (''kerberos_keytab'', JStr (kerberosKeytab (saslGssapi ks))),
         (''kerberos_config'', JStr (krb5Config (saslGssapi ks)))] @ certificate_params ks
      else if authMethod ks = ''NO_AUTH'' then certificate_params ks else [])"

definition connectionParams :: "bool \<Rightarrow> KafkaStore \<Rightarrow> json" where
  "connectionParams inDocker ks =
     JObj ([(''brokers'', JArr (map (\<lambda>b. JStr (normalizeBroker inDocker (trim b))) (split_on (CHR '','') (bootstrapServers ks)))),
        (''protocol'', JStr (protocol_of ks)),
        (''skip_auth'', JBool (authMethod ks = ''NO_AUTH'')),
        (''mechanism'', JStr (mechanism_of (authMethod ks)))]
      @ (if isTLSEnabled ks then [(''skip_tls_verification'', JBool (skip_tls ks))] else [])
      @ method_params ks)"

section \<open>Loading\<close>

definition text_at :: "string \<Rightarrow> json \<Rightarrow> string" where
  "text_at k j = (case jget k j of JStr s \<Rightarrow> s | _ \<Rightarrow> [])"

definition flag_at :: "string \<Rightarrow> json \<Rightarrow> bool" where
  "flag_at k j = (jget k j = JBool True)"

definition texts_at :: "string \<Rightarrow> json \<Rightarrow> string list" where
  "texts_at k j = map (\<lambda>v. case v of JStr s \<Rightarrow> s | _ \<Rightarrow> []) (jelements (jget k j))"

text \<open>\<open>toUpperCase\<close>, up to the two letters whose capitals are beyond Latin-1.\<close>

definition upper_char :: "char \<Rightarrow> string" where
  "upper_char c =
     (let n = of_char c :: nat
      in if n = 223 then ''SS''
         else if 97 \<le> n \<and> n \<le> 122 \<or> 224 \<le> n \<and> n \<le> 254 \<and> n \<noteq> 247 then [char_of (n - 32)] else [c])"

definition toUpperCase :: "string \<Rightarrow> string" where
  "toUpperCase s = concat (map upper_char s)"

definition method_of_mechanism :: "string \<Rightarrow> string" where
  "method_of_mechanism mech =
     (if mech = ''NO_AUTH'' then ''NO_AUTH'' else if mech = ''PLAIN'' then ''SASL/PLAIN''
      else if mech = ''SCRAM-SHA-256'' then ''SASL/SCRAM-256'' else if mech = ''SCRAM-SHA-512'' then ''SASL/SCRAM-512''
      else if mech = ''OAUTHBEARER'' then ''SASL/OAUTHBEARER'' else if mech = ''GSSAPI'' then ''SASL/GSSAPI''
      else if mech = ''JAAS'' then ''SASL/JAAS'' else if mech = ''LDAP'' then ''SASL/LDAP''
      else if mech = ''MTLS'' then ''mTLS'' else ''NO_AUTH'')"

definition loaded_truststore :: "json \<Rightarrow> string \<Rightarrow> TruststoreForm" where
  "loaded_truststore p cert =
     \<lparr>location = Some [], ts_password = Some [], ts_type = Some [], algorithm = Some [],
      certificates = Some cert, certificatesFileName = None,
      skipTlsVerification = Some (flag_at ''skip_tls_verification'' p)\<rparr>"

definition loaded_user :: "json \<Rightarrow> string \<Rightarrow> string option \<Rightarrow> SaslUserForm" where
  "loaded_user p cert cg =
     \<lparr>su_username = text_at ''username'' p, su_password = text_at ''password'' p,
      su_truststore = Some (loaded_truststore p cert), consumerGroup = cg\<rparr>"

text \<open>The store with the loaded forms, for a certificate that is already decoded.\<close>

definition loaded_connection :: "json \<Rightarrow> string \<Rightarrow> time \<Rightarrow> KafkaStore \<Rightarrow> KafkaStore" where
  "loaded_connection p cert now s =
     s\<lparr>authMethod := method_of_mechanism (toUpperCase (text_at ''mechanism'' p)),
       securityProtocol := (if text_at ''protocol'' p = [] then ''PLAINTEXT'' else text_at ''protocol'' p),
       bootstrapServers := join '', '' (texts_at ''brokers'' p),
       saslPlain := loaded_user p cert (Some (text_at ''consumer_group'' p)),
       saslScram256 := loaded_user p cert (Some (text_at ''consumer_group'' p)),
       saslScram512 := loaded_user p cert None,
       saslJaas := \<lparr>jaasConfig = text_at ''jaas_config'' p\<rparr>,
       saslGssapi := \<lparr>kerberosPrincipal = text_at ''kerberos_principal'' p, kerberosKeytab = text_at ''kerberos_keytab'' p,
         kerberosKeytabFileName = None, kerberosRealm = text_at ''kerberos_realm'' p, kdc = text_at ''kdc'' p,
         serviceName = text_at ''service_name'' p, krb5Config = text_at ''krb5_config'' p, krb5ConfigFileName = None,
         gs_truststore = Some (loaded_truststore p cert)\<rparr>,
       saslOauthbearer := \<lparr>oauthBearerToken = text_at ''oauth_bearer_token'' p\<rparr>,
       awsIam := \<lparr>awsRegion = text_at ''aws_region'' p, awsAccessKey = text_at ''aws_access_key'' p,
         awsAccessKeySecret = text_at ''aws_access_key_secret'' p, awsAuthorizationIdentity = None,
         awsIAMRoleArn = Some (text_at ''aws_iam_role_arn'' p), awsSessionToken = None\<rparr>,
       delegationTokens := \<lparr>delegationToken = text_at ''delegation_token'' p\<rparr>,
       ldap := \<lparr>ldapServerUrl = text_at ''ldap_server_url'' p, ldapServerPort = text_at ''ldap_server_port'' p,
         ldapBindDn = text_at ''ldap_bind_dn'' p, ldapBindPassword = text_at ''ldap_bind_password'' p,
         ldapUserSearchFilter = Some (text_at ''ldap_user_search_filter'' p),
         ldapBaseDn = Some (text_at ''ldap_base_dn'' p)\<rparr>,
       mtls := \<lparr>clientCert = text_at ''client_cert'' p, clientKey = text_at ''client_key'' p,
         mtls_password = text_at ''password'' p\<rparr>,
       noAuth := \<lparr>na_truststore = Some (loaded_truststore p cert)\<rparr>,
       kafka_validation := createValidValidation now\<rparr>"

text \<open>\<open>None\<close>: the certificate is not base64, and \<open>atob\<close> throws.\<close>

definition mapBackendKafkaConfigToStore :: "json \<Rightarrow> time \<Rightarrow> KafkaStore \<Rightarrow> KafkaStore option" where
  "mapBackendKafkaConfigToStore p now s =
     (let ca = text_at ''root_ca'' p
      in map_option (\<lambda>cert. loaded_connection p cert now s) (if ca = [] then Some [] else atob ca))"

definition first_of :: "json \<Rightarrow> json" where
  "first_of j = (case jelements j of x # _ \<Rightarrow> x | [] \<Rightarrow> JUndef)"

definition loaded_registry :: "json \<Rightarrow> KafkaStore \<Rightarrow> KafkaStore" where
  "loaded_registry reg s =
     (if jtruthy (jget ''url'' reg)
      then setKafkaSchemaRegistry
        \<lparr>sr_enabled = True, sr_url = Some (text_at ''url'' reg),
         sr_authMethod = (if jtruthy (jget ''api_key'' reg) then RegApiKey else RegNone),
         sr_apiKey = Some (text_at ''api_key'' reg), sr_apiSecret = Some (text_at ''api_secret'' reg),
         sr_username = Some [], sr_password = Some []\<rparr> s
      else s)"

definition hydrateKafkaConnection :: "json \<Rightarrow> time \<Rightarrow> KafkaStore \<Rightarrow> KafkaStore option" where
  "hydrateKafkaConnection config now s =
     (let params = or_nullish (jget ''connection_params'' (first_of (jget ''sources'' config)))
            (jget ''connection_params'' (jget ''source'' config));
          reg = jget ''schema_registry'' (first_of (jget ''topics'' (jget ''source'' config)))
      in map_option (loaded_registry reg) (if jtruthy params then mapBackendKafkaConfigToStore params now s else Some s))"

section \<open>What survives saving and loading\<close>

definition user_methods :: "string list" where
  "user_methods = [''SASL/PLAIN'', ''SASL/SCRAM-256'', ''SASL/SCRAM-512'']"

definition user_form :: "KafkaStore \<Rightarrow> SaslUserForm" where
  "user_form ks =
     (if authMethod ks = ''SASL/PLAIN'' then saslPlain ks
      else if authMethod ks = ''SASL/SCRAM-256'' then saslScram256 ks else saslScram512 ks)"

text \<open>The certificate of the method.\<close>

definition method_certificate :: "KafkaStore \<Rightarrow> string" where
  "method_certificate ks =
     (case method_store ks of None \<Rightarrow> [] | Some t \<Rightarrow> (case certificates t of None \<Rightarrow> [] | Some c \<Rightarrow> c))"

definition saved_certificate :: "KafkaStore \<Rightarrow> string" where
  "saved_certificate ks = (if isTLSEnabled ks then method_certificate ks else [])"

lemma certificate_params_eq:
  "certificate_params ks = (if saved_certificate ks = [] then [] else [(''root_ca'', JStr (base64 (saved_certificate ks)))])"
  by (auto simp: certificate_params_def saved_certificate_def method_certificate_def split: option.split)

lemma base64_empty: "base64 s = [] \<longleftrightarrow> s = []"
proof -
  have "utf8_char c \<noteq> []" for c by (simp add: utf8_char_def Let_def)
  then have u: "utf8 s = [] \<longleftrightarrow> s = []" by (cases s) (simp_all add: utf8_def)
  have "b64_bytes bs = [] \<longleftrightarrow> bs = []" for bs by (cases bs rule: sextets.cases) (simp_all add: b64_bytes_def)
  then show ?thesis by (simp add: base64_def u)
qed

definition plain_certificate :: "string \<Rightarrow> bool" where
  "plain_certificate c \<longleftrightarrow> list_all (\<lambda>x. of_char x < (128 :: nat)) c"

lemma params_read:
  assumes "authMethod ks \<in> set (''NO_AUTH'' # ''SASL/GSSAPI'' # user_methods)"
  shows "text_at ''mechanism'' (connectionParams d ks) = mechanism_of (authMethod ks)"
    "text_at ''protocol'' (connectionParams d ks) = protocol_of ks"
    "texts_at ''brokers'' (connectionParams d ks) =
       map (\<lambda>b. normalizeBroker d (trim b)) (split_on (CHR '','') (bootstrapServers ks))"
    "flag_at ''skip_tls_verification'' (connectionParams d ks) = (isTLSEnabled ks \<and> skip_tls ks)"
    "text_at ''root_ca'' (connectionParams d ks) = (if saved_certificate ks = [] then [] else base64 (saved_certificate ks))"
  using assms
  by (auto simp: connectionParams_def text_at_def texts_at_def flag_at_def method_params_def certificate_params_eq
      user_params_def user_methods_def)

lemma user_params_read:
  assumes "authMethod ks \<in> set user_methods"
  shows "text_at ''username'' (connectionParams d ks) = su_username (user_form ks)"
    "text_at ''password'' (connectionParams d ks) = su_password (user_form ks)"
    "text_at ''consumer_group'' (connectionParams d ks) = []"
  using assms
  by (auto simp: connectionParams_def text_at_def method_params_def certificate_params_eq user_params_def user_methods_def user_form_def)

lemma loaded_params:
  assumes "authMethod ks \<in> set (''NO_AUTH'' # ''SASL/GSSAPI'' # user_methods)" and "plain_certificate (saved_certificate ks)"
  shows "mapBackendKafkaConfigToStore (connectionParams d ks) now s =
    Some (loaded_connection (connectionParams d ks) (saved_certificate ks) now s)"
  using params_read(5) [OF assms(1), of d] assms(2) atob_base64 [of "saved_certificate ks"] utf8_ascii
  by (simp add: mapBackendKafkaConfigToStore_def Let_def base64_empty plain_certificate_def)

lemma mechanisms_back:
  "list_all (\<lambda>m. method_of_mechanism (toUpperCase (mechanism_of m)) = m) (''NO_AUTH'' # ''SASL/GSSAPI'' # user_methods)"
  by code_simp


text \<open>
  A Kerberos connection loses its principal, its service name, its KDC and its configuration when it is saved and
  loaded, because they are read under other names than they are written; the form is then incomplete.
\<close>

theorem gssapi_settings_lost:
  assumes "authMethod ks = ''SASL/GSSAPI''" and "plain_certificate (saved_certificate ks)"
    and "mapBackendKafkaConfigToStore (connectionParams d ks) now s = Some ks'"
  shows "authMethod ks' = ''SASL/GSSAPI'' \<and>
    kerberosRealm (saslGssapi ks') = kerberosRealm (saslGssapi ks) \<and>
    kerberosKeytab (saslGssapi ks') = kerberosKeytab (saslGssapi ks) \<and>
    kerberosPrincipal (saslGssapi ks') = [] \<and> serviceName (saslGssapi ks') = [] \<and>
    krb5Config (saslGssapi ks') = [] \<and> kdc (saslGssapi ks') = [] \<and>
    credentials_issues (SaslGssapi (saslGssapi ks')) \<noteq> []"
proof -
  let ?p = "connectionParams d ks"
  have m: "authMethod ks \<in> set (''NO_AUTH'' # ''SASL/GSSAPI'' # user_methods)" using assms(1) by simp
  have k: "ks' = loaded_connection ?p (saved_certificate ks) now s"
    using loaded_params [OF m assms(2)] assms(3) by simp
  have "authMethod ks' = ''SASL/GSSAPI''"
    using m mechanisms_back params_read(1) [OF m] assms(1) unfolding k by (simp add: loaded_connection_def list_all_iff)
  moreover have "text_at ''kerberos_realm'' ?p = kerberosRealm (saslGssapi ks)"
    "text_at ''kerberos_keytab'' ?p = kerberosKeytab (saslGssapi ks)"
    "text_at ''kerberos_principal'' ?p = []" "text_at ''service_name'' ?p = []" "text_at ''krb5_config'' ?p = []"
    "text_at ''kdc'' ?p = []"
    using assms(1) by (auto simp: text_at_def connectionParams_def method_params_def certificate_params_eq)
  ultimately show ?thesis unfolding k by (simp add: loaded_connection_def required_def)
qed

definition plain_store :: "string \<Rightarrow> KafkaStore" where
  "plain_store m = initialKafkaStore
     \<lparr>authMethod := m, securityProtocol := ''SASL_SSL'', bootstrapServers := ''a:9092, b:9092'',
      saslPlain := \<lparr>su_username = ''u'', su_password = ''p'',
        su_truststore = Some (emptyTruststore\<lparr>certificates := Some ''pem''\<rparr>), consumerGroup = Some ''g''\<rparr>\<rparr>"

lemma plain_store_certificate: "plain_certificate (saved_certificate (plain_store m))"
  by (auto simp: plain_certificate_def saved_certificate_def method_certificate_def method_store_def plain_store_def
      initialKafkaStore_def emptyTruststore_def emptySaslUser_def split: option.split)


lemma gssapi_settings_lost_witness:
  "\<exists>k. mapBackendKafkaConfigToStore (connectionParams False (plain_store ''SASL/GSSAPI'')) 0 initialKafkaStore = Some k \<and>
     kerberosPrincipal (saslGssapi k) = []"
proof -
  have a: "authMethod (plain_store ''SASL/GSSAPI'') = ''SASL/GSSAPI''" by (simp add: plain_store_def)
  then obtain k where "mapBackendKafkaConfigToStore (connectionParams False (plain_store ''SASL/GSSAPI'')) 0 initialKafkaStore = Some k"
    using loaded_params [of "plain_store ''SASL/GSSAPI''"] plain_store_certificate by auto
  with gssapi_settings_lost [OF a plain_store_certificate this] show ?thesis by blast
qed

end
