(* ===== verification/Pipeline_Config.thy ===== *)
theory Pipeline_Config
  imports Transformation_Loading Event_Fields Js_Numbers
begin

text \<open>
  The pipeline configuration the user interface works with (ui/src/types/pipeline.ts,
  \<open>InternalPipelineConfig\<close>): what the pipeline adapters read API documents into and write them
  from, and what the stores are turned into before a pipeline is saved. Its structure is typed, its
  leaves are the untyped values of the documents (\<open>any\<close> in the code), an absent property being
  \<open>JUndef\<close>. A topic and a sink carry every property that any of the producers sets.
\<close>

section \<open>Types\<close>

record SchemaField =
  sf_name :: json
  sf_type :: json
  sf_userType :: json
  sf_isRemoved :: json

record TopicDedup =
  dd_enabled :: bool
  dd_id_field :: json
  dd_id_field_type :: json
  dd_time_window :: json

record InternalTopic =
  it_id :: json
  it_name :: json
  it_offset :: json
  it_replicas :: json
  it_fields :: "SchemaField list"
  it_dedup :: TopicDedup
  it_schema_version :: json
  it_schema_registry :: json
  it_schemaSource :: json
  it_registryVersion :: json
  it_registrySubject :: json

record SchemaRegistry =
  rg_url :: json
  rg_authMethod :: json
  rg_apiKey :: json
  rg_apiSecret :: json
  rg_username :: json
  rg_password :: json

record SourceDedup =
  sd_enabled :: bool
  sd_key :: json
  sd_time_window :: json

record InternalSource =
  so_type :: string
  so_id :: json
  so_provider :: json
  so_connection :: json
  so_topics :: "InternalTopic list"
  so_registry :: "SchemaRegistry option"
  so_dedup :: "SourceDedup option"

record InternalJoinSource =
  jo_source_id :: json
  jo_key :: json
  jo_time_window :: json
  jo_orientation :: string

record InternalJoin =
  jn_enabled :: bool
  jn_type :: json
  jn_id :: json
  jn_sources :: "InternalJoinSource list"

record InternalFilter =
  if_enabled :: bool
  if_expression :: json

record InternalTransformation =
  ir_enabled :: bool
  ir_fields :: "TransformationField list"
  ir_source_id :: json

record MappingRow =
  mr_source_id :: json
  mr_field_name :: json
  mr_column_name :: json
  mr_column_type :: json

record InternalSink =
  sk_type :: json
  sk_host :: json
  sk_http_port :: json
  sk_port :: json
  sk_database :: json
  sk_username :: json
  sk_password :: json
  sk_secure :: json
  sk_skip_verification :: json
  sk_table :: json
  sk_engine :: json
  sk_order_by :: json
  sk_max_batch_size :: json
  sk_max_delay_time :: json
  sk_mapping :: "MappingRow list"

record InternalPipelineConfig =
  ic_pipeline_id :: json
  ic_name :: json
  ic_source :: InternalSource
  ic_join :: InternalJoin
  ic_filter :: "InternalFilter option"
  ic_transformation :: "InternalTransformation option"
  ic_sink :: InternalSink
  ic_resources :: json
  ic_metadata :: json

section \<open>JavaScript on untyped values\<close>

text \<open>A value in a template literal.\<close>

fun template_text :: "json \<Rightarrow> string" and template_elements :: "json list \<Rightarrow> string list" where
  "template_text JUndef = ''undefined''"
| "template_text JNull = ''null''"
| "template_text (JBool b) = (if b then ''true'' else ''false'')"
| "template_text (JNum n) = number_to_string n"
| "template_text (JStr s) = s"
| "template_text (JArr xs) = join '','' (template_elements xs)"
| "template_text (JObj kvs) = ''[object Object]''"
| "template_elements [] = []"
| "template_elements (x # xs) = (if nullish x then [] else template_text x) # template_elements xs"

text \<open>A property that is only set for a value that is there: \<open>...(v != null ? { k: v } : {})\<close>.\<close>

definition when_given :: "json \<Rightarrow> json" where
  "when_given v = (if nullish v then JUndef else v)"

text \<open>\<open>{ ...base, ...obj }\<close>\<close>

fun assign_property :: "(string \<times> json) list \<Rightarrow> string \<Rightarrow> json \<Rightarrow> (string \<times> json) list" where
  "assign_property [] k v = [(k, v)]"
| "assign_property ((k', v') # kvs) k v = (if k' = k then (k, v) # kvs else (k', v') # assign_property kvs k v)"

definition spread :: "(string \<times> json) list \<Rightarrow> json \<Rightarrow> json" where
  "spread base obj = JObj (fold (\<lambda>(k, v) kvs. assign_property kvs k v) (own_properties obj) base)"

text \<open>\<open>...(v ? { k: v } : {})\<close>\<close>

definition if_truthy :: "string \<Rightarrow> json \<Rightarrow> (string \<times> json) list" where
  "if_truthy k v = (if jtruthy v then [(k, v)] else [])"

end
