(* ===== verification/Pipeline_Adapter.thy ===== *)
theory Pipeline_Adapter
  imports Pipeline_Config
begin

text \<open>
  The adapter of the current API format (ui/src/modules/pipeline-adapters/v3.ts): \<open>hydrate\<close> reads an
  API document into the internal configuration, \<open>generate\<close> writes the document that is saved. The
  deep copy that \<open>hydrate\<close> starts with is the identity on values. A value that is used as an array
  and is none, and a property of a value that is null, raise in the code; here they are empty and
  undefined.
\<close>

section \<open>Reading a document\<close>

definition is_otlp_source :: "json \<Rightarrow> bool" where
  "is_otlp_source s \<longleftrightarrow> (case jget ''type'' s of JStr t \<Rightarrow> starts_with ''otlp.'' t | _ \<Rightarrow> False)"

definition hydrated_schema_field :: "json \<Rightarrow> SchemaField" where
  "hydrated_schema_field f = \<lparr>sf_name = jget ''name'' f, sf_type = or_nullish (jget ''type'' f) (JStr ''string''),
     sf_userType = JUndef, sf_isRemoved = JUndef\<rparr>"

definition no_topic_dedup :: TopicDedup where
  "no_topic_dedup = \<lparr>dd_enabled = False, dd_id_field = JStr [], dd_id_field_type = JStr ''string'',
     dd_time_window = JStr ''1h''\<rparr>"

definition hydrated_source_topic :: "json \<Rightarrow> InternalTopic" where
  "hydrated_source_topic s =
     \<lparr>it_id = jget ''source_id'' s, it_name = or_nullish (jget ''topic'' s) (jget ''source_id'' s),
      it_offset = or_nullish (jget ''consumer_group_initial_offset'' s) (JStr ''latest''), it_replicas = JUndef,
      it_fields = map hydrated_schema_field (jelements (jget ''schema_fields'' s)), it_dedup = no_topic_dedup,
      it_schema_version = when_given (jget ''schema_version'' s),
      it_schema_registry = when_given (jget ''schema_registry'' s),
      it_schemaSource = (if jtruthy (jget ''url'' (jget ''schema_registry'' s)) then JStr ''external'' else JUndef),
      it_registryVersion = JUndef, it_registrySubject = JUndef\<rparr>"

definition hydrated_registry :: "json \<Rightarrow> SchemaRegistry" where
  "hydrated_registry sr =
     \<lparr>rg_url = or_nullish (jget ''url'' sr) (JStr []),
      rg_authMethod = JStr (if jtruthy (jget ''api_key'' sr) then ''api_key'' else ''none''),
      rg_apiKey = or_nullish (jget ''api_key'' sr) (JStr []), rg_apiSecret = or_nullish (jget ''api_secret'' sr) (JStr []),
      rg_username = JStr [], rg_password = JStr []\<rparr>"

definition hydrated_source :: "json list \<Rightarrow> InternalSource" where
  "hydrated_source srcs =
     (case filter is_otlp_source srcs of
        s # _ \<Rightarrow> \<lparr>so_type = (case jget ''type'' s of JStr t \<Rightarrow> t | _ \<Rightarrow> []), so_id = jget ''source_id'' s,
            so_provider = JUndef, so_connection = JUndef, so_topics = [], so_registry = None, so_dedup = None\<rparr>
      | [] \<Rightarrow>
          (let first = (case srcs of s # _ \<Rightarrow> s | [] \<Rightarrow> JUndef)
           in \<lparr>so_type = ''kafka'', so_id = JUndef,
               so_provider = (if jtruthy (jget ''provider'' first) then jget ''provider'' first else JUndef),
               so_connection = or_nullish (jget ''connection_params'' first) (JObj []),
               so_topics = map hydrated_source_topic srcs,
               so_registry = map_option (\<lambda>s. hydrated_registry (jget ''schema_registry'' s))
                 (find (\<lambda>s. jtruthy (jget ''url'' (jget ''schema_registry'' s))) srcs),
               so_dedup = None\<rparr>))"

text \<open>The first element that satisfies a test is replaced: \<open>find\<close> and an assignment to what it found.\<close>

fun update_first :: "('a \<Rightarrow> bool) \<Rightarrow> ('a \<Rightarrow> 'a) \<Rightarrow> 'a list \<Rightarrow> 'a list" where
  "update_first p f [] = []"
| "update_first p f (x # xs) = (if p x then f x # xs else x # update_first p f xs)"

type_synonym TransformState = "InternalSource \<times> InternalFilter \<times> InternalTransformation"

definition read_item :: "json \<Rightarrow> TransformArrayItem" where
  "read_item t =
     (let text = (\<lambda>k. case jget k t of JStr s \<Rightarrow> s | _ \<Rightarrow> [])
      in \<lparr>expression = text ''expression'', output_name = text ''output_name'', output_type = text ''output_type''\<rparr>)"

definition hydrate_dedup :: "bool \<Rightarrow> json \<Rightarrow> InternalSource \<Rightarrow> InternalSource" where
  "hydrate_dedup otlp t src =
     (let key = or_nullish (jget ''key'' (jget ''config'' t)) (JStr []);
          window = or_nullish (jget ''time_window'' (jget ''config'' t)) (JStr ''1h'')
      in if otlp then src\<lparr>so_dedup := Some \<lparr>sd_enabled = True, sd_key = key, sd_time_window = window\<rparr>\<rparr>
         else src\<lparr>so_topics := update_first (\<lambda>tp. it_id tp = jget ''source_id'' t)
           (\<lambda>tp. tp\<lparr>it_dedup := \<lparr>dd_enabled = True, dd_id_field = key, dd_id_field_type = JStr ''string'',
              dd_time_window = window\<rparr>\<rparr>) (so_topics src)\<rparr>)"

definition hydrate_transform :: "bool \<Rightarrow> json \<Rightarrow> TransformState \<Rightarrow> TransformState" where
  "hydrate_transform otlp t = (\<lambda>(src, filt, trans).
     (if jget ''type'' t = JStr ''dedup'' then (hydrate_dedup otlp t src, filt, trans)
      else if jget ''type'' t = JStr ''filter''
      then (src, \<lparr>if_enabled = True, if_expression = or_nullish (jget ''expression'' (jget ''config'' t)) (JStr [])\<rparr>, trans)
      else if jget ''type'' t = JStr ''stateless''
      then (src, filt, \<lparr>ir_enabled = True,
              ir_fields = map (\<lambda>(i, x). mapTransformToField (read_item x) i)
                (enumerate 0 (jelements (jget ''transforms'' (jget ''config'' t)))),
              ir_source_id = jget ''source_id'' t\<rparr>)
      else (src, filt, trans)))"

definition no_filter :: InternalFilter where
  "no_filter = \<lparr>if_enabled = False, if_expression = JStr []\<rparr>"

definition no_transformation :: InternalTransformation where
  "no_transformation = \<lparr>ir_enabled = False, ir_fields = [], ir_source_id = JUndef\<rparr>"

definition hydrated_side :: "json \<Rightarrow> string \<Rightarrow> string \<Rightarrow> InternalJoinSource list" where
  "hydrated_side joinCfg k side =
     (let s = jget k joinCfg
      in if jtruthy s
         then [\<lparr>jo_source_id = jget ''source_id'' s, jo_key = jget ''key'' s, jo_time_window = jget ''time_window'' s,
                jo_orientation = side\<rparr>] else [])"

definition hydrated_join :: "json \<Rightarrow> InternalJoin" where
  "hydrated_join joinCfg =
     (if jtruthy (jget ''enabled'' joinCfg)
      then \<lparr>jn_enabled = True, jn_type = or_nullish (jget ''type'' joinCfg) (JStr ''temporal''),
            jn_id = (if jtruthy (jget ''id'' joinCfg) then jget ''id'' joinCfg else JUndef),
            jn_sources = hydrated_side joinCfg ''left_source'' ''left'' @ hydrated_side joinCfg ''right_source'' ''right''\<rparr>
      else \<lparr>jn_enabled = False, jn_type = JStr ''temporal'', jn_id = JUndef, jn_sources = []\<rparr>)"

definition empty_sink :: InternalSink where
  "empty_sink = \<lparr>sk_type = JUndef, sk_host = JUndef, sk_http_port = JUndef, sk_port = JUndef, sk_database = JUndef,
     sk_username = JUndef, sk_password = JUndef, sk_secure = JUndef, sk_skip_verification = JUndef, sk_table = JUndef,
     sk_engine = JUndef, sk_order_by = JUndef, sk_max_batch_size = JUndef, sk_max_delay_time = JUndef, sk_mapping = []\<rparr>"

definition sink_value :: "json \<Rightarrow> string \<Rightarrow> json \<Rightarrow> json" where
  "sink_value s k d = or_nullish (jget k (jget ''connection_params'' s)) (or_nullish (jget k s) d)"

definition hydrated_row :: "json \<Rightarrow> json \<Rightarrow> MappingRow" where
  "hydrated_row sourceId m =
     \<lparr>mr_source_id = or_nullish sourceId (JStr []), mr_field_name = jget ''name'' m,
      mr_column_name = jget ''column_name'' m, mr_column_type = jget ''column_type'' m\<rparr>"

definition hydrated_sink :: "json \<Rightarrow> InternalSink" where
  "hydrated_sink s =
     (if \<not> jtruthy s then empty_sink
      else \<lparr>sk_type = or_nullish (jget ''type'' s) (JStr ''clickhouse''),
            sk_host = sink_value s ''host'' (JStr []), sk_http_port = sink_value s ''http_port'' (JStr ''8123''),
            sk_port = sink_value s ''port'' (JStr ''9000''), sk_database = sink_value s ''database'' (JStr ''default''),
            sk_username = sink_value s ''username'' (JStr []), sk_password = sink_value s ''password'' (JStr []),
            sk_secure = sink_value s ''secure'' (JBool False),
            sk_skip_verification = when_given (sink_value s ''skip_certificate_verification'' JUndef),
            sk_table = or_nullish (jget ''table'' s) (JStr []), sk_engine = JUndef, sk_order_by = JUndef,
            sk_max_batch_size = or_nullish (jget ''max_batch_size'' s) (JNum (Fin 1000 0)),
            sk_max_delay_time = or_nullish (jget ''max_delay_time'' s) (JStr ''1s''),
            sk_mapping = map (hydrated_row (jget ''source_id'' s)) (jelements (jget ''mapping'' s))\<rparr>)"

text \<open>\<open>{ requests: x.requests, limits: x.limits, replicas: x.replicas }\<close>\<close>

definition resource_part :: "json \<Rightarrow> (string \<times> json) list" where
  "resource_part x = map (\<lambda>k. (k, jget k x)) [''requests'', ''limits'', ''replicas'']"

definition found_part :: "string \<Rightarrow> json \<Rightarrow> json list \<Rightarrow> (string \<times> json) list" where
  "found_part k i srcRes =
     (case find (\<lambda>s. jget ''source_id'' s = i) srcRes of Some s \<Rightarrow> [(k, JObj (resource_part s))] | None \<Rightarrow> [])"

definition hydrated_ingestor :: "json \<Rightarrow> json list \<Rightarrow> (string \<times> json) list" where
  "hydrated_ingestor joinCfg srcRes =
     (case srcRes of [] \<Rightarrow> []
      | base # _ \<Rightarrow> [(''ingestor'', JObj
          (if jtruthy (jget ''enabled'' joinCfg)
           then found_part ''left'' (jget ''source_id'' (jget ''left_source'' joinCfg)) srcRes
              @ found_part ''right'' (jget ''source_id'' (jget ''right_source'' joinCfg)) srcRes
           else [(''base'', JObj (resource_part base))]))])"

definition hydrated_resources :: "json \<Rightarrow> json \<Rightarrow> json" where
  "hydrated_resources joinCfg r =
     (if \<not> jtruthy r then JUndef
      else JObj (if_truthy ''nats'' (jget ''nats'' r) @ if_truthy ''sink'' (jget ''sink'' r)
        @ hydrated_ingestor joinCfg (jelements (jget ''sources'' r))
        @ (case jelements (jget ''transform'' r) of [] \<Rightarrow> []
           | t # _ \<Rightarrow> [(''transform'', JObj (resource_part t @ [(''storage'', jget ''storage'' t)]))])))"

definition hydrate :: "json \<Rightarrow> InternalPipelineConfig" where
  "hydrate config =
     (let srcs = jelements (jget ''sources'' config);
          otlp = filter is_otlp_source srcs \<noteq> [];
          joinCfg = or_nullish (jget ''join'' config) (JObj []);
          (src, filt, trans) = fold (hydrate_transform otlp) (jelements (jget ''transforms'' config))
            (hydrated_source srcs, no_filter, no_transformation)
      in \<lparr>ic_pipeline_id = jget ''pipeline_id'' config, ic_name = jget ''name'' config,
          ic_source = src, ic_join = hydrated_join joinCfg, ic_filter = Some filt, ic_transformation = Some trans,
          ic_sink = hydrated_sink (jget ''sink'' config),
          ic_resources = hydrated_resources joinCfg (jget ''resources'' config),
          ic_metadata = when_given (jget ''metadata'' config)\<rparr>)"

section \<open>Writing a document\<close>

definition isRegistrySchema :: "json \<Rightarrow> bool" where
  "isRegistrySchema s \<longleftrightarrow> s = JStr ''external'' \<or> s = JStr ''registry_resolved_from_event''"

text \<open>The API key and the secret of the registry.\<close>

definition registry_credentials :: "SchemaRegistry option \<Rightarrow> json \<times> json" where
  "registry_credentials reg =
     (case reg of None \<Rightarrow> (JStr [], JStr [])
      | Some r \<Rightarrow>
          if rg_authMethod r = JStr ''api_key''
          then (or_nullish (rg_apiKey r) (JStr []), or_nullish (rg_apiSecret r) (JStr []))
          else if rg_authMethod r = JStr ''basic''
          then (or_nullish (rg_username r) (JStr []), or_nullish (rg_password r) (JStr []))
          else (JStr [], JStr []))"

definition schemaVersion :: "InternalTopic \<Rightarrow> json" where
  "schemaVersion t =
     (if isRegistrySchema (it_schemaSource t) \<and> jtruthy (it_registryVersion t) \<and> it_registryVersion t \<noteq> JStr ''latest''
      then if jtruthy (it_registrySubject t)
           then JStr (template_text (it_registrySubject t) @ '':'' @ template_text (it_registryVersion t))
           else it_registryVersion t
      else or_nullish (it_schema_version t) (JStr ''1''))"

definition generated_field :: "SchemaField \<Rightarrow> json" where
  "generated_field f = JObj [(''name'', sf_name f),
     (''type'', or_falsy (sf_userType f) (or_nullish (sf_type f) (JStr ''string'')))]"

definition topic_source_id :: "InternalTopic \<Rightarrow> json" where
  "topic_source_id t = or_nullish (it_id t) (it_name t)"

definition default_registry :: "SchemaRegistry option \<Rightarrow> json" where
  "default_registry reg =
     (let (k, s) = registry_credentials reg
      in JObj [(''url'', or_nullish (case reg of Some r \<Rightarrow> rg_url r | None \<Rightarrow> JUndef) (JStr [])),
          (''api_key'', k), (''api_secret'', s)])"

definition generated_source :: "InternalSource \<Rightarrow> InternalTopic \<Rightarrow> json" where
  "generated_source src t =
     JObj [(''type'', JStr ''kafka''), (''source_id'', topic_source_id t), (''connection_params'', so_connection src),
       (''topic'', it_name t), (''consumer_group_initial_offset'', or_nullish (it_offset t) (JStr ''latest'')),
       (''schema_fields'', JArr (map generated_field (filter (\<lambda>f. \<not> jtruthy (sf_isRemoved f)) (it_fields t)))),
       (''schema_version'', schemaVersion t),
       (''schema_registry'', or_nullish (it_schema_registry t) (default_registry (so_registry src)))]"

definition source_is_otlp :: "InternalSource \<Rightarrow> bool" where
  "source_is_otlp src \<longleftrightarrow> starts_with ''otlp.'' (so_type src)"

definition generated_sources :: "InternalSource \<Rightarrow> json list" where
  "generated_sources src =
     (if source_is_otlp src
      then [JObj [(''type'', JStr (so_type src)), (''source_id'', or_nullish (so_id src) (JStr ''source''))]]
      else map (generated_source src) (so_topics src))"

definition dedup_entry :: "json \<Rightarrow> json \<Rightarrow> json \<Rightarrow> json" where
  "dedup_entry sid key window =
     JObj [(''type'', JStr ''dedup''), (''source_id'', sid),
       (''config'', JObj [(''key'', key), (''time_window'', or_nullish window (JStr ''1h''))])]"

definition topic_dedup_entry :: "InternalTopic \<Rightarrow> json list" where
  "topic_dedup_entry t =
     (if dd_enabled (it_dedup t) \<and> jtruthy (dd_id_field (it_dedup t))
      then [dedup_entry (topic_source_id t) (dd_id_field (it_dedup t)) (dd_time_window (it_dedup t))] else [])"

definition dedup_entries :: "InternalSource \<Rightarrow> json list" where
  "dedup_entries src =
     (if source_is_otlp src
      then case so_dedup src of
             Some d \<Rightarrow> if sd_enabled d \<and> jtruthy (sd_key d)
               then [dedup_entry (or_nullish (so_id src) (JStr ''source'')) (sd_key d) (sd_time_window d)] else []
           | None \<Rightarrow> []
      else concat (map topic_dedup_entry (so_topics src)))"

text \<open>The source a filter, a transformation and their resources belong to.\<close>

definition first_source_id :: "InternalSource \<Rightarrow> json" where
  "first_source_id src =
     (if source_is_otlp src then or_nullish (so_id src) (JStr ''source'')
      else case so_topics src of t # _ \<Rightarrow> or_nullish (topic_source_id t) (JStr ''source'') | [] \<Rightarrow> JStr ''source'')"

definition filter_entries :: "InternalPipelineConfig \<Rightarrow> json list" where
  "filter_entries cfg =
     (case ic_filter cfg of
        Some f \<Rightarrow> if if_enabled f
          then [JObj [(''type'', JStr ''filter''), (''source_id'', first_source_id (ic_source cfg)),
                  (''config'', JObj [(''expression'', or_nullish (if_expression f) (JStr []))])]]
          else []
      | None \<Rightarrow> [])"

definition slug_char :: "char \<Rightarrow> char" where
  "slug_char c = (if (CHR ''a'' \<le> c \<and> c \<le> CHR ''z'') \<or> is_digit c \<or> c = CHR ''-'' then c else CHR ''-'')"

definition strip_suffix :: "string \<Rightarrow> string \<Rightarrow> string" where
  "strip_suffix suf s =
     (let n = length s - length suf
      in if length suf \<le> length s \<and> drop n s = suf then take n s else s)"

definition transform_base_name :: "string \<Rightarrow> string" where
  "transform_base_name s = strip_suffix ''-transform'' (map slug_char (toLowerCase s))"

definition transform_id :: "InternalPipelineConfig \<Rightarrow> string" where
  "transform_id cfg =
     transform_base_name (case or_nullish (ic_name cfg) (or_nullish (ic_pipeline_id cfg) (JStr ''transform'')) of
        JStr s \<Rightarrow> s | _ \<Rightarrow> []) @ ''-transform''"

definition written_item :: "TransformArrayItem \<Rightarrow> json" where
  "written_item i = JObj [(''expression'', JStr (expression i)), (''output_name'', JStr (output_name i)),
     (''output_type'', JStr (output_type i))]"

definition stateless_entries :: "InternalPipelineConfig \<Rightarrow> json list" where
  "stateless_entries cfg =
     (case ic_transformation cfg of
        Some t \<Rightarrow> if ir_enabled t \<and> ir_fields t \<noteq> []
          then [JObj [(''type'', JStr ''stateless''), (''id'', JStr (transform_id cfg)),
                  (''source_id'', or_nullish (ir_source_id t) (first_source_id (ic_source cfg))),
                  (''config'', JObj [(''transforms'',
                     JArr (map written_item (toTransformArray \<lparr>tc_enabled = True, tc_fields = ir_fields t\<rparr>)))])]]
          else []
      | None \<Rightarrow> [])"

definition generated_transforms :: "InternalPipelineConfig \<Rightarrow> json list" where
  "generated_transforms cfg = dedup_entries (ic_source cfg) @ filter_entries cfg @ stateless_entries cfg"

definition join_side :: "string \<Rightarrow> InternalJoin \<Rightarrow> InternalJoinSource option" where
  "join_side side j = find (\<lambda>s. jo_orientation s = side) (jn_sources j)"

text \<open>The fields of the joined records, one for each source and name.\<close>

definition row_key :: "MappingRow \<Rightarrow> string" where
  "row_key m = template_text (mr_source_id m) @ '':'' @ template_text (mr_field_name m)"

fun output_fields :: "string list \<Rightarrow> MappingRow list \<Rightarrow> json list" where
  "output_fields seen [] = []"
| "output_fields seen (m # ms) =
     (if row_key m \<in> set seen then output_fields seen ms
      else JObj [(''source_id'', mr_source_id m), (''name'', mr_field_name m), (''output_name'', mr_field_name m)]
           # output_fields (row_key m # seen) ms)"

definition generated_side :: "string \<Rightarrow> InternalJoinSource option \<Rightarrow> (string \<times> json) list" where
  "generated_side k side =
     (case side of None \<Rightarrow> []
      | Some s \<Rightarrow> [(k, JObj [(''source_id'', jo_source_id s), (''key'', jo_key s), (''time_window'', jo_time_window s)])])"

definition generated_join :: "InternalJoin \<Rightarrow> MappingRow list \<Rightarrow> json" where
  "generated_join j rows =
     JObj ([(''enabled'', JBool True), (''type'', or_nullish (jn_type j) (JStr ''temporal''))]
       @ if_truthy ''id'' (jn_id j)
       @ generated_side ''left_source'' (join_side ''left'' j)
       @ generated_side ''right_source'' (join_side ''right'' j)
       @ (if output_fields [] rows = [] then [] else [(''output_fields'', JArr (output_fields [] rows))]))"

definition written_row :: "MappingRow \<Rightarrow> json" where
  "written_row m = JObj [(''name'', mr_field_name m), (''column_name'', mr_column_name m), (''column_type'', mr_column_type m)]"

definition generated_sink :: "InternalSink \<Rightarrow> json" where
  "generated_sink s =
     JObj ([(''type'', or_nullish (sk_type s) (JStr ''clickhouse'')),
        (''connection_params'', JObj ([(''host'', or_nullish (sk_host s) (JStr [])),
           (''port'', or_nullish (sk_port s) (JStr ''9000'')),
           (''http_port'', or_nullish (sk_http_port s) (JStr ''8123'')),
           (''database'', or_nullish (sk_database s) (JStr ''default'')),
           (''username'', or_nullish (sk_username s) (JStr [])), (''password'', or_nullish (sk_password s) (JStr [])),
           (''secure'', or_nullish (sk_secure s) (JBool False))]
           @ (if nullish (sk_skip_verification s) then []
              else [(''skip_certificate_verification'', sk_skip_verification s)]))),
        (''table'', sk_table s)]
       @ if_truthy ''engine'' (sk_engine s) @ if_truthy ''order_by'' (sk_order_by s)
       @ [(''max_batch_size'', or_nullish (sk_max_batch_size s) (JNum (Fin 1000 0))),
          (''max_delay_time'', or_nullish (sk_max_delay_time s) (JStr ''1s'')),
          (''mapping'', JArr (map written_row (sk_mapping s)))])"

definition side_resources :: "InternalJoinSource option \<Rightarrow> json \<Rightarrow> json list" where
  "side_resources side part =
     (case side of Some s \<Rightarrow> if jtruthy part then [spread [(''source_id'', jo_source_id s)] part] else [] | None \<Rightarrow> [])"

definition source_resources :: "InternalPipelineConfig \<Rightarrow> json list" where
  "source_resources cfg =
     (let ingestor = jget ''ingestor'' (ic_resources cfg)
      in if \<not> jtruthy ingestor then []
         else if jn_enabled (ic_join cfg)
         then side_resources (join_side ''left'' (ic_join cfg)) (jget ''left'' ingestor)
            @ side_resources (join_side ''right'' (ic_join cfg)) (jget ''right'' ingestor)
         else if jtruthy (jget ''base'' ingestor) \<and> \<not> source_is_otlp (ic_source cfg)
         then [spread [(''source_id'', first_source_id (ic_source cfg))] (jget ''base'' ingestor)] else [])"

definition without_property :: "string \<Rightarrow> json \<Rightarrow> json" where
  "without_property k x = JObj (filter (\<lambda>(k', _). k' \<noteq> k) (own_properties x))"

definition transform_resources :: "InternalPipelineConfig \<Rightarrow> json list" where
  "transform_resources cfg =
     (let t = jget ''transform'' (ic_resources cfg)
      in if \<not> jtruthy t then []
         else let out = spread [(''source_id'', first_source_id (ic_source cfg))] t
              in [if dedup_entries (ic_source cfg) = [] then without_property ''storage'' out else out])"

definition resources_document :: "InternalPipelineConfig \<Rightarrow> json" where
  "resources_document cfg =
     JObj (if_truthy ''nats'' (jget ''nats'' (ic_resources cfg))
       @ (if source_resources cfg = [] then [] else [(''sources'', JArr (source_resources cfg))])
       @ (if transform_resources cfg = [] then [] else [(''transform'', JArr (transform_resources cfg))])
       @ if_truthy ''sink'' (jget ''sink'' (ic_resources cfg)))"

definition generate :: "InternalPipelineConfig \<Rightarrow> json" where
  "generate cfg =
     JObj ([(''version'', JStr ''v3''), (''pipeline_id'', ic_pipeline_id cfg), (''name'', ic_name cfg),
        (''sources'', JArr (generated_sources (ic_source cfg)))]
       @ (if generated_transforms cfg = [] then [] else [(''transforms'', JArr (generated_transforms cfg))])
       @ (if jn_enabled (ic_join cfg) then [(''join'', generated_join (ic_join cfg) (sk_mapping (ic_sink cfg)))] else [])
       @ [(''sink'', generated_sink (ic_sink cfg))]
       @ (if jtruthy (ic_resources cfg) then [(''resources'', resources_document cfg)] else [])
       @ if_truthy ''metadata'' (ic_metadata cfg))"

end
