(* ===== verification/Pipeline_Building.thy ===== *)
theory Pipeline_Building
  imports Root_Store Durations Column_Types Kafka_Params Pipeline_Adapter
begin

text \<open>
  From the stores to the document that is saved: \<open>buildInternalPipelineConfig\<close> and
  \<open>generateApiConfig\<close> (ui/src/modules/clickhouse/utils.ts). The id for a pipeline without one and the
  Docker flag are arguments; the mapping of the destination, which the store keeps untyped, is taken
  with the type the mapper gives it. A mapped column without a type raises.
\<close>

section \<open>The input\<close>

record BuildInput =
  bi_pipelineId :: string
  bi_pipelineName :: string
  bi_newId :: string
  bi_inDocker :: bool
  bi_connection :: ClickhouseConnection
  bi_destination :: ClickhouseDestinationState
  bi_mapping :: "TableColumn list"
  bi_topics :: "KafkaTopic list"
  bi_join :: JoinStore
  bi_kafka :: KafkaStore
  bi_dedup :: DeduplicationStore
  bi_filter :: FilterStore
  bi_transformation :: TransformationStore
  bi_sourceType :: "string option"
  bi_otlp :: OtlpStore

definition otlp_input :: "BuildInput \<Rightarrow> bool" where
  "otlp_input i \<longleftrightarrow> (case bi_sourceType i of Some t \<Rightarrow> t \<noteq> [] \<and> isOtlpSource t | None \<Rightarrow> False)"

definition json_text :: "string option \<Rightarrow> json" where
  "json_text t = (case t of Some s \<Rightarrow> JStr s | None \<Rightarrow> JUndef)"

fun offset_text :: "InitialOffset \<Rightarrow> string" where
  "offset_text Earliest = ''earliest''"
| "offset_text Latest = ''latest''"

fun schema_source_text :: "SchemaSource \<Rightarrow> string" where
  "schema_source_text SchemaSource.Internal = ''internal''"
| "schema_source_text External = ''external''"
| "schema_source_text RegistryResolvedFromEvent = ''registry_resolved_from_event''"

fun side_text :: "JoinOrientation \<Rightarrow> string" where
  "side_text LeftSide = ''left''"
| "side_text RightSide = ''right''"

section \<open>Topics\<close>

definition event_data :: "KafkaTopic \<Rightarrow> json" where
  "event_data t = (if jtruthy (event (selectedEvent t)) then without_metadata (event (selectedEvent t)) else JObj [])"

definition plain_field_schema :: "string \<Rightarrow> string \<Rightarrow> SchemaField" where
  "plain_field_schema n t = \<lparr>sf_name = JStr n, sf_type = JStr t, sf_userType = JUndef, sf_isRemoved = JUndef\<rparr>"

definition topic_fields :: "TableColumn list \<Rightarrow> KafkaTopic \<Rightarrow> SchemaField list" where
  "topic_fields mapping t =
     (case topic_schema t of
        Some (f # fs) \<Rightarrow>
          map (\<lambda>f. plain_field_schema (fs_name f) (or_text (text_of (userType f)) (or_text (fs_type f) ''string'')))
            (filter (\<lambda>f. isRemoved f \<noteq> Some True) (f # fs))
      | _ \<Rightarrow>
          map (\<lambda>p. plain_field_schema p (or_text (text_of (getMappingType p mapping)) (getFieldType (event_data t) p)))
            (extractEventFields (event_data t) []))"

definition dedup_window :: "DeduplicationConfig \<Rightarrow> string" where
  "dedup_window d = (if jtruthy (JNum (dc_window d)) then window_text (dc_window d) (dc_unit d) else ''1h'')"

definition topic_dedup :: "DeduplicationConfig option \<Rightarrow> TopicDedup" where
  "topic_dedup d =
     (case d of
        Some d \<Rightarrow> if dc_enabled d \<and> dc_key d \<noteq> []
          then \<lparr>dd_enabled = True, dd_id_field = JStr (dc_key d), dd_id_field_type = JStr (dc_keyType d),
                dd_time_window = JStr (dedup_window d)\<rparr>
          else \<lparr>dd_enabled = False, dd_id_field = JUndef, dd_id_field_type = JUndef, dd_time_window = JUndef\<rparr>
      | None \<Rightarrow> \<lparr>dd_enabled = False, dd_id_field = JUndef, dd_id_field_type = JUndef, dd_time_window = JUndef\<rparr>)"

definition built_topic :: "BuildInput \<Rightarrow> nat \<Rightarrow> KafkaTopic \<Rightarrow> InternalTopic" where
  "built_topic i n t =
     \<lparr>it_id = JStr (topic_name t), it_name = JStr (topic_name t), it_offset = JStr (offset_text (initialOffset t)),
      it_replicas = (case replicas t of Some r \<Rightarrow> JNum r | None \<Rightarrow> JUndef), it_fields = topic_fields (bi_mapping i) t,
      it_dedup = topic_dedup (getDeduplication n (bi_dedup i)), it_schema_version = JUndef, it_schema_registry = JUndef,
      it_schemaSource = json_text (map_option schema_source_text (schemaSource t)),
      it_registryVersion = json_text (schemaRegistryVersion t), it_registrySubject = json_text (schemaRegistrySubject t)\<rparr>"

definition topicsConfig :: "BuildInput \<Rightarrow> InternalTopic list" where
  "topicsConfig i = map (\<lambda>(n, t). built_topic i n t) (enumerate 0 (bi_topics i))"

section \<open>The mapping\<close>

text \<open>\<open>k in x\<close> for an object; a sample event that is no object raises.\<close>

definition OBJECT_PROTOTYPE :: "string list" where
  "OBJECT_PROTOTYPE = [''constructor'', ''__defineGetter__'', ''__defineSetter__'', ''hasOwnProperty'',
     ''__lookupGetter__'', ''__lookupSetter__'', ''isPrototypeOf'', ''propertyIsEnumerable'', ''toString'', ''valueOf'',
     ''__proto__'', ''toLocaleString'']"

definition in_object :: "string \<Rightarrow> json \<Rightarrow> bool" where
  "in_object k x \<longleftrightarrow> k \<in> set (map fst (own_properties x)) \<or> k \<in> set OBJECT_PROTOTYPE"

definition event_topic :: "string \<Rightarrow> KafkaTopic list \<Rightarrow> KafkaTopic option" where
  "event_topic f ts = find (\<lambda>t. jtruthy (event (selectedEvent t)) \<and> in_object f (event (selectedEvent t))) ts"

definition joined_stream :: "string \<Rightarrow> JoinStore \<Rightarrow> JoinStream option" where
  "joined_stream f j = find (\<lambda>st. joinKey st = f) (streams j)"

definition transform_output :: "string \<Rightarrow> TransformationStore \<Rightarrow> bool" where
  "transform_output f ts \<longleftrightarrow> tc_enabled (transformationConfig ts) \<and>
     (\<exists>x \<in> set (tc_fields (transformationConfig ts)). outputFieldName x = f)"

text \<open>The source a column is attributed to: what the code sets \<open>sourceId\<close> to, the later steps first.\<close>

definition row_source :: "BuildInput \<Rightarrow> TableColumn \<Rightarrow> string option" where
  "row_source i m =
     (let f = text_of (eventField m);
          given = (if text_of (sourceTopic m) \<noteq> [] then sourceTopic m
                   else case event_topic f (bi_topics i) of
                     Some t \<Rightarrow> Some (topic_name t)
                   | None \<Rightarrow> map_option topic_name (case bi_topics i of t # _ \<Rightarrow> Some t | [] \<Rightarrow> None));
          joined = (case joined_stream f (bi_join i) of
                      Some st \<Rightarrow> Some (or_text (js_topicName st) (streamId st)) | None \<Rightarrow> given);
          transformed = (if transform_output f (bi_transformation i)
                         then Some (transform_base_name (or_text (bi_pipelineName i) ''transform'') @ ''-transform'') else joined)
      in if otlp_input i \<and> text_of transformed = [] then Some (or_text (sourceId (bi_otlp i)) ''source'') else transformed)"

text \<open>
  \<open>t.replace(/w\((.*)\)/, '$1')\<close> for a text without line ends: from the first \<open>w(\<close> to the last closing
  parenthesis.
\<close>

fun unwrap_type :: "string \<Rightarrow> string \<Rightarrow> string" where
  "unwrap_type w [] = []"
| "unwrap_type w (c # cs) =
     (let n = length w + 1
      in if starts_with (w @ ''('') (c # cs) \<and> CHR '')'' \<in> set (drop n (c # cs))
         then let body = drop n (c # cs); post = takeWhile (\<lambda>x. x \<noteq> CHR '')'') (rev body)
              in take (length body - length post - 1) body @ rev post
         else c # unwrap_type w cs)"

definition mapped_rows :: "BuildInput \<Rightarrow> TableColumn list" where
  "mapped_rows i = filter (\<lambda>m. \<not> starts_with ''_metadata'' (text_of (eventField m)))
     (filter (\<lambda>m. text_of (eventField m) \<noteq> []) (bi_mapping i))"

definition built_row :: "BuildInput \<Rightarrow> TableColumn \<Rightarrow> MappingRow" where
  "built_row i m =
     \<lparr>mr_source_id = json_text (row_source i m), mr_field_name = JStr (text_of (eventField m)),
      mr_column_name = JStr (col_name m), mr_column_type = JStr (unwrap_type ''Nullable'' (text_of (col_type m)))\<rparr>"

section \<open>Source, join and sink\<close>

fun registry_auth_text :: "RegistryAuth \<Rightarrow> string" where
  "registry_auth_text RegNone = ''none''"
| "registry_auth_text RegApiKey = ''api_key''"
| "registry_auth_text RegBasic = ''basic''"

definition built_registry :: "KafkaStore \<Rightarrow> SchemaRegistry option" where
  "built_registry ks =
     (let r = schemaRegistry ks
      in if sr_enabled r
         then Some \<lparr>rg_url = JStr (text_of (sr_url r)), rg_authMethod = JStr (registry_auth_text (sr_authMethod r)),
                rg_apiKey = JStr (text_of (sr_apiKey r)), rg_apiSecret = JStr (text_of (sr_apiSecret r)),
                rg_username = JStr (text_of (sr_username r)), rg_password = JStr (text_of (sr_password r))\<rparr>
         else None)"

definition built_source :: "BuildInput \<Rightarrow> InternalSource" where
  "built_source i =
     (if otlp_input i
      then \<lparr>so_type = or_text (text_of (map_option source_type_text (signalType (bi_otlp i))))
              (or_text (text_of (bi_sourceType i)) ''otlp''),
            so_id = JStr (sourceId (bi_otlp i)), so_provider = JUndef, so_connection = JUndef, so_topics = [],
            so_registry = None,
            so_dedup = (let d = otlp_deduplication (bi_otlp i)
              in if od_enabled d
                 then Some \<lparr>sd_enabled = True, sd_key = JStr (od_key d), sd_time_window = JStr (time_window d)\<rparr> else None)\<rparr>
      else \<lparr>so_type = ''kafka'', so_id = JUndef, so_provider = JStr ''custom'',
            so_connection = connectionParams (bi_inDocker i) (bi_kafka i), so_topics = topicsConfig i,
            so_registry = built_registry (bi_kafka i), so_dedup = None\<rparr>)"

definition built_stream :: "JoinStream \<Rightarrow> InternalJoinSource" where
  "built_stream st =
     \<lparr>jo_source_id = JStr (js_topicName st), jo_key = JStr (joinKey st),
      jo_time_window = JStr (number_to_string (joinTimeWindowValue st) @ take 1 (joinTimeWindowUnit st)),
      jo_orientation = side_text (orientation st)\<rparr>"

text \<open>Without streams, the topics are joined on their deduplication keys.\<close>

definition topic_stream :: "BuildInput \<Rightarrow> nat \<Rightarrow> KafkaTopic \<Rightarrow> InternalJoinSource" where
  "topic_stream i n t =
     \<lparr>jo_source_id = JStr (topic_name t),
      jo_key = JStr (case getDeduplication n (bi_dedup i) of Some d \<Rightarrow> dc_key d | None \<Rightarrow> []),
      jo_time_window = JStr ''1h'', jo_orientation = (if n = 0 then ''left'' else ''right'')\<rparr>"

definition disabled_join :: InternalJoin where
  "disabled_join = \<lparr>jn_enabled = False, jn_type = JUndef, jn_id = JUndef, jn_sources = []\<rparr>"

definition built_join :: "BuildInput \<Rightarrow> InternalJoin" where
  "built_join i =
     (if otlp_input i \<or> length (bi_topics i) \<le> 1 then disabled_join
      else \<lparr>jn_enabled = join_enabled (bi_join i), jn_type = JStr (or_text (join_type (bi_join i)) ''temporal''), jn_id = JUndef,
            jn_sources = (if streams (bi_join i) \<noteq> [] then map built_stream (streams (bi_join i))
              else map (\<lambda>(n, t). topic_stream i n t) (enumerate 0 (bi_topics i)))\<rparr>)"

definition delay_text :: "ClickhouseDestinationState \<Rightarrow> string" where
  "delay_text d =
     (let time = (if jtruthy (JNum (maxDelayTime d)) then maxDelayTime d else Fin 1 0);
          u = or_text (maxDelayTimeUnit d) ''m''
      in number_to_string time @
         (if u = ''seconds'' then ''s'' else if u = ''minutes'' then ''m'' else if u = ''hours'' then ''h''
          else if u = ''days'' then ''d'' else u))"

definition order_column :: "BuildInput \<Rightarrow> string \<Rightarrow> string" where
  "order_column i key =
     (case find (\<lambda>m. eventField m = Some key) (bi_mapping i) of
        Some m \<Rightarrow> col_name m
      | None \<Rightarrow> (case find (\<lambda>m. col_name m = key) (bi_mapping i) of Some m \<Rightarrow> col_name m | None \<Rightarrow> key))"

definition nonempty_text :: "string option \<Rightarrow> json" where
  "nonempty_text t = (if text_of t = [] then JUndef else JStr (text_of t))"

definition built_sink :: "BuildInput \<Rightarrow> InternalSink" where
  "built_sink i =
     (let c = directConnection (bi_connection i); d = bi_destination i
      in \<lparr>sk_type = JStr ''clickhouse'', sk_host = JStr (dc_host c),
          sk_http_port = (if dc_httpPort c = [] then JUndef else JStr (dc_httpPort c)),
          sk_port = JStr (or_text (dc_nativePort c) ''9000''), sk_database = JStr (cd_database d),
          sk_username = JStr (dc_username c), sk_password = JStr (dc_password c),
          sk_secure = JBool (dc_useSSL c = Some True),
          sk_skip_verification = JBool (skipCertificateVerification c = Some True), sk_table = JStr (cd_table d),
          sk_engine = nonempty_text (cd_engine d),
          sk_order_by = (if text_of (cd_orderBy d) = [] then JUndef else JStr (order_column i (text_of (cd_orderBy d)))),
          sk_max_batch_size = JNum (if jtruthy (JNum (maxBatchSize d)) then maxBatchSize d else Fin 1000 0),
          sk_max_delay_time = JStr (delay_text d), sk_mapping = map (built_row i) (mapped_rows i)\<rparr>)"

section \<open>Filter and transformation\<close>

definition built_filter :: "BuildInput \<Rightarrow> InternalFilter option" where
  "built_filter i =
     (if length (bi_topics i) = 1 \<or> otlp_input i
      then Some (if cfg_enabled (filterConfig (bi_filter i)) \<and> expressionString (bi_filter i) \<noteq> []
        then \<lparr>if_enabled = True, if_expression = JStr (''!('' @ expressionString (bi_filter i) @ '')'')\<rparr>
        else \<lparr>if_enabled = False, if_expression = JStr []\<rparr>)
      else None)"

definition sent_field :: "TransformationField \<Rightarrow> TransformationField" where
  "sent_field f =
     (case tf_type f of
        Passthrough \<Rightarrow> f\<lparr>functionName := None, functionArgs := None\<rparr>
      | Computed \<Rightarrow> f\<lparr>sourceField := None, sourceFieldType := None\<rparr>)"

definition built_transformation :: "BuildInput \<Rightarrow> InternalTransformation option" where
  "built_transformation i =
     (let c = transformationConfig (bi_transformation i)
      in if length (bi_topics i) = 1 \<or> otlp_input i
         then Some (if tc_enabled c \<and> tc_fields c \<noteq> []
           then \<lparr>ir_enabled = True, ir_fields = map sent_field (tc_fields c), ir_source_id = JUndef\<rparr>
           else \<lparr>ir_enabled = False, ir_fields = [], ir_source_id = JUndef\<rparr>)
         else None)"

section \<open>The document\<close>

text \<open>\<open>None\<close>: a mapped column has no type, and the code raises.\<close>

definition buildInternalPipelineConfig :: "BuildInput \<Rightarrow> InternalPipelineConfig option" where
  "buildInternalPipelineConfig i =
     (if list_all (\<lambda>m. col_type m \<noteq> None) (mapped_rows i)
      then Some \<lparr>ic_pipeline_id = JStr (or_text (bi_pipelineId i) (bi_newId i)), ic_name = JStr (bi_pipelineName i),
             ic_source = built_source i, ic_join = built_join i, ic_filter = built_filter i,
             ic_transformation = built_transformation i, ic_sink = built_sink i, ic_resources = JUndef, ic_metadata = JUndef\<rparr>
      else None)"

definition generateApiConfig :: "BuildInput \<Rightarrow> json option \<Rightarrow> json" where
  "generateApiConfig i resources =
     (case buildInternalPipelineConfig i of
        Some c \<Rightarrow> generate (case resources of
            Some r \<Rightarrow> if own_properties r \<noteq> [] then c\<lparr>ic_resources := r\<rparr> else c
          | None \<Rightarrow> c)
      | None \<Rightarrow> JObj [(''error'', JStr ''Failed to generate API configuration'')])"

end
