(* ===== verification/Store_Hydration.thy ===== *)
theory Store_Hydration
  imports Pipeline_Building
begin

text \<open>
  Loading an internal configuration into the stores: the hydration functions
  (ui/src/store/hydration/) and their dispatch, the view and edit modes and the discarding of sections
  (ui/src/store/core.ts). What comes from outside, the parsed filter expression, the answers of the
  Kafka, ClickHouse and resource services and the generated ids, is one argument. The configuration is
  the internal one that the adapters make; the fallbacks for raw documents are left out.
\<close>

section \<open>What comes from outside\<close>

text \<open>
  \<open>he_live\<close>: the topics of the broker and their partition counts, when it answers. \<open>he_columns\<close>: the
  columns of the table, when the database answers. \<open>he_resources\<close> and \<open>he_policy\<close>: the two requests for the
  resources and for the policy alone.
\<close>

record HydrationEnv =
  he_now :: time
  he_newId :: string
  he_parse :: "string \<Rightarrow> FilterGroup option"
  he_live :: "(string list \<times> (string \<Rightarrow> js_number option)) option"
  he_sample :: "string \<Rightarrow> json option"
  he_columns :: "TableColumn list option"
  he_resources :: "(json \<times> string list option) option"
  he_policy :: "string list option"

fun text_value :: "json \<Rightarrow> string" where
  "text_value (JStr s) = s"
| "text_value _ = []"

section \<open>Join and filter\<close>

fun unit_name :: "TimeUnit \<Rightarrow> string" where
  "unit_name Seconds = ''seconds''"
| "unit_name Minutes = ''minutes''"
| "unit_name Hours = ''hours''"
| "unit_name Days = ''days''"

definition hydrated_stream :: "InternalJoinSource \<Rightarrow> JoinStream" where
  "hydrated_stream src =
     (let (v, u) = parseTimeWindow (text_value (jo_time_window src))
      in \<lparr>streamId = text_value (jo_source_id src), js_topicName = text_value (jo_source_id src),
          joinKey = text_value (jo_key src), joinTimeWindowValue = whole v, joinTimeWindowUnit = unit_name u,
          orientation = (if jo_orientation src = ''left'' then LeftSide else RightSide)\<rparr>)"

definition hydrateJoinConfiguration :: "time \<Rightarrow> InternalJoin \<Rightarrow> JoinStore \<Rightarrow> JoinStore" where
  "hydrateJoinConfiguration now j s =
     setStreams now (map hydrated_stream (jn_sources j))
       (setType (or_text (text_value (jn_type j)) ''temporal'') (setEnabled (jn_enabled j) s))"

text \<open>The match of \<open>/^!\((.+)\)$/\<close>, and what it leaves.\<close>

definition unwrap_filter :: "string \<Rightarrow> string" where
  "unwrap_filter e =
     (if starts_with ''!('' e \<and> 4 \<le> length e \<and> last e = CHR '')'' \<and>
         list_all (\<lambda>c. \<not> line_terminator c) (butlast (drop 2 e))
      then butlast (drop 2 e) else e)"

definition hydrateFilter :: "HydrationEnv \<Rightarrow> InternalFilter option \<Rightarrow> FilterStore \<Rightarrow> FilterStore" where
  "hydrateFilter env f s =
     (case f of
        None \<Rightarrow> resetFilterStore (he_newId env) s
      | Some f \<Rightarrow>
          if \<not> if_enabled f then resetFilterStore (he_newId env) s
          else let s1 = setFilterEnabled True s
               in if text_value (if_expression f) = []
                  then setBackendValidation \<lparr>bv_status = Idle, bv_error = None\<rparr> (setExpressionString [] s1)
                  else let user = unwrap_filter (text_value (if_expression f));
                           s2 = setBackendValidation \<lparr>bv_status = BackendValid, bv_error = None\<rparr> (setExpressionString user s1)
                       in case he_parse env user of
                            Some g \<Rightarrow> setFilterConfig \<lparr>cfg_enabled = True, cfg_root = Some g,
                              legacy_combinator = None, legacy_conditions = None\<rparr> s2
                          | None \<Rightarrow> s2)"

section \<open>Topics and deduplication\<close>

fun offset_of_text :: "string \<Rightarrow> InitialOffset" where
  "offset_of_text t = (if t = ''earliest'' then Earliest else Latest)"

definition config_offset :: "InternalTopic \<Rightarrow> string" where
  "config_offset t = or_text (text_value (it_offset t)) ''latest''"

definition kafka_event :: "json \<Rightarrow> nat \<Rightarrow> string \<Rightarrow> KafkaEvent" where
  "kafka_event ev i pos = \<lparr>event = ev, topicIndex = i, position = PosString pos, kafkaOffset = None,
     isAtEarliest = None, isAtLatest = None, isManualEvent = None\<rparr>"

definition number_or :: "json \<Rightarrow> js_number \<Rightarrow> js_number" where
  "number_or v d = (case v of JNum n \<Rightarrow> if jtruthy v then n else d | _ \<Rightarrow> d)"

definition verified_field :: "SchemaField \<Rightarrow> KafkaFieldSchema" where
  "verified_field f =
     \<lparr>fs_name = text_value (sf_name f), fs_type = or_text (text_value (sf_type f)) ''string'', inferredType = None,
      userType = Some (or_text (text_value (sf_type f)) ''string''), isManuallyAdded = None, isRemoved = None\<rparr>"

definition mapBackendTopicToStore :: "InternalTopic \<Rightarrow> nat \<Rightarrow> KafkaTopic" where
  "mapBackendTopicToStore t i =
     \<lparr>topic_name = text_value (it_name t), topic_index = i, events = [],
      selectedEvent = kafka_event JUndef i (config_offset t), initialOffset = offset_of_text (config_offset t),
      replicas = Some (number_or (it_replicas t) (Fin 1 0)), partitionCount = Some (Fin 1 0),
      topic_schema = Some (map verified_field (it_fields t)),
      schemaSource = Some (if jtruthy (jget ''url'' (it_schema_registry t)) then External else SchemaSource.Internal),
      schemaRegistrySubject = None,
      schemaRegistryVersion = (case it_schema_version t of JStr v \<Rightarrow> Some v | _ \<Rightarrow> None)\<rparr>"

definition mapBackendDeduplicationToStore :: "InternalTopic \<Rightarrow> DeduplicationConfig" where
  "mapBackendDeduplicationToStore t =
     (let (w, u) = parseTimeWindow (text_value (dd_time_window (it_dedup t)))
      in \<lparr>dc_enabled = dd_enabled (it_dedup t), dc_window = whole w, dc_unit = u,
          dc_key = text_value (dd_id_field (it_dedup t)), dc_keyType = text_value (dd_id_field_type (it_dedup t))\<rparr>)"

definition blank :: "string \<Rightarrow> bool" where
  "blank s \<longleftrightarrow> s = [] \<or> trim s = []"

text \<open>The fields a live connection needs and the store does not have.\<close>

definition missing_credentials :: "string \<Rightarrow> SaslUserForm \<Rightarrow> string list" where
  "missing_credentials form f =
     (if blank (su_username f) then [form @ ''.username''] else []) @
     (if blank (su_password f) then [form @ ''.password''] else [])"

definition validateKafkaStoreHydration :: "KafkaStore \<Rightarrow> string list" where
  "validateKafkaStoreHydration ks =
     (if blank (bootstrapServers ks) then [''bootstrapServers''] else []) @
     (if blank (securityProtocol ks) then [''securityProtocol''] else []) @
     (if blank (authMethod ks) then [''authMethod''] else []) @
     (if authMethod ks = ''SASL/PLAIN'' then missing_credentials ''saslPlain'' (saslPlain ks)
      else if authMethod ks = ''SASL/SCRAM-256'' then missing_credentials ''saslScram256'' (saslScram256 ks)
      else if authMethod ks = ''SASL/SCRAM-512'' then missing_credentials ''saslScram512'' (saslScram512 ks) else [])"

definition live_connection :: "HydrationEnv \<Rightarrow> KafkaStore \<Rightarrow> (string list \<times> (string \<Rightarrow> js_number option)) option" where
  "live_connection env ks = (if validateKafkaStoreHydration ks = [] then he_live env else None)"

definition with_event :: "json \<Rightarrow> nat \<Rightarrow> string \<Rightarrow> KafkaTopic \<Rightarrow> KafkaTopic" where
  "with_event ev i pos t = t\<lparr>selectedEvent := (selectedEvent t)\<lparr>event := ev\<rparr>, events := [kafka_event ev i pos]\<rparr>"

definition selected_event :: "nat \<Rightarrow> TopicsStore \<Rightarrow> json" where
  "selected_event i ts = (case getTopic i ts of Some t \<Rightarrow> event (selectedEvent t) | None \<Rightarrow> JUndef)"

definition partition_count :: "(string list \<times> (string \<Rightarrow> js_number option)) option \<Rightarrow> string \<Rightarrow> js_number" where
  "partition_count live n =
     (case live of Some (_, counts) \<Rightarrow> (case counts n of Some c \<Rightarrow> number_or (JNum c) (Fin 1 0) | None \<Rightarrow> Fin 1 0)
      | None \<Rightarrow> Fin 1 0)"

text \<open>One topic and its deduplication, unless the store has one with a key.\<close>

definition put_topic :: "HydrationEnv \<Rightarrow> nat \<Rightarrow> string \<Rightarrow> KafkaTopic \<Rightarrow> DeduplicationConfig \<Rightarrow> RootStore \<Rightarrow> RootStore" where
  "put_topic env i pos topic dedup s =
     (let existing = selected_event i (topicsStore s);
          t1 = topic\<lparr>partitionCount := Some (partition_count (live_connection env (kafkaStore s)) (topic_name topic))\<rparr>;
          t2 = (if jtruthy existing then with_event existing i pos t1 else t1);
          s1 = s\<lparr>topicsStore := updateTopic (he_now env) t2 (topicsStore s)\<rparr>
      in case getDeduplication i (deduplicationStore s1) of
           Some d \<Rightarrow> if dc_key d \<noteq> [] then s1
             else s1\<lparr>deduplicationStore := updateDeduplication (he_now env) i dedup (deduplicationStore s1)\<rparr>
         | None \<Rightarrow> s1\<lparr>deduplicationStore := updateDeduplication (he_now env) i dedup (deduplicationStore s1)\<rparr>)"

definition hydrate_topic :: "HydrationEnv \<Rightarrow> nat \<times> InternalTopic \<Rightarrow> RootStore \<Rightarrow> RootStore" where
  "hydrate_topic env = (\<lambda>(i, t). put_topic env i (config_offset t) (mapBackendTopicToStore t i) (mapBackendDeduplicationToStore t))"

text \<open>The samples are requested concurrently; each only touches its own topic.\<close>

definition put_sample :: "HydrationEnv \<Rightarrow> nat \<Rightarrow> string \<Rightarrow> string \<Rightarrow> RootStore \<Rightarrow> RootStore" where
  "put_sample env i name pos s =
     (if jtruthy (selected_event i (topicsStore s)) then s
      else case (he_sample env name, getTopic i (topicsStore s)) of
             (Some ev, Some topic) \<Rightarrow>
               if jtruthy ev
               then s\<lparr>topicsStore := updateTopic (he_now env)
                   (topic\<lparr>selectedEvent := kafka_event ev i pos, events := [kafka_event ev i pos]\<rparr>) (topicsStore s)\<rparr>
               else s
           | _ \<Rightarrow> s)"

definition hydrate_sample :: "HydrationEnv \<Rightarrow> nat \<times> InternalTopic \<Rightarrow> RootStore \<Rightarrow> RootStore" where
  "hydrate_sample env = (\<lambda>(i, t). put_sample env i (text_value (it_name t)) (config_offset t))"

text \<open>The topics of the broker, the topics of the configuration when it has any, and then their samples.\<close>

definition hydrate_topics_with ::
    "HydrationEnv \<Rightarrow> (nat \<times> 't \<Rightarrow> RootStore \<Rightarrow> RootStore) \<Rightarrow> (nat \<times> 't \<Rightarrow> RootStore \<Rightarrow> RootStore) \<Rightarrow> 't list option \<Rightarrow> RootStore \<Rightarrow> RootStore" where
  "hydrate_topics_with env put sample ts s =
     (let live = live_connection env (kafkaStore s);
          s1 = (case live of Some (names, _) \<Rightarrow> s\<lparr>topicsStore := setAvailableTopics names (topicsStore s)\<rparr> | None \<Rightarrow> s)
      in case ts of
           None \<Rightarrow> s1
         | Some ts \<Rightarrow> let indexed = enumerate 0 ts;
                  s2 = fold put indexed s1;
                  s3 = (if live = None then s2 else fold sample indexed s2);
                  s4 = s3\<lparr>topicsStore := topics_setTopicCount (length ts) (topicsStore s3)\<rparr>
              in setTopicCount (length ts) s4)"

definition hydrateKafkaTopics :: "HydrationEnv \<Rightarrow> InternalSource \<Rightarrow> RootStore \<Rightarrow> RootStore" where
  "hydrateKafkaTopics env src =
     hydrate_topics_with env (hydrate_topic env) (hydrate_sample env) (if source_is_otlp src then None else Some (so_topics src))"

section \<open>OTLP sources\<close>

definition signal_of_text :: "string \<Rightarrow> SourceType option" where
  "signal_of_text t = find (\<lambda>x. source_type_text x = t) [SrcOtlpLogs, SrcOtlpTraces, SrcOtlpMetrics]"

definition hydrateOtlpSource :: "HydrationEnv \<Rightarrow> InternalSource \<Rightarrow> RootStore \<Rightarrow> RootStore" where
  "hydrateOtlpSource env src s =
     (case signal_of_text (so_type src) of
        None \<Rightarrow> s
      | Some t \<Rightarrow>
          (let s1 = setTopicCount 1 (s\<lparr>coreStore := setSourceType (so_type src) (coreStore s)\<rparr>);
               o1 = setSourceId (text_value (so_id src)) (setSignalType t (otlpStore s1));
               o2 = (case so_dedup src of
                       Some d \<Rightarrow> setDeduplication \<lparr>up_enabled = Some (sd_enabled d), up_key = Some (text_value (sd_key d)),
                         up_time_window = Some (or_text (text_value (sd_time_window d)) ''5m'')\<rparr> o1
                     | None \<Rightarrow> o1)
           in s1\<lparr>otlpStore := otlp_markAsValid (he_now env) o2\<rparr>))"

section \<open>ClickHouse\<close>

definition mapBackendClickhouseConfigToStore :: "InternalSink \<Rightarrow> ClickhouseConnection" where
  "mapBackendClickhouseConfigToStore sink =
     \<lparr>directConnection = \<lparr>dc_host = text_value (sk_host sink), dc_httpPort = text_value (sk_http_port sink),
        dc_username = text_value (sk_username sink), dc_password = text_value (sk_password sink), dc_database = None,
        dc_useSSL = Some (jtruthy (or_nullish (sk_secure sink) (JBool True))), dc_nativePort = text_value (sk_port sink),
        skipCertificateVerification = Some (jtruthy (or_nullish (sk_skip_verification sink) (JBool False)))\<rparr>,
      connectionStatus = Some ConnIdle, connectionError = Null\<rparr>"

definition hydrateClickhouseConnection :: "time \<Rightarrow> InternalSink \<Rightarrow> ClickhouseConnectionStore \<Rightarrow> ClickhouseConnectionStore" where
  "hydrateClickhouseConnection now sink s = setClickhouseConnection now (mapBackendClickhouseConfigToStore sink) s"

definition mapClickHouseTypeToJsonType :: "string \<Rightarrow> string" where
  "mapClickHouseTypeToJsonType clickhouseType =
     (let t = toLowerCase clickhouseType; u = unwrap_type ''lowcardinality'' (unwrap_type ''nullable'' t)
      in if t = [] then []
         else if starts_with ''string'' u \<or> starts_with ''fixedstring'' u \<or> has_substring ''uuid'' u then ''string''
         else if starts_with ''bool'' u \<or> u = ''boolean'' then ''bool''
         else if starts_with ''u'' u then ''uint''
         else if starts_with ''int'' u then ''int''
         else if starts_with ''float'' u \<or> starts_with ''decimal'' u then ''float''
         else if starts_with ''date'' u \<or> starts_with ''datetime'' u then ''string''
         else if starts_with ''array'' u then ''array''
         else if starts_with ''map'' u then ''map''
         else ''string'')"

text \<open>A row of the mapping before the columns of the table are known.\<close>

definition saved_row :: "MappingRow \<Rightarrow> TableColumn" where
  "saved_row m =
     \<lparr>col_name = text_value (mr_column_name m), col_type = Some (text_value (mr_column_type m)), column_type = None,
      jsonType = Some (mapClickHouseTypeToJsonType (text_value (mr_column_type m))),
      isNullable = Some (has_substring ''Nullable'' (text_value (mr_column_type m))), isKey = None,
      eventField = Some (text_value (mr_field_name m)), sourceTopic = Some (text_value (mr_source_id m)),
      default_type = None, default_expression = None, default_kind = None\<rparr>"

definition declared_type :: "TableColumn \<Rightarrow> string" where
  "declared_type c = or_text (text_of (col_type c)) (text_of (column_type c))"

definition declared_nullable :: "TableColumn \<Rightarrow> bool" where
  "declared_nullable c \<longleftrightarrow> isNullable c = Some True \<or> has_substring ''Nullable'' (declared_type c)"

text \<open>A column of the table with the row that maps to it.\<close>

definition table_row :: "MappingRow list \<Rightarrow> TableColumn \<Rightarrow> TableColumn" where
  "table_row rows c =
     (let found = find (\<lambda>m. text_value (mr_column_name m) = col_name c) rows
      in \<lparr>col_name = col_name c, col_type = Some (declared_type c), column_type = None,
          jsonType = Some (mapClickHouseTypeToJsonType (declared_type c)), isNullable = Some (declared_nullable c), isKey = None,
          eventField = Some (case found of Some m \<Rightarrow> text_value (mr_field_name m) | None \<Rightarrow> []),
          sourceTopic = (case found of Some m \<Rightarrow>
              if text_value (mr_source_id m) = [] then None else Some (text_value (mr_source_id m)) | None \<Rightarrow> None),
          default_type = None, default_expression = None, default_kind = None\<rparr>)"

definition table_column :: "TableColumn \<Rightarrow> TableColumn" where
  "table_column c =
     \<lparr>col_name = col_name c, col_type = Some (declared_type c), column_type = None, jsonType = None,
      isNullable = Some (declared_nullable c), isKey = None, eventField = None, sourceTopic = None,
      default_type = Some (text_of (default_type c)), default_expression = Some (text_of (default_expression c)),
      default_kind = Some (text_of (default_kind c))\<rparr>"

definition column_json :: "TableColumn \<Rightarrow> json" where
  "column_json c =
     (let flag = (\<lambda>b. case b of Some x \<Rightarrow> JBool x | None \<Rightarrow> JUndef)
      in JObj [(''name'', JStr (col_name c)), (''type'', json_text (col_type c)), (''column_type'', json_text (column_type c)),
          (''jsonType'', json_text (jsonType c)), (''isNullable'', flag (isNullable c)), (''isKey'', flag (isKey c)),
          (''eventField'', json_text (eventField c)), (''sourceTopic'', json_text (sourceTopic c)),
          (''default_type'', json_text (default_type c)), (''default_expression'', json_text (default_expression c)),
          (''default_kind'', json_text (default_kind c))])"

definition saved_delay :: "json \<Rightarrow> js_number \<times> string" where
  "saved_delay v =
     (case v of
        JStr s \<Rightarrow> (let (n, u) = parseMaxDelay s in (whole n, [unit_letter u]))
      | JNum n \<Rightarrow> if jtruthy v then (n, ''m'') else (Fin 1 0, ''m'')
      | _ \<Rightarrow> (Fin 1 0, ''m''))"

text \<open>Every property of the destination is given, so it replaces the state.\<close>

definition mapBackendClickhouseDestinationToStore :: "InternalSink \<Rightarrow> bool \<Rightarrow> ClickhouseDestinationState" where
  "mapBackendClickhouseDestinationToStore sink deployed =
     \<lparr>cd_scheme = [], cd_database = text_value (sk_database sink), cd_table = text_value (sk_table sink),
      cd_mapping = map (column_json \<circ> saved_row) (sk_mapping sink), destinationColumns = [],
      maxBatchSize = number_or (sk_max_batch_size sink) (Fin 1000 0),
      maxDelayTime = fst (saved_delay (sk_max_delay_time sink)), maxDelayTimeUnit = snd (saved_delay (sk_max_delay_time sink)),
      destinationPath = ExistingPath, cd_tableName = None,
      cd_engine = (if deployed then None else case sk_engine sink of JStr e \<Rightarrow> Some e | _ \<Rightarrow> None),
      cd_orderBy = (if deployed then None else case sk_order_by sink of JStr e \<Rightarrow> Some e | _ \<Rightarrow> None)\<rparr>"

definition hydrateClickhouseDestination ::
    "HydrationEnv \<Rightarrow> InternalSink \<Rightarrow> bool \<Rightarrow> ClickhouseDestinationStore \<Rightarrow> ClickhouseDestinationStore" where
  "hydrateClickhouseDestination env sink deployed s =
     (let d = mapBackendClickhouseDestinationToStore sink deployed;
          put = (\<lambda>d. s\<lparr>clickhouseDestination := d, cd_validation := createValidValidation (he_now env)\<rparr>)
      in case he_columns env of
           None \<Rightarrow> put d
         | Some cols \<Rightarrow>
             (let mappable = filterUserMappableColumns cols
              in put (d\<lparr>destinationColumns := map (column_json \<circ> table_column) mappable,
                        cd_mapping := map (column_json \<circ> table_row (sk_mapping sink)) mappable\<rparr>)))"

section \<open>Resources and transformation\<close>

definition set_property :: "string \<Rightarrow> json \<Rightarrow> json \<Rightarrow> json" where
  "set_property k v obj = JObj (assign_property (own_properties obj) k v)"

definition default_replicas :: "string \<Rightarrow> json \<Rightarrow> json \<Rightarrow> json" where
  "default_replicas k n ingestor =
     (let part = jget k ingestor
      in if jtruthy part \<and> nullish (jget ''replicas'' part) \<and> \<not> nullish n
         then set_property k (set_property ''replicas'' n part) ingestor else ingestor)"

definition applyTopicReplicasFallback :: "InternalTopic list \<Rightarrow> bool \<Rightarrow> json \<Rightarrow> json" where
  "applyTopicReplicasFallback ts joinEnabled r =
     (let ingestor = jget ''ingestor'' r;
          replicas_of = (\<lambda>i. if i < length ts then it_replicas (ts ! i) else JUndef)
      in if \<not> jtruthy ingestor \<or> ts = [] then r
         else set_property ''ingestor''
           (if joinEnabled \<and> 2 \<le> length ts
            then default_replicas ''right'' (replicas_of 1) (default_replicas ''left'' (replicas_of 0) ingestor)
            else default_replicas ''base'' (replicas_of 0) ingestor) r)"

definition fetched_resources :: "HydrationEnv \<Rightarrow> InternalPipelineConfig \<Rightarrow> json \<times> string list" where
  "fetched_resources env cfg =
     (let own = or_nullish (ic_resources cfg) JNull
      in if jtruthy (ic_pipeline_id cfg)
         then case he_resources env of
                Some (r, policy) \<Rightarrow> (or_nullish r own, keep_or policy [])
              | None \<Rightarrow> (own, keep_or (he_policy env) [])
         else (own, []))"

definition hydrate_resources :: "HydrationEnv \<Rightarrow> InternalPipelineConfig \<Rightarrow> ResourcesStore \<Rightarrow> ResourcesStore" where
  "hydrate_resources env cfg s =
     (let (r, policy) = fetched_resources env cfg;
          ts = so_topics (ic_source cfg);
          r' = (if jtruthy (jget ''ingestor'' r) \<and> ts \<noteq> []
                then applyTopicReplicasFallback ts (jn_enabled (ic_join cfg)) r else r)
      in hydrateResources (if nullish r' then None else Some r') (Some policy) s)"

definition hydrateTransformation :: "HydrationEnv \<Rightarrow> InternalTransformation option \<Rightarrow> TransformationStore \<Rightarrow> TransformationStore" where
  "hydrateTransformation env t s =
     (case t of
        None \<Rightarrow> resetTransformationStore s
      | Some t \<Rightarrow>
          if \<not> ir_enabled t then resetTransformationStore s
          else let config = \<lparr>tc_enabled = True, tc_fields = map (hydrated_field (he_newId env)) (ir_fields t)\<rparr>
               in tr_markAsValid (he_now env)
                    (setLastSavedTransformationSnapshot (Some config) (setTransformationConfig config s)))"

section \<open>Sections and modes\<close>

text \<open>The part of the configuration that the hydration of the Kafka connection reads.\<close>

definition kafka_view :: "InternalSource \<Rightarrow> json" where
  "kafka_view src =
     JObj [(''source'', JObj [(''connection_params'', so_connection src),
       (''topics'', JArr (map (\<lambda>t. JObj [(''schema_registry'', it_schema_registry t)]) (so_topics src)))])]"

text \<open>The flag tells whether the hydration ended, or raised and left the state so far.\<close>

definition hydrate_kafka :: "HydrationEnv \<Rightarrow> InternalSource \<Rightarrow> RootStore \<Rightarrow> RootStore \<times> bool" where
  "hydrate_kafka env src s =
     (case hydrateKafkaConnection (kafka_view src) (he_now env) (kafkaStore s) of
        Some k \<Rightarrow> (s\<lparr>kafkaStore := k\<rparr>, True)
      | None \<Rightarrow> (s, False))"

definition hydrate_common :: "HydrationEnv \<Rightarrow> InternalPipelineConfig \<Rightarrow> RootStore \<Rightarrow> RootStore" where
  "hydrate_common env cfg s =
     s\<lparr>clickhouseConnectionStore := hydrateClickhouseConnection (he_now env) (ic_sink cfg) (clickhouseConnectionStore s),
       joinStore := hydrateJoinConfiguration (he_now env) (ic_join cfg) (joinStore s),
       filterStore := hydrateFilter env (ic_filter cfg) (filterStore s),
       transformationStore := hydrateTransformation env (ic_transformation cfg) (transformationStore s),
       clickhouseDestinationStore := hydrateClickhouseDestination env (ic_sink cfg) (jtruthy (ic_pipeline_id cfg))
         (clickhouseDestinationStore s),
       resourcesStore := hydrate_resources env cfg (resourcesStore s)\<rparr>"

definition hydrate_all :: "HydrationEnv \<Rightarrow> InternalPipelineConfig \<Rightarrow> RootStore \<Rightarrow> RootStore \<times> bool" where
  "hydrate_all env cfg s =
     (if isOtlpSource (so_type (ic_source cfg))
      then (hydrate_common env cfg (hydrateOtlpSource env (ic_source cfg) s), True)
      else case hydrate_kafka env (ic_source cfg) s of
             (s1, True) \<Rightarrow> (hydrate_common env cfg (hydrateKafkaTopics env (ic_source cfg) s1), True)
           | (s1, False) \<Rightarrow> (s1, False))"

definition hydrateSection :: "HydrationEnv \<Rightarrow> string \<Rightarrow> InternalPipelineConfig \<Rightarrow> RootStore \<Rightarrow> RootStore \<times> bool" where
  "hydrateSection env sec cfg s =
     (if sec = ''kafka'' then hydrate_kafka env (ic_source cfg) s
      else if sec = ''topics'' \<or> sec = ''deduplication'' then (hydrateKafkaTopics env (ic_source cfg) s, True)
      else if sec = ''join'' then (s\<lparr>joinStore := hydrateJoinConfiguration (he_now env) (ic_join cfg) (joinStore s)\<rparr>, True)
      else if sec = ''filter'' then (s\<lparr>filterStore := hydrateFilter env (ic_filter cfg) (filterStore s)\<rparr>, True)
      else if sec = ''transformation''
      then (s\<lparr>transformationStore := hydrateTransformation env (ic_transformation cfg) (transformationStore s)\<rparr>, True)
      else if sec = ''clickhouse-connection''
      then (s\<lparr>clickhouseConnectionStore := hydrateClickhouseConnection (he_now env) (ic_sink cfg) (clickhouseConnectionStore s)\<rparr>, True)
      else if sec = ''clickhouse-destination''
      then (s\<lparr>clickhouseDestinationStore := hydrateClickhouseDestination env (ic_sink cfg) (jtruthy (ic_pipeline_id cfg))
              (clickhouseDestinationStore s)\<rparr>, True)
      else if sec = ''resources'' then (s\<lparr>resourcesStore := hydrate_resources env cfg (resourcesStore s)\<rparr>, True)
      else if sec = ''otlp'' then (hydrateOtlpSource env (ic_source cfg) s, True)
      else if sec = ''all'' then hydrate_all env cfg s
      else (s, True))"

definition hydrateFromConfig :: "HydrationEnv \<Rightarrow> InternalPipelineConfig \<Rightarrow> RootStore \<Rightarrow> RootStore \<times> bool" where
  "hydrateFromConfig env cfg s =
     hydrateSection env ''all'' cfg (s\<lparr>coreStore := (coreStore s)
       \<lparr>pipelineId := text_value (or_nullish (ic_pipeline_id cfg) (JStr (pipelineId (coreStore s)))),
        pipelineName := text_value (ic_name cfg), pipelineVersion := Some ''v3'', isDirty := False\<rparr>\<rparr>)"

text \<open>The configuration as the core slice keeps it.\<close>

definition core_config :: "InternalPipelineConfig \<Rightarrow> Root_Store.Pipeline" where
  "core_config cfg =
     \<lparr>pipeline_id = text_value (ic_pipeline_id cfg), pipeline_name = text_value (ic_name cfg),
      pipeline_topics = (if source_is_otlp (ic_source cfg) then None
        else Some (map (\<lambda>t. Some \<lparr>td_enabled = Some (dd_enabled (it_dedup t)),
               td_id_field = (case dd_id_field (it_dedup t) of JStr k \<Rightarrow> Some k | _ \<Rightarrow> None)\<rparr>) (so_topics (ic_source cfg)))),
      pipeline_join_enabled = Some (jn_enabled (ic_join cfg)), pipeline_rest = JUndef\<rparr>"

definition enter_mode :: "StoreMode \<Rightarrow> HydrationEnv \<Rightarrow> InternalPipelineConfig \<Rightarrow> RootStore \<Rightarrow> RootStore \<times> bool" where
  "enter_mode m env cfg s =
     hydrateFromConfig env cfg (s\<lparr>coreStore := (coreStore s)
       \<lparr>mode := m, baseConfig := Some (core_config cfg), lastSavedConfig := Some (core_config cfg),
        saveHistory := [core_config cfg], topicCount := length (so_topics (ic_source cfg)),
        operationsSelected := determineOperationType (core_config cfg)\<rparr>\<rparr>)"

definition enterViewMode :: "HydrationEnv \<Rightarrow> InternalPipelineConfig \<Rightarrow> RootStore \<Rightarrow> RootStore \<times> bool" where
  "enterViewMode = enter_mode ViewMode"

definition enterEditMode :: "HydrationEnv \<Rightarrow> InternalPipelineConfig \<Rightarrow> RootStore \<Rightarrow> RootStore \<times> bool" where
  "enterEditMode = enter_mode EditMode"

text \<open>Discarding, with the last saved configuration in full.\<close>

definition discardSection :: "HydrationEnv \<Rightarrow> string \<Rightarrow> InternalPipelineConfig option \<Rightarrow> RootStore \<Rightarrow> RootStore \<times> bool" where
  "discardSection env sec saved s = (case saved of Some cfg \<Rightarrow> hydrateSection env sec cfg s | None \<Rightarrow> (s, True))"

definition discardSections :: "HydrationEnv \<Rightarrow> string list \<Rightarrow> InternalPipelineConfig option \<Rightarrow> RootStore \<Rightarrow> RootStore" where
  "discardSections env secs saved s =
     (case saved of Some cfg \<Rightarrow> fold (\<lambda>sec s. fst (hydrateSection env sec cfg s)) secs s | None \<Rightarrow> s)"

definition discardToLastSaved :: "HydrationEnv \<Rightarrow> InternalPipelineConfig option \<Rightarrow> RootStore \<Rightarrow> RootStore \<times> bool" where
  "discardToLastSaved env saved s =
     (case saved of
        Some cfg \<Rightarrow> (case hydrateFromConfig env cfg s of
            (s1, True) \<Rightarrow> (s1\<lparr>coreStore := (coreStore s1)\<lparr>isDirty := False\<rparr>\<rparr>, True) | r \<Rightarrow> r)
      | None \<Rightarrow> (s, True))"

end
