(* ===== verification/Topic_Hydration.thy ===== *)
theory Topic_Hydration
  imports Store_Hydration
begin

text \<open>
  What the hydration of topics leaves in the stores, whatever the topics are read from: the locale
  \<open>topic_hydration\<close> is the part of it that internal configurations and raw documents share
  (ui/src/store/hydration/topics.ts).
\<close>

section \<open>One topic and one sample\<close>

lemma setTopicCount_slices [simp]:
  "topicsStore (setTopicCount n s) = topicsStore s" "deduplicationStore (setTopicCount n s) = deduplicationStore s"
  "kafkaStore (setTopicCount n s) = kafkaStore s"
  by (simp_all add: setTopicCount_def updateOperation_def)

text \<open>What a hydrated topic has whatever event it shows.\<close>

definition topic_parts :: "KafkaTopic \<Rightarrow> string \<times> nat \<times> InitialOffset \<times> KafkaFieldSchema list option \<times> SchemaSource option \<times> string option" where
  "topic_parts t = (topic_name t, topic_index t, initialOffset t, topic_schema t, schemaSource t, schemaRegistryVersion t)"

definition kept_dedup :: "DeduplicationConfig option \<Rightarrow> DeduplicationConfig \<Rightarrow> DeduplicationConfig" where
  "kept_dedup old d = (case old of Some o' \<Rightarrow> if dc_key o' \<noteq> [] then o' else d | None \<Rightarrow> d)"

definition indexed :: "nat \<Rightarrow> TopicsStore \<Rightarrow> bool" where
  "indexed n ts \<longleftrightarrow> (\<forall>i < n. \<forall>t. getTopic i ts = Some t \<longrightarrow> topic_index t = i)"

lemma indexedD: "indexed n ts \<Longrightarrow> i < n \<Longrightarrow> getTopic i ts = Some t \<Longrightarrow> topic_index t = i"
  by (simp add: indexed_def)

lemma put_topic_frame:
  "j \<noteq> i \<Longrightarrow> getDeduplication j (deduplicationStore (put_topic env i p t d s)) = getDeduplication j (deduplicationStore s)"
  "j \<noteq> topic_index t \<Longrightarrow> getTopic j (topicsStore (put_topic env i p t d s)) = getTopic j (topicsStore s)"
  by (simp_all add: put_topic_def Let_def getDeduplication_def updateDeduplication_def getTopic_def updateTopic_def
      with_event_def split: option.split)

lemma put_topic_parts:
  "topic_index t = i \<Longrightarrow> map_option topic_parts (getTopic i (topicsStore (put_topic env i p t d s))) = Some (topic_parts t)"
  by (simp add: put_topic_def Let_def getTopic_def updateTopic_def with_event_def topic_parts_def split: option.split)

lemma put_topic_dedup:
  "getDeduplication i (deduplicationStore (put_topic env i p t d s)) = Some (kept_dedup (getDeduplication i (deduplicationStore s)) d)"
  by (simp add: put_topic_def Let_def getDeduplication_def updateDeduplication_def kept_dedup_def split: option.split)

lemma put_sample_dedup [simp]: "deduplicationStore (put_sample env i n p s) = deduplicationStore s"
  by (simp add: put_sample_def Let_def split: prod.split option.split)

lemma put_frame [simp]:
  "filterStore (put_topic env i p t d s) = filterStore s" "joinStore (put_topic env i p t d s) = joinStore s"
  "filterStore (put_sample env i n p s) = filterStore s" "joinStore (put_sample env i n p s) = joinStore s"
  by (simp_all add: put_topic_def put_sample_def Let_def split: prod.split option.split)

lemma put_sample_cases:
  "put_sample env i n p s = s \<or>
   (\<exists>x e es. getTopic i (topicsStore s) = Some x \<and>
      put_sample env i n p s = s\<lparr>topicsStore := updateTopic (he_now env) (x\<lparr>selectedEvent := e, events := es\<rparr>) (topicsStore s)\<rparr>)"
proof (cases "jtruthy (selected_event i (topicsStore s))")
  case False
  show ?thesis
  proof (cases "he_sample env n"; cases "getTopic i (topicsStore s)")
    fix ev x
    assume e: "he_sample env n = Some ev" and x: "getTopic i (topicsStore s) = Some x"
    show ?thesis
    proof (cases "jtruthy ev")
      case True
      with False e x have "put_sample env i n p s = s\<lparr>topicsStore := updateTopic (he_now env)
          (x\<lparr>selectedEvent := kafka_event ev i p, events := [kafka_event ev i p]\<rparr>) (topicsStore s)\<rparr>"
        by (simp only: put_sample_def prod.case if_False if_True option.case simp_thms)
      with x show ?thesis by blast
    qed (use False e x in \<open>simp add: put_sample_def\<close>)
  qed (use False in \<open>simp_all add: put_sample_def\<close>)
qed (simp add: put_sample_def)

lemma fold_frame: "(\<And>p s. f (g p s) = f s) \<Longrightarrow> f (fold g ps s) = f s"
  by (induction ps arbitrary: s) simp_all

section \<open>Hydration from a list of topics\<close>

locale topic_hydration =
  fixes pos :: "'t \<Rightarrow> string" and tname :: "'t \<Rightarrow> string"
    and topic :: "'t \<Rightarrow> nat \<Rightarrow> KafkaTopic" and dedup :: "'t \<Rightarrow> DeduplicationConfig"
    and put sample :: "HydrationEnv \<Rightarrow> nat \<times> 't \<Rightarrow> RootStore \<Rightarrow> RootStore"
  assumes put: "put env (i, t) = put_topic env i (pos t) (topic t i) (dedup t)"
    and sample: "sample env (i, t) = put_sample env i (tname t) (pos t)"
    and index: "topic_index (topic t i) = i"
begin

lemma sample_dedup: "deduplicationStore (sample env p s) = deduplicationStore s"
  by (cases p) (simp add: sample)

lemma samples_dedup: "deduplicationStore (fold (sample env) ps s) = deduplicationStore s"
  by (rule fold_frame) (rule sample_dedup)

lemma put_keeps_dedup:
  "getDeduplication j (deduplicationStore s) = Some d \<Longrightarrow> dc_key d \<noteq> [] \<Longrightarrow>
     getDeduplication j (deduplicationStore (put env p s)) = Some d"
  by (cases p; cases "fst p = j") (simp_all add: put put_topic_dedup put_topic_frame kept_dedup_def)

lemma puts_keep_dedup:
  "getDeduplication j (deduplicationStore s) = Some d \<Longrightarrow> dc_key d \<noteq> [] \<Longrightarrow>
     getDeduplication j (deduplicationStore (fold (put env) ps s)) = Some d"
  by (induction ps arbitrary: s) (simp_all add: put_keeps_dedup)

lemma keep_dedup:
  assumes "getDeduplication j (deduplicationStore s) = Some d" "dc_key d \<noteq> []"
  shows "getDeduplication j (deduplicationStore (hydrate_topics_with env (put env) (sample env) ts s)) = Some d"
  using assms by (auto simp: hydrate_topics_with_def Let_def puts_keep_dedup samples_dedup split: option.split prod.split)

lemma put_all:
  "(k \<le> j \<and> j < k + length ts \<longrightarrow>
      map_option topic_parts (getTopic j (topicsStore (fold (put env) (enumerate k ts) s))) =
        Some (topic_parts (topic (ts ! (j - k)) j)) \<and>
      getDeduplication j (deduplicationStore (fold (put env) (enumerate k ts) s)) =
        Some (kept_dedup (getDeduplication j (deduplicationStore s)) (dedup (ts ! (j - k))))) \<and>
   (j < k \<or> k + length ts \<le> j \<longrightarrow>
      getTopic j (topicsStore (fold (put env) (enumerate k ts) s)) = getTopic j (topicsStore s) \<and>
      getDeduplication j (deduplicationStore (fold (put env) (enumerate k ts) s)) = getDeduplication j (deduplicationStore s))"
proof (induction ts arbitrary: k s)
  case (Cons t ts)
  show ?case
  proof (cases "j = k")
    case True
    then show ?thesis
      using Cons.IH [of "Suc k" "put env (k, t) s"] put_topic_parts [OF index [of t k], of env "pos t" "dedup t" s]
        put_topic_dedup [of k env "pos t" "topic t k" "dedup t" s]
      by (auto simp: True put)
  next
    case False
    then show ?thesis
      using Cons.IH [of "Suc k" "put env (k, t) s"] put_topic_frame(1) [OF False, of env "pos t" "topic t k" "dedup t" s]
        put_topic_frame(2) [of j "topic t k" env k "pos t" "dedup t" s]
      by (auto simp: nth_Cons' Suc_le_eq put index)
  qed
qed auto

text \<open>Sampling events changes none of the parts.\<close>

lemma sampled:
  assumes "indexed n (topicsStore s)" "i < n"
  shows "indexed n (topicsStore (sample env (i, t) s)) \<and>
    map_option topic_parts (getTopic j (topicsStore (sample env (i, t) s))) = map_option topic_parts (getTopic j (topicsStore s)) \<and>
    (n \<le> j \<longrightarrow> getTopic j (topicsStore (sample env (i, t) s)) = getTopic j (topicsStore s))"
  using put_sample_cases [of env i "tname t" "pos t" s] unfolding sample [symmetric]
proof (elim disjE exE conjE)
  fix x e es
  assume x: "getTopic i (topicsStore s) = Some x"
    and s: "sample env (i, t) s = s\<lparr>topicsStore := updateTopic (he_now env) (x\<lparr>selectedEvent := e, events := es\<rparr>) (topicsStore s)\<rparr>"
  have "topic_index x = i" using assms x by (simp add: indexed_def)
  then have g: "getTopic k (topicsStore (sample env (i, t) s)) =
      (if k = i then Some (x\<lparr>selectedEvent := e, events := es\<rparr>) else getTopic k (topicsStore s))" for k
    unfolding s by (simp add: getTopic_def updateTopic_def)
  have "topic_index y = k" if "k < n" "getTopic k (topicsStore (sample env (i, t) s)) = Some y" for k y
    using that(2) g [of k] \<open>topic_index x = i\<close> indexedD [OF assms(1) that(1)] by (auto split: if_splits)
  then have "indexed n (topicsStore (sample env (i, t) s))" by (simp add: indexed_def)
  moreover have "topic_parts (x\<lparr>selectedEvent := e, events := es\<rparr>) = topic_parts x" by (simp add: topic_parts_def)
  ultimately show ?thesis using x assms(2) g [of j] by auto
qed (use assms in simp)

lemma all_sampled:
  assumes "indexed n (topicsStore s)" "\<forall>p \<in> set ps. fst p < n"
  shows "map_option topic_parts (getTopic j (topicsStore (fold (sample env) ps s))) = map_option topic_parts (getTopic j (topicsStore s)) \<and>
    (n \<le> j \<longrightarrow> getTopic j (topicsStore (fold (sample env) ps s)) = getTopic j (topicsStore s))"
  using assms
proof (induction ps arbitrary: s)
  case (Cons p ps)
  obtain i t where p: "p = (i, t)" by (cases p)
  have i: "i < n" using Cons.prems(2) p by simp
  note step = sampled [OF Cons.prems(1) i, of env t]
  have "indexed n (topicsStore (sample env p s))" using step p by simp
  then show ?case using Cons.IH [of "sample env p s"] Cons.prems(2) step [of j] p by simp
qed simp

lemma hydrated:
  assumes "s' = hydrate_topics_with env (put env) (sample env) (Some ts) s"
  shows "j < length ts \<Longrightarrow>
      map_option topic_parts (getTopic j (topicsStore s')) = Some (topic_parts (topic (ts ! j) j)) \<and>
      getDeduplication j (deduplicationStore s') = Some (kept_dedup (getDeduplication j (deduplicationStore s)) (dedup (ts ! j)))"
    and "length ts \<le> j \<Longrightarrow> getTopic j (topicsStore s') = getTopic j (topicsStore s)"
proof -
  define live where "live = live_connection env (kafkaStore s)"
  define s1 where "s1 = (case live of Some (names, _) \<Rightarrow> s\<lparr>topicsStore := setAvailableTopics names (topicsStore s)\<rparr> | None \<Rightarrow> s)"
  define s2 where "s2 = fold (put env) (enumerate 0 ts) s1"
  define s3 where "s3 = (if live = None then s2 else fold (sample env) (enumerate 0 ts) s2)"
  have s': "s' = setTopicCount (length ts) (s3\<lparr>topicsStore := topics_setTopicCount (length ts) (topicsStore s3)\<rparr>)"
    using assms by (simp add: hydrate_topics_with_def Let_def live_def s1_def s2_def s3_def)
  have s1: "getTopic j (topicsStore s1) = getTopic j (topicsStore s)" "deduplicationStore s1 = deduplicationStore s" for j
    by (auto simp: s1_def getTopic_def setAvailableTopics_def split: option.split prod.split)
  have t: "getTopic j (topics_setTopicCount n x) = getTopic j x" for j n x by (simp add: getTopic_def topics_setTopicCount_def)
  have "indexed (length ts) (topicsStore s2)"
    unfolding indexed_def
  proof (intro allI impI)
    fix i x assume i: "i < length ts" "getTopic i (topicsStore s2) = Some x"
    then have "topic_parts x = topic_parts (topic (ts ! i) i)"
      using put_all [of 0 i ts env s1] by (simp add: s2_def)
    then show "topic_index x = i" by (simp add: topic_parts_def index)
  qed
  moreover have "\<forall>p \<in> set (enumerate 0 ts). fst p < length ts" by (auto simp: in_set_enumerate_eq)
  ultimately have s3: "map_option topic_parts (getTopic j (topicsStore s3)) = map_option topic_parts (getTopic j (topicsStore s2))"
    "length ts \<le> j \<Longrightarrow> getTopic j (topicsStore s3) = getTopic j (topicsStore s2)" "deduplicationStore s3 = deduplicationStore s2" for j
    using all_sampled [of "length ts" s2 "enumerate 0 ts" j env] by (simp_all add: s3_def samples_dedup)
  show "j < length ts \<Longrightarrow>
      map_option topic_parts (getTopic j (topicsStore s')) = Some (topic_parts (topic (ts ! j) j)) \<and>
      getDeduplication j (deduplicationStore s') = Some (kept_dedup (getDeduplication j (deduplicationStore s)) (dedup (ts ! j)))"
    using put_all [of 0 j ts env s1] s3 by (simp add: s' t s1 s2_def)
  show "length ts \<le> j \<Longrightarrow> getTopic j (topicsStore s') = getTopic j (topicsStore s)"
    using put_all [of 0 j ts env s1] s3 by (simp add: s' t s1 s2_def)
qed

lemmas topics_hydrated = hydrated(1)

lemma beyond: "length ts \<le> j \<Longrightarrow> getTopic j (topicsStore (hydrate_topics_with env (put env) (sample env) (Some ts) s)) = getTopic j (topicsStore s)"
  by (rule hydrated(2)) simp_all

end

end
