(* ===== verification/Pipeline_Reload.thy ===== *)
theory Pipeline_Reload
  imports Pipeline_Adapter Transformation_Roundtrip
begin

text \<open>
  What an adapted pipeline keeps: a saved document that is loaded and saved again (opening a pipeline
  in the editor, downloading its configuration) is the document it was, apart from the sources of the
  columns of a join.
\<close>

section \<open>Reading what was written\<close>

lemma jget_Cons [simp]: "jget k (JObj ((k', v) # kvs)) = (if k' = k then v else jget k (JObj kvs))"
  by simp

lemma jget_append [simp]:
  "jget k (JObj (xs @ ys)) = (case map_of xs k of Some v \<Rightarrow> v | None \<Rightarrow> jget k (JObj ys))"
  by (simp add: map_add_def split: option.split)

lemma jget_empty [simp]: "jget k (JObj []) = JUndef" by simp

declare jget.simps(1) [simp del]

lemma map_of_if_truthy [simp]: "map_of (if_truthy k v) k' = (if k = k' \<and> jtruthy v then Some v else None)"
  by (simp add: if_truthy_def)

lemma or_nullish_simps [simp]:
  "\<not> nullish v \<Longrightarrow> or_nullish v d = v" "or_nullish JUndef d = d" "or_nullish JNull d = d"
  "or_nullish (JStr s) d = JStr s" "or_nullish (JObj kvs) d = JObj kvs"
  by (simp_all add: or_nullish_def nullish_def)

lemma or_nullish_twice [simp]: "or_nullish (or_nullish a b) c = or_nullish a (or_nullish b c)"
  by (simp add: or_nullish_def)

lemma or_nullish_given: "\<not> nullish d \<Longrightarrow> \<not> nullish (or_nullish v d)"
  by (simp add: or_nullish_def)

lemma nullish_simps [simp]: "nullish JUndef" "nullish JNull" "\<not> nullish (JStr s)" "\<not> nullish (JObj kvs)"
  "\<not> nullish (JBool b)" "\<not> nullish (JNum n)" "\<not> nullish (JArr xs)"
  by (simp_all add: nullish_def)

lemma when_given_simps [simp]: "\<not> nullish v \<Longrightarrow> when_given v = v" "or_nullish (when_given v) d = or_nullish v d"
  "nullish (when_given v) = nullish v"
  by (simp_all add: when_given_def or_nullish_def nullish_def)

lemma truthy_given: "jtruthy v \<Longrightarrow> \<not> nullish v" by (auto simp: nullish_def)

section \<open>Sources\<close>

lemma generated_kafka [simp]: "\<not> is_otlp_source (generated_source src t)"
  by (simp add: is_otlp_source_def generated_source_def)

lemma written_field_back [simp]:
  "generated_field (hydrated_schema_field (generated_field f)) = generated_field f"
  by (auto simp: generated_field_def hydrated_schema_field_def or_falsy_def or_nullish_def dest: truthy_given)

lemma written_field_kept [simp]: "sf_isRemoved (hydrated_schema_field f) = JUndef"
  by (simp add: hydrated_schema_field_def)

lemma version_given: "\<not> nullish (schemaVersion t)"
  by (simp add: schemaVersion_def or_nullish_given truthy_given)

lemma registry_default [simp]: "\<not> nullish (default_registry reg)"
  by (simp add: default_registry_def split: prod.split)

lemma registry_given: "\<not> nullish (or_nullish r (default_registry reg))"
  by (simp add: or_nullish_given)

text \<open>A topic as it is after it was saved and loaded.\<close>

definition loaded_topic :: "InternalSource \<Rightarrow> InternalTopic \<Rightarrow> InternalTopic" where
  "loaded_topic src t =
     (let h = hydrated_source_topic (generated_source src t)
      in if dd_enabled (it_dedup t) \<and> jtruthy (dd_id_field (it_dedup t))
         then h\<lparr>it_dedup := \<lparr>dd_enabled = True, dd_id_field = dd_id_field (it_dedup t), dd_id_field_type = JStr ''string'',
            dd_time_window = or_nullish (dd_time_window (it_dedup t)) (JStr ''1h'')\<rparr>\<rparr>
         else h)"

definition named_topic :: "InternalTopic \<Rightarrow> bool" where
  "named_topic t \<longleftrightarrow> \<not> nullish (it_name t)"

lemma topic_source_id_given: "named_topic t \<Longrightarrow> \<not> nullish (topic_source_id t)"
  by (simp add: named_topic_def topic_source_id_def or_nullish_given)

lemma hydrated_id [simp]: "it_id (hydrated_source_topic (generated_source src t)) = topic_source_id t"
  by (simp add: hydrated_source_topic_def generated_source_def)

lemma loaded_id [simp]: "it_id (loaded_topic src t) = topic_source_id t"
  by (simp add: loaded_topic_def Let_def)

lemma loaded_source_id: "named_topic t \<Longrightarrow> topic_source_id (loaded_topic src t) = topic_source_id t"
  by (simp add: topic_source_id_def [of "loaded_topic src t"] topic_source_id_given)

lemma loaded_topic_kept:
  "it_name (loaded_topic src t) = it_name (hydrated_source_topic (generated_source src t))"
  "it_offset (loaded_topic src t) = it_offset (hydrated_source_topic (generated_source src t))"
  "it_fields (loaded_topic src t) = it_fields (hydrated_source_topic (generated_source src t))"
  "it_schema_version (loaded_topic src t) = it_schema_version (hydrated_source_topic (generated_source src t))"
  "it_registryVersion (loaded_topic src t) = it_registryVersion (hydrated_source_topic (generated_source src t))"
  "it_schema_registry (loaded_topic src t) = it_schema_registry (hydrated_source_topic (generated_source src t))"
  by (simp_all add: loaded_topic_def Let_def)

lemma loaded_topic_written:
  assumes "named_topic t" "so_connection src' = so_connection src"
  shows "generated_source src' (loaded_topic src t) = generated_source src t"
proof -
  have parts: "it_name (loaded_topic src t) = it_name t" "it_offset (loaded_topic src t) = or_nullish (it_offset t) (JStr ''latest'')"
    "it_fields (loaded_topic src t) = map (hydrated_schema_field \<circ> generated_field) (filter (\<lambda>f. \<not> jtruthy (sf_isRemoved f)) (it_fields t))"
    "it_schema_version (loaded_topic src t) = schemaVersion t" "it_registryVersion (loaded_topic src t) = JUndef"
    "it_schema_registry (loaded_topic src t) = or_nullish (it_schema_registry t) (default_registry (so_registry src))"
    using assms(1) version_given [of t] registry_given [of "it_schema_registry t" "so_registry src"]
    unfolding loaded_topic_kept
    by (simp_all add: hydrated_source_topic_def generated_source_def named_topic_def)
  have "schemaVersion (loaded_topic src t) = schemaVersion t"
    using parts version_given [of t] by (simp add: schemaVersion_def [of "loaded_topic src t"])
  then show ?thesis
    using parts assms(2)
    by (simp add: generated_source_def loaded_source_id [OF assms(1)] filter_map comp_def)
qed

text \<open>Loading the deduplications of the topics.\<close>

lemma update_first_at:
  "\<forall>x \<in> set P. \<not> p x \<Longrightarrow> p h \<Longrightarrow> update_first p f (P @ h # R) = P @ f h # R"
  by (induction P) auto

lemma hydrate_dedup_topic:
  assumes "it_id h \<notin> set (map it_id P)" "it_id h = sid"
  shows "hydrate_dedup False (dedup_entry sid key window) (s\<lparr>so_topics := P @ h # R\<rparr>) =
    s\<lparr>so_topics := P @ h\<lparr>it_dedup := \<lparr>dd_enabled = True, dd_id_field = or_nullish key (JStr []),
        dd_id_field_type = JStr ''string'', dd_time_window = or_nullish window (JStr ''1h'')\<rparr>\<rparr> # R\<rparr>"
  unfolding hydrate_dedup_def Let_def
  using assms by (simp add: dedup_entry_def, subst update_first_at) (auto simp: image_iff)

lemma dedup_entry_type [simp]: "jget ''type'' (dedup_entry sid key window) = JStr ''dedup''"
  by (simp add: dedup_entry_def)

lemma topics_loaded:
  assumes "distinct (map it_id P @ map topic_source_id ts)"
  shows "fold (hydrate_transform False) (concat (map topic_dedup_entry ts))
      (s\<lparr>so_topics := P @ map (hydrated_source_topic \<circ> generated_source src) ts\<rparr>, f, t) =
    (s\<lparr>so_topics := P @ map (loaded_topic src) ts\<rparr>, f, t)"
  using assms
proof (induction ts arbitrary: P)
  case (Cons a ts)
  have "distinct (map it_id (P @ [loaded_topic src a]) @ map topic_source_id ts)" using Cons.prems by simp
  note IH = Cons.IH [OF this]
  define R where "R = map (hydrated_source_topic \<circ> generated_source src) ts"
  have step: "fold (hydrate_transform False) (topic_dedup_entry a)
      (s\<lparr>so_topics := P @ hydrated_source_topic (generated_source src a) # R\<rparr>, f, t) =
    (s\<lparr>so_topics := P @ loaded_topic src a # R\<rparr>, f, t)"
    using Cons.prems
    by (auto simp: topic_dedup_entry_def hydrate_transform_def hydrate_dedup_topic loaded_topic_def Let_def truthy_given)
  show ?case using IH by (simp add: step [unfolded R_def comp_def] comp_def)
qed simp

text \<open>The document of a source that can be told apart: named topics, with different ids.\<close>

definition source_ok :: "InternalSource \<Rightarrow> bool" where
  "source_ok src \<longleftrightarrow> source_is_otlp src \<or>
     list_all named_topic (so_topics src) \<and> distinct (map topic_source_id (so_topics src)) \<and>
     \<not> nullish (so_connection src)"

definition loaded_source :: "InternalSource \<Rightarrow> InternalSource" where
  "loaded_source src =
     (let h = hydrated_source (generated_sources src)
      in if source_is_otlp src
         then h\<lparr>so_dedup := (case so_dedup src of
             Some d \<Rightarrow> if sd_enabled d \<and> jtruthy (sd_key d)
               then Some \<lparr>sd_enabled = True, sd_key = sd_key d,
                      sd_time_window = or_nullish (sd_time_window d) (JStr ''1h'')\<rparr> else None
           | None \<Rightarrow> None)\<rparr>
         else h\<lparr>so_topics := map (loaded_topic src) (so_topics src)\<rparr>)"

lemma sources_otlp: "filter is_otlp_source (generated_sources src) \<noteq> [] \<longleftrightarrow> source_is_otlp src"
  by (simp add: generated_sources_def filter_map comp_def is_otlp_source_def [of "JObj _"] source_is_otlp_def)

lemma hydrated_kafka:
  assumes "\<not> source_is_otlp src"
  shows "so_topics (hydrated_source (generated_sources src)) =
      map (hydrated_source_topic \<circ> generated_source src) (so_topics src) \<and>
    so_type (hydrated_source (generated_sources src)) = ''kafka'' \<and>
    (so_topics src \<noteq> [] \<and> \<not> nullish (so_connection src) \<longrightarrow>
     so_connection (hydrated_source (generated_sources src)) = so_connection src)"
proof -
  have "jget ''connection_params'' (generated_source src t) = so_connection src" for t by (simp add: generated_source_def)
  then show ?thesis
    using assms by (cases "so_topics src") (simp_all add: hydrated_source_def generated_sources_def filter_map comp_def Let_def)
qed

lemma hydrated_otlp:
  assumes "source_is_otlp src"
  shows "so_type (hydrated_source (generated_sources src)) = so_type src \<and>
    so_id (hydrated_source (generated_sources src)) = or_nullish (so_id src) (JStr ''source'') \<and>
    so_dedup (hydrated_source (generated_sources src)) = None"
  using assms by (simp add: hydrated_source_def generated_sources_def is_otlp_source_def source_is_otlp_def)

lemma loaded_kind [simp]: "source_is_otlp (loaded_source src) = source_is_otlp src"
  using hydrated_kafka [of src] hydrated_otlp [of src]
  by (auto simp: loaded_source_def Let_def source_is_otlp_def)

lemma source_loaded:
  assumes "source_ok src"
  shows "fold (hydrate_transform (source_is_otlp src)) (dedup_entries src)
      (hydrated_source (generated_sources src), f, t) = (loaded_source src, f, t)"
proof (cases "source_is_otlp src")
  case True
  then show ?thesis
    using hydrated_otlp [OF True]
    by (auto simp: dedup_entries_def loaded_source_def Let_def hydrate_transform_def hydrate_dedup_def dedup_entry_def
        truthy_given split: option.split)
next
  case False
  have "hydrated_source (generated_sources src) = (hydrated_source (generated_sources src))
      \<lparr>so_topics := [] @ map (hydrated_source_topic \<circ> generated_source src) (so_topics src)\<rparr>"
    using hydrated_kafka [OF False] by simp
  with topics_loaded [where P = "[]" and ts = "so_topics src" and s = "hydrated_source (generated_sources src)" and src = src and f = f and t = t] assms False
  show ?thesis by (simp add: dedup_entries_def loaded_source_def Let_def source_ok_def)
qed

lemma loaded_sources_written:
  assumes "source_ok src"
  shows "generated_sources (loaded_source src) = generated_sources src"
proof (cases "source_is_otlp src")
  case True
  then show ?thesis
    using hydrated_otlp [OF True] by (simp add: generated_sources_def [of "loaded_source src"]) (simp add: generated_sources_def loaded_source_def Let_def)
next
  case False
  have "so_connection (loaded_source src) = so_connection src" if "so_topics src \<noteq> []"
    using that hydrated_kafka [OF False] assms False by (simp add: loaded_source_def Let_def source_ok_def)
  then show ?thesis
    using False loaded_kind [of src] assms
    by (cases "so_topics src = []")
      (auto simp: generated_sources_def loaded_source_def Let_def source_ok_def list_all_iff loaded_topic_written)
qed

lemma loaded_first [simp]:
  assumes "source_ok src"
  shows "first_source_id (loaded_source src) = first_source_id src"
proof (cases "source_is_otlp src")
  case True
  then show ?thesis
    using hydrated_otlp [OF True] by (simp add: first_source_id_def [of "loaded_source src"])
      (simp add: first_source_id_def loaded_source_def Let_def)
next
  case False
  then show ?thesis
    using assms by (cases "so_topics src") (simp_all add: first_source_id_def [of "loaded_source src"],
      simp_all add: first_source_id_def loaded_source_def Let_def source_ok_def loaded_source_id)
qed

lemma loaded_topic_dedup [simp]: "named_topic t \<Longrightarrow> topic_dedup_entry (loaded_topic src t) = topic_dedup_entry t"
proof -
  assume n: "named_topic t"
  have h: "it_dedup (hydrated_source_topic x) = no_topic_dedup" for x by (simp add: hydrated_source_topic_def)
  show ?thesis
    by (simp add: topic_dedup_entry_def [of "loaded_topic src t"] loaded_source_id [OF n])
      (simp add: topic_dedup_entry_def loaded_topic_def Let_def h no_topic_dedup_def dedup_entry_def)
qed

lemma loaded_dedup_written:
  assumes "source_ok src"
  shows "dedup_entries (loaded_source src) = dedup_entries src"
proof (cases "source_is_otlp src")
  case True
  then show ?thesis
    using hydrated_otlp [OF True]
    by (simp add: dedup_entries_def [of "loaded_source src"])
      (simp add: dedup_entries_def loaded_source_def Let_def dedup_entry_def split: option.split)
next
  case False
  then have "so_topics (loaded_source src) = map (loaded_topic src) (so_topics src)" by (simp add: loaded_source_def Let_def)
  moreover have "concat (map (\<lambda>t. topic_dedup_entry (loaded_topic src t)) (so_topics src)) = concat (map topic_dedup_entry (so_topics src))"
    using assms False by (intro arg_cong [where f = concat] map_cong refl) (simp add: source_ok_def list_all_iff)
  ultimately show ?thesis using False by (simp add: dedup_entries_def comp_def)
qed

section \<open>Joins, sinks and resources\<close>

lemma map_of_side [simp]:
  "map_of (generated_side k side) k' = (if k = k'
     then map_option (\<lambda>s. JObj [(''source_id'', jo_source_id s), (''key'', jo_key s), (''time_window'', jo_time_window s)]) side
     else None)"
  by (simp add: generated_side_def split: option.split)

lemma join_parts:
  "jget ''enabled'' (generated_join j rows) = JBool True"
  "jget ''type'' (generated_join j rows) = or_nullish (jn_type j) (JStr ''temporal'')"
  "jget ''id'' (generated_join j rows) = (if jtruthy (jn_id j) then jn_id j else JUndef)"
  "hydrated_side (generated_join j rows) ''left_source'' side =
     (case join_side ''left'' j of None \<Rightarrow> [] | Some s \<Rightarrow> [s\<lparr>jo_orientation := side\<rparr>])"
  "hydrated_side (generated_join j rows) ''right_source'' side =
     (case join_side ''right'' j of None \<Rightarrow> [] | Some s \<Rightarrow> [s\<lparr>jo_orientation := side\<rparr>])"
  by (simp_all add: generated_join_def hydrated_side_def map_add_def jget.simps Let_def split: option.split)

lemma side_back:
  "join_side ''left'' (hydrated_join (generated_join j rows)) = map_option (\<lambda>s. s\<lparr>jo_orientation := ''left''\<rparr>) (join_side ''left'' j) \<and>
   join_side ''right'' (hydrated_join (generated_join j rows)) = map_option (\<lambda>s. s\<lparr>jo_orientation := ''right''\<rparr>) (join_side ''right'' j) \<and>
   jn_enabled (hydrated_join (generated_join j rows))"
  unfolding hydrated_join_def join_parts
  by (simp add: join_side_def [of _ "InternalJoin.make _ _ _ _", unfolded InternalJoin.make_def] split: option.split)

lemma join_written:
  "generated_join (hydrated_join (generated_join j rows)) rows' = generated_join j rows'"
proof -
  have "or_nullish (jn_type (hydrated_join (generated_join j rows))) (JStr ''temporal'') = or_nullish (jn_type j) (JStr ''temporal'')"
    "if_truthy ''id'' (jn_id (hydrated_join (generated_join j rows))) = if_truthy ''id'' (jn_id j)"
    unfolding hydrated_join_def join_parts by (simp_all add: if_truthy_def)
  moreover have "generated_side k (map_option (\<lambda>s. s\<lparr>jo_orientation := d\<rparr>) x) = generated_side k x" for k d x
    by (simp add: generated_side_def split: option.split)
  ultimately show ?thesis
    using side_back [of j rows] by (simp add: generated_join_def [of "hydrated_join _"]) (simp add: generated_join_def)
qed

text \<open>Loading attributes every column to the source of the sink, and knows no engine and no sorting key.\<close>

definition unattributed :: "InternalSink \<Rightarrow> InternalSink" where
  "unattributed s = s\<lparr>sk_mapping := map (\<lambda>m. m\<lparr>mr_source_id := JStr []\<rparr>) (sk_mapping s),
     sk_engine := JUndef, sk_order_by := JUndef\<rparr>"

lemma written_rows: "map (written_row \<circ> (hydrated_row i \<circ> written_row)) rows = map written_row rows"
  by (simp add: written_row_def hydrated_row_def)

lemma sink_written:
  assumes "\<not> nullish (sk_table s)"
  shows "generated_sink (hydrated_sink (generated_sink s)) = generated_sink (unattributed s)"
  using assms
  by (simp add: generated_sink_def hydrated_sink_def sink_value_def unattributed_def written_rows comp_def if_truthy_def
      written_row_def hydrated_row_def)

definition sides_ok :: "InternalJoin \<Rightarrow> bool" where
  "sides_ok j \<longleftrightarrow>
     (case (join_side ''left'' j, join_side ''right'' j) of
        (Some l, Some r) \<Rightarrow> \<not> nullish (jo_source_id l) \<and> \<not> nullish (jo_source_id r) \<and> jo_source_id l \<noteq> jo_source_id r
      | _ \<Rightarrow> False)"

text \<open>Resources with the properties of their types, in the order the loader gives them; one that is absent is undefined.\<close>

definition shaped :: "json \<Rightarrow> bool" where
  "shaped p \<longleftrightarrow> p = JObj (resource_part p)"

definition resources_ok :: "json \<Rightarrow> bool" where
  "resources_ok pr \<longleftrightarrow>
     (let ingestor = jget ''ingestor'' pr; t = jget ''transform'' pr
      in list_all (\<lambda>k. \<not> jtruthy (jget k ingestor) \<or> shaped (jget k ingestor)) [''left'', ''right'', ''base''] \<and>
         (\<not> jtruthy t \<or> t = JObj (resource_part t @ [(''storage'', jget ''storage'' t)])))"

lemma spread_part [simp]: "spread [(''source_id'', i)] (JObj (resource_part p)) = JObj ((''source_id'', i) # resource_part p)"
  by (simp add: spread_def resource_part_def)

lemma spread_shaped: "shaped p \<Longrightarrow> spread [(''source_id'', i)] p = JObj ((''source_id'', i) # resource_part p)"
  by (metis shaped_def spread_part)

lemma resource_part_again [simp]:
  "resource_part (JObj (resource_part p)) = resource_part p"
  "resource_part (JObj ((''source_id'', i) # resource_part p)) = resource_part p"
  "resource_part (JObj ((''source_id'', i) # resource_part p @ xs)) = resource_part p"
  "resource_part (JObj (resource_part p @ xs)) = resource_part p"
  "jget ''source_id'' (JObj ((''source_id'', i) # kvs)) = i"
  by (simp_all add: resource_part_def)

lemma spread_transform: "t = JObj (resource_part t @ [(''storage'', s)]) \<Longrightarrow>
    spread [(''source_id'', i)] t = JObj ((''source_id'', i) # resource_part t @ [(''storage'', s)])"
  by (erule ssubst) (simp add: spread_def resource_part_def)

text \<open>The parts of a document.\<close>

lemma document_parts:
  "jget ''pipeline_id'' (generate cfg) = ic_pipeline_id cfg" "jget ''name'' (generate cfg) = ic_name cfg"
  "jelements (jget ''sources'' (generate cfg)) = generated_sources (ic_source cfg)"
  "jelements (jget ''transforms'' (generate cfg)) = generated_transforms cfg"
  "jget ''join'' (generate cfg) =
     (if jn_enabled (ic_join cfg) then generated_join (ic_join cfg) (sk_mapping (ic_sink cfg)) else JUndef)"
  "jget ''sink'' (generate cfg) = generated_sink (ic_sink cfg)"
  "jget ''resources'' (generate cfg) = (if jtruthy (ic_resources cfg) then resources_document cfg else JUndef)"
  "jget ''metadata'' (generate cfg) = (if jtruthy (ic_metadata cfg) then ic_metadata cfg else JUndef)"
  by (simp_all add: generate_def map_add_def if_truthy_def)

lemma resource_document_parts:
  "jtruthy (resources_document cfg)"
  "jelements (jget ''sources'' (resources_document cfg)) = source_resources cfg"
  "jelements (jget ''transform'' (resources_document cfg)) = transform_resources cfg"
  "jget ''nats'' (resources_document cfg) = (if jtruthy (jget ''nats'' (ic_resources cfg)) then jget ''nats'' (ic_resources cfg) else JUndef)"
  "jget ''sink'' (resources_document cfg) = (if jtruthy (jget ''sink'' (ic_resources cfg)) then jget ''sink'' (ic_resources cfg) else JUndef)"
  by (simp_all add: resources_document_def map_add_def if_truthy_def)

text \<open>The loaded resources.\<close>

definition loaded_join_config :: "InternalPipelineConfig \<Rightarrow> json" where
  "loaded_join_config cfg = or_nullish (jget ''join'' (generate cfg)) (JObj [])"

lemma join_config: "jn_enabled (ic_join cfg) \<Longrightarrow> loaded_join_config cfg = generated_join (ic_join cfg) (sk_mapping (ic_sink cfg))"
  "\<not> jn_enabled (ic_join cfg) \<Longrightarrow> loaded_join_config cfg = JObj []"
  by (simp_all add: loaded_join_config_def document_parts) (simp add: generated_join_def)

definition loaded_resources :: "InternalPipelineConfig \<Rightarrow> json" where
  "loaded_resources cfg = hydrated_resources (loaded_join_config cfg) (resources_document cfg)"

lemma loaded_resource_parts:
  "jtruthy (loaded_resources cfg)"
  "if_truthy ''nats'' (jget ''nats'' (loaded_resources cfg)) = if_truthy ''nats'' (jget ''nats'' (ic_resources cfg))"
  "if_truthy ''sink'' (jget ''sink'' (loaded_resources cfg)) = if_truthy ''sink'' (jget ''sink'' (ic_resources cfg))"
  "jget ''ingestor'' (loaded_resources cfg) = jget ''ingestor'' (JObj (hydrated_ingestor (loaded_join_config cfg) (source_resources cfg)))"
  "jget ''transform'' (loaded_resources cfg) =
     (case transform_resources cfg of [] \<Rightarrow> JUndef | t # _ \<Rightarrow> JObj (resource_part t @ [(''storage'', jget ''storage'' t)]))"
proof -
  have ing: "map_of (hydrated_ingestor j rs) k = None" if "k \<noteq> ''ingestor''" for j rs k
    using that by (simp add: hydrated_ingestor_def split: list.split)
  show "jtruthy (loaded_resources cfg)"
    "if_truthy ''nats'' (jget ''nats'' (loaded_resources cfg)) = if_truthy ''nats'' (jget ''nats'' (ic_resources cfg))"
    "if_truthy ''sink'' (jget ''sink'' (loaded_resources cfg)) = if_truthy ''sink'' (jget ''sink'' (ic_resources cfg))"
    "jget ''ingestor'' (loaded_resources cfg) = jget ''ingestor'' (JObj (hydrated_ingestor (loaded_join_config cfg) (source_resources cfg)))"
    "jget ''transform'' (loaded_resources cfg) =
     (case transform_resources cfg of [] \<Rightarrow> JUndef | t # _ \<Rightarrow> JObj (resource_part t @ [(''storage'', jget ''storage'' t)]))"
    by (simp_all add: loaded_resources_def hydrated_resources_def resource_document_parts ing map_add_def if_truthy_def jget.simps split: list.split option.split)
qed

text \<open>The configuration that a saved one is loaded as, and its resources when they are saved again.\<close>

definition loaded_resources_of :: "InternalPipelineConfig \<Rightarrow> json" where
  "loaded_resources_of cfg = (if jtruthy (ic_resources cfg) then loaded_resources cfg else JUndef)"

lemma loaded_join: "jn_enabled (hydrated_join (loaded_join_config cfg)) = jn_enabled (ic_join cfg)"
  "jn_enabled (ic_join cfg) \<Longrightarrow>
     join_side ''left'' (hydrated_join (loaded_join_config cfg)) = map_option (\<lambda>s. s\<lparr>jo_orientation := ''left''\<rparr>) (join_side ''left'' (ic_join cfg)) \<and>
     join_side ''right'' (hydrated_join (loaded_join_config cfg)) = map_option (\<lambda>s. s\<lparr>jo_orientation := ''right''\<rparr>) (join_side ''right'' (ic_join cfg))"
  using side_back [of "ic_join cfg" "sk_mapping (ic_sink cfg)"]
  by (cases "jn_enabled (ic_join cfg)"; simp add: join_config; simp add: hydrated_join_def)+

lemma joined_ids:
  assumes "jn_enabled (ic_join cfg)" "join_side ''left'' (ic_join cfg) = Some l" "join_side ''right'' (ic_join cfg) = Some r"
  shows "jget ''source_id'' (jget ''left_source'' (loaded_join_config cfg)) = jo_source_id l"
    "jget ''source_id'' (jget ''right_source'' (loaded_join_config cfg)) = jo_source_id r"
    "jtruthy (jget ''enabled'' (loaded_join_config cfg))"
  using assms by (simp_all add: join_config) (simp_all add: generated_join_def map_add_def)

lemma side_resources_again [simp]:
  "side_resources (map_option (\<lambda>s. s\<lparr>jo_orientation := d\<rparr>) side) part = side_resources side part"
  by (simp add: side_resources_def split: option.split)

lemma shaped_resource: "shaped p \<Longrightarrow> JObj (resource_part p) = p"
  unfolding shaped_def by (rule sym)

lemma source_resources_joined:
  assumes j: "jn_enabled (ic_join cfg)" "sides_ok (ic_join cfg)" and r: "resources_ok (ic_resources cfg)"
    and ing: "ingestor = jget ''ingestor'' (JObj (hydrated_ingestor (loaded_join_config cfg) (source_resources cfg)))"
  shows "(if jtruthy ingestor then side_resources (join_side ''left'' (ic_join cfg)) (jget ''left'' ingestor)
      @ side_resources (join_side ''right'' (ic_join cfg)) (jget ''right'' ingestor) else []) = source_resources cfg"
proof -
  obtain l r where lr: "join_side ''left'' (ic_join cfg) = Some l" "join_side ''right'' (ic_join cfg) = Some r"
    "jo_source_id l \<noteq> jo_source_id r" using j(2) by (auto simp: sides_ok_def split: option.splits)
  note ids = joined_ids [OF j(1) lr(1,2)]
  let ?i = "jget ''ingestor'' (ic_resources cfg)"
  have shaped: "shaped (jget k ?i)" if "jtruthy (jget k ?i)" "k = ''left'' \<or> k = ''right''" for k
    using r that by (auto simp: resources_ok_def Let_def)
  have found: "found_part k i [] = []"
    "found_part k i (JObj ((''source_id'', i') # kvs) # xs) =
       (if i' = i then [(k, JObj (resource_part (JObj ((''source_id'', i') # kvs))))] else found_part k i xs)" for k i i' kvs xs
    by (simp_all add: found_part_def)
  show ?thesis
    using ing lr(3) j(1)
    by (cases "jtruthy ?i"; cases "jtruthy (jget ''left'' ?i)"; cases "jtruthy (jget ''right'' ?i)")
      (simp_all add: source_resources_def Let_def lr side_resources_def hydrated_ingestor_def ids found spread_shaped shaped shaped_resource)
qed

lemma source_resources_alone:
  assumes j: "\<not> jn_enabled (ic_join cfg)" and r: "resources_ok (ic_resources cfg)"
    and ing: "ingestor = jget ''ingestor'' (JObj (hydrated_ingestor (loaded_join_config cfg) (source_resources cfg)))"
  shows "(if jtruthy ingestor \<and> jtruthy (jget ''base'' ingestor) \<and> \<not> source_is_otlp (ic_source cfg)
     then [spread [(''source_id'', first_source_id (ic_source cfg))] (jget ''base'' ingestor)] else []) = source_resources cfg"
proof -
  let ?i = "jget ''ingestor'' (ic_resources cfg)"
  have "shaped (jget ''base'' ?i)" if "jtruthy (jget ''base'' ?i)"
    using r that by (simp add: resources_ok_def Let_def)
  then show ?thesis
    using ing j
    by (cases "jtruthy ?i"; cases "jtruthy (jget ''base'' ?i)"; cases "source_is_otlp (ic_source cfg)")
      (simp_all add: source_resources_def Let_def hydrated_ingestor_def join_config spread_shaped)
qed

lemma transform_resources_again:
  assumes r: "resources_ok (ic_resources cfg)" and no: "none = (dedup_entries (ic_source cfg) = [])"
    and t: "t = (case transform_resources cfg of [] \<Rightarrow> JUndef | t # _ \<Rightarrow> JObj (resource_part t @ [(''storage'', jget ''storage'' t)]))"
  shows "(if \<not> jtruthy t then [] else
      (let out = spread [(''source_id'', first_source_id (ic_source cfg))] t
       in [if none then without_property ''storage'' out else out])) = transform_resources cfg"
proof (cases "jtruthy (jget ''transform'' (ic_resources cfg))")
  case True
  let ?t = "jget ''transform'' (ic_resources cfg)"
  have shape: "?t = JObj (resource_part ?t @ [(''storage'', jget ''storage'' ?t)])"
    using r True by (simp add: resources_ok_def Let_def)
  have sp: "spread [(''source_id'', i)] ?t = JObj ((''source_id'', i) # resource_part ?t @ [(''storage'', jget ''storage'' ?t)])" for i
    by (rule spread_transform [OF shape])
  have sp2: "spread [(''source_id'', i)] (JObj (resource_part p @ [(''storage'', s)])) =
     JObj ((''source_id'', i) # resource_part p @ [(''storage'', s)])" for i p s
    by (simp add: spread_def resource_part_def)
  have parts: "filter (\<lambda>(k', _). k' \<noteq> ''storage'') (resource_part p) = resource_part p" "map_of (resource_part p) ''storage'' = None" for p
    by (simp_all add: resource_part_def)
  show ?thesis using True t no
    by (cases none) (simp_all add: transform_resources_def Let_def sp sp2 without_property_def parts)
next
  case False
  then show ?thesis using t by (simp add: transform_resources_def)
qed

lemma resources_written:
  assumes ok: "source_ok (ic_source cfg)" "jn_enabled (ic_join cfg) \<longrightarrow> sides_ok (ic_join cfg)" "resources_ok (ic_resources cfg)"
    and t: "jtruthy (ic_resources cfg)"
    and c: "ic_source cfg' = loaded_source (ic_source cfg)" "ic_join cfg' = hydrated_join (loaded_join_config cfg)"
      "ic_resources cfg' = loaded_resources cfg"
  shows "resources_document cfg' = resources_document cfg"
proof -
  have "source_resources cfg' = source_resources cfg"
  proof (cases "jn_enabled (ic_join cfg)")
    case True
    show ?thesis
      using source_resources_joined [OF True _ ok(3) refl] True ok(2) loaded_join [of cfg]
      by (auto simp: source_resources_def [of cfg'] c loaded_resource_parts Let_def split: if_splits)
  next
    case False
    show ?thesis
      using source_resources_alone [OF False ok(3) refl] False ok(1) loaded_join(1) [of cfg]
      by (auto simp: source_resources_def [of cfg'] c loaded_resource_parts Let_def split: if_splits)
  qed
  moreover have "transform_resources cfg' = transform_resources cfg"
    using transform_resources_again [OF ok(3) refl refl]
    unfolding transform_resources_def [of cfg'] c loaded_resource_parts loaded_dedup_written [OF ok(1)] loaded_first [OF ok(1)] Let_def .
  ultimately show ?thesis
    by (simp add: resources_document_def [of cfg'] c loaded_resource_parts) (simp add: resources_document_def)
qed

section \<open>Filters, transformations and the document\<close>

definition loaded_filter :: "InternalPipelineConfig \<Rightarrow> InternalFilter" where
  "loaded_filter cfg =
     (case ic_filter cfg of
        Some f \<Rightarrow> if if_enabled f then \<lparr>if_enabled = True, if_expression = or_nullish (if_expression f) (JStr [])\<rparr> else no_filter
      | None \<Rightarrow> no_filter)"

definition written_items :: "InternalTransformation \<Rightarrow> TransformArrayItem list" where
  "written_items t = toTransformArray \<lparr>tc_enabled = True, tc_fields = ir_fields t\<rparr>"

definition loaded_transformation :: "InternalPipelineConfig \<Rightarrow> InternalTransformation" where
  "loaded_transformation cfg =
     (case ic_transformation cfg of
        Some t \<Rightarrow> if ir_enabled t \<and> ir_fields t \<noteq> []
          then \<lparr>ir_enabled = True, ir_fields = map (\<lambda>(i, x). mapTransformToField x i) (enumerate 0 (written_items t)),
                ir_source_id = or_nullish (ir_source_id t) (first_source_id (ic_source cfg))\<rparr>
          else no_transformation
      | None \<Rightarrow> no_transformation)"

definition loaded :: "InternalPipelineConfig \<Rightarrow> InternalPipelineConfig" where
  "loaded cfg =
     \<lparr>ic_pipeline_id = ic_pipeline_id cfg, ic_name = ic_name cfg, ic_source = loaded_source (ic_source cfg),
      ic_join = hydrated_join (loaded_join_config cfg), ic_filter = Some (loaded_filter cfg),
      ic_transformation = Some (loaded_transformation cfg), ic_sink = hydrated_sink (generated_sink (ic_sink cfg)),
      ic_resources = loaded_resources_of cfg, ic_metadata = (if jtruthy (ic_metadata cfg) then ic_metadata cfg else JUndef)\<rparr>"

lemma item_back [simp]: "read_item (written_item i) = i"
  by (simp add: read_item_def written_item_def)

lemma filter_loaded: "fold (hydrate_transform otlp) (filter_entries cfg) (s, no_filter, t) = (s, loaded_filter cfg, t)"
  by (simp add: filter_entries_def loaded_filter_def hydrate_transform_def split: option.split)

lemma transformation_loaded:
  "fold (hydrate_transform otlp) (stateless_entries cfg) (s, f, no_transformation) = (s, f, loaded_transformation cfg)"
  by (simp add: stateless_entries_def loaded_transformation_def hydrate_transform_def written_items_def enumerate_eq_zip
      zip_map2 case_prod_unfold comp_def split: option.split)

lemma hydrate_generate:
  assumes "source_ok (ic_source cfg)"
  shows "hydrate (generate cfg) = loaded cfg"
proof -
  have f: "fold (hydrate_transform (source_is_otlp (ic_source cfg))) (generated_transforms cfg)
      (hydrated_source (generated_sources (ic_source cfg)), no_filter, no_transformation) =
      (loaded_source (ic_source cfg), loaded_filter cfg, loaded_transformation cfg)"
    by (simp add: generated_transforms_def source_loaded [OF assms] filter_loaded transformation_loaded)
  have m: "when_given (if jtruthy m then m else JUndef) = (if jtruthy m then m else JUndef)" for m
    by (simp add: truthy_given when_given_def)
  have r: "hydrated_resources j JUndef = JUndef" for j by (simp add: hydrated_resources_def)
  show ?thesis
    by (simp add: hydrate_def Let_def document_parts sources_otlp f m loaded_def loaded_resources_of_def loaded_resources_def
        r loaded_join_config_def)
qed

text \<open>A written transformation entry that is read as a complete field with the same expression.\<close>

definition reloads :: "nat \<Rightarrow> TransformArrayItem \<Rightarrow> bool" where
  "reloads i x \<longleftrightarrow>
     (let f = mapTransformToField x i
      in isFieldComplete f \<and> fieldToExpr f = expression x \<and> expression x \<noteq> [] \<and> outputFieldName f = output_name x \<and>
         (if outputFieldType f = [] then ''string'' else outputFieldType f) = output_type x)"

lemma items_reloaded:
  assumes "list_all (\<lambda>(i, x). reloads i x) (enumerate n xs)" "xs \<noteq> []"
  shows "toTransformArray \<lparr>tc_enabled = True, tc_fields = map (\<lambda>(i, x). mapTransformToField x i) (enumerate n xs)\<rparr> = xs"
proof -
  have "filter (\<lambda>item. expression item \<noteq> [])
        (map (\<lambda>f. \<lparr>expression = fieldToExpr f, output_name = outputFieldName f,
            output_type = (if outputFieldType f = [] then ''string'' else outputFieldType f)\<rparr>)
          (filter isFieldComplete (map (\<lambda>(i, x). mapTransformToField x i) (enumerate n xs)))) = xs"
    using assms(1) by (induction xs arbitrary: n) (auto simp: reloads_def Let_def)
  then show ?thesis using assms(2) by (cases xs) (simp_all add: toTransformArray_def)
qed

definition transformation_ok :: "InternalPipelineConfig \<Rightarrow> bool" where
  "transformation_ok cfg \<longleftrightarrow>
     (case ic_transformation cfg of
        Some t \<Rightarrow> ir_enabled t \<and> ir_fields t \<noteq> [] \<longrightarrow>
          written_items t \<noteq> [] \<and> list_all (\<lambda>(i, x). reloads i x) (enumerate 0 (written_items t))
      | None \<Rightarrow> True)"

text \<open>A configuration that can be saved without loss of its parts.\<close>

definition savable :: "InternalPipelineConfig \<Rightarrow> bool" where
  "savable cfg \<longleftrightarrow> source_ok (ic_source cfg) \<and> (jn_enabled (ic_join cfg) \<longrightarrow> sides_ok (ic_join cfg)) \<and>
     \<not> nullish (sk_table (ic_sink cfg)) \<and> resources_ok (ic_resources cfg) \<and> transformation_ok cfg"

lemma first_given: "\<not> nullish (first_source_id src)"
  by (simp add: first_source_id_def or_nullish_given split: list.split)

lemma stateless_written:
  assumes "source_ok (ic_source cfg)" "transformation_ok cfg"
  shows "stateless_entries (loaded cfg) = stateless_entries cfg"
proof (cases "\<exists>t. ic_transformation cfg = Some t \<and> ir_enabled t \<and> ir_fields t \<noteq> []")
  case True
  then obtain t where t: "ic_transformation cfg = Some t" "ir_enabled t" "ir_fields t \<noteq> []" by blast
  have it: "written_items t \<noteq> []" "list_all (\<lambda>(i, x). reloads i x) (enumerate 0 (written_items t))"
    using assms(2) t by (simp_all add: transformation_ok_def)
  have lt: "ic_transformation (loaded cfg) = Some \<lparr>ir_enabled = True,
      ir_fields = map (\<lambda>(i, x). mapTransformToField x i) (enumerate 0 (written_items t)),
      ir_source_id = or_nullish (ir_source_id t) (first_source_id (ic_source cfg))\<rparr>"
    using t by (simp add: loaded_def loaded_transformation_def)
  have id: "transform_id (loaded cfg) = transform_id cfg" by (simp add: transform_id_def loaded_def)
  have ne: "enumerate 0 (written_items t) \<noteq> []" using it(1) by (cases "written_items t") simp_all
  show ?thesis
    by (simp add: stateless_entries_def lt id t ne items_reloaded [OF it(2,1)] first_given)
      (simp add: written_items_def)
next
  case False
  then show ?thesis
    by (cases "ic_transformation cfg") (auto simp: stateless_entries_def loaded_def loaded_transformation_def no_transformation_def)
qed

lemma filter_written: "source_ok (ic_source cfg) \<Longrightarrow> filter_entries (loaded cfg) = filter_entries cfg"
  by (simp add: filter_entries_def loaded_def loaded_filter_def no_filter_def split: option.split)

lemma blanked_keys:
  "output_fields seen (map (\<lambda>m. m\<lparr>mr_source_id := JStr []\<rparr>) rows) =
   output_fields seen (map (hydrated_row JUndef \<circ> written_row) rows)"
  by (induction rows arbitrary: seen) (simp_all add: row_key_def hydrated_row_def written_row_def)

lemma loaded_rows:
  "sk_mapping (hydrated_sink (generated_sink s)) = map (hydrated_row JUndef \<circ> written_row) (sk_mapping s)"
  by (simp add: hydrated_sink_def generated_sink_def comp_def if_truthy_def)

lemma resaved_document:
  assumes "savable cfg"
  shows "generate (hydrate (generate cfg)) = generate (cfg\<lparr>ic_sink := unattributed (ic_sink cfg)\<rparr>)"
proof -
  let ?u = "cfg\<lparr>ic_sink := unattributed (ic_sink cfg)\<rparr>"
  have ok: "source_ok (ic_source cfg)" "jn_enabled (ic_join cfg) \<longrightarrow> sides_ok (ic_join cfg)"
    "\<not> nullish (sk_table (ic_sink cfg))" "resources_ok (ic_resources cfg)" "transformation_ok cfg"
    using assms by (simp_all add: savable_def)
  have trans: "generated_transforms (loaded cfg) = generated_transforms ?u"
  proof -
    have "generated_transforms ?u = generated_transforms cfg"
      by (simp add: generated_transforms_def filter_entries_def stateless_entries_def transform_id_def split: option.split)
    then show ?thesis
      using stateless_written [OF ok(1,5)] filter_written [OF ok(1)] loaded_dedup_written [OF ok(1)]
      by (simp add: generated_transforms_def) (simp add: loaded_def)
  qed
  have join: "(if jn_enabled (ic_join (loaded cfg)) then [(''join'', generated_join (ic_join (loaded cfg)) (sk_mapping (ic_sink (loaded cfg))))] else []) =
      (if jn_enabled (ic_join ?u) then [(''join'', generated_join (ic_join ?u) (sk_mapping (ic_sink ?u)))] else [])"
  proof -
    have rows: "generated_join (ic_join cfg) (map (\<lambda>m. m\<lparr>mr_source_id := JStr []\<rparr>) rows) =
        generated_join (ic_join cfg) (map (hydrated_row JUndef \<circ> written_row) rows)" for rows
      by (simp add: generated_join_def blanked_keys)
    show ?thesis
      by (simp add: loaded_def loaded_join(1) loaded_rows unattributed_def rows) (simp add: join_config join_written)
  qed
  have res: "(if jtruthy (ic_resources (loaded cfg)) then [(''resources'', resources_document (loaded cfg))] else []) =
      (if jtruthy (ic_resources ?u) then [(''resources'', resources_document ?u)] else [])"
  proof -
    have "resources_document ?u = resources_document cfg"
      by (simp add: resources_document_def source_resources_def transform_resources_def Let_def)
    then show ?thesis
      using resources_written [OF ok(1,2,4), of "loaded cfg"] loaded_resource_parts(1) [of cfg]
      by (simp add: loaded_def loaded_resources_of_def)
  qed
  have sink: "generated_sink (ic_sink (loaded cfg)) = generated_sink (ic_sink ?u)"
    using sink_written [OF ok(3)] by (simp add: loaded_def)
  have src: "generated_sources (ic_source (loaded cfg)) = generated_sources (ic_source ?u)"
    using loaded_sources_written [OF ok(1)] by (simp add: loaded_def)
  have rest: "ic_pipeline_id (loaded cfg) = ic_pipeline_id ?u" "ic_name (loaded cfg) = ic_name ?u"
    "if_truthy ''metadata'' (ic_metadata (loaded cfg)) = if_truthy ''metadata'' (ic_metadata ?u)"
    by (simp_all add: loaded_def if_truthy_def)
  show ?thesis
    unfolding hydrate_generate [OF ok(1)] generate_def [of "loaded cfg"] generate_def [of ?u] trans join res sink src rest by (rule refl)
qed


lemma unattributed_alone:
  assumes "\<not> jn_enabled (ic_join cfg)" "\<not> jtruthy (sk_engine (ic_sink cfg))" "\<not> jtruthy (sk_order_by (ic_sink cfg))"
  shows "generate (cfg\<lparr>ic_sink := unattributed (ic_sink cfg)\<rparr>) = generate cfg"
proof -
  let ?u = "cfg\<lparr>ic_sink := unattributed (ic_sink cfg)\<rparr>"
  have s: "generated_sink (unattributed (ic_sink cfg)) = generated_sink (ic_sink cfg)"
    using assms by (simp add: generated_sink_def unattributed_def if_truthy_def comp_def written_row_def)
  have t: "generated_transforms ?u = generated_transforms cfg"
    by (simp add: generated_transforms_def filter_entries_def stateless_entries_def transform_id_def split: option.split)
  have r: "resources_document ?u = resources_document cfg"
    by (simp add: resources_document_def source_resources_def transform_resources_def Let_def)
  show ?thesis using assms by (simp add: generate_def s t r)
qed


section \<open>Transformations that reload\<close>

lemma argument_hydrated: "parseHydratedArg uid (read_argument a) = read_argument a"
  by (simp add: read_argument_def Let_def or_text_def split: option.split)

lemma renamed_fields:
  "tf_type (f\<lparr>tf_id := i, outputFieldType := t\<rparr>) = tf_type f"
  "outputFieldName (f\<lparr>tf_id := i, outputFieldType := t\<rparr>) = outputFieldName f"
  "functionName (f\<lparr>tf_id := i, outputFieldType := t\<rparr>) = functionName f"
  "functionArgs (f\<lparr>tf_id := i, outputFieldType := t\<rparr>) = functionArgs f"
  "sourceField (f\<lparr>tf_id := i, outputFieldType := t\<rparr>) = sourceField f"
  "sourceFieldType (f\<lparr>tf_id := i, outputFieldType := t\<rparr>) = sourceFieldType f"
  "expressionMode (f\<lparr>tf_id := i, outputFieldType := t\<rparr>) = expressionMode f"
  "rawExpression (f\<lparr>tf_id := i, outputFieldType := t\<rparr>) = rawExpression f"
  "tf_arithmetic (f\<lparr>tf_id := i, outputFieldType := t\<rparr>) = tf_arithmetic f"
  by simp_all

lemma renamed_expression:
  "fieldToExpr (f\<lparr>tf_id := i, outputFieldType := t\<rparr>) = fieldToExpr f"
  "isFieldComplete (f\<lparr>tf_id := i, outputFieldType := t\<rparr>) = isFieldComplete f"
  unfolding fieldToExpr_def computedFieldToExpr_def isFieldComplete_def hasSourceField_def with_arithmetic_def
    passthroughFieldToExpr_def renamed_fields by (rule refl)+

lemma hydrated_expression:
  "fieldToExpr (hydrated_field uid (mapTransformToField x i)) = fieldToExpr (mapTransformToField x i) \<and>
   isFieldComplete (hydrated_field uid (mapTransformToField x i)) = isFieldComplete (mapTransformToField x i)"
proof (cases "exprToFieldName (expression x) = None \<and> function_match (expression x) = None")
  case True
  then show ?thesis
    by (simp add: mapTransformToField_def Let_def hydrated_field_def loaded_field_def fieldToExpr_def isFieldComplete_def
      computedFieldToExpr_def text_of_def hasSourceField_def truthy_def)
next
  case False
  let ?f = "mapTransformToField x i"
  have "hydrated_field uid ?f = ?f\<lparr>tf_id := or_text (tf_id ?f) uid, outputFieldType := or_text (outputFieldType ?f)
      (case tf_type ?f of Computed \<Rightarrow> ''computed'' | Passthrough \<Rightarrow> ''passthrough'')\<rparr>"
  proof (cases "exprToFieldName (expression x)")
    case None
    then obtain g a where "function_match (expression x) = Some (g, a)" using False by auto
    with None show ?thesis
      by (simp add: mapTransformToField_def Let_def hydrated_field_def loaded_field_def text_of_def argument_hydrated comp_def)
  qed (simp add: mapTransformToField_def Let_def hydrated_field_def loaded_field_def text_of_def or_text_def)
  then show ?thesis by (simp add: renamed_expression)
qed

lemma plain_field_reloads:
  assumes "plain_field f"
  shows "isFieldComplete (mapTransformToField (item_of f) i) \<and> fieldToExpr (mapTransformToField (item_of f) i) = fieldToExpr f"
  using simple_transform_roundtrip [OF assms refl, of "[]" i] hydrated_expression [of "[]" "item_of f" i]
  by (simp add: reloaded_def)
lemma plain_transformation_ok:
  assumes "ic_transformation cfg = Some t" and "list_all plain_field (ir_fields t)" and "written_items t \<noteq> []"
  shows "transformation_ok cfg"
proof -
  have item: "reloads n (item_of f)" if "plain_field f" "fieldToExpr f \<noteq> []" for f n
    using plain_field_reloads [OF that(1), of n] that(2)
    by (simp add: reloads_def Let_def mapTransformToField_def item_of_def loaded_field_def split: option.split)
  have items: "written_items t = filter (\<lambda>x. expression x \<noteq> []) (map item_of (filter isFieldComplete (ir_fields t)))"
    using assms(3) by (simp add: written_items_def toTransformArray_def item_of_def [abs_def] split: if_splits)
  have "list_all (\<lambda>(i, x). reloads i x) (enumerate n (filter (\<lambda>x. expression x \<noteq> []) (map item_of fs)))"
    if "list_all plain_field fs" for fs n
    using that by (induction fs arbitrary: n) (auto simp: item item_of_def [of "_ :: TransformationField", THEN arg_cong, of expression])
  moreover have "list_all plain_field (filter isFieldComplete (ir_fields t))" using assms(2) by (auto simp: list_all_iff)
  ultimately show ?thesis using assms(1,3) by (simp add: transformation_ok_def items)
qed

section \<open>What loading a join forgets\<close>

lemma output_fields_sources:
  "list_all (\<lambda>m. mr_source_id m = i) rows \<Longrightarrow> list_all (\<lambda>f. jget ''source_id'' f = i) (output_fields seen rows)"
  by (induction rows arbitrary: seen) simp_all

lemma output_fields_names:
  "list_all (\<lambda>m. mr_source_id m = i) rows \<Longrightarrow>
     distinct (map (\<lambda>f. template_text (jget ''name'' f)) (output_fields seen rows)) \<and>
     (\<forall>f \<in> set (output_fields seen rows). template_text i @ '':'' @ template_text (jget ''name'' f) \<notin> set seen)"
proof (induction rows arbitrary: seen)
  case (Cons m rows)
  then show ?case using Cons.IH [of seen] Cons.IH [of "row_key m # seen"] by (auto simp: row_key_def)
qed simp

text \<open>
  A pipeline with a join that is opened or downloaded loses the sources of its columns: whatever
  output fields the document has, the one written from it attributes every field to the source of the
  sink (which the saved documents do not have: the empty source), and fields with the same name of the
  two sides become one.
\<close>

theorem join_sources_forgotten:
  assumes "jtruthy (jget ''enabled'' (jget ''join'' doc))" and "jtruthy (jget ''sink'' doc)"
    and "outs = jelements (jget ''output_fields'' (jget ''join'' (generate (hydrate doc))))"
  shows "list_all (\<lambda>f. jget ''source_id'' f = or_nullish (jget ''source_id'' (jget ''sink'' doc)) (JStr [])) outs \<and>
    distinct (map (\<lambda>f. template_text (jget ''name'' f)) outs)"
proof -
  let ?i = "or_nullish (jget ''source_id'' (jget ''sink'' doc)) (JStr [])" and ?c = "hydrate doc"
  have "\<not> nullish (jget ''join'' doc)" using assms(1) by (auto simp: nullish_def)
  then have "jn_enabled (ic_join ?c)"
    using assms(1) by (simp add: hydrate_def Let_def hydrated_join_def split: prod.split)
  moreover have sink: "ic_sink ?c = hydrated_sink (jget ''sink'' doc)"
    by (simp add: hydrate_def Let_def split: prod.split)
  ultimately have f: "outs = output_fields [] (sk_mapping (hydrated_sink (jget ''sink'' doc)))"
    using assms(3) by (simp add: document_parts) (simp add: generated_join_def map_add_def)
  have "list_all (\<lambda>m. mr_source_id m = ?i) (sk_mapping (hydrated_sink (jget ''sink'' doc)))"
    using assms(2) by (simp add: hydrated_sink_def hydrated_row_def list_all_iff)
  then show ?thesis unfolding f using output_fields_sources output_fields_names by blast
qed

section \<open>Example pipelines\<close>

definition example_topic :: "string \<Rightarrow> string \<Rightarrow> InternalTopic" where
  "example_topic n key =
     \<lparr>it_id = JStr n, it_name = JStr n, it_offset = JStr ''earliest'', it_replicas = JUndef,
      it_fields = [\<lparr>sf_name = JStr ''id'', sf_type = JStr ''string'', sf_userType = JUndef, sf_isRemoved = JUndef\<rparr>],
      it_dedup = \<lparr>dd_enabled = True, dd_id_field = JStr key, dd_id_field_type = JStr ''string'', dd_time_window = JStr ''30s''\<rparr>,
      it_schema_version = JUndef, it_schema_registry = JUndef, it_schemaSource = JStr ''external'',
      it_registryVersion = JStr ''3'', it_registrySubject = JStr ''orders-value''\<rparr>"

definition example_source :: "InternalTopic list \<Rightarrow> InternalSource" where
  "example_source ts =
     \<lparr>so_type = ''kafka'', so_id = JUndef, so_provider = JStr ''custom'',
      so_connection = JObj [(''brokers'', JArr [JStr ''kafka:9092''])], so_topics = ts, so_registry = None, so_dedup = None\<rparr>"

definition example_row :: "string \<Rightarrow> string \<Rightarrow> string \<Rightarrow> MappingRow" where
  "example_row t f c = \<lparr>mr_source_id = JStr t, mr_field_name = JStr f, mr_column_name = JStr c, mr_column_type = JStr ''String''\<rparr>"

definition example_pipeline :: "InternalTopic list \<Rightarrow> InternalJoin \<Rightarrow> MappingRow list \<Rightarrow> InternalPipelineConfig" where
  "example_pipeline ts j rows =
     \<lparr>ic_pipeline_id = JStr ''p1'', ic_name = JStr ''Orders'', ic_source = example_source ts, ic_join = j,
      ic_filter = Some \<lparr>if_enabled = True, if_expression = JStr ''!(id == 1)''\<rparr>, ic_transformation = None,
      ic_sink = empty_sink\<lparr>sk_host := JStr ''ch'', sk_table := JStr ''orders'', sk_mapping := rows\<rparr>,
      ic_resources = JUndef, ic_metadata = JUndef\<rparr>"

definition no_join :: InternalJoin where
  "no_join = \<lparr>jn_enabled = False, jn_type = JUndef, jn_id = JUndef, jn_sources = []\<rparr>"

definition example_join :: InternalJoin where
  "example_join = \<lparr>jn_enabled = True, jn_type = JUndef, jn_id = JUndef,
     jn_sources = [\<lparr>jo_source_id = JStr ''orders'', jo_key = JStr ''user'', jo_time_window = JStr ''1h'', jo_orientation = ''left''\<rparr>,
       \<lparr>jo_source_id = JStr ''users'', jo_key = JStr ''id'', jo_time_window = JStr ''1h'', jo_orientation = ''right''\<rparr>]\<rparr>"

definition joined_document :: json where
  "joined_document = generate (example_pipeline [example_topic ''orders'' ''id'', example_topic ''users'' ''id''] example_join
     [example_row ''orders'' ''id'' ''order'', example_row ''users'' ''id'' ''user''])"

lemma single_savable:
  "savable (example_pipeline [example_topic ''orders'' ''id''] no_join [example_row ''orders'' ''id'' ''id''])"
  by (simp add: savable_def example_pipeline_def example_source_def example_topic_def no_join_def source_ok_def named_topic_def
      resources_ok_def transformation_ok_def)


lemma joined_document_parts:
  "jelements (jget ''output_fields'' (jget ''join'' joined_document)) =
     map (\<lambda>t. JObj [(''source_id'', JStr t), (''name'', JStr ''id''), (''output_name'', JStr ''id'')]) [''orders'', ''users'']"
  "jtruthy (jget ''enabled'' (jget ''join'' joined_document))" "jtruthy (jget ''sink'' joined_document)"
  "jget ''source_id'' (jget ''sink'' joined_document) = JUndef"
  by (simp_all add: joined_document_def document_parts)
    (simp_all add: example_pipeline_def generated_join_def example_join_def join_side_def row_key_def example_row_def
      generated_sink_def map_add_def)

lemma join_sources_forgotten_witness:
  "map (jget ''source_id'') (jelements (jget ''output_fields'' (jget ''join'' joined_document))) = [JStr ''orders'', JStr ''users''] \<and>
   list_all (\<lambda>f. jget ''source_id'' f = JStr []) (jelements (jget ''output_fields'' (jget ''join'' (generate (hydrate joined_document)))))"
  using join_sources_forgotten [OF joined_document_parts(2,3) refl] joined_document_parts(1,4) by simp

end
