(* ===== verification/Store_Reload.thy ===== *)
theory Store_Reload
  imports Topic_Hydration Pipeline_Reload
begin

text \<open>
  The stores after a pipeline is opened: what a pipeline that was saved from the stores looks like when
  it is opened again in fresh stores, and what the stores keep of the pipeline that was open before.
\<close>

section \<open>Hydrating topics\<close>

interpretation internal_topics: topic_hydration config_offset "\<lambda>t. text_value (it_name t)" mapBackendTopicToStore
    mapBackendDeduplicationToStore hydrate_topic hydrate_sample
  by unfold_locales (simp_all add: hydrate_topic_def hydrate_sample_def mapBackendTopicToStore_def)

lemma topics_keep_dedup:
  "getDeduplication j (deduplicationStore s) = Some d \<Longrightarrow> dc_key d \<noteq> [] \<Longrightarrow>
     getDeduplication j (deduplicationStore (hydrateKafkaTopics env src s)) = Some d"
  unfolding hydrateKafkaTopics_def by (rule internal_topics.keep_dedup)

lemma topics_hydrated:
  assumes "\<not> source_is_otlp src" and "s' = hydrateKafkaTopics env src s" and "ts = so_topics src"
  shows "j < length ts \<Longrightarrow>
      map_option topic_parts (getTopic j (topicsStore s')) = Some (topic_parts (mapBackendTopicToStore (ts ! j) j)) \<and>
      getDeduplication j (deduplicationStore s') =
        Some (kept_dedup (getDeduplication j (deduplicationStore s)) (mapBackendDeduplicationToStore (ts ! j)))"
    and "length ts \<le> j \<Longrightarrow> getTopic j (topicsStore s') = getTopic j (topicsStore s)"
  using assms internal_topics.hydrated [of s' env ts s j] by (simp_all add: hydrateKafkaTopics_def)

section \<open>What stays of the pipeline before\<close>

lemma hydrateKafkaTopics_beyond:
  assumes "length (so_topics src) \<le> j"
  shows "getTopic j (topicsStore (hydrateKafkaTopics env src s)) = getTopic j (topicsStore s)"
proof (cases "source_is_otlp src")
  case True
  then show ?thesis
    by (auto simp: hydrateKafkaTopics_def hydrate_topics_with_def Let_def getTopic_def setAvailableTopics_def split: option.split prod.split)
qed (rule topics_hydrated(2) [OF _ refl refl assms])

lemma otlp_slices [simp]:
  "deduplicationStore (hydrateOtlpSource env src s) = deduplicationStore s"
  "topicsStore (hydrateOtlpSource env src s) = topicsStore s"
  by (simp_all add: hydrateOtlpSource_def Let_def split: option.split)

lemma common_slices [simp]:
  "deduplicationStore (hydrate_common env cfg s) = deduplicationStore s"
  "topicsStore (hydrate_common env cfg s) = topicsStore s"
  by (simp_all add: hydrate_common_def)

lemma kafka_slices:
  "hydrate_kafka env src s = (s1, b) \<Longrightarrow> deduplicationStore s1 = deduplicationStore s \<and> topicsStore s1 = topicsStore s"
  by (auto simp: hydrate_kafka_def split: option.splits)

lemma hydrate_all_keeps:
  "getDeduplication j (deduplicationStore s) = Some d \<Longrightarrow> dc_key d \<noteq> [] \<Longrightarrow>
     getDeduplication j (deduplicationStore (fst (hydrate_all env cfg s))) = Some d"
  "length (so_topics (ic_source cfg)) \<le> j \<Longrightarrow> getTopic j (topicsStore (fst (hydrate_all env cfg s))) = getTopic j (topicsStore s)"
proof -
  obtain s1 b where k: "hydrate_kafka env (ic_source cfg) s = (s1, b)" by (cases "hydrate_kafka env (ic_source cfg) s")
  note slices = kafka_slices [OF k]
  show "getDeduplication j (deduplicationStore (fst (hydrate_all env cfg s))) = Some d"
    if "getDeduplication j (deduplicationStore s) = Some d" "dc_key d \<noteq> []"
    using that slices topics_keep_dedup [of j s1 d env "ic_source cfg"] by (cases b) (simp_all add: hydrate_all_def k)
  show "getTopic j (topicsStore (fst (hydrate_all env cfg s))) = getTopic j (topicsStore s)"
    if "length (so_topics (ic_source cfg)) \<le> j"
    using slices hydrateKafkaTopics_beyond [OF that, of env s1] by (cases b) (simp_all add: hydrate_all_def k)
qed

lemma hydrateSection_all: "hydrateSection env ''all'' cfg s = hydrate_all env cfg s"
  by (simp add: hydrateSection_def)

lemma enter_mode_all:
  "\<exists>c. enter_mode m env cfg s = hydrate_all env cfg (s\<lparr>coreStore := c\<rparr>)"
  by (simp add: enter_mode_def hydrateFromConfig_def hydrateSection_all) (rule exI, rule refl)

text \<open>
  C23. Opening a pipeline does not clear what the pipeline before left: a deduplication with a key stays
  with its topic number, whatever the new configuration says, and the topics past the new ones stay in
  the store. Discarding the changes of the deduplication section, or of all of them, therefore leaves
  an edited key in place.
\<close>

theorem opened_pipeline_keeps_old:
  assumes "getDeduplication j (deduplicationStore s) = Some d" and "dc_key d \<noteq> []"
  shows "getDeduplication j (deduplicationStore (fst (enterViewMode env cfg s))) = Some d \<and>
    getDeduplication j (deduplicationStore (fst (discardSection env ''deduplication'' (Some cfg) s))) = Some d \<and>
    getDeduplication j (deduplicationStore (fst (discardToLastSaved env (Some cfg) s))) = Some d \<and>
    (if length (so_topics (ic_source cfg)) \<le> k then getTopic k (topicsStore (fst (enterViewMode env cfg s))) = getTopic k (topicsStore s) else True)"
proof -
  obtain c where v: "enterViewMode env cfg s = hydrate_all env cfg (s\<lparr>coreStore := c\<rparr>)"
    using enter_mode_all [of ViewMode env cfg s] by (auto simp: enterViewMode_def)
  have view: "getDeduplication j (deduplicationStore (fst (enterViewMode env cfg s))) = Some d"
    using hydrate_all_keeps(1) [of j "s\<lparr>coreStore := c\<rparr>"] assms by (simp add: v)
  have topics: "if length (so_topics (ic_source cfg)) \<le> k then getTopic k (topicsStore (fst (enterViewMode env cfg s))) = getTopic k (topicsStore s) else True"
    using hydrate_all_keeps(2) [of cfg k env "s\<lparr>coreStore := c\<rparr>"] by (simp add: v)
  have sec: "getDeduplication j (deduplicationStore (fst (discardSection env ''deduplication'' (Some cfg) s))) = Some d"
    using topics_keep_dedup [OF assms, of env "ic_source cfg"] by (simp add: discardSection_def hydrateSection_def)
  obtain s1 b where h: "hydrateFromConfig env cfg s = (s1, b)" by (cases "hydrateFromConfig env cfg s")
  have "getDeduplication j (deduplicationStore s1) = Some d"
    using h hydrate_all_keeps(1) [of j _ d env cfg] assms unfolding hydrateFromConfig_def hydrateSection_all
    by (metis (no_types, lifting) RootStore.select_convs(3) RootStore.surjective RootStore.update_convs(12) fst_conv)
  then have "getDeduplication j (deduplicationStore (fst (discardToLastSaved env (Some cfg) s))) = Some d"
    by (cases b) (simp_all add: discardToLastSaved_def h)
  with view sec topics show ?thesis by blast
qed

section \<open>A saved pipeline opened again\<close>

lemma enumerate_nth [simp]: "map (\<lambda>(n, t). f n t) (enumerate k xs) = map (\<lambda>j. f (k + j) (xs ! j)) [0..<length xs]"
proof (induction xs arbitrary: k)
  case (Cons x xs)
  have "map (\<lambda>j. f (k + j) ((x # xs) ! j)) [0..<length (x # xs)] = f k x # map (\<lambda>j. f (Suc k + j) (xs ! j)) [0..<length xs]"
    by (simp add: upt_conv_Cons map_Suc_upt [symmetric] comp_def del: upt_Suc)
  then show ?case using Cons.IH [of "Suc k"] by simp
qed simp

lemma built_topics: "length (topicsConfig i) = length (bi_topics i)"
  "j < length (bi_topics i) \<Longrightarrow> topicsConfig i ! j = built_topic i j (bi_topics i ! j)"
  by (simp_all add: topicsConfig_def)

lemma built_source_ok:
  assumes "\<not> otlp_input i" and "distinct (map topic_name (bi_topics i))"
  shows "source_ok (built_source i)"
proof -
  have ids: "map topic_source_id (topicsConfig i) = map (\<lambda>n. JStr n) (map topic_name (bi_topics i))"
    by (rule nth_equalityI) (simp_all add: built_topics topic_source_id_def built_topic_def)
  have named: "list_all named_topic (topicsConfig i)"
    by (auto simp: topicsConfig_def list_all_iff named_topic_def built_topic_def)
  have "distinct (map topic_source_id (topicsConfig i))"
    unfolding ids using assms(2) by (subst distinct_map) (auto intro: inj_onI)
  then show ?thesis
    using named assms(1) by (simp add: source_ok_def built_source_def connectionParams_def Let_def)
qed

text \<open>The configuration that is sent, and the one that is loaded.\<close>

definition built :: "BuildInput \<Rightarrow> InternalPipelineConfig" where
  "built i = the (buildInternalPipelineConfig i)"

definition typed_rows :: "BuildInput \<Rightarrow> bool" where
  "typed_rows i \<longleftrightarrow> list_all (\<lambda>m. col_type m \<noteq> None) (mapped_rows i)"

lemma built_parts:
  assumes "typed_rows i"
  shows "buildInternalPipelineConfig i = Some (built i)" "ic_source (built i) = built_source i" "ic_join (built i) = built_join i"
    "ic_filter (built i) = built_filter i" "ic_transformation (built i) = built_transformation i" "ic_sink (built i) = built_sink i"
    "ic_resources (built i) = JUndef"
  using assms by (simp_all add: built_def buildInternalPipelineConfig_def typed_rows_def)

lemma reopened_config:
  assumes "typed_rows i" and "\<not> otlp_input i" and "distinct (map topic_name (bi_topics i))"
  shows "hydrate (generateApiConfig i None) = loaded (built i)"
  using built_parts [OF assms(1)] hydrate_generate [of "built i"] built_source_ok [OF assms(2,3)]
  by (simp add: generateApiConfig_def)

subsection \<open>Topics and deduplications\<close>

definition normal_window :: "js_number \<Rightarrow> TimeUnit \<Rightarrow> bool" where
  "normal_window w u \<longleftrightarrow>
     (case w of Fin m e \<Rightarrow> e = 0 \<and> 0 < m \<and> m < 10 ^ 21 \<and> in_unit (nat m * unit_seconds u) = (nat m, u) | _ \<Rightarrow> False)"

lemma normal_window_read:
  assumes "normal_window w u"
  obtains n where "w = whole n" "0 < n" "parseTimeWindow (window_text w u) = (n, u)"
proof -
  obtain m where m: "w = Fin m 0" "0 < m" "m < 10 ^ 21" "in_unit (nat m * unit_seconds u) = (nat m, u)"
    using assms by (auto simp: normal_window_def split: js_number.splits)
  then have "nat m < 10 ^ 21" by (simp add: nat_less_iff)
  then show thesis using that [of "nat m"] m parse_window [of "nat m" u] by simp
qed

text \<open>A deduplication as it is after loading: its key type is always string, and one that is off is empty.\<close>

definition reloaded_dedup :: "DeduplicationConfig option \<Rightarrow> DeduplicationConfig" where
  "reloaded_dedup d =
     (case d of
        Some d \<Rightarrow> if dc_enabled d \<and> dc_key d \<noteq> [] then d\<lparr>dc_keyType := ''string''\<rparr>
          else \<lparr>dc_enabled = False, dc_window = Fin 1 0, dc_unit = Hours, dc_key = [], dc_keyType = ''string''\<rparr>
      | None \<Rightarrow> \<lparr>dc_enabled = False, dc_window = Fin 1 0, dc_unit = Hours, dc_key = [], dc_keyType = ''string''\<rparr>)"

lemma one_hour: "parseTimeWindow ''1h'' = (1, Hours)"
  by (simp add: parseTimeWindow_def read_groups_def read_group_def is_digit_def digits_value_def digit_val_def in_unit_def
      rounded_def)

lemma dedup_reloaded:
  assumes "\<And>d. getDeduplication j (bi_dedup i) = Some d \<Longrightarrow> dc_enabled d \<and> dc_key d \<noteq> [] \<Longrightarrow> normal_window (dc_window d) (dc_unit d)"
  shows "mapBackendDeduplicationToStore (loaded_topic src (built_topic i j t)) = reloaded_dedup (getDeduplication j (bi_dedup i))"
proof (cases "\<exists>d. getDeduplication j (bi_dedup i) = Some d \<and> dc_enabled d \<and> dc_key d \<noteq> []")
  case True
  then obtain d where d: "getDeduplication j (bi_dedup i) = Some d" "dc_enabled d" "dc_key d \<noteq> []" by blast
  then obtain n where n: "dc_window d = whole n" "0 < n" "parseTimeWindow (window_text (dc_window d) (dc_unit d)) = (n, dc_unit d)"
    using normal_window_read [OF assms [OF d(1)]] by blast
  have "it_dedup (loaded_topic src (built_topic i j t)) = \<lparr>dd_enabled = True, dd_id_field = JStr (dc_key d),
      dd_id_field_type = JStr ''string'', dd_time_window = JStr (window_text (dc_window d) (dc_unit d))\<rparr>"
    using d n by (simp add: loaded_topic_def Let_def built_topic_def topic_dedup_def dedup_window_def)
  then show ?thesis using d n by (simp add: mapBackendDeduplicationToStore_def reloaded_dedup_def)
next
  case False
  then have "it_dedup (loaded_topic src (built_topic i j t)) = no_topic_dedup"
    by (auto simp: loaded_topic_def Let_def built_topic_def topic_dedup_def hydrated_source_topic_def split: option.split)
  then show ?thesis using False one_hour
    by (auto simp: mapBackendDeduplicationToStore_def reloaded_dedup_def no_topic_dedup_def split: option.split)
qed


definition reopened_version :: "KafkaTopic \<Rightarrow> string" where
  "reopened_version t =
     (let v = text_of (schemaRegistryVersion t); sub = text_of (schemaRegistrySubject t)
      in if schemaSource t \<in> {Some External, Some RegistryResolvedFromEvent} \<and> v \<noteq> [] \<and> v \<noteq> ''latest''
         then if sub \<noteq> [] then sub @ '':'' @ v else v else ''1'')"

text \<open>
  A topic as it is after saving and opening: its schema is the saved fields with their types as chosen
  ones, and it counts as a topic of the registry exactly when the connection names one.
\<close>

definition reopened_topic :: "BuildInput \<Rightarrow> nat \<Rightarrow> KafkaTopic \<Rightarrow> string \<times> nat \<times> InitialOffset \<times> KafkaFieldSchema list option \<times> SchemaSource option \<times> string option" where
  "reopened_topic i j t =
     (topic_name t, j, initialOffset t, Some (map verified_field (topic_fields (bi_mapping i) t)),
      Some (if sr_enabled (schemaRegistry (bi_kafka i)) \<and> text_of (sr_url (schemaRegistry (bi_kafka i))) \<noteq> [] then External
            else SchemaSource.Internal),
      Some (reopened_version t))"

lemma text_value_or: "text_value (json_text t) = text_of t" "jtruthy (json_text t) \<longleftrightarrow> text_of t \<noteq> []"
  by (simp_all add: json_text_def text_of_def split: option.split)

lemma offset_back: "offset_of_text (or_text (offset_text x) ''latest'') = x"
  by (cases x) (simp_all add: or_text_def)

lemma plain_fields: "list_all (\<lambda>f. \<exists>n ty. f = plain_field_schema n ty) (topic_fields mp t)"
  by (auto simp: topic_fields_def list_all_iff split: option.split list.split)

lemma fields_back:
  "map (verified_field \<circ> (hydrated_schema_field \<circ> generated_field)) (filter (\<lambda>f. \<not> jtruthy (sf_isRemoved f)) (topic_fields mp t)) =
   map verified_field (topic_fields mp t)"
proof -
  have "verified_field (hydrated_schema_field (generated_field (plain_field_schema n ty))) = verified_field (plain_field_schema n ty)" for n ty
    by (simp add: verified_field_def hydrated_schema_field_def generated_field_def plain_field_schema_def or_falsy_def)
  then have "list_all (\<lambda>f. \<exists>n ty. f = plain_field_schema n ty) fs \<Longrightarrow>
      map (verified_field \<circ> (hydrated_schema_field \<circ> generated_field)) (filter (\<lambda>f. \<not> jtruthy (sf_isRemoved f)) fs) = map verified_field fs" for fs
    by (induction fs) (auto simp: plain_field_schema_def)
  then show ?thesis using plain_fields by blast
qed

lemma version_text: "schemaVersion (built_topic i j t) = JStr (reopened_version t)"
proof (cases "schemaSource t")
  case (Some x)
  then show ?thesis
    by (cases x; cases "schemaRegistryVersion t"; cases "schemaRegistrySubject t")
      (simp_all add: schemaVersion_def isRegistrySchema_def built_topic_def reopened_version_def json_text_def text_of_def Let_def)
qed (simp add: schemaVersion_def isRegistrySchema_def built_topic_def reopened_version_def json_text_def Let_def)

lemma registry_url:
  "jtruthy (jget ''url'' (or_nullish JUndef (default_registry (built_registry ks)))) \<longleftrightarrow>
     sr_enabled (schemaRegistry ks) \<and> text_of (sr_url (schemaRegistry ks)) \<noteq> []"
  by (simp add: default_registry_def built_registry_def Let_def split: prod.split)

lemma topic_reloaded:
  assumes "\<not> otlp_input i"
  shows "topic_parts (mapBackendTopicToStore (loaded_topic (built_source i) (built_topic i j t)) k) = reopened_topic i k t"
proof -
  let ?l = "loaded_topic (built_source i) (built_topic i j t)"
  have reg: "so_registry (built_source i) = built_registry (bi_kafka i)" using assms by (simp add: built_source_def)
  have parts: "it_name ?l = JStr (topic_name t)" "it_offset ?l = JStr (offset_text (initialOffset t))"
    "map verified_field (it_fields ?l) = map verified_field (topic_fields (bi_mapping i) t)"
    "it_schema_version ?l = JStr (reopened_version t)"
    "it_schema_registry ?l = or_nullish JUndef (default_registry (built_registry (bi_kafka i)))"
    unfolding loaded_topic_kept using fields_back [of "bi_mapping i" t] registry_given [of JUndef "built_registry (bi_kafka i)"]
    by (simp_all add: hydrated_source_topic_def generated_source_def version_text reg when_given_def del: map_map)
      (simp_all add: built_topic_def comp_assoc)
  show ?thesis
    unfolding topic_parts_def mapBackendTopicToStore_def config_offset_def parts reopened_topic_def
    using registry_url [of "bi_kafka i"] by (simp add: parts offset_back del: offset_of_text.simps)
qed


subsection \<open>The document that is opened\<close>

text \<open>A Kafka pipeline that can be told apart when it is loaded.\<close>

definition reloadable :: "BuildInput \<Rightarrow> bool" where
  "reloadable i \<longleftrightarrow> \<not> otlp_input i \<and> bi_topics i \<noteq> [] \<and> typed_rows i \<and> distinct (map topic_name (bi_topics i)) \<and>
     authMethod (bi_kafka i) \<in> set (''NO_AUTH'' # ''SASL/GSSAPI'' # user_methods) \<and>
     plain_certificate (saved_certificate (bi_kafka i))"

definition normal_windows :: "BuildInput \<Rightarrow> bool" where
  "normal_windows i \<longleftrightarrow> list_all (\<lambda>j. case getDeduplication j (bi_dedup i) of
     Some d \<Rightarrow> if dc_enabled d \<and> dc_key d \<noteq> [] then normal_window (dc_window d) (dc_unit d) else True
   | None \<Rightarrow> True) [0..<length (bi_topics i)]"

text \<open>Stores that hold no deduplication key.\<close>

definition no_keys :: "nat \<Rightarrow> RootStore \<Rightarrow> bool" where
  "no_keys n s \<longleftrightarrow> list_all (\<lambda>j. case getDeduplication j (deduplicationStore s) of
     Some d \<Rightarrow> dc_key d = [] | None \<Rightarrow> True) [0..<n]"

lemma loaded_kafka:
  assumes "reloadable i"
  shows "so_topics (ic_source (loaded (built i))) = map (loaded_topic (built_source i)) (topicsConfig i)"
    "so_type (ic_source (loaded (built i))) = ''kafka''"
    "so_connection (ic_source (loaded (built i))) = connectionParams (bi_inDocker i) (bi_kafka i)"
proof -
  have b: "so_topics (built_source i) = topicsConfig i" "so_type (built_source i) = ''kafka''"
    "so_connection (built_source i) = connectionParams (bi_inDocker i) (bi_kafka i)"
    using assms by (simp_all add: reloadable_def built_source_def)
  have o: "\<not> source_is_otlp (built_source i)" by (simp add: source_is_otlp_def b)
  have n: "topicsConfig i \<noteq> []" using assms by (auto simp: reloadable_def topicsConfig_def)
  have l: "ic_source (loaded (built i)) = loaded_source (built_source i)"
    using assms by (simp add: loaded_def built_parts reloadable_def)
  show "so_topics (ic_source (loaded (built i))) = map (loaded_topic (built_source i)) (topicsConfig i)"
    "so_type (ic_source (loaded (built i))) = ''kafka''"
    "so_connection (ic_source (loaded (built i))) = connectionParams (bi_inDocker i) (bi_kafka i)"
    using hydrated_kafka [OF o] o n unfolding l by (simp_all add: loaded_source_def Let_def b connectionParams_def)
qed

lemma kafka_opened:
  assumes "reloadable i"
  shows "\<exists>k. hydrate_kafka env (ic_source (loaded (built i))) s = (s\<lparr>kafkaStore := k\<rparr>, True)"
proof -
  let ?p = "connectionParams (bi_inDocker i) (bi_kafka i)"
  have "jget ''connection_params'' (jget ''source'' (kafka_view (ic_source (loaded (built i))))) = ?p"
    "jget ''sources'' (kafka_view (ic_source (loaded (built i)))) = JUndef"
    by (simp_all add: kafka_view_def loaded_kafka [OF assms])
  moreover have "jtruthy ?p" by (simp add: connectionParams_def)
  ultimately have "hydrateKafkaConnection (kafka_view (ic_source (loaded (built i)))) now k \<noteq> None" for now k
    using loaded_params [of "bi_kafka i" "bi_inDocker i"] assms
    by (simp add: hydrateKafkaConnection_def Let_def first_of_def reloadable_def)
  then show ?thesis by (auto simp: hydrate_kafka_def split: option.split)
qed

definition reopened :: "HydrationEnv \<Rightarrow> BuildInput \<Rightarrow> RootStore \<Rightarrow> RootStore" where
  "reopened env i s = fst (enterViewMode env (hydrate (generateApiConfig i None)) s)"

lemma reopened_stores:
  assumes "reloadable i"
  obtains s0 k where "topicsStore s0 = topicsStore s" "deduplicationStore s0 = deduplicationStore s"
    "filterStore s0 = filterStore s" "joinStore s0 = joinStore s"
    "reopened env i s = hydrate_common env (loaded (built i)) (hydrateKafkaTopics env (ic_source (loaded (built i))) s0)"
proof -
  let ?c = "loaded (built i)"
  have cfg: "hydrate (generateApiConfig i None) = ?c"
    using assms by (intro reopened_config) (simp_all add: reloadable_def)
  obtain c where v: "enterViewMode env ?c s = hydrate_all env ?c (s\<lparr>coreStore := c\<rparr>)"
    using enter_mode_all [of ViewMode env ?c s] by (auto simp: enterViewMode_def)
  obtain k where k: "hydrate_kafka env (ic_source ?c) (s\<lparr>coreStore := c\<rparr>) = (s\<lparr>coreStore := c, kafkaStore := k\<rparr>, True)"
    using kafka_opened [OF assms] by blast
  have "reopened env i s = hydrate_common env ?c (hydrateKafkaTopics env (ic_source ?c) (s\<lparr>coreStore := c, kafkaStore := k\<rparr>))"
    unfolding reopened_def cfg v using loaded_kafka(2) [OF assms] by (simp add: hydrate_all_def k isOtlpSource_def)
  then show thesis using that [of "s\<lparr>coreStore := c, kafkaStore := k\<rparr>"] by simp
qed



subsection \<open>Filter, join and connection\<close>

lemma unwrap_wrapped:
  assumes "e \<noteq> []" "list_all (\<lambda>c. \<not> line_terminator c) e"
  shows "unwrap_filter (''!('' @ e @ '')'') = e"
  using assms by (cases e) (simp_all add: unwrap_filter_def butlast_append)

lemma topic_frame: "filterStore (hydrate_topic env p s) = filterStore s" "joinStore (hydrate_topic env p s) = joinStore s"
  by (simp_all add: hydrate_topic_def split: prod.split)

lemma sample_frame: "filterStore (hydrate_sample env p s) = filterStore s" "joinStore (hydrate_sample env p s) = joinStore s"
  by (simp_all add: hydrate_sample_def split: prod.split)

lemma topics_frame:
  "filterStore (hydrateKafkaTopics env src s) = filterStore s" "joinStore (hydrateKafkaTopics env src s) = joinStore s"
  by (simp_all add: hydrateKafkaTopics_def hydrate_topics_with_def Let_def setTopicCount_def updateOperation_def topic_frame sample_frame
      fold_frame [where f = filterStore] fold_frame [where f = joinStore] split: option.split prod.split)

lemma reopened_parts:
  assumes "reloadable i"
  shows "filterStore (reopened env i s) = hydrateFilter env (Some (loaded_filter (built i))) (filterStore s)"
    "joinStore (reopened env i s) = hydrateJoinConfiguration (he_now env) (hydrated_join (loaded_join_config (built i))) (joinStore s)"
    "clickhouseConnection (clickhouseConnectionStore (reopened env i s)) =
       mapBackendClickhouseConfigToStore (hydrated_sink (generated_sink (built_sink i)))"
proof -
  let ?src = "ic_source (loaded (built i))"
  obtain s0 where s0: "filterStore s0 = filterStore s" "joinStore s0 = joinStore s"
    and r: "reopened env i s = hydrate_common env (loaded (built i)) (hydrateKafkaTopics env ?src s0)"
    using reopened_stores [OF assms] by metis
  show "filterStore (reopened env i s) = hydrateFilter env (Some (loaded_filter (built i))) (filterStore s)"
    "joinStore (reopened env i s) = hydrateJoinConfiguration (he_now env) (hydrated_join (loaded_join_config (built i))) (joinStore s)"
    by (simp_all add: r hydrate_common_def topics_frame s0) (simp_all add: loaded_def)
  have sink: "ic_sink (loaded (built i)) = hydrated_sink (generated_sink (built_sink i))"
    using assms by (simp add: loaded_def built_parts reloadable_def)
  show "clickhouseConnection (clickhouseConnectionStore (reopened env i s)) =
       mapBackendClickhouseConfigToStore (hydrated_sink (generated_sink (built_sink i)))"
    by (simp add: r hydrate_common_def hydrateClickhouseConnection_def setClickhouseConnection_def Let_def sink)
qed


definition reloaded_stream :: "JoinStream \<Rightarrow> JoinStream" where
  "reloaded_stream st = st\<lparr>streamId := js_topicName st\<rparr>"

definition normal_stream :: "JoinStream \<Rightarrow> bool" where
  "normal_stream st \<longleftrightarrow> list_ex (\<lambda>u. joinTimeWindowUnit st = unit_name u \<and> normal_window (joinTimeWindowValue st) u)
     [Seconds, Minutes, Hours, Days]"

lemma stream_back:
  assumes "normal_stream st"
  shows "copy_stream (hydrated_stream (built_stream st)) = reloaded_stream st"
proof -
  obtain u where u: "joinTimeWindowUnit st = unit_name u" "normal_window (joinTimeWindowValue st) u"
    using assms unfolding normal_stream_def list_ex_iff by blast
  then obtain n where n: "joinTimeWindowValue st = whole n" "parseTimeWindow (window_text (joinTimeWindowValue st) u) = (n, u)"
    using normal_window_read by blast
  have "number_to_string (joinTimeWindowValue st) @ take 1 (joinTimeWindowUnit st) = window_text (joinTimeWindowValue st) u"
    using u(1) by (cases u) (simp_all add: window_text_def del: number_to_string.simps)
  then show ?thesis
    using n u(1) by (cases "orientation st") (simp_all add: hydrated_stream_def built_stream_def copy_stream_def reloaded_stream_def del: number_to_string.simps)
qed



section \<open>Example stores\<close>

definition example_kafka_topic :: "string \<Rightarrow> KafkaTopic" where
  "example_kafka_topic n =
     \<lparr>topic_name = n, topic_index = 0, events = [], selectedEvent = kafka_event JUndef 0 ''earliest'', initialOffset = Earliest,
      replicas = Some (Fin 2 0), partitionCount = None,
      topic_schema = Some [\<lparr>fs_name = ''id'', fs_type = ''int'', inferredType = Some ''int'', userType = Some ''string'',
        isManuallyAdded = None, isRemoved = None\<rparr>],
      schemaSource = Some SchemaSource.Internal, schemaRegistrySubject = None, schemaRegistryVersion = None\<rparr>"

definition example_dedup :: DeduplicationConfig where
  "example_dedup = \<lparr>dc_enabled = True, dc_window = Fin 30 0, dc_unit = Seconds, dc_key = ''id'', dc_keyType = ''int''\<rparr>"

definition example_stream :: "string \<Rightarrow> string \<Rightarrow> JoinOrientation \<Rightarrow> JoinStream" where
  "example_stream n k side = \<lparr>streamId = ''stream'', js_topicName = n, joinKey = k, joinTimeWindowValue = Fin 5 0,
     joinTimeWindowUnit = ''minutes'', orientation = side\<rparr>"

definition example_input :: "string list \<Rightarrow> BuildInput" where
  "example_input ns =
     \<lparr>bi_pipelineId = ''p1'', bi_pipelineName = ''Orders'', bi_newId = ''new'', bi_inDocker = False,
      bi_connection = clickhouseConnection initialClickhouseConnectionStore,
      bi_destination = clickhouseDestination initialClickhouseDestinationStore, bi_mapping = [],
      bi_topics = map example_kafka_topic ns,
      bi_join = initialJoinStore\<lparr>join_enabled := True,
        streams := [example_stream ''orders'' ''user'' LeftSide, example_stream ''users'' ''id'' RightSide]\<rparr>,
      bi_kafka = plain_store ''SASL/PLAIN'',
      bi_dedup = initialDeduplicationStore\<lparr>deduplicationConfigs := [0 \<mapsto> example_dedup]\<rparr>,
      bi_filter = (initialFilterStore ''root'')\<lparr>filterConfig := \<lparr>cfg_enabled = True, cfg_root = None, legacy_combinator = None,
        legacy_conditions = None\<rparr>, expressionString := ''id == 1''\<rparr>,
      bi_transformation = initialTransformationStore, bi_sourceType = None, bi_otlp = initialOtlpStore\<rparr>"

definition offline :: HydrationEnv where
  "offline = \<lparr>he_now = 0, he_newId = ''new'', he_parse = \<lambda>_. None, he_live = None, he_sample = \<lambda>_. None, he_columns = None,
     he_resources = None, he_policy = None\<rparr>"

lemma example_reloadable: "distinct ns \<Longrightarrow> ns \<noteq> [] \<Longrightarrow> reloadable (example_input ns)"
  using plain_store_certificate [of "''SASL/PLAIN''"]
  by (simp add: reloadable_def example_input_def otlp_input_def typed_rows_def mapped_rows_def comp_def example_kafka_topic_def
      plain_store_def user_methods_def)

lemma example_window: "normal_window (Fin 30 0) Seconds" "normal_window (Fin 5 0) Minutes"
  by (simp_all add: normal_window_def in_unit_def rounded_def)




lemma opened_pipeline_keeps_old_witness:
  "getDeduplication 0 (deduplicationStore (fst (enterViewMode offline (example_pipeline [example_topic ''clicks'' ''user''] no_join [])
     ((initialStore ''new'')\<lparr>deduplicationStore := updateDeduplication 0 0 example_dedup initialDeduplicationStore\<rparr>)))) = Some example_dedup"
  using opened_pipeline_keeps_old [of 0 "(initialStore ''new'')\<lparr>deduplicationStore := updateDeduplication 0 0 example_dedup initialDeduplicationStore\<rparr>"
      example_dedup offline "example_pipeline [example_topic ''clicks'' ''user''] no_join []"]
  by (simp add: getDeduplication_def updateDeduplication_def example_dedup_def)

end
