(* ===== verification/Wizard_Journey.thy ===== *)
theory Wizard_Journey
  imports Validation_Engine
begin

text \<open>
  The wizard that creates a pipeline (ui/src/modules/create/utils.ts): the journeys, their step
  instances with unique ids, the rows of the sidebar and the components of the steps. The three
  feature flags are one argument.
\<close>

section \<open>Journeys\<close>

record Features =
  filters_enabled :: bool
  transformations_enabled :: bool
  preview_mode :: bool

definition review_step :: "Features \<Rightarrow> StepKeys list" where
  "review_step fl = (if preview_mode fl then [REVIEW_CONFIGURATION] else [])"

definition getDeduplicationJourney :: "Features \<Rightarrow> StepKeys list" where
  "getDeduplicationJourney fl =
     [KAFKA_CONNECTION, TOPIC_SELECTION_1, DEDUPLICATION_CONFIGURATOR, CLICKHOUSE_CONNECTION, CLICKHOUSE_MAPPER] @ review_step fl"

definition getJoinJourney :: "Features \<Rightarrow> StepKeys list" where
  "getJoinJourney fl =
     [KAFKA_CONNECTION, TOPIC_SELECTION_1, TOPIC_SELECTION_2, JOIN_CONFIGURATOR, CLICKHOUSE_CONNECTION, CLICKHOUSE_MAPPER]
     @ review_step fl"

definition getIngestOnlyJourney :: "Features \<Rightarrow> StepKeys list" where
  "getIngestOnlyJourney fl =
     [KAFKA_CONNECTION, TOPIC_SELECTION_1, CLICKHOUSE_CONNECTION, CLICKHOUSE_MAPPER] @ review_step fl"

definition getDeduplicateJoinJourney :: "Features \<Rightarrow> StepKeys list" where
  "getDeduplicateJoinJourney fl =
     [KAFKA_CONNECTION, TOPIC_DEDUPLICATION_CONFIGURATOR_1, TOPIC_DEDUPLICATION_CONFIGURATOR_2, JOIN_CONFIGURATOR,
      CLICKHOUSE_CONNECTION, CLICKHOUSE_MAPPER] @ review_step fl"

definition getSingleTopicJourney :: "Features \<Rightarrow> StepKeys list" where
  "getSingleTopicJourney fl =
     [KAFKA_CONNECTION, TOPIC_SELECTION_1, KAFKA_TYPE_VERIFICATION, DEDUPLICATION_CONFIGURATOR]
     @ (if filters_enabled fl then [FILTER_CONFIGURATOR] else [])
     @ (if transformations_enabled fl then [TRANSFORMATION_CONFIGURATOR] else [])
     @ [CLICKHOUSE_CONNECTION, CLICKHOUSE_MAPPER, PIPELINE_RESOURCES] @ review_step fl"

definition getTwoTopicJourney :: "Features \<Rightarrow> StepKeys list" where
  "getTwoTopicJourney fl =
     [KAFKA_CONNECTION, TOPIC_SELECTION_1, KAFKA_TYPE_VERIFICATION, DEDUPLICATION_CONFIGURATOR, TOPIC_SELECTION_2,
      KAFKA_TYPE_VERIFICATION, DEDUPLICATION_CONFIGURATOR, JOIN_CONFIGURATOR, CLICKHOUSE_CONNECTION, CLICKHOUSE_MAPPER,
      PIPELINE_RESOURCES] @ review_step fl"

definition getOtlpJourney :: "Features \<Rightarrow> StepKeys list" where
  "getOtlpJourney fl =
     [OTLP_SIGNAL_TYPE, OTLP_DEDUPLICATION]
     @ (if filters_enabled fl then [FILTER_CONFIGURATOR] else [])
     @ (if transformations_enabled fl then [TRANSFORMATION_CONFIGURATOR] else [])
     @ [CLICKHOUSE_CONNECTION, CLICKHOUSE_MAPPER, PIPELINE_RESOURCES] @ review_step fl"

section \<open>Step instances\<close>

record StepInstance =
  si_id :: string
  si_key :: StepKeys
  si_topicIndex :: "nat option"

definition stepInstanceId :: "StepKeys \<Rightarrow> nat option \<Rightarrow> nat option \<Rightarrow> string" where
  "stepInstanceId key ti ji =
     step_text key @ ''-'' @ nat_digits (case ti of Some n \<Rightarrow> n | None \<Rightarrow> (case ji of Some n \<Rightarrow> n | None \<Rightarrow> 0))"

definition needsTopicIndex :: "StepKeys \<Rightarrow> bool" where
  "needsTopicIndex key \<longleftrightarrow> key = DEDUPLICATION_CONFIGURATOR \<or> key = KAFKA_TYPE_VERIFICATION"

definition step_instance :: "StepKeys \<Rightarrow> nat option \<Rightarrow> nat \<Rightarrow> StepInstance" where
  "step_instance key ti n = \<lparr>si_id = stepInstanceId key ti (Some n), si_key = key, si_topicIndex = ti\<rparr>"

definition getSingleTopicJourneyInstances :: "Features \<Rightarrow> StepInstance list" where
  "getSingleTopicJourneyInstances fl =
     map (\<lambda>(n, key). step_instance key (if needsTopicIndex key then Some 0 else None) n) (enumerate 0 (getSingleTopicJourney fl))"

definition instance_topic :: "StepKeys list \<Rightarrow> nat \<Rightarrow> StepKeys \<Rightarrow> nat option" where
  "instance_topic keys n key =
     (if key = TOPIC_SELECTION_1 \<or> key = DEDUPLICATION_CONFIGURATOR \<or> key = KAFKA_TYPE_VERIFICATION
      then Some (if TOPIC_SELECTION_2 \<in> set (take n keys) then 1 else 0)
      else if key = TOPIC_SELECTION_2 then Some 1 else None)"

definition getTwoTopicJourneyInstances :: "Features \<Rightarrow> StepInstance list" where
  "getTwoTopicJourneyInstances fl =
     (let keys = getTwoTopicJourney fl
      in map (\<lambda>(n, key). step_instance key (if needsTopicIndex key then instance_topic keys n key else None) n) (enumerate 0 keys))"

definition getOtlpJourneyInstances :: "Features \<Rightarrow> StepInstance list" where
  "getOtlpJourneyInstances fl = map (\<lambda>(n, key). step_instance key None n) (enumerate 0 (getOtlpJourney fl))"

definition otlp_type :: "string option \<Rightarrow> bool" where
  "otlp_type t \<longleftrightarrow> (case t of Some s \<Rightarrow> s \<noteq> [] \<and> isOtlpSource s | None \<Rightarrow> False)"

definition getWizardJourneyInstances :: "Features \<Rightarrow> nat option \<Rightarrow> string option \<Rightarrow> StepInstance list" where
  "getWizardJourneyInstances fl topics_n srcType =
     (if otlp_type srcType then getOtlpJourneyInstances fl
      else case topics_n of
             Some n \<Rightarrow> if n < 1 \<or> 2 < n then []
               else if n = 1 then getSingleTopicJourneyInstances fl else getTwoTopicJourneyInstances fl
           | None \<Rightarrow> [])"

section \<open>The sidebar\<close>

record SidebarStep =
  ss_id :: string
  ss_key :: StepKeys
  ss_title :: string
  ss_parent :: "StepKeys option"

fun sidebarStepConfig :: "StepKeys \<Rightarrow> string \<times> StepKeys option" where
  "sidebarStepConfig KAFKA_CONNECTION = (''Kafka Connection'', None)"
| "sidebarStepConfig TOPIC_SELECTION_1 = (''Select Topic'', None)"
| "sidebarStepConfig TOPIC_SELECTION_2 = (''Select Right Topic'', None)"
| "sidebarStepConfig KAFKA_TYPE_VERIFICATION = (''Verify Field Types'', None)"
| "sidebarStepConfig DEDUPLICATION_CONFIGURATOR = (''Deduplicate'', Some KAFKA_TYPE_VERIFICATION)"
| "sidebarStepConfig TOPIC_DEDUPLICATION_CONFIGURATOR_1 = (''Select Left Topic'', None)"
| "sidebarStepConfig TOPIC_DEDUPLICATION_CONFIGURATOR_2 = (''Select Right Topic'', None)"
| "sidebarStepConfig JOIN_CONFIGURATOR = (''Join Configuration'', None)"
| "sidebarStepConfig FILTER_CONFIGURATOR = (''Filter'', Some KAFKA_TYPE_VERIFICATION)"
| "sidebarStepConfig TRANSFORMATION_CONFIGURATOR = (''Transform'', Some KAFKA_TYPE_VERIFICATION)"
| "sidebarStepConfig CLICKHOUSE_CONNECTION = (''ClickHouse Connection'', None)"
| "sidebarStepConfig CLICKHOUSE_MAPPER = (''Mapping'', None)"
| "sidebarStepConfig PIPELINE_RESOURCES = (''Pipeline Resources'', None)"
| "sidebarStepConfig REVIEW_CONFIGURATION = (''Review & Deploy'', None)"
| "sidebarStepConfig DEPLOY_PIPELINE = (''Deploy Pipeline'', None)"
| "sidebarStepConfig OTLP_SIGNAL_TYPE = (''Select Signal Type'', None)"
| "sidebarStepConfig OTLP_DEDUPLICATION = (''Deduplication'', Some OTLP_SIGNAL_TYPE)"

definition step_title :: "bool \<Rightarrow> StepKeys \<Rightarrow> string" where
  "step_title two key = (if key = TOPIC_SELECTION_1 \<and> two then ''Select Left Topic'' else fst (sidebarStepConfig key))"

text \<open>The closest step before, that a step with a dynamic parent belongs to.\<close>

definition parent_steps :: "bool \<Rightarrow> StepKeys list" where
  "parent_steps two =
     (if two then [] else [KAFKA_TYPE_VERIFICATION, OTLP_SIGNAL_TYPE]) @
     [TOPIC_SELECTION_1, TOPIC_SELECTION_2, TOPIC_DEDUPLICATION_CONFIGURATOR_1, TOPIC_DEDUPLICATION_CONFIGURATOR_2]"

definition dynamic_parent :: "bool \<Rightarrow> StepKeys list \<Rightarrow> StepKeys option" where
  "dynamic_parent two before = find (\<lambda>k. k \<in> set (parent_steps two)) (rev before)"

definition dynamic_step :: "StepKeys \<Rightarrow> bool" where
  "dynamic_step key \<longleftrightarrow> key \<in> {DEDUPLICATION_CONFIGURATOR, FILTER_CONFIGURATOR, TRANSFORMATION_CONFIGURATOR}"

text \<open>
  The row of a step, after the steps \<open>before\<close> in its journey; the flag tells that it is a substep.
  \<open>verify\<close> tells whether a type verification belongs to the second topic.
\<close>

definition sidebar_row :: "bool \<Rightarrow> bool \<Rightarrow> StepKeys list \<Rightarrow> string \<Rightarrow> StepKeys \<Rightarrow> bool \<times> SidebarStep" where
  "sidebar_row two second before i key =
     (if key = KAFKA_TYPE_VERIFICATION \<and> two
      then (True, \<lparr>ss_id = i, ss_key = key, ss_title = (if second then ''Verify Right Topic Types'' else ''Verify Left Topic Types''),
              ss_parent = Some (if second then TOPIC_SELECTION_2 else TOPIC_SELECTION_1)\<rparr>)
      else if dynamic_step key \<and> dynamic_parent two before \<noteq> None
      then (True, \<lparr>ss_id = i, ss_key = key, ss_title = fst (sidebarStepConfig key), ss_parent = dynamic_parent two before\<rparr>)
      else (case snd (sidebarStepConfig key) of Some p \<Rightarrow> p \<in> set before | None \<Rightarrow> False,
            \<lparr>ss_id = i, ss_key = key, ss_title = step_title two key, ss_parent = snd (sidebarStepConfig key)\<rparr>))"

definition main_first :: "(bool \<times> SidebarStep) list \<Rightarrow> SidebarStep list" where
  "main_first rows = map snd (filter (\<lambda>r. \<not> fst r) rows) @ map snd (filter fst rows)"

definition getSidebarStepsFromInstances :: "StepInstance list \<Rightarrow> nat \<Rightarrow> SidebarStep list" where
  "getSidebarStepsFromInstances jny topics_n =
     main_first (map (\<lambda>(n, inst). sidebar_row (topics_n = 2) (si_topicIndex inst = Some 1)
       (map si_key (take n jny)) (si_id inst) (si_key inst)) (enumerate 0 jny))"

definition second_topic :: "StepKeys list \<Rightarrow> bool" where
  "second_topic before =
     (find (\<lambda>k. k = TOPIC_SELECTION_2 \<or> k = TOPIC_SELECTION_1) (rev before) = Some TOPIC_SELECTION_2)"

definition getSidebarSteps :: "StepKeys list \<Rightarrow> nat option \<Rightarrow> SidebarStep list" where
  "getSidebarSteps jny topics_n =
     main_first (map (\<lambda>(n, key). sidebar_row (topics_n = Some 2) (second_topic (take n jny)) (take n jny)
       (step_text key @ ''-'' @ nat_digits n) key) (enumerate 0 jny))"

definition getSingleTopicSidebarSteps :: "Features \<Rightarrow> SidebarStep list" where
  "getSingleTopicSidebarSteps fl = getSidebarSteps (getSingleTopicJourney fl) (Some 1)"

definition getTwoTopicSidebarSteps :: "Features \<Rightarrow> SidebarStep list" where
  "getTwoTopicSidebarSteps fl = getSidebarSteps (getTwoTopicJourney fl) (Some 2)"

definition getWizardSidebarSteps :: "Features \<Rightarrow> nat option \<Rightarrow> SidebarStep list" where
  "getWizardSidebarSteps fl topics_n =
     (case topics_n of
        Some n \<Rightarrow> if n < 1 \<or> 2 < n then [] else if n = 1 then getSingleTopicSidebarSteps fl else getTwoTopicSidebarSteps fl
      | None \<Rightarrow> [])"

section \<open>Components\<close>

datatype StepComponent =
    KafkaConnectionContainer | KafkaTopicSelector | KafkaTypeVerification | DeduplicationConfigurator | FilterConfigurator
  | TransformationConfigurator | JoinConfigurator | ClickhouseConnectionContainer | ClickhouseMapper
  | PipelineResourcesConfigurator | ReviewConfiguration | OtlpSignalTypeStep | OtlpDeduplicationStep

fun componentsMap :: "StepKeys \<Rightarrow> StepComponent option" where
  "componentsMap KAFKA_CONNECTION = Some KafkaConnectionContainer"
| "componentsMap TOPIC_SELECTION_1 = Some KafkaTopicSelector"
| "componentsMap TOPIC_SELECTION_2 = Some KafkaTopicSelector"
| "componentsMap KAFKA_TYPE_VERIFICATION = Some KafkaTypeVerification"
| "componentsMap DEDUPLICATION_CONFIGURATOR = Some DeduplicationConfigurator"
| "componentsMap TOPIC_DEDUPLICATION_CONFIGURATOR_1 = Some KafkaTopicSelector"
| "componentsMap TOPIC_DEDUPLICATION_CONFIGURATOR_2 = Some KafkaTopicSelector"
| "componentsMap FILTER_CONFIGURATOR = Some FilterConfigurator"
| "componentsMap TRANSFORMATION_CONFIGURATOR = Some TransformationConfigurator"
| "componentsMap JOIN_CONFIGURATOR = Some JoinConfigurator"
| "componentsMap CLICKHOUSE_CONNECTION = Some ClickhouseConnectionContainer"
| "componentsMap CLICKHOUSE_MAPPER = Some ClickhouseMapper"
| "componentsMap PIPELINE_RESOURCES = Some PipelineResourcesConfigurator"
| "componentsMap REVIEW_CONFIGURATION = Some ReviewConfiguration"
| "componentsMap OTLP_SIGNAL_TYPE = Some OtlpSignalTypeStep"
| "componentsMap OTLP_DEDUPLICATION = Some OtlpDeduplicationStep"
| "componentsMap DEPLOY_PIPELINE = None"

definition getJourneyComponents :: "StepKeys list \<Rightarrow> StepKeys \<rightharpoonup> StepComponent" where
  "getJourneyComponents jny = fold (\<lambda>step acc. acc(step := componentsMap step)) jny Map.empty"

definition getWizardJourneySteps :: "Features \<Rightarrow> nat option \<Rightarrow> string option \<Rightarrow> StepKeys \<rightharpoonup> StepComponent" where
  "getWizardJourneySteps fl topics_n srcType =
     (if otlp_type srcType then getJourneyComponents (getOtlpJourney fl)
      else case topics_n of
             Some n \<Rightarrow> if n < 1 \<or> 2 < n then Map.empty
               else if n = 1 then getJourneyComponents (getSingleTopicJourney fl) else getJourneyComponents (getTwoTopicJourney fl)
           | None \<Rightarrow> Map.empty)"

text \<open>The journeys of the old operations are made when the module is loaded, with the flags of that time.\<close>

definition getWizardJourneyStepsFromOperation :: "Features \<Rightarrow> string option \<Rightarrow> StepKeys \<rightharpoonup> StepComponent" where
  "getWizardJourneyStepsFromOperation fl operation =
     (case operation of
        Some x \<Rightarrow> if x = ''deduplication'' then getJourneyComponents (getDeduplicationJourney fl)
          else if x = ''joining'' then getJourneyComponents (getJoinJourney fl)
          else if x = ''ingest-only'' then getJourneyComponents (getIngestOnlyJourney fl)
          else if x = ''deduplication-joining'' then getJourneyComponents (getDeduplicateJoinJourney fl)
          else Map.empty
      | None \<Rightarrow> Map.empty)"


section \<open>The journeys are well formed\<close>

lemma sidebar_rows_ids: "ss_id (snd (sidebar_row two second before i key)) = i"
  by (simp add: sidebar_row_def)

lemma main_first_mset: "mset (map f (main_first rows)) = mset (map (f \<circ> snd) rows)"
  by (induction rows) (auto simp: main_first_def)

text \<open>Every step has one row in the sidebar, whatever the journey.\<close>

lemma sidebar_ids: "mset (map ss_id (getSidebarStepsFromInstances jny n)) = mset (map si_id jny)"
proof -
  have "map (ss_id \<circ> snd) (map (\<lambda>(m, inst). sidebar_row (two m inst) (second m inst) (before m inst) (si_id inst) (si_key inst)) (enumerate k xs)) =
      map si_id xs" for two second before k xs
    by (induction xs arbitrary: k) (simp_all add: sidebar_rows_ids)
  from this [of "\<lambda>_ _. n = 2" "\<lambda>_ inst. si_topicIndex inst = Some 1" "\<lambda>m _. map si_key (take m jny)" 0 jny]
  show ?thesis unfolding getSidebarStepsFromInstances_def main_first_mset by (rule arg_cong [where f = mset])
qed

definition all_features :: "Features list" where
  "all_features = [\<lparr>filters_enabled = f, transformations_enabled = t, preview_mode = p\<rparr>. f \<leftarrow> [True, False], t \<leftarrow> [True, False], p \<leftarrow> [True, False]]"

lemma features_cases: "fl \<in> set all_features"
  by (cases fl) (auto simp: all_features_def)

text \<open>The main rows, and the row without its id.\<close>

definition main_rows :: "SidebarStep list \<Rightarrow> StepKeys list" where
  "main_rows rows = map ss_key (filter (\<lambda>r. ss_parent r = None) rows)"

definition row_content :: "SidebarStep \<Rightarrow> StepKeys \<times> string \<times> StepKeys option" where
  "row_content r = (ss_key r, ss_title r, ss_parent r)"

definition parents_shown :: "SidebarStep list \<Rightarrow> bool" where
  "parents_shown rows = list_all (\<lambda>r. case ss_parent r of Some p \<Rightarrow> p \<in> set (main_rows rows) | None \<Rightarrow> True) rows"

lemma journeys_checked:
  "list_all (\<lambda>fl. distinct (map si_id (getSingleTopicJourneyInstances fl)) \<and> distinct (map si_id (getTwoTopicJourneyInstances fl)) \<and>
     distinct (map si_id (getOtlpJourneyInstances fl))) all_features"
  by code_simp

lemma single_parents: "list_all (\<lambda>fl. parents_shown (getSidebarStepsFromInstances (getSingleTopicJourneyInstances fl) 1)) all_features"
  by code_simp

lemma two_parents: "list_all (\<lambda>fl. parents_shown (getSidebarStepsFromInstances (getTwoTopicJourneyInstances fl) 2)) all_features"
  by code_simp

lemma otlp_parents: "list_all (\<lambda>fl. parents_shown (getSidebarStepsFromInstances (getOtlpJourneyInstances fl) 1)) all_features"
  by code_simp

lemma sidebars_checked:
  "list_all (\<lambda>fl. map row_content (getSidebarStepsFromInstances (getSingleTopicJourneyInstances fl) 1) = map row_content (getSidebarSteps (getSingleTopicJourney fl) (Some 1)) \<and>
     map row_content (getSidebarStepsFromInstances (getTwoTopicJourneyInstances fl) 2) = map row_content (getSidebarSteps (getTwoTopicJourney fl) (Some 2))) all_features"
  by code_simp


lemma checked: "list_all P all_features \<Longrightarrow> P fl"
  using features_cases by (auto simp: list_all_iff)

definition shown_topics :: "nat option \<Rightarrow> string option \<Rightarrow> nat" where
  "shown_topics n srcType = (if otlp_type srcType then 1 else case n of Some k \<Rightarrow> k | None \<Rightarrow> 0)"

lemma journey_cases:
  obtains "otlp_type srcType" "getWizardJourneyInstances fl n srcType = getOtlpJourneyInstances fl"
      "getWizardJourneySteps fl n srcType = getJourneyComponents (getOtlpJourney fl)" "shown_topics n srcType = 1"
  | "n = Some 1" "\<not> otlp_type srcType" "getWizardJourneyInstances fl n srcType = getSingleTopicJourneyInstances fl"
      "getWizardJourneySteps fl n srcType = getJourneyComponents (getSingleTopicJourney fl)" "shown_topics n srcType = 1"
  | "n = Some 2" "\<not> otlp_type srcType" "getWizardJourneyInstances fl n srcType = getTwoTopicJourneyInstances fl"
      "getWizardJourneySteps fl n srcType = getJourneyComponents (getTwoTopicJourney fl)" "shown_topics n srcType = 2"
  | "getWizardJourneyInstances fl n srcType = []"
proof (cases "otlp_type srcType")
  case True
  then show thesis using that(1) by (simp add: getWizardJourneyInstances_def getWizardJourneySteps_def shown_topics_def)
next
  case False
  show thesis
  proof (cases "n = Some 1 \<or> n = Some 2")
    case True
    with False that(2,3) show thesis
      by (auto simp: getWizardJourneyInstances_def getWizardJourneySteps_def shown_topics_def)
  next
    case other: False
    have "getWizardJourneyInstances fl n srcType = []"
      using False other by (cases n) (auto simp: getWizardJourneyInstances_def)
    then show thesis by (rule that(4))
  qed
qed

lemma instance_keys:
  "map si_key (getSingleTopicJourneyInstances fl) = getSingleTopicJourney fl"
  "map si_key (getTwoTopicJourneyInstances fl) = getTwoTopicJourney fl"
  "map si_key (getOtlpJourneyInstances fl) = getOtlpJourney fl"
proof -
  have "map (si_key \<circ> (\<lambda>(n, key). step_instance key (g n key) n)) (enumerate k keys) = keys" for g k keys
    by (induction keys arbitrary: k) (simp_all add: step_instance_def)
  note this [unfolded map_map [symmetric]]
  then show "map si_key (getSingleTopicJourneyInstances fl) = getSingleTopicJourney fl"
    "map si_key (getTwoTopicJourneyInstances fl) = getTwoTopicJourney fl"
    "map si_key (getOtlpJourneyInstances fl) = getOtlpJourney fl"
    by (simp_all only: getSingleTopicJourneyInstances_def getTwoTopicJourneyInstances_def getOtlpJourneyInstances_def Let_def)
qed

lemma component_found: "key \<in> set keys \<Longrightarrow> getJourneyComponents keys key = componentsMap key"
proof -
  have "fold (\<lambda>step acc. acc(step := componentsMap step)) keys m key = (if key \<in> set keys then componentsMap key else m key)" for m
    by (induction keys arbitrary: m) auto
  then show "key \<in> set keys \<Longrightarrow> getJourneyComponents keys key = componentsMap key" by (simp add: getJourneyComponents_def)
qed

lemma journeys_have_components:
  "list_all (\<lambda>k. k \<noteq> DEPLOY_PIPELINE) (getSingleTopicJourney fl @ getTwoTopicJourney fl @ getOtlpJourney fl)"
  by (simp add: getSingleTopicJourney_def getTwoTopicJourney_def getOtlpJourney_def review_step_def)

lemma component_given: "k \<noteq> DEPLOY_PIPELINE \<Longrightarrow> componentsMap k \<noteq> None"
  by (cases k) simp_all

lemma journey_ids: "distinct (map si_id (getWizardJourneyInstances fl n srcType))"
  by (cases rule: journey_cases [of srcType fl n]) (simp_all add: checked [OF journeys_checked, of fl] del: distinct_map)

text \<open>
  Every journey the wizard can take has steps with different ids, each with a component; its sidebar
  has exactly one row for each step, and the parent of every substep is a main row. The rows are the
  ones of the function that works on step keys alone.
\<close>

theorem wizard_journey_spec:
  "let J = getWizardJourneyInstances fl n srcType; S = getSidebarStepsFromInstances J (shown_topics n srcType)
   in distinct (map si_id J) \<and> list_all (\<lambda>i. getWizardJourneySteps fl n srcType (si_key i) \<noteq> None) J \<and>
      mset (map ss_id S) = mset (map si_id J) \<and>
      parents_shown S \<and>
      (if otlp_type srcType then True else map row_content S = map row_content (getWizardSidebarSteps fl n))"
proof (cases rule: journey_cases [of srcType fl n])
  case 1
  have "list_all (\<lambda>k. getJourneyComponents (getOtlpJourney fl) k \<noteq> None) (map si_key (getOtlpJourneyInstances fl))"
    using journeys_have_components [of fl] component_given unfolding instance_keys by (auto simp: list_all_iff component_found)
  then show ?thesis
    using 1 checked [OF journeys_checked, of fl] checked [OF otlp_parents, of fl] unfolding Let_def sidebar_ids
    by (simp add: list_all_iff)
next
  case 2
  have "list_all (\<lambda>k. getJourneyComponents (getSingleTopicJourney fl) k \<noteq> None) (map si_key (getSingleTopicJourneyInstances fl))"
    using journeys_have_components [of fl] component_given unfolding instance_keys by (auto simp: list_all_iff component_found)
  then show ?thesis
    using 2 checked [OF journeys_checked, of fl] checked [OF single_parents, of fl] checked [OF sidebars_checked, of fl]
    unfolding Let_def sidebar_ids
    by (simp add: list_all_iff getWizardSidebarSteps_def getSingleTopicSidebarSteps_def)
next
  case 3
  have "list_all (\<lambda>k. getJourneyComponents (getTwoTopicJourney fl) k \<noteq> None) (map si_key (getTwoTopicJourneyInstances fl))"
    using journeys_have_components [of fl] component_given unfolding instance_keys by (auto simp: list_all_iff component_found)
  then show ?thesis
    using 3 checked [OF journeys_checked, of fl] checked [OF two_parents, of fl] checked [OF sidebars_checked, of fl]
    unfolding Let_def sidebar_ids
    by (simp add: list_all_iff getWizardSidebarSteps_def getTwoTopicSidebarSteps_def)
next
  case 4
  have "getSidebarStepsFromInstances [] k = []" for k by (simp add: getSidebarStepsFromInstances_def main_first_def)
  moreover have "getWizardSidebarSteps fl n = []" if "\<not> otlp_type srcType"
    using 4 that instance_keys [of fl]
    by (auto simp: getWizardSidebarSteps_def getWizardJourneyInstances_def getSingleTopicJourney_def getTwoTopicJourney_def split: option.splits if_splits)
  ultimately show ?thesis using 4 by (simp add: parents_shown_def)
qed


text \<open>What moving through a journey relies on.\<close>

lemma instance_named: "si_id (step_instance key ti m) \<noteq> []" "[] \<noteq> si_id (step_instance key ti m)"
  by (simp_all add: step_instance_def stepInstanceId_def)

lemma journey_named: "[] \<notin> set (map si_id (getWizardJourneyInstances fl n srcType))"
  by (cases rule: journey_cases [of srcType fl n])
    (auto simp: getSingleTopicJourneyInstances_def getTwoTopicJourneyInstances_def getOtlpJourneyInstances_def Let_def instance_named)

lemma journey_review_last: "REVIEW_CONFIGURATION \<notin> set (butlast (map si_key (getWizardJourneyInstances fl n srcType)))"
  by (cases rule: journey_cases [of srcType fl n])
    (simp_all add: instance_keys getSingleTopicJourney_def getTwoTopicJourney_def getOtlpJourney_def review_step_def butlast_append)

end
