(* ===== verification/Wizard_Navigation.thy ===== *)
theory Wizard_Navigation
  imports Wizard_Journey Transformation_Expr
begin

text \<open>
  Moving through the wizard (ui/src/modules/create/hooks/useWizardSmartNavigation.ts,
  useStepValidationStatus.ts and PipelineWizard.tsx): continuing, with the return to the step the user
  had left, the sidebar and the initial step. The hooks' callbacks read the steps slice of the last
  rendering, which is the one before the event.
\<close>

section \<open>The status of a step\<close>

fun step_validation :: "RootStore \<Rightarrow> StepKeys \<Rightarrow> ValidationState option" where
  "step_validation s KAFKA_CONNECTION = Some (kafka_validation (kafkaStore s))"
| "step_validation s TOPIC_SELECTION_1 = Some (topics_validation (topicsStore s))"
| "step_validation s TOPIC_SELECTION_2 = Some (topics_validation (topicsStore s))"
| "step_validation s KAFKA_TYPE_VERIFICATION = Some (topics_validation (topicsStore s))"
| "step_validation s DEDUPLICATION_CONFIGURATOR = Some (dedup_validation (deduplicationStore s))"
| "step_validation s FILTER_CONFIGURATOR = Some (validation (filterStore s))"
| "step_validation s TRANSFORMATION_CONFIGURATOR = Some (tr_validation (transformationStore s))"
| "step_validation s JOIN_CONFIGURATOR = Some (join_validation (joinStore s))"
| "step_validation s CLICKHOUSE_CONNECTION = Some (cc_validation (clickhouseConnectionStore s))"
| "step_validation s CLICKHOUSE_MAPPER = Some (cd_validation (clickhouseDestinationStore s))"
| "step_validation s _ = None"

definition getValidationStatus :: "RootStore \<Rightarrow> StepKeys \<Rightarrow> ValidationStatus" where
  "getValidationStatus s key = (case step_validation s key of Some v \<Rightarrow> vs_status v | None \<Rightarrow> Valid)"

section \<open>Navigation\<close>

record SmartContinueResult =
  nextStepId :: "string option"
  shouldRouteAway :: bool

definition findBlockingStep :: "(StepKeys \<Rightarrow> ValidationStatus) \<Rightarrow> StepInstance list \<Rightarrow> int \<Rightarrow> int \<Rightarrow> StepInstance option" where
  "findBlockingStep st jny from_i to_i =
     find (\<lambda>i. st (si_key i) \<noteq> Valid) (drop (nat (from_i + 1)) (take (nat (to_i + 1)) jny))"

definition element_at :: "'a list \<Rightarrow> int \<Rightarrow> 'a option" where
  "element_at xs n = (if 0 \<le> n \<and> nat n < length xs then Some (xs ! nat n) else None)"

definition go_to :: "StepInstance option \<Rightarrow> StepsStore \<Rightarrow> StepsStore" where
  "go_to i s = (case i of Some inst \<Rightarrow> setActiveStepId (Some (si_id inst)) s | None \<Rightarrow> s)"

definition go_to_blocking :: "StepInstance list \<Rightarrow> StepInstance \<Rightarrow> StepsStore \<Rightarrow> StepsStore" where
  "go_to_blocking jny b s =
     (let ids = map si_id jny
      in clearResumeStepId (setActiveStepId (Some (si_id b))
           (case element_at jny (indexOf ids (si_id b) - 1) of
              Some p \<Rightarrow> removeCompletedStepsAfterId (si_id p) ids s
            | None \<Rightarrow> setCompletedStepIds [] s)))"

definition handleSmartContinue ::
    "(StepKeys \<Rightarrow> ValidationStatus) \<Rightarrow> StepInstance list \<Rightarrow> StepsStore \<Rightarrow> SmartContinueResult \<times> StepsStore" where
  "handleSmartContinue st jny s =
     (let ids = map si_id jny; current = text_of (activeStepId s); n = indexOf ids current;
          nxt = element_at jny (n + 1); resume = text_of (resumeStepId s);
          resume_n = (if resume \<noteq> [] then indexOf ids resume else -1);
          result = (\<lambda>i away. \<lparr>nextStepId = i, shouldRouteAway = away\<rparr>)
      in if current = [] \<or> n = -1 then (result None False, s)
         else if si_key (jny ! nat n) = REVIEW_CONFIGURATION then (result (map_option si_id nxt) True, go_to nxt s)
         else if resume \<noteq> [] \<and> n < resume_n
         then case findBlockingStep st jny n resume_n of
                Some b \<Rightarrow> (result (Some (si_id b)) False, go_to_blocking jny b s)
              | None \<Rightarrow> (result (Some resume) False, clearResumeStepId (setActiveStepId (Some resume) s))
         else (result (map_option si_id nxt) False, go_to nxt (if resume \<noteq> [] then clearResumeStepId s else s)))"

definition handleSidebarNavigation :: "StepInstance list \<Rightarrow> string \<Rightarrow> StepsStore \<Rightarrow> StepsStore" where
  "handleSidebarNavigation jny target s =
     (let ids = map si_id jny; current = text_of (activeStepId s); resume = text_of (resumeStepId s);
          from_i = indexOf ids current; to_i = indexOf ids target
      in if current = [] then setActiveStepId (Some target) s
         else setActiveStepId (Some target)
           (if from_i \<noteq> -1 \<and> to_i \<noteq> -1 \<and> to_i < from_i
            then (if resume = [] then setResumeStepId (Some current) s else s)
            else if resume \<noteq> [] then clearResumeStepId s else s))"

section \<open>The wizard\<close>

definition init_active :: "StepInstance list \<Rightarrow> StepsStore \<Rightarrow> StepsStore" where
  "init_active jny s =
     (if jny = [] then s
      else if text_of (activeStepId s) = [] \<or> text_of (activeStepId s) \<notin> set (map si_id jny)
      then setActiveStepId (Some (si_id (hd jny))) s else s)"

definition handleNext :: "(StepKeys \<Rightarrow> ValidationStatus) \<Rightarrow> StepInstance list \<Rightarrow> StepsStore \<Rightarrow> StepsStore \<times> bool" where
  "handleNext st jny s =
     (if text_of (activeStepId s) = [] then (s, False)
      else let (r, s') = handleSmartContinue st jny (addCompletedStepId (text_of (activeStepId s)) s)
           in (s', shouldRouteAway r))"

definition handleSidebarStepClick :: "StepInstance list \<Rightarrow> string \<Rightarrow> StepsStore \<Rightarrow> StepsStore" where
  "handleSidebarStepClick jny i s =
     (if i \<in> set (completedStepIds s) then handleSidebarNavigation jny i s else s)"

text \<open>What the user does, with the sections changing in any way in between.\<close>

inductive wizard_step :: "StepInstance list \<Rightarrow> StepsStore \<Rightarrow> StepsStore \<Rightarrow> bool" for jny where
  shown: "wizard_step jny s (init_active jny s)"
| continued: "wizard_step jny s (fst (handleNext st jny s))"
| clicked: "wizard_step jny s (handleSidebarStepClick jny i s)"

inductive wizard_reachable :: "StepInstance list \<Rightarrow> StepsStore \<Rightarrow> bool" for jny where
  start: "wizard_reachable jny initialStepsStore"
| step: "wizard_reachable jny s \<Longrightarrow> wizard_step jny s s' \<Longrightarrow> wizard_reachable jny s'"

section \<open>Navigation in an ordered journey\<close>

lemma indexOf_nth: "distinct xs \<Longrightarrow> k < length xs \<Longrightarrow> indexOf xs (xs ! k) = int k"
proof (induction xs arbitrary: k)
  case (Cons x xs)
  then show ?case by (cases k) (auto simp: Let_def)
qed simp

locale journey_order =
  fixes J :: "StepInstance list"
  assumes ids: "distinct (map si_id J)"
    and named: "[] \<notin> set (map si_id J)"
    and review_last: "REVIEW_CONFIGURATION \<notin> set (butlast (map si_key J))"
begin

definition at_step :: "nat \<Rightarrow> StepsStore \<Rightarrow> bool" where
  "at_step k s \<longleftrightarrow> k < length J \<and> activeStepId s = Some (si_id (J ! k))"

definition done_before :: "nat \<Rightarrow> StepsStore \<Rightarrow> bool" where
  "done_before k s \<longleftrightarrow> set (take k (map si_id J)) \<subseteq> set (completedStepIds s)"

text \<open>The completed steps are the first ones of the journey, each once.\<close>

definition plain_completed :: "string list \<Rightarrow> bool" where
  "plain_completed xs \<longleftrightarrow> distinct xs \<and> (\<exists>c. set xs = set (take c (map si_id J)))"

definition sound :: "StepsStore \<Rightarrow> bool" where
  "sound s \<longleftrightarrow> plain_completed (completedStepIds s) \<and>
     (case activeStepId s of
        None \<Rightarrow> resumeStepId s = None \<and> completedStepIds s = []
      | Some a \<Rightarrow> \<exists>k. at_step k s \<and> done_before k s \<and>
          (case resumeStepId s of None \<Rightarrow> True
           | Some r \<Rightarrow> \<exists>m. k < m \<and> m < length J \<and> r = si_id (J ! m) \<and> done_before m s))"

lemma position: "k < length J \<Longrightarrow> indexOf (map si_id J) (si_id (J ! k)) = int k"
  using indexOf_nth [OF ids, of k] by simp

lemma id_given: "k < length J \<Longrightarrow> si_id (J ! k) \<noteq> []"
  using named nth_mem [of k J] by (metis imageI set_map)

lemma id_inj: "k < length J \<Longrightarrow> m < length J \<Longrightarrow> si_id (J ! k) = si_id (J ! m) \<longleftrightarrow> k = m"
  using nth_eq_iff_index_eq [OF ids, of k m] by simp

lemma review_at: "k < length J \<Longrightarrow> si_key (J ! k) = REVIEW_CONFIGURATION \<Longrightarrow> Suc k = length J"
proof (rule ccontr)
  assume k: "k < length J" "si_key (J ! k) = REVIEW_CONFIGURATION" "Suc k \<noteq> length J"
  then have "butlast (map si_key J) ! k = REVIEW_CONFIGURATION" "k < length (butlast (map si_key J))"
    by (simp_all add: nth_butlast)
  with review_last show False by (metis nth_mem)
qed

lemma sound_cases:
  assumes "sound s"
  obtains "activeStepId s = None" "resumeStepId s = None" "completedStepIds s = []"
  | k where "at_step k s" "done_before k s" "resumeStepId s = None"
  | k m where "at_step k s" "done_before k s" "k < m" "m < length J" "resumeStepId s = Some (si_id (J ! m))" "done_before m s"
proof (cases "activeStepId s")
  case None
  then show thesis using that(1) assms by (simp add: sound_def)
next
  case (Some a)
  then obtain k where k: "at_step k s" "done_before k s" and r: "case resumeStepId s of None \<Rightarrow> True
      | Some r \<Rightarrow> \<exists>m. k < m \<and> m < length J \<and> r = si_id (J ! m) \<and> done_before m s"
    using assms by (auto simp: sound_def)
  show thesis
  proof (cases "resumeStepId s")
    case None
    with k show thesis by (rule that(2))
  next
    case (Some x)
    with r obtain m where "k < m" "m < length J" "x = si_id (J ! m)" "done_before m s" by auto
    with k Some show thesis using that(3) by blast
  qed
qed

lemma done_before_take: "done_before m s \<Longrightarrow> k \<le> m \<Longrightarrow> done_before k s"
  unfolding done_before_def by (drule set_take_subset_set_take [of k m "map si_id J"]) (rule subset_trans)

lemma done_before_Suc: "k < length J \<Longrightarrow> done_before (Suc k) s \<longleftrightarrow> done_before k s \<and> si_id (J ! k) \<in> set (completedStepIds s)"
  by (auto simp: done_before_def take_Suc_conv_app_nth)

lemma next_of: "k < length J \<Longrightarrow> element_at J (int k + 1) = (if Suc k < length J then Some (J ! Suc k) else None)"
  by (simp add: element_at_def nat_add_distrib)

lemma blocking_step:
  assumes "k < m" "m < length J"
  shows "(\<exists>j. findBlockingStep st J (int k) (int m) = Some (J ! j) \<and> k < j \<and> j \<le> m \<and> st (si_key (J ! j)) \<noteq> Valid \<and>
            (\<forall>i. k < i \<and> i < j \<longrightarrow> st (si_key (J ! i)) = Valid)) \<or>
         (findBlockingStep st J (int k) (int m) = None \<and> (\<forall>i. k < i \<and> i \<le> m \<longrightarrow> st (si_key (J ! i)) = Valid))"
proof -
  let ?xs = "drop (Suc k) (take (Suc m) J)"
  have f: "findBlockingStep st J (int k) (int m) = find (\<lambda>i. st (si_key i) \<noteq> Valid) ?xs"
    by (simp add: findBlockingStep_def nat_add_distrib)
  have len: "length ?xs = m - k" using assms by simp
  have elem: "i < m - k \<Longrightarrow> ?xs ! i = J ! (Suc k + i)" for i using assms by simp
  show ?thesis
  proof (cases "find (\<lambda>i. st (si_key i) \<noteq> Valid) ?xs")
    case None
    then have "\<forall>x \<in> set ?xs. st (si_key x) = Valid" by (simp add: find_None_iff)
    then have "\<forall>i < m - k. st (si_key (J ! (Suc k + i))) = Valid" using elem len by (metis nth_mem)
    then have "st (si_key (J ! i)) = Valid" if "k < i" "i \<le> m" for i
      using that by (metis Suc_leI Suc_diff_le add_diff_inverse_nat diff_Suc_Suc diff_less_mono le_imp_less_Suc linorder_not_le)
    then show ?thesis using f None by simp
  next
    case (Some b)
    then obtain i where i: "i < length ?xs" "st (si_key (?xs ! i)) \<noteq> Valid" "b = ?xs ! i" "\<forall>n < i. st (si_key (?xs ! n)) = Valid"
      by (auto simp: find_Some_iff)
    have "st (si_key (J ! n)) = Valid" if "k < n" "n < Suc k + i" for n
    proof -
      from that obtain d where d: "n = Suc k + d" "d < i" by (metis Suc_leI add_less_cancel_left le_Suc_ex)
      then show ?thesis using i(1,4) elem len by (metis order.strict_trans)
    qed
    then show ?thesis
      using f Some i elem len assms by (intro disjI1 exI [of _ "Suc k + i"]) auto
  qed
qed

lemma soundI:
  assumes "plain_completed (completedStepIds s)" "at_step k s" "done_before k s" "resumeStepId s = None"
  shows "sound s"
  using assms by (auto simp: sound_def at_step_def)

lemma sound_targetI:
  assumes "plain_completed (completedStepIds s)" "at_step k s" "done_before k s"
    "resumeStepId s = Some (si_id (J ! m))" "k < m" "m < length J" "done_before m s"
  shows "sound s"
  using assms unfolding sound_def at_step_def by (simp, intro exI [of _ k]) auto

lemma sound_completed: "sound s \<Longrightarrow> plain_completed (completedStepIds s)"
  by (simp add: sound_def)

lemma completed_ids: "plain_completed xs \<Longrightarrow> set xs \<subseteq> set (map si_id J)"
  unfolding plain_completed_def by (elim conjE exE) (simp only: set_take_subset)

lemma completed_position:
  assumes "plain_completed xs" "x \<in> set xs"
  obtains i where "i < length J" "x = si_id (J ! i)"
proof -
  have "x \<in> set (map si_id J)" using completed_ids [OF assms(1)] assms(2) by blast
  then obtain inst where "inst \<in> set J" "x = si_id inst" by auto
  then show thesis using that by (metis in_set_conv_nth)
qed

lemma completed_prefix:
  assumes "plain_completed (completedStepIds s)" "m < length J" "si_id (J ! m) \<in> set (completedStepIds s)"
  shows "done_before (Suc m) s"
proof -
  obtain c where c: "set (completedStepIds s) = set (take c (map si_id J))" using assms(1) by (auto simp: plain_completed_def)
  then obtain i where "i < c" "i < length J" "si_id (J ! m) = si_id (J ! i)" using assms(3) by (auto simp: in_set_conv_nth)
  then have "m < c" using id_inj assms(2) by simp
  then show ?thesis unfolding done_before_def c by (intro set_take_subset_set_take) simp
qed

lemma completed_added:
  assumes "at_step k s" "plain_completed (completedStepIds s)" "done_before k s" and s1: "s1 = addCompletedStepId (si_id (J ! k)) s"
  shows "at_step k s1" "resumeStepId s1 = resumeStepId s" "plain_completed (completedStepIds s1)"
    "done_before m s \<Longrightarrow> done_before m s1" "done_before (Suc k) s1"
proof -
  have k: "k < length J" using assms(1) by (simp add: at_step_def)
  show "at_step k s1" "resumeStepId s1 = resumeStepId s" using assms by (simp_all add: addCompletedStepId_def at_step_def)
  show kept: "done_before m s \<Longrightarrow> done_before m s1" for m
    by (auto simp: s1 addCompletedStepId_def done_before_def)
  have "si_id (J ! k) \<in> set (completedStepIds s1)" by (simp add: s1 addCompletedStepId_def)
  then show "done_before (Suc k) s1" using kept [OF assms(3)] by (simp add: done_before_Suc [OF k])
  show "plain_completed (completedStepIds s1)"
  proof (cases "si_id (J ! k) \<in> set (completedStepIds s)")
    case False
    obtain c where c: "set (completedStepIds s) = set (take c (map si_id J))" using assms(2) by (auto simp: plain_completed_def)
    have "\<not> k < c"
      using False c k by (metis in_set_conv_nth length_map length_take min_less_iff_conj nth_map nth_take)
    then have "set (take c (map si_id J)) \<subseteq> set (take k (map si_id J))" by (intro set_take_subset_set_take) simp
    then have "set (completedStepIds s) = set (take k (map si_id J))" using assms(3) c by (simp add: done_before_def)
    then have "set (completedStepIds s1) = set (take (Suc k) (map si_id J))"
      using False k by (simp add: s1 addCompletedStepId_def take_Suc_conv_app_nth)
    then show ?thesis using False assms(2) unfolding plain_completed_def by (auto simp: s1 addCompletedStepId_def)
  qed (use assms(2) in \<open>simp add: s1 addCompletedStepId_def\<close>)
qed

lemma later_removed:
  assumes "j < length J" "plain_completed (completedStepIds s)" "done_before (Suc j) s"
    and s1: "s1 = removeCompletedStepsAfterId (si_id (J ! j)) (map si_id J) s"
  shows "plain_completed (completedStepIds s1)" "done_before (Suc j) s1" "set (completedStepIds s1) = set (take (Suc j) (map si_id J))"
proof -
  have c: "completedStepIds s1 = filter (\<lambda>i. indexOf (map si_id J) i \<noteq> -1 \<and> indexOf (map si_id J) i \<le> int j) (completedStepIds s)"
    using position [OF assms(1)] by (simp add: s1 removeCompletedStepsAfterId_def Let_def)
  have "x \<in> set (take (Suc j) (map si_id J))" if "x \<in> set (completedStepIds s1)" for x
  proof -
    from that c have x: "x \<in> set (completedStepIds s)" "indexOf (map si_id J) x \<le> int j" by simp_all
    then obtain i where i: "i < length J" "x = si_id (J ! i)" using completed_position [OF assms(2)] by blast
    then have "i < Suc j" using x(2) position [OF i(1)] by simp
    then show ?thesis using i by (auto simp: in_set_conv_nth)
  qed
  moreover have "x \<in> set (completedStepIds s1)" if "x \<in> set (take (Suc j) (map si_id J))" for x
  proof -
    from that obtain i where i: "i < Suc j" "i < length J" "x = si_id (J ! i)" by (auto simp: in_set_conv_nth)
    then show ?thesis using assms(3) that position [of i] by (auto simp: c done_before_def)
  qed
  ultimately show eq: "set (completedStepIds s1) = set (take (Suc j) (map si_id J))" by blast
  have "distinct (completedStepIds s1)" using assms(2) by (simp add: c plain_completed_def)
  with eq show "plain_completed (completedStepIds s1)" "done_before (Suc j) s1"
    unfolding plain_completed_def done_before_def by blast+
qed

text \<open>What continuing does at a step.\<close>

lemma next_state:
  assumes "at_step k s"
  shows "fst (handleNext st J s) = snd (handleSmartContinue st J (addCompletedStepId (si_id (J ! k)) s))"
  using assms id_given [of k] by (simp add: at_step_def handleNext_def text_of_def case_prod_beta)

lemma continue_without_target:
  assumes "at_step k s" "resumeStepId s = None"
  shows "fst (handleNext st J s) = (if Suc k < length J then setActiveStepId (Some (si_id (J ! Suc k))) (addCompletedStepId (si_id (J ! k)) s)
    else addCompletedStepId (si_id (J ! k)) s)"
proof -
  have k: "k < length J" "activeStepId s = Some (si_id (J ! k))" using assms by (simp_all add: at_step_def)
  define s1 where "s1 = addCompletedStepId (si_id (J ! k)) s"
  have s1: "activeStepId s1 = Some (si_id (J ! k))" "resumeStepId s1 = None" using k assms by (simp_all add: s1_def addCompletedStepId_def)
  have "snd (handleSmartContinue st J s1) = (if Suc k < length J then setActiveStepId (Some (si_id (J ! Suc k))) s1 else s1)"
    using k(1) id_given [OF k(1)] position [OF k(1)] review_at [OF k(1)]
    by (simp add: handleSmartContinue_def Let_def s1 text_of_def next_of go_to_def)
  then show ?thesis unfolding next_state [OF assms(1)] by (simp only: s1_def Let_def)
qed

lemma continue_with_target:
  assumes "at_step k s" "resumeStepId s = Some (si_id (J ! m))" "k < m" "m < length J"
  shows "fst (handleNext st J s) = (let s1 = addCompletedStepId (si_id (J ! k)) s
    in case findBlockingStep st J (int k) (int m) of
         Some b \<Rightarrow> go_to_blocking J b s1
       | None \<Rightarrow> clearResumeStepId (setActiveStepId (Some (si_id (J ! m))) s1))"
proof -
  have k: "k < length J" "activeStepId s = Some (si_id (J ! k))" using assms by (simp_all add: at_step_def)
  define s1 where "s1 = addCompletedStepId (si_id (J ! k)) s"
  have s1: "activeStepId s1 = Some (si_id (J ! k))" "resumeStepId s1 = Some (si_id (J ! m))"
    using k assms by (simp_all add: s1_def addCompletedStepId_def)
  have "si_key (J ! k) \<noteq> REVIEW_CONFIGURATION" using review_at [OF k(1)] assms(3,4) by auto
  then have "snd (handleSmartContinue st J s1) = (case findBlockingStep st J (int k) (int m) of
         Some b \<Rightarrow> go_to_blocking J b s1 | None \<Rightarrow> clearResumeStepId (setActiveStepId (Some (si_id (J ! m))) s1))"
    using id_given [OF k(1)] position [OF k(1)] id_given [OF assms(4)] position [OF assms(4)] assms(3)
    by (simp add: handleSmartContinue_def Let_def s1 text_of_def split: option.split)
  then show ?thesis unfolding next_state [OF assms(1)] by (simp only: s1_def Let_def)
qed

lemma continued:
  assumes "sound s" "at_step k s" and s': "s' = fst (handleNext st J s)"
  shows "\<exists>j. at_step j s' \<and> sound s' \<and> resumeStepId s' = None \<and>
    (if Suc k < length J then k < j else j = k) \<and> (\<forall>i. k < i \<and> i < j \<longrightarrow> st (si_key (J ! i)) = Valid) \<and>
    (if resumeStepId s = None then j \<le> Suc k
     else st (si_key (J ! j)) = Valid \<or> set (completedStepIds s') = set (take j (map si_id J)))"
proof -
  have k: "k < length J" using assms(2) by (simp add: at_step_def)
  define s1 where "s1 = addCompletedStepId (si_id (J ! k)) s"
  from assms(1) show ?thesis
  proof (cases rule: sound_cases)
    case 1
    then show ?thesis using assms(2) by (simp add: at_step_def)
  next
    case (2 k')
    then have "k' = k" using assms(2) id_inj by (auto simp: at_step_def)
    note added = completed_added [OF assms(2) sound_completed [OF assms(1)] 2(2) [unfolded this] s1_def]
    show ?thesis
    proof (cases "Suc k < length J")
      case True
      then have e: "s' = setActiveStepId (Some (si_id (J ! Suc k))) s1"
        using continue_without_target [OF assms(2) 2(3), of st] by (simp add: s' s1_def)
      have "at_step (Suc k) s'" "resumeStepId s' = None" "done_before (Suc k) s'" "plain_completed (completedStepIds s')"
        using True added 2(3) by (simp_all add: e setActiveStepId_def at_step_def done_before_def)
      then show ?thesis using True 2(3) soundI by (intro exI [of _ "Suc k"]) auto
    next
      case False
      then have e: "s' = s1" using continue_without_target [OF assms(2) 2(3), of st] by (simp add: s' s1_def)
      then show ?thesis
        using False added 2(3) added(4) [OF 2(2) [unfolded \<open>k' = k\<close>]] soundI [of s' k] by (intro exI [of _ k]) auto
    qed
  next
    case (3 k' m)
    then have kk: "k' = k" using assms(2) id_inj by (auto simp: at_step_def)
    note added = completed_added [OF assms(2) sound_completed [OF assms(1)] 3(2) [unfolded kk] s1_def]
    have done_m: "done_before m s1" by (rule added(4)) (rule 3(6))
    note e = continue_with_target [OF assms(2) 3(5) 3(3) [unfolded kk] 3(4), of st, folded s' s1_def, unfolded Let_def]
    from blocking_step [OF 3(3) [unfolded kk] 3(4), of st] show ?thesis
    proof (elim disjE exE conjE)
      fix j
      assume j: "findBlockingStep st J (int k) (int m) = Some (J ! j)" "k < j" "j \<le> m" "st (si_key (J ! j)) \<noteq> Valid"
        "\<forall>i. k < i \<and> i < j \<longrightarrow> st (si_key (J ! i)) = Valid"
      obtain p where p: "j = Suc p" using j(2) by (cases j) auto
      have l: "p < length J" "j < length J" using p j(3) 3(4) by simp_all
      define s2 where "s2 = removeCompletedStepsAfterId (si_id (J ! p)) (map si_id J) s1"
      have s'2: "s' = clearResumeStepId (setActiveStepId (Some (si_id (J ! j))) s2)"
        using position [OF l(2)] l by (simp add: e j(1) go_to_blocking_def Let_def element_at_def p s2_def)
      have "done_before (Suc p) s1" using done_before_take [OF done_m, of "Suc p"] p j(3) by simp
      note r = later_removed [OF l(1) added(3) this s2_def]
      have "at_step j s'" "resumeStepId s' = None" "done_before j s'" "plain_completed (completedStepIds s')"
        "set (completedStepIds s') = set (take j (map si_id J))"
        using r l by (simp_all add: s'2 p clearResumeStepId_def setActiveStepId_def at_step_def done_before_def)
      then show ?thesis using j 3(3,4,5) kk soundI [of s' j] by (intro exI [of _ j]) auto
    next
      assume b: "findBlockingStep st J (int k) (int m) = None" "\<forall>i. k < i \<and> i \<le> m \<longrightarrow> st (si_key (J ! i)) = Valid"
      have s'2: "s' = clearResumeStepId (setActiveStepId (Some (si_id (J ! m))) s1)" by (simp add: e b(1))
      have "at_step m s'" "resumeStepId s' = None" "done_before m s'" "plain_completed (completedStepIds s')"
        using added done_m 3(4) by (simp_all add: s'2 clearResumeStepId_def setActiveStepId_def at_step_def done_before_def)
      then show ?thesis using b(2) 3(3,4,5) kk soundI [of s' m] by (intro exI [of _ m]) auto
    qed
  qed
qed

lemma clicked:
  assumes "sound s"
  shows "sound (handleSidebarStepClick J i s)"
proof (cases "i \<in> set (completedStepIds s)")
  case True
  then obtain t where t: "t < length J" "i = si_id (J ! t)"
    using completed_position [OF sound_completed [OF assms]] by blast
  have dt: "done_before t s" using completed_prefix [OF sound_completed [OF assms] t(1)] True t(2) done_before_Suc [OF t(1)] by simp
  define s' where "s' = handleSidebarNavigation J i s"
  have "sound s'"
  using assms proof (cases rule: sound_cases)
    case 1
    with True show ?thesis by simp
  next
    case (2 k)
    have k: "k < length J" "activeStepId s = Some (si_id (J ! k))" using 2(1) by (simp_all add: at_step_def)
    have e: "s' = setActiveStepId (Some i) (if t < k then setResumeStepId (Some (si_id (J ! k))) s else s)"
      using position [OF k(1)] position [OF t(1)] id_given [OF k(1)] 2(3)
      by (simp add: s'_def handleSidebarNavigation_def Let_def text_of_def k(2) t(2))
    have p: "plain_completed (completedStepIds s')" "at_step t s'" "done_before t s'" "done_before k s'"
      using sound_completed [OF assms] t dt 2(2) by (simp_all add: e setActiveStepId_def setResumeStepId_def at_step_def done_before_def)
    show ?thesis
    proof (cases "t < k")
      case True
      then have "resumeStepId s' = Some (si_id (J ! k))" by (simp add: e setActiveStepId_def setResumeStepId_def)
      then show ?thesis using p True k(1) sound_targetI by blast
    next
      case False
      then have "resumeStepId s' = None" using 2(3) by (simp add: e setActiveStepId_def)
      then show ?thesis using p soundI by blast
    qed
  next
    case (3 k m)
    have k: "k < length J" "activeStepId s = Some (si_id (J ! k))" using 3(1) by (simp_all add: at_step_def)
    have e: "s' = setActiveStepId (Some i) (if t < k then s else clearResumeStepId s)"
      using position [OF k(1)] position [OF t(1)] id_given [OF k(1)] id_given [OF 3(4)] 3(5)
      by (simp add: s'_def handleSidebarNavigation_def Let_def text_of_def k(2) t(2))
    have p: "plain_completed (completedStepIds s')" "at_step t s'" "done_before t s'" "done_before m s'"
      using sound_completed [OF assms] t dt 3(6) by (simp_all add: e setActiveStepId_def clearResumeStepId_def at_step_def done_before_def)
    show ?thesis
    proof (cases "t < k")
      case True
      then have "resumeStepId s' = Some (si_id (J ! m))" using 3(5) by (simp add: e setActiveStepId_def)
      moreover have "t < m" using True 3(3) by simp
      ultimately show ?thesis using p 3(4) sound_targetI by blast
    next
      case False
      then have "resumeStepId s' = None" by (simp add: e setActiveStepId_def clearResumeStepId_def)
      then show ?thesis using p soundI by blast
    qed
  qed
  with True show ?thesis by (simp add: handleSidebarStepClick_def s'_def)
qed (use assms in \<open>simp add: handleSidebarStepClick_def\<close>)

lemma shown_step:
  assumes "sound s"
  shows "sound (init_active J s)"
proof (cases "J = [] \<or> activeStepId s \<noteq> None")
  case True
  have "init_active J s = s" if "at_step k s" for k
    using that id_given [of k] by (auto simp: init_active_def at_step_def text_of_def)
  moreover have "init_active J s = s" if "J = []" using that by (simp add: init_active_def)
  ultimately show ?thesis using True assms by (cases rule: sound_cases [OF assms]) auto
next
  case False
  with assms have "resumeStepId s = None" "completedStepIds s = []" by (auto simp: sound_def)
  moreover have e: "init_active J s = setActiveStepId (Some (si_id (J ! 0))) s"
    using False by (simp add: init_active_def text_of_def hd_conv_nth)
  ultimately show ?thesis
    using False assms unfolding e by (intro soundI [of _ 0]) (auto simp: setActiveStepId_def at_step_def done_before_def sound_def)
qed

lemma nothing_to_continue: "activeStepId s = None \<Longrightarrow> fst (handleNext st J s) = s"
  by (simp add: handleNext_def text_of_def)

lemma initial_sound: "sound initialStepsStore"
proof -
  have "plain_completed []" unfolding plain_completed_def by (intro conjI exI [of _ 0]) simp_all
  then show ?thesis by (simp add: sound_def initialStepsStore_def)
qed

lemma step_sound: "wizard_step J s s' \<Longrightarrow> sound s \<Longrightarrow> sound s'"
proof (induction rule: wizard_step.induct)
  case (continued s st)
  show ?case
  proof (cases "activeStepId s")
    case None
    then show ?thesis using continued nothing_to_continue by simp
  next
    case (Some a)
    then obtain k where "at_step k s" using continued by (auto simp: sound_def)
    then show ?thesis using journey_order.continued [OF journey_order_axioms continued] by blast
  qed
qed (simp_all add: clicked shown_step)

lemma reachable_sound: "wizard_reachable J s \<Longrightarrow> sound s"
  by (induction rule: wizard_reachable.induct) (auto intro: initial_sound step_sound)

text \<open>Continuing again and again reaches the last step.\<close>

lemma continuing_advances:
  assumes "sound s" "at_step k s"
  shows "\<exists>j. at_step j (((\<lambda>s. fst (handleNext st J s)) ^^ n) s) \<and> sound (((\<lambda>s. fst (handleNext st J s)) ^^ n) s) \<and>
    min (k + n) (length J - 1) \<le> j"
proof (induction n)
  case 0
  then show ?case using assms by (auto intro!: exI [of _ k])
next
  case (Suc n)
  define t where "t = ((\<lambda>s. fst (handleNext st J s)) ^^ n) s"
  from Suc obtain j where j: "at_step j t" "sound t" "min (k + n) (length J - 1) \<le> j" by (auto simp: t_def)
  obtain j' where j': "at_step j' (fst (handleNext st J t))" "sound (fst (handleNext st J t))"
    "if Suc j < length J then j < j' else j' = j"
    using continued [OF j(2,1) refl, of st] by blast
  have "min (k + Suc n) (length J - 1) \<le> j'" using j(3) j'(3) by (auto split: if_splits)
  with j' show ?case by (auto simp: t_def)
qed

lemma reaches_end:
  assumes "sound s" "at_step k s" "length J \<le> Suc (k + n)"
  shows "at_step (length J - 1) (((\<lambda>s. fst (handleNext st J s)) ^^ n) s)"
proof -
  obtain j where j: "at_step j (((\<lambda>s. fst (handleNext st J s)) ^^ n) s)" "min (k + n) (length J - 1) \<le> j"
    using continuing_advances [OF assms(1,2)] by blast
  then have "j = length J - 1" using assms(3) by (auto simp: at_step_def)
  with j show ?thesis by simp
qed

end


interpretation wizard: journey_order "getWizardJourneyInstances fl n srcType" for fl n srcType
  by unfold_locales (rule journey_ids journey_named journey_review_last)+

section \<open>Moving through the wizard\<close>

text \<open>The steps before and after one.\<close>

definition earlier :: "StepInstance list \<Rightarrow> string \<Rightarrow> StepInstance list" where
  "earlier jny i = takeWhile (\<lambda>x. si_id x \<noteq> i) jny"

definition later :: "StepInstance list \<Rightarrow> string \<Rightarrow> StepInstance list" where
  "later jny i = tl (dropWhile (\<lambda>x. si_id x \<noteq> i) jny)"

lemma earlier_at:
  assumes "distinct (map si_id jny)" "k < length jny"
  shows "earlier jny (si_id (jny ! k)) = take k jny"
  unfolding earlier_def
  by (rule takeWhile_eq_take_P_nth) (use assms in \<open>auto simp: distinct_conv_nth\<close>)

lemma later_at:
  assumes "distinct (map si_id jny)" "k < length jny"
  shows "later jny (si_id (jny ! k)) = drop (Suc k) jny"
proof -
  have "dropWhile (\<lambda>x. si_id x \<noteq> si_id (jny ! k)) jny = drop (length (earlier jny (si_id (jny ! k)))) jny"
    by (simp add: earlier_def dropWhile_eq_drop)
  also have "\<dots> = drop k jny" using assms by (simp add: earlier_at)
  finally show ?thesis by (simp add: later_def drop_Suc tl_drop)
qed

lemma between:
  assumes "x \<in> set (take (j - Suc k) (drop (Suc k) xs))"
  obtains i where "k < i" "i < j" "x = xs ! i"
proof -
  obtain i where "i < j - Suc k" "i < length (drop (Suc k) xs)" "x = drop (Suc k) xs ! i" using assms by (auto simp: in_set_conv_nth)
  then show thesis by (intro that [of "Suc k + i"]) auto
qed




text \<open>
  C28. Wherever the user is, continuing as often as the journey has steps leads to the last one, whatever
  the sections' statuses.
\<close>

theorem wizard_completes:
  assumes "J = getWizardJourneyInstances fl n srcType" and "wizard_reachable J s" and "activeStepId s \<noteq> None"
  shows "activeStepId (((\<lambda>s. fst (handleNext st J s)) ^^ length J) s) = Some (si_id (last J))"
proof -
  have snd: "wizard.sound fl n srcType s" using wizard.reachable_sound assms(1,2) by blast
  then obtain k where k: "wizard.at_step fl n srcType k s" using assms(3) by (auto simp: wizard.sound_def)
  have "wizard.at_step fl n srcType (length J - 1) (((\<lambda>s. fst (handleNext st J s)) ^^ length J) s)"
    using wizard.reaches_end [OF snd k, of "length J" st] assms(1) by simp
  moreover have "J \<noteq> []" using k assms(1) by (auto simp: wizard.at_step_def)
  ultimately show ?thesis using assms(1) by (simp add: wizard.at_step_def last_conv_nth)
qed


section \<open>Examples\<close>

definition example_journey :: "StepInstance list" where
  "example_journey = getWizardJourneyInstances \<lparr>filters_enabled = False, transformations_enabled = False, preview_mode = False\<rparr> (Some 1) None"

definition all_valid :: "StepKeys \<Rightarrow> ValidationStatus" where
  "all_valid k = Valid"

definition topics_changed :: "StepKeys \<Rightarrow> ValidationStatus" where
  "topics_changed k = (if k = TOPIC_SELECTION_1 then Invalidated else Valid)"

text \<open>Two steps on, then back to the first.\<close>

definition on_third :: StepsStore where
  "on_third = fst (handleNext all_valid example_journey (fst (handleNext all_valid example_journey (init_active example_journey initialStepsStore))))"

definition back_on_first :: StepsStore where
  "back_on_first = handleSidebarStepClick example_journey ''kafka-connection-0'' on_third"

lemma third_reachable: "wizard_reachable example_journey on_third"
  unfolding on_third_def
  by (rule wizard_reachable.step, rule wizard_reachable.step, rule wizard_reachable.step [OF wizard_reachable.start]) (rule wizard_step.intros)+

lemma first_reachable: "wizard_reachable example_journey back_on_first"
  unfolding back_on_first_def by (rule wizard_reachable.step [OF third_reachable wizard_step.clicked])

lemma example_steps: "example_journey =
  [\<lparr>si_id = ''kafka-connection-0'', si_key = KAFKA_CONNECTION, si_topicIndex = None\<rparr>,
   \<lparr>si_id = ''topic-selection-1-1'', si_key = TOPIC_SELECTION_1, si_topicIndex = None\<rparr>,
   \<lparr>si_id = ''kafka-type-verification-0'', si_key = KAFKA_TYPE_VERIFICATION, si_topicIndex = Some 0\<rparr>,
   \<lparr>si_id = ''deduplication-configurator-0'', si_key = DEDUPLICATION_CONFIGURATOR, si_topicIndex = Some 0\<rparr>,
   \<lparr>si_id = ''clickhouse-connection-4'', si_key = CLICKHOUSE_CONNECTION, si_topicIndex = None\<rparr>,
   \<lparr>si_id = ''clickhouse-mapper-5'', si_key = CLICKHOUSE_MAPPER, si_topicIndex = None\<rparr>,
   \<lparr>si_id = ''pipeline-resources-6'', si_key = PIPELINE_RESOURCES, si_topicIndex = None\<rparr>]"
  by code_simp

lemma first_shown: "init_active example_journey initialStepsStore =
  \<lparr>activeStepId = Some ''kafka-connection-0'', completedStepIds = [], resumeStepId = None\<rparr>"
  by (simp add: init_active_def example_steps initialStepsStore_def text_of_def setActiveStepId_def)

lemmas continue_defs = handleNext_def handleSmartContinue_def text_of_def Let_def addCompletedStepId_def element_at_def go_to_def
  setActiveStepId_def all_valid_def topics_changed_def

lemma third_state: "on_third =
  \<lparr>activeStepId = Some ''kafka-type-verification-0'', completedStepIds = [''kafka-connection-0'', ''topic-selection-1-1''], resumeStepId = None\<rparr>"
proof -
  have "fst (handleNext all_valid example_journey \<lparr>activeStepId = Some ''kafka-connection-0'', completedStepIds = [], resumeStepId = None\<rparr>) =
    \<lparr>activeStepId = Some ''topic-selection-1-1'', completedStepIds = [''kafka-connection-0''], resumeStepId = None\<rparr>"
    by (simp add: continue_defs example_steps)
  moreover have "fst (handleNext all_valid example_journey
      \<lparr>activeStepId = Some ''topic-selection-1-1'', completedStepIds = [''kafka-connection-0''], resumeStepId = None\<rparr>) =
    \<lparr>activeStepId = Some ''kafka-type-verification-0'', completedStepIds = [''kafka-connection-0'', ''topic-selection-1-1''], resumeStepId = None\<rparr>"
    by (simp add: continue_defs example_steps)
  ultimately show ?thesis by (simp only: on_third_def first_shown)
qed

lemma back_state: "back_on_first = \<lparr>activeStepId = Some ''kafka-connection-0'',
   completedStepIds = [''kafka-connection-0'', ''topic-selection-1-1''], resumeStepId = Some ''kafka-type-verification-0''\<rparr>"
  unfolding back_on_first_def third_state
  by (simp add: handleSidebarStepClick_def handleSidebarNavigation_def Let_def text_of_def example_steps setActiveStepId_def
      setResumeStepId_def)

lemma blocked_state: "activeStepId (fst (handleNext topics_changed example_journey back_on_first)) = Some ''topic-selection-1-1''"
  unfolding back_state
  by (simp add: continue_defs example_steps findBlockingStep_def go_to_blocking_def clearResumeStepId_def)



lemma wizard_completes_witness:
  "activeStepId (((\<lambda>s. fst (handleNext all_valid example_journey s)) ^^ length example_journey) back_on_first) = Some (si_id (last example_journey))"
  using wizard_completes [OF example_journey_def first_reachable, of all_valid] by (simp add: back_state)

end
