(* ===== verification/Pipeline_Ids.thy ===== *)
theory Pipeline_Ids
  imports Js_Prelude
begin

text \<open>
  Pipeline ids (ui/src/utils/pipeline-id.ts): the check against the rules for Kubernetes names, the id
  made from a pipeline's name and a random suffix, and the search for an id that is not taken. The
  texts of \<open>Math.random().toString(36)\<close> and the answers of the existence check are arguments.
\<close>

section \<open>Checking an id\<close>

definition is_lower :: "char \<Rightarrow> bool" where
  "is_lower c \<longleftrightarrow> (let n = of_char c :: nat in 97 \<le> n \<and> n \<le> 122)"

definition is_alnum :: "char \<Rightarrow> bool" where
  "is_alnum c \<longleftrightarrow> is_lower c \<or> is_digit c"

definition is_id_char :: "char \<Rightarrow> bool" where
  "is_id_char c \<longleftrightarrow> is_alnum c \<or> c = CHR ''-''"

definition starts_lower :: "string \<Rightarrow> bool" where
  "starts_lower s \<longleftrightarrow> s \<noteq> [] \<and> is_lower (hd s)"

definition ends_alnum :: "string \<Rightarrow> bool" where
  "ends_alnum s \<longleftrightarrow> s \<noteq> [] \<and> is_alnum (last s)"

record PipelineIdValidation =
  pv_isValid :: bool
  pv_error :: "string option"

definition invalid_id :: "string \<Rightarrow> PipelineIdValidation" where
  "invalid_id e = \<lparr>pv_isValid = False, pv_error = Some e\<rparr>"

definition validatePipelineId :: "string \<Rightarrow> PipelineIdValidation" where
  "validatePipelineId i =
     (if 40 < length i then invalid_id ''Pipeline ID must be 40 characters or less''
      else if \<not> starts_lower i then invalid_id ''Pipeline ID must start with a letter''
      else if \<not> ends_alnum i then invalid_id ''Pipeline ID must end with a letter or number''
      else if \<not> (i \<noteq> [] \<and> list_all is_id_char i)
      then invalid_id ''Pipeline ID can only contain lowercase letters, numbers, and hyphens''
      else if has_substring ''--'' i then invalid_id ''Pipeline ID cannot contain consecutive hyphens''
      else \<lparr>pv_isValid = True, pv_error = None\<rparr>)"

section \<open>Making an id\<close>

text \<open>\<open>s.replace(/[...]+/g, d)\<close> for a class of characters.\<close>

fun collapse :: "(char \<Rightarrow> bool) \<Rightarrow> char \<Rightarrow> string \<Rightarrow> string" where
  "collapse p d [] = []"
| "collapse p d (c # cs) =
     (if p c then (if cs \<noteq> [] \<and> p (hd cs) then collapse p d cs else d # collapse p d cs) else c # collapse p d cs)"

definition strip_hyphens :: "string \<Rightarrow> string" where
  "strip_hyphens s = rev (dropWhile (\<lambda>c. c = CHR ''-'') (rev (dropWhile (\<lambda>c. c = CHR ''-'') s)))"

definition id_base :: "string \<Rightarrow> string" where
  "id_base name =
     strip_hyphens (collapse (\<lambda>c. c = CHR ''-'') (CHR ''-'') (collapse is_ws (CHR ''-'')
       (filter (\<lambda>c. is_alnum c \<or> is_ws c \<or> c = CHR ''-'') (trim (toLowerCase name)))))"

definition started :: "string \<Rightarrow> string" where
  "started i = (if starts_lower i then i else ''pipeline-'' @ i)"

definition ended :: "string \<Rightarrow> string" where
  "ended i = (if ends_alnum i then i else i @ ''-1'')"

definition truncated :: "string \<Rightarrow> string" where
  "truncated i =
     (if 30 < length i
      then let t = js_substring 0 30 i in if ends_alnum t then t else js_substring 0 (length t - 1) t @ ''1''
      else i)"

definition generatePipelineIdFromName :: "string \<Rightarrow> string \<Rightarrow> string" where
  "generatePipelineIdFromName random name =
     truncated (ended (started (id_base name))) @ ''-'' @ js_substring 0 8 random"

text \<open>\<open>generateId\<close>, from the texts of two random numbers.\<close>

definition generateId :: "string \<Rightarrow> string \<Rightarrow> string" where
  "generateId r1 r2 = js_substring 2 15 r1 @ js_substring 2 15 r2"

text \<open>
  The attempts in order, each with its random text; \<open>exists\<close> is None when the check raises. The last
  random text is for the id without the name.
\<close>

fun generateUniquePipelineId :: "(string \<Rightarrow> bool option) \<Rightarrow> string list \<Rightarrow> string \<Rightarrow> string \<Rightarrow> string" where
  "generateUniquePipelineId exists [] random name = ''pipeline-'' @ js_substring 0 32 random"
| "generateUniquePipelineId exists (r # rs) random name =
     (let i = generatePipelineIdFromName r name
      in if exists i = Some True then generateUniquePipelineId exists rs random name else i)"

record PipelineIdGeneration =
  pg_id :: string
  pg_name :: string
  pg_isValid :: bool
  pg_error :: "string option"

definition name_error :: "string \<Rightarrow> string option" where
  "name_error name =
     (if trim name = [] then Some ''Pipeline name is required''
      else if length name < 3 then Some ''Pipeline name must be at least 3 characters long''
      else if 100 < length name then Some ''Pipeline name must be 100 characters or less'' else None)"

definition validateAndGeneratePipelineId ::
    "(string \<Rightarrow> bool option) \<Rightarrow> string list \<Rightarrow> string \<Rightarrow> string \<Rightarrow> PipelineIdGeneration" where
  "validateAndGeneratePipelineId exists rs random name =
     (case name_error name of
        Some e \<Rightarrow> \<lparr>pg_id = [], pg_name = name, pg_isValid = False, pg_error = Some e\<rparr>
      | None \<Rightarrow>
          (let i = generateUniquePipelineId exists rs random name; v = validatePipelineId i
           in \<lparr>pg_id = i, pg_name = name, pg_isValid = pv_isValid v, pg_error = pv_error v\<rparr>))"

section \<open>Which names get a valid id\<close>

abbreviation hyphens_apart :: "string \<Rightarrow> bool" where
  "hyphens_apart \<equiv> successively (\<lambda>a b. \<not> (a = CHR ''-'' \<and> b = CHR ''-''))"

lemma double_hyphen: "has_substring ''--'' s \<longleftrightarrow> \<not> hyphens_apart s"
proof (induction s)
  case (Cons c cs)
  then show ?case by (cases cs) auto
qed simp

lemma alnum_no_hyphen: "is_alnum c \<Longrightarrow> c \<noteq> CHR ''-''"
  by (auto simp: is_alnum_def is_lower_def is_digit_def)

lemma ws_no_hyphen: "is_ws c \<Longrightarrow> c \<noteq> CHR ''-''"
  by (auto simp: is_ws_def)

lemma collapse_hd: "p d \<Longrightarrow> collapse p d s \<noteq> [] \<Longrightarrow> p (hd (collapse p d s)) = p (hd s)"
  by (induction p d s rule: collapse.induct) auto

lemma collapse_apart: "hyphens_apart (collapse (\<lambda>c. c = CHR ''-'') (CHR ''-'') s)"
proof (induction s)
  case (Cons c cs)
  have "collapse (\<lambda>c. c = CHR ''-'') (CHR ''-'') cs = [] \<longleftrightarrow> cs = []"
    by (induction cs) auto
  then show ?case using Cons collapse_hd [of "\<lambda>c. c = CHR ''-''" "CHR ''-''" cs] by (auto simp: successively_Cons)
qed simp

lemma collapse_chars: "list_all q (filter (\<lambda>c. \<not> p c) s) \<Longrightarrow> q d \<Longrightarrow> list_all q (collapse p d s)"
  by (induction p d s rule: collapse.induct) auto

lemma strip_parts: "\<exists>a b. s = a @ strip_hyphens s @ b \<and> (strip_hyphens s = [] \<or> hd (strip_hyphens s) \<noteq> CHR ''-'' \<and> last (strip_hyphens s) \<noteq> CHR ''-'')"
proof -
  define t where "t = dropWhile (\<lambda>c. c = CHR ''-'') s"
  have s: "s = takeWhile (\<lambda>c. c = CHR ''-'') s @ t" by (simp add: t_def)
  have u: "t = strip_hyphens s @ rev (takeWhile (\<lambda>c. c = CHR ''-'') (rev t))"
    unfolding strip_hyphens_def t_def [symmetric] rev_append [symmetric] takeWhile_dropWhile_id by simp
  have h: "hd (strip_hyphens s) \<noteq> CHR ''-''" if "strip_hyphens s \<noteq> []"
  proof -
    have "hd (strip_hyphens s) = hd t" using u that by (metis hd_append2)
    moreover have "t \<noteq> []" using that by (auto simp: strip_hyphens_def t_def [symmetric])
    ultimately show ?thesis using hd_dropWhile [of "\<lambda>c. c = CHR ''-''" s] by (simp add: t_def)
  qed
  have l: "last (strip_hyphens s) \<noteq> CHR ''-''" if "strip_hyphens s \<noteq> []"
    using that hd_dropWhile [of "\<lambda>c. c = CHR ''-''" "rev t"] by (simp add: strip_hyphens_def t_def last_rev)
  show ?thesis using s u h l by (metis append.assoc)
qed

text \<open>What is left of a name: letters, digits and single hyphens inside.\<close>

lemma id_base_form:
  "list_all is_id_char (id_base name) \<and> hyphens_apart (id_base name) \<and> (id_base name = [] \<or> is_alnum (hd (id_base name)) \<and> ends_alnum (id_base name))"
proof -
  define f where "f = filter (\<lambda>c. is_alnum c \<or> is_ws c \<or> c = CHR ''-'') (trim (toLowerCase name))"
  define w where "w = collapse is_ws (CHR ''-'') f"
  define c where "c = collapse (\<lambda>c. c = CHR ''-'') (CHR ''-'') w"
  have b: "id_base name = strip_hyphens c" by (simp add: id_base_def f_def w_def c_def)
  have "list_all is_id_char w"
    unfolding w_def by (rule collapse_chars) (auto simp: f_def list_all_iff is_id_char_def)
  then have "list_all is_id_char c"
    unfolding c_def by (intro collapse_chars) (auto simp: list_all_iff is_id_char_def)
  moreover obtain x y where xy: "c = x @ strip_hyphens c @ y"
    "strip_hyphens c = [] \<or> hd (strip_hyphens c) \<noteq> CHR ''-'' \<and> last (strip_hyphens c) \<noteq> CHR ''-''" using strip_parts by blast
  moreover have "hyphens_apart c" unfolding c_def by (rule collapse_apart)
  ultimately have "list_all is_id_char (strip_hyphens c)" "hyphens_apart (strip_hyphens c)"
    by (metis list_all_append, metis successively_append_iff)
  then show ?thesis unfolding b using xy(2)
    by (cases "strip_hyphens c = []") (auto simp: list_all_iff is_id_char_def ends_alnum_def)
qed


definition good_id :: "string \<Rightarrow> bool" where
  "good_id i \<longleftrightarrow> starts_lower i \<and> ends_alnum i \<and> list_all is_id_char i \<and> hyphens_apart i"

lemma valid_id: "pv_isValid (validatePipelineId i) \<longleftrightarrow> length i \<le> 40 \<and> good_id i"
  by (auto simp: validatePipelineId_def invalid_id_def good_id_def double_hyphen starts_lower_def)

lemma started_good:
  assumes "id_base name \<noteq> []"
  shows "good_id (started (id_base name))"
proof -
  have b: "list_all is_id_char (id_base name)" "hyphens_apart (id_base name)" "is_alnum (hd (id_base name))" "ends_alnum (id_base name)"
    using id_base_form [of name] assms by simp_all
  show ?thesis
  proof (cases "starts_lower (id_base name)")
    case False
    have "hyphens_apart (''pipeline-'' @ id_base name)"
      using b assms alnum_no_hyphen [OF b(3)] by (simp add: successively_append_iff successively_Cons)
    moreover have "list_all is_id_char ''pipeline-''" "is_lower (CHR ''p'')"
      by (simp_all add: is_id_char_def is_alnum_def is_lower_def)
    ultimately show ?thesis using False b assms by (simp add: started_def good_id_def starts_lower_def ends_alnum_def)
  qed (use b in \<open>simp add: started_def good_id_def\<close>)
qed

lemma truncated_good:
  assumes "good_id i"
  shows "good_id (truncated i)" "length (truncated i) \<le> 30"
proof -
  let ?t = "take 30 i"
  have t: "starts_lower ?t" "list_all is_id_char ?t" "hyphens_apart ?t"
    using assms successively_append_iff [of _ ?t "drop 30 i"]
    by (auto simp: good_id_def starts_lower_def list_all_iff dest: in_set_takeD)
  have one: "is_alnum (CHR ''1'')" by (simp add: is_alnum_def is_digit_def)
  have cut: "good_id (take 29 i @ ''1'')" if "30 < length i"
  proof -
    have "take 29 i \<noteq> []" using that by auto
    moreover have "hyphens_apart (take 29 i)" "starts_lower (take 29 i)" "list_all is_id_char (take 29 i)"
      using assms successively_append_iff [of _ "take 29 i" "drop 29 i"] that
      by (auto simp: good_id_def starts_lower_def list_all_iff dest: in_set_takeD)
    ultimately show ?thesis using one by (auto simp: good_id_def starts_lower_def ends_alnum_def is_id_char_def successively_append_iff)
  qed
  show "good_id (truncated i)" using assms t cut by (auto simp: truncated_def js_substring_def Let_def good_id_def min_def)
  show "length (truncated i) \<le> 30" by (auto simp: truncated_def js_substring_def Let_def)
qed

definition random_text :: "string \<Rightarrow> bool" where
  "random_text r \<longleftrightarrow> r \<noteq> [] \<and> list_all is_alnum r"

lemma suffix_good: "random_text r \<Longrightarrow> random_text (js_substring 0 8 r) \<and> random_text (js_substring 0 32 r)"
  by (auto simp: random_text_def js_substring_def list_all_iff dest: in_set_takeD)

lemma alnum_apart: "list_all is_alnum r \<Longrightarrow> hyphens_apart r"
proof (induction r)
  case (Cons c r)
  then show ?case using alnum_no_hyphen [of c] by (auto simp: successively_Cons)
qed simp

lemma with_suffix:
  assumes "random_text r" "i \<noteq> []"
  shows "list_all is_id_char (''-'' @ r)" "ends_alnum (i @ ''-'' @ r)" "hyphens_apart (''-'' @ r)"
    "hyphens_apart (i @ ''-'' @ r) \<longleftrightarrow> hyphens_apart i \<and> last i \<noteq> CHR ''-''"
proof -
  have r: "r \<noteq> []" "list_all is_alnum r" using assms by (simp_all add: random_text_def)
  show "list_all is_id_char (''-'' @ r)" "ends_alnum (i @ ''-'' @ r)"
    using r by (auto simp: list_all_iff is_id_char_def ends_alnum_def)
  show h: "hyphens_apart (''-'' @ r)"
    using r alnum_apart [OF r(2)] alnum_no_hyphen [of "hd r"] by (cases r) (auto simp: successively_Cons)
  show "hyphens_apart (i @ ''-'' @ r) \<longleftrightarrow> hyphens_apart i \<and> last i \<noteq> CHR ''-''"
    using h assms(2) by (auto simp: successively_append_iff)
qed

lemma generated_id:
  assumes "random_text r"
  shows "if id_base name \<noteq> [] then pv_isValid (validatePipelineId (generatePipelineIdFromName r name))
    else validatePipelineId (generatePipelineIdFromName r name) = invalid_id ''Pipeline ID cannot contain consecutive hyphens''"
proof -
  define x where "x = js_substring 0 8 r"
  have x: "random_text x" "length x \<le> 8" using suffix_good [OF assms] by (simp_all add: x_def js_substring_def)
  show ?thesis
  proof (cases "id_base name = []")
    case False
    note g = started_good [OF False]
    have e: "ended (started (id_base name)) = started (id_base name)" using g by (simp add: ended_def good_id_def)
    define t where "t = truncated (started (id_base name))"
    have t: "good_id t" "length t \<le> 30" "t \<noteq> []" using truncated_good [OF g] by (auto simp: t_def good_id_def ends_alnum_def)
    have i: "generatePipelineIdFromName r name = t @ ''-'' @ x" by (simp add: generatePipelineIdFromName_def e t_def x_def)
    have "last t \<noteq> CHR ''-''" using t alnum_no_hyphen [of "last t"] by (auto simp: good_id_def ends_alnum_def)
    then have "good_id (t @ ''-'' @ x)"
      using t with_suffix [OF x(1) t(3)] by (simp add: good_id_def starts_lower_def)
    then show ?thesis using False t(2) x(2) unfolding valid_id i by simp
  next
    case True
    have p: "generatePipelineIdFromName r name = ''pipeline--1'' @ ''-'' @ x"
      by (simp add: generatePipelineIdFromName_def True started_def starts_lower_def ended_def ends_alnum_def truncated_def
          x_def is_alnum_def is_lower_def is_digit_def)
    have a: "starts_lower (''pipeline--1'' @ ''-'' @ x)" "list_all is_id_char ''pipeline--1''"
      by (simp_all add: starts_lower_def is_id_char_def is_alnum_def is_lower_def is_digit_def)
    have "\<not> hyphens_apart (''pipeline--1'' @ ''-'' @ x)" by simp
    then show ?thesis
      using True x(2) a with_suffix [OF x(1), of "''pipeline--1''"] unfolding validatePipelineId_def p double_hyphen by simp
  qed
qed


lemma fallback_valid:
  assumes "random_text r" "length r \<le> 26"
  shows "pv_isValid (validatePipelineId (''pipeline-'' @ js_substring 0 32 r))"
proof -
  have x: "js_substring 0 32 r = r" using assms(2) by (simp add: js_substring_def)
  have "good_id (''pipeline'' @ ''-'' @ r)"
    using with_suffix [OF assms(1), of "''pipeline''"] by (simp add: good_id_def starts_lower_def is_id_char_def is_alnum_def is_lower_def)
  then show ?thesis using assms(2) unfolding x valid_id by simp
qed

lemma generateId_length: "length (generateId r1 r2) \<le> 26"
  by (simp add: generateId_def js_substring_def)

lemma unique_id:
  "if list_all (\<lambda>r. exists (generatePipelineIdFromName r name) = Some True) rs
   then generateUniquePipelineId exists rs random name = ''pipeline-'' @ js_substring 0 32 random
   else \<exists>r \<in> set rs. generateUniquePipelineId exists rs random name = generatePipelineIdFromName r name \<and>
     exists (generatePipelineIdFromName r name) \<noteq> Some True"
  by (induction rs) (auto simp: Let_def)


text \<open>
  C29. A pipeline gets an id if and only if its name has a valid length and a letter or a digit of ASCII is
  left of it: an id that satisfies the rules and was not found taken, unless every attempt was. A name
  without one is refused because of consecutive hyphens, which the generated id has and the name need
  not.
\<close>

theorem pipeline_id_spec:
  assumes "list_all random_text (random # rs)" and "random = generateId r1 r2"
    and "g = validateAndGeneratePipelineId exists rs random name"
    and "taken = list_all (\<lambda>r. exists (generatePipelineIdFromName r name) = Some True) rs"
  shows "pg_isValid g = (name_error name = None \<and> (id_base name \<noteq> [] \<or> taken)) \<and>
    (if pg_isValid g then good_id (pg_id g) \<and> length (pg_id g) \<le> 40 \<and> (taken \<or> exists (pg_id g) \<noteq> Some True)
     else pg_error g = (if name_error name = None then Some ''Pipeline ID cannot contain consecutive hyphens'' else name_error name))"
proof (cases "name_error name")
  case (Some e)
  then show ?thesis using assms(3) by (simp add: validateAndGeneratePipelineId_def)
next
  case None
  define i where "i = generateUniquePipelineId exists rs random name"
  have g: "pg_id g = i" "pg_isValid g = pv_isValid (validatePipelineId i)" "pg_error g = pv_error (validatePipelineId i)"
    using None assms(3) by (simp_all add: validateAndGeneratePipelineId_def Let_def i_def)
  show ?thesis
  proof (cases taken)
    case True
    then have "i = ''pipeline-'' @ js_substring 0 32 random" using unique_id [of exists name rs random] assms(4) by (simp add: i_def)
    moreover have "random_text random" "length random \<le> 26" using assms(1,2) generateId_length [of r1 r2] by simp_all
    ultimately have "pv_isValid (validatePipelineId i)" using fallback_valid by simp
    then show ?thesis using None True g valid_id [of i] by simp
  next
    case False
    then obtain r where r: "r \<in> set rs" "i = generatePipelineIdFromName r name" "exists i \<noteq> Some True"
      using unique_id [of exists name rs random] assms(4) by (auto simp: i_def)
    have "random_text r" using r(1) assms(1) by (simp add: list_all_iff)
    note v = generated_id [OF this, of name, folded r(2)]
    show ?thesis
    proof (cases "id_base name = []")
      case True
      then show ?thesis using v None False g by (simp add: invalid_id_def)
    next
      case nonempty: False
      then show ?thesis using v None False g r(3) valid_id [of i] by simp
    qed
  qed
qed

definition no_ids :: "string \<Rightarrow> bool option" where
  "no_ids i = Some False"

lemma example_names: "id_base ''!?!'' = [] \<and> name_error ''!?!'' = None \<and> random_text ''4fzyo82mvyr'' \<and> random_text (generateId ''0.4fzyo82mvyr'' ''0.i'')"
  by code_simp

lemma pipeline_id_spec_witness:
  "pg_error (validateAndGeneratePipelineId no_ids [''4fzyo82mvyr''] (generateId ''0.4fzyo82mvyr'' ''0.i'') ''!?!'') =
     Some ''Pipeline ID cannot contain consecutive hyphens''"
  using pipeline_id_spec [OF _ refl refl refl, of "''0.4fzyo82mvyr''" "''0.i''" "[''4fzyo82mvyr'']" no_ids "''!?!''"] example_names
  by (simp add: no_ids_def)

end
