(* ===== verification/Transformation_Api.thy ===== *)
theory Transformation_Api
  imports Transformation_Roundtrip
begin

text \<open>
  The reading of transformations in the format of the older API
  (ui/src/store/hydration/transformation.ts, the branch for \<open>stateless_transformation\<close>): how an
  expression is classified, the arithmetic behind a call, and arguments with nested calls. The
  splitting of argument lists is the one of the adapter.
\<close>

section \<open>Classifying an expression\<close>

text \<open>The match of \<open>/^([a-zA-Z_][a-zA-Z0-9_]*)\s*\((.*)\)$/\<close>.\<close>

definition call_match :: "string \<Rightarrow> (string \<times> string) option" where
  "call_match e =
     (let f = takeWhile ident_char e; r = dropWhile is_ws (dropWhile ident_char e)
      in if valid_identifier f \<and> 2 \<le> length r \<and> hd r = CHR ''('' \<and> last r = CHR '')'' \<and>
            list_all (\<lambda>c. \<not> line_end c) (butlast (tl r))
         then Some (f, butlast (tl r)) else None)"

definition isNestedFunctionCall :: "string \<Rightarrow> bool" where
  "isNestedFunctionCall e \<longleftrightarrow> call_match (trim e) \<noteq> None"

text \<open>\<open>/\?.*:/\<close>\<close>

fun has_ternary :: "string \<Rightarrow> bool" where
  "has_ternary [] \<longleftrightarrow> False"
| "has_ternary (c # cs) \<longleftrightarrow> c = CHR ''?'' \<and> CHR '':'' \<in> set (takeWhile (\<lambda>x. \<not> line_end x) cs) \<or> has_ternary cs"

definition comparison_char :: "char \<Rightarrow> bool" where
  "comparison_char c \<longleftrightarrow> c \<in> set ''!=<>''"

text \<open>A comparison outside every parenthesis.\<close>

fun outer_comparison :: "int \<Rightarrow> string \<Rightarrow> bool" where
  "outer_comparison depth [] \<longleftrightarrow> False"
| "outer_comparison depth (c # cs) \<longleftrightarrow>
     (let d = (if c = CHR ''('' then depth + 1 else if c = CHR '')'' then depth - 1 else depth)
      in d = 0 \<and> comparison_char c \<or> outer_comparison d cs)"

definition has_nested_call :: "string \<Rightarrow> bool" where
  "has_nested_call arg \<longleftrightarrow>
     isNestedFunctionCall (trim arg) \<or>
     starts_with ''['' (trim arg) \<and>
       list_ex (\<lambda>item. isNestedFunctionCall (trim item)) (parseFunctionArgs (butlast (tl (trim arg))))"

definition determineExpressionMode :: "string \<Rightarrow> ExpressionMode" where
  "determineExpressionMode e =
     (if has_ternary e then RawMode
      else if list_ex comparison_char e \<and> outer_comparison 0 e then RawMode
      else case call_match e of
             Some (_, as) \<Rightarrow> if list_ex has_nested_call (parseFunctionArgs as) then NestedMode else SimpleMode
           | None \<Rightarrow> SimpleMode)"

section \<open>The arithmetic at the end\<close>

text \<open>\<open>\d+\.?\d*\<close>\<close>

definition amount_text :: "string \<Rightarrow> bool" where
  "amount_text s \<longleftrightarrow>
     (let r = dropWhile is_digit s
      in s \<noteq> [] \<and> is_digit (hd s) \<and> (r = [] \<or> hd r = CHR ''.'' \<and> list_all is_digit (tl r)))"

definition number_text :: "string \<Rightarrow> bool" where
  "number_text s \<longleftrightarrow> amount_text (case s of c # cs \<Rightarrow> if c = CHR ''-'' then cs else s | [] \<Rightarrow> [])"

fun operator_of_char :: "char \<Rightarrow> TransformArithmeticOperator option" where
  "operator_of_char c =
     (if c = CHR ''+'' then Some TPlus else if c = CHR ''-'' then Some TMinus else if c = CHR ''*'' then Some TTimes
      else if c = CHR ''/'' then Some TDivide else if c = CHR ''%'' then Some TModulo else None)"

text \<open>
  The match of \<open>/^(.+?)\s*([+\-*/%])\s*(\d+\.?\d*)$/\<close>: the operator is the last one of the text, since
  none can follow it.
\<close>

definition arithmetic_match :: "string \<Rightarrow> (string \<times> TransformArithmeticOperator \<times> string) option" where
  "arithmetic_match e =
     (let is_op = (\<lambda>c. operator_of_char c \<noteq> None);
          post = rev (takeWhile (\<lambda>c. \<not> is_op c) (rev e)); r = dropWhile (\<lambda>c. \<not> is_op c) (rev e)
      in case r of
           [] \<Rightarrow> None
         | c # before \<Rightarrow>
             (let b = rev (dropWhile is_ws before); base = (if b = [] then take 1 (rev before) else b)
              in if before \<noteq> [] \<and> list_all (\<lambda>x. \<not> line_end x) base \<and> amount_text (dropWhile is_ws post)
                 then Some (base, the (operator_of_char c), dropWhile is_ws post) else None))"

definition paren_depth :: "string \<Rightarrow> int" where
  "paren_depth s = int (length (filter (\<lambda>c. c = CHR ''('') s)) - int (length (filter (\<lambda>c. c = CHR '')'') s))"

definition parseArithmeticModifier :: "string \<Rightarrow> string \<times> TransformArithmeticExpression option" where
  "parseArithmeticModifier e =
     (case arithmetic_match e of
        Some (base, oper, n) \<Rightarrow>
          if paren_depth (trim base) = 0
          then (trim base, Some \<lparr>ta_operator = oper, ta_operand = string_to_number n\<rparr>) else (e, None)
      | None \<Rightarrow> (e, None))"

section \<open>Arguments\<close>

lemma scan_args_length:
  "scan_args args current d q p cs = (args', current') \<Longrightarrow> \<forall>a \<in> set args. length a \<le> n \<Longrightarrow> length current + length cs \<le> n \<Longrightarrow>
     (\<forall>a \<in> set args'. length a \<le> n) \<and> length current' \<le> n"
proof (induction args current d q p cs arbitrary: args' current' rule: scan_args.induct)
  case (2 args current d q p c cs)
  have t: "length (trim current) \<le> n" using trim_length [of current] "2.prems"(3) by simp
  show ?case
    using 2 t by (simp split: if_splits)
qed simp

lemma split_length:
  assumes "a \<in> set (parseFunctionArgs s)"
  shows "length a \<le> length s"
proof -
  obtain args current where sc: "scan_args [] [] 0 None None s = (args, current)" by fastforce
  from scan_args_length [OF this, of "length s"] have l: "\<forall>a \<in> set args. length a \<le> length s" "length current \<le> length s" by simp_all
  have "a \<in> set args \<or> a = trim current" using assms sc by (auto simp: parseFunctionArgs_def split: if_splits)
  then show ?thesis using l trim_length [of current] by auto
qed

lemma call_match_length: "call_match e = Some (f, as) \<Longrightarrow> length as < length e"
proof -
  assume "call_match e = Some (f, as)"
  then have as: "as = butlast (tl (dropWhile is_ws (dropWhile ident_char e)))"
    and r: "2 \<le> length (dropWhile is_ws (dropWhile ident_char e))"
    by (auto simp: call_match_def Let_def split: if_splits)
  have "length (dropWhile is_ws (dropWhile ident_char e)) \<le> length e"
    using length_dropWhile_le [of is_ws "dropWhile ident_char e"] length_dropWhile_le [of ident_char e] by simp
  with as r show ?thesis by simp
qed

lemma inner_length: "starts_ends a b t \<Longrightarrow> length (butlast (tl t)) < length t"
  by (cases t) (auto simp: starts_ends_def)

definition is_arg_element :: "ArrayElement \<Rightarrow> bool" where
  "is_arg_element v = (case v of ArgElem _ \<Rightarrow> True | _ \<Rightarrow> False)"

function parseArgument :: "string \<Rightarrow> FunctionArg" and parseElement :: "string \<Rightarrow> ArrayElement" where
  "parseArgument arg =
     (let trimmed = trim arg
      in if starts_ends dquote dquote trimmed then LiteralArg (Str (butlast (tl trimmed))) LitString
         else if starts_ends (CHR ''['') (CHR '']'') trimmed
         then let vs = map parseElement (parseFunctionArgs (butlast (tl trimmed)))
              in ArrayArg vs (if list_ex is_arg_element vs then ElemTypeNested else ElemTypeString)
         else if number_text trimmed then LiteralArg (Num (string_to_number trimmed)) LitNumber
         else case call_match trimmed of
                Some (f, as) \<Rightarrow> NestedArg f (map parseArgument (parseFunctionArgs as))
              | None \<Rightarrow> FieldArg trimmed ''string'')"
| "parseElement item =
     (let trimmed = trim item
      in case call_match trimmed of
           Some (f, as) \<Rightarrow> ArgElem (NestedArg f (map parseArgument (parseFunctionArgs as)))
         | None \<Rightarrow>
             if starts_ends dquote dquote trimmed then StringElem (butlast (tl trimmed))
             else if number_text trimmed then NumberElem (string_to_number trimmed) else StringElem trimmed)"
  by pat_completeness auto
termination
proof (relation "measure (case_sum length length)", goal_cases)
  case (2 arg t x)
  then show ?case using split_length [of x] inner_length [of _ _ t] trim_length [of arg] by fastforce
next
  case (3 arg t x f as z)
  then show ?case using split_length [of z as] call_match_length [of t f as] trim_length [of arg] by fastforce
next
  case (4 item t x f as z)
  then show ?case using split_length [of z as] call_match_length [of t f as] trim_length [of item] by fastforce
qed simp

declare parseArgument.simps [simp del] parseElement.simps [simp del]

section \<open>Fields\<close>

definition raw_field :: "TransformationField \<Rightarrow> string \<Rightarrow> TransformationField" where
  "raw_field f e = f\<lparr>expressionMode := Some RawMode, rawExpression := Some e, functionName := Some raw_marker,
     functionArgs := Some [LiteralArg (Str e) LitString]\<rparr>"

definition stateless_field :: "nat \<Rightarrow> json \<Rightarrow> TransformationField" where
  "stateless_field index transform =
     (let e = (case jget ''expression'' transform of JStr s \<Rightarrow> s | _ \<Rightarrow> []);
          text = (\<lambda>k d. case jget k transform of JStr s \<Rightarrow> or_text s d | _ \<Rightarrow> d);
          outputType = text ''output_type'' ''string'';
          f = (\<lambda>kind. (loaded_field index kind (text ''output_name'' []) outputType)
            \<lparr>tf_id := text ''id'' (''field-'' @ nat_digits index)\<rparr>)
      in if valid_identifier (trim e)
         then (f Passthrough)\<lparr>sourceField := Some (trim e), sourceFieldType := Some outputType\<rparr>
         else let mode = determineExpressionMode e; (base, arith) = parseArithmeticModifier e
              in if mode = RawMode then raw_field (f Computed) e
                 else case call_match (if arith = None then e else base) of
                        Some (g, as) \<Rightarrow> (f Computed)\<lparr>expressionMode := Some mode, functionName := Some g,
                          functionArgs := Some (map parseArgument (parseFunctionArgs as)), tf_arithmetic := arith\<rparr>
                      | None \<Rightarrow> raw_field (f Computed) e)"

definition stateless_fields :: "json \<Rightarrow> TransformationField list" where
  "stateless_fields transforms = map (\<lambda>(n, t). stateless_field n t) (enumerate 0 (jelements transforms))"

text \<open>
  The configuration is put into the store. A section that is there without its array falls through
  to the internal section of the document.
\<close>

definition put_transformation :: "time \<Rightarrow> TransformationField list \<Rightarrow> TransformationStore \<Rightarrow> TransformationStore" where
  "put_transformation now fs s =
     (let config = \<lparr>tc_enabled = True, tc_fields = fs\<rparr>
      in tr_markAsValid now (setLastSavedTransformationSnapshot (Some config) (setTransformationConfig config s)))"

definition hydrate_stateless :: "time \<Rightarrow> json \<Rightarrow> (TransformationStore \<Rightarrow> TransformationStore) \<Rightarrow> TransformationStore \<Rightarrow> TransformationStore" where
  "hydrate_stateless now stateless internal s =
     (if \<not> jtruthy (jget ''enabled'' stateless) then resetTransformationStore s
      else if jtruthy (jget ''transform'' (jget ''config'' stateless))
      then put_transformation now (stateless_fields (jget ''transform'' (jget ''config'' stateless))) s
      else internal s)"

end
