(* ===== verification/Pipeline_Import.thy ===== *)
theory Pipeline_Import
  imports Store_Reload Wizard_Navigation Pipeline_Ids Transformation_Api
begin

text \<open>
  Importing a pipeline from a file (ui/src/utils/pipeline-import.ts, the upload handler of
  ui/src/components/home/HomePageClient.tsx): the check of the document, the hydration of the stores from the
  document itself, without the adapter (the branches of ui/src/store/hydration for raw documents), the
  marking of the slices and the steps that count as completed. A property of null is undefined here, where
  the code raises.
\<close>

section \<open>Checking a document\<close>

record ImportValidationResult =
  iv_valid :: bool
  iv_errors :: "string list"
  iv_warnings :: "string list"
  iv_config :: "json option"
  iv_topicCount :: nat
  iv_pipelineName :: string

text \<open>\<open>x && typeof x === 'object'\<close> and \<open>Array.isArray(x) && x.length > 0\<close>\<close>

definition is_object :: "json \<Rightarrow> bool" where
  "is_object v \<longleftrightarrow> (case v of JObj _ \<Rightarrow> True | JArr _ \<Rightarrow> True | _ \<Rightarrow> False)"

definition filled_array :: "json \<Rightarrow> bool" where
  "filled_array v \<longleftrightarrow> jelements v \<noteq> []"

text \<open>\<open>!(!x || typeof x !== 'string')\<close>\<close>

definition filled_text :: "json \<Rightarrow> bool" where
  "filled_text v \<longleftrightarrow> (case v of JStr s \<Rightarrow> s \<noteq> [] | _ \<Rightarrow> False)"

definition first_source :: "json \<Rightarrow> json" where
  "first_source config = (case jelements (jget ''sources'' config) of s # _ \<Rightarrow> s | [] \<Rightarrow> JUndef)"

definition source_type_of :: "json \<Rightarrow> string" where
  "source_type_of config =
     text_value (if filled_array (jget ''sources'' config) then jget ''type'' (first_source config)
       else jget ''type'' (jget ''source'' config))"

definition invalid_import :: "string list \<Rightarrow> string \<Rightarrow> ImportValidationResult" where
  "invalid_import errs n = \<lparr>iv_valid = False, iv_errors = errs, iv_warnings = [], iv_config = None,
     iv_topicCount = 0, iv_pipelineName = n\<rparr>"

definition entry_errors :: "(nat \<Rightarrow> string) \<Rightarrow> string \<Rightarrow> json list \<Rightarrow> string list" where
  "entry_errors message k entries =
     concat (map (\<lambda>(n, e). if filled_text (jget k e) then [] else [message n]) (enumerate 0 entries))"

definition count_error :: "string \<Rightarrow> nat \<Rightarrow> string list" where
  "count_error what n =
     (if 2 < n then [''Invalid '' @ what @ '' count: '' @ nat_digits n @ ''. Only 1 or 2 '' @ what @ ''s are supported''] else [])"

text \<open>The errors of the source and the number of topics, or the errors the check ends with.\<close>

definition new_source_errors :: "json \<Rightarrow> string list \<times> nat" where
  "new_source_errors config =
     (let srcs = jelements (jget ''sources'' config)
      in (count_error ''source'' (length srcs) @
          (if filled_array (jget ''brokers'' (jget ''connection_params'' (first_source config))) then []
           else [''Missing or empty: sources[0].connection_params.brokers'']) @
          entry_errors (\<lambda>n. ''Missing or invalid topic at sources['' @ nat_digits n @ ''].topic'') ''topic'' srcs,
          length srcs))"

definition old_source_errors :: "json \<Rightarrow> string list + (string list \<times> nat)" where
  "old_source_errors source =
     (let params = jget ''connection_params'' source;
          errs = (if \<not> is_object params then [''Missing required field: source.connection_params'']
                  else if filled_array (jget ''brokers'' params) then []
                  else [''Missing or empty: source.connection_params.brokers''])
      in case jget ''topics'' source of
           JArr ts \<Rightarrow> Inr (errs @
             (if ts = [] then [''At least one topic is required in source.topics''] else count_error ''topic'' (length ts)) @
             entry_errors (\<lambda>n. ''Missing or invalid topic name at source.topics['' @ nat_digits n @ '']'') ''name'' ts, length ts)
         | _ \<Rightarrow> Inl (errs @ [''Missing required field: source.topics (must be an array)'']))"

definition sink_errors :: "json \<Rightarrow> string list" where
  "sink_errors sink =
     (if \<not> is_object sink then [''Missing required field: sink'']
      else let cp = jget ''connection_params'' sink;
               missing = (\<lambda>v k. if filled_text v then [] else [''Missing required field: sink.'' @ k])
           in missing (or_nullish (jget ''host'' sink) (jget ''host'' cp)) ''host'' @
              missing (or_nullish (jget ''database'' sink) (jget ''database'' cp)) ''database'' @
              missing (jget ''table'' sink) ''table'')"

definition import_warnings :: "json \<Rightarrow> nat \<Rightarrow> string list" where
  "import_warnings config n =
     (if n = 2 \<and> \<not> is_object (jget ''join'' config)
      then [''Multi-topic pipeline detected but no join configuration found. You will need to configure join settings.''] else []) @
     (if jtruthy (jget ''enabled'' (jget ''filter'' config)) \<and> \<not> jtruthy (jget ''expression'' (jget ''filter'' config))
      then [''Filter is enabled but has no expression''] else [])"

definition validatePipelineConfig :: "json \<Rightarrow> ImportValidationResult" where
  "validatePipelineConfig config =
     (if \<not> is_object config then invalid_import [''Invalid JSON: expected an object''] []
      else
        (let name = text_value (jget ''name'' config);
             name_errs = (if name = [] then [''Missing required field: name''] else []);
             new = filled_array (jget ''sources'' config); source = jget ''source'' config
         in if \<not> is_object source \<and> \<not> new
            then invalid_import (name_errs @ [''Missing required field: source (or sources[] for v3 multi-source format)'']) name
            else
              (case (if isOtlpSource (source_type_of config) then Inr ([], 1)
                     else if new then Inr (new_source_errors config) else old_source_errors source) of
                 Inl errs \<Rightarrow> invalid_import (name_errs @ errs) name
               | Inr (errs, n) \<Rightarrow>
                   (let all = name_errs @ errs @ sink_errors (jget ''sink'' config)
                    in \<lparr>iv_valid = (all = []), iv_errors = all, iv_warnings = import_warnings config n,
                        iv_config = (if all = [] then Some config else None),
                        iv_topicCount = (if 0 < n \<and> n \<le> 2 then n else 0), iv_pipelineName = name\<rparr>))))"

text \<open>The parsers of JSON and YAML are arguments; the left result is the message of the error they raise.\<close>

datatype ConfigFormat = JsonFormat | YamlFormat

definition parse_with :: "string \<Rightarrow> (string \<Rightarrow> string + json) \<Rightarrow> string \<Rightarrow> ImportValidationResult" where
  "parse_with format parse text =
     (case parse text of
        Inl message \<Rightarrow> invalid_import [''Invalid '' @ format @ '' syntax: '' @ message] []
      | Inr config \<Rightarrow> validatePipelineConfig config)"

definition detect_format :: "string \<Rightarrow> string option \<Rightarrow> ConfigFormat" where
  "detect_format content filename =
     (let ext = (case filename of Some f \<Rightarrow> toLowerCase (last (split_on (CHR ''.'') f)) | None \<Rightarrow> []);
          start = dropWhile is_ws content
      in if filename \<noteq> None \<and> (ext = ''yaml'' \<or> ext = ''yml'') then YamlFormat
         else if filename \<noteq> None \<and> ext = ''json'' then JsonFormat
         else if starts_with ''{'' start \<or> starts_with ''['' start then JsonFormat else YamlFormat)"

definition parsePipelineConfigContent ::
    "(string \<Rightarrow> string + json) \<Rightarrow> (string \<Rightarrow> string + json) \<Rightarrow> string \<Rightarrow> string option \<Rightarrow> ImportValidationResult \<times> ConfigFormat" where
  "parsePipelineConfigContent json yaml content filename =
     (case detect_format content filename of
        YamlFormat \<Rightarrow> (parse_with ''YAML'' yaml content, YamlFormat)
      | JsonFormat \<Rightarrow> (parse_with ''JSON'' json content, JsonFormat))"

definition MAX_CONFIG_FILE_SIZE :: nat where
  "MAX_CONFIG_FILE_SIZE = 1024 * 1024"

text \<open>\<open>(n / 2^20).toFixed(2)\<close>: the quotient is a double, and halves are rounded up.\<close>

definition megabytes :: "nat \<Rightarrow> string" where
  "megabytes n =
     (let c = (n * 100 + 2 ^ 19) div 2 ^ 20
      in nat_digits (c div 100) @ ''.'' @ [digit_char (c mod 100 div 10), digit_char (c mod 10)])"

definition validateFileSize :: "nat \<Rightarrow> string option" where
  "validateFileSize n =
     (if MAX_CONFIG_FILE_SIZE < n then Some (''File size ('' @ megabytes n @ ''MB) exceeds maximum allowed size (1MB)'') else None)"

section \<open>Hydration from the document\<close>

text \<open>The document, with the internal transformation a user interface may have left in it.\<close>

record ImportedDocument =
  im_doc :: json
  im_transformation :: "InternalTransformation option"

definition raw_schema_field :: "json \<Rightarrow> SchemaField" where
  "raw_schema_field f = \<lparr>sf_name = jget ''name'' f, sf_type = jget ''type'' f, sf_userType = JUndef, sf_isRemoved = JUndef\<rparr>"

definition raw_dedup :: "json \<Rightarrow> TopicDedup" where
  "raw_dedup d = \<lparr>dd_enabled = jtruthy (jget ''enabled'' d), dd_id_field = jget ''id_field'' d,
     dd_id_field_type = jget ''id_field_type'' d, dd_time_window = jget ''time_window'' d\<rparr>"

text \<open>A topic of a raw document, with the properties that hydration reads.\<close>

definition raw_topic :: "json \<Rightarrow> InternalTopic" where
  "raw_topic t =
     \<lparr>it_id = jget ''id'' t, it_name = jget ''name'' t, it_offset = jget ''consumer_group_initial_offset'' t,
      it_replicas = jget ''replicas'' t, it_fields = map raw_schema_field (jelements (jget ''fields'' (jget ''schema'' t))),
      it_dedup = raw_dedup (jget ''deduplication'' t), it_schema_version = jget ''schema_version'' t,
      it_schema_registry = jget ''schema_registry'' t, it_schemaSource = JUndef,
      it_registryVersion = JUndef, it_registrySubject = JUndef\<rparr>"

definition raw_topic_state :: "json \<Rightarrow> nat \<Rightarrow> KafkaTopic" where
  "raw_topic_state t i =
     (let topic = mapBackendTopicToStore (raw_topic t) i
      in case jget ''fields'' (jget ''schema'' t) of JArr _ \<Rightarrow> topic | _ \<Rightarrow> topic\<lparr>topic_schema := None\<rparr>)"

definition no_deduplication :: DeduplicationConfig where
  "no_deduplication = \<lparr>dc_enabled = False, dc_window = Fin 0 0, dc_unit = Hours, dc_key = [], dc_keyType = ''string''\<rparr>"

definition raw_deduplication :: "json \<Rightarrow> DeduplicationConfig" where
  "raw_deduplication t =
     (if jtruthy (jget ''deduplication'' t) then mapBackendDeduplicationToStore (raw_topic t) else no_deduplication)"

text \<open>A source of the current format as such a topic; its deduplication is looked up among the transforms.\<close>

definition dedup_of_source :: "json \<Rightarrow> json \<Rightarrow> json" where
  "dedup_of_source config src =
     (case find (\<lambda>t. jget ''type'' t = JStr ''dedup'' \<and> jget ''source_id'' t = jget ''source_id'' src)
         (jelements (jget ''transforms'' config)) of
        Some t \<Rightarrow> JObj [(''enabled'', JBool True), (''id_field'', or_nullish (jget ''key'' (jget ''config'' t)) (JStr [])),
          (''id_field_type'', JStr ''string''), (''time_window'', or_nullish (jget ''time_window'' (jget ''config'' t)) (JStr ''1h''))]
      | None \<Rightarrow> JUndef)"

definition topic_of_source :: "json \<Rightarrow> json \<Rightarrow> json" where
  "topic_of_source config src =
     JObj [(''name'', jget ''topic'' src), (''consumer_group_initial_offset'', JStr ''latest''),
       (''schema'', if filled_array (jget ''schema_fields'' src)
          then JObj [(''fields'', JArr (map (\<lambda>f. JObj [(''name'', jget ''name'' f), (''type'', or_nullish (jget ''type'' f) (JStr ''string''))])
            (jelements (jget ''schema_fields'' src))))] else JUndef),
       (''deduplication'', dedup_of_source config src)]"

definition raw_topics :: "json \<Rightarrow> json list option" where
  "raw_topics config =
     (case jget ''sources'' config of
        JArr srcs \<Rightarrow> Some (map (topic_of_source config) srcs)
      | _ \<Rightarrow> (case jget ''topics'' (jget ''source'' config) of JArr ts \<Rightarrow> Some ts | _ \<Rightarrow> None))"

definition put_raw_topic :: "HydrationEnv \<Rightarrow> nat \<times> json \<Rightarrow> RootStore \<Rightarrow> RootStore" where
  "put_raw_topic env = (\<lambda>(i, t). put_topic env i (config_offset (raw_topic t)) (raw_topic_state t i) (raw_deduplication t))"

definition put_raw_sample :: "HydrationEnv \<Rightarrow> nat \<times> json \<Rightarrow> RootStore \<Rightarrow> RootStore" where
  "put_raw_sample env = (\<lambda>(i, t). put_sample env i (text_value (jget ''name'' t)) (config_offset (raw_topic t)))"

definition raw_kafka_topics :: "HydrationEnv \<Rightarrow> json \<Rightarrow> RootStore \<Rightarrow> RootStore" where
  "raw_kafka_topics env config = hydrate_topics_with env (put_raw_topic env) (put_raw_sample env) (raw_topics config)"

definition raw_join_source :: "json \<Rightarrow> InternalJoinSource" where
  "raw_join_source s = \<lparr>jo_source_id = jget ''source_id'' s, jo_key = jget ''join_key'' s,
     jo_time_window = jget ''time_window'' s, jo_orientation = text_value (jget ''orientation'' s)\<rparr>"

definition raw_join :: "time \<Rightarrow> json \<Rightarrow> JoinStore \<Rightarrow> JoinStore" where
  "raw_join now config s =
     (let j = jget ''join'' config
      in if \<not> jtruthy j then s
         else hydrateJoinConfiguration now \<lparr>jn_enabled = jtruthy (jget ''enabled'' j), jn_type = jget ''type'' j,
           jn_id = JUndef, jn_sources = map raw_join_source (jelements (jget ''sources'' j))\<rparr> s)"

definition raw_filter :: "json \<Rightarrow> InternalFilter option" where
  "raw_filter config =
     (let f = jget ''filter'' config
      in if jtruthy f then Some \<lparr>if_enabled = jtruthy (jget ''enabled'' f), if_expression = jget ''expression'' f\<rparr> else None)"

definition raw_transformation :: "HydrationEnv \<Rightarrow> ImportedDocument \<Rightarrow> TransformationStore \<Rightarrow> TransformationStore" where
  "raw_transformation env d s =
     (let stateless = jget ''stateless_transformation'' (im_doc d)
      in if jtruthy stateless
         then hydrate_stateless (he_now env) stateless
           (case im_transformation d of
              Some t \<Rightarrow> put_transformation (he_now env) (map (hydrated_field (he_newId env)) (ir_fields t)) | None \<Rightarrow> id) s
         else hydrateTransformation env (im_transformation d) s)"

text \<open>
  The sink: for the connection, its own properties before those of the nested parameters; for the
  destination, a document of the current format is normalised first.
\<close>

definition raw_row :: "json \<Rightarrow> MappingRow" where
  "raw_row m = \<lparr>mr_source_id = jget ''source_id'' m, mr_field_name = or_falsy (jget ''field_name'' m) (jget ''eventField'' m),
     mr_column_name = jget ''column_name'' m, mr_column_type = jget ''column_type'' m\<rparr>"

definition schema_row :: "json \<Rightarrow> MappingRow" where
  "schema_row f = \<lparr>mr_source_id = jget ''source_id'' f, mr_field_name = jget ''name'' f,
     mr_column_name = jget ''column_name'' f, mr_column_type = jget ''column_type'' f\<rparr>"

definition normalised_sink :: "json \<Rightarrow> bool" where
  "normalised_sink sink \<longleftrightarrow> jtruthy (jget ''connection_params'' sink) \<and> \<not> jtruthy (jget ''table_mapping'' sink) \<and>
     (case jget ''mapping'' sink of JArr _ \<Rightarrow> True | _ \<Rightarrow> False)"

definition raw_rows :: "json \<Rightarrow> json \<Rightarrow> MappingRow list" where
  "raw_rows config sink =
     (if normalised_sink sink \<and> jelements (jget ''mapping'' sink) \<noteq> []
      then map (hydrated_row (jget ''source_id'' sink)) (jelements (jget ''mapping'' sink))
      else if filled_array (jget ''table_mapping'' sink) then map raw_row (jelements (jget ''table_mapping'' sink))
      else map schema_row (filter (\<lambda>f. jtruthy (jget ''column_name'' f) \<and> jtruthy (jget ''column_type'' f))
        (jelements (jget ''fields'' (jget ''schema'' config)))))"

definition raw_sink :: "json \<Rightarrow> InternalSink" where
  "raw_sink config =
     (let sink = jget ''sink'' config; cp = jget ''connection_params'' sink;
          own = (\<lambda>k. or_nullish (jget k sink) (jget k cp))
      in \<lparr>sk_type = jget ''type'' sink, sk_host = own ''host'', sk_http_port = own ''http_port'', sk_port = own ''port'',
          sk_database = (if normalised_sink sink then or_nullish (jget ''database'' cp) (jget ''database'' sink)
            else jget ''database'' sink),
          sk_username = own ''username'', sk_password = own ''password'', sk_secure = own ''secure'',
          sk_skip_verification = own ''skip_certificate_verification'', sk_table = jget ''table'' sink,
          sk_engine = jget ''engine'' sink, sk_order_by = jget ''order_by'' sink,
          sk_max_batch_size = jget ''max_batch_size'' sink, sk_max_delay_time = jget ''max_delay_time'' sink,
          sk_mapping = raw_rows config sink\<rparr>)"

definition raw_destination :: "HydrationEnv \<Rightarrow> json \<Rightarrow> ClickhouseDestinationStore \<Rightarrow> ClickhouseDestinationStore" where
  "raw_destination env config s =
     (let sink = jget ''sink'' config; create = (jget ''destination_path'' sink = JStr ''create'');
          name = or_nullish (jget ''table_name'' sink) (if create then jget ''table'' sink else JUndef);
          s1 = hydrateClickhouseDestination env (raw_sink config) False s
      in s1\<lparr>clickhouseDestination := (clickhouseDestination s1)
           \<lparr>destinationPath := (if create then CreatePath else ExistingPath),
             cd_tableName := (case name of JStr n \<Rightarrow> Some n | _ \<Rightarrow> None)\<rparr>\<rparr>)"

definition raw_resources :: "json \<Rightarrow> ResourcesStore \<Rightarrow> ResourcesStore" where
  "raw_resources config s =
     (let r = or_nullish (jget ''pipeline_resources'' config) JNull;
          ts = map raw_topic (jelements (jget ''topics'' (jget ''source'' config)));
          r' = (if jtruthy (jget ''ingestor'' r) \<and> ts \<noteq> []
            then applyTopicReplicasFallback ts (jget ''enabled'' (jget ''join'' config) = JBool True) r else r)
      in hydrateResources (if nullish r' then None else Some r')
           (Some (map text_value (jelements (jget ''immutable'' (jget ''fields_policy'' config))))) s)"

text \<open>An OTLP source of the current format is read from the first source; its deduplication from the old place.\<close>

definition raw_otlp :: "json \<Rightarrow> InternalSource" where
  "raw_otlp config =
     (let source = jget ''source'' config; dedup = jget ''deduplication'' source
      in \<lparr>so_type = text_value (or_nullish (jget ''type'' source) (jget ''type'' (first_source config))),
          so_id = or_nullish (jget ''id'' source) (jget ''source_id'' (first_source config)), so_provider = JUndef,
          so_connection = JUndef, so_topics = [], so_registry = None,
          so_dedup = (if jtruthy dedup
            then Some \<lparr>sd_enabled = jtruthy (jget ''enabled'' dedup), sd_key = or_falsy (jget ''key'' dedup) (jget ''id_field'' dedup),
              sd_time_window = jget ''time_window'' dedup\<rparr> else None)\<rparr>)"

definition raw_common :: "HydrationEnv \<Rightarrow> ImportedDocument \<Rightarrow> RootStore \<Rightarrow> RootStore" where
  "raw_common env d s =
     s\<lparr>clickhouseConnectionStore := (if jtruthy (jget ''sink'' (im_doc d))
         then hydrateClickhouseConnection (he_now env) (raw_sink (im_doc d)) (clickhouseConnectionStore s) else clickhouseConnectionStore s),
       joinStore := raw_join (he_now env) (im_doc d) (joinStore s),
       filterStore := hydrateFilter env (raw_filter (im_doc d)) (filterStore s),
       transformationStore := raw_transformation env d (transformationStore s),
       clickhouseDestinationStore := (if jtruthy (jget ''sink'' (im_doc d))
         then raw_destination env (im_doc d) (clickhouseDestinationStore s) else clickhouseDestinationStore s),
       resourcesStore := raw_resources (im_doc d) (resourcesStore s)\<rparr>"

definition hydrate_document :: "HydrationEnv \<Rightarrow> ImportedDocument \<Rightarrow> RootStore \<Rightarrow> RootStore \<times> bool" where
  "hydrate_document env d s =
     (let t = text_value (or_nullish (jget ''type'' (first_source (im_doc d)))
            (or_nullish (jget ''type'' (jget ''source'' (im_doc d))) (JStr [])))
      in if isOtlpSource t then (raw_common env d (hydrateOtlpSource env (raw_otlp (im_doc d)) s), True)
         else case hydrateKafkaConnection (im_doc d) (he_now env) (kafkaStore s) of
                Some k \<Rightarrow> (raw_common env d (raw_kafka_topics env (im_doc d) (s\<lparr>kafkaStore := k\<rparr>)), True)
              | None \<Rightarrow> (s, False))"

interpretation raw_topics: topic_hydration "\<lambda>t. config_offset (raw_topic t)" "\<lambda>t. text_value (jget ''name'' t)"
    raw_topic_state raw_deduplication put_raw_topic put_raw_sample
  by unfold_locales (simp_all add: put_raw_topic_def put_raw_sample_def raw_topic_state_def Let_def mapBackendTopicToStore_def
      split: json.split)

section \<open>Marking the slices\<close>

definition has_length :: "json \<Rightarrow> bool" where
  "has_length v \<longleftrightarrow> filled_array v \<or> filled_text v"

definition mark_source :: "time \<Rightarrow> json \<Rightarrow> RootStore \<Rightarrow> RootStore" where
  "mark_source now config s =
     (let new = filled_array (jget ''sources'' config); source = jget ''source'' config;
          params = jget ''connection_params'' (if new then first_source config else source);
          ts = (if new then jget ''sources'' config else jget ''topics'' source);
          s1 = (if has_length (jget ''brokers'' params) then s\<lparr>kafkaStore := kafka_markAsValid now (kafkaStore s)\<rparr> else s)
      in if isOtlpSource (source_type_of config) then s\<lparr>otlpStore := otlp_markAsValid now (otlpStore s)\<rparr>
         else if has_length ts then s1\<lparr>topicsStore := topics_markAsValid now (topicsStore s1)\<rparr> else s1)"

definition imported_topic_count :: "json \<Rightarrow> nat" where
  "imported_topic_count config =
     (if isOtlpSource (source_type_of config) then 1
      else length (jelements (if filled_array (jget ''sources'' config) then jget ''sources'' config
        else jget ''topics'' (jget ''source'' config))))"

definition markStoresValidAfterImport :: "time \<Rightarrow> json \<Rightarrow> RootStore \<Rightarrow> RootStore" where
  "markStoresValidAfterImport now config s =
     (let filt = jget ''filter'' config; join = jget ''join'' config; sink = jget ''sink'' config;
          params = jget ''connection_params'' sink; set = (\<lambda>k. jtruthy (or_falsy (jget k sink) (jget k params)));
          s1 = mark_source now config s;
          s2 = s1\<lparr>deduplicationStore := dedup_markAsValid now (deduplicationStore s1),
                 filterStore := (if \<not> jtruthy (jget ''enabled'' filt) \<or> jtruthy (jget ''expression'' filt)
                   then filter_markAsValid now (filterStore s1) else filterStore s1),
                 transformationStore := tr_markAsValid now (transformationStore s1)\<rparr>;
          s3 = (if imported_topic_count config < 2 \<or> jtruthy (jget ''enabled'' join) \<and> has_length (jget ''sources'' join)
                then s2\<lparr>joinStore := join_markAsValid now (joinStore s2)\<rparr> else s2);
          s4 = (if set ''host'' \<and> set ''database''
                then s3\<lparr>clickhouseConnectionStore := cc_markAsValid now (clickhouseConnectionStore s3)\<rparr> else s3)
      in if jtruthy (jget ''table'' sink)
         then s4\<lparr>clickhouseDestinationStore := cd_markAsValid now (clickhouseDestinationStore s4)\<rparr> else s4)"

text \<open>The steps that count as completed: those before the first that is not valid.\<close>

definition computeInitialCompletedSteps :: "StepInstance list \<Rightarrow> (StepKeys \<Rightarrow> ValidationStatus) \<Rightarrow> string list" where
  "computeInitialCompletedSteps jny st = map si_id (takeWhile (\<lambda>i. st (si_key i) = Valid) jny)"

section \<open>The import\<close>

text \<open>The id for a name, when no other ids are given: spaces and other characters are replaced, nothing else.\<close>

definition generatePipelineId :: "string \<Rightarrow> string" where
  "generatePipelineId name =
     collapse (\<lambda>c. c = CHR ''-'') (CHR ''-'') (collapse is_ws (CHR ''-'')
       (filter (\<lambda>c. is_alnum c \<or> is_ws c \<or> c = CHR ''-'') (trim (toLowerCase name))))"

definition handleUploadModalComplete :: "HydrationEnv \<Rightarrow> ImportedDocument \<Rightarrow> RootStore \<Rightarrow> RootStore \<times> bool" where
  "handleUploadModalComplete env d s =
     (let config = im_doc d;
          n = (case jelements (jget ''sources'' config) of
                 [] \<Rightarrow> (case jelements (jget ''topics'' (jget ''source'' config)) of [] \<Rightarrow> 1 | ts \<Rightarrow> length ts)
               | srcs \<Rightarrow> length srcs);
          s1 = resetForNewPipeline (he_newId env) n s;
          name = or_text (text_value (jget ''name'' config)) ''Imported Pipeline'';
          version = (case jget ''version'' config of JStr v \<Rightarrow> Some v | _ \<Rightarrow> None);
          c = setPipelineId (generatePipelineId name) (setPipelineName name (coreStore s1));
          s2 = s1\<lparr>coreStore := c\<lparr>pipelineName := text_value (jget ''name'' config), pipelineVersion := version, isDirty := False\<rparr>\<rparr>
      in case hydrate_document env d s2 of
           (s3, True) \<Rightarrow> (markStoresValidAfterImport (he_now env) config s3, True)
         | (s3, False) \<Rightarrow> (s3, False))"

end
