(* ===== verification/Import_Export.thy ===== *)
theory Import_Export
  imports Pipeline_Import
begin

text \<open>
  Downloading a pipeline (ui/src/utils/pipeline-download.ts) and importing the file: which documents the
  import accepts, and what of the pipeline is in the stores afterwards.
\<close>

section \<open>Downloading\<close>

definition downloadedConfig :: "string \<Rightarrow> InternalPipelineConfig \<Rightarrow> json" where
  "downloadedConfig at cfg =
     JObj (own_properties (without_property ''status'' (generate cfg)) @
       [(''exported_at'', JStr at), (''exported_by'', JStr ''GlassFlow UI'')])"

text \<open>\<open>name.replace(/[^a-zA-Z0-9-_]/g, '_')\<close>, and the name of the file on a day.\<close>

definition file_char :: "char \<Rightarrow> char" where
  "file_char c = (if is_lower (lower_char c) \<and> (of_char c :: nat) < 128 \<or> is_digit c \<or> c = CHR ''-'' \<or> c = CHR ''_'' then c else CHR ''_'')"

definition download_filename :: "string \<Rightarrow> string \<Rightarrow> json \<Rightarrow> string" where
  "download_filename day ext name =
     map file_char (text_value (or_falsy name (JStr ''pipeline''))) @ ''_config_'' @ day @ ''.'' @ ext"

text \<open>The download of a pipeline the backend gave, at a time whose text starts with the day.\<close>

definition downloadPipelineConfig :: "string \<Rightarrow> ConfigFormat \<Rightarrow> string option \<Rightarrow> json \<Rightarrow> json \<times> string" where
  "downloadPipelineConfig at format filename raw =
     (downloadedConfig at (hydrate raw),
      case filename of
        Some f \<Rightarrow> if f \<noteq> [] then f
          else download_filename (hd (split_on (CHR ''T'') at)) (if format = JsonFormat then ''json'' else ''yaml'') (jget ''name'' raw)
      | None \<Rightarrow> download_filename (hd (split_on (CHR ''T'') at)) (if format = JsonFormat then ''json'' else ''yaml'') (jget ''name'' raw))"

lemma downloaded_properties [simp]:
  "jget ''sources'' (downloadedConfig at cfg) = JArr (generated_sources (ic_source cfg))"
  "jget ''join'' (downloadedConfig at cfg) =
     (if jn_enabled (ic_join cfg) then generated_join (ic_join cfg) (sk_mapping (ic_sink cfg)) else JUndef)"
  "jget ''transforms'' (downloadedConfig at cfg) =
     (if generated_transforms cfg = [] then JUndef else JArr (generated_transforms cfg))"
  "jget ''sink'' (downloadedConfig at cfg) = generated_sink (ic_sink cfg)"
  "jget ''name'' (downloadedConfig at cfg) = ic_name cfg"
  "jget ''filter'' (downloadedConfig at cfg) = JUndef"
  "jget ''stateless_transformation'' (downloadedConfig at cfg) = JUndef"
  "jget ''source'' (downloadedConfig at cfg) = JUndef"
  "jget ''pipeline_resources'' (downloadedConfig at cfg) = JUndef"
  "jget ''schema'' (downloadedConfig at cfg) = JUndef"
  "jget ''fields_policy'' (downloadedConfig at cfg) = JUndef"
  by (simp_all add: downloadedConfig_def without_property_def generate_def map_add_def if_truthy_def)

lemma not_otlp: "text_value (JStr ''kafka'') = ''kafka''" "\<not> isOtlpSource ''kafka''" "\<not> isOtlpSource []"
  by (simp_all add: isOtlpSource_def)

lemma downloaded_sources:
  assumes "\<not> source_is_otlp (ic_source cfg)"
  shows "generated_sources (ic_source cfg) = map (generated_source (ic_source cfg)) (so_topics (ic_source cfg))"
  using assms by (simp add: generated_sources_def)

lemma downloaded_source_type:
  assumes "\<not> source_is_otlp (ic_source cfg)"
  shows "\<not> isOtlpSource (source_type_of (downloadedConfig at cfg))"
  using assms by (cases "so_topics (ic_source cfg)")
    (simp_all add: source_type_of_def filled_array_def first_source_def downloaded_sources generated_source_def not_otlp)

section \<open>Which downloads are accepted\<close>

lemma entry_errors_none: "entry_errors m k es = [] \<longleftrightarrow> list_all (\<lambda>e. filled_text (jget k e)) es"
proof -
  have "concat (map (\<lambda>(n, e). if filled_text (jget k e) then [] else [m n]) (enumerate i es)) = [] \<longleftrightarrow>
      list_all (\<lambda>e. filled_text (jget k e)) es" for i
    by (induction es arbitrary: i) (simp_all del: concat_eq_Nil_conv)
  from this [of 0] show ?thesis unfolding entry_errors_def .
qed

lemma filled_name: "filled_text v \<longleftrightarrow> text_value v \<noteq> []"
  by (cases v) (simp_all add: filled_text_def)

lemma filled_host: "filled_text (or_nullish v (JStr [])) \<longleftrightarrow> filled_text v"
  by (cases v) (simp_all add: filled_text_def or_nullish_def nullish_def)

lemma downloaded_sink_errors:
  "sink_errors (generated_sink sk) = [] \<longleftrightarrow>
     filled_text (sk_host sk) \<and> filled_text (or_nullish (sk_database sk) (JStr ''default'')) \<and> filled_text (sk_table sk)"
proof -
  have "is_object (generated_sink sk)" by (simp add: generated_sink_def is_object_def)
  moreover have "jget ''host'' (generated_sink sk) = JUndef" "jget ''database'' (generated_sink sk) = JUndef"
    "jget ''table'' (generated_sink sk) = sk_table sk"
    "jget ''host'' (jget ''connection_params'' (generated_sink sk)) = or_nullish (sk_host sk) (JStr [])"
    "jget ''database'' (jget ''connection_params'' (generated_sink sk)) = or_nullish (sk_database sk) (JStr ''default'')"
    by (simp_all add: generated_sink_def if_truthy_def map_add_def)
  ultimately show ?thesis
    unfolding sink_errors_def Let_def by (simp add: filled_host or_nullish_def [of JUndef] nullish_def [of JUndef])
qed

text \<open>
  The file of a downloaded Kafka pipeline is accepted by the import if and only if the pipeline has
  a name, one or two topics with names, brokers, and a sink with host, database and table.
\<close>

theorem downloaded_accepted:
  assumes "\<not> source_is_otlp (ic_source cfg)" and "ts = so_topics (ic_source cfg)"
  shows "iv_valid (validatePipelineConfig (downloadedConfig at cfg)) \<longleftrightarrow>
    filled_text (ic_name cfg) \<and> 1 \<le> length ts \<and> length ts \<le> 2 \<and> list_all (\<lambda>t. filled_text (it_name t)) ts \<and>
    filled_array (jget ''brokers'' (so_connection (ic_source cfg))) \<and>
    filled_text (sk_host (ic_sink cfg)) \<and> filled_text (or_nullish (sk_database (ic_sink cfg)) (JStr ''default'')) \<and>
    filled_text (sk_table (ic_sink cfg))"
proof (cases ts)
  case Nil
  have "\<not> filled_array (JArr (generated_sources (ic_source cfg)))"
    using assms Nil by (simp add: filled_array_def downloaded_sources)
  then show ?thesis
    using Nil by (simp add: validatePipelineConfig_def is_object_def downloadedConfig_def [symmetric] Let_def invalid_import_def)
next
  case (Cons t rest)
  have "is_object (downloadedConfig at cfg)" by (simp add: is_object_def downloadedConfig_def)
  moreover have "filled_array (JArr (generated_sources (ic_source cfg)))"
    using Cons [unfolded assms(2)] assms(1) by (simp add: filled_array_def downloaded_sources)
  moreover have "fst (new_source_errors (downloadedConfig at cfg)) = [] \<longleftrightarrow>
      length ts \<le> 2 \<and> list_all (\<lambda>t. filled_text (it_name t)) ts \<and> filled_array (jget ''brokers'' (so_connection (ic_source cfg)))"
    using assms(1) Cons [unfolded assms(2)] unfolding assms(2) by (auto simp: new_source_errors_def Let_def downloaded_sources count_error_def entry_errors_none list_all_iff
        generated_source_def first_source_def)
  moreover have "snd (new_source_errors (downloadedConfig at cfg)) = length ts"
    using assms by (simp add: new_source_errors_def Let_def downloaded_sources)
  ultimately show ?thesis
    using downloaded_source_type [OF assms(1), of at] Cons
    unfolding validatePipelineConfig_def Let_def
    by (auto simp: filled_name downloaded_sink_errors [unfolded filled_name] split: prod.split)
qed

section \<open>What an imported download has lost\<close>

definition imported :: "HydrationEnv \<Rightarrow> string \<Rightarrow> InternalPipelineConfig \<Rightarrow> RootStore \<Rightarrow> RootStore \<times> bool" where
  "imported env at cfg s = handleUploadModalComplete env \<lparr>im_doc = downloadedConfig at cfg, im_transformation = None\<rparr> s"

lemma reset_start:
  "filterStore (resetForNewPipeline i n s) = initialFilterStore i" "joinStore (resetForNewPipeline i n s) = initialJoinStore"
  "transformationStore (resetForNewPipeline i n s) = initialTransformationStore"
  "resourcesStore (resetForNewPipeline i n s) = initialResourcesStore"
  "deduplicationStore (resetForNewPipeline i n s) = initialDeduplicationStore"
  by (simp_all add: resetForNewPipeline_def resetAllPipelineState_def Let_def resetSlices_eq set_topics_count_def setTopicCount_def
      updateOperation_def initialStore_def)

lemma raw_topics_frame [simp]: "joinStore (raw_kafka_topics env config s) = joinStore s"
  by (simp add: raw_kafka_topics_def hydrate_topics_with_def Let_def setTopicCount_def updateOperation_def put_raw_topic_def put_raw_sample_def
      fold_frame [where f = joinStore] split: option.split prod.split)

lemma imported_steps:
  assumes "\<not> source_is_otlp (ic_source cfg)"
  obtains (hydrated) s0 where "imported env at cfg s =
      (markStoresValidAfterImport (he_now env) (downloadedConfig at cfg)
        (raw_common env \<lparr>im_doc = downloadedConfig at cfg, im_transformation = None\<rparr>
          (raw_kafka_topics env (downloadedConfig at cfg) s0)), True)"
      "joinStore s0 = initialJoinStore" "deduplicationStore s0 = initialDeduplicationStore"
  | (failed) s0 where "imported env at cfg s = (s0, False)" "joinStore s0 = initialJoinStore"
      "filterStore s0 = initialFilterStore (he_newId env)" "transformationStore s0 = initialTransformationStore"
      "resourcesStore s0 = initialResourcesStore"
proof -
  let ?d = "\<lparr>im_doc = downloadedConfig at cfg, im_transformation = None\<rparr>"
  obtain n c where start: "imported env at cfg s =
      (case hydrate_document env ?d ((resetForNewPipeline (he_newId env) n s)\<lparr>coreStore := c\<rparr>) of
         (s3, True) \<Rightarrow> (markStoresValidAfterImport (he_now env) (downloadedConfig at cfg) s3, True) | (s3, False) \<Rightarrow> (s3, False))"
    unfolding imported_def handleUploadModalComplete_def Let_def by simp
  define s0 where "s0 = (resetForNewPipeline (he_newId env) n s)\<lparr>coreStore := c\<rparr>"
  have f: "joinStore s0 = initialJoinStore" "filterStore s0 = initialFilterStore (he_newId env)"
    "transformationStore s0 = initialTransformationStore" "resourcesStore s0 = initialResourcesStore"
    "deduplicationStore s0 = initialDeduplicationStore" by (simp_all add: s0_def reset_start)
  have t: "\<not> isOtlpSource (text_value (or_nullish (jget ''type'' (first_source (downloadedConfig at cfg)))
      (or_nullish (jget ''type'' (jget ''source'' (downloadedConfig at cfg))) (JStr []))))"
    using assms by (cases "so_topics (ic_source cfg)")
      (simp_all add: first_source_def downloaded_sources generated_source_def or_nullish_def nullish_def not_otlp)
  show thesis
  proof (cases "hydrateKafkaConnection (downloadedConfig at cfg) (he_now env) (kafkaStore s0)")
    case None
    then have "imported env at cfg s = (s0, False)"
      using t unfolding start s0_def [symmetric] by (simp add: hydrate_document_def)
    then show thesis using failed f by blast
  next
    case (Some k)
    then have "imported env at cfg s = (markStoresValidAfterImport (he_now env) (downloadedConfig at cfg)
        (raw_common env ?d (raw_kafka_topics env (downloadedConfig at cfg) (s0\<lparr>kafkaStore := k\<rparr>))), True)"
      using t unfolding start s0_def [symmetric] by (simp add: hydrate_document_def)
    then show thesis using hydrated [of "s0\<lparr>kafkaStore := k\<rparr>"] f by simp
  qed
qed

text \<open>Marking changes no data.\<close>

lemma marked [simp]:
  "filterConfig (filterStore (markStoresValidAfterImport now config s)) = filterConfig (filterStore s)"
  "expressionString (filterStore (markStoresValidAfterImport now config s)) = expressionString (filterStore s)"
  "transformationConfig (transformationStore (markStoresValidAfterImport now config s)) = transformationConfig (transformationStore s)"
  "streams (joinStore (markStoresValidAfterImport now config s)) = streams (joinStore s)"
  "join_enabled (joinStore (markStoresValidAfterImport now config s)) = join_enabled (joinStore s)"
  "resourcesStore (markStoresValidAfterImport now config s) = resourcesStore s"
  "getTopic j (topicsStore (markStoresValidAfterImport now config s)) = getTopic j (topicsStore s)"
  "getDeduplication j (deduplicationStore (markStoresValidAfterImport now config s)) = getDeduplication j (deduplicationStore s)"
  by (simp_all add: markStoresValidAfterImport_def mark_source_def Let_def filter_markAsValid_def tr_markAsValid_def join_markAsValid_def
      topics_markAsValid_def dedup_markAsValid_def getTopic_def getDeduplication_def)

lemma marked_valid:
  "jget ''filter'' config = JUndef \<Longrightarrow>
     validation (filterStore (markStoresValidAfterImport now config s)) = createValidValidation now"
  "tr_validation (transformationStore (markStoresValidAfterImport now config s)) = createValidValidation now"
  by (simp_all add: markStoresValidAfterImport_def Let_def filter_markAsValid_def tr_markAsValid_def)

lemma join_sources_absent: "jget ''sources'' (generated_join j rows) = JUndef"
  by (simp add: generated_join_def generated_side_def map_add_def if_truthy_def split: option.split)

lemma imported_join:
  "raw_join now (downloadedConfig at cfg) initialJoinStore =
     (if jn_enabled (ic_join cfg)
      then setStreams now [] (setType (or_text (text_value (or_nullish (jn_type (ic_join cfg)) (JStr ''temporal''))) ''temporal'')
        (setEnabled True initialJoinStore))
      else initialJoinStore)"
proof -
  have "jtruthy (generated_join j rows)" "jget ''enabled'' (generated_join j rows) = JBool True"
    "jget ''type'' (generated_join j rows) = or_nullish (jn_type j) (JStr ''temporal'')" for j rows
    by (simp_all add: generated_join_def)
  then show ?thesis by (simp add: raw_join_def join_sources_absent hydrateJoinConfiguration_def Let_def)
qed

lemma imported_topics:
  assumes "\<not> source_is_otlp (ic_source cfg)" and "j < length (so_topics (ic_source cfg))"
  shows "map_option (\<lambda>t. (topic_name t, initialOffset t, schemaSource t))
      (getTopic j (topicsStore (raw_kafka_topics env (downloadedConfig at cfg) s))) =
    Some (text_value (it_name (so_topics (ic_source cfg) ! j)), Latest, Some SchemaSource.Internal)"
proof -
  let ?ts = "map (\<lambda>t. topic_of_source (downloadedConfig at cfg) (generated_source (ic_source cfg) t)) (so_topics (ic_source cfg))"
  have ts: "raw_topics (downloadedConfig at cfg) = Some ?ts"
    using assms(1) by (simp add: raw_topics_def downloaded_sources comp_def)
  have p: "topic_name (raw_topic_state (topic_of_source d (generated_source src t)) i) = text_value (it_name t)"
    "initialOffset (raw_topic_state (topic_of_source d (generated_source src t)) i) = Latest"
    "schemaSource (raw_topic_state (topic_of_source d (generated_source src t)) i) = Some SchemaSource.Internal" for d src t i
    by (simp_all add: raw_topic_state_def mapBackendTopicToStore_def raw_topic_def topic_of_source_def generated_source_def Let_def
        config_offset_def or_text_def split: json.split)
  have "map_option topic_parts (getTopic j (topicsStore (raw_kafka_topics env (downloadedConfig at cfg) s))) =
      Some (topic_parts (raw_topic_state (?ts ! j) j))"
    using raw_topics.hydrated(1) [of _ env ?ts s j, OF refl] assms(2) by (simp add: raw_kafka_topics_def ts)
  then show ?thesis using assms(2) by (auto simp: topic_parts_def p)
qed

text \<open>
  C39. A Kafka pipeline that is downloaded and imported has no filter, no transformation, no join streams
  and no resources, whatever it had; the filter and the transformation are marked valid. Its topics keep
  their names, but start at the latest event and have no schema registry.
\<close>

theorem imported_download_loses:
  assumes "\<not> source_is_otlp (ic_source cfg)" and "(s', ok) = imported env at cfg s"
  shows "expressionString (filterStore s') = [] \<and> \<not> cfg_enabled (filterConfig (filterStore s')) \<and>
    tc_fields (transformationConfig (transformationStore s')) = [] \<and> streams (joinStore s') = [] \<and>
    pipeline_resources (resourcesStore s') = None \<and>
    (if ok then validation (filterStore s') = createValidValidation (he_now env) \<and>
       tr_validation (transformationStore s') = createValidValidation (he_now env) \<and>
       map (\<lambda>j. map_option (\<lambda>t. (topic_name t, initialOffset t, schemaSource t)) (getTopic j (topicsStore s')))
         [0..<length (so_topics (ic_source cfg))] =
       map (\<lambda>t. Some (text_value (it_name t), Latest, Some SchemaSource.Internal)) (so_topics (ic_source cfg))
     else True)"
  using assms(1)
proof (cases rule: imported_steps [of cfg env at s])
  case (hydrated s0)
  let ?s1 = "raw_kafka_topics env (downloadedConfig at cfg) s0"
  let ?s2 = "raw_common env \<lparr>im_doc = downloadedConfig at cfg, im_transformation = None\<rparr> ?s1"
  have e: "s' = markStoresValidAfterImport (he_now env) (downloadedConfig at cfg) ?s2" "ok = True"
    using assms(2) hydrated(1) by simp_all
  have "filterStore ?s2 = resetFilterStore (he_newId env) (filterStore ?s1)"
    "transformationStore ?s2 = resetTransformationStore (transformationStore ?s1)"
    "topicsStore ?s2 = topicsStore ?s1"
    "joinStore ?s2 = raw_join (he_now env) (downloadedConfig at cfg) initialJoinStore"
    "pipeline_resources (resourcesStore ?s2) = None"
    by (simp_all add: raw_common_def raw_filter_def hydrateFilter_def raw_transformation_def hydrateTransformation_def hydrated(2)
        raw_resources_def hydrateResources_def Let_def or_nullish_def nullish_def)
  note parts = this
  have "streams (joinStore ?s2) = []"
    unfolding parts imported_join by (simp add: setStreams_def setType_def setEnabled_def initialJoinStore_def)
  moreover have "map (\<lambda>j. map_option (\<lambda>t. (topic_name t, initialOffset t, schemaSource t)) (getTopic j (topicsStore ?s2)))
         [0..<length (so_topics (ic_source cfg))] =
       map (\<lambda>t. Some (text_value (it_name t), Latest, Some SchemaSource.Internal)) (so_topics (ic_source cfg))"
    unfolding parts by (rule nth_equalityI) (simp_all add: imported_topics [OF assms(1)])
  ultimately show ?thesis
    unfolding e marked marked_valid(1) [OF downloaded_properties(6)] marked_valid(2)
    by (simp only: parts(1,2,5)) (simp add: resetFilterStore_def resetTransformationStore_def)
next
  case (failed s0)
  then show ?thesis
    using assms(2) by (simp add: initialFilterStore_def initialTransformationStore_def initialResourcesStore_def initialJoinStore_def
      initialFilterConfig_def initialTransformationConfig_def)
qed

section \<open>Examples\<close>

lemma example_not_otlp: "\<not> source_is_otlp (ic_source (example_pipeline ts j rows))"
  by (simp add: example_pipeline_def example_source_def source_is_otlp_def)

lemma downloaded_accepted_witness:
  "iv_valid (validatePipelineConfig (downloadedConfig ''now'' (example_pipeline [example_topic ''orders'' ''id''] no_join []))) \<and>
   \<not> iv_valid (validatePipelineConfig (downloadedConfig ''now'' (example_pipeline [] no_join [])))"
  by (simp add: downloaded_accepted [OF example_not_otlp refl])
    (simp add: example_pipeline_def example_source_def example_topic_def empty_sink_def filled_text_def filled_array_def or_nullish_def
      nullish_def)

lemma imported_download_loses_witness:
  "map_option if_expression (ic_filter (example_pipeline [example_topic ''orders'' ''id''] no_join [])) = Some (JStr ''!(id == 1)'') \<and>
   expressionString (filterStore (fst (imported offline ''now'' (example_pipeline [example_topic ''orders'' ''id''] no_join [])
     (initialStore ''new'')))) = []"
  using imported_download_loses [OF example_not_otlp prod.collapse, of offline "''now''" "[example_topic ''orders'' ''id'']" no_join "[]"
      "initialStore ''new''", THEN conjunct1]
  by (simp add: example_pipeline_def)

end
