(* ===== verification/Syntax_Tree.thy ===== *)
theory Syntax_Tree
  imports Expr_Roundtrip Column_Types
begin

text \<open>
  From the concrete syntax tree of an expression to the abstract one: the first half of
  ui/src/modules/filter/parser/exprParser.ts and the same for arithmetic expressions in arithmeticParser.ts.
  The tree is what the Lezer parser makes; the parser is an argument. The code walks the tree with a cursor that
  every call puts back where it was, so a call is a function of the node it starts at.
\<close>

section \<open>Trees\<close>

datatype SyntaxNode = SyntaxNode (node_name: string) (node_text: string) (node_children: "SyntaxNode list")

text \<open>A visited node: its name, text and result, and the names and results of its children.\<close>

record 'a Visited =
  v_name :: string
  v_text :: string
  v_result :: "'a option"
  v_children :: "(string \<times> 'a option) list"

fun visit :: "(string \<Rightarrow> string \<Rightarrow> 'a Visited list \<Rightarrow> 'a option) \<Rightarrow> SyntaxNode \<Rightarrow> 'a Visited" where
  "visit f (SyntaxNode n t cs) =
     (let vs = map (visit f) cs
      in \<lparr>v_name = n, v_text = t, v_result = f n t vs, v_children = map (\<lambda>v. (v_name v, v_result v)) vs\<rparr>)"

text \<open>\<open>nextSibling\<close> stays at the last child.\<close>

definition next_or :: "'a \<Rightarrow> 'a list \<Rightarrow> 'a" where
  "next_or v vs = (case vs of [] \<Rightarrow> v | w # _ \<Rightarrow> w)"

definition callee_names :: "string list" where
  "callee_names = [''VarName'', ''FieldName'', ''SelectorExpr'']"

definition some_results :: "string list \<Rightarrow> (string \<times> 'a option) list \<Rightarrow> 'a list" where
  "some_results skipped rs = concat (map (\<lambda>(n, r). if n \<in> set skipped then [] else case r of Some a \<Rightarrow> [a] | None \<Rightarrow> []) rs)"

text \<open>The arguments after the callee: those of an argument list, which ends the search, or direct ones.\<close>

fun call_arguments :: "'a Visited list \<Rightarrow> 'a list" where
  "call_arguments [] = []"
| "call_arguments (v # vs) =
     (if v_name v = ''Arguments'' then some_results [''('', '')'', '',''] (v_children v)
      else some_results [''('', '')'', '',''] [(v_name v, v_result v)] @ call_arguments vs)"

definition inner_result :: "'a Visited list \<Rightarrow> 'a option" where
  "inner_result vs = (case vs of [] \<Rightarrow> None | v # rest \<Rightarrow> v_result (if v_name v = ''('' then next_or v rest else v))"

section \<open>Strings\<close>

text \<open>\<open>s.replace(/\\(.)/g, '$1')\<close>\<close>

fun unescape :: "string \<Rightarrow> string" where
  "unescape (c # d # cs) = (if c = backslash \<and> \<not> line_terminator d then d # unescape cs else c # unescape (d # cs))"
| "unescape cs = cs"

definition string_content :: "string \<Rightarrow> string" where
  "string_content t = unescape (butlast (tl t))"

section \<open>Expressions\<close>

text \<open>The operator after the left operand, and the node the right one is read from.\<close>

fun expression_operator :: "'a Visited list \<Rightarrow> (string \<times> 'a Visited) option" where
  "expression_operator [] = None"
| "expression_operator (v # vs) =
     (if v_name v \<in> {''CompareOp'', ''LogicOp'', ''ArithmeticOp''} then Some (trim (v_text v), next_or v vs)
      else if v_name v = ''in'' then Some (''in'', next_or v vs)
      else if v_name v = ''not''
      then (case vs of
              [] \<Rightarrow> Some (''not'', v)
            | w # ws \<Rightarrow> Some (if v_name w = ''in'' then ''not in'' else ''not'', next_or w ws))
      else expression_operator vs)"

definition binary_result :: "(string \<Rightarrow> 'a \<Rightarrow> 'a \<Rightarrow> 'a) \<Rightarrow> ('a Visited list \<Rightarrow> (string \<times> 'a Visited) option) \<Rightarrow> 'a Visited list \<Rightarrow> 'a option" where
  "binary_result mk search vs =
     (case vs of
        [] \<Rightarrow> None
      | l # rest \<Rightarrow>
          (case (v_result l, search rest) of
             (Some a, Some (oper, r)) \<Rightarrow> if oper = [] then None else map_option (mk oper a) (v_result r)
           | _ \<Rightarrow> None))"

definition unary_parts :: "'a Visited list \<Rightarrow> (string \<times> 'a Visited) option" where
  "unary_parts vs =
     (case vs of
        [] \<Rightarrow> None
      | v # rest \<Rightarrow>
          if v_name v \<in> {''LogicOp'', ''ArithmeticOp''} then Some (trim (v_text v), next_or v rest)
          else if v_name v \<in> {''!'', ''not''} then Some (v_name v, next_or v rest) else None)"

definition unary_result :: "(string \<Rightarrow> 'a \<Rightarrow> 'a) \<Rightarrow> (string \<times> 'a Visited) option \<Rightarrow> 'a option" where
  "unary_result mk parts =
     (case parts of Some (oper, v) \<Rightarrow> if oper = [] then None else map_option (mk oper) (v_result v) | None \<Rightarrow> None)"

definition call_result :: "(string \<Rightarrow> 'a list \<Rightarrow> 'a) \<Rightarrow> 'a Visited list \<Rightarrow> 'a option" where
  "call_result mk vs =
     (case vs of
        [] \<Rightarrow> None
      | v # rest \<Rightarrow>
          if v_name v \<in> set callee_names \<and> v_text v \<noteq> [] then Some (mk (v_text v) (call_arguments rest)) else None)"

definition node_result :: "string \<Rightarrow> string \<Rightarrow> ASTNode Visited list \<Rightarrow> ASTNode option" where
  "node_result n t vs =
     (if n = ''Expr'' then inner_result vs
      else if n = ''ParenthesizedExpr'' then map_option Parenthesized (inner_result vs)
      else if n = ''BinaryExpr'' then binary_result BinaryExpr expression_operator vs
      else if n = ''UnaryExpr'' then unary_result UnaryExpr (unary_parts vs)
      else if n \<in> set callee_names then Some (Identifier t)
      else if n = ''Integer'' then Some (Literal (NumberLit (parse_int t)))
      else if n = ''Float'' then Some (Literal (NumberLit (parse_float t)))
      else if n = ''String'' then Some (Literal (StringLit (string_content t)))
      else if n = ''Bool'' then Some (Literal (BooleanLit (t = ''true'')))
      else if n = ''Nil'' then Some (Literal NilLit)
      else if n = ''Array''
      then Some (ArrayLiteral (some_results [''['', '']'', '',''] (map (\<lambda>v. (v_name v, v_result v)) vs)))
      else if n = ''CallExpr'' then call_result FunctionCall vs
      else case vs of [] \<Rightarrow> None | v # _ \<Rightarrow> v_result v)"

definition parseNode :: "SyntaxNode \<Rightarrow> ASTNode option" where
  "parseNode c = v_result (visit node_result c)"

text \<open>The parser gives the root of the tree; its first child is the expression.\<close>

definition parseExprToFilterTree :: "(nat \<Rightarrow> string) \<Rightarrow> (string \<Rightarrow> SyntaxNode) \<Rightarrow> string \<Rightarrow> ParseResult" where
  "parseExprToFilterTree uu parse e =
     (if trim e = [] then parse_failure ''Empty expression''
      else case node_children (parse e) of
             [] \<Rightarrow> parse_failure ''Failed to parse expression: empty parse tree''
           | c # _ \<Rightarrow> ast_to_result uu (parseNode c))"

definition canParseExpression :: "(nat \<Rightarrow> string) \<Rightarrow> (string \<Rightarrow> SyntaxNode) \<Rightarrow> string \<Rightarrow> bool" where
  "canParseExpression uu parse e = fully_supported (parseExprToFilterTree uu parse e)"

section \<open>Arithmetic expressions\<close>

datatype ArithmeticASTNode =
    ArithBinary string ArithmeticASTNode ArithmeticASTNode
  | ArithUnary string ArithmeticASTNode
  | ArithIdentifier string
  | ArithLiteral js_number
  | ArithParenthesized ArithmeticASTNode
  | ArithCall string "ArithmeticASTNode list"

fun arithmetic_operator :: "'a Visited list \<Rightarrow> (string \<times> 'a Visited) option" where
  "arithmetic_operator [] = None"
| "arithmetic_operator (v # vs) =
     (if v_name v = ''ArithmeticOp'' then Some (trim (v_text v), next_or v vs)
      else if v_name v \<in> {''+'', ''-'', ''*'', ''/'', ''%''} then Some (v_name v, next_or v vs)
      else arithmetic_operator vs)"

definition arithmetic_unary_parts :: "'a Visited list \<Rightarrow> (string \<times> 'a Visited) option" where
  "arithmetic_unary_parts vs =
     (case vs of
        v # rest \<Rightarrow> if v_name v \<in> {''ArithmeticOp'', ''-''} then Some (trim (v_text v), next_or v rest) else None
      | [] \<Rightarrow> None)"

definition arithmetic_node_result :: "string \<Rightarrow> string \<Rightarrow> ArithmeticASTNode Visited list \<Rightarrow> ArithmeticASTNode option" where
  "arithmetic_node_result n t vs =
     (if n = ''Expr'' then inner_result vs
      else if n = ''ParenthesizedExpr'' then map_option ArithParenthesized (inner_result vs)
      else if n = ''BinaryExpr'' then binary_result ArithBinary arithmetic_operator vs
      else if n = ''UnaryExpr'' then unary_result ArithUnary (arithmetic_unary_parts vs)
      else if n \<in> set callee_names then Some (ArithIdentifier t)
      else if n = ''Integer'' then Some (ArithLiteral (parse_int t))
      else if n = ''Float'' then Some (ArithLiteral (parse_float t))
      else if n = ''CallExpr'' then call_result ArithCall vs
      else case vs of [] \<Rightarrow> None | v # _ \<Rightarrow> v_result v)"

definition parseArithmeticNode :: "SyntaxNode \<Rightarrow> ArithmeticASTNode option" where
  "parseArithmeticNode c = v_result (visit arithmetic_node_result c)"

definition invalid_operator :: "string \<Rightarrow> string" where
  "invalid_operator oper = ''Invalid operator: \"'' @ oper @ ''\". Only arithmetic operators (+, -, *, /, %) are allowed.''"

text \<open>The number counts the ids that have been drawn. A node as an argument of a function is an error.\<close>

fun transformToOperand :: "(nat \<Rightarrow> string) \<Rightarrow> string list \<Rightarrow> ArithmeticASTNode \<Rightarrow> nat \<Rightarrow> (string + OperandOrNode) \<times> nat"
  and transformArguments :: "(nat \<Rightarrow> string) \<Rightarrow> string list \<Rightarrow> ArithmeticASTNode list \<Rightarrow> nat \<Rightarrow> (string + ArithmeticOperand list) \<times> nat" where
  "transformToOperand uu available (ArithIdentifier f) k =
     (if available \<noteq> [] \<and> f \<notin> set available then (Inl (''Unknown field: \"'' @ f @ ''\"''), k)
      else (Inr (Operand (FieldOperand f ''float64'')), k))"
| "transformToOperand uu available (ArithLiteral v) k = (Inr (Operand (LiteralOperand v)), k)"
| "transformToOperand uu available (ArithParenthesized a) k = transformToOperand uu available a k"
| "transformToOperand uu available (ArithUnary oper a) k =
     (case a of
        ArithLiteral v \<Rightarrow> if oper = ''-'' then (Inr (Operand (LiteralOperand (js_uminus v))), k) else transformToOperand uu available a k
      | _ \<Rightarrow> transformToOperand uu available a k)"
| "transformToOperand uu available (ArithCall f args) k =
     (case transformArguments uu available args k of
        (Inl e, k') \<Rightarrow> (Inl e, k') | (Inr opds, k') \<Rightarrow> (Inr (Operand (FunctionOperand f opds)), k'))"
| "transformToOperand uu available (ArithBinary oper l r) k =
     (case ARITHMETIC_OPERATORS oper of
        None \<Rightarrow> (Inl (invalid_operator oper), k)
      | Some x \<Rightarrow>
          (case transformToOperand uu available l k of
             (Inl e, k1) \<Rightarrow> (Inl e, k1)
           | (Inr a, k1) \<Rightarrow>
               (case transformToOperand uu available r k1 of
                  (Inl e, k2) \<Rightarrow> (Inl e, k2)
                | (Inr b, k2) \<Rightarrow> (Inr (Node (ExprNode (uu k2) a x b)), Suc k2))))"
| "transformArguments uu available [] k = (Inr [], k)"
| "transformArguments uu available (a # as) k =
     (case transformToOperand uu available a k of
        (Inl e, k1) \<Rightarrow> (Inl e, k1)
      | (Inr (Node _), k1) \<Rightarrow> (Inl ''Complex expressions inside function arguments are not supported'', k1)
      | (Inr (Operand x), k1) \<Rightarrow>
          (case transformArguments uu available as k1 of
             (Inl e, k2) \<Rightarrow> (Inl e, k2) | (Inr xs, k2) \<Rightarrow> (Inr (x # xs), k2)))"

text \<open>A simple operand is wrapped in a node that adds 0.\<close>

definition transformToExpression :: "(nat \<Rightarrow> string) \<Rightarrow> string list \<Rightarrow> ArithmeticASTNode \<Rightarrow> string + ArithmeticExpressionNode" where
  "transformToExpression uu available ast =
     (case transformToOperand uu available ast 0 of
        (Inl e, _) \<Rightarrow> Inl e
      | (Inr (Node e), _) \<Rightarrow> Inr e
      | (Inr (Operand x), k) \<Rightarrow> Inr (ExprNode (uu k) (Operand x) Plus (Operand (LiteralOperand (Fin 0 0)))))"

definition parseArithmeticExpression ::
    "(nat \<Rightarrow> string) \<Rightarrow> (string \<Rightarrow> SyntaxNode) \<Rightarrow> string \<Rightarrow> string list \<Rightarrow> string + ArithmeticExpressionNode" where
  "parseArithmeticExpression uu parse input available =
     (if trim input = [] then Inl ''Expression cannot be empty''
      else case node_children (parse (trim input)) of
             [] \<Rightarrow> Inl ''Failed to parse expression: empty parse tree''
           | c # _ \<Rightarrow> (case parseArithmeticNode c of
                 None \<Rightarrow> Inl ''Failed to parse expression. Check syntax.''
               | Some ast \<Rightarrow> transformToExpression uu available ast))"

definition validateArithmeticExpressionString ::
    "(nat \<Rightarrow> string) \<Rightarrow> (string \<Rightarrow> SyntaxNode) \<Rightarrow> string \<Rightarrow> string list \<Rightarrow> string option" where
  "validateArithmeticExpressionString uu parse input available =
     (case parseArithmeticExpression uu parse input available of Inr _ \<Rightarrow> None | Inl e \<Rightarrow> Some e)"

section \<open>What an arithmetic expression means when it is read\<close>

fun ast_of :: "ArithmeticASTNode \<Rightarrow> ASTNode" where
  "ast_of (ArithBinary oper l r) = BinaryExpr oper (ast_of l) (ast_of r)"
| "ast_of (ArithUnary oper a) = UnaryExpr oper (ast_of a)"
| "ast_of (ArithIdentifier f) = Identifier f"
| "ast_of (ArithLiteral v) = Literal (NumberLit v)"
| "ast_of (ArithParenthesized a) = Parenthesized (ast_of a)"
| "ast_of (ArithCall f args) = FunctionCall f (map ast_of args)"

text \<open>The only unary operators are minuses before numbers.\<close>

fun signed_numbers :: "ArithmeticASTNode \<Rightarrow> bool" where
  "signed_numbers (ArithBinary oper l r) \<longleftrightarrow> signed_numbers l \<and> signed_numbers r"
| "signed_numbers (ArithUnary oper a) \<longleftrightarrow> oper = ''-'' \<and> (case a of ArithLiteral _ \<Rightarrow> True | _ \<Rightarrow> False)"
| "signed_numbers (ArithParenthesized a) \<longleftrightarrow> signed_numbers a"
| "signed_numbers (ArithCall f args) \<longleftrightarrow> list_all signed_numbers args"
| "signed_numbers _ \<longleftrightarrow> True"

definition numeric_laws :: "'v semantics \<Rightarrow> bool" where
  "numeric_laws S \<longleftrightarrow> (\<forall>v. unary S ''-'' (lit S (Num v)) = lit S (Num (js_uminus v))) \<and>
     (\<forall>x v. is_zero v \<longrightarrow> arith S Plus x (lit S (Num v)) = x)"

lemma node_value:
  "numeric_laws S \<Longrightarrow> eval_node (arith S) (operand_value S) (ExprNode i l x r) =
     arith S x (eval_operand (arith S) (operand_value S) l) (eval_operand (arith S) (operand_value S) r)"
  by (auto simp: synthetic_iff numeric_laws_def)

fun operand_fields :: "ArithmeticOperand \<Rightarrow> string list" where
  "operand_fields (FieldOperand f _) = [f]"
| "operand_fields (LiteralOperand _) = []"
| "operand_fields (FunctionOperand f args) = concat (map operand_fields args)"

fun side_fields :: "OperandOrNode \<Rightarrow> string list" and node_fields :: "ArithmeticExpressionNode \<Rightarrow> string list" where
  "side_fields (Operand x) = operand_fields x"
| "side_fields (Node e) = node_fields e"
| "node_fields (ExprNode i l oper r) = side_fields l @ side_fields r"

lemma operand_read:
  "transformToOperand uu available a k = (Inr x, k') \<Longrightarrow>
     (available \<noteq> [] \<longrightarrow> set (side_fields x) \<subseteq> set available) \<and>
     (numeric_laws S \<and> signed_numbers a \<longrightarrow> eval_operand (arith S) (operand_value S) x = ast_value S (ast_of a))"
  "transformArguments uu available as k = (Inr xs, k') \<Longrightarrow>
     (available \<noteq> [] \<longrightarrow> set (concat (map operand_fields xs)) \<subseteq> set available) \<and>
     (numeric_laws S \<and> list_all signed_numbers as \<longrightarrow> map (operand_value S) xs = map (\<lambda>a. ast_value S (ast_of a)) as)"
proof (induction uu available a k and uu available as k arbitrary: x k' and xs k' rule: transformToOperand_transformArguments.induct)
  case (4 uu available oper a k)
  then show ?case
    by (cases a) (auto simp: numeric_laws_def is_not_operator_def split: if_splits)
next
  case (6 uu available oper l r k)
  obtain aop a b k1 k2 where some: "ARITHMETIC_OPERATORS oper = Some aop"
      "transformToOperand uu available l k = (Inr a, k1)" "transformToOperand uu available r k1 = (Inr b, k2)"
      "x = Node (ExprNode (uu k2) a aop b)"
    using "6.prems" by (auto split: option.splits prod.splits sum.splits)
  note l = "6.IH"(1) [OF some(1,2)] and r = "6.IH"(2) [OF some(1) some(2) [symmetric] refl some(3)]
  from l r show ?case by (auto simp: some(1,4) node_value simp del: eval_node.simps)
next
  case (8 uu available a as k)
  obtain z k1 zs k2 where some: "transformToOperand uu available a k = (Inr (Operand z), k1)"
      "transformArguments uu available as k1 = (Inr zs, k2)" "xs = z # zs"
    using "8.prems" by (auto split: prod.splits sum.splits OperandOrNode.splits)
  note a = "8.IH"(1) [OF some(1)] and as = "8.IH"(2) [OF some(1) [symmetric] refl refl some(2)]
  from a as show ?case by (simp add: some(3))
qed (auto split: if_splits prod.splits sum.splits simp: comp_def)


text \<open>
  A unary operator that is not before a number is lost: the expression with it is read as the
  expression without it, so the minus before a field, a function or parentheses has no effect.
\<close>

theorem arithmetic_sign_lost:
  assumes "node_children (parse (trim input)) = c # cs" and "parseArithmeticNode c = Some (ArithUnary oper a)"
    and "node_children (parse (trim input')) = c' # cs'" and "parseArithmeticNode c' = Some a"
    and "\<nexists>v. a = ArithLiteral v" and "trim input \<noteq> []" and "trim input' \<noteq> []"
  shows "parseArithmeticExpression uu parse input available = parseArithmeticExpression uu parse input' available"
proof -
  have "transformToOperand uu available (ArithUnary oper a) 0 = transformToOperand uu available a 0"
    using assms(5) by (cases a) simp_all
  then show ?thesis using assms by (simp add: parseArithmeticExpression_def transformToExpression_def)
qed

section \<open>Examples\<close>

definition field_tree :: "string \<Rightarrow> SyntaxNode" where
  "field_tree f = SyntaxNode ''VarName'' f []"

definition negative_tree :: "string \<Rightarrow> SyntaxNode" where
  "negative_tree f = SyntaxNode ''UnaryExpr'' (''-'' @ f) [SyntaxNode ''ArithmeticOp'' ''-'' [], field_tree f]"

definition product_tree :: SyntaxNode where
  "product_tree = SyntaxNode ''BinaryExpr'' ''price * -2''
     [field_tree ''price'', SyntaxNode ''ArithmeticOp'' ''*'' [],
      SyntaxNode ''UnaryExpr'' ''-2'' [SyntaxNode ''ArithmeticOp'' ''-'' [], SyntaxNode ''Integer'' ''2'' []]]"

definition example_parse :: "string \<Rightarrow> SyntaxNode" where
  "example_parse t = SyntaxNode ''Program'' t
     [if t = ''price * -2'' then product_tree else if t = ''-price'' then negative_tree ''price'' else field_tree t]"

definition integers :: "int semantics" where
  "integers = \<lparr>fld = \<lambda>_. 7, lit = \<lambda>v. case v of Num (Fin m k) \<Rightarrow> m | _ \<Rightarrow> 0,
     arith = \<lambda>oper x y. case oper of Plus \<Rightarrow> x + y | Minus \<Rightarrow> x - y | Times \<Rightarrow> x * y | _ \<Rightarrow> 0,
     call = \<lambda>_ _. 0, unary = \<lambda>_. uminus, arr = \<lambda>_. 0, rel = \<lambda>_ x y. x = y\<rparr>"


lemma arithmetic_sign_lost_witness:
  "parseArithmeticExpression nat_digits example_parse ''-price'' [] = parseArithmeticExpression nat_digits example_parse ''price'' []"
proof -
  have "node_children (example_parse (trim ''-price'')) = [negative_tree ''price'']"
    "node_children (example_parse (trim ''price'')) = [field_tree ''price'']"
    "parseArithmeticNode (negative_tree ''price'') = Some (ArithUnary ''-'' (ArithIdentifier ''price''))"
    "parseArithmeticNode (field_tree ''price'') = Some (ArithIdentifier ''price'')"
    "trim ''-price'' \<noteq> []" "trim ''price'' \<noteq> []"
    by code_simp+
  from arithmetic_sign_lost [OF this(1,3,2,4) _ this(5,6)] show ?thesis by simp
qed

end
