(* ===== verification/Notifications.thy ===== *)
theory Notifications
  imports Transformation_Loading Validation_State
begin

text \<open>
  The notification centre: ui/src/store/notifications.store.ts and what it uses of
  ui/src/services/notifications-api.ts. A request is split into the part before it is sent and the part that
  handles its answer, so that answers may arrive in any order.
\<close>

section \<open>Notifications and the requests for them\<close>

text \<open>The properties the store reads; \<open>nt_content\<close> is the rest of the object.\<close>

record Notification =
  notification_id :: string
  nt_read :: bool
  nt_read_at :: json
  nt_content :: json

text \<open>\<open>metadata\<close> may be a text; a text that is no JSON, and anything that is no object, counts as empty.\<close>

definition parseNotificationMetadata :: "(string \<Rightarrow> json option) \<Rightarrow> json \<Rightarrow> json" where
  "parseNotificationMetadata parse raw =
     (case raw of
        JStr t \<Rightarrow> (case parse t of Some v \<Rightarrow> v | None \<Rightarrow> JObj [])
      | JObj _ \<Rightarrow> raw
      | JArr _ \<Rightarrow> raw
      | _ \<Rightarrow> JObj [])"

type_synonym NotificationFilters = "string \<rightharpoonup> json"

text \<open>\<open>${v}\<close> and \<open>v.toString()\<close> of the values a filter has.\<close>

definition param_text :: "json \<Rightarrow> string" where
  "param_text v = (case v of JStr t \<Rightarrow> t | JNum n \<Rightarrow> number_to_string n | _ \<Rightarrow> [])"

definition query_params :: "NotificationFilters \<Rightarrow> (string \<times> string) list" where
  "query_params f =
     concat (map (\<lambda>k. case f k of Some v \<Rightarrow> if jtruthy v then [(k, if k = ''include_deleted'' then ''true'' else param_text v)] else [] | None \<Rightarrow> [])
       [''pipeline_id'', ''severity'', ''start_date'', ''end_date'', ''limit'', ''offset'', ''include_deleted''])"

section \<open>The store\<close>

record NotificationsStore =
  notifications :: "Notification list"
  totalCount :: int
  unreadCount :: int
  nt_isLoading :: bool
  nt_error :: "string option"
  nt_filters :: NotificationFilters
  currentPage :: int
  pageSize :: int
  selectedIds :: "string list"
  isPanelOpen :: bool
  lastFetchedAt :: "time option"
  pollingInterval :: int

definition initialNotificationsStore :: NotificationsStore where
  "initialNotificationsStore =
     \<lparr>notifications = [], totalCount = 0, unreadCount = 0, nt_isLoading = False, nt_error = None, nt_filters = Map.empty,
      currentPage = 1, pageSize = 20, selectedIds = [], isPanelOpen = False, lastFetchedAt = None, pollingInterval = 30000\<rparr>"

subsection \<open>Fetching\<close>

text \<open>The two requests of a fetch: the page, with the filters of the moment, and the first thousand.\<close>

record PageRequest =
  rq_filters :: NotificationFilters
  rq_page :: NotificationFilters
  rq_all :: NotificationFilters

definition page_request :: "NotificationsStore \<Rightarrow> PageRequest" where
  "page_request s =
     \<lparr>rq_filters = nt_filters s,
      rq_page = (nt_filters s)(''limit'' \<mapsto> JNum (Fin (pageSize s) 0),
        ''offset'' \<mapsto> JNum (Fin ((currentPage s - 1) * pageSize s) 0)),
      rq_all = [''limit'' \<mapsto> JNum (Fin 1000 0), ''offset'' \<mapsto> JNum (Fin 0 0)]\<rparr>"

definition start_fetch :: "NotificationsStore \<Rightarrow> NotificationsStore" where
  "start_fetch s = s\<lparr>nt_isLoading := True, nt_error := None\<rparr>"

text \<open>An answer is an error, or the notifications and the total of the pagination.\<close>

type_synonym PageAnswer = "string + Notification list \<times> int"

definition unread_among :: "Notification list \<Rightarrow> int" where
  "unread_among ns = int (length (filter (\<lambda>n. \<not> nt_read n) ns))"

definition displayed_of :: "NotificationFilters \<Rightarrow> Notification list \<Rightarrow> Notification list" where
  "displayed_of f ns =
     (case f ''read_status'' of
        Some v \<Rightarrow> if jtruthy v then filter (\<lambda>n. if v = JStr ''unread'' then \<not> nt_read n else nt_read n) ns else ns
      | None \<Rightarrow> ns)"

definition put_page :: "time \<Rightarrow> PageRequest \<Rightarrow> Notification list \<times> int \<Rightarrow> PageAnswer \<Rightarrow> NotificationsStore \<Rightarrow> NotificationsStore" where
  "put_page now rq page all s =
     (let shown = displayed_of (rq_filters rq) (fst page)
      in s\<lparr>notifications := shown, totalCount := snd page,
           unreadCount := (case all of Inr (ns, _) \<Rightarrow> unread_among ns | Inl _ \<Rightarrow> unread_among shown),
           lastFetchedAt := Some now\<rparr>)"

definition finish_fetch :: "time \<Rightarrow> PageRequest \<Rightarrow> PageAnswer \<Rightarrow> PageAnswer \<Rightarrow> NotificationsStore \<Rightarrow> NotificationsStore" where
  "finish_fetch now rq answer all s =
     (case answer of
        Inr page \<Rightarrow> (put_page now rq page all s)\<lparr>nt_isLoading := False\<rparr>
      | Inl e \<Rightarrow> s\<lparr>nt_isLoading := False, nt_error := Some (or_text e ''Failed to fetch notifications'')\<rparr>)"

definition finish_refresh :: "time \<Rightarrow> PageRequest \<Rightarrow> PageAnswer \<Rightarrow> PageAnswer \<Rightarrow> NotificationsStore \<Rightarrow> NotificationsStore" where
  "finish_refresh now rq answer all s = (case answer of Inr page \<Rightarrow> put_page now rq page all s | Inl _ \<Rightarrow> s)"

subsection \<open>One notification\<close>

definition set_read :: "string \<Rightarrow> Notification \<Rightarrow> Notification" where
  "set_read at n = n\<lparr>nt_read := True, nt_read_at := JStr at\<rparr>"

definition read_ids :: "string \<Rightarrow> (string \<Rightarrow> bool) \<Rightarrow> Notification list \<Rightarrow> Notification list" where
  "read_ids at P ns = map (\<lambda>n. if P (notification_id n) then set_read at n else n) ns"

definition without_ids :: "(string \<Rightarrow> bool) \<Rightarrow> Notification list \<Rightarrow> Notification list" where
  "without_ids P ns = filter (\<lambda>n. \<not> P (notification_id n)) ns"

text \<open>What happens when the request succeeds; when it fails nothing changes and the result is false.\<close>

definition markAsRead :: "string \<Rightarrow> string \<Rightarrow> bool \<Rightarrow> NotificationsStore \<Rightarrow> NotificationsStore \<times> bool" where
  "markAsRead at i success s =
     (if success
      then (s\<lparr>notifications := read_ids at (\<lambda>j. j = i) (notifications s), unreadCount := max 0 (unreadCount s - 1)\<rparr>, True)
      else (s, False))"

definition deleteNotification :: "string \<Rightarrow> bool \<Rightarrow> NotificationsStore \<Rightarrow> NotificationsStore \<times> bool" where
  "deleteNotification i success s =
     (if success
      then (let wasUnread = (case find (\<lambda>n. notification_id n = i) (notifications s) of Some n \<Rightarrow> \<not> nt_read n | None \<Rightarrow> False)
            in s\<lparr>notifications := without_ids (\<lambda>j. j = i) (notifications s), totalCount := totalCount s - 1,
                 unreadCount := (if wasUnread then max 0 (unreadCount s - 1) else unreadCount s),
                 selectedIds := filter (\<lambda>j. j \<noteq> i) (selectedIds s)\<rparr>, True)
      else (s, False))"

subsection \<open>The selected notifications\<close>

text \<open>
  The ids are those selected when the request was sent; the answer of a success has the ids that were not
  found.
\<close>

definition handled_ids :: "string list \<Rightarrow> string list \<Rightarrow> string list" where
  "handled_ids ids not_found = filter (\<lambda>i. i \<notin> set not_found) ids"

definition markSelectedAsRead :: "string \<Rightarrow> string list \<Rightarrow> string list option \<Rightarrow> NotificationsStore \<Rightarrow> NotificationsStore \<times> bool" where
  "markSelectedAsRead at ids answer s =
     (if ids = [] then (s, False)
      else case answer of
             None \<Rightarrow> (s, False)
           | Some not_found \<Rightarrow>
               (let P = (\<lambda>i. i \<in> set (handled_ids ids not_found))
                in s\<lparr>notifications := read_ids at P (notifications s),
                     unreadCount := max 0 (unreadCount s - unread_among (filter (\<lambda>n. P (notification_id n)) (notifications s))),
                     selectedIds := []\<rparr>, True))"

definition deleteSelected :: "string list \<Rightarrow> string list option \<Rightarrow> NotificationsStore \<Rightarrow> NotificationsStore \<times> bool" where
  "deleteSelected ids answer s =
     (if ids = [] then (s, False)
      else case answer of
             None \<Rightarrow> (s, False)
           | Some not_found \<Rightarrow>
               (let P = (\<lambda>i. i \<in> set (handled_ids ids not_found))
                in s\<lparr>notifications := without_ids P (notifications s),
                     totalCount := totalCount s - int (length (handled_ids ids not_found)),
                     unreadCount := max 0 (unreadCount s - unread_among (filter (\<lambda>n. P (notification_id n)) (notifications s))),
                     selectedIds := []\<rparr>, True))"

definition selectNotification :: "string \<Rightarrow> NotificationsStore \<Rightarrow> NotificationsStore" where
  "selectNotification i s = s\<lparr>selectedIds := set_add i (selectedIds s)\<rparr>"

definition deselectNotification :: "string \<Rightarrow> NotificationsStore \<Rightarrow> NotificationsStore" where
  "deselectNotification i s = s\<lparr>selectedIds := filter (\<lambda>j. j \<noteq> i) (selectedIds s)\<rparr>"

definition nt_selectAll :: "NotificationsStore \<Rightarrow> NotificationsStore" where
  "nt_selectAll s = s\<lparr>selectedIds := fold set_add (map notification_id (notifications s)) []\<rparr>"

definition nt_deselectAll :: "NotificationsStore \<Rightarrow> NotificationsStore" where
  "nt_deselectAll s = s\<lparr>selectedIds := []\<rparr>"

definition toggleSelection :: "string \<Rightarrow> NotificationsStore \<Rightarrow> NotificationsStore" where
  "toggleSelection i s =
     s\<lparr>selectedIds := (if i \<in> set (selectedIds s) then filter (\<lambda>j. j \<noteq> i) (selectedIds s) else selectedIds s @ [i])\<rparr>"

subsection \<open>Filters, pages and the panel\<close>

definition setFilters :: "NotificationFilters \<Rightarrow> NotificationsStore \<Rightarrow> NotificationsStore" where
  "setFilters f s = s\<lparr>nt_filters := nt_filters s ++ f, currentPage := 1\<rparr>"

definition clearFilters :: "NotificationsStore \<Rightarrow> NotificationsStore" where
  "clearFilters s = s\<lparr>nt_filters := Map.empty, currentPage := 1\<rparr>"

definition setPage :: "int \<Rightarrow> NotificationsStore \<Rightarrow> NotificationsStore" where
  "setPage p s = s\<lparr>currentPage := p\<rparr>"

definition setPageSize :: "int \<Rightarrow> NotificationsStore \<Rightarrow> NotificationsStore" where
  "setPageSize n s = s\<lparr>pageSize := n, currentPage := 1\<rparr>"

definition openPanel :: "NotificationsStore \<Rightarrow> NotificationsStore" where
  "openPanel s = s\<lparr>isPanelOpen := True\<rparr>"

definition closePanel :: "NotificationsStore \<Rightarrow> NotificationsStore" where
  "closePanel s = s\<lparr>isPanelOpen := False\<rparr>"

definition togglePanel :: "NotificationsStore \<Rightarrow> NotificationsStore" where
  "togglePanel s = s\<lparr>isPanelOpen := \<not> isPanelOpen s\<rparr>"

definition setPollingInterval :: "int \<Rightarrow> NotificationsStore \<Rightarrow> NotificationsStore" where
  "setPollingInterval n s = s\<lparr>pollingInterval := n\<rparr>"

definition resetNotificationsStore :: "NotificationsStore \<Rightarrow> NotificationsStore" where
  "resetNotificationsStore s = initialNotificationsStore"

section \<open>The number of unread notifications\<close>

lemma unread_nonneg [simp]: "0 \<le> unread_among ns"
  by (simp add: unread_among_def)

lemma unread_Cons [simp]: "unread_among (n # ns) = (if nt_read n then 0 else 1) + unread_among ns" "unread_among [] = 0"
  by (simp_all add: unread_among_def)

lemma unread_split: "unread_among ns = unread_among (filter P ns) + unread_among (filter (\<lambda>n. \<not> P n) ns)"
  by (induction ns) auto

lemma unread_filter_le: "unread_among (filter P ns) \<le> unread_among ns"
  using unread_split [of ns P] unread_nonneg [of "filter (\<lambda>n. \<not> P n) ns"] by linarith

lemma unread_read_ids: "unread_among (read_ids at P ns) = unread_among (filter (\<lambda>n. \<not> P (notification_id n)) ns)"
  by (induction ns) (auto simp: read_ids_def set_read_def)

lemma read_ids_ids [simp]: "map notification_id (read_ids at P ns) = map notification_id ns"
  by (simp add: read_ids_def set_read_def comp_def)

lemma one_id:
  assumes "distinct (map notification_id ns)" and "n \<in> set ns"
  shows "filter (\<lambda>m. notification_id m = notification_id n) ns = [n]"
  using assms
proof (induction ns)
  case (Cons m ns)
  show ?case
  proof (cases "n = m")
    case True
    with Cons.prems(1) have "filter (\<lambda>x. notification_id x = notification_id n) ns = []"
      by (auto simp: filter_empty_conv) (metis image_eqI)
    with True show ?thesis by simp
  next
    case False
    with Cons.prems have "n \<in> set ns" "notification_id m \<noteq> notification_id n" by (auto dest: image_eqI)
    with Cons show ?thesis by simp
  qed
qed simp

lemma find_id:
  assumes "distinct (map notification_id ns)"
  shows "find (\<lambda>m. notification_id m = i) ns = (case filter (\<lambda>m. notification_id m = i) ns of [] \<Rightarrow> None | n # _ \<Rightarrow> Some n)"
  by (induction ns) auto

lemma add_ids_distinct: "distinct ids \<Longrightarrow> distinct (fold set_add is ids)"
  by (induction "is" arbitrary: ids) simp_all

text \<open>The actions between two fetches; a request is answered when the action happens.\<close>

datatype NotificationAction =
    MarkRead string string
  | DeleteOne string
  | MarkSelected string "string list"
  | DeleteSelected "string list"
  | Toggle string
  | SelectAll

fun nt_apply :: "NotificationAction \<Rightarrow> NotificationsStore \<Rightarrow> NotificationsStore" where
  "nt_apply (MarkRead at i) s = fst (markAsRead at i True s)"
| "nt_apply (DeleteOne i) s = fst (deleteNotification i True s)"
| "nt_apply (MarkSelected at not_found) s = fst (markSelectedAsRead at (selectedIds s) (Some not_found) s)"
| "nt_apply (DeleteSelected not_found) s = fst (deleteSelected (selectedIds s) (Some not_found) s)"
| "nt_apply (Toggle i) s = toggleSelection i s"
| "nt_apply SelectAll s = nt_selectAll s"

text \<open>A single notification is only marked as read when it is shown as unread.\<close>

fun marks_unread :: "NotificationAction \<Rightarrow> NotificationsStore \<Rightarrow> bool" where
  "marks_unread (MarkRead at i) s = list_ex (\<lambda>n. notification_id n = i \<and> \<not> nt_read n) (notifications s)"
| "marks_unread _ s = True"

fun all_mark_unread :: "NotificationAction list \<Rightarrow> NotificationsStore \<Rightarrow> bool" where
  "all_mark_unread [] s = True"
| "all_mark_unread (a # as) s = (marks_unread a s \<and> all_mark_unread as (nt_apply a s))"

text \<open>The unread ones are those shown and a number of others.\<close>

definition counts :: "int \<Rightarrow> NotificationsStore \<Rightarrow> bool" where
  "counts others s \<longleftrightarrow> 0 \<le> others \<and> distinct (map notification_id (notifications s)) \<and> distinct (selectedIds s) \<and>
     unreadCount s = unread_among (notifications s) + others"

lemma bulk_counts:
  assumes "counts k s"
  shows "max 0 (unreadCount s - unread_among (filter (\<lambda>n. P (notification_id n)) (notifications s))) =
    unread_among (filter (\<lambda>n. \<not> P (notification_id n)) (notifications s)) + k"
  using assms unread_split [of "notifications s" "\<lambda>n. P (notification_id n)"]
    unread_nonneg [of "filter (\<lambda>n. \<not> P (notification_id n)) (notifications s)"]
  unfolding counts_def by linarith

lemma single_filter:
  assumes "counts k s" and "n \<in> set (notifications s)"
  shows "unread_among (filter (\<lambda>m. notification_id m = notification_id n) (notifications s)) = (if nt_read n then 0 else 1)"
  using one_id [OF _ assms(2)] assms(1) by (simp add: counts_def)

lemma filtered_distinct: "distinct (map f xs) \<Longrightarrow> distinct (map f (filter P xs))"
  by (simp add: distinct_map_filter)

lemma action_counts:
  assumes "counts k s" and "marks_unread a s"
  shows "counts k (nt_apply a s)"
proof (cases a)
  case (MarkRead at i)
  then obtain n where n: "n \<in> set (notifications s)" "notification_id n = i" "\<not> nt_read n"
    using assms(2) by (auto simp: list_ex_iff)
  have "unread_among (filter (\<lambda>m. notification_id m = i) (notifications s)) = 1"
    using single_filter [OF assms(1) n(1)] n(2,3) by simp
  then show ?thesis
    using assms(1) bulk_counts [OF assms(1), of "\<lambda>j. j = i"]
    by (simp add: MarkRead markAsRead_def counts_def unread_read_ids)
next
  case (DeleteOne i)
  let ?shown = "filter (\<lambda>m. notification_id m = i) (notifications s)"
  have d: "distinct (map notification_id (notifications s))" using assms(1) by (simp add: counts_def)
  have "(case find (\<lambda>m. notification_id m = i) (notifications s) of Some n \<Rightarrow> \<not> nt_read n | None \<Rightarrow> False) \<longleftrightarrow> unread_among ?shown = 1"
    "unread_among ?shown = 0 \<or> unread_among ?shown = 1"
  proof -
    have "?shown = [] \<or> (\<exists>n. ?shown = [n])"
    proof (cases ?shown)
      case (Cons n ns)
      then have "n \<in> set ?shown" by (metis list.set_intros(1))
      then show ?thesis using one_id [OF d, of n] by auto
    qed simp
    then show "(case find (\<lambda>m. notification_id m = i) (notifications s) of Some n \<Rightarrow> \<not> nt_read n | None \<Rightarrow> False) \<longleftrightarrow> unread_among ?shown = 1"
      "unread_among ?shown = 0 \<or> unread_among ?shown = 1"
      by (auto simp: find_id [OF d] split: if_splits)
  qed
  then show ?thesis
    using assms(1) bulk_counts [OF assms(1), of "\<lambda>j. j = i"]
    by (auto simp: DeleteOne deleteNotification_def counts_def without_ids_def filtered_distinct)
next
  case (MarkSelected at nf)
  then show ?thesis
    using assms(1) bulk_counts [OF assms(1), of "\<lambda>j. j \<in> set (handled_ids (selectedIds s) nf)"]
    by (auto simp: markSelectedAsRead_def counts_def unread_read_ids)
next
  case (DeleteSelected nf)
  then show ?thesis
    using assms(1) bulk_counts [OF assms(1), of "\<lambda>j. j \<in> set (handled_ids (selectedIds s) nf)"]
    by (auto simp: deleteSelected_def counts_def without_ids_def filtered_distinct)
next
  case (Toggle i)
  then show ?thesis using assms(1) by (simp add: toggleSelection_def counts_def)
next
  case SelectAll
  then show ?thesis using assms(1) by (simp add: nt_selectAll_def counts_def add_ids_distinct)
qed


definition example_notification :: "string \<Rightarrow> Notification" where
  "example_notification i = \<lparr>notification_id = i, nt_read = False, nt_read_at = JNull, nt_content = JNull\<rparr>"

definition example_notifications :: NotificationsStore where
  "example_notifications = initialNotificationsStore\<lparr>notifications := [example_notification ''a'', example_notification ''b''], unreadCount := 5\<rparr>"


text \<open>
  An answer that arrives late replaces the page that is shown: when the user turns a page before the
  answer for the page before has arrived, and the answer for the new page comes first, the notifications of
  the old page are shown under the number of the new one.
\<close>

theorem late_page_shown:
  "let turned = start_fetch (setPage p (start_fetch s));
       shown = finish_fetch t1 (page_request (setPage p s)) (Inr new) all1 turned;
       late = finish_fetch t2 (page_request s) (Inr old) all2 shown
   in notifications shown = displayed_of (nt_filters s) (fst new) \<and>
      currentPage late = p \<and> notifications late = displayed_of (nt_filters s) (fst old) \<and> totalCount late = snd old"
  by (simp add: finish_fetch_def put_page_def Let_def start_fetch_def setPage_def page_request_def)

end
