(* ===== verification/Resource_Quantities.thy ===== *)
theory Resource_Quantities
  imports Kafka_Params Column_Types Js_Numbers
begin

text \<open>
  The checks of resource quantities (ui/src/modules/resources/quantity-parser.ts), against the grammars
  of the texts they accept.
\<close>

section \<open>Quantities\<close>

definition is_sign :: "char \<Rightarrow> bool" where
  "is_sign c \<longleftrightarrow> c = CHR ''+'' \<or> c = CHR ''-''"

text \<open>
  The match of \<open>/^([+-]?\d+\.?\d*|\d*\.\d+)(.*)$/\<close>: the number is as long as possible, and only the first
  form has a sign.
\<close>

definition quantity_number :: "string \<Rightarrow> (string \<times> string) option" where
  "quantity_number s =
     (let sign = takeWhile is_sign (take 1 s); r = drop (length sign) s;
          ip = takeWhile is_digit r; r1 = dropWhile is_digit r;
          dot = takeWhile (\<lambda>c. c = CHR ''.'') (take 1 r1); r2 = drop (length dot) r1;
          fp = takeWhile is_digit r2
      in if ip \<noteq> [] then (if dot = [] then Some (sign @ ip, r1) else Some (sign @ ip @ dot @ fp, dropWhile is_digit r2))
         else if sign = [] \<and> dot \<noteq> [] \<and> fp \<noteq> [] then Some (dot @ fp, dropWhile is_digit r2)
         else None)"

definition BINARY_SUFFIXES :: "string list" where
  "BINARY_SUFFIXES = [''Ki'', ''Mi'', ''Gi'', ''Ti'', ''Pi'', ''Ei'']"

definition DECIMAL_SUFFIXES :: "string list" where
  "DECIMAL_SUFFIXES = [''m'', ''k'', ''M'', ''G'', ''T'', ''P'', ''E'']"

definition HUMAN_BYTE_SUFFIXES :: "string list" where
  "HUMAN_BYTE_SUFFIXES = [''KB'', ''MB'', ''GB'', ''TB'']"

text \<open>\<open>/^[eE][+-]?\d+$/\<close>\<close>

definition exponent_suffix :: "string \<Rightarrow> bool" where
  "exponent_suffix s \<longleftrightarrow>
     (case s of
        [] \<Rightarrow> False
      | c # r \<Rightarrow> (c = CHR ''e'' \<or> c = CHR ''E'') \<and>
          (let ds = (case r of d # t \<Rightarrow> if is_sign d then t else r | [] \<Rightarrow> []) in ds \<noteq> [] \<and> list_all is_digit ds))"

definition decimal_places :: "string \<Rightarrow> nat" where
  "decimal_places num = length (takeWhile is_digit (drop 1 (dropWhile (\<lambda>c. c \<noteq> CHR ''.'') num)))"

text \<open>The number part always has the form the second test asks for, so that test is left out.\<close>

definition validateKubernetesQuantity :: "string \<Rightarrow> bool" where
  "validateKubernetesQuantity value =
     (let s = trim value
      in if s = [] then True
         else case quantity_number s of
                None \<Rightarrow> False
              | Some (num, suffix) \<Rightarrow>
                  if \<not> list_all (\<lambda>c. \<not> line_terminator c) suffix then False
                  else if 3 < decimal_places num then False
                  else suffix = [] \<or> suffix \<in> set BINARY_SUFFIXES \<or> suffix \<in> set DECIMAL_SUFFIXES \<or> exponent_suffix suffix)"

definition ends_with :: "string \<Rightarrow> string \<Rightarrow> bool" where
  "ends_with suf s \<longleftrightarrow> length suf \<le> length s \<and> drop (length s - length suf) s = suf"

definition nonnegative :: "js_number \<Rightarrow> bool" where
  "nonnegative x \<longleftrightarrow> (case x of Fin m k \<Rightarrow> 0 \<le> m | _ \<Rightarrow> False)"

text \<open>A text that ends with one of the suffixes ends with no other, so the loop looks at one.\<close>

definition human_bytes :: "string \<Rightarrow> bool" where
  "human_bytes s \<longleftrightarrow>
     (let upper = toUpperCase s
      in case find (\<lambda>suf. ends_with suf upper) HUMAN_BYTE_SUFFIXES of
           None \<Rightarrow> False
         | Some suf \<Rightarrow>
             (let num = trim (take (length upper - length suf) upper)
              in num \<noteq> [] \<and> nonnegative (parse_float num)))"

definition validateNatsMaxBytes :: "string \<Rightarrow> bool" where
  "validateNatsMaxBytes value =
     (let s = trim value in if s = [] then True else validateKubernetesQuantity s \<or> human_bytes s)"

section \<open>Durations\<close>

text \<open>\<open>-?\d+\.?\d*|-?\d*\.\d+\<close> at the start of a text: the number and the rest.\<close>

definition duration_number :: "string \<Rightarrow> (string \<times> string) option" where
  "duration_number s =
     (let sign = takeWhile (\<lambda>c. c = CHR ''-'') (take 1 s); r = drop (length sign) s;
          ip = takeWhile is_digit r; r1 = dropWhile is_digit r;
          dot = takeWhile (\<lambda>c. c = CHR ''.'') (take 1 r1); r2 = drop (length dot) r1;
          fp = takeWhile is_digit r2
      in if ip \<noteq> [] \<or> dot \<noteq> [] \<and> fp \<noteq> [] then Some (sign @ ip @ dot @ (if dot = [] then [] else fp), if dot = [] then r1 else dropWhile is_digit r2)
         else None)"

text \<open>The units in the order of the pattern; the third is written with the micro sign.\<close>

definition DURATION_UNITS :: "string list" where
  "DURATION_UNITS = [''ns'', ''us'', [CHR 0xB5, CHR ''s''], ''ms'', ''s'', ''m'', ''h'']"

definition duration_step :: "string \<Rightarrow> string option" where
  "duration_step s =
     (case duration_number s of
        None \<Rightarrow> None
      | Some (_, r) \<Rightarrow>
          (case find (\<lambda>u. starts_with u r) DURATION_UNITS of
             None \<Rightarrow> None
           | Some u \<Rightarrow> let rest = drop (length u) r in if list_all (\<lambda>c. \<not> line_terminator c) rest then Some rest else None))"

lemma duration_number_shorter: "duration_number s = Some (n, r) \<Longrightarrow> length r \<le> length s"
proof -
  assume a: "duration_number s = Some (n, r)"
  define t where "t = drop (length (takeWhile (\<lambda>c. c = CHR ''-'') (take 1 s))) s"
  define r1 where "r1 = dropWhile is_digit t"
  define r2 where "r2 = drop (length (takeWhile (\<lambda>c. c = CHR ''.'') (take 1 r1))) r1"
  have "length r1 \<le> length t" unfolding r1_def by (rule length_dropWhile_le)
  moreover have "length t \<le> length s" "length r2 \<le> length r1" by (simp_all add: t_def r2_def)
  moreover have "length (dropWhile is_digit r2) \<le> length r2" by (rule length_dropWhile_le)
  moreover have "r = r1 \<or> r = dropWhile is_digit r2"
    using a by (auto simp: duration_number_def Let_def t_def r1_def r2_def split: if_splits)
  ultimately show ?thesis by auto
qed

lemma duration_step_shorter: "duration_step s = Some r \<Longrightarrow> length r < length s"
proof -
  assume a: "duration_step s = Some r"
  then obtain n t u where n: "duration_number s = Some (n, t)" and u: "find (\<lambda>u. starts_with u t) DURATION_UNITS = Some u"
    and r: "r = drop (length u) t"
    by (auto simp: duration_step_def Let_def split: option.splits prod.splits if_splits)
  have "u \<in> set DURATION_UNITS" "starts_with u t" using u by (auto simp: find_Some_iff)
  then have "u \<noteq> []" "length u \<le> length t" using starts_with_length [of u t] by (auto simp: DURATION_UNITS_def)
  then have "length r < length t" unfolding r by (cases u) auto
  with duration_number_shorter [OF n] show ?thesis by simp
qed

function age_loop :: "bool \<Rightarrow> string \<Rightarrow> bool" where
  "age_loop hadUnit rest =
     (if rest = [] then True
      else case duration_step rest of
             None \<Rightarrow> hadUnit \<and> list_all is_ws rest
           | Some r \<Rightarrow> age_loop True (trim r))"
  by pat_completeness auto
termination
  by (relation "measure (\<lambda>(_, s). length s)")
    (auto intro: le_less_trans [OF trim_length duration_step_shorter])

declare age_loop.simps [simp del]

definition validateNatsMaxAge :: "string \<Rightarrow> bool" where
  "validateNatsMaxAge value = (let s = trim value in if s = [] then True else age_loop False s)"

section \<open>The texts that are quantities\<close>

lemma starts_with_take: "starts_with p s \<Longrightarrow> s = p @ drop (length p) s"
  by (induction p s rule: starts_with.induct) auto

lemma lead: "takeWhile P (take 1 s) @ drop (length (takeWhile P (take 1 s))) s = s"
  "takeWhile P (take 1 s) = [] \<or> (\<exists>c. takeWhile P (take 1 s) = [c] \<and> P c)"
  by (cases s; simp)+

lemma lead_none: "s = [] \<or> \<not> P (hd s) \<Longrightarrow> takeWhile P (take 1 s) = []"
  by (cases s) auto

lemma digits_then:
  assumes "list_all is_digit ds" and "r = [] \<or> \<not> is_digit (hd r)"
  shows "takeWhile is_digit (ds @ r) = ds" "dropWhile is_digit (ds @ r) = r"
proof -
  have "takeWhile is_digit r = []" "dropWhile is_digit r = r" using assms(2) by (cases r; auto)+
  then show "takeWhile is_digit (ds @ r) = ds" "dropWhile is_digit (ds @ r) = r"
    using assms(1) by (simp_all add: takeWhile_append2 dropWhile_append2 list_all_iff)
qed

lemma takeWhile_all: "list_all P (takeWhile P xs)"
  by (induction xs) auto

lemma sign_no_digit: "is_sign c \<Longrightarrow> \<not> is_digit c" "is_digit c \<Longrightarrow> \<not> is_sign c" "\<not> is_digit (CHR ''.'')" "\<not> is_sign (CHR ''.'')"
  by (auto simp: is_sign_def is_digit_def)

text \<open>The digits of a number: a whole part and a fraction, one of them with a digit.\<close>

definition number_digits :: "string \<Rightarrow> string \<Rightarrow> bool" where
  "number_digits ip fp \<longleftrightarrow> list_all is_digit ip \<and> (fp = [] \<or> hd fp = CHR ''.'' \<and> list_all is_digit (tl fp)) \<and> (ip \<noteq> [] \<or> 2 \<le> length fp)"

definition is_quantity :: "string \<Rightarrow> bool" where
  "is_quantity s \<longleftrightarrow>
     (\<exists>sg ip fp suf. s = sg @ ip @ fp @ suf \<and> (sg = [] \<or> sg \<in> {''+'', ''-''} \<and> ip \<noteq> []) \<and> number_digits ip fp \<and> length fp \<le> 4 \<and>
        (suf = [] \<or> suf \<in> set BINARY_SUFFIXES \<or> suf \<in> set DECIMAL_SUFFIXES \<or> exponent_suffix suf))"

lemma quantity_number_parts:
  assumes "quantity_number s = Some (num, suf)"
  shows "\<exists>sg ip fp. s = sg @ ip @ fp @ suf \<and> num = sg @ ip @ fp \<and> (sg = [] \<or> sg \<in> {''+'', ''-''} \<and> ip \<noteq> []) \<and> number_digits ip fp"
proof -
  define sg where "sg = takeWhile is_sign (take 1 s)"
  define r where "r = drop (length sg) s"
  define ip where "ip = takeWhile is_digit r"
  define r1 where "r1 = dropWhile is_digit r"
  define dot where "dot = takeWhile (\<lambda>c. c = CHR ''.'') (take 1 r1)"
  define r2 where "r2 = drop (length dot) r1"
  define fp where "fp = takeWhile is_digit r2"
  have "s = sg @ r" unfolding r_def sg_def by (rule lead(1) [symmetric])
  moreover have "r1 = dot @ r2" unfolding r2_def dot_def by (rule lead(1) [symmetric])
  moreover have "r = ip @ r1" "r2 = fp @ dropWhile is_digit r2" by (simp_all add: ip_def r1_def fp_def)
  ultimately have s: "s = sg @ r" "r = ip @ r1" "r1 = dot @ r2" "r2 = fp @ dropWhile is_digit r2" by blast+
  have sg: "sg = [] \<or> sg \<in> {''+'', ''-''}" using lead(2) [of is_sign s] by (auto simp: sg_def is_sign_def)
  have dot: "dot = [] \<or> dot = ''.''" using lead(2) [of "\<lambda>c. c = CHR ''.''" r1] by (auto simp: dot_def)
  have d: "list_all is_digit ip" "list_all is_digit fp" by (simp_all add: ip_def fp_def takeWhile_all)
  have "quantity_number s =
      (if ip \<noteq> [] then (if dot = [] then Some (sg @ ip, r1) else Some (sg @ ip @ dot @ fp, dropWhile is_digit r2))
       else if sg = [] \<and> dot \<noteq> [] \<and> fp \<noteq> [] then Some (dot @ fp, dropWhile is_digit r2) else None)"
    unfolding quantity_number_def Let_def fp_def r2_def dot_def r1_def ip_def r_def sg_def by (rule refl)
  then consider "ip \<noteq> []" "dot = []" "num = sg @ ip" "suf = r1"
    | "ip \<noteq> [] \<or> sg = [] \<and> fp \<noteq> []" "dot \<noteq> []" "num = sg @ ip @ dot @ fp" "suf = dropWhile is_digit r2"
    using assms by (auto split: if_splits)
  then show ?thesis
  proof cases
    case 1
    then have "s = sg @ ip @ [] @ suf \<and> num = sg @ ip @ [] \<and> number_digits ip []" using s d by (simp add: number_digits_def)
    then show ?thesis using sg 1(1) by blast
  next
    case 2
    then have "s = sg @ ip @ (dot @ fp) @ suf \<and> num = sg @ ip @ (dot @ fp) \<and> number_digits ip (dot @ fp)"
      using s d dot by (cases fp) (auto simp: number_digits_def)
    then show ?thesis using sg 2(1) by blast
  qed
qed

lemma number_digits_head:
  assumes "number_digits ip fp"
  shows "ip @ fp @ r \<noteq> []" "\<not> is_sign (hd (ip @ fp @ r))" "\<not> is_ws (hd (ip @ fp @ r))"
  using assms by (cases ip; cases fp; auto simp: number_digits_def is_sign_def is_digit_def is_ws_def)+

lemma number_at:
  assumes "number_digits ip fp" and "suf = [] \<or> \<not> is_digit (hd suf) \<and> hd suf \<noteq> CHR ''.''"
  shows "takeWhile is_digit (ip @ fp @ suf) = ip" "dropWhile is_digit (ip @ fp @ suf) = fp @ suf"
    "takeWhile (\<lambda>c. c = CHR ''.'') (take 1 (fp @ suf)) = take 1 fp"
    "takeWhile is_digit (drop (length (take 1 fp)) (fp @ suf)) = drop 1 fp"
    "dropWhile is_digit (drop (length (take 1 fp)) (fp @ suf)) = suf"
proof -
  have "fp @ suf = [] \<or> \<not> is_digit (hd (fp @ suf))"
    using assms by (cases fp) (auto simp: number_digits_def sign_no_digit(3))
  then show "takeWhile is_digit (ip @ fp @ suf) = ip" "dropWhile is_digit (ip @ fp @ suf) = fp @ suf"
    using digits_then [of ip "fp @ suf"] assms(1) by (simp_all add: number_digits_def)
  show "takeWhile (\<lambda>c. c = CHR ''.'') (take 1 (fp @ suf)) = take 1 fp"
    using assms by (cases fp; cases suf) (auto simp: number_digits_def)
  have "drop (length (take 1 fp)) (fp @ suf) = drop 1 fp @ suf" by (cases fp) simp_all
  moreover have "list_all is_digit (drop 1 fp)" using assms(1) by (cases fp) (auto simp: number_digits_def)
  ultimately show "takeWhile is_digit (drop (length (take 1 fp)) (fp @ suf)) = drop 1 fp"
    "dropWhile is_digit (drop (length (take 1 fp)) (fp @ suf)) = suf"
    using digits_then [of "drop 1 fp" suf] assms(2) by auto
qed

lemma quantity_number_of:
  assumes "sg = [] \<or> sg \<in> {''+'', ''-''} \<and> ip \<noteq> []" and "number_digits ip fp"
    and "suf = [] \<or> \<not> is_digit (hd suf) \<and> hd suf \<noteq> CHR ''.''"
  shows "quantity_number (sg @ ip @ fp @ suf) = Some (sg @ ip @ fp, suf)"
proof -
  have sg: "takeWhile is_sign (take 1 (sg @ ip @ fp @ suf)) = sg"
    using assms(1) lead_none [of "ip @ fp @ suf" is_sign] number_digits_head(2) [OF assms(2), of suf] by (auto simp: is_sign_def)
  have d: "drop (length sg) (sg @ ip @ fp @ suf) = ip @ fp @ suf" by simp
  have q: "quantity_number (sg @ ip @ fp @ suf) =
      (if ip \<noteq> [] then (if take 1 fp = [] then Some (sg @ ip, fp @ suf) else Some (sg @ ip @ take 1 fp @ drop 1 fp, suf))
       else if sg = [] \<and> take 1 fp \<noteq> [] \<and> drop 1 fp \<noteq> [] then Some (take 1 fp @ drop 1 fp, suf) else None)"
    unfolding quantity_number_def Let_def sg d number_at [OF assms(2,3)] by (rule refl)
  have "ip \<noteq> [] \<or> sg = [] \<and> take 1 fp \<noteq> [] \<and> drop 1 fp \<noteq> []"
    using assms(1,2) by (cases fp; cases "tl fp") (auto simp: number_digits_def)
  then show ?thesis unfolding q by (cases fp) auto
qed

lemma number_places:
  assumes "sg = [] \<or> sg \<in> {''+'', ''-''}" and "number_digits ip fp"
  shows "decimal_places (sg @ ip @ fp) = length (drop 1 fp)"
proof -
  have ip: "dropWhile (\<lambda>c. c \<noteq> CHR ''.'') (ip @ r) = dropWhile (\<lambda>c. c \<noteq> CHR ''.'') r" for r
    by (rule dropWhile_append2) (use assms(2) in \<open>auto simp: number_digits_def list_all_iff is_digit_def\<close>)
  have sg: "dropWhile (\<lambda>c. c \<noteq> CHR ''.'') (sg @ r) = dropWhile (\<lambda>c. c \<noteq> CHR ''.'') r" for r
    using assms(1) by auto
  have "dropWhile (\<lambda>c. c \<noteq> CHR ''.'') fp = fp" using assms(2) by (cases fp) (simp_all add: number_digits_def)
  then have "dropWhile (\<lambda>c. c \<noteq> CHR ''.'') (sg @ ip @ fp) = fp" by (simp only: sg ip)
  moreover have "takeWhile is_digit (drop 1 fp) = drop 1 fp"
    using digits_then(1) [of "drop 1 fp" "[]"] assms(2) by (cases fp) (auto simp: number_digits_def)
  ultimately show ?thesis unfolding decimal_places_def by (simp only:)
qed

lemma suffix_plain:
  assumes "suf \<in> set BINARY_SUFFIXES \<or> suf \<in> set DECIMAL_SUFFIXES \<or> exponent_suffix suf"
  shows "suf \<noteq> []" "\<not> is_digit (hd suf)" "hd suf \<noteq> CHR ''.''" "list_all (\<lambda>c. \<not> line_terminator c) suf"
proof -
  have e: "suf \<noteq> [] \<and> \<not> is_digit (hd suf) \<and> hd suf \<noteq> CHR ''.'' \<and> list_all (\<lambda>c. \<not> line_terminator c) suf" if x: "exponent_suffix suf"
  proof -
    obtain c r where s: "suf = c # r" "c = CHR ''e'' \<or> c = CHR ''E''" using x by (cases suf) (auto simp: exponent_suffix_def)
    have "\<not> line_terminator d" if "is_digit d \<or> is_sign d" for d
      using that by (auto simp: is_digit_def is_sign_def line_terminator_def Let_def)
    then have "list_all (\<lambda>c. \<not> line_terminator c) r"
      using x s by (auto simp: exponent_suffix_def Let_def list_all_iff split: list.splits if_splits)
    with s show ?thesis by (auto simp: is_digit_def line_terminator_def)
  qed
  have "suf \<noteq> [] \<and> \<not> is_digit (hd suf) \<and> hd suf \<noteq> CHR ''.'' \<and> list_all (\<lambda>c. \<not> line_terminator c) suf"
    if "suf \<in> set BINARY_SUFFIXES \<or> suf \<in> set DECIMAL_SUFFIXES"
    using that by (auto simp: BINARY_SUFFIXES_def DECIMAL_SUFFIXES_def is_digit_def line_terminator_def)
  with e assms show "suf \<noteq> []" "\<not> is_digit (hd suf)" "hd suf \<noteq> CHR ''.''" "list_all (\<lambda>c. \<not> line_terminator c) suf" by blast+
qed

text \<open>
  A resource quantity is accepted if and only if it is blank, or a number with a sign only before digits
  and at most three digits after the point, followed by nothing, a binary or decimal suffix or an exponent.
\<close>

theorem quantity_spec: "validateKubernetesQuantity v \<longleftrightarrow> trim v = [] \<or> is_quantity (trim v)"
proof
  assume v: "validateKubernetesQuantity v"
  show "trim v = [] \<or> is_quantity (trim v)"
  proof (cases "trim v = []")
    case False
    with v obtain num suf where q: "quantity_number (trim v) = Some (num, suf)" "decimal_places num \<le> 3"
      "suf = [] \<or> suf \<in> set BINARY_SUFFIXES \<or> suf \<in> set DECIMAL_SUFFIXES \<or> exponent_suffix suf"
      by (auto simp: validateKubernetesQuantity_def Let_def not_less split: option.splits if_splits)
    from quantity_number_parts [OF q(1)] obtain sg ip fp where p: "trim v = sg @ ip @ fp @ suf" "num = sg @ ip @ fp"
      "sg = [] \<or> sg \<in> {''+'', ''-''} \<and> ip \<noteq> []" "number_digits ip fp" by blast
    have "decimal_places num = length (drop 1 fp)" unfolding p(2) using p(3,4) by (intro number_places) auto
    then have "length fp \<le> 4" using q(2) by simp
    then show ?thesis unfolding is_quantity_def using p(1,3,4) q(3) by blast
  qed simp
next
  assume r: "trim v = [] \<or> is_quantity (trim v)"
  show "validateKubernetesQuantity v"
  proof (cases "trim v = []")
    case False
    with r obtain sg ip fp suf where p: "trim v = sg @ ip @ fp @ suf" "sg = [] \<or> sg \<in> {''+'', ''-''} \<and> ip \<noteq> []"
      "number_digits ip fp" "length fp \<le> 4" "suf = [] \<or> suf \<in> set BINARY_SUFFIXES \<or> suf \<in> set DECIMAL_SUFFIXES \<or> exponent_suffix suf"
      unfolding is_quantity_def by blast
    have "suf = [] \<or> \<not> is_digit (hd suf) \<and> hd suf \<noteq> CHR ''.''" "list_all (\<lambda>c. \<not> line_terminator c) suf"
      using suffix_plain [of suf] p(5) by auto
    moreover have "decimal_places (sg @ ip @ fp) \<le> 3" using number_places [of sg ip fp] p(2-4) by auto
    ultimately show ?thesis
      using False p(5) quantity_number_of [OF p(2,3), of suf] unfolding validateKubernetesQuantity_def Let_def p(1) by auto
  qed (simp add: validateKubernetesQuantity_def)
qed

section \<open>The texts that are durations\<close>

inductive duration_text :: "string \<Rightarrow> bool" where
  last_unit: "\<lbrakk>sg = [] \<or> sg = ''-''; number_digits ip fp; u \<in> set DURATION_UNITS\<rbrakk> \<Longrightarrow> duration_text (sg @ ip @ fp @ u)"
| more_units: "\<lbrakk>sg = [] \<or> sg = ''-''; number_digits ip fp; u \<in> set DURATION_UNITS;
    list_all (\<lambda>c. is_ws c \<and> \<not> line_terminator c) w; duration_text s\<rbrakk> \<Longrightarrow> duration_text (sg @ ip @ fp @ u @ w @ s)"

lemma unit_cases:
  assumes "u \<in> set DURATION_UNITS"
  obtains "u = ''ns''" | "u = ''us''" | "u = [CHR 0xB5, CHR ''s'']" | "u = ''ms''" | "u = ''s''" | "u = ''m''" | "u = ''h''"
  using assms by (auto simp: DURATION_UNITS_def)

lemma unit_chars:
  assumes "u \<in> set DURATION_UNITS"
  shows "u \<noteq> []" "\<not> is_digit (hd u)" "hd u \<noteq> CHR ''.''" "\<not> is_ws (last u)" "list_all (\<lambda>c. \<not> line_terminator c) u"
proof -
  have "u \<noteq> [] \<and> \<not> is_digit (hd u) \<and> hd u \<noteq> CHR ''.'' \<and> \<not> is_ws (last u) \<and> list_all (\<lambda>c. \<not> line_terminator c) u"
    using assms by (cases rule: unit_cases) (simp_all add: is_digit_def is_ws_def line_terminator_def)
  then show "u \<noteq> []" "\<not> is_digit (hd u)" "hd u \<noteq> CHR ''.''" "\<not> is_ws (last u)" "list_all (\<lambda>c. \<not> line_terminator c) u"
    by blast+
qed

lemma unit_found:
  assumes "u \<in> set DURATION_UNITS" and "t = [] \<or> hd t \<noteq> CHR ''s''"
  shows "find (\<lambda>v. starts_with v (u @ t)) DURATION_UNITS = Some u"
  using assms(1) by (cases rule: unit_cases; use assms(2) in \<open>cases t; simp add: DURATION_UNITS_def\<close>)

lemma duration_number_parts:
  assumes "duration_number s = Some (num, r)"
  shows "\<exists>sg ip fp. s = sg @ ip @ fp @ r \<and> (sg = [] \<or> sg = ''-'') \<and> number_digits ip fp"
proof -
  define sg where "sg = takeWhile (\<lambda>c. c = CHR ''-'') (take 1 s)"
  define q where "q = drop (length sg) s"
  define ip where "ip = takeWhile is_digit q"
  define r1 where "r1 = dropWhile is_digit q"
  define dot where "dot = takeWhile (\<lambda>c. c = CHR ''.'') (take 1 r1)"
  define r2 where "r2 = drop (length dot) r1"
  define fp where "fp = takeWhile is_digit r2"
  have "s = sg @ q" unfolding q_def sg_def by (rule lead(1) [symmetric])
  moreover have "r1 = dot @ r2" unfolding r2_def dot_def by (rule lead(1) [symmetric])
  moreover have "q = ip @ r1" "r2 = fp @ dropWhile is_digit r2" by (simp_all add: ip_def r1_def fp_def)
  ultimately have s: "s = sg @ q" "q = ip @ r1" "r1 = dot @ r2" "r2 = fp @ dropWhile is_digit r2" by blast+
  have sg: "sg = [] \<or> sg = ''-''" using lead(2) [of "\<lambda>c. c = CHR ''-''" s] by (auto simp: sg_def)
  have dot: "dot = [] \<or> dot = ''.''" using lead(2) [of "\<lambda>c. c = CHR ''.''" r1] by (auto simp: dot_def)
  have d: "list_all is_digit ip" "list_all is_digit fp" by (simp_all add: ip_def fp_def takeWhile_all)
  have "duration_number s =
      (if ip \<noteq> [] \<or> dot \<noteq> [] \<and> fp \<noteq> []
       then Some (sg @ ip @ dot @ (if dot = [] then [] else fp), if dot = [] then r1 else dropWhile is_digit r2) else None)"
    unfolding duration_number_def Let_def fp_def r2_def dot_def r1_def ip_def q_def sg_def by (rule refl)
  then have n: "ip \<noteq> [] \<or> dot \<noteq> [] \<and> fp \<noteq> []" "r = (if dot = [] then r1 else dropWhile is_digit r2)"
    using assms by (auto split: if_splits)
  show ?thesis
  proof (cases "dot = []")
    case True
    then have "s = sg @ ip @ [] @ r \<and> number_digits ip []" using n s d by (simp add: number_digits_def)
    then show ?thesis using sg by blast
  next
    case False
    then have "s = sg @ ip @ (dot @ fp) @ r \<and> number_digits ip (dot @ fp)"
      using n s d dot by (cases fp) (auto simp: number_digits_def)
    then show ?thesis using sg by blast
  qed
qed

lemma duration_number_of:
  assumes "sg = [] \<or> sg = ''-''" and "number_digits ip fp" and "r = [] \<or> \<not> is_digit (hd r) \<and> hd r \<noteq> CHR ''.''"
  shows "duration_number (sg @ ip @ fp @ r) = Some (sg @ ip @ fp, r)"
proof -
  have "\<not> hd (ip @ fp @ r) = CHR ''-''" using number_digits_head(2) [OF assms(2), of r] by (auto simp: is_sign_def)
  then have sg: "takeWhile (\<lambda>c. c = CHR ''-'') (take 1 (sg @ ip @ fp @ r)) = sg"
    using assms(1) lead_none [of "ip @ fp @ r" "\<lambda>c. c = CHR ''-''"] by auto
  have d: "drop (length sg) (sg @ ip @ fp @ r) = ip @ fp @ r" by simp
  have q: "duration_number (sg @ ip @ fp @ r) =
      (if ip \<noteq> [] \<or> take 1 fp \<noteq> [] \<and> drop 1 fp \<noteq> []
       then Some (sg @ ip @ take 1 fp @ (if take 1 fp = [] then [] else drop 1 fp), if take 1 fp = [] then fp @ r else r) else None)"
    unfolding duration_number_def Let_def sg d number_at [OF assms(2,3)] by (rule refl)
  have "ip \<noteq> [] \<or> take 1 fp \<noteq> [] \<and> drop 1 fp \<noteq> []"
    using assms(2) by (cases fp; cases "tl fp") (auto simp: number_digits_def)
  then show ?thesis unfolding q by (cases fp) auto
qed

lemma duration_step_of:
  assumes "sg = [] \<or> sg = ''-''" and "number_digits ip fp" and "u \<in> set DURATION_UNITS"
    and "t = [] \<or> hd t \<noteq> CHR ''s''" and "list_all (\<lambda>c. \<not> line_terminator c) t"
  shows "duration_step (sg @ ip @ fp @ u @ t) = Some t"
proof -
  have "u @ t = [] \<or> \<not> is_digit (hd (u @ t)) \<and> hd (u @ t) \<noteq> CHR ''.''" using unit_chars [OF assms(3)] by (cases u) simp_all
  note n = duration_number_of [OF assms(1,2) this]
  show ?thesis using assms(5) by (simp add: duration_step_def n unit_found [OF assms(3,4)] Let_def)
qed

lemma number_plain:
  assumes "number_digits ip fp"
  shows "list_all (\<lambda>c. is_digit c \<or> c = CHR ''.'') (ip @ fp)"
  using assms by (cases fp) (auto simp: number_digits_def list_all_iff)

lemma number_no_line: "is_digit c \<or> c = CHR ''.'' \<or> c = CHR ''-'' \<Longrightarrow> \<not> line_terminator c"
  by (auto simp: is_digit_def line_terminator_def Let_def)

lemma duration_text_shape:
  assumes "duration_text s"
  shows "s \<noteq> [] \<and> \<not> is_ws (hd s) \<and> hd s \<noteq> CHR ''s'' \<and> \<not> is_ws (last s) \<and> list_all (\<lambda>c. \<not> line_terminator c) s"
proof -
  have head: "sg @ ip @ fp @ r \<noteq> [] \<and> \<not> is_ws (hd (sg @ ip @ fp @ r)) \<and> hd (sg @ ip @ fp @ r) \<noteq> CHR ''s''"
    if "sg = [] \<or> sg = ''-''" "number_digits ip fp" for sg ip fp r
    using that by (cases ip; cases fp) (auto simp: number_digits_def is_digit_def is_ws_def)
  have plain: "list_all (\<lambda>c. \<not> line_terminator c) (sg @ ip @ fp)" if "sg = [] \<or> sg = ''-''" "number_digits ip fp" for sg ip fp
  proof -
    have "\<forall>c \<in> set (sg @ ip @ fp). is_digit c \<or> c = CHR ''.'' \<or> c = CHR ''-''"
      using that(1) number_plain [OF that(2)] by (auto simp: list_all_iff)
    then show ?thesis using number_no_line by (metis list_all_iff)
  qed
  show ?thesis using assms
  proof induction
    case (last_unit sg ip fp u)
    then show ?case using head [of sg ip fp u] plain [of sg ip fp] unit_chars [of u] by simp
  next
    case (more_units sg ip fp u w s)
    have "list_all (\<lambda>c. \<not> line_terminator c) w" using more_units(4) by (simp add: list_all_iff)
    then show ?case using more_units head [of sg ip fp "u @ w @ s"] plain [of sg ip fp] unit_chars [of u] by simp
  qed
qed

lemma trim_after_ws: "list_all is_ws w \<Longrightarrow> trim (w @ s) = trim s"
  by (induction w) (simp_all add: trim_def)

lemma duration_accepted: "duration_text s \<Longrightarrow> age_loop b s"
proof (induction arbitrary: b rule: duration_text.induct)
  case (last_unit sg ip fp u)
  then have "duration_step (sg @ ip @ fp @ u) = Some []" using duration_step_of [of sg ip fp u "[]"] by simp
  then show ?case by (simp add: age_loop.simps [of b] age_loop.simps [of True "[]"] trim_def)
next
  case (more_units sg ip fp u w s)
  note shape = duration_text_shape [OF more_units.hyps(5)]
  have w: "list_all is_ws w" "list_all (\<lambda>c. \<not> line_terminator c) w" using more_units.hyps(4) by (simp_all add: list_all_iff)
  have "hd (w @ s) \<noteq> CHR ''s''" using w(1) shape by (cases w) (auto simp: is_ws_def)
  then have "duration_step (sg @ ip @ fp @ u @ w @ s) = Some (w @ s)"
    using more_units.hyps(1-3) w(2) shape by (intro duration_step_of) simp_all
  moreover have "trim (w @ s) = s" using trim_after_ws [OF w(1)] trim_bounded [of s] shape by simp
  ultimately show ?case using more_units.IH by (simp add: age_loop.simps [of b])
qed

lemma trim_parts: "\<exists>w w'. r = w @ trim r @ w' \<and> list_all is_ws w \<and> list_all is_ws w'"
proof (intro exI conjI)
  let ?d = "dropWhile is_ws r"
  have "rev ?d = takeWhile is_ws (rev ?d) @ dropWhile is_ws (rev ?d)" by simp
  then have "?d = rev (dropWhile is_ws (rev ?d)) @ rev (takeWhile is_ws (rev ?d))" by (metis rev_append rev_rev_ident)
  then show "r = takeWhile is_ws r @ trim r @ rev (takeWhile is_ws (rev ?d))"
    unfolding trim_def by (metis takeWhile_dropWhile_id)
qed (simp_all add: takeWhile_all)

lemma trim_ends: "trim r \<noteq> [] \<Longrightarrow> \<not> is_ws (hd (trim r)) \<and> \<not> is_ws (last (trim r))"
proof -
  assume a: "trim r \<noteq> []"
  let ?d = "dropWhile is_ws r"
  have l: "dropWhile is_ws (rev ?d) \<noteq> []" using a by (simp add: trim_def)
  then have "\<not> is_ws (last (trim r))" by (simp add: trim_def last_rev hd_dropWhile)
  moreover obtain w where "?d = trim r @ w" unfolding trim_def by (metis rev_append rev_rev_ident takeWhile_dropWhile_id)
  then have "hd ?d = hd (trim r)" "?d \<noteq> []" using a by (metis hd_append2, auto)
  then have "\<not> is_ws (hd (trim r))" by (metis hd_dropWhile)
  ultimately show ?thesis by blast
qed

lemma duration_read:
  "age_loop b s \<Longrightarrow> s = [] \<or> \<not> is_ws (hd s) \<and> \<not> is_ws (last s) \<Longrightarrow> s = [] \<or> duration_text s"
proof (induction b s rule: age_loop.induct)
  case (1 b s)
  show ?case
  proof (cases "s = []")
    case False
    then have hd: "\<not> is_ws (hd s)" and last: "\<not> is_ws (last s)" using "1.prems"(2) by simp_all
    have "\<not> list_all is_ws s" using False hd by (cases s) simp_all
    then obtain t where t: "duration_step s = Some t"
      using "1.prems"(1) False by (auto simp: age_loop.simps [of b] split: option.splits)
    then obtain n q u where n: "duration_number s = Some (n, q)" and u: "find (\<lambda>u. starts_with u q) DURATION_UNITS = Some u"
      and r: "t = drop (length u) q" "list_all (\<lambda>c. \<not> line_terminator c) t"
      by (auto simp: duration_step_def Let_def split: option.splits prod.splits if_splits)
    have un: "u \<in> set DURATION_UNITS" and q: "q = u @ t" using u r(1) starts_with_take [of u q] by (auto simp: find_Some_iff)
    obtain sg ip fp where s: "s = sg @ ip @ fp @ u @ t" "sg = [] \<or> sg = ''-''" "number_digits ip fp"
      using duration_number_parts [OF n] q by auto
    obtain w w' where w: "t = w @ trim t @ w'" "list_all is_ws w" "list_all is_ws w'" using trim_parts by blast
    have lt: "t = [] \<or> \<not> is_ws (last t)" using last unfolding s(1) by (cases "t = []") simp_all
    then have "w' = []" using w by (metis append_is_Nil_conv last_appendR last_in_set list_all_iff)
    have "age_loop True (trim t)" using "1.prems"(1) False t by (simp add: age_loop.simps [of b])
    then have "trim t = [] \<or> duration_text (trim t)" using "1.IH" [OF False t] trim_ends [of t] by blast
    then show ?thesis
    proof
      assume e: "trim t = []"
      have "t = []" using w e \<open>w' = []\<close> lt by (metis append_Nil2 last_in_set list_all_iff)
      then show ?thesis using s un by (auto intro: duration_text.last_unit)
    next
      assume d: "duration_text (trim t)"
      have "list_all (\<lambda>c. is_ws c \<and> \<not> line_terminator c) w" using w(2) r(2) list_all_append [of _ w "trim t @ w'"] w(1) by (simp add: list_all_iff)
      then have "duration_text (sg @ ip @ fp @ u @ w @ trim t)" using s un d by (intro duration_text.more_units)
      then show ?thesis using s(1) w(1) \<open>w' = []\<close> by simp
    qed
  qed simp
qed

text \<open>
  C32. The age of a stream is accepted if and only if it is blank or a sequence of numbers with units, where
  every number may have its own minus sign and white space, but no line break, may stand between the parts.
\<close>

theorem max_age_spec: "validateNatsMaxAge v \<longleftrightarrow> trim v = [] \<or> duration_text (trim v)"
proof (cases "trim v = []")
  case False
  then show ?thesis
    using duration_accepted [of "trim v"] duration_read [of False "trim v"] trim_ends [of v] by (auto simp: validateNatsMaxAge_def Let_def)
qed (simp add: validateNatsMaxAge_def)

end
