(* ===== verification/Pipeline_Resources.thy ===== *)
theory Pipeline_Resources
  imports Store_Hydration Pipeline_Import Resource_Quantities
begin

text \<open>
  The resources of a pipeline: immutable paths and the sanitising before resources are sent
  (ui/src/modules/resources/utils.ts), the form and its schema (PipelineResourcesFormManager.tsx,
  pipeline-resources.schema.ts) and the defaults (ui/src/config/resource-defaults.ts).
\<close>

section \<open>Paths\<close>

text \<open>
  A property of an object, or an element of an array; other properties of arrays and those objects inherit
  are outside the model.
\<close>

definition element_index :: "string \<Rightarrow> nat option" where
  "element_index p = (if p \<noteq> [] \<and> list_all is_digit p \<and> nat_digits (digits_value p) = p then Some (digits_value p) else None)"

fun prop_of :: "string \<Rightarrow> json \<Rightarrow> json" where
  "prop_of p (JObj kvs) = jget p (JObj kvs)"
| "prop_of p (JArr xs) = (case element_index p of Some i \<Rightarrow> if i < length xs then xs ! i else JUndef | None \<Rightarrow> JUndef)"
| "prop_of p _ = JUndef"

text \<open>Assigning a property of a primitive value raises a \<open>TypeError\<close>, the result \<open>None\<close>.\<close>

fun put_prop :: "string \<Rightarrow> json \<Rightarrow> json \<Rightarrow> json option" where
  "put_prop p v (JObj kvs) = Some (JObj (assign_property kvs p v))"
| "put_prop p v (JArr xs) =
     (case element_index p of
        Some i \<Rightarrow> Some (JArr (if i < length xs then xs[i := v] else xs @ replicate (i - length xs) JUndef @ [v]))
      | None \<Rightarrow> None)"
| "put_prop p v _ = None"

fun get_parts :: "string list \<Rightarrow> json \<Rightarrow> json" where
  "get_parts [] current = current"
| "get_parts (p # ps) current = (if is_object current then get_parts ps (prop_of p current) else JUndef)"

fun set_parts :: "string list \<Rightarrow> json \<Rightarrow> json \<Rightarrow> json option" where
  "set_parts [] v current = Some v"
| "set_parts [p] v current = put_prop p v current"
| "set_parts (p # q # ps) v current =
     (let next = (if nullish (prop_of p current) then if q \<noteq> [] \<and> list_all is_digit q then JArr [] else JObj [] else prop_of p current)
      in case set_parts (q # ps) v next of Some n \<Rightarrow> put_prop p n current | None \<Rightarrow> None)"

definition getByPath :: "json \<Rightarrow> string \<Rightarrow> json" where
  "getByPath obj path = get_parts (split_on (CHR ''/'') path) obj"

definition setByPath :: "json \<Rightarrow> string \<Rightarrow> json \<Rightarrow> json option" where
  "setByPath obj path v = set_parts (split_on (CHR ''/'') path) v obj"

definition restore_path :: "json \<Rightarrow> string \<Rightarrow> json option \<Rightarrow> json option" where
  "restore_path current path r =
     (case r of
        None \<Rightarrow> None
      | Some sanitized \<Rightarrow>
          if getByPath current path = JUndef then Some sanitized else setByPath sanitized path (getByPath current path))"

definition sanitizePipelineResourcesForSubmit :: "json \<Rightarrow> json \<Rightarrow> string list \<Rightarrow> json option" where
  "sanitizePipelineResourcesForSubmit current proposed immutable =
     (if \<not> jtruthy current \<or> immutable = [] then Some proposed
      else fold (restore_path current) immutable (Some proposed))"

section \<open>Defaults\<close>

definition component_defaults :: "json list \<Rightarrow> json" where
  "component_defaults storage =
     JObj ([(''requests'', JObj [(''cpu'', JStr ''100m''), (''memory'', JStr ''128Mi'')]),
       (''limits'', JObj [(''cpu'', JStr ''1500m''), (''memory'', JStr ''1.5Gi'')])] @
       map (\<lambda>s. (''storage'', s)) storage @ [(''replicas'', JNum (Fin 1 0))])"

definition HARDCODED_DEFAULTS :: json where
  "HARDCODED_DEFAULTS =
     JObj [(''nats'', JObj [(''stream'', JObj [(''maxAge'', JStr ''24h''), (''maxBytes'', JStr ''0'')])]),
       (''ingestor'', JObj [(''base'', component_defaults [])]),
       (''join'', component_defaults []), (''sink'', component_defaults []),
       (''transform'', component_defaults [JObj [(''size'', JStr ''10Gi'')]])]"

text \<open>\<open>str(key)\<close> and the places the environment overwrites; the guards on the copy always hold.\<close>

definition env_text :: "(string \<rightharpoonup> string) \<Rightarrow> string \<Rightarrow> string option" where
  "env_text env key = (case env key of Some v \<Rightarrow> if trim v \<noteq> [] then Some (trim v) else None | None \<Rightarrow> None)"

definition resource_variables :: "string \<Rightarrow> string \<Rightarrow> (string \<times> string list) list" where
  "resource_variables name part =
     (let places = split_on (CHR ''/'') part
      in [(''NEXT_PUBLIC_'' @ name @ ''_CPU_REQUEST'', places @ [''requests'', ''cpu'']),
          (''NEXT_PUBLIC_'' @ name @ ''_MEMORY_REQUEST'', places @ [''requests'', ''memory'']),
          (''NEXT_PUBLIC_'' @ name @ ''_CPU_LIMIT'', places @ [''limits'', ''cpu'']),
          (''NEXT_PUBLIC_'' @ name @ ''_MEMORY_LIMIT'', places @ [''limits'', ''memory''])])"

definition ENV_PLACES :: "(string \<times> string list) list" where
  "ENV_PLACES =
     [(''NEXT_PUBLIC_NATS_MAX_STREAM_AGE'', [''nats'', ''stream'', ''maxAge'']),
      (''NEXT_PUBLIC_NATS_MAX_STREAM_BYTES'', [''nats'', ''stream'', ''maxBytes''])] @
     resource_variables ''INGESTOR'' ''ingestor/base'' @ resource_variables ''JOIN'' ''join'' @
     resource_variables ''SINK'' ''sink'' @ resource_variables ''DEDUP'' ''transform'' @
     [(''NEXT_PUBLIC_DEDUP_STORAGE_SIZE'', [''transform'', ''storage'', ''size''])]"

definition override_place :: "(string \<rightharpoonup> string) \<Rightarrow> string \<times> string list \<Rightarrow> json \<Rightarrow> json" where
  "override_place env kp out =
     (case env_text env (fst kp) of
        None \<Rightarrow> out
      | Some v \<Rightarrow> (case set_parts (snd kp) (JStr v) out of Some out' \<Rightarrow> out' | None \<Rightarrow> out))"

definition resourceDefaultsFromEnv :: "(string \<rightharpoonup> string) \<Rightarrow> json" where
  "resourceDefaultsFromEnv env = fold (override_place env) ENV_PLACES HARDCODED_DEFAULTS"

section \<open>The form\<close>

definition ensure :: "json \<Rightarrow> json" where
  "ensure v = or_nullish v (JObj [])"

text \<open>\<open>String(v)\<close> of a text or a number; the type of the resources allows nothing else here.\<close>

definition form_text :: "json \<Rightarrow> json" where
  "form_text v = JStr (case v of JStr s \<Rightarrow> s | JNum n \<Rightarrow> number_to_string n | _ \<Rightarrow> [])"

definition ensureComponent :: "json \<Rightarrow> (string \<times> json) list" where
  "ensureComponent c =
     (if jtruthy c
      then [(''requests'', ensure (jget ''requests'' c)), (''limits'', ensure (jget ''limits'' c)),
        (''storage'', if jtruthy (jget ''storage'' c) then ensure (jget ''storage'' c) else JUndef),
        (''replicas'', if nullish (jget ''replicas'' c) then JUndef else jget ''replicas'' c)]
      else [])"

definition resourcesToFormValues :: "json \<Rightarrow> json" where
  "resourcesToFormValues r =
     (if \<not> jtruthy r then JObj []
      else let nats = jget ''nats'' r; ingestor = jget ''ingestor'' r; stream = jget ''stream'' nats; sink = jget ''sink'' r
           in JObj [(''nats'', if jtruthy nats
                then JObj [(''stream'', JObj [(''maxAge'', form_text (jget ''maxAge'' stream)), (''maxBytes'', form_text (jget ''maxBytes'' stream))])]
                else JUndef),
              (''ingestor'', if jtruthy ingestor
                then JObj (map (\<lambda>k. (k, JObj (ensureComponent (jget k ingestor)))) [''base'', ''left'', ''right'']) else JUndef),
              (''join'', JObj (ensureComponent (jget ''join'' r))),
              (''sink'', JObj (assign_property (ensureComponent sink) ''replicas''
                (if nullish (jget ''replicas'' sink) then JNum (Fin 1 0) else jget ''replicas'' sink))),
              (''transform'', JObj (ensureComponent (jget ''transform'' r)))])"

text \<open>Properties without a value and empty texts and objects are dropped; replicas become numbers.\<close>

fun prune :: "string \<Rightarrow> json \<Rightarrow> json" and prune_entries :: "(string \<times> json) list \<Rightarrow> (string \<times> json) list"
  and prune_elements :: "nat \<Rightarrow> json list \<Rightarrow> (string \<times> json) list" where
  "prune k JUndef = JUndef"
| "prune k JNull = JUndef"
| "prune k (JBool b) = JBool b"
| "prune k (JNum n) = (if k = ''replicas'' \<and> isNaN n then JUndef else JNum n)"
| "prune k (JStr s) =
     (if k = ''replicas'' then (if isNaN (parse_int s) then JUndef else JNum (parse_int s))
      else if s = [] then JUndef else JStr s)"
| "prune k (JObj kvs) = (if prune_entries kvs = [] then JUndef else JObj (prune_entries kvs))"
| "prune k (JArr xs) = (if prune_elements 0 xs = [] then JUndef else JObj (prune_elements 0 xs))"
| "prune_entries [] = []"
| "prune_entries (kv # kvs) =
     (if prune (fst kv) (snd kv) = JUndef then prune_entries kvs else (fst kv, prune (fst kv) (snd kv)) # prune_entries kvs)"
| "prune_elements i [] = []"
| "prune_elements i (x # xs) =
     (if prune (nat_digits i) x = JUndef then prune_elements (Suc i) xs
      else (nat_digits i, prune (nat_digits i) x) # prune_elements (Suc i) xs)"

definition formValuesToResources :: "json \<Rightarrow> json" where
  "formValuesToResources v =
     (let r = prune [] v; sink = jget ''sink'' r
      in if jtruthy sink \<and> jget ''replicas'' sink = JUndef
         then JObj (assign_property (own_properties r) ''sink'' (JObj (assign_property (own_properties sink) ''replicas'' (JNum (Fin 1 0)))))
         else r)"

section \<open>The schema of the form\<close>

definition text_ok :: "(string \<Rightarrow> bool) \<Rightarrow> json \<Rightarrow> bool" where
  "text_ok valid v \<longleftrightarrow> (case v of JUndef \<Rightarrow> True | JStr s \<Rightarrow> s = [] \<or> valid s | _ \<Rightarrow> False)"

definition replicas_ok :: "json \<Rightarrow> bool" where
  "replicas_ok v \<longleftrightarrow>
     (case v of
        JNum n \<Rightarrow> isInteger n \<and> (case n of Fin m k \<Rightarrow> 1 \<le> m | _ \<Rightarrow> False)
      | JStr s \<Rightarrow> trim s = [] \<or> list_all is_digit (trim s) \<and> 1 \<le> digits_value (trim s)
      | _ \<Rightarrow> nullish v)"

text \<open>An optional object of a shape: what its properties must satisfy, and the values without unknown keys.\<close>

definition object_ok :: "(string \<times> (json \<Rightarrow> bool)) list \<Rightarrow> json \<Rightarrow> bool" where
  "object_ok shape v \<longleftrightarrow> (case v of JUndef \<Rightarrow> True | JObj _ \<Rightarrow> list_all (\<lambda>(k, ok). ok (jget k v)) shape | _ \<Rightarrow> False)"

definition object_values :: "(string \<times> (json \<Rightarrow> json)) list \<Rightarrow> json \<Rightarrow> json" where
  "object_values shape v =
     (case v of
        JObj kvs \<Rightarrow> JObj (concat (map (\<lambda>(k, f). if k \<in> set (map fst kvs) then [(k, f (jget k v))] else []) shape))
      | _ \<Rightarrow> v)"

definition component_ok :: "json \<Rightarrow> bool" where
  "component_ok =
     (let quantity = text_ok validateKubernetesQuantity; lists = object_ok [(''cpu'', quantity), (''memory'', quantity)]
      in object_ok [(''requests'', lists), (''limits'', lists), (''storage'', object_ok [(''size'', quantity)]), (''replicas'', replicas_ok)])"

definition form_ok :: "json \<Rightarrow> bool" where
  "form_ok v \<longleftrightarrow> v \<noteq> JUndef \<and>
     object_ok [(''nats'', object_ok [(''stream'', object_ok [(''maxAge'', text_ok validateNatsMaxAge), (''maxBytes'', text_ok validateNatsMaxBytes)])]),
       (''ingestor'', object_ok [(''base'', component_ok), (''left'', component_ok), (''right'', component_ok)]),
       (''join'', component_ok), (''sink'', component_ok), (''transform'', component_ok)] v"

definition component_values :: "json \<Rightarrow> json" where
  "component_values =
     (let lists = object_values [(''cpu'', id), (''memory'', id)]
      in object_values [(''requests'', lists), (''limits'', lists), (''storage'', object_values [(''size'', id)]), (''replicas'', id)])"

definition form_values :: "json \<Rightarrow> json" where
  "form_values =
     object_values [(''nats'', object_values [(''stream'', object_values [(''maxAge'', id), (''maxBytes'', id)])]),
       (''ingestor'', object_values [(''base'', component_values), (''left'', component_values), (''right'', component_values)]),
       (''join'', component_values), (''sink'', component_values), (''transform'', component_values)]"

text \<open>Submitting the form: a form that is not valid is not submitted.\<close>

definition handleSave :: "json \<Rightarrow> ResourcesStore \<Rightarrow> ResourcesStore option" where
  "handleSave v s =
     (if \<not> form_ok v then None
      else map_option (\<lambda>r. setResources (Some r) s)
        (sanitizePipelineResourcesForSubmit (case pipeline_resources s of Some r \<Rightarrow> r | None \<Rightarrow> JUndef)
          (formValuesToResources (form_values v)) (fields_policy s)))"

section \<open>Immutable paths\<close>

lemma map_of_assign: "map_of (assign_property kvs p v) = (map_of kvs)(p \<mapsto> v)"
  by (induction kvs p v rule: assign_property.induct) auto

lemma element_index_inj: "element_index p = Some i \<Longrightarrow> element_index q = Some i \<Longrightarrow> p = q"
  by (auto simp: element_index_def split: if_splits)

lemma put_prop_objects: "put_prop p v x = Some y \<Longrightarrow> is_object x \<and> is_object y"
  by (cases x) (auto simp: is_object_def split: option.splits)

lemma put_prop_same: "put_prop p v x = Some y \<Longrightarrow> prop_of p y = v"
  by (cases x) (auto simp: map_of_assign nth_append split: option.splits)

lemma put_prop_other:
  assumes "put_prop p v x = Some y" and "q \<noteq> p"
  shows "prop_of q y = prop_of q x"
proof (cases x)
  case (JArr xs)
  then obtain i where i: "element_index p = Some i" using assms(1) by (auto split: option.splits)
  have "element_index q \<noteq> Some i" using element_index_inj [OF i] assms(2) by auto
  then show ?thesis using assms(1) i by (auto simp: JArr nth_append nth_list_update split: option.splits)
qed (use assms in \<open>auto simp: map_of_assign split: option.splits\<close>)

text \<open>Two paths that part at some point.\<close>

fun apart :: "string list \<Rightarrow> string list \<Rightarrow> bool" where
  "apart (p # ps) (q # qs) \<longleftrightarrow> p \<noteq> q \<or> apart ps qs"
| "apart _ _ \<longleftrightarrow> False"

lemma set_parts_same: "set_parts ps v x = Some y \<Longrightarrow> get_parts ps y = v"
proof (induction ps v x arbitrary: y rule: set_parts.induct)
  case (2 p v x)
  then show ?case using put_prop_same put_prop_objects by fastforce
next
  case (3 p q ps v x)
  then show ?case using put_prop_same put_prop_objects by (fastforce simp: Let_def split: option.splits)
qed simp

lemma get_parts_none: "nullish x \<Longrightarrow> qs \<noteq> [] \<Longrightarrow> get_parts qs x = JUndef"
  by (cases qs) (auto simp: nullish_def is_object_def)

lemma get_parts_empty: "qs \<noteq> [] \<Longrightarrow> get_parts qs (JObj []) = JUndef" "qs \<noteq> [] \<Longrightarrow> get_parts qs (JArr []) = JUndef"
  using get_parts_none [of JUndef] by (cases qs; cases "tl qs"; simp add: nullish_def is_object_def split: option.splits)+

lemma apart_nonempty: "apart ps qs \<Longrightarrow> qs \<noteq> []"
  by (cases ps; cases qs) simp_all

lemma set_parts_apart: "set_parts ps v x = Some y \<Longrightarrow> apart ps qs \<Longrightarrow> get_parts qs y = get_parts qs x"
proof (induction ps v x arbitrary: y qs rule: set_parts.induct)
  case (2 p v x)
  then show ?case using put_prop_other put_prop_objects by (cases qs) fastforce+
next
  case (3 p q ps v x)
  then obtain r rs where qs: "qs = r # rs" by (cases qs) auto
  let ?next = "if nullish (prop_of p x) then if q \<noteq> [] \<and> list_all is_digit q then JArr [] else JObj [] else prop_of p x"
  from "3.prems"(1) obtain n where n: "set_parts (q # ps) v ?next = Some n" "put_prop p n x = Some y"
    by (auto simp: Let_def split: option.splits)
  show ?case
  proof (cases "r = p")
    case True
    then have a: "apart (q # ps) rs" using "3.prems"(2) qs by simp
    then have "rs \<noteq> []" by (rule apart_nonempty)
    then have "get_parts rs ?next = get_parts rs (prop_of p x)"
      using get_parts_none [of "prop_of p x" rs] get_parts_empty [of rs] by simp
    with "3.IH" [OF refl n(1) a] show ?thesis
      using put_prop_same [OF n(2)] put_prop_objects [OF n(2)] True qs by simp
  next
    case False
    then show ?thesis using put_prop_other [OF n(2)] put_prop_objects [OF n(2)] qs by simp
  qed
qed simp

text \<open>A path along objects, some of which may be missing.\<close>

definition plain_path :: "string list \<Rightarrow> bool" where
  "plain_path ps \<longleftrightarrow> ps \<noteq> [] \<and> list_all (\<lambda>q. \<not> (q \<noteq> [] \<and> list_all is_digit q)) ps"

definition is_record :: "json \<Rightarrow> bool" where
  "is_record v \<longleftrightarrow> (case v of JObj _ \<Rightarrow> True | _ \<Rightarrow> False)"

fun writable :: "string list \<Rightarrow> json \<Rightarrow> bool" where
  "writable [] x \<longleftrightarrow> True"
| "writable (p # ps) x \<longleftrightarrow> is_record x \<and> (nullish (prop_of p x) \<or> writable ps (prop_of p x))"

lemma writable_empty: "writable ps (JObj [])"
  by (cases ps) (simp_all add: is_record_def nullish_def)

lemma put_record: "is_record x \<Longrightarrow> \<exists>y. put_prop p v x = Some y \<and> is_record y"
  by (cases x) (simp_all add: is_record_def)

lemma next_plain:
  "\<not> (q \<noteq> [] \<and> list_all is_digit q) \<Longrightarrow>
    (if b then if q \<noteq> [] \<and> list_all is_digit q then JArr [] else JObj [] else z) = (if b then JObj [] else z)"
  by (simp only: if_False)

lemma set_writable: "writable ps x \<Longrightarrow> plain_path ps \<Longrightarrow> \<exists>y. set_parts ps v x = Some y"
proof (induction ps v x rule: set_parts.induct)
  case (2 p v x)
  then show ?case using put_record [of x p v] by auto
next
  case (3 p q ps v x)
  let ?next = "if nullish (prop_of p x) then JObj [] else prop_of p x"
  have q: "\<not> (q \<noteq> [] \<and> list_all is_digit q)" "plain_path (q # ps)" using "3.prems"(2) by (simp_all add: plain_path_def)
  have w: "writable (q # ps) ?next" using "3.prems"(1) writable_empty by (auto simp del: writable.simps(2) simp: writable.simps(2) [of p])
  have "writable (q # ps) ?next \<Longrightarrow> plain_path (q # ps) \<Longrightarrow> \<exists>y. set_parts (q # ps) v ?next = Some y"
    using "3.IH" [OF refl] unfolding next_plain [OF q(1)] .
  then obtain n where "set_parts (q # ps) v ?next = Some n" using w q(2) by blast
  moreover obtain y where "put_prop p n x = Some y" using put_record "3.prems"(1) by fastforce
  ultimately show ?case by (simp add: Let_def next_plain [OF q(1)])
qed (simp add: plain_path_def)

lemma writable_kept:
  "set_parts ps v x = Some y \<Longrightarrow> plain_path ps \<Longrightarrow> apart ps qs \<Longrightarrow> writable qs x \<Longrightarrow> writable qs y"
proof (induction ps v x arbitrary: y qs rule: set_parts.induct)
  case (2 p v x)
  then obtain r rs where "qs = r # rs" "r \<noteq> p" by (cases qs) auto
  then show ?case using 2 put_prop_other put_record [of x p v] by auto
next
  case (3 p q ps v x)
  then obtain r rs where qs: "qs = r # rs" by (cases qs) auto
  have q: "\<not> (q \<noteq> [] \<and> list_all is_digit q)" "plain_path (q # ps)" using "3.prems"(2) by (simp_all add: plain_path_def)
  let ?next = "if nullish (prop_of p x) then JObj [] else prop_of p x"
  from "3.prems"(1) obtain n where n: "set_parts (q # ps) v ?next = Some n" "put_prop p n x = Some y"
    unfolding set_parts.simps Let_def next_plain [OF q(1)] by (auto split: option.splits)
  have rec: "is_record y" using "3.prems"(4) qs put_record [of x p n] n(2) by auto
  show ?case
  proof (cases "r = p")
    case True
    have a: "apart (q # ps) rs" using "3.prems"(3) qs True by simp
    have "writable rs ?next" using "3.prems"(4) qs True writable_empty by auto
    then have "writable rs n" using "3.IH" [OF refl _ q(2) a] n(1) unfolding next_plain [OF q(1)] by blast
    then show ?thesis using put_prop_same [OF n(2)] rec True qs by simp
  next
    case False
    then show ?thesis using put_prop_other [OF n(2)] "3.prems"(4) rec qs by simp
  qed
qed (simp add: plain_path_def)

abbreviation parts :: "string \<Rightarrow> string list" where
  "parts \<equiv> split_on (CHR ''/'')"

definition apart_paths :: "string list \<Rightarrow> bool" where
  "apart_paths paths \<longleftrightarrow> distinct paths \<and> (\<forall>p \<in> set paths. \<forall>q \<in> set paths. p \<noteq> q \<longrightarrow> apart (parts p) (parts q))"

lemma restore_all:
  assumes "apart_paths paths" and "\<forall>p \<in> set paths. plain_path (parts p) \<and> writable (parts p) x"
  shows "\<exists>r. fold (restore_path current) paths (Some x) = Some r \<and>
    (\<forall>p \<in> set paths. getByPath current p \<noteq> JUndef \<longrightarrow> getByPath r p = getByPath current p) \<and>
    (\<forall>q. (\<forall>p \<in> set paths. apart (parts p) (parts q)) \<longrightarrow> getByPath r q = getByPath x q)"
  using assms
proof (induction paths arbitrary: x)
  case (Cons p paths)
  have rest: "apart_paths paths" "p \<notin> set paths" using Cons.prems(1) by (simp_all add: apart_paths_def)
  have away: "apart (parts p) (parts q)" "apart (parts q) (parts p)" if "q \<in> set paths" for q
    using Cons.prems(1) that rest(2) by (auto simp: apart_paths_def)
  obtain x1 where x1: "restore_path current p (Some x) = Some x1"
    "getByPath current p \<noteq> JUndef \<Longrightarrow> getByPath x1 p = getByPath current p"
    "\<And>q. apart (parts p) (parts q) \<Longrightarrow> getByPath x1 q = getByPath x q"
    "\<And>q. apart (parts p) (parts q) \<Longrightarrow> writable (parts q) x \<Longrightarrow> writable (parts q) x1"
  proof (cases "getByPath current p = JUndef")
    case True
    then show ?thesis using that [of x] by (simp add: restore_path_def)
  next
    case False
    have w: "plain_path (parts p)" "writable (parts p) x" using Cons.prems(2) by simp_all
    obtain y where y: "set_parts (parts p) (getByPath current p) x = Some y" using set_writable [OF w(2,1)] by blast
    show ?thesis
      using that [of y] False y set_parts_same [OF y] set_parts_apart [OF y] writable_kept [OF y w(1)]
      by (simp add: restore_path_def setByPath_def getByPath_def)
  qed
  have "\<forall>q \<in> set paths. plain_path (parts q) \<and> writable (parts q) x1"
    using Cons.prems(2) x1(4) away by simp
  from Cons.IH [OF rest(1) this] obtain r where r: "fold (restore_path current) paths (Some x1) = Some r"
    "\<forall>q \<in> set paths. getByPath current q \<noteq> JUndef \<longrightarrow> getByPath r q = getByPath current q"
    "\<And>q. (\<forall>p \<in> set paths. apart (parts p) (parts q)) \<Longrightarrow> getByPath r q = getByPath x1 q" by blast
  have "getByPath r p = getByPath x1 p" using r(3) away(2) by blast
  then show ?case using r x1(1-3) by auto
qed simp

text \<open>
  C33. Resources are sent with the current value at every immutable path that has one, and as the user left
  them everywhere else, whenever the immutable paths part from each other and lead along objects.
\<close>

theorem immutable_kept:
  assumes "jtruthy current" and "apart_paths immutable"
    and "\<forall>p \<in> set immutable. plain_path (parts p) \<and> writable (parts p) proposed"
  shows "\<exists>r. sanitizePipelineResourcesForSubmit current proposed immutable = Some r \<and>
    (\<forall>p \<in> set immutable. getByPath current p \<noteq> JUndef \<longrightarrow> getByPath r p = getByPath current p) \<and>
    (\<forall>q. (\<forall>p \<in> set immutable. apart (parts p) (parts q)) \<longrightarrow> getByPath r q = getByPath proposed q)"
  using restore_all [OF assms(2,3)] assms(1) by (cases immutable) (simp_all add: sanitizePipelineResourcesForSubmit_def)

lemma immutable_kept_witness:
  "\<exists>r. sanitizePipelineResourcesForSubmit HARDCODED_DEFAULTS (JObj [(''sink'', JObj [(''replicas'', JNum (Fin 2 0))])])
      [''nats/stream/maxAge''] = Some r \<and> getByPath r ''nats/stream/maxAge'' = JStr ''24h'' \<and> getByPath r ''sink/replicas'' = JNum (Fin 2 0)"
proof -
  have p: "parts ''nats/stream/maxAge'' = [''nats'', ''stream'', ''maxAge'']" "parts ''sink/replicas'' = [''sink'', ''replicas'']" by simp_all
  have "getByPath HARDCODED_DEFAULTS ''nats/stream/maxAge'' = JStr ''24h''"
    by (simp add: getByPath_def p HARDCODED_DEFAULTS_def is_object_def)
  moreover have "getByPath (JObj [(''sink'', JObj [(''replicas'', JNum (Fin 2 0))])]) ''sink/replicas'' = JNum (Fin 2 0)"
    by (simp add: getByPath_def p is_object_def)
  moreover have "jtruthy HARDCODED_DEFAULTS" "apart_paths [''nats/stream/maxAge'']" "apart (parts ''nats/stream/maxAge'') (parts ''sink/replicas'')"
    "plain_path (parts ''nats/stream/maxAge'')" "writable (parts ''nats/stream/maxAge'') (JObj [(''sink'', JObj [(''replicas'', JNum (Fin 2 0))])])"
    by (simp_all add: p HARDCODED_DEFAULTS_def apart_paths_def plain_path_def is_digit_def is_record_def nullish_def)
  ultimately show ?thesis
    using immutable_kept [of HARDCODED_DEFAULTS "[''nats/stream/maxAge'']" "JObj [(''sink'', JObj [(''replicas'', JNum (Fin 2 0))])]"] by fastforce
qed

section \<open>The defaults in the form\<close>

definition env_or :: "(string \<rightharpoonup> string) \<Rightarrow> string \<Rightarrow> string \<Rightarrow> string" where
  "env_or env key d = (case env_text env key of None \<Rightarrow> d | Some v \<Rightarrow> v)"

lemma env_or_given [simp]: "d \<noteq> [] \<Longrightarrow> env_or env key d \<noteq> []"
  by (auto simp: env_or_def env_text_def split: option.splits if_splits)

lemma override_text:
  assumes "get_parts ps out = JStr d" and "set_parts ps (JStr d) out = Some out"
    and "set_parts ps (JStr (env_or env k d)) out = Some out'"
  shows "override_place env (k, ps) out = out'"
  using assms by (auto simp: override_place_def env_or_def split: option.splits)

definition component_with :: "(string \<rightharpoonup> string) \<Rightarrow> string \<Rightarrow> json list \<Rightarrow> json" where
  "component_with env name storage =
     JObj ([(''requests'', JObj [(''cpu'', JStr (env_or env (''NEXT_PUBLIC_'' @ name @ ''_CPU_REQUEST'') ''100m'')),
          (''memory'', JStr (env_or env (''NEXT_PUBLIC_'' @ name @ ''_MEMORY_REQUEST'') ''128Mi''))]),
       (''limits'', JObj [(''cpu'', JStr (env_or env (''NEXT_PUBLIC_'' @ name @ ''_CPU_LIMIT'') ''1500m'')),
          (''memory'', JStr (env_or env (''NEXT_PUBLIC_'' @ name @ ''_MEMORY_LIMIT'') ''1.5Gi''))])] @
       map (\<lambda>s. (''storage'', s)) storage @ [(''replicas'', JNum (Fin 1 0))])"

lemma component_overrides:
  "fold (override_place env) (resource_variables ''INGESTOR'' ''ingestor/base'')
     (JObj [(''nats'', n), (''ingestor'', JObj [(''base'', component_defaults [])]), (''join'', j), (''sink'', s), (''transform'', t)]) =
   JObj [(''nats'', n), (''ingestor'', JObj [(''base'', component_with env ''INGESTOR'' [])]), (''join'', j), (''sink'', s), (''transform'', t)]"
  "fold (override_place env) (resource_variables ''JOIN'' ''join'')
     (JObj [(''nats'', n), (''ingestor'', i), (''join'', component_defaults []), (''sink'', s), (''transform'', t)]) =
   JObj [(''nats'', n), (''ingestor'', i), (''join'', component_with env ''JOIN'' []), (''sink'', s), (''transform'', t)]"
  "fold (override_place env) (resource_variables ''SINK'' ''sink'')
     (JObj [(''nats'', n), (''ingestor'', i), (''join'', j), (''sink'', component_defaults []), (''transform'', t)]) =
   JObj [(''nats'', n), (''ingestor'', i), (''join'', j), (''sink'', component_with env ''SINK'' []), (''transform'', t)]"
  "fold (override_place env) (resource_variables ''DEDUP'' ''transform'')
     (JObj [(''nats'', n), (''ingestor'', i), (''join'', j), (''sink'', s), (''transform'', component_defaults [x])]) =
   JObj [(''nats'', n), (''ingestor'', i), (''join'', j), (''sink'', s), (''transform'', component_with env ''DEDUP'' [x])]"
  by (simp_all add: resource_variables_def component_defaults_def component_with_def override_text nullish_def is_object_def)

lemma other_overrides:
  "fold (override_place env) [(''NEXT_PUBLIC_NATS_MAX_STREAM_AGE'', [''nats'', ''stream'', ''maxAge'']),
       (''NEXT_PUBLIC_NATS_MAX_STREAM_BYTES'', [''nats'', ''stream'', ''maxBytes''])] HARDCODED_DEFAULTS =
   JObj [(''nats'', JObj [(''stream'', JObj [(''maxAge'', JStr (env_or env ''NEXT_PUBLIC_NATS_MAX_STREAM_AGE'' ''24h'')),
       (''maxBytes'', JStr (env_or env ''NEXT_PUBLIC_NATS_MAX_STREAM_BYTES'' ''0''))])]),
     (''ingestor'', JObj [(''base'', component_defaults [])]), (''join'', component_defaults []), (''sink'', component_defaults []),
     (''transform'', component_defaults [JObj [(''size'', JStr ''10Gi'')]])]"
  "fold (override_place env) [(''NEXT_PUBLIC_DEDUP_STORAGE_SIZE'', [''transform'', ''storage'', ''size''])]
     (JObj [(''nats'', n), (''ingestor'', i), (''join'', j), (''sink'', s), (''transform'', component_with env m [JObj [(''size'', JStr ''10Gi'')]])]) =
   JObj [(''nats'', n), (''ingestor'', i), (''join'', j), (''sink'', s),
     (''transform'', component_with env m [JObj [(''size'', JStr (env_or env ''NEXT_PUBLIC_DEDUP_STORAGE_SIZE'' ''10Gi''))]])]"
  by (simp_all add: HARDCODED_DEFAULTS_def component_with_def override_text nullish_def is_object_def)

lemma defaults_given:
  "resourceDefaultsFromEnv env =
     JObj [(''nats'', JObj [(''stream'', JObj [(''maxAge'', JStr (env_or env ''NEXT_PUBLIC_NATS_MAX_STREAM_AGE'' ''24h'')),
         (''maxBytes'', JStr (env_or env ''NEXT_PUBLIC_NATS_MAX_STREAM_BYTES'' ''0''))])]),
       (''ingestor'', JObj [(''base'', component_with env ''INGESTOR'' [])]),
       (''join'', component_with env ''JOIN'' []), (''sink'', component_with env ''SINK'' []),
       (''transform'', component_with env ''DEDUP'' [JObj [(''size'', JStr (env_or env ''NEXT_PUBLIC_DEDUP_STORAGE_SIZE'' ''10Gi''))]])]"
  unfolding resourceDefaultsFromEnv_def ENV_PLACES_def fold_append comp_apply other_overrides component_overrides by (rule refl)

lemma component_parts:
  "jtruthy (component_with env name st)" "component_with env name st \<noteq> JUndef"
  "jget ''replicas'' (component_with env name []) = JNum (Fin 1 0)"
  by (simp_all add: component_with_def)

text \<open>A component the form shows and reads back unchanged.\<close>

definition shown :: "json \<Rightarrow> bool" where
  "shown c \<longleftrightarrow> jtruthy c \<and> c \<noteq> JUndef \<and> component_values (JObj (ensureComponent c)) = JObj (ensureComponent c) \<and>
     (\<forall>k. prune k (JObj (ensureComponent c)) = c)"

lemma component_shown:
  assumes "st = [] \<or> (\<exists>s. s \<noteq> [] \<and> st = [JObj [(''size'', JStr s)]])"
  shows "shown (component_with env name st)"
    "assign_property (ensureComponent (component_with env name st)) ''replicas'' (JNum (Fin 1 0)) = ensureComponent (component_with env name st)"
proof -
  note unfold = component_with_def ensureComponent_def ensure_def or_nullish_def nullish_def
  have "component_values (JObj (ensureComponent (component_with env name st))) = JObj (ensureComponent (component_with env name st))"
    using assms by (elim disjE exE conjE) (simp_all add: unfold component_values_def object_values_def Let_def)
  moreover have "prune k (JObj (ensureComponent (component_with env name st))) = component_with env name st" for k
    using assms by (elim disjE exE conjE) (simp_all add: unfold isNaN_def)
  ultimately show "shown (component_with env name st)" unfolding shown_def using component_parts(1,2) by blast
  show "assign_property (ensureComponent (component_with env name st)) ''replicas'' (JNum (Fin 1 0)) = ensureComponent (component_with env name st)"
    using assms by (elim disjE exE conjE) (simp_all add: unfold)
qed

lemma no_component:
  "ensureComponent JUndef = []" "component_values (JObj []) = JObj []"
  by (simp_all add: ensureComponent_def component_values_def object_values_def Let_def)

lemma form_roundtrip:
  assumes "a \<noteq> []" and "b \<noteq> []" and "shown i" and "shown j" and "shown s" and "shown t"
    and "assign_property (ensureComponent s) ''replicas'' (JNum (Fin 1 0)) = ensureComponent s" and "jget ''replicas'' s = JNum (Fin 1 0)"
  defines "d \<equiv> JObj [(''nats'', JObj [(''stream'', JObj [(''maxAge'', JStr a), (''maxBytes'', JStr b)])]),
    (''ingestor'', JObj [(''base'', i)]), (''join'', j), (''sink'', s), (''transform'', t)]"
  shows "formValuesToResources (form_values (resourcesToFormValues d)) = d"
proof -
  define f where "f = JObj [(''nats'', JObj [(''stream'', JObj [(''maxAge'', JStr a), (''maxBytes'', JStr b)])]),
    (''ingestor'', JObj [(''base'', JObj (ensureComponent i)), (''left'', JObj []), (''right'', JObj [])]),
    (''join'', JObj (ensureComponent j)), (''sink'', JObj (ensureComponent s)), (''transform'', JObj (ensureComponent t))]"
  have "resourcesToFormValues d = f"
    using assms(7,8) by (simp add: d_def f_def resourcesToFormValues_def form_text_def no_component nullish_def Let_def)
  moreover have "form_values f = f"
    using assms(3-6) unfolding shown_def by (simp add: f_def form_values_def object_values_def no_component)
  moreover have "prune [] f = d"
    using assms(1-6) unfolding shown_def by (simp add: f_def d_def)
  moreover have "jget ''sink'' d = s" by (simp add: d_def)
  ultimately show ?thesis using assms(8) by (simp add: formValuesToResources_def)
qed

text \<open>
  Saving the resources step as it is opened keeps the defaults: the values of the form that shows them,
  read back, are the defaults again, whatever the environment sets.
\<close>

theorem defaults_survive_form:
  "formValuesToResources (form_values (resourcesToFormValues (resourceDefaultsFromEnv env))) = resourceDefaultsFromEnv env"
proof -
  let ?d = "JObj [(''size'', JStr (env_or env ''NEXT_PUBLIC_DEDUP_STORAGE_SIZE'' ''10Gi''))]"
  have "env_or env ''NEXT_PUBLIC_NATS_MAX_STREAM_AGE'' ''24h'' \<noteq> []" "env_or env ''NEXT_PUBLIC_NATS_MAX_STREAM_BYTES'' ''0'' \<noteq> []"
    "shown (component_with env name [])" "shown (component_with env ''DEDUP'' [?d])" for name
    by (simp_all add: component_shown)
  then show ?thesis
    unfolding defaults_given by (intro form_roundtrip component_shown component_parts) simp_all
qed

end
