(* ===== verification/Topic_Selection.thy ===== *)
theory Topic_Selection
  imports Validation_Engine Event_Fields Pipeline_Building
begin

text \<open>
  Choosing a topic in the wizard: the hook that edits the topic
  (ui/src/modules/kafka/hooks/useTopicOffsetReplicaState.ts) and the submission with what it invalidates
  (ui/src/modules/kafka/utils/topicSubmitAndInvalidation.ts, topicStepKeys.ts).
\<close>

section \<open>Editing the topic\<close>

text \<open>The reference to the topic the step began with, and the local state of the hook.\<close>

record TopicRef =
  ref_name :: string
  ref_event :: json

record TopicLocal =
  tl_name :: string
  tl_offset :: InitialOffset
  tl_replicas :: js_number
  tl_original :: "TopicRef option"

definition mountedTopic :: TopicLocal where
  "mountedTopic = \<lparr>tl_name = [], tl_offset = Latest, tl_replicas = Fin 1 0, tl_original = None\<rparr>"

definition truthy_number :: "js_number \<Rightarrow> bool" where
  "truthy_number n \<longleftrightarrow> jtruthy (JNum n)"

definition or_number :: "js_number option \<Rightarrow> js_number \<Rightarrow> js_number" where
  "or_number r d = (case r of Some n \<Rightarrow> if truthy_number n then n else d | None \<Rightarrow> d)"

definition stored_name :: "KafkaTopic option \<Rightarrow> string" where
  "stored_name t = (case t of Some t \<Rightarrow> topic_name t | None \<Rightarrow> [])"

definition stored_event :: "KafkaTopic option \<Rightarrow> json" where
  "stored_event t = (case t of Some t \<Rightarrow> event (selectedEvent t) | None \<Rightarrow> JUndef)"

text \<open>The effect that copies the stored topic into the local state and remembers the first complete one.\<close>

definition sync_topic :: "nat \<Rightarrow> TopicsStore \<Rightarrow> TopicLocal \<Rightarrow> TopicLocal" where
  "sync_topic i ts l =
     (let stored = getTopic i ts
      in l\<lparr>tl_name := (if stored_name stored \<noteq> [] then stored_name stored else tl_name l),
           tl_offset := (case stored of Some t \<Rightarrow> initialOffset t | None \<Rightarrow> Latest),
           tl_replicas := (case stored of Some t \<Rightarrow> (case replicas t of Some n \<Rightarrow> n | None \<Rightarrow> Fin 1 0) | None \<Rightarrow> Fin 1 0),
           tl_original := (if stored_name stored \<noteq> [] \<and> jtruthy (stored_event stored) \<and> tl_original l = None
             then Some \<lparr>ref_name = stored_name stored, ref_event = stored_event stored\<rparr> else tl_original l)\<rparr>)"

text \<open>The topic an edit leaves: the properties of the old one that are not set stay.\<close>

definition edited_topic :: "nat \<Rightarrow> string \<Rightarrow> InitialOffset \<Rightarrow> js_number \<Rightarrow> KafkaTopic option \<Rightarrow> KafkaTopic" where
  "edited_topic i n offset partitions current =
     \<lparr>topic_name = n, topic_index = i, events = [],
      selectedEvent = \<lparr>event = JUndef, topicIndex = i, position = offset_position offset, kafkaOffset = None,
        isAtEarliest = None, isAtLatest = None, isManualEvent = None\<rparr>,
      initialOffset = offset, replicas = Some (or_number (Option.bind current replicas) (Fin 1 0)),
      partitionCount = Some partitions, topic_schema = Option.bind current topic_schema,
      schemaSource = Option.bind current schemaSource, schemaRegistrySubject = Option.bind current schemaRegistrySubject,
      schemaRegistryVersion = Option.bind current schemaRegistryVersion\<rparr>"

definition renamed_streams :: "nat \<Rightarrow> string \<Rightarrow> JoinStream list \<Rightarrow> JoinStream list" where
  "renamed_streams i n sts = (if i < length sts then sts[i := (sts ! i)\<lparr>js_topicName := n\<rparr>] else sts)"

definition selectTopic :: "time \<Rightarrow> nat \<Rightarrow> string \<Rightarrow> RootStore \<Rightarrow> TopicLocal \<Rightarrow> RootStore \<times> TopicLocal" where
  "selectTopic now i n s l =
     (let current = getTopic i (topicsStore s);
          offset = (case current of Some t \<Rightarrow> initialOffset t | None \<Rightarrow> Latest);
          s1 = s\<lparr>topicsStore := updateTopic now (edited_topic i n offset (Fin 0 0) current) (topicsStore s)\<rparr>
      in if current \<noteq> None \<and> n = stored_name current then (s, l)
         else (if join_enabled (joinStore s) \<and> streams (joinStore s) \<noteq> []
               then s1\<lparr>joinStore := setStreams now (renamed_streams i n (streams (joinStore s))) (joinStore s)\<rparr> else s1,
               l\<lparr>tl_name := n\<rparr>))"

definition handleOffsetChange :: "time \<Rightarrow> nat \<Rightarrow> InitialOffset \<Rightarrow> RootStore \<Rightarrow> TopicLocal \<Rightarrow> RootStore \<times> TopicLocal" where
  "handleOffsetChange now i offset s l =
     (let current = getTopic i (topicsStore s)
      in if (case current of Some t \<Rightarrow> offset = initialOffset t | None \<Rightarrow> False) then (s, l)
         else (s\<lparr>topicsStore := updateTopic now (edited_topic i (stored_name current) offset
                 (or_number (Option.bind current partitionCount) (Fin 0 0)) current) (topicsStore s)\<rparr>,
               l\<lparr>tl_offset := offset\<rparr>))"

definition handleReplicaCountChange :: "time \<Rightarrow> nat \<Rightarrow> js_number \<Rightarrow> RootStore \<Rightarrow> TopicLocal \<Rightarrow> RootStore \<times> TopicLocal" where
  "handleReplicaCountChange now i n s l =
     (case getTopic i (topicsStore s) of
        None \<Rightarrow> (s, l)
      | Some t \<Rightarrow> if replicas t = Some n then (s, l)
          else (s\<lparr>topicsStore := updateTopic now (t\<lparr>replicas := Some n\<rparr>) (topicsStore s)\<rparr>, l\<lparr>tl_replicas := n\<rparr>))"

definition updatePartitionCount :: "time \<Rightarrow> nat \<Rightarrow> js_number \<Rightarrow> RootStore \<Rightarrow> RootStore" where
  "updatePartitionCount now i n s =
     (case getTopic i (topicsStore s) of
        None \<Rightarrow> s
      | Some t \<Rightarrow> if partitionCount t = Some n then s
          else s\<lparr>topicsStore := updateTopic now (t\<lparr>partitionCount := Some n\<rparr>) (topicsStore s)\<rparr>)"

section \<open>Submitting the topic\<close>

fun getSectionsToInvalidateForTopicStep :: "StepKeys \<Rightarrow> StepKeys list" where
  "getSectionsToInvalidateForTopicStep step =
     (if step = TOPIC_SELECTION_1 then [DEDUPLICATION_CONFIGURATOR, JOIN_CONFIGURATOR, CLICKHOUSE_MAPPER]
      else if step \<in> {TOPIC_SELECTION_2, TOPIC_DEDUPLICATION_CONFIGURATOR_1, TOPIC_DEDUPLICATION_CONFIGURATOR_2}
      then [JOIN_CONFIGURATOR, CLICKHOUSE_MAPPER] else [])"

record TopicSubmitState =
  ts_index :: nat
  ts_topicName :: string
  ts_offset :: InitialOffset
  ts_event :: json
  ts_manualEvent :: string
  ts_replicas :: js_number
  ts_partitionCount :: js_number
  ts_deduplication :: DeduplicationConfig
  ts_storedDeduplication :: "DeduplicationConfig option"
  ts_enableDeduplication :: bool
  ts_currentStep :: "StepKeys option"

text \<open>
  What the submission compares: the topic and event before and the event that is submitted, or nothing when the
  manual event is no JSON.
\<close>

record TopicComparison =
  previousTopicName :: "string option"
  previousEvent :: json
  finalEvent :: json

definition previous_name :: "KafkaTopic option \<Rightarrow> TopicRef option \<Rightarrow> string option" where
  "previous_name stored ref =
     (case ref of
        Some r \<Rightarrow> if ref_name r \<noteq> [] then Some (ref_name r) else map_option topic_name stored
      | None \<Rightarrow> map_option topic_name stored)"

definition comparison_of :: "(string \<Rightarrow> json option) \<Rightarrow> TopicSubmitState \<Rightarrow> KafkaTopic option \<Rightarrow> TopicRef option \<Rightarrow> TopicComparison option" where
  "comparison_of parse st stored ref =
     (case (if ts_manualEvent st = [] then Some JNull else parse (ts_manualEvent st)) of
        None \<Rightarrow> None
      | Some manual \<Rightarrow>
          (let given = or_falsy manual (ts_event st);
               before = or_falsy (case ref of Some r \<Rightarrow> ref_event r | None \<Rightarrow> JUndef) (stored_event stored);
               prev = (if \<not> jtruthy before \<and> jtruthy given \<and> Some (ts_topicName st) = previous_name stored ref then given else before)
           in Some \<lparr>previousTopicName = previous_name stored ref, previousEvent = prev,
                finalEvent = (if \<not> jtruthy given \<and> jtruthy prev then prev else given)\<rparr>))"

definition submitted_topic :: "TopicSubmitState \<Rightarrow> TopicComparison \<Rightarrow> KafkaTopic option \<Rightarrow> KafkaTopic" where
  "submitted_topic st c stored =
     (let ev = \<lparr>event = finalEvent c, topicIndex = ts_index st, position = offset_position (ts_offset st), kafkaOffset = None,
            isAtEarliest = None, isAtLatest = None, isManualEvent = Some (ts_manualEvent st \<noteq> [])\<rparr>;
          changing = (case previousTopicName c of Some n \<Rightarrow> n \<noteq> [] \<and> ts_topicName st \<noteq> n | None \<Rightarrow> False);
          kept = (if changing then None else stored)
      in \<lparr>topic_name = ts_topicName st, topic_index = ts_index st, events = [ev], selectedEvent = ev,
          initialOffset = ts_offset st, replicas = Some (ts_replicas st), partitionCount = Some (ts_partitionCount st),
          topic_schema = Option.bind kept topic_schema, schemaSource = Option.bind kept schemaSource,
          schemaRegistrySubject = Option.bind kept schemaRegistrySubject,
          schemaRegistryVersion = Option.bind kept schemaRegistryVersion\<rparr>)"

definition disabledDeduplication :: DeduplicationConfig where
  "disabledDeduplication = \<lparr>dc_enabled = False, dc_window = Fin 0 0, dc_unit = Hours, dc_key = [], dc_keyType = []\<rparr>"

definition submitted_deduplication :: "TopicSubmitState \<Rightarrow> DeduplicationConfig" where
  "submitted_deduplication st =
     (let d = ts_deduplication st
      in if ts_enableDeduplication st \<and> dc_key d \<noteq> [] \<and> truthy_number (dc_window d) then d\<lparr>dc_enabled := True\<rparr>
         else case ts_storedDeduplication st of Some stored \<Rightarrow> stored | None \<Rightarrow> disabledDeduplication)"

definition invalidation_reason :: "TopicSubmitState \<Rightarrow> TopicComparison \<Rightarrow> string option" where
  "invalidation_reason st c =
     (if \<not> jtruthy (previousEvent c) then Some ''First event selection''
      else if \<not> jtruthy (finalEvent c) then Some ''Missing current event''
      else if Some (ts_topicName st) \<noteq> previousTopicName c then Some ''Topic changed''
      else if compareEventSchemas (previousEvent c) (finalEvent c) then None
      else Some ''Event schema changed'')"

definition invalidate_after_submit :: "time \<Rightarrow> TopicSubmitState \<Rightarrow> TopicComparison \<Rightarrow> string \<Rightarrow> RootStore \<Rightarrow> RootStore" where
  "invalidate_after_submit now st c reason s =
     (let changed = Some (ts_topicName st) \<noteq> previousTopicName c;
          embedded = ts_currentStep st = Some TOPIC_SELECTION_1 \<and> ts_enableDeduplication st;
          s1 = s\<lparr>joinStore := join_markAsInvalidated now reason (setStreams now [] (setType [] (setEnabled False (joinStore s)))),
                 deduplicationStore :=
                   (if \<not> changed then deduplicationStore s
                    else if embedded then updateDeduplication now (ts_index st) disabledDeduplication (deduplicationStore s)
                    else dedup_markAsInvalidated now (''topic-selection-'' @ nat_digits (Suc (ts_index st))) (deduplicationStore s)),
                 clickhouseDestinationStore :=
                   (if changed \<or> reason = ''Event schema changed''
                    then setClickhouseDestination now ((clickhouseDestination (clickhouseDestinationStore s))\<lparr>cd_mapping := []\<rparr>)
                      (clickhouseDestinationStore s)
                    else clickhouseDestinationStore s)\<rparr>
      in fold (\<lambda>sec. invalidateSection now sec reason)
           (case ts_currentStep st of Some step \<Rightarrow> getSectionsToInvalidateForTopicStep step | None \<Rightarrow> []) s1)"

definition executeTopicSubmitAndInvalidation ::
    "time \<Rightarrow> (string \<Rightarrow> json option) \<Rightarrow> TopicSubmitState \<Rightarrow> RootStore \<times> TopicRef option \<Rightarrow> RootStore \<times> TopicRef option" where
  "executeTopicSubmitAndInvalidation now parse st = (\<lambda>(s, ref).
     (let stored = getTopic (ts_index st) (topicsStore s)
      in case comparison_of parse st stored ref of
           None \<Rightarrow> (s, ref)
         | Some c \<Rightarrow>
             (let s1 = s\<lparr>topicsStore := updateTopic now (submitted_topic st c stored) (topicsStore s),
                         deduplicationStore := updateDeduplication now (ts_index st) (submitted_deduplication st) (deduplicationStore s)\<rparr>
              in (case invalidation_reason st c of Some reason \<Rightarrow> invalidate_after_submit now st c reason s1 | None \<Rightarrow> s1,
                  map_option (\<lambda>_. \<lparr>ref_name = ts_topicName st, ref_event = finalEvent c\<rparr>) ref))))"

section \<open>What a submission changes\<close>

lemma same_events: "compareEventSchemas e e"
  by (simp add: compareEventSchemas_def Let_def list_all_iff)

lemma same_data:
  assumes "store_data a = store_data b"
  shows "join_enabled (joinStore a) = join_enabled (joinStore b)" "streams (joinStore a) = streams (joinStore b)"
    "clickhouseDestination (clickhouseDestinationStore a) = clickhouseDestination (clickhouseDestinationStore b)"
    "topics (topicsStore a) = topics (topicsStore b)" "filterConfig (filterStore a) = filterConfig (filterStore b)"
    "transformationConfig (transformationStore a) = transformationConfig (transformationStore b)"
  using arg_cong [OF assms, of "\<lambda>s. join_enabled (joinStore s)"] arg_cong [OF assms, of "\<lambda>s. streams (joinStore s)"]
    arg_cong [OF assms, of "\<lambda>s. clickhouseDestination (clickhouseDestinationStore s)"] arg_cong [OF assms, of "\<lambda>s. topics (topicsStore s)"]
    arg_cong [OF assms, of "\<lambda>s. filterConfig (filterStore s)"] arg_cong [OF assms, of "\<lambda>s. transformationConfig (transformationStore s)"]
  by (simp_all add: store_data_def resetFormValidationStates_def slice_method_defs join_resetValidation_def)

lemma sections_marked:
  "store_data (fold (\<lambda>sec. invalidateSection now sec reason) secs s) = store_data s"
  "slice_validation i (fold (\<lambda>sec. invalidateSection now sec reason) secs s) =
     (if i \<in> set (concat (map slices_of secs)) \<and> i \<noteq> CoreId then Some (createInvalidatedValidation now reason) else slice_validation i s)"
  using invalid_marker.sections_data [of now reason secs s] invalid_marker.sections_validation [of i now reason secs s]
  by (simp_all add: invalidateSection_def [abs_def])

lemma comparison_given:
  assumes "comparison_of parse st stored ref = Some c" and "jtruthy (ts_event st)"
  shows "jtruthy (finalEvent c)" "previousTopicName c = previous_name stored ref"
  using assms by (auto simp: comparison_of_def Let_def or_falsy_def split: option.splits if_splits)

text \<open>
  C30. When a submission finds another topic than before, the topic has the new name and nothing of the old
  schema, the join is off and has no streams, the mapping is empty, and the sections of the step are
  invalidated with the reason; the filter and the transformation stay as they are.
\<close>

theorem topic_change_clears:
  assumes "comparison_of parse st (getTopic (ts_index st) (topicsStore s)) ref = Some c"
    and "previousTopicName c = Some n" and "n \<noteq> []" and "ts_topicName st \<noteq> n"
    and "jtruthy (previousEvent c)" and "ts_currentStep st = Some step"
    and "(s', ref') = executeTopicSubmitAndInvalidation now parse st (s, ref)"
  shows "map_option (\<lambda>t. (topic_name t, topic_schema t, schemaSource t)) (getTopic (ts_index st) (topicsStore s')) = Some (ts_topicName st, None, None) \<and>
    \<not> join_enabled (joinStore s') \<and> streams (joinStore s') = [] \<and> cd_mapping (clickhouseDestination (clickhouseDestinationStore s')) = [] \<and>
    list_all (\<lambda>sec. list_all (\<lambda>i. slice_validation i s' = Some (createInvalidatedValidation now ''Topic changed'')) (slices_of sec))
      (getSectionsToInvalidateForTopicStep step) \<and>
    filterConfig (filterStore s') = filterConfig (filterStore s) \<and>
    transformationConfig (transformationStore s') = transformationConfig (transformationStore s)"
proof -
  define s1 where "s1 = s\<lparr>topicsStore := updateTopic now (submitted_topic st c (getTopic (ts_index st) (topicsStore s))) (topicsStore s),
    deduplicationStore := updateDeduplication now (ts_index st) (submitted_deduplication st) (deduplicationStore s)\<rparr>"
  have f: "jtruthy (finalEvent c)"
    using assms(1,5) by (auto simp: comparison_of_def Let_def split: option.splits if_splits)
  then have "invalidation_reason st c = Some ''Topic changed''" using assms(2,4,5) by (simp add: invalidation_reason_def)
  then have s': "s' = invalidate_after_submit now st c ''Topic changed'' s1"
    using assms(7) by (simp add: executeTopicSubmitAndInvalidation_def assms(1) s1_def)
  define s2 where "s2 = s1\<lparr>joinStore := join_markAsInvalidated now ''Topic changed'' (setStreams now [] (setType [] (setEnabled False (joinStore s1)))),
    deduplicationStore := (if ts_currentStep st = Some TOPIC_SELECTION_1 \<and> ts_enableDeduplication st
      then updateDeduplication now (ts_index st) disabledDeduplication (deduplicationStore s1)
      else dedup_markAsInvalidated now (''topic-selection-'' @ nat_digits (Suc (ts_index st))) (deduplicationStore s1)),
    clickhouseDestinationStore := setClickhouseDestination now
      ((clickhouseDestination (clickhouseDestinationStore s1))\<lparr>cd_mapping := []\<rparr>) (clickhouseDestinationStore s1)\<rparr>"
  have e: "s' = fold (\<lambda>sec. invalidateSection now sec ''Topic changed'') (getSectionsToInvalidateForTopicStep step) s2"
    using assms(2,4,6) by (simp add: s' invalidate_after_submit_def Let_def s2_def)
  note d = same_data [OF sections_marked(1) [of now "''Topic changed''" "getSectionsToInvalidateForTopicStep step" s2], folded e]
  have "topics (topicsStore s2) (ts_index st) = Some (submitted_topic st c (getTopic (ts_index st) (topicsStore s)))"
    by (simp add: s2_def s1_def updateTopic_def submitted_topic_def Let_def)
  moreover have "slice_validation i s' = Some (createInvalidatedValidation now ''Topic changed'')"
    if "sec \<in> set (getSectionsToInvalidateForTopicStep step)" "i \<in> set (slices_of sec)" for sec i
  proof -
    have "i \<noteq> CoreId" using that by (auto simp: slices_of_def split: if_splits)
    then show ?thesis using that unfolding e sections_marked(2) by auto
  qed
  ultimately show ?thesis
    using assms(2-4) by (simp add: d getTopic_def list_all_iff submitted_topic_def Let_def del: getSectionsToInvalidateForTopicStep.simps)
      (simp add: s2_def s1_def setStreams_def setType_def setEnabled_def join_markAsInvalidated_def setClickhouseDestination_def Let_def)
qed

definition submit_of :: "string \<Rightarrow> TopicSubmitState" where
  "submit_of n =
     \<lparr>ts_index = 1, ts_topicName = n, ts_offset = Latest, ts_event = JObj [(''id'', JNum (Fin 1 0))], ts_manualEvent = [],
      ts_replicas = Fin 1 0, ts_partitionCount = Fin 1 0, ts_deduplication = disabledDeduplication, ts_storedDeduplication = None,
      ts_enableDeduplication = False, ts_currentStep = Some TOPIC_SELECTION_2\<rparr>"

definition orders_ref :: TopicRef where
  "orders_ref = \<lparr>ref_name = ''orders'', ref_event = JObj [(''id'', JStr ''a'')]\<rparr>"

lemma topic_change_clears_witness:
  "let s' = fst (executeTopicSubmitAndInvalidation 5 Map.empty (submit_of ''invoices'') (sample_topics, Some orders_ref))
   in map_option topic_schema (getTopic 1 (topicsStore s')) = Some None \<and> streams (joinStore s') = []"
proof -
  let ?x = "executeTopicSubmitAndInvalidation 5 Map.empty (submit_of ''invoices'') (sample_topics, Some orders_ref)"
  have c: "comparison_of Map.empty (submit_of ''invoices'') (getTopic (ts_index (submit_of ''invoices'')) (topicsStore sample_topics)) (Some orders_ref) =
      Some \<lparr>previousTopicName = Some ''orders'', previousEvent = JObj [(''id'', JStr ''a'')], finalEvent = JObj [(''id'', JNum (Fin 1 0))]\<rparr>"
    by (simp add: comparison_of_def submit_of_def orders_ref_def previous_name_def or_falsy_def Let_def)
  have "(fst ?x, snd ?x) = ?x" by simp
  then show ?thesis
    using topic_change_clears [OF c, of "''orders''" TOPIC_SELECTION_2 "fst ?x" "snd ?x" 5] by (auto simp: submit_of_def Let_def)
qed

text \<open>
  Submitting a topic a second time changes neither the join nor the destination nor the topic, if there is an
  event: the first submission is what the second compares with.
\<close>

theorem resubmit_keeps:
  assumes "(s1, r1) = executeTopicSubmitAndInvalidation now parse st (s, r)"
    and "(s2, r2) = executeTopicSubmitAndInvalidation now' parse st (s1, r1)" and "jtruthy (ts_event st)"
  shows "joinStore s2 = joinStore s1 \<and> clickhouseDestinationStore s2 = clickhouseDestinationStore s1 \<and>
    getTopic j (topicsStore s2) = getTopic j (topicsStore s1) \<and> r2 = r1"
proof (cases "comparison_of parse st (getTopic (ts_index st) (topicsStore s)) r")
  case None
  then have "s1 = s" "r1 = r" using assms(1) by (simp_all add: executeTopicSubmitAndInvalidation_def)
  then have "s2 = s1" "r2 = r1" using assms(2) None by (simp_all add: executeTopicSubmitAndInvalidation_def)
  then show ?thesis by simp
next
  case (Some c)
  define t where "t = submitted_topic st c (getTopic (ts_index st) (topicsStore s))"
  have f: "jtruthy (finalEvent c)" using comparison_given [OF Some assms(3)] by simp
  have t: "topic_name t = ts_topicName st" "event (selectedEvent t) = finalEvent c" "topic_index t = ts_index st"
    by (simp_all add: t_def submitted_topic_def Let_def)
  have r1: "r1 = map_option (\<lambda>_. \<lparr>ref_name = ts_topicName st, ref_event = finalEvent c\<rparr>) r"
    using assms(1) by (simp add: executeTopicSubmitAndInvalidation_def Some Let_def)
  have s1: "getTopic (ts_index st) (topicsStore s1) = Some t"
  proof -
    define s0 where "s0 = s\<lparr>topicsStore := updateTopic now t (topicsStore s),
      deduplicationStore := updateDeduplication now (ts_index st) (submitted_deduplication st) (deduplicationStore s)\<rparr>"
    have "s1 = (case invalidation_reason st c of Some reason \<Rightarrow> invalidate_after_submit now st c reason s0 | None \<Rightarrow> s0)"
      using assms(1) by (simp only: executeTopicSubmitAndInvalidation_def Some s0_def t_def Let_def prod.case option.case prod.inject)
    moreover have "topics (topicsStore (invalidate_after_submit now st c reason s0)) = topics (topicsStore s0)" for reason
      unfolding invalidate_after_submit_def Let_def same_data(4) [OF sections_marked(1)] by simp
    moreover have "topics (topicsStore s0) (ts_index st) = Some t" by (simp add: s0_def updateTopic_def t(3))
    ultimately show ?thesis by (simp add: getTopic_def split: option.splits)
  qed
  have n: "previous_name (Some t) r1 = Some (ts_topicName st)" by (simp add: previous_name_def r1 t split: option.splits)
  have before: "or_falsy (case r1 of Some x \<Rightarrow> ref_event x | None \<Rightarrow> JUndef) (stored_event (Some t)) = finalEvent c"
    using f by (cases r) (simp_all add: r1 or_falsy_def stored_event_def t)
  obtain manual where m: "(if ts_manualEvent st = [] then Some JNull else parse (ts_manualEvent st)) = Some manual"
    using Some by (auto simp: comparison_of_def split: option.splits)
  have given: "or_falsy manual (ts_event st) = finalEvent c"
    using Some assms(3) by (auto simp: comparison_of_def m Let_def or_falsy_def split: if_splits)
  define c' where "c' = \<lparr>previousTopicName = Some (ts_topicName st), previousEvent = finalEvent c, finalEvent = finalEvent c\<rparr>"
  have c': "comparison_of parse st (Some t) r1 = Some c'"
    using f unfolding comparison_of_def m Let_def by (simp add: before n given c'_def)
  have "invalidation_reason st c' = None" using f by (simp add: invalidation_reason_def same_events c'_def)
  moreover have "submitted_topic st c' (Some t) = t"
    by (simp add: submitted_topic_def Let_def t_def c'_def)
  ultimately have "s2 = s1\<lparr>topicsStore := updateTopic now' t (topicsStore s1),
      deduplicationStore := updateDeduplication now' (ts_index st) (submitted_deduplication st) (deduplicationStore s1)\<rparr>"
    "r2 = map_option (\<lambda>_. \<lparr>ref_name = ts_topicName st, ref_event = finalEvent c\<rparr>) r1"
    using assms(2) by (simp_all add: executeTopicSubmitAndInvalidation_def s1 c' Let_def) (simp_all add: c'_def)
  then show ?thesis using s1 by (cases r) (auto simp: r1 getTopic_def updateTopic_def t(3))
qed

lemma resubmit_keeps_witness:
  "let x = executeTopicSubmitAndInvalidation 5 Map.empty (submit_of ''invoices'') (sample_topics, None)
   in joinStore (fst (executeTopicSubmitAndInvalidation 6 Map.empty (submit_of ''invoices'') x)) = joinStore (fst x)"
proof -
  let ?x = "executeTopicSubmitAndInvalidation 5 Map.empty (submit_of ''invoices'') (sample_topics, None)"
  let ?y = "executeTopicSubmitAndInvalidation 6 Map.empty (submit_of ''invoices'') ?x"
  have "(fst ?x, snd ?x) = ?x" "(fst ?y, snd ?y) = executeTopicSubmitAndInvalidation 6 Map.empty (submit_of ''invoices'') (fst ?x, snd ?x)"
    "jtruthy (ts_event (submit_of ''invoices''))"
    by (simp_all only: prod.collapse) (simp add: submit_of_def)
  from resubmit_keeps [OF this] show ?thesis by (simp add: Let_def)
qed



end
