(* ===== verification/Auto_Mapping.thy ===== *)
theory Auto_Mapping
  imports Mapping_Validation Event_Fields Slices
begin

text \<open>
  Matching event fields to the columns of the destination table: the hook
  ui/src/modules/clickhouse/hooks/useClickhouseMapperEventFields.ts and \<open>getVerifiedTypeFromTopic\<close> of
  ui/src/modules/clickhouse/utils.ts. A function returns the rows it sets, or nothing when it sets none.
\<close>

section \<open>The input\<close>

text \<open>
  \<open>in_schema\<close> is the intermediary schema when the transformation is enabled and has fields.
\<close>

record MapperInput =
  in_single :: bool
  in_create :: bool
  in_otlp :: bool
  in_otlpFields :: "(string \<times> string) list"
  in_schema :: "(string \<times> string) list option"
  in_topic :: "KafkaTopic option"
  in_fields :: "string list"
  in_data :: json
  in_primary :: "KafkaTopic option"
  in_secondary :: "KafkaTopic option"
  in_primaryFields :: "string list"
  in_secondaryFields :: "string list"
  in_primaryData :: json

definition getVerifiedTypeFromTopic :: "KafkaTopic option \<Rightarrow> string \<Rightarrow> string" where
  "getVerifiedTypeFromTopic topic fieldName =
     (case Option.bind topic topic_schema of
        None \<Rightarrow> []
      | Some fs \<Rightarrow> (case find (\<lambda>f. fs_name f = fieldName \<and> isRemoved f \<noteq> Some True) fs of
            None \<Rightarrow> []
          | Some f \<Rightarrow> if opt_text (userType f) \<noteq> [] then opt_text (userType f) else fs_type f))"

definition topic_event :: "KafkaTopic option \<Rightarrow> json" where
  "topic_event t = (case t of Some t \<Rightarrow> event (selectedEvent t) | None \<Rightarrow> JUndef)"

definition or_type :: "string \<Rightarrow> string \<Rightarrow> string" where
  "or_type a b = (if a = [] then b else a)"

text \<open>\<open>new Map(entries).get(f)\<close> is the last entry, \<open>find\<close> the first.\<close>

definition last_type :: "(string \<times> string) list \<Rightarrow> string \<Rightarrow> string option" where
  "last_type entries f = map_of (rev entries) f"

definition data_type :: "KafkaTopic option \<Rightarrow> json \<Rightarrow> string \<Rightarrow> string" where
  "data_type topic data f = or_type (getVerifiedTypeFromTopic topic f) (inferJsonType (getNestedValue data f))"

section \<open>Automatic mapping\<close>

definition cleared :: "TableColumn \<Rightarrow> TableColumn" where
  "cleared c = c\<lparr>eventField := Some [], jsonType := Some [], sourceTopic := None\<rparr>"

text \<open>The row for a column, if a field matches.\<close>

definition matched :: "string list \<Rightarrow> (string \<Rightarrow> string) \<Rightarrow> TableColumn \<Rightarrow> TableColumn option" where
  "matched fs ty c =
     (case truthy_match (findBestMatchingField (col_name c) fs) of
        Some f \<Rightarrow> Some (c\<lparr>eventField := Some f, jsonType := Some (ty f)\<rparr>)
      | None \<Rightarrow> None)"

definition join_row :: "MapperInput \<Rightarrow> TableColumn \<Rightarrow> TableColumn option" where
  "join_row i c =
     (let row = (\<lambda>f topic data. if jtruthy data
            then Some (c\<lparr>eventField := Some f, jsonType := Some (or_type (data_type topic data f) ''string''),
              sourceTopic := map_option topic_name topic\<rparr>) else None)
      in case truthy_match (findBestMatchingField (col_name c) (in_primaryFields i)) of
           Some f \<Rightarrow> row f (in_primary i) (in_primaryData i)
         | None \<Rightarrow> (case truthy_match (findBestMatchingField (col_name c) (in_secondaryFields i)) of
               Some f \<Rightarrow> row f (in_secondary i) (topic_event (in_secondary i))
             | None \<Rightarrow> None))"

definition update_rows :: "(TableColumn \<Rightarrow> TableColumn option) \<Rightarrow> TableColumn list \<Rightarrow> TableColumn list option" where
  "update_rows g cols =
     (if list_ex (\<lambda>c. g c \<noteq> None) cols then Some (map (\<lambda>c. case g c of Some c' \<Rightarrow> c' | None \<Rightarrow> c) cols) else None)"

definition otlp_field_type :: "MapperInput \<Rightarrow> string \<Rightarrow> string" where
  "otlp_field_type i f = (case last_type (in_otlpFields i) f of Some t \<Rightarrow> t | None \<Rightarrow> ''string'')"

definition schema_type :: "(string \<times> string) list \<Rightarrow> string \<Rightarrow> string" where
  "schema_type schema f = or_type (opt_text (last_type schema f)) ''string''"

definition single_row :: "MapperInput \<Rightarrow> TableColumn \<Rightarrow> TableColumn option" where
  "single_row i c =
     (if in_otlp i \<and> in_otlpFields i \<noteq> [] then matched (map fst (in_otlpFields i)) (otlp_field_type i) c
      else case in_schema i of
             Some schema \<Rightarrow> if schema = [] then None else matched (map fst schema) (schema_type schema) c
           | None \<Rightarrow> if in_fields i \<noteq> [] \<and> jtruthy (in_data i)
               then matched (in_fields i) (data_type (in_topic i) (in_data i)) c else None)"

definition performAutoMapping :: "MapperInput \<Rightarrow> TableColumn list \<Rightarrow> TableColumn list option" where
  "performAutoMapping i cols =
     (if cols = [] then None
      else if \<not> in_single i \<and> in_primaryFields i = [] \<and> in_secondaryFields i = [] then None
      else update_rows (if in_single i then single_row i else join_row i) (map cleared cols))"

definition unmapped_join_row :: "MapperInput \<Rightarrow> TableColumn \<Rightarrow> TableColumn option" where
  "unmapped_join_row i c = (if opt_text (eventField c) \<noteq> [] then None else join_row i c)"

definition performAutoMappingJoinMode :: "MapperInput \<Rightarrow> TableColumn list \<Rightarrow> TableColumn list option" where
  "performAutoMappingJoinMode i cols =
     (if in_single i \<or> in_primaryFields i = [] \<or> in_secondaryFields i = [] \<or> cols = [] then None
      else update_rows (unmapped_join_row i) cols)"

section \<open>The effects\<close>

text \<open>
  The fields of a single topic and their types, as the effect that loads them reads them; the fields of the
  state and the sample come from here.
\<close>

definition registry_fields :: "MapperInput \<Rightarrow> KafkaFieldSchema list" where
  "registry_fields i =
     (case in_topic i of
        Some t \<Rightarrow> if schemaSource t \<in> {Some External, Some RegistryResolvedFromEvent} then (case topic_schema t of Some fs \<Rightarrow> fs | None \<Rightarrow> []) else []
      | None \<Rightarrow> [])"

definition live_fields :: "KafkaFieldSchema list \<Rightarrow> (string \<times> string) list" where
  "live_fields fs =
     map (\<lambda>f. (fs_name f, or_type (opt_text (userType f)) (or_type (fs_type f) ''string''))) (filter (\<lambda>f. isRemoved f \<noteq> Some True) fs)"

definition single_source :: "MapperInput \<Rightarrow> (string list \<times> (string \<Rightarrow> string)) option" where
  "single_source i =
     (if in_otlp i \<and> in_otlpFields i \<noteq> [] then Some (map fst (in_otlpFields i), otlp_field_type i)
      else case in_schema i of
             Some schema \<Rightarrow> if schema = [] then None else Some (map fst schema, schema_type schema)
           | None \<Rightarrow>
               (if registry_fields i \<noteq> []
                then Some (map fst (live_fields (registry_fields i)), schema_type (live_fields (registry_fields i)))
                else if jtruthy (topic_event (in_topic i))
                then Some (extractEventFields (topic_event (in_topic i)) [], data_type (in_topic i) (topic_event (in_topic i)))
                else None))"

definition has_mapping :: "TableColumn list \<Rightarrow> bool" where
  "has_mapping rows \<longleftrightarrow> list_ex (\<lambda>c. opt_text (eventField c) \<noteq> []) rows"

text \<open>\<open>stored\<close> is the mapping of the store, \<open>cols\<close> the rows of the mapper.\<close>

definition load_single :: "MapperInput \<Rightarrow> TableColumn list \<Rightarrow> TableColumn list \<Rightarrow> TableColumn list option" where
  "load_single i stored cols =
     (if \<not> in_single i then None
      else case single_source i of
             None \<Rightarrow> None
           | Some (fs, ty) \<Rightarrow>
               if in_otlp i \<and> in_otlpFields i \<noteq> [] \<and> in_create i then None
               else if has_mapping stored \<or> cols = [] \<or> fs = [] then None
               else update_rows (matched fs ty) cols)"

definition load_join :: "MapperInput \<Rightarrow> TableColumn list \<Rightarrow> TableColumn list \<Rightarrow> TableColumn list option" where
  "load_join i stored cols =
     (if in_single i \<or> in_primaryFields i = [] \<or> in_secondaryFields i = [] \<or> cols = [] then None
      else if has_mapping stored then None else update_rows (unmapped_join_row i) cols)"

text \<open>The types of rows that are mapped without one.\<close>

definition untyped :: "TableColumn \<Rightarrow> bool" where
  "untyped c \<longleftrightarrow> opt_text (eventField c) \<noteq> [] \<and> opt_text (jsonType c) = []"

definition typed_as :: "string \<Rightarrow> TableColumn \<Rightarrow> TableColumn option" where
  "typed_as t c = (if t = [] then None else Some (c\<lparr>jsonType := Some t\<rparr>))"

definition first_type :: "(string \<times> string) list \<Rightarrow> string \<Rightarrow> string" where
  "first_type schema f = (case find (\<lambda>e. fst e = f) schema of Some e \<Rightarrow> snd e | None \<Rightarrow> [])"

definition inferred_single :: "MapperInput \<Rightarrow> TableColumn \<Rightarrow> TableColumn option" where
  "inferred_single i c =
     (if \<not> untyped c then None
      else let f = opt_text (eventField c)
        in case in_schema i of
             Some schema \<Rightarrow> typed_as (first_type schema f) c
           | None \<Rightarrow> if getVerifiedTypeFromTopic (in_topic i) f \<noteq> [] then typed_as (getVerifiedTypeFromTopic (in_topic i) f) c
               else if \<not> jtruthy (in_data i) then None
               else typed_as (inferJsonType (getNestedValue (in_data i) f)) c)"

text \<open>The topic a row of a join comes from, and its sample.\<close>

definition named :: "KafkaTopic option \<Rightarrow> TableColumn \<Rightarrow> bool" where
  "named t c \<longleftrightarrow> opt_text (sourceTopic c) \<noteq> [] \<and> map_option topic_name t = sourceTopic c"

definition row_topic :: "MapperInput \<Rightarrow> TableColumn \<Rightarrow> KafkaTopic option \<times> json" where
  "row_topic i c =
     (if named (in_primary i) c then (in_primary i, in_primaryData i)
      else if named (in_secondary i) c then (in_secondary i, topic_event (in_secondary i))
      else (or_find (in_primary i) (in_secondary i), or_falsy (in_primaryData i) (topic_event (in_secondary i))))"

definition inferred_join :: "MapperInput \<Rightarrow> TableColumn \<Rightarrow> TableColumn option" where
  "inferred_join i c =
     (if \<not> untyped c then None
      else let f = opt_text (eventField c); (topic, data) = row_topic i c; verified = getVerifiedTypeFromTopic topic f
        in if verified \<noteq> [] then typed_as verified c
           else typed_as (inferJsonType (if jtruthy data then getNestedValue data f else JUndef)) c)"

definition infer_missing :: "MapperInput \<Rightarrow> TableColumn list \<Rightarrow> TableColumn list option" where
  "infer_missing i cols =
     (if in_single i then update_rows (inferred_single i) cols
      else if \<not> jtruthy (in_primaryData i) \<and> \<not> jtruthy (topic_event (in_secondary i)) then None
      else update_rows (inferred_join i) cols)"

section \<open>Mapping one column\<close>

text \<open>The index is that of a row that is shown; the second argument of the source is whether it is the second topic.\<close>

definition mapped_type :: "MapperInput \<Rightarrow> string \<Rightarrow> bool option \<Rightarrow> TableColumn \<Rightarrow> string" where
  "mapped_type i f second c =
     (let kept = (case jsonType c of Some t \<Rightarrow> t | None \<Rightarrow> ''string'')
      in if in_otlp i \<and> f \<noteq> [] \<and> in_single i
         then (case find (\<lambda>e. fst e = f) (in_otlpFields i) of Some e \<Rightarrow> snd e | None \<Rightarrow> ''string'')
         else if in_single i \<and> in_schema i \<noteq> None \<and> f \<noteq> [] then or_type (first_type (the (in_schema i)) f) ''string''
         else if f = [] then kept
         else let right = (second = Some True);
                  topic = (if in_single i then in_topic i else if right then in_secondary i else in_primary i);
                  inner = (if right then jget ''event'' (topic_event (in_secondary i)) else jget ''event'' (topic_event (in_primary i)));
                  data = (if in_single i then in_data i
                    else or_nullish inner (if right then topic_event (in_secondary i) else in_primaryData i))
           in or_type (getVerifiedTypeFromTopic topic f) (inferJsonType (getNestedValue data f)))"

definition mapEventFieldToColumn :: "MapperInput \<Rightarrow> nat \<Rightarrow> string \<Rightarrow> bool option \<Rightarrow> TableColumn list \<Rightarrow> TableColumn list" where
  "mapEventFieldToColumn i n f second cols =
     (let source = (if in_single i then None
            else case second of
                   None \<Rightarrow> None
                 | Some right \<Rightarrow> map_option topic_name (if right then in_secondary i else in_primary i));
          c = (cols ! n)\<lparr>eventField := Some f, jsonType := Some (mapped_type i f second (cols ! n))\<rparr>
      in cols[n := (if opt_text source = [] then c else c\<lparr>sourceTopic := source\<rparr>)])"

section \<open>What mapping leaves\<close>

lemma cleared_update [simp]:
  "cleared (cleared c) = cleared c"
  "cleared (c\<lparr>eventField := f, jsonType := t\<rparr>) = cleared c" "cleared (c\<lparr>eventField := f, jsonType := t, sourceTopic := s\<rparr>) = cleared c"
  by (simp_all add: cleared_def)

lemma infer_given [simp]: "inferJsonType v \<noteq> []"
  by (cases v rule: inferJsonType.cases) (auto split: js_number.splits)

lemma typed_given [simp]: "data_type t d f \<noteq> []" "or_type a b = [] \<longleftrightarrow> a = [] \<and> b = []"
  by (auto simp: data_type_def or_type_def)

lemma match_in: "findBestMatchingField n fs = Some f \<Longrightarrow> f \<in> set fs"
  by (auto simp: findBestMatchingField_def Let_def or_find_def truthy_match_def find_Some_iff split: option.splits if_splits)

lemma truthy_match_in: "truthy_match (findBestMatchingField n fs) = Some f \<Longrightarrow> f \<in> set fs \<and> f \<noteq> []"
  using match_in by (auto simp: truthy_match_def split: if_splits)

lemma matched_row:
  assumes "matched fs ty c = Some c'"
  shows "cleared c' = cleared c" "opt_text (eventField c') \<in> set fs - {[]}" "jsonType c' = Some (ty (opt_text (eventField c')))"
  using assms truthy_match_in by (auto simp: matched_def opt_text_def split: option.splits)

text \<open>The fields a row can be mapped to.\<close>

definition mappable_fields :: "MapperInput \<Rightarrow> string list" where
  "mappable_fields i =
     (if in_single i
      then (if in_otlp i \<and> in_otlpFields i \<noteq> [] then map fst (in_otlpFields i)
            else case in_schema i of Some schema \<Rightarrow> map fst schema | None \<Rightarrow> in_fields i)
      else in_primaryFields i @ in_secondaryFields i)"

definition typed_fields :: "MapperInput \<Rightarrow> bool" where
  "typed_fields i \<longleftrightarrow> list_all (\<lambda>e. snd e \<noteq> []) (in_otlpFields i)"

lemma otlp_typed: "typed_fields i \<Longrightarrow> otlp_field_type i f \<noteq> []"
  by (fastforce simp: otlp_field_type_def last_type_def typed_fields_def list_all_iff split: option.splits dest!: map_of_SomeD)

lemma single_row_matched:
  assumes "single_row i c = Some c'" and "in_single i"
  shows "\<exists>fs ty. matched fs ty c = Some c' \<and> set fs = set (mappable_fields i) \<and> (typed_fields i \<longrightarrow> (\<forall>f. ty f \<noteq> []))"
proof (cases "in_otlp i \<and> in_otlpFields i \<noteq> []")
  case True
  then have "matched (map fst (in_otlpFields i)) (otlp_field_type i) c = Some c'" "set (map fst (in_otlpFields i)) = set (mappable_fields i)"
    using assms by (simp_all add: single_row_def mappable_fields_def)
  then show ?thesis using otlp_typed by blast
next
  case False
  show ?thesis
  proof (cases "in_schema i")
    case None
    then have "matched (in_fields i) (data_type (in_topic i) (in_data i)) c = Some c'" "set (in_fields i) = set (mappable_fields i)"
      using assms False by (auto simp: single_row_def mappable_fields_def split: if_splits)
    then show ?thesis using typed_given(1) by blast
  next
    case (Some schema)
    then have "matched (map fst schema) (schema_type schema) c = Some c'" "set (map fst schema) = set (mappable_fields i)"
      "schema_type schema f \<noteq> []" for f
      using assms False by (auto simp: single_row_def mappable_fields_def schema_type_def split: if_splits)
    then show ?thesis by blast
  qed
qed

lemma single_row_spec:
  assumes "single_row i c = Some c'" and "in_single i"
  shows "cleared c' = cleared c \<and> opt_text (eventField c') \<in> set (mappable_fields i) - {[]} \<and>
    (typed_fields i \<longrightarrow> opt_text (jsonType c') \<noteq> [])"
proof -
  obtain fs ty where m: "matched fs ty c = Some c'" "set fs = set (mappable_fields i)" "typed_fields i \<longrightarrow> (\<forall>f. ty f \<noteq> [])"
    using single_row_matched [OF assms] by blast
  then show ?thesis using matched_row [OF m(1)] by (simp add: opt_text_def)
qed

lemma join_row_spec:
  assumes "join_row i c = Some c'" and "\<not> in_single i"
  shows "cleared c' = cleared c \<and> opt_text (eventField c') \<in> set (mappable_fields i) - {[]} \<and> opt_text (jsonType c') \<noteq> []"
  using assms truthy_match_in
  by (auto simp: join_row_def Let_def mappable_fields_def opt_text_def split: option.splits if_splits)

lemma row_spec:
  assumes "(if in_single i then single_row i else join_row i) c = Some c'"
  shows "cleared c' = cleared c \<and> opt_text (eventField c') \<in> set (mappable_fields i) - {[]} \<and>
    (typed_fields i \<longrightarrow> opt_text (jsonType c') \<noteq> [])"
  using assms single_row_spec [of i c c'] join_row_spec [of i c c'] by (auto split: if_splits)

lemma update_rows_some:
  "update_rows g cols = Some rows \<longleftrightarrow>
     list_ex (\<lambda>c. g c \<noteq> None) cols \<and> rows = map (\<lambda>c. case g c of Some c' \<Rightarrow> c' | None \<Rightarrow> c) cols"
  by (auto simp: update_rows_def)

lemma load_settles:
  assumes "\<And>c c'. g c = Some c' \<Longrightarrow> opt_text (eventField c') \<noteq> []" and "update_rows g cols = Some rows"
  shows "has_mapping rows"
proof -
  obtain c c' where c: "c \<in> set cols" "g c = Some c'" using assms(2) by (auto simp: update_rows_some list_ex_iff)
  then have "c' \<in> set rows" using assms(2) by (force simp: update_rows_some)
  then show ?thesis using assms(1) [OF c(2)] by (auto simp: has_mapping_def list_ex_iff)
qed

text \<open>
  C35. Automatic mapping changes nothing of a column but its field, its type and its topic; a row it maps has a
  field that is offered and a type, so the check of the mapping misses no type, and mapping again changes
  nothing.
\<close>

theorem auto_mapping_spec:
  assumes "performAutoMapping i cols = Some rows" and "typed_fields i"
  shows "map cleared rows = map cleared cols \<and> has_mapping rows \<and>
    list_all (\<lambda>c. opt_text (eventField c) \<in> set (mappable_fields i) \<union> {[]}) rows \<and>
    snd (snd (validateColumnMappings rows)) = [] \<and> performAutoMapping i rows = Some rows"
proof -
  define g where "g = (if in_single i then single_row i else join_row i)"
  have rows: "list_ex (\<lambda>c. g c \<noteq> None) (map cleared cols)" "rows = map (\<lambda>c. case g c of Some c' \<Rightarrow> c' | None \<Rightarrow> c) (map cleared cols)"
    and cols: "cols \<noteq> []" "\<not> (\<not> in_single i \<and> in_primaryFields i = [] \<and> in_secondaryFields i = [])"
    using assms(1) by (auto simp: performAutoMapping_def g_def update_rows_some split: if_splits)
  have g: "cleared c' = cleared c \<and> opt_text (eventField c') \<in> set (mappable_fields i) - {[]} \<and> opt_text (jsonType c') \<noteq> []"
    if "g c = Some c'" for c c'
    using row_spec that assms(2) by (auto simp: g_def)
  have same: "map cleared rows = map cleared cols"
    unfolding rows(2) using g by (auto simp: comp_def split: option.splits)
  have "list_ex (\<lambda>c. g c \<noteq> None) (map cleared rows)" using rows(1) by (simp only: same)
  moreover have "map (\<lambda>c. case g c of Some c' \<Rightarrow> c' | None \<Rightarrow> c) (map cleared rows) = rows" unfolding same by (rule rows(2) [symmetric])
  moreover have "rows \<noteq> []" using cols(1) by (simp add: rows(2))
  ultimately have again: "performAutoMapping i rows = Some rows"
    using cols(2) by (simp add: performAutoMapping_def update_rows_some flip: g_def)
  have "opt_text (eventField c) \<in> set (mappable_fields i) \<union> {[]} \<and> (opt_text (eventField c) \<noteq> [] \<longrightarrow> opt_text (jsonType c) \<noteq> [])"
    if c: "c \<in> set rows" for c
  proof -
    obtain d where d: "c = (case g (cleared d) of Some c' \<Rightarrow> c' | None \<Rightarrow> cleared d)"
      using c unfolding rows(2) by auto
    show ?thesis
    proof (cases "g (cleared d)")
      case None
      then show ?thesis by (simp add: d) (simp add: cleared_def opt_text_def)
    next
      case (Some c')
      then show ?thesis using g [OF Some] by (simp add: d)
    qed
  qed
  moreover have "has_mapping rows"
    by (rule load_settles [of g "map cleared cols"]) (use g rows in \<open>auto simp: update_rows_some\<close>)
  ultimately show ?thesis using same again by (auto simp: validateColumnMappings_eq filter_empty_conv list_all_iff)
qed

definition example_mapper :: MapperInput where
  "example_mapper =
     \<lparr>in_single = True, in_create = False, in_otlp = False, in_otlpFields = [], in_schema = None, in_topic = None,
      in_fields = [''user_id'', ''total''], in_data = JObj [(''user_id'', JNum (Fin 7 0)), (''total'', JStr ''x'')],
      in_primary = None, in_secondary = None, in_primaryFields = [], in_secondaryFields = [], in_primaryData = JUndef\<rparr>"

lemma auto_mapping_spec_witness:
  "\<exists>rows. performAutoMapping example_mapper [new_column ''UserID'' ''Int64'' [], new_column ''zip'' ''String'' []] = Some rows \<and>
     has_mapping rows \<and> performAutoMapping example_mapper rows = Some rows"
proof -
  let ?cols = "[new_column ''UserID'' ''Int64'' [], new_column ''zip'' ''String'' []]"
  have "findBestMatchingField ''UserID'' [''user_id'', ''total''] = Some ''user_id''" by code_simp
  then obtain rows where r: "performAutoMapping example_mapper ?cols = Some rows"
    by (simp add: performAutoMapping_def example_mapper_def update_rows_def single_row_def matched_def truthy_match_def
      cleared_def new_column_def)
  then show ?thesis using auto_mapping_spec [OF r] by (simp add: typed_fields_def example_mapper_def)
qed

lemma typed_settles:
  assumes "\<And>c c'. g c = Some c' \<Longrightarrow> \<not> untyped c'" and "\<And>c. \<not> untyped c \<Longrightarrow> g c = None" and "update_rows g cols = Some rows"
  shows "update_rows g rows = None"
proof -
  have "g c = None" if "c \<in> set rows" for c
    using that assms(3) assms(1) [of _ c] assms(2) [of c] by (auto simp: update_rows_some split: option.splits)
  then show ?thesis by (auto simp: update_rows_def list_ex_iff)
qed

lemma typed_as_typed: "typed_as t c = Some c' \<Longrightarrow> \<not> untyped c'"
  by (auto simp: typed_as_def untyped_def opt_text_def split: if_splits)

text \<open>
  C36. The effects that fill the mapping settle: once one has set rows, it sets none again for the rows it left.
\<close>

theorem effects_settle:
  "(case load_single i stored cols of Some rows \<Rightarrow> load_single i rows rows = None | None \<Rightarrow> True) \<and>
   (case load_join i stored cols of Some rows \<Rightarrow> load_join i rows rows = None | None \<Rightarrow> True) \<and>
   (case infer_missing i cols of Some rows \<Rightarrow> infer_missing i rows = None | None \<Rightarrow> True)"
proof (intro conjI)
  have m: "opt_text (eventField c') \<noteq> []" if "matched fs ty c = Some c'" for fs ty c c'
    using matched_row(2) [OF that] by auto
  show "case load_single i stored cols of Some rows \<Rightarrow> load_single i rows rows = None | None \<Rightarrow> True"
    using load_settles [of "matched fs ty" for fs ty, OF m]
    by (auto simp: load_single_def split: option.splits prod.splits if_splits)
  have j: "opt_text (eventField c') \<noteq> []" if "unmapped_join_row i c = Some c'" "\<not> in_single i" for c c'
    using join_row_spec [of i c c'] that by (auto simp: unmapped_join_row_def split: if_splits)
  show "case load_join i stored cols of Some rows \<Rightarrow> load_join i rows rows = None | None \<Rightarrow> True"
    using load_settles [of "unmapped_join_row i", OF j] by (auto simp: load_join_def split: option.splits if_splits)
  have s: "\<not> untyped c'" if "inferred_single i c = Some c'" for c c'
    using that typed_as_typed by (auto simp: inferred_single_def Let_def split: if_splits option.splits)
  have t: "\<not> untyped c'" if "inferred_join i c = Some c'" for c c'
    using that typed_as_typed by (auto simp: inferred_join_def Let_def split: if_splits prod.splits)
  show "case infer_missing i cols of Some rows \<Rightarrow> infer_missing i rows = None | None \<Rightarrow> True"
    using typed_settles [of "inferred_single i", OF s] typed_settles [of "inferred_join i", OF t]
    by (auto simp: infer_missing_def inferred_single_def inferred_join_def split: option.splits)
qed

end
