(* ===== verification/Destination_Mapper.thy ===== *)
theory Destination_Mapper
  imports Mapping_Validation Pipeline_Resources
begin

text \<open>
  The step that maps events to a table: the state of the mapper next to the destination slice
  (ui/src/modules/clickhouse/hooks/useClickhouseMapperState.ts, the handlers of ClickhouseMapper.tsx) and the
  saving of the step (useDestinationSave.ts). Effects are functions; requests are arguments that hold what was
  loaded.
\<close>

section \<open>The mapper\<close>

record Mapper =
  mp_database :: string
  mp_table :: string
  mp_columns :: "TableColumn list"
  mp_mapped :: "TableColumn list"
  mp_batch :: js_number
  mp_delay :: js_number
  mp_unit :: string
  mp_hydrated :: bool
  mp_connection :: string

text \<open>The store keeps columns as values; these are the properties the mapper reads of them.\<close>

definition text_property :: "string \<Rightarrow> json \<Rightarrow> string option" where
  "text_property k v = (case jget k v of JStr s \<Rightarrow> Some s | _ \<Rightarrow> None)"

definition flag_property :: "string \<Rightarrow> json \<Rightarrow> bool option" where
  "flag_property k v = (case jget k v of JBool b \<Rightarrow> Some b | _ \<Rightarrow> None)"

definition column_of :: "json \<Rightarrow> TableColumn" where
  "column_of v =
     \<lparr>col_name = opt_text (text_property ''name'' v), col_type = text_property ''type'' v,
      column_type = text_property ''column_type'' v, jsonType = text_property ''jsonType'' v,
      isNullable = flag_property ''isNullable'' v, isKey = flag_property ''isKey'' v,
      eventField = text_property ''eventField'' v, sourceTopic = text_property ''sourceTopic'' v,
      default_type = text_property ''default_type'' v, default_expression = text_property ''default_expression'' v,
      default_kind = text_property ''default_kind'' v\<rparr>"

definition truthy_or :: "js_number \<Rightarrow> js_number \<Rightarrow> js_number" where
  "truthy_or n d = (if jtruthy (JNum n) then n else d)"

definition mounted :: "ClickhouseDestinationStore \<Rightarrow> Mapper" where
  "mounted s =
     (let d = clickhouseDestination s
      in \<lparr>mp_database = cd_database d, mp_table = cd_table d, mp_columns = map column_of (destinationColumns d),
          mp_mapped = map column_of (cd_mapping d), mp_batch = truthy_or (maxBatchSize d) (Fin 1000 0),
          mp_delay = truthy_or (maxDelayTime d) (Fin 1 0), mp_unit = or_text (maxDelayTimeUnit d) ''m'',
          mp_hydrated = False, mp_connection = []\<rparr>)"

subsection \<open>Effects\<close>

definition connection_id :: "ClickhouseConnection \<Rightarrow> string" where
  "connection_id c =
     (let d = directConnection c in dc_host d @ '':'' @ dc_httpPort d @ '':'' @ dc_username d)"

definition connection_effect :: "ClickhouseConnection \<Rightarrow> Mapper \<Rightarrow> Mapper" where
  "connection_effect c m =
     (let m' = (if mp_connection m \<noteq> [] \<and> mp_connection m \<noteq> connection_id c
        then m\<lparr>mp_database := [], mp_table := [], mp_columns := [], mp_mapped := []\<rparr> else m)
      in m'\<lparr>mp_connection := connection_id c\<rparr>)"

text \<open>After the path of the destination has changed.\<close>

definition path_effect :: "ClickhouseDestinationStore \<Rightarrow> Mapper \<Rightarrow> Mapper" where
  "path_effect s m =
     (let d = clickhouseDestination s
      in m\<lparr>mp_table := cd_table d, mp_columns := map column_of (destinationColumns d), mp_mapped := map column_of (cd_mapping d)\<rparr>)"

definition same_column :: "TableColumn \<Rightarrow> TableColumn \<Rightarrow> bool" where
  "same_column c f \<longleftrightarrow> col_name c = col_name f \<and> (col_type c = col_type f \<or> col_type c = column_type f) \<and> isNullable c = isNullable f"

definition unmapped_column :: "TableColumn \<Rightarrow> TableColumn" where
  "unmapped_column c = c\<lparr>jsonType := Some [], isNullable := Some False, isKey := Some False, eventField := Some []\<rparr>"

definition kept_column :: "TableColumn list \<Rightarrow> TableColumn \<Rightarrow> TableColumn" where
  "kept_column mapped c =
     (case find (\<lambda>m. col_name m = col_name c) mapped of
        None \<Rightarrow> unmapped_column c
      | Some e \<Rightarrow> c\<lparr>jsonType := Some (opt_text (jsonType e)), isNullable := Some (isNullable e = Some True),
          isKey := Some (isKey e = Some True), eventField := Some (opt_text (eventField e)),
          sourceTopic := (if opt_text (sourceTopic e) \<noteq> [] then sourceTopic e else sourceTopic c)\<rparr>)"

definition schema_effect :: "TableColumn list \<Rightarrow> Mapper \<times> ClickhouseDestinationStore \<Rightarrow> Mapper \<times> ClickhouseDestinationStore" where
  "schema_effect schema = (\<lambda>(m, s).
     if destinationPath (clickhouseDestination s) \<noteq> ExistingPath \<or> schema = [] then (m, s)
     else let fs = filterUserMappableColumns schema;
              changed = (length (mp_columns m) \<noteq> length fs \<or> \<not> list_all2 same_column (mp_columns m) fs);
              keep = list_ex (\<lambda>c. opt_text (eventField c) \<noteq> []) (mp_mapped m);
              rows = map (if keep then kept_column (mp_mapped m) else unmapped_column) fs
       in if \<not> changed then (m, s)
          else (m\<lparr>mp_columns := fs, mp_mapped := rows\<rparr>,
            updateClickhouseDestinationDraft
              (no_updates\<lparr>du_destinationColumns := Some (map column_json fs), du_mapping := Some (map column_json rows)\<rparr>) s))"

definition has_server_data :: "ClickhouseDestinationState \<Rightarrow> bool" where
  "has_server_data d \<longleftrightarrow> cd_mapping d \<noteq> [] \<or> destinationColumns d \<noteq> [] \<or>
     cd_database d \<noteq> [] \<and> (cd_table d \<noteq> [] \<or> opt_text (cd_tableName d) \<noteq> [])"

definition blank_row :: "TableColumn \<Rightarrow> TableColumn" where
  "blank_row c = c\<lparr>jsonType := Some [], isNullable := Some (isNullable c = Some True), isKey := Some False, eventField := Some []\<rparr>"

definition hydrate_effect :: "ClickhouseDestinationStore \<Rightarrow> Mapper \<Rightarrow> Mapper" where
  "hydrate_effect s m =
     (let d = clickhouseDestination s; columns = map column_of (destinationColumns d)
      in if \<not> has_server_data d \<or> mp_hydrated m then m
         else \<lparr>mp_database = cd_database d, mp_table = cd_table d, mp_columns = columns,
                mp_mapped = (if cd_mapping d = [] \<and> columns \<noteq> [] then map blank_row (filterUserMappableColumns columns)
                  else map column_of (cd_mapping d)),
                mp_batch = truthy_or (maxBatchSize d) (Fin 1000 0), mp_delay = truthy_or (maxDelayTime d) (Fin 1 0),
                mp_unit = or_text (maxDelayTimeUnit d) ''m'', mp_hydrated = True, mp_connection = mp_connection m\<rparr>)"

text \<open>The rows of a table that is to be created, one for each field.\<close>

definition generate_effect :: "string list \<Rightarrow> (string \<Rightarrow> string option) \<Rightarrow> Mapper \<times> ClickhouseDestinationStore \<Rightarrow> Mapper \<times> ClickhouseDestinationStore" where
  "generate_effect offered getJsonType = (\<lambda>(m, s).
     let d = clickhouseDestination s
     in if destinationPath d \<noteq> CreatePath \<or> trim (opt_text (cd_tableName d)) = [] \<or> mp_database m = [] \<or> offered = [] \<or> mp_mapped m \<noteq> []
        then (m, s)
        else let rows = buildInitialMappingFromEventFields offered getJsonType
          in (m\<lparr>mp_mapped := rows\<rparr>,
              updateClickhouseDestinationDraft
                (no_updates\<lparr>du_mapping := Some (map column_json rows), du_destinationColumns := Some (map column_json rows)\<rparr>) s))"

subsection \<open>Operations\<close>

definition handleDatabaseSelection :: "string \<Rightarrow> Mapper \<times> ClickhouseDestinationStore \<Rightarrow> Mapper \<times> ClickhouseDestinationStore" where
  "handleDatabaseSelection database = (\<lambda>(m, s).
     (m\<lparr>mp_database := database, mp_table := [], mp_columns := [], mp_mapped := []\<rparr>,
      updateClickhouseDestinationDraft (no_updates\<lparr>du_database := Some database, du_table := Some [],
        du_destinationColumns := Some [], du_mapping := Some []\<rparr>) s))"

definition handleTableSelection :: "string \<Rightarrow> Mapper \<times> ClickhouseDestinationStore \<Rightarrow> Mapper \<times> ClickhouseDestinationStore" where
  "handleTableSelection table = (\<lambda>(m, s).
     if mp_table m = table then (m, s)
     else (m\<lparr>mp_table := table, mp_columns := [], mp_mapped := []\<rparr>,
       updateClickhouseDestinationDraft (no_updates\<lparr>du_table := Some table, du_destinationColumns := Some [], du_mapping := Some []\<rparr>) s))"

text \<open>Setting rows in the draft, and setting them in the destination, which also marks it as valid.\<close>

definition draft_rows :: "TableColumn list \<Rightarrow> ClickhouseDestinationStore \<Rightarrow> ClickhouseDestinationStore" where
  "draft_rows rows s = updateClickhouseDestinationDraft (no_updates\<lparr>du_mapping := Some (map column_json rows)\<rparr>) s"

definition put_rows :: "time \<Rightarrow> TableColumn list \<Rightarrow> ClickhouseDestinationStore \<Rightarrow> ClickhouseDestinationStore" where
  "put_rows now rows s = setClickhouseDestination now ((clickhouseDestination s)\<lparr>cd_mapping := map column_json rows\<rparr>) s"

text \<open>The assignment of a property to a row that is shown.\<close>

definition updateColumnMapping ::
    "time \<Rightarrow> nat \<Rightarrow> (TableColumn \<Rightarrow> TableColumn) \<Rightarrow> Mapper \<times> ClickhouseDestinationStore \<Rightarrow> Mapper \<times> ClickhouseDestinationStore" where
  "updateColumnMapping now n assign = (\<lambda>(m, s).
     let rows = (mp_mapped m)[n := assign (mp_mapped m ! n)]
     in (m\<lparr>mp_mapped := rows\<rparr>,
         if destinationPath (clickhouseDestination s) = CreatePath then draft_rows rows s else put_rows now rows s))"

definition handleRefreshDatabases :: "string list \<Rightarrow> Mapper \<Rightarrow> Mapper" where
  "handleRefreshDatabases listed m =
     (if mp_database m \<noteq> [] \<and> listed \<noteq> [] \<and> mp_database m \<notin> set listed
      then m\<lparr>mp_database := [], mp_table := [], mp_columns := [], mp_mapped := []\<rparr> else m)"

definition handleRefreshTables :: "string list \<Rightarrow> Mapper \<Rightarrow> Mapper" where
  "handleRefreshTables listed m =
     (if mp_table m \<noteq> [] \<and> listed \<noteq> [] \<and> mp_table m \<notin> set listed
      then m\<lparr>mp_table := [], mp_columns := [], mp_mapped := []\<rparr> else m)"

definition handlePathChange :: "bool \<Rightarrow> DestinationPath \<Rightarrow> Mapper \<times> ClickhouseDestinationStore \<Rightarrow> Mapper \<times> ClickhouseDestinationStore" where
  "handlePathChange allowCreateNewTable path = (\<lambda>(m, s).
     if \<not> allowCreateNewTable then (m, s)
     else let s' = setDestinationPath path s
       in (if destinationPath (clickhouseDestination s) \<noteq> path then path_effect s' m else m, s'))"

definition emptyRow :: TableColumn where
  "emptyRow =
     \<lparr>col_name = [], col_type = Some ''String'', column_type = None, jsonType = Some ''string'', isNullable = Some True, isKey = None,
      eventField = Some [], sourceTopic = None, default_type = None, default_expression = None, default_kind = None\<rparr>"

definition set_rows :: "(TableColumn list \<Rightarrow> TableColumn list) \<Rightarrow> Mapper \<times> ClickhouseDestinationStore \<Rightarrow> Mapper \<times> ClickhouseDestinationStore" where
  "set_rows f = (\<lambda>(m, s). (m\<lparr>mp_mapped := f (mp_mapped m)\<rparr>, draft_rows (f (mp_mapped m)) s))"

definition handleAddMapping :: "Mapper \<times> ClickhouseDestinationStore \<Rightarrow> Mapper \<times> ClickhouseDestinationStore" where
  "handleAddMapping = set_rows (\<lambda>rows. rows @ [emptyRow])"

definition handleDeleteRow :: "nat \<Rightarrow> Mapper \<times> ClickhouseDestinationStore \<Rightarrow> Mapper \<times> ClickhouseDestinationStore" where
  "handleDeleteRow n = set_rows (\<lambda>rows. take n rows @ drop (Suc n) rows)"

definition nullable_row :: "bool \<Rightarrow> TableColumn \<Rightarrow> TableColumn" where
  "nullable_row checked c =
     (let base = strip_nullable (or_text (opt_text (col_type c)) ''String'')
      in c\<lparr>isNullable := Some checked, col_type := Some (if checked then ''Nullable('' @ base @ '')'' else base)\<rparr>)"

definition handleNullableChange :: "nat \<Rightarrow> bool \<Rightarrow> Mapper \<times> ClickhouseDestinationStore \<Rightarrow> Mapper \<times> ClickhouseDestinationStore" where
  "handleNullableChange n checked = set_rows (\<lambda>rows. rows[n := nullable_row checked (rows ! n)])"

text \<open>The settings of a table that is to be created.\<close>

definition setTableName :: "string \<Rightarrow> ClickhouseDestinationStore \<Rightarrow> ClickhouseDestinationStore" where
  "setTableName v = updateClickhouseDestinationDraft (no_updates\<lparr>du_tableName := Some (Some v)\<rparr>)"

definition setEngine :: "string \<Rightarrow> ClickhouseDestinationStore \<Rightarrow> ClickhouseDestinationStore" where
  "setEngine v = updateClickhouseDestinationDraft (no_updates\<lparr>du_engine := Some (Some v)\<rparr>)"

definition setOrderBy :: "string \<Rightarrow> ClickhouseDestinationStore \<Rightarrow> ClickhouseDestinationStore" where
  "setOrderBy v = updateClickhouseDestinationDraft (no_updates\<lparr>du_orderBy := Some (Some v)\<rparr>)"

section \<open>Saving\<close>

text \<open>What the step is given besides the mapper and the stores.\<close>

record SaveContext =
  sc_now :: time
  sc_newId :: string
  sc_inDocker :: bool
  sc_topics :: "KafkaTopic list"
  sc_single :: bool
  sc_fields :: "string list"
  sc_primaryFields :: "string list"
  sc_secondaryFields :: "string list"
  sc_structural :: "string list"
  sc_standalone :: bool

datatype SaveError =
    EnterTableName
  | SelectDatabase
  | SelectEngine
  | SelectOrderBy
  | IncompatibleTypes "string list"
  | TypesMissing "string list"
  | FixValidationErrors

text \<open>\<open>sv_completed\<close>: the step called the function for its completion.\<close>

record SaveState =
  sv_pending :: bool
  sv_error :: "SaveError option"
  sv_success :: bool
  sv_modal :: "Mapping_Validation.ValidationResult option"
  sv_visible :: bool
  sv_completed :: bool

definition mapping_input :: "SaveContext \<Rightarrow> Mapper \<Rightarrow> RootStore \<Rightarrow> MappingInput" where
  "mapping_input x m s =
     (let d = clickhouseDestination (clickhouseDestinationStore s)
      in \<lparr>schema_columns = mp_columns m, mappedColumns = mp_mapped m, eventFields = sc_fields x,
          primaryEventFields = sc_primaryFields x, secondaryEventFields = sc_secondaryFields x, single_mode = sc_single x,
          create_path = (destinationPath d = CreatePath), orderBy = Some (opt_text (cd_orderBy d)),
          structuralFields = sc_structural x\<rparr>)"

definition updated_destination :: "Mapper \<Rightarrow> ClickhouseDestinationState \<Rightarrow> ClickhouseDestinationState" where
  "updated_destination m d =
     (let given = (\<lambda>v. if destinationPath d = CreatePath then Some (opt_text v) else None)
      in d\<lparr>cd_database := mp_database m,
           cd_table := (if destinationPath d = CreatePath then opt_text (cd_tableName d) else mp_table m),
           cd_tableName := given (cd_tableName d), cd_engine := given (cd_engine d), cd_orderBy := given (cd_orderBy d),
           cd_mapping := map column_json (mp_mapped m), destinationColumns := map column_json (mp_columns m),
           maxBatchSize := mp_batch m, maxDelayTime := mp_delay m, maxDelayTimeUnit := mp_unit m\<rparr>)"

text \<open>Neither the core store nor the OTLP store is passed on, so the source is always taken for Kafka.\<close>

definition save_input :: "SaveContext \<Rightarrow> Mapper \<Rightarrow> RootStore \<Rightarrow> BuildInput" where
  "save_input x m s =
     \<lparr>bi_pipelineId = pipelineId (coreStore s), bi_pipelineName = pipelineName (coreStore s), bi_newId = sc_newId x,
      bi_inDocker = sc_inDocker x, bi_connection = clickhouseConnection (clickhouseConnectionStore s),
      bi_destination = updated_destination m (clickhouseDestination (clickhouseDestinationStore s)),
      bi_mapping = mp_mapped m, bi_topics = sc_topics x, bi_join = joinStore s, bi_kafka = kafkaStore s,
      bi_dedup = deduplicationStore s, bi_filter = filterStore s, bi_transformation = transformationStore s,
      bi_sourceType = None, bi_otlp = otlpStore s\<rparr>"

definition save_resources :: "RootStore \<Rightarrow> json option option" where
  "save_resources s =
     (let saved = (case lastSavedConfig (coreStore s) of Some p \<Rightarrow> jget ''pipeline_resources'' (pipeline_rest p) | None \<Rightarrow> JUndef)
      in case pipeline_resources (resourcesStore s) of
           None \<Rightarrow> Some None
         | Some raw \<Rightarrow> if jtruthy raw \<and> jtruthy saved
             then map_option Some (sanitizePipelineResourcesForSubmit saved raw (fields_policy (resourcesStore s)))
             else Some (Some raw))"

text \<open>\<open>None\<close>: restoring the resources raises.\<close>

definition completeConfigSave :: "SaveContext \<Rightarrow> Mapper \<Rightarrow> SaveState \<times> RootStore \<Rightarrow> (SaveState \<times> RootStore) option" where
  "completeConfigSave x m = (\<lambda>(u, s).
     let (valid, invalid, missing) = validateColumnMappings (mp_mapped m)
     in if invalid \<noteq> [] then Some (u\<lparr>sv_error := Some (IncompatibleTypes (map col_name invalid))\<rparr>, s)
        else if missing \<noteq> [] then Some (u\<lparr>sv_error := Some (TypesMissing (map col_name missing))\<rparr>, s)
        else case save_resources s of
               None \<Rightarrow> None
             | Some resources \<Rightarrow>
                 (let config = generateApiConfig (save_input x m s) resources;
                      d = clickhouseDestinationStore s;
                      s1 = s\<lparr>clickhouseDestinationStore := cd_markAsValid (sc_now x)
                               (d\<lparr>clickhouseDestination := updated_destination m (clickhouseDestination d)\<rparr>),
                             coreStore := setApiConfig config
                               (if pipelineId (coreStore s) = [] then setPipelineId (sc_newId x) (coreStore s) else coreStore s)\<rparr>
                  in Some (u\<lparr>sv_success := True, sv_completed := True\<rparr>, if sc_standalone x then markAsDirty s1 else s1)))"

definition create_error :: "Mapper \<Rightarrow> ClickhouseDestinationState \<Rightarrow> SaveError option" where
  "create_error m d =
     (if destinationPath d \<noteq> CreatePath then None
      else if trim (opt_text (cd_tableName d)) = [] then Some EnterTableName
      else if mp_database m = [] then Some SelectDatabase
      else if opt_text (cd_engine d) = [] then Some SelectEngine
      else if opt_text (cd_orderBy d) = [] then Some SelectOrderBy else None)"

definition saveDestinationConfig :: "SaveContext \<Rightarrow> Mapper \<Rightarrow> SaveState \<times> RootStore \<Rightarrow> (SaveState \<times> RootStore) option" where
  "saveDestinationConfig x m = (\<lambda>(u, s).
     case create_error m (clickhouseDestination (clickhouseDestinationStore s)) of
       Some e \<Rightarrow> Some (u\<lparr>sv_error := Some e, sv_pending := False\<rparr>, s)
     | None \<Rightarrow>
         (let i = mapping_input x m s; u1 = u\<lparr>sv_pending := True\<rparr>
          in case validateMapping i (validationIssues i) of
               Some r \<Rightarrow> Some (u1\<lparr>sv_modal := Some r, sv_visible := True\<rparr>, s)
             | None \<Rightarrow> completeConfigSave x m (u1, s)))"

definition onModalComplete :: "SaveContext \<Rightarrow> Mapper \<Rightarrow> bool \<Rightarrow> SaveState \<times> RootStore \<Rightarrow> (SaveState \<times> RootStore) option" where
  "onModalComplete x m yes = (\<lambda>(u, s).
     let u1 = u\<lparr>sv_visible := False\<rparr>;
         answered = (if \<not> yes then Some (u1, s)
           else if map_option severity (sv_modal u) = Some ErrorResult then Some (u1\<lparr>sv_error := Some FixValidationErrors\<rparr>, s)
           else completeConfigSave x m (u1, s))
     in map_option (\<lambda>(u2, s2). (u2\<lparr>sv_pending := False\<rparr>, s2)) answered)"

section \<open>The mapper and the store\<close>

lemma column_read [simp]: "column_of (column_json c) = c"
proof -
  have t: "(case json_text t of JStr s \<Rightarrow> Some s | _ \<Rightarrow> None) = t" for t by (cases t) (simp_all add: json_text_def)
  have f: "(case (case b of Some x \<Rightarrow> JBool x | None \<Rightarrow> JUndef) of JBool b \<Rightarrow> Some b | _ \<Rightarrow> None) = b" for b by (cases b) simp_all
  show ?thesis by (simp add: column_of_def column_json_def text_property_def flag_property_def t f opt_text_def Let_def)
qed

lemma columns_read [simp]: "map column_of (map column_json cs) = cs" "map (column_of \<circ> column_json) cs = cs"
  by (simp_all add: comp_def)

definition agrees :: "Mapper \<times> ClickhouseDestinationStore \<Rightarrow> bool" where
  "agrees = (\<lambda>(m, s). let d = clickhouseDestination s
     in cd_database d = mp_database m \<and> cd_mapping d = map column_json (mp_mapped m) \<and>
        (destinationPath d = CreatePath \<or> cd_table d = mp_table m \<and> destinationColumns d = map column_json (mp_columns m)))"

text \<open>What the user does in the step, and what is loaded for it. A path is chosen when it is the other one.\<close>

datatype MapperAction =
    ChooseDatabase string
  | ChooseTable string
  | Edit time nat "TableColumn \<Rightarrow> TableColumn"
  | SchemaLoaded "TableColumn list"
  | FieldsLoaded "string list" "string \<Rightarrow> string option"
  | SwitchPath
  | AddRow
  | DeleteRow nat
  | SetNullable nat bool
  | SetTableName string
  | SetEngine string
  | SetOrderBy string

definition other_path :: "DestinationPath \<Rightarrow> DestinationPath" where
  "other_path p = (if p = CreatePath then ExistingPath else CreatePath)"

fun mapper_apply :: "MapperAction \<Rightarrow> Mapper \<times> ClickhouseDestinationStore \<Rightarrow> Mapper \<times> ClickhouseDestinationStore" where
  "mapper_apply (ChooseDatabase v) = handleDatabaseSelection v"
| "mapper_apply (ChooseTable v) = handleTableSelection v"
| "mapper_apply (Edit now n f) = updateColumnMapping now n f"
| "mapper_apply (SchemaLoaded cs) = schema_effect cs"
| "mapper_apply (FieldsLoaded fs ty) = generate_effect fs ty"
| "mapper_apply SwitchPath = (\<lambda>(m, s). handlePathChange True (other_path (destinationPath (clickhouseDestination s))) (m, s))"
| "mapper_apply AddRow = handleAddMapping"
| "mapper_apply (DeleteRow n) = handleDeleteRow n"
| "mapper_apply (SetNullable n b) = handleNullableChange n b"
| "mapper_apply (SetTableName v) = (\<lambda>(m, s). (m, setTableName v s))"
| "mapper_apply (SetEngine v) = (\<lambda>(m, s). (m, setEngine v s))"
| "mapper_apply (SetOrderBy v) = (\<lambda>(m, s). (m, setOrderBy v s))"

lemmas draft_defs = updateClickhouseDestinationDraft_def apply_destination_def no_updates_def upd_def

lemma set_rows_agrees: "agrees c \<Longrightarrow> agrees (set_rows f c)"
  by (cases c) (simp add: set_rows_def agrees_def draft_rows_def draft_defs Let_def)

lemma path_agrees: "agrees (m, s) \<Longrightarrow> agrees (handlePathChange True (other_path (destinationPath (clickhouseDestination s))) (m, s))"
  by (cases "destinationPath (clickhouseDestination s)")
    (simp_all add: agrees_def handlePathChange_def other_path_def setDestinationPath_def getPathSpecificReset_def apply_destination_def
      no_updates_def upd_def path_effect_def Let_def)

lemma action_agrees: "agrees c \<Longrightarrow> agrees (mapper_apply a c)"
proof (cases a)
  case (Edit now n f)
  assume "agrees c"
  then show ?thesis unfolding Edit
    by (cases c) (auto simp: agrees_def updateColumnMapping_def put_rows_def draft_rows_def draft_defs setClickhouseDestination_def Let_def)
next
  case SwitchPath
  assume "agrees c"
  then show ?thesis unfolding SwitchPath using path_agrees by (cases c) simp
next
  case (SchemaLoaded cs)
  assume "agrees c"
  then show ?thesis unfolding SchemaLoaded by (cases c) (auto simp: agrees_def schema_effect_def draft_defs Let_def)
next
  case (FieldsLoaded fs ty)
  assume "agrees c"
  then show ?thesis unfolding FieldsLoaded by (cases c) (auto simp: agrees_def generate_effect_def draft_defs Let_def)
next
  case (ChooseTable t)
  assume "agrees c"
  then show ?thesis unfolding ChooseTable by (cases c) (auto simp: agrees_def handleTableSelection_def draft_defs Let_def)
next
  case (ChooseDatabase t)
  assume "agrees c"
  then show ?thesis unfolding ChooseDatabase by (cases c) (auto simp: agrees_def handleDatabaseSelection_def draft_defs Let_def)
qed (simp_all add: set_rows_agrees handleAddMapping_def handleDeleteRow_def handleNullableChange_def,
  (cases c, simp add: agrees_def setTableName_def setEngine_def setOrderBy_def draft_defs Let_def)+)



section \<open>What is saved\<close>

definition saving :: "SaveContext \<Rightarrow> Mapper \<Rightarrow> bool \<Rightarrow> SaveState \<times> RootStore \<Rightarrow> (SaveState \<times> RootStore) option" where
  "saving x m yes = (\<lambda>(u, s).
     case saveDestinationConfig x m (u\<lparr>sv_visible := False\<rparr>, s) of
       None \<Rightarrow> None
     | Some (u1, s1) \<Rightarrow> if sv_visible u1 then onModalComplete x m yes (u1, s1) else Some (u1, s1))"

definition saved_store :: "SaveContext \<Rightarrow> Mapper \<Rightarrow> RootStore \<Rightarrow> json option \<Rightarrow> RootStore" where
  "saved_store x m s resources =
     (let d = clickhouseDestinationStore s;
          s1 = s\<lparr>clickhouseDestinationStore := cd_markAsValid (sc_now x)
                   (d\<lparr>clickhouseDestination := updated_destination m (clickhouseDestination d)\<rparr>),
                 coreStore := setApiConfig (generateApiConfig (save_input x m s) resources)
                   (if pipelineId (coreStore s) = [] then setPipelineId (sc_newId x) (coreStore s) else coreStore s)\<rparr>
      in if sc_standalone x then markAsDirty s1 else s1)"

lemma verdicts:
  assumes "validateMapping i e = Some r"
  shows "canProceed r \<longleftrightarrow> severity r \<noteq> ErrorResult"
  using assms by (auto simp: validateMapping_def blocking_def asking_def Let_def split: if_splits)

lemma can_save_typed: "can_save i \<Longrightarrow> list_all row_typed (mappedColumns i)"
  by (auto simp: can_save_spec split: if_splits)

lemma typed_complete:
  assumes "list_all row_typed (mp_mapped m)"
  shows "map_option snd (completeConfigSave x m (u, s)) = map_option (saved_store x m s) (save_resources s)"
proof -
  have "fst (snd (validateColumnMappings (mp_mapped m))) = []" "snd (snd (validateColumnMappings (mp_mapped m))) = []"
    using types_ok [of "mp_mapped m"] assms by simp_all
  then show ?thesis by (auto simp: completeConfigSave_def saved_store_def Let_def split: option.splits prod.splits)
qed

lemma typed_has_column_type: "row_typed c \<Longrightarrow> opt_text (eventField c) \<noteq> [] \<Longrightarrow> col_type c \<noteq> None"
proof
  assume "row_typed c" "opt_text (eventField c) \<noteq> []" "col_type c = None"
  then have "isTypeCompatible (opt_text (jsonType c)) []" by (simp add: row_typed_def row_compatible_def opt_text_def)
  then show False by (subst (asm) isTypeCompatible.simps) (simp split: if_splits)
qed

lemma saved_has_document:
  assumes "list_all row_typed (mp_mapped m)"
  shows "buildInternalPipelineConfig (save_input x m s) \<noteq> None"
proof -
  have "list_all (\<lambda>c. col_type c \<noteq> None) (mapped_rows (save_input x m s))"
    using assms typed_has_column_type
    by (auto simp: mapped_rows_def save_input_def list_all_iff opt_text_def text_of_def)
  then show ?thesis by (simp add: buildInternalPipelineConfig_def)
qed

text \<open>
  C38. The step saves exactly when the settings of a new table are given, the mapping can be saved, and the user
  agrees if there is a warning. It then stores the destination and the document, which can always be built;
  otherwise the stores stay as they are.
\<close>

theorem saving_spec:
  "let i = mapping_input x m s;
       allowed = (create_error m (clickhouseDestination (clickhouseDestinationStore s)) = None \<and> can_save i \<and>
         (if validateMapping i (validationIssues i) = None then True else yes))
   in if allowed
      then map_option snd (saving x m yes (u, s)) = map_option (saved_store x m s) (save_resources s) \<and>
        buildInternalPipelineConfig (save_input x m s) \<noteq> None
      else map_option snd (saving x m yes (u, s)) = Some s"
proof -
  define i where "i = mapping_input x m s"
  have rows: "mappedColumns i = mp_mapped m" by (simp add: i_def mapping_input_def Let_def)
  show ?thesis
  proof (cases "create_error m (clickhouseDestination (clickhouseDestinationStore s))")
    case (Some e)
    then show ?thesis by (simp add: saving_def saveDestinationConfig_def)
  next
    case None
    note ce = this
    show ?thesis
    proof (cases "validateMapping i (validationIssues i)")
      case None
      then have c: "can_save i" by (simp add: can_save_def)
      note t = can_save_typed [OF c, unfolded rows]
      have "\<not> sv_visible u1" if "completeConfigSave x m (u\<lparr>sv_visible := False, sv_pending := True\<rparr>, s) = Some (u1, s1)" for u1 s1
        using that by (auto simp: completeConfigSave_def Let_def split: prod.splits if_splits option.splits)
      then have "map_option snd (saving x m yes (u, s)) = map_option snd (completeConfigSave x m (u\<lparr>sv_visible := False, sv_pending := True\<rparr>, s))"
        using None ce by (auto simp: saving_def saveDestinationConfig_def Let_def simp flip: i_def split: option.splits)
      then show ?thesis
        using None c ce typed_complete [OF t] saved_has_document [OF t] by (simp add: Let_def flip: i_def)
    next
      case (Some r)
      note v = verdicts [OF Some]
      have c: "can_save i \<longleftrightarrow> severity r \<noteq> ErrorResult" using Some v by (simp add: can_save_def)
      have s: "saving x m yes (u, s) = onModalComplete x m yes (u\<lparr>sv_pending := True, sv_modal := Some r, sv_visible := True\<rparr>, s)"
        using Some ce by (simp add: saving_def saveDestinationConfig_def Let_def flip: i_def)
      show ?thesis
      proof (cases "can_save i \<and> yes")
        case True
        note t = can_save_typed [of i, unfolded rows]
        have "map_option snd (saving x m yes (u, s)) = map_option snd (completeConfigSave x m
            (u\<lparr>sv_pending := True, sv_modal := Some r, sv_visible := False\<rparr>, s))"
          unfolding s using True c by (simp add: onModalComplete_def Let_def option.map_comp comp_def case_prod_beta)
        then show ?thesis using True Some ce typed_complete [OF t] saved_has_document [OF t] by (simp add: Let_def flip: i_def)
      next
        case False
        then have "map_option snd (saving x m yes (u, s)) = Some s" unfolding s using c by (auto simp: onModalComplete_def Let_def)
        then show ?thesis using False Some ce by (auto simp: Let_def simp flip: i_def)
      qed
    qed
  qed
qed

end
