(* ===== verification/Spec2Isabelle.thy ===== *)
theory Spec2Isabelle
  imports Filter_Store Filter_Reading Filter_Validation Validation_Engine Expr_Roundtrip
    State_Manager SSE_Manager Transformation_Validation
    Transformation_Roundtrip Durations Event_Fields Mapping_Validation Kafka_Params Store_Reload Wizard_Navigation Import_Export Syntax_Tree
    Notifications Pipeline_Resources Topic_Selection Auto_Mapping Destination_Mapper
begin

text \<open>
  A model of the pipeline editor of GlassFlow's ClickHouse ETL, the TypeScript application under
  src/ui, and of what makes it correct. Paths below are relative to src/ui/src.

  \<^bold>\<open>The program.\<close> A user describes a pipeline in a wizard: a source (one or two Kafka topics, or an
  OTLP signal), deduplication, a filter, a transformation, a join, a ClickHouse connection and the
  mapping of fields to columns. Each part is a slice of one store. A slice carries a validation state;
  the validation engine marks slices valid and invalidates those that depend on them, and the wizard
  moves by these marks. The finished store is built into an internal configuration, which an adapter
  writes as the document of the backend's API. Opening a pipeline goes back: the adapter reads the document
  and the hydration functions fill the slices. Beside this runs the monitoring of pipelines:
  the action table, the polling manager, the stream client and the manager of the states that the
  pages show.

  \<^bold>\<open>The theories\<close>, in the order of their imports.
  \<^item> \<open>Js_Prelude\<close>, \<open>Js_Numbers\<close>: the part of JavaScript the code uses; strings, decimals and their
    texts, JSON values, the library functions on them, and the facts every other theory shares.
  \<^item> \<open>Validation_State\<close>: types/validation.ts, and the locale \<open>validated_slice\<close>, the contract of a slice
    towards the engine. Every slice interprets it.
  \<^item> \<open>Filter_Model\<close>, \<open>Filter_Tree\<close>, \<open>Filter_Store\<close>: store/filter.store.ts. The tree of rules with its helpers,
    its abstraction (ids, height, rules in order), the actions of the slice and the invariant of
    every tree the actions can build.
  \<^item> \<open>Filter_Expr\<close>, \<open>Filter_Reading\<close>, \<open>Filter_Validation\<close>: modules/filter/utils.ts. Writing expressions and
    showing them; a reading of the texts with precedence and associativity, against which the writing
    is proved right; the checks and the reading of typed values.
  \<^item> \<open>Expr_Parser\<close>, \<open>Expr_Semantics\<close>, \<open>Expr_Roundtrip\<close>: modules/filter/parser/exprParser.ts. From the syntax
    tree of an expression to rules and groups; the meaning of both, that loading keeps it whenever it reports
    nothing, where it does not; saving and loading a tree.
  \<^item> \<open>Slices\<close>, \<open>Clickhouse_Slices\<close>, \<open>Kafka_Slice\<close>, \<open>Transformation_Store\<close>: the other slices,
    store/*.store.ts, with scheme/kafka.scheme.ts and modules/otlp.
  \<^item> \<open>Root_Store\<close>, \<open>Validation_Engine\<close>: store/core.ts, store/index.ts and store/state-machine. The resets
    across slices, the dependency graph and the engine; the locale \<open>slice_marker\<close> is what the engine
    needs of a marking.
  \<^item> \<open>Transformation_Functions\<close>, \<open>Transformation_Expr\<close>, \<open>Transformation_Validation\<close>,
    \<open>Transformation_Loading\<close>, \<open>Transformation_Roundtrip\<close>: modules/transformation. The table of functions,
    the expressions that are sent, the checks before they are, their reading and what
    survives saving and loading.
  \<^item> \<open>Durations\<close>, \<open>Event_Fields\<close>, \<open>Column_Types\<close>, \<open>Mapping_Validation\<close>, \<open>Base64\<close>, \<open>Kafka_Params\<close>: time
    windows, the fields of sample events, the types of columns, the checks of a mapping, and the connection
    parameters (modules/clickhouse, store/hydration, utils/common.client.ts).
  \<^item> \<open>Pipeline_Config\<close>, \<open>Pipeline_Adapter\<close>, \<open>Pipeline_Reload\<close>: types/pipeline.ts and
    modules/pipeline-adapters/v3.ts. The internal configuration, the adapter in both directions, and the
    proof that reading a written document and writing it again gives the document.
  \<^item> \<open>Pipeline_Building\<close>, \<open>Store_Hydration\<close>, \<open>Store_Reload\<close>: buildInternalPipelineConfig and
    generateApiConfig (modules/clickhouse/utils.ts), store/hydration and the modes of store/core.ts, and
    what a store holds after its pipeline was saved and opened again.
  \<^item> \<open>Topic_Hydration\<close>, \<open>Transformation_Api\<close>, \<open>Pipeline_Import\<close>, \<open>Import_Export\<close>: the locale \<open>topic_hydration\<close>, what
    filling the topics leaves in the stores wherever they are read from; the older format of transformations;
    utils/pipeline-import.ts and utils/pipeline-download.ts with the upload handler of
    components/home/HomePageClient.tsx, and what a download has lost when it is imported.
  \<^item> \<open>Syntax_Tree\<close>: from the concrete syntax tree to the abstract one, in exprParser.ts and
    modules/filter/parser/arithmeticParser.ts, and what an arithmetic expression means when it is read.
  \<^item> \<open>Notifications\<close>: store/notifications.store.ts and the reading of services/notifications-api.ts. Requests are
    split before sending and after the answer, so that answers may arrive in any order.
  \<^item> \<open>Resource_Quantities\<close>, \<open>Pipeline_Resources\<close>: modules/resources. The checks of quantities against a
    grammar, the values of the form, its schema, and the immutable paths of a saved pipeline.
  \<^item> \<open>Topic_Selection\<close>: modules/kafka/hooks/useTopicOffsetReplicaState.ts and modules/kafka/utils. Choosing a topic
    and submitting it, and what that clears and invalidates in the other slices.
  \<^item> \<open>Auto_Mapping\<close>, \<open>Destination_Mapper\<close>: modules/clickhouse/hooks and the handlers of ClickhouseMapper.tsx. Matching
    fields to columns, the rows of the mapper beside those of the store, and the saving of the step.
  \<^item> \<open>Wizard_Journey\<close>, \<open>Wizard_Navigation\<close>: modules/create. The journeys and the sidebar; continuing,
    returning and clicking, with the locale \<open>journey_order\<close> for what navigation needs of a journey.
  \<^item> \<open>Pipeline_Ids\<close>: utils/pipeline-id.ts.
  \<^item> \<open>Pipeline_Status\<close>, \<open>Status_Manager\<close>, \<open>Status_Polling\<close>, \<open>State_Manager\<close>, \<open>SSE_Manager\<close>: types/pipeline.ts,
    utils/pipeline-actions.ts and the managers under services. Runs are sequences of steps, each the
    part of a handler between two awaits, in any order of timers, responses and calls.

  \<^bold>\<open>How the code is represented.\<close> A slice or an object is a record, a zustand action a function from state
  to state, a tagged union a datatype, and a property that may be missing an option. Values the code leaves
  untyped (\<open>any\<close>) are JSON values with a constructor for undefined. An exception is a result of a sum type.
  Ids from \<open>uuidv4()\<close>, the clock, random texts, the Docker flag and the feature flags are arguments.
  A deep copy is the identity. Callbacks are recorded in the order they are called. Third-party code (the
  Lezer parser, the YAML and JSON parsers, the answers of the backend, of Kafka and ClickHouse) is an
  argument of the functions that call it.

  \<^bold>\<open>Bounds.\<close> Strings are over Latin-1, on which the character classes the code uses are decidable; numbers
  are exact decimals, not doubles, so the properties on durations state the range (below 2^53 seconds,
  texts below 10^21) where both agree. Loops over finite structures are structural recursions; parsing
  of digits and of nested calls recurs on the rest of the text. The polling of a stopped pipeline
  is shown to end within the firings its backoff and its attempts allow, and reconnecting within the
  attempts of the configuration, so no fuel is used. The heartbeat interval and the polling loop
  otherwise run for ever and are steps of a relation.

  \<^bold>\<open>What the lemmas show.\<close> Invariants by induction over reachable states (filter tree, one polling loop, one
  event source, listeners, wizard); round trips from a store or tree through its text or document and back;
  meanings kept by writing, showing and loading expressions; for validations, that they accept exactly the
  data with the stated properties; and theorems on the places where the code loses or misreads
  data, each listed as a finding in the manifest.

  \<^bold>\<open>Not modelled.\<close> React components and the hooks that only subscribe, fetch or render; the API routes
  and the mock backend; the Kafka, ClickHouse and notification clients, which are input and output
  over libraries; authentication, analytics and logging; the adapters of the first two API versions;
  the Go backend under glassflow-api, which is another language.
\<close>

end
